(* ===== verification/DG_Prelude.thy ===== *)
theory DG_Prelude
  imports Main "HOL-Library.Word"
begin

text \<open>
  The shared base of the development. It holds
  \<^item> the error monad \<open>'e + 'a\<close> in which every panicking or asserting C function is written, and
    the state-and-error monad in which the instrumentation functions (which append statements to
    an output block and may fail an assertion) are written;
  \<^item> the inversion rules that let \<open>simp\<close> and \<open>auto\<close> take such code apart, collected in
    \<open>monad_inv\<close>;
  \<^item> the machine types of the C sources (UChar, UInt, ULong) as words, the little-endian view of a
    64-bit word as two 32-bit halves, and generic lemmas on lists.
\<close>

section \<open>Machine types\<close>

unbundle bit_operations_syntax

type_synonym UChar = "8 word"
type_synonym UInt = "32 word"
type_synonym ULong = "64 word"

named_theorems monad_inv
  \<open>inversion rules: a successful monadic computation splits into successful parts\<close>

named_theorems half_simps
  \<open>splitting a 64-bit word into 32-bit halves and joining it again\<close>

section \<open>The error monad\<close>

definition bindE :: "'e + 'a \<Rightarrow> ('a \<Rightarrow> 'e + 'b) \<Rightarrow> 'e + 'b" where
  "bindE m f = (case m of Inl e \<Rightarrow> Inl e | Inr x \<Rightarrow> f x)"

definition ensure :: "bool \<Rightarrow> 'e \<Rightarrow> 'e + unit" where
  "ensure b e = (if b then Inr () else Inl e)"

definition is_ok :: "'e + 'a \<Rightarrow> bool" where
  "is_ok m = (case m of Inl _ \<Rightarrow> False | Inr _ \<Rightarrow> True)"

fun mapE :: "('a \<Rightarrow> 'e + 'b) \<Rightarrow> 'a list \<Rightarrow> 'e + 'b list" where
  "mapE f [] = Inr []"
| "mapE f (x # xs) = bindE (f x) (\<lambda>y. bindE (mapE f xs) (\<lambda>ys. Inr (y # ys)))"

lemma bindE_simps [simp]:
  "bindE (Inl e) f = Inl e" "bindE (Inr x) f = f x"
  by (simp_all add: bindE_def)

lemma bindE_Inr [monad_inv]: "bindE m f = Inr y \<longleftrightarrow> (\<exists>x. m = Inr x \<and> f x = Inr y)"
  by (cases m) simp_all

lemma ensure_Inr [monad_inv]: "ensure b e = Inr u \<longleftrightarrow> b"
  by (simp add: ensure_def)

lemma ensure_simps [simp]: "ensure True e = Inr ()" "ensure False e = Inl e"
  by (simp_all add: ensure_def)

lemma is_ok_simps [simp]: "is_ok (Inr x)" "\<not> is_ok (Inl e)"
  by (simp_all add: is_ok_def)

lemma is_ok_iff: "is_ok m \<longleftrightarrow> (\<exists>x. m = Inr x)"
  by (cases m) simp_all

lemma is_ok_bindE [simp]: "is_ok (bindE m f) \<longleftrightarrow> (\<exists>x. m = Inr x \<and> is_ok (f x))"
  by (cases m) simp_all

lemma is_ok_ensure [simp]: "is_ok (ensure b e) = b"
  by (simp add: ensure_def)

lemma mapE_Inr: "mapE f xs = Inr ys \<longleftrightarrow> list_all2 (\<lambda>x y. f x = Inr y) xs ys"
  by (induction xs arbitrary: ys) (auto simp: bindE_Inr list_all2_Cons1)

section \<open>The state-and-error monad\<close>

type_synonym ('s, 'e, 'a) stE = "'s \<Rightarrow> 'e + 'a \<times> 's"

definition returnM :: "'a \<Rightarrow> ('s, 'e, 'a) stE" where
  "returnM x s = Inr (x, s)"

definition failM :: "'e \<Rightarrow> ('s, 'e, 'a) stE" where
  "failM e s = Inl e"

definition bindM :: "('s, 'e, 'a) stE \<Rightarrow> ('a \<Rightarrow> ('s, 'e, 'b) stE) \<Rightarrow> ('s, 'e, 'b) stE" where
  "bindM m f s = (case m s of Inl e \<Rightarrow> Inl e | Inr (x, s') \<Rightarrow> f x s')"

definition seqM :: "('s, 'e, 'a) stE \<Rightarrow> ('s, 'e, 'b) stE \<Rightarrow> ('s, 'e, 'b) stE" where
  "seqM m n = bindM m (\<lambda>_. n)"

definition getM :: "('s, 'e, 's) stE" where
  "getM s = Inr (s, s)"

definition modifyM :: "('s \<Rightarrow> 's) \<Rightarrow> ('s, 'e, unit) stE" where
  "modifyM f s = Inr ((), f s)"

definition liftM :: "'e + 'a \<Rightarrow> ('s, 'e, 'a) stE" where
  "liftM m s = (case m of Inl e \<Rightarrow> Inl e | Inr x \<Rightarrow> Inr (x, s))"

definition assertM :: "bool \<Rightarrow> 'e \<Rightarrow> ('s, 'e, unit) stE" where
  "assertM b e s = (if b then Inr ((), s) else Inl e)"

fun mapM :: "('a \<Rightarrow> ('s, 'e, 'b) stE) \<Rightarrow> 'a list \<Rightarrow> ('s, 'e, 'b list) stE" where
  "mapM f [] = returnM []"
| "mapM f (x # xs) = bindM (f x) (\<lambda>y. bindM (mapM f xs) (\<lambda>ys. returnM (y # ys)))"

fun iterM :: "('a \<Rightarrow> ('s, 'e, unit) stE) \<Rightarrow> 'a list \<Rightarrow> ('s, 'e, unit) stE" where
  "iterM f [] = returnM ()"
| "iterM f (x # xs) = seqM (f x) (iterM f xs)"

lemma returnM_Inr [monad_inv]: "returnM x s = Inr (y, t) \<longleftrightarrow> y = x \<and> t = s"
  by (auto simp: returnM_def)

lemma failM_Inr [monad_inv]: "failM e s = Inr r \<longleftrightarrow> False"
  by (simp add: failM_def)

lemma bindM_Inr [monad_inv]:
  "bindM m f s = Inr r \<longleftrightarrow> (\<exists>x s'. m s = Inr (x, s') \<and> f x s' = Inr r)"
  by (auto simp: bindM_def split: sum.splits)

lemma seqM_Inr [monad_inv]:
  "seqM m n s = Inr r \<longleftrightarrow> (\<exists>x s'. m s = Inr (x, s') \<and> n s' = Inr r)"
  by (simp add: seqM_def bindM_Inr)

lemma getM_Inr [monad_inv]: "getM s = Inr (y, t) \<longleftrightarrow> y = s \<and> t = s"
  by (auto simp: getM_def)

lemma modifyM_Inr [monad_inv]: "modifyM f s = Inr (y, t) \<longleftrightarrow> t = f s"
  by (auto simp: modifyM_def)

lemma liftM_Inr [monad_inv]: "liftM m s = Inr (y, t) \<longleftrightarrow> m = Inr y \<and> t = s"
  by (auto simp: liftM_def split: sum.splits)

lemma assertM_Inr [monad_inv]: "assertM b e s = Inr (u, t) \<longleftrightarrow> b \<and> t = s"
  by (auto simp: assertM_def)

lemma bindM_run [simp]:
  "m s = Inr (x, s') \<Longrightarrow> bindM m f s = f x s'"
  by (simp add: bindM_def)

lemma seqM_run [simp]:
  "m s = Inr (x, s') \<Longrightarrow> seqM m n s = n s'"
  by (simp add: seqM_def)

lemma bindM_assoc: "bindM (bindM m f) g = bindM m (\<lambda>x. bindM (f x) g)"
  by (rule ext) (simp add: bindM_def split: sum.split)

lemma bindM_return [simp]: "bindM (returnM x) f = f x"
  by (rule ext) (simp add: bindM_def returnM_def)

section \<open>Lists\<close>

lemma list_all_concat_map:
  "(\<And>x. x \<in> set xs \<Longrightarrow> list_all P (f x)) \<Longrightarrow> list_all P (concat (map f xs))"
  by (induction xs) auto

lemma nth_append_length_plus: "(xs @ ys) ! (length xs + i) = ys ! i"
  by (simp add: nth_append)

lemma lt_2_cases: "(i::nat) < 2 \<longleftrightarrow> i = 0 \<or> i = 1"
  by arith

lemma lt_4_cases: "(i::nat) < 4 \<longleftrightarrow> i = 0 \<or> i = 1 \<or> i = 2 \<or> i = 3"
  by arith

text \<open>Writing a run of elements into an array: \<open>put_words i ws b\<close> is \<open>b\<close> with \<open>ws\<close> from position \<open>i\<close> on.\<close>

definition put_words :: "nat \<Rightarrow> 'a list \<Rightarrow> 'a list \<Rightarrow> 'a list" where
  "put_words i ws b = take i b @ ws @ drop (i + length ws) b"

lemma put_words_1: "i < length b \<Longrightarrow> b[i := x] = put_words i [x] b"
  by (simp add: put_words_def upd_conv_take_nth_drop)

lemma put_words_4:
  assumes "i + 3 < length b"
  shows "b[i := x, i + 1 := y, i + 2 := z, i + 3 := w] = put_words i [x, y, z, w] b"
proof (rule nth_equalityI)
  show "length (b[i := x, i + 1 := y, i + 2 := z, i + 3 := w]) = length (put_words i [x, y, z, w] b)"
    using assms by (simp add: put_words_def)
  show "b[i := x, i + 1 := y, i + 2 := z, i + 3 := w] ! j = put_words i [x, y, z, w] b ! j"
    if "j < length (b[i := x, i + 1 := y, i + 2 := z, i + 3 := w])" for j
  proof -
    consider "j < i" | "j = i" | "j = i + 1" | "j = i + 2" | "j = i + 3" | "i + 4 \<le> j" by linarith
    moreover have "i + 4 \<le> j \<Longrightarrow> Suc (Suc (Suc (Suc (j - 4)))) = j" by simp
    ultimately show ?thesis
      using that assms by cases (auto simp: put_words_def nth_append min_def nth_list_update nth_Cons')
  qed
qed

lemma put_words_length: "i + length ws \<le> length b \<Longrightarrow> length (put_words i ws b) = length b"
  by (simp add: put_words_def)

lemma put_words_take: "i + length ws \<le> length b \<Longrightarrow> take (i + length ws) (put_words i ws b) = take i b @ ws"
  by (simp add: put_words_def)

lemma put_words_nth:
  "i + length ws \<le> length b \<Longrightarrow> j < length b \<Longrightarrow>
     put_words i ws b ! j = (if i \<le> j \<and> j < i + length ws then ws ! (j - i) else b ! j)"
  by (auto simp: put_words_def nth_append min_def)

section \<open>Halves of 64-bit words\<close>

text \<open>
  The C sources read the lower four bytes of a \<^verbatim>\<open>ULong\<close> through
  \<^verbatim>\<open>*(UInt*)&x\<close> and the upper four through \<^verbatim>\<open>*((UInt*)&x+1)\<close>; on the
  little-endian targets (x86, amd64) these are the low and the high half.
\<close>

definition lo32 :: "ULong \<Rightarrow> UInt" where
  "lo32 x = ucast x"

definition hi32 :: "ULong \<Rightarrow> UInt" where
  "hi32 x = ucast (drop_bit 32 x)"

definition join32 :: "UInt \<Rightarrow> UInt \<Rightarrow> ULong" where
  "join32 lo hi = (ucast hi * 2 ^ 32) OR ucast lo"

lemma bit_lo32: "bit (lo32 x) n \<longleftrightarrow> n < 32 \<and> bit x n"
  by (auto simp: lo32_def bit_simps)

lemma bit_hi32: "bit (hi32 x) n \<longleftrightarrow> n < 32 \<and> bit x (32 + n)"
  by (auto simp: hi32_def bit_simps)

lemma bit_join32:
  "bit (join32 lo hi) n \<longleftrightarrow> (if n < 32 then bit lo n else bit hi (n - 32))"
proof -
  have "join32 lo hi = push_bit 32 (ucast hi) OR ucast lo"
    by (simp add: join32_def push_bit_eq_mult)
  moreover have "bit hi (n - 32) \<Longrightarrow> n < 64" if "\<not> n < 32"
    using that bit_imp_le_length [of hi "n - 32"] by simp
  moreover have "bit lo n \<Longrightarrow> n < 32"
    using bit_imp_le_length [of lo n] by simp
  ultimately show ?thesis
    by (auto simp: bit_simps)
qed

lemma lo32_join32 [simp, half_simps]: "lo32 (join32 lo hi) = lo"
  by (rule bit_word_eqI) (auto simp: bit_lo32 bit_join32)

lemma hi32_join32 [simp, half_simps]: "hi32 (join32 lo hi) = hi"
  by (rule bit_word_eqI) (auto simp: bit_hi32 bit_join32)

lemma join32_lo32_hi32 [simp, half_simps]: "join32 (lo32 x) (hi32 x) = x"
  by (rule bit_word_eqI) (auto simp: bit_join32 bit_lo32 bit_hi32)

lemma join32_eq_iff [half_simps]: "join32 a b = x \<longleftrightarrow> a = lo32 x \<and> b = hi32 x"
  by auto

lemma join32_0 [simp]: "join32 0 0 = 0"
  by (simp add: join32_def)

lemma lo32_0 [simp]: "lo32 0 = 0" and hi32_0 [simp]: "hi32 0 = 0"
  by (simp_all add: lo32_def hi32_def)

end
