(* ===== verification/VEX_Primop.thy ===== *)
theory VEX_Primop
  imports DG_Prelude
begin

text \<open>
  The types of VEX intermediate representation and its primitive operations:
  \<^verbatim>\<open>IRType\<close> and \<^verbatim>\<open>IROp\<close> of \<^verbatim>\<open>VEX/pub/libvex_ir.h\<close>, and
  \<^verbatim>\<open>typeOfPrimop\<close>, \<^verbatim>\<open>sizeofIRType\<close> and their kin of
  \<^verbatim>\<open>VEX/priv/ir_defs.c\<close>.

  \<^verbatim>\<open>IROp\<close> is a C enumeration of 1130 members that starts at 0x1400. A datatype with
  that many constructors is out of reach, so an operation is its enumeration code, a natural
  number, and the source's identifiers are abbreviations of the codes, in the order of the
  header. The switch of \<^verbatim>\<open>typeOfPrimop\<close> is split into consecutive parts, each of
  which hands an operation it does not list to the next part; the last one ends in the panic.
\<close>

section \<open>IR types\<close>

datatype IRType =
    Ity_INVALID | Ity_I1 | Ity_I8 | Ity_I16 | Ity_I32 | Ity_I64 | Ity_I128
  | Ity_F16 | Ity_F32 | Ity_F64 | Ity_D32 | Ity_D64 | Ity_D128 | Ity_F128
  | Ity_V128 | Ity_V256

datatype vex_error =
    Vpanic string
  | Vassert string
  | SanityFail string
  | Undefined string

definition sizeofIRType :: "IRType \<Rightarrow> vex_error + nat" where
  "sizeofIRType ty = (case ty of
      Ity_I8 \<Rightarrow> Inr 1 | Ity_I16 \<Rightarrow> Inr 2 | Ity_I32 \<Rightarrow> Inr 4 | Ity_I64 \<Rightarrow> Inr 8
    | Ity_I128 \<Rightarrow> Inr 16 | Ity_F16 \<Rightarrow> Inr 2 | Ity_F32 \<Rightarrow> Inr 4 | Ity_F64 \<Rightarrow> Inr 8
    | Ity_F128 \<Rightarrow> Inr 16 | Ity_D32 \<Rightarrow> Inr 4 | Ity_D64 \<Rightarrow> Inr 8 | Ity_D128 \<Rightarrow> Inr 16
    | Ity_V128 \<Rightarrow> Inr 16 | Ity_V256 \<Rightarrow> Inr 32
    | _ \<Rightarrow> Inl (Vpanic ''sizeofIRType''))"

definition integerIRTypeOfSize :: "nat \<Rightarrow> vex_error + IRType" where
  "integerIRTypeOfSize szB =
     (if szB = 16 then Inr Ity_I128
      else if szB = 8 then Inr Ity_I64
      else if szB = 4 then Inr Ity_I32
      else if szB = 2 then Inr Ity_I16
      else if szB = 1 then Inr Ity_I8
      else Inl (Vpanic ''integerIRTypeOfSize''))"

definition isPlausibleIRType :: "IRType \<Rightarrow> bool" where
  "isPlausibleIRType ty = (case ty of
      Ity_INVALID \<Rightarrow> True | Ity_I1 \<Rightarrow> True
    | Ity_I8 \<Rightarrow> True | Ity_I16 \<Rightarrow> True | Ity_I32 \<Rightarrow> True | Ity_I64 \<Rightarrow> True | Ity_I128 \<Rightarrow> True
    | Ity_F16 \<Rightarrow> True | Ity_F32 \<Rightarrow> True | Ity_F64 \<Rightarrow> True | Ity_F128 \<Rightarrow> True
    | Ity_D32 \<Rightarrow> True | Ity_D64 \<Rightarrow> True | Ity_D128 \<Rightarrow> True
    | Ity_V128 \<Rightarrow> True | Ity_V256 \<Rightarrow> True)"

section \<open>Primitive operations\<close>

type_synonym IROp = nat

abbreviation (input) Iop_INVALID :: IROp where "Iop_INVALID \<equiv> 0x1400"
abbreviation (input) Iop_Add8 :: IROp where "Iop_Add8 \<equiv> 0x1401"
abbreviation (input) Iop_Add16 :: IROp where "Iop_Add16 \<equiv> 0x1402"
abbreviation (input) Iop_Add32 :: IROp where "Iop_Add32 \<equiv> 0x1403"
abbreviation (input) Iop_Add64 :: IROp where "Iop_Add64 \<equiv> 0x1404"
abbreviation (input) Iop_Sub8 :: IROp where "Iop_Sub8 \<equiv> 0x1405"
abbreviation (input) Iop_Sub16 :: IROp where "Iop_Sub16 \<equiv> 0x1406"
abbreviation (input) Iop_Sub32 :: IROp where "Iop_Sub32 \<equiv> 0x1407"
abbreviation (input) Iop_Sub64 :: IROp where "Iop_Sub64 \<equiv> 0x1408"
abbreviation (input) Iop_Mul8 :: IROp where "Iop_Mul8 \<equiv> 0x1409"
abbreviation (input) Iop_Mul16 :: IROp where "Iop_Mul16 \<equiv> 0x140a"
abbreviation (input) Iop_Mul32 :: IROp where "Iop_Mul32 \<equiv> 0x140b"
abbreviation (input) Iop_Mul64 :: IROp where "Iop_Mul64 \<equiv> 0x140c"
abbreviation (input) Iop_Or8 :: IROp where "Iop_Or8 \<equiv> 0x140d"
abbreviation (input) Iop_Or16 :: IROp where "Iop_Or16 \<equiv> 0x140e"
abbreviation (input) Iop_Or32 :: IROp where "Iop_Or32 \<equiv> 0x140f"
abbreviation (input) Iop_Or64 :: IROp where "Iop_Or64 \<equiv> 0x1410"
abbreviation (input) Iop_And8 :: IROp where "Iop_And8 \<equiv> 0x1411"
abbreviation (input) Iop_And16 :: IROp where "Iop_And16 \<equiv> 0x1412"
abbreviation (input) Iop_And32 :: IROp where "Iop_And32 \<equiv> 0x1413"
abbreviation (input) Iop_And64 :: IROp where "Iop_And64 \<equiv> 0x1414"
abbreviation (input) Iop_Xor8 :: IROp where "Iop_Xor8 \<equiv> 0x1415"
abbreviation (input) Iop_Xor16 :: IROp where "Iop_Xor16 \<equiv> 0x1416"
abbreviation (input) Iop_Xor32 :: IROp where "Iop_Xor32 \<equiv> 0x1417"
abbreviation (input) Iop_Xor64 :: IROp where "Iop_Xor64 \<equiv> 0x1418"
abbreviation (input) Iop_Shl8 :: IROp where "Iop_Shl8 \<equiv> 0x1419"
abbreviation (input) Iop_Shl16 :: IROp where "Iop_Shl16 \<equiv> 0x141a"
abbreviation (input) Iop_Shl32 :: IROp where "Iop_Shl32 \<equiv> 0x141b"
abbreviation (input) Iop_Shl64 :: IROp where "Iop_Shl64 \<equiv> 0x141c"
abbreviation (input) Iop_Shr8 :: IROp where "Iop_Shr8 \<equiv> 0x141d"
abbreviation (input) Iop_Shr16 :: IROp where "Iop_Shr16 \<equiv> 0x141e"
abbreviation (input) Iop_Shr32 :: IROp where "Iop_Shr32 \<equiv> 0x141f"
abbreviation (input) Iop_Shr64 :: IROp where "Iop_Shr64 \<equiv> 0x1420"
abbreviation (input) Iop_Sar8 :: IROp where "Iop_Sar8 \<equiv> 0x1421"
abbreviation (input) Iop_Sar16 :: IROp where "Iop_Sar16 \<equiv> 0x1422"
abbreviation (input) Iop_Sar32 :: IROp where "Iop_Sar32 \<equiv> 0x1423"
abbreviation (input) Iop_Sar64 :: IROp where "Iop_Sar64 \<equiv> 0x1424"
abbreviation (input) Iop_CmpEQ8 :: IROp where "Iop_CmpEQ8 \<equiv> 0x1425"
abbreviation (input) Iop_CmpEQ16 :: IROp where "Iop_CmpEQ16 \<equiv> 0x1426"
abbreviation (input) Iop_CmpEQ32 :: IROp where "Iop_CmpEQ32 \<equiv> 0x1427"
abbreviation (input) Iop_CmpEQ64 :: IROp where "Iop_CmpEQ64 \<equiv> 0x1428"
abbreviation (input) Iop_CmpNE8 :: IROp where "Iop_CmpNE8 \<equiv> 0x1429"
abbreviation (input) Iop_CmpNE16 :: IROp where "Iop_CmpNE16 \<equiv> 0x142a"
abbreviation (input) Iop_CmpNE32 :: IROp where "Iop_CmpNE32 \<equiv> 0x142b"
abbreviation (input) Iop_CmpNE64 :: IROp where "Iop_CmpNE64 \<equiv> 0x142c"
abbreviation (input) Iop_Not8 :: IROp where "Iop_Not8 \<equiv> 0x142d"
abbreviation (input) Iop_Not16 :: IROp where "Iop_Not16 \<equiv> 0x142e"
abbreviation (input) Iop_Not32 :: IROp where "Iop_Not32 \<equiv> 0x142f"
abbreviation (input) Iop_Not64 :: IROp where "Iop_Not64 \<equiv> 0x1430"
abbreviation (input) Iop_CasCmpEQ8 :: IROp where "Iop_CasCmpEQ8 \<equiv> 0x1431"
abbreviation (input) Iop_CasCmpEQ16 :: IROp where "Iop_CasCmpEQ16 \<equiv> 0x1432"
abbreviation (input) Iop_CasCmpEQ32 :: IROp where "Iop_CasCmpEQ32 \<equiv> 0x1433"
abbreviation (input) Iop_CasCmpEQ64 :: IROp where "Iop_CasCmpEQ64 \<equiv> 0x1434"
abbreviation (input) Iop_CasCmpNE8 :: IROp where "Iop_CasCmpNE8 \<equiv> 0x1435"
abbreviation (input) Iop_CasCmpNE16 :: IROp where "Iop_CasCmpNE16 \<equiv> 0x1436"
abbreviation (input) Iop_CasCmpNE32 :: IROp where "Iop_CasCmpNE32 \<equiv> 0x1437"
abbreviation (input) Iop_CasCmpNE64 :: IROp where "Iop_CasCmpNE64 \<equiv> 0x1438"
abbreviation (input) Iop_ExpCmpNE8 :: IROp where "Iop_ExpCmpNE8 \<equiv> 0x1439"
abbreviation (input) Iop_ExpCmpNE16 :: IROp where "Iop_ExpCmpNE16 \<equiv> 0x143a"
abbreviation (input) Iop_ExpCmpNE32 :: IROp where "Iop_ExpCmpNE32 \<equiv> 0x143b"
abbreviation (input) Iop_ExpCmpNE64 :: IROp where "Iop_ExpCmpNE64 \<equiv> 0x143c"
abbreviation (input) Iop_MullS8 :: IROp where "Iop_MullS8 \<equiv> 0x143d"
abbreviation (input) Iop_MullS16 :: IROp where "Iop_MullS16 \<equiv> 0x143e"
abbreviation (input) Iop_MullS32 :: IROp where "Iop_MullS32 \<equiv> 0x143f"
abbreviation (input) Iop_MullS64 :: IROp where "Iop_MullS64 \<equiv> 0x1440"
abbreviation (input) Iop_MullU8 :: IROp where "Iop_MullU8 \<equiv> 0x1441"
abbreviation (input) Iop_MullU16 :: IROp where "Iop_MullU16 \<equiv> 0x1442"
abbreviation (input) Iop_MullU32 :: IROp where "Iop_MullU32 \<equiv> 0x1443"
abbreviation (input) Iop_MullU64 :: IROp where "Iop_MullU64 \<equiv> 0x1444"
abbreviation (input) Iop_Clz64 :: IROp where "Iop_Clz64 \<equiv> 0x1445"
abbreviation (input) Iop_Clz32 :: IROp where "Iop_Clz32 \<equiv> 0x1446"
abbreviation (input) Iop_Ctz64 :: IROp where "Iop_Ctz64 \<equiv> 0x1447"
abbreviation (input) Iop_Ctz32 :: IROp where "Iop_Ctz32 \<equiv> 0x1448"
abbreviation (input) Iop_ClzNat64 :: IROp where "Iop_ClzNat64 \<equiv> 0x1449"
abbreviation (input) Iop_ClzNat32 :: IROp where "Iop_ClzNat32 \<equiv> 0x144a"
abbreviation (input) Iop_CtzNat64 :: IROp where "Iop_CtzNat64 \<equiv> 0x144b"
abbreviation (input) Iop_CtzNat32 :: IROp where "Iop_CtzNat32 \<equiv> 0x144c"
abbreviation (input) Iop_PopCount64 :: IROp where "Iop_PopCount64 \<equiv> 0x144d"
abbreviation (input) Iop_PopCount32 :: IROp where "Iop_PopCount32 \<equiv> 0x144e"
abbreviation (input) Iop_CmpLT32S :: IROp where "Iop_CmpLT32S \<equiv> 0x144f"
abbreviation (input) Iop_CmpLT64S :: IROp where "Iop_CmpLT64S \<equiv> 0x1450"
abbreviation (input) Iop_CmpLE32S :: IROp where "Iop_CmpLE32S \<equiv> 0x1451"
abbreviation (input) Iop_CmpLE64S :: IROp where "Iop_CmpLE64S \<equiv> 0x1452"
abbreviation (input) Iop_CmpLT32U :: IROp where "Iop_CmpLT32U \<equiv> 0x1453"
abbreviation (input) Iop_CmpLT64U :: IROp where "Iop_CmpLT64U \<equiv> 0x1454"
abbreviation (input) Iop_CmpLE32U :: IROp where "Iop_CmpLE32U \<equiv> 0x1455"
abbreviation (input) Iop_CmpLE64U :: IROp where "Iop_CmpLE64U \<equiv> 0x1456"
abbreviation (input) Iop_CmpNEZ8 :: IROp where "Iop_CmpNEZ8 \<equiv> 0x1457"
abbreviation (input) Iop_CmpNEZ16 :: IROp where "Iop_CmpNEZ16 \<equiv> 0x1458"
abbreviation (input) Iop_CmpNEZ32 :: IROp where "Iop_CmpNEZ32 \<equiv> 0x1459"
abbreviation (input) Iop_CmpNEZ64 :: IROp where "Iop_CmpNEZ64 \<equiv> 0x145a"
abbreviation (input) Iop_CmpwNEZ32 :: IROp where "Iop_CmpwNEZ32 \<equiv> 0x145b"
abbreviation (input) Iop_CmpwNEZ64 :: IROp where "Iop_CmpwNEZ64 \<equiv> 0x145c"
abbreviation (input) Iop_Left8 :: IROp where "Iop_Left8 \<equiv> 0x145d"
abbreviation (input) Iop_Left16 :: IROp where "Iop_Left16 \<equiv> 0x145e"
abbreviation (input) Iop_Left32 :: IROp where "Iop_Left32 \<equiv> 0x145f"
abbreviation (input) Iop_Left64 :: IROp where "Iop_Left64 \<equiv> 0x1460"
abbreviation (input) Iop_Max32U :: IROp where "Iop_Max32U \<equiv> 0x1461"
abbreviation (input) Iop_CmpORD32U :: IROp where "Iop_CmpORD32U \<equiv> 0x1462"
abbreviation (input) Iop_CmpORD64U :: IROp where "Iop_CmpORD64U \<equiv> 0x1463"
abbreviation (input) Iop_CmpORD32S :: IROp where "Iop_CmpORD32S \<equiv> 0x1464"
abbreviation (input) Iop_CmpORD64S :: IROp where "Iop_CmpORD64S \<equiv> 0x1465"
abbreviation (input) Iop_DivU32 :: IROp where "Iop_DivU32 \<equiv> 0x1466"
abbreviation (input) Iop_DivS32 :: IROp where "Iop_DivS32 \<equiv> 0x1467"
abbreviation (input) Iop_DivU64 :: IROp where "Iop_DivU64 \<equiv> 0x1468"
abbreviation (input) Iop_DivS64 :: IROp where "Iop_DivS64 \<equiv> 0x1469"
abbreviation (input) Iop_DivU128 :: IROp where "Iop_DivU128 \<equiv> 0x146a"
abbreviation (input) Iop_DivS128 :: IROp where "Iop_DivS128 \<equiv> 0x146b"
abbreviation (input) Iop_DivU32E :: IROp where "Iop_DivU32E \<equiv> 0x146c"
abbreviation (input) Iop_DivS32E :: IROp where "Iop_DivS32E \<equiv> 0x146d"
abbreviation (input) Iop_DivU64E :: IROp where "Iop_DivU64E \<equiv> 0x146e"
abbreviation (input) Iop_DivS64E :: IROp where "Iop_DivS64E \<equiv> 0x146f"
abbreviation (input) Iop_DivU128E :: IROp where "Iop_DivU128E \<equiv> 0x1470"
abbreviation (input) Iop_DivS128E :: IROp where "Iop_DivS128E \<equiv> 0x1471"
abbreviation (input) Iop_DivModU64to32 :: IROp where "Iop_DivModU64to32 \<equiv> 0x1472"
abbreviation (input) Iop_DivModS64to32 :: IROp where "Iop_DivModS64to32 \<equiv> 0x1473"
abbreviation (input) Iop_DivModU128to64 :: IROp where "Iop_DivModU128to64 \<equiv> 0x1474"
abbreviation (input) Iop_DivModS128to64 :: IROp where "Iop_DivModS128to64 \<equiv> 0x1475"
abbreviation (input) Iop_DivModS64to64 :: IROp where "Iop_DivModS64to64 \<equiv> 0x1476"
abbreviation (input) Iop_DivModU64to64 :: IROp where "Iop_DivModU64to64 \<equiv> 0x1477"
abbreviation (input) Iop_DivModS32to32 :: IROp where "Iop_DivModS32to32 \<equiv> 0x1478"
abbreviation (input) Iop_DivModU32to32 :: IROp where "Iop_DivModU32to32 \<equiv> 0x1479"
abbreviation (input) Iop_ModU128 :: IROp where "Iop_ModU128 \<equiv> 0x147a"
abbreviation (input) Iop_ModS128 :: IROp where "Iop_ModS128 \<equiv> 0x147b"
abbreviation (input) Iop_8Uto16 :: IROp where "Iop_8Uto16 \<equiv> 0x147c"
abbreviation (input) Iop_8Uto32 :: IROp where "Iop_8Uto32 \<equiv> 0x147d"
abbreviation (input) Iop_8Uto64 :: IROp where "Iop_8Uto64 \<equiv> 0x147e"
abbreviation (input) Iop_16Uto32 :: IROp where "Iop_16Uto32 \<equiv> 0x147f"
abbreviation (input) Iop_16Uto64 :: IROp where "Iop_16Uto64 \<equiv> 0x1480"
abbreviation (input) Iop_32Uto64 :: IROp where "Iop_32Uto64 \<equiv> 0x1481"
abbreviation (input) Iop_8Sto16 :: IROp where "Iop_8Sto16 \<equiv> 0x1482"
abbreviation (input) Iop_8Sto32 :: IROp where "Iop_8Sto32 \<equiv> 0x1483"
abbreviation (input) Iop_8Sto64 :: IROp where "Iop_8Sto64 \<equiv> 0x1484"
abbreviation (input) Iop_16Sto32 :: IROp where "Iop_16Sto32 \<equiv> 0x1485"
abbreviation (input) Iop_16Sto64 :: IROp where "Iop_16Sto64 \<equiv> 0x1486"
abbreviation (input) Iop_32Sto64 :: IROp where "Iop_32Sto64 \<equiv> 0x1487"
abbreviation (input) Iop_64to8 :: IROp where "Iop_64to8 \<equiv> 0x1488"
abbreviation (input) Iop_32to8 :: IROp where "Iop_32to8 \<equiv> 0x1489"
abbreviation (input) Iop_64to16 :: IROp where "Iop_64to16 \<equiv> 0x148a"
abbreviation (input) Iop_16to8 :: IROp where "Iop_16to8 \<equiv> 0x148b"
abbreviation (input) Iop_16HIto8 :: IROp where "Iop_16HIto8 \<equiv> 0x148c"
abbreviation (input) Iop_8HLto16 :: IROp where "Iop_8HLto16 \<equiv> 0x148d"
abbreviation (input) Iop_32to16 :: IROp where "Iop_32to16 \<equiv> 0x148e"
abbreviation (input) Iop_32HIto16 :: IROp where "Iop_32HIto16 \<equiv> 0x148f"
abbreviation (input) Iop_16HLto32 :: IROp where "Iop_16HLto32 \<equiv> 0x1490"
abbreviation (input) Iop_64to32 :: IROp where "Iop_64to32 \<equiv> 0x1491"
abbreviation (input) Iop_64HIto32 :: IROp where "Iop_64HIto32 \<equiv> 0x1492"
abbreviation (input) Iop_32HLto64 :: IROp where "Iop_32HLto64 \<equiv> 0x1493"
abbreviation (input) Iop_128to64 :: IROp where "Iop_128to64 \<equiv> 0x1494"
abbreviation (input) Iop_128HIto64 :: IROp where "Iop_128HIto64 \<equiv> 0x1495"
abbreviation (input) Iop_64HLto128 :: IROp where "Iop_64HLto128 \<equiv> 0x1496"
abbreviation (input) Iop_Not1 :: IROp where "Iop_Not1 \<equiv> 0x1497"
abbreviation (input) Iop_And1 :: IROp where "Iop_And1 \<equiv> 0x1498"
abbreviation (input) Iop_Or1 :: IROp where "Iop_Or1 \<equiv> 0x1499"
abbreviation (input) Iop_32to1 :: IROp where "Iop_32to1 \<equiv> 0x149a"
abbreviation (input) Iop_64to1 :: IROp where "Iop_64to1 \<equiv> 0x149b"
abbreviation (input) Iop_1Uto8 :: IROp where "Iop_1Uto8 \<equiv> 0x149c"
abbreviation (input) Iop_1Uto32 :: IROp where "Iop_1Uto32 \<equiv> 0x149d"
abbreviation (input) Iop_1Uto64 :: IROp where "Iop_1Uto64 \<equiv> 0x149e"
abbreviation (input) Iop_1Sto8 :: IROp where "Iop_1Sto8 \<equiv> 0x149f"
abbreviation (input) Iop_1Sto16 :: IROp where "Iop_1Sto16 \<equiv> 0x14a0"
abbreviation (input) Iop_1Sto32 :: IROp where "Iop_1Sto32 \<equiv> 0x14a1"
abbreviation (input) Iop_1Sto64 :: IROp where "Iop_1Sto64 \<equiv> 0x14a2"
abbreviation (input) Iop_AddF64 :: IROp where "Iop_AddF64 \<equiv> 0x14a3"
abbreviation (input) Iop_SubF64 :: IROp where "Iop_SubF64 \<equiv> 0x14a4"
abbreviation (input) Iop_MulF64 :: IROp where "Iop_MulF64 \<equiv> 0x14a5"
abbreviation (input) Iop_DivF64 :: IROp where "Iop_DivF64 \<equiv> 0x14a6"
abbreviation (input) Iop_AddF32 :: IROp where "Iop_AddF32 \<equiv> 0x14a7"
abbreviation (input) Iop_SubF32 :: IROp where "Iop_SubF32 \<equiv> 0x14a8"
abbreviation (input) Iop_MulF32 :: IROp where "Iop_MulF32 \<equiv> 0x14a9"
abbreviation (input) Iop_DivF32 :: IROp where "Iop_DivF32 \<equiv> 0x14aa"
abbreviation (input) Iop_AddF64r32 :: IROp where "Iop_AddF64r32 \<equiv> 0x14ab"
abbreviation (input) Iop_SubF64r32 :: IROp where "Iop_SubF64r32 \<equiv> 0x14ac"
abbreviation (input) Iop_MulF64r32 :: IROp where "Iop_MulF64r32 \<equiv> 0x14ad"
abbreviation (input) Iop_DivF64r32 :: IROp where "Iop_DivF64r32 \<equiv> 0x14ae"
abbreviation (input) Iop_NegF64 :: IROp where "Iop_NegF64 \<equiv> 0x14af"
abbreviation (input) Iop_AbsF64 :: IROp where "Iop_AbsF64 \<equiv> 0x14b0"
abbreviation (input) Iop_NegF32 :: IROp where "Iop_NegF32 \<equiv> 0x14b1"
abbreviation (input) Iop_AbsF32 :: IROp where "Iop_AbsF32 \<equiv> 0x14b2"
abbreviation (input) Iop_NegF16 :: IROp where "Iop_NegF16 \<equiv> 0x14b3"
abbreviation (input) Iop_AbsF16 :: IROp where "Iop_AbsF16 \<equiv> 0x14b4"
abbreviation (input) Iop_SqrtF64 :: IROp where "Iop_SqrtF64 \<equiv> 0x14b5"
abbreviation (input) Iop_SqrtF32 :: IROp where "Iop_SqrtF32 \<equiv> 0x14b6"
abbreviation (input) Iop_SqrtF16 :: IROp where "Iop_SqrtF16 \<equiv> 0x14b7"
abbreviation (input) Iop_SubF16 :: IROp where "Iop_SubF16 \<equiv> 0x14b8"
abbreviation (input) Iop_AddF16 :: IROp where "Iop_AddF16 \<equiv> 0x14b9"
abbreviation (input) Iop_CmpF64 :: IROp where "Iop_CmpF64 \<equiv> 0x14ba"
abbreviation (input) Iop_CmpF32 :: IROp where "Iop_CmpF32 \<equiv> 0x14bb"
abbreviation (input) Iop_CmpF16 :: IROp where "Iop_CmpF16 \<equiv> 0x14bc"
abbreviation (input) Iop_CmpF128 :: IROp where "Iop_CmpF128 \<equiv> 0x14bd"
abbreviation (input) Iop_F64toI16S :: IROp where "Iop_F64toI16S \<equiv> 0x14be"
abbreviation (input) Iop_F64toI32S :: IROp where "Iop_F64toI32S \<equiv> 0x14bf"
abbreviation (input) Iop_F64toI64S :: IROp where "Iop_F64toI64S \<equiv> 0x14c0"
abbreviation (input) Iop_F64toI64U :: IROp where "Iop_F64toI64U \<equiv> 0x14c1"
abbreviation (input) Iop_F64toI32U :: IROp where "Iop_F64toI32U \<equiv> 0x14c2"
abbreviation (input) Iop_I32StoF64 :: IROp where "Iop_I32StoF64 \<equiv> 0x14c3"
abbreviation (input) Iop_I64StoF64 :: IROp where "Iop_I64StoF64 \<equiv> 0x14c4"
abbreviation (input) Iop_I64UtoF64 :: IROp where "Iop_I64UtoF64 \<equiv> 0x14c5"
abbreviation (input) Iop_I64UtoF32 :: IROp where "Iop_I64UtoF32 \<equiv> 0x14c6"
abbreviation (input) Iop_I32UtoF32 :: IROp where "Iop_I32UtoF32 \<equiv> 0x14c7"
abbreviation (input) Iop_I32UtoF64 :: IROp where "Iop_I32UtoF64 \<equiv> 0x14c8"
abbreviation (input) Iop_F32toI32S :: IROp where "Iop_F32toI32S \<equiv> 0x14c9"
abbreviation (input) Iop_F32toI64S :: IROp where "Iop_F32toI64S \<equiv> 0x14ca"
abbreviation (input) Iop_F32toI32U :: IROp where "Iop_F32toI32U \<equiv> 0x14cb"
abbreviation (input) Iop_F32toI64U :: IROp where "Iop_F32toI64U \<equiv> 0x14cc"
abbreviation (input) Iop_I32StoF32 :: IROp where "Iop_I32StoF32 \<equiv> 0x14cd"
abbreviation (input) Iop_I64StoF32 :: IROp where "Iop_I64StoF32 \<equiv> 0x14ce"
abbreviation (input) Iop_F32toF64 :: IROp where "Iop_F32toF64 \<equiv> 0x14cf"
abbreviation (input) Iop_F64toF32 :: IROp where "Iop_F64toF32 \<equiv> 0x14d0"
abbreviation (input) Iop_ReinterpV128asI128 :: IROp where "Iop_ReinterpV128asI128 \<equiv> 0x14d1"
abbreviation (input) Iop_ReinterpI128asV128 :: IROp where "Iop_ReinterpI128asV128 \<equiv> 0x14d2"
abbreviation (input) Iop_ReinterpF128asI128 :: IROp where "Iop_ReinterpF128asI128 \<equiv> 0x14d3"
abbreviation (input) Iop_ReinterpI128asF128 :: IROp where "Iop_ReinterpI128asF128 \<equiv> 0x14d4"
abbreviation (input) Iop_ReinterpF64asI64 :: IROp where "Iop_ReinterpF64asI64 \<equiv> 0x14d5"
abbreviation (input) Iop_ReinterpI64asF64 :: IROp where "Iop_ReinterpI64asF64 \<equiv> 0x14d6"
abbreviation (input) Iop_ReinterpF32asI32 :: IROp where "Iop_ReinterpF32asI32 \<equiv> 0x14d7"
abbreviation (input) Iop_ReinterpI32asF32 :: IROp where "Iop_ReinterpI32asF32 \<equiv> 0x14d8"
abbreviation (input) Iop_F64HLtoF128 :: IROp where "Iop_F64HLtoF128 \<equiv> 0x14d9"
abbreviation (input) Iop_F128HItoF64 :: IROp where "Iop_F128HItoF64 \<equiv> 0x14da"
abbreviation (input) Iop_F128LOtoF64 :: IROp where "Iop_F128LOtoF64 \<equiv> 0x14db"
abbreviation (input) Iop_AddF128 :: IROp where "Iop_AddF128 \<equiv> 0x14dc"
abbreviation (input) Iop_SubF128 :: IROp where "Iop_SubF128 \<equiv> 0x14dd"
abbreviation (input) Iop_MulF128 :: IROp where "Iop_MulF128 \<equiv> 0x14de"
abbreviation (input) Iop_DivF128 :: IROp where "Iop_DivF128 \<equiv> 0x14df"
abbreviation (input) Iop_MAddF128 :: IROp where "Iop_MAddF128 \<equiv> 0x14e0"
abbreviation (input) Iop_MSubF128 :: IROp where "Iop_MSubF128 \<equiv> 0x14e1"
abbreviation (input) Iop_NegMAddF128 :: IROp where "Iop_NegMAddF128 \<equiv> 0x14e2"
abbreviation (input) Iop_NegMSubF128 :: IROp where "Iop_NegMSubF128 \<equiv> 0x14e3"
abbreviation (input) Iop_NegF128 :: IROp where "Iop_NegF128 \<equiv> 0x14e4"
abbreviation (input) Iop_AbsF128 :: IROp where "Iop_AbsF128 \<equiv> 0x14e5"
abbreviation (input) Iop_SqrtF128 :: IROp where "Iop_SqrtF128 \<equiv> 0x14e6"
abbreviation (input) Iop_I32StoF128 :: IROp where "Iop_I32StoF128 \<equiv> 0x14e7"
abbreviation (input) Iop_I64StoF128 :: IROp where "Iop_I64StoF128 \<equiv> 0x14e8"
abbreviation (input) Iop_I32UtoF128 :: IROp where "Iop_I32UtoF128 \<equiv> 0x14e9"
abbreviation (input) Iop_I64UtoF128 :: IROp where "Iop_I64UtoF128 \<equiv> 0x14ea"
abbreviation (input) Iop_F32toF128 :: IROp where "Iop_F32toF128 \<equiv> 0x14eb"
abbreviation (input) Iop_F64toF128 :: IROp where "Iop_F64toF128 \<equiv> 0x14ec"
abbreviation (input) Iop_I128UtoF128 :: IROp where "Iop_I128UtoF128 \<equiv> 0x14ed"
abbreviation (input) Iop_I128StoF128 :: IROp where "Iop_I128StoF128 \<equiv> 0x14ee"
abbreviation (input) Iop_F128toI32S :: IROp where "Iop_F128toI32S \<equiv> 0x14ef"
abbreviation (input) Iop_F128toI64S :: IROp where "Iop_F128toI64S \<equiv> 0x14f0"
abbreviation (input) Iop_F128toI32U :: IROp where "Iop_F128toI32U \<equiv> 0x14f1"
abbreviation (input) Iop_F128toI64U :: IROp where "Iop_F128toI64U \<equiv> 0x14f2"
abbreviation (input) Iop_F128toI128S :: IROp where "Iop_F128toI128S \<equiv> 0x14f3"
abbreviation (input) Iop_F128toF64 :: IROp where "Iop_F128toF64 \<equiv> 0x14f4"
abbreviation (input) Iop_F128toF32 :: IROp where "Iop_F128toF32 \<equiv> 0x14f5"
abbreviation (input) Iop_RndF128 :: IROp where "Iop_RndF128 \<equiv> 0x14f6"
abbreviation (input) Iop_TruncF128toI32S :: IROp where "Iop_TruncF128toI32S \<equiv> 0x14f7"
abbreviation (input) Iop_TruncF128toI32U :: IROp where "Iop_TruncF128toI32U \<equiv> 0x14f8"
abbreviation (input) Iop_TruncF128toI64U :: IROp where "Iop_TruncF128toI64U \<equiv> 0x14f9"
abbreviation (input) Iop_TruncF128toI64S :: IROp where "Iop_TruncF128toI64S \<equiv> 0x14fa"
abbreviation (input) Iop_TruncF128toI128U :: IROp where "Iop_TruncF128toI128U \<equiv> 0x14fb"
abbreviation (input) Iop_TruncF128toI128S :: IROp where "Iop_TruncF128toI128S \<equiv> 0x14fc"
abbreviation (input) Iop_AtanF64 :: IROp where "Iop_AtanF64 \<equiv> 0x14fd"
abbreviation (input) Iop_Yl2xF64 :: IROp where "Iop_Yl2xF64 \<equiv> 0x14fe"
abbreviation (input) Iop_Yl2xp1F64 :: IROp where "Iop_Yl2xp1F64 \<equiv> 0x14ff"
abbreviation (input) Iop_PRemF64 :: IROp where "Iop_PRemF64 \<equiv> 0x1500"
abbreviation (input) Iop_PRemC3210F64 :: IROp where "Iop_PRemC3210F64 \<equiv> 0x1501"
abbreviation (input) Iop_PRem1F64 :: IROp where "Iop_PRem1F64 \<equiv> 0x1502"
abbreviation (input) Iop_PRem1C3210F64 :: IROp where "Iop_PRem1C3210F64 \<equiv> 0x1503"
abbreviation (input) Iop_ScaleF64 :: IROp where "Iop_ScaleF64 \<equiv> 0x1504"
abbreviation (input) Iop_SinF64 :: IROp where "Iop_SinF64 \<equiv> 0x1505"
abbreviation (input) Iop_CosF64 :: IROp where "Iop_CosF64 \<equiv> 0x1506"
abbreviation (input) Iop_TanF64 :: IROp where "Iop_TanF64 \<equiv> 0x1507"
abbreviation (input) Iop_2xm1F64 :: IROp where "Iop_2xm1F64 \<equiv> 0x1508"
abbreviation (input) Iop_RoundF128toInt :: IROp where "Iop_RoundF128toInt \<equiv> 0x1509"
abbreviation (input) Iop_RoundF64toInt :: IROp where "Iop_RoundF64toInt \<equiv> 0x150a"
abbreviation (input) Iop_RoundF32toInt :: IROp where "Iop_RoundF32toInt \<equiv> 0x150b"
abbreviation (input) Iop_MAddF32 :: IROp where "Iop_MAddF32 \<equiv> 0x150c"
abbreviation (input) Iop_MSubF32 :: IROp where "Iop_MSubF32 \<equiv> 0x150d"
abbreviation (input) Iop_MAddF64 :: IROp where "Iop_MAddF64 \<equiv> 0x150e"
abbreviation (input) Iop_MSubF64 :: IROp where "Iop_MSubF64 \<equiv> 0x150f"
abbreviation (input) Iop_MAddF64r32 :: IROp where "Iop_MAddF64r32 \<equiv> 0x1510"
abbreviation (input) Iop_MSubF64r32 :: IROp where "Iop_MSubF64r32 \<equiv> 0x1511"
abbreviation (input) Iop_RSqrtEst5GoodF64 :: IROp where "Iop_RSqrtEst5GoodF64 \<equiv> 0x1512"
abbreviation (input) Iop_RoundF64toF64_NEAREST :: IROp where "Iop_RoundF64toF64_NEAREST \<equiv> 0x1513"
abbreviation (input) Iop_RoundF64toF64_NegINF :: IROp where "Iop_RoundF64toF64_NegINF \<equiv> 0x1514"
abbreviation (input) Iop_RoundF64toF64_PosINF :: IROp where "Iop_RoundF64toF64_PosINF \<equiv> 0x1515"
abbreviation (input) Iop_RoundF64toF64_ZERO :: IROp where "Iop_RoundF64toF64_ZERO \<equiv> 0x1516"
abbreviation (input) Iop_TruncF64asF32 :: IROp where "Iop_TruncF64asF32 \<equiv> 0x1517"
abbreviation (input) Iop_RoundF64toF32 :: IROp where "Iop_RoundF64toF32 \<equiv> 0x1518"
abbreviation (input) Iop_RecpExpF64 :: IROp where "Iop_RecpExpF64 \<equiv> 0x1519"
abbreviation (input) Iop_RecpExpF32 :: IROp where "Iop_RecpExpF32 \<equiv> 0x151a"
abbreviation (input) Iop_MaxNumF64 :: IROp where "Iop_MaxNumF64 \<equiv> 0x151b"
abbreviation (input) Iop_MinNumF64 :: IROp where "Iop_MinNumF64 \<equiv> 0x151c"
abbreviation (input) Iop_MaxNumF32 :: IROp where "Iop_MaxNumF32 \<equiv> 0x151d"
abbreviation (input) Iop_MinNumF32 :: IROp where "Iop_MinNumF32 \<equiv> 0x151e"
abbreviation (input) Iop_F16toF64 :: IROp where "Iop_F16toF64 \<equiv> 0x151f"
abbreviation (input) Iop_F64toF16 :: IROp where "Iop_F64toF16 \<equiv> 0x1520"
abbreviation (input) Iop_F16toF32 :: IROp where "Iop_F16toF32 \<equiv> 0x1521"
abbreviation (input) Iop_F32toF16 :: IROp where "Iop_F32toF16 \<equiv> 0x1522"
abbreviation (input) Iop_QAdd32S :: IROp where "Iop_QAdd32S \<equiv> 0x1523"
abbreviation (input) Iop_QSub32S :: IROp where "Iop_QSub32S \<equiv> 0x1524"
abbreviation (input) Iop_Add16x2 :: IROp where "Iop_Add16x2 \<equiv> 0x1525"
abbreviation (input) Iop_Sub16x2 :: IROp where "Iop_Sub16x2 \<equiv> 0x1526"
abbreviation (input) Iop_QAdd16Sx2 :: IROp where "Iop_QAdd16Sx2 \<equiv> 0x1527"
abbreviation (input) Iop_QAdd16Ux2 :: IROp where "Iop_QAdd16Ux2 \<equiv> 0x1528"
abbreviation (input) Iop_QSub16Sx2 :: IROp where "Iop_QSub16Sx2 \<equiv> 0x1529"
abbreviation (input) Iop_QSub16Ux2 :: IROp where "Iop_QSub16Ux2 \<equiv> 0x152a"
abbreviation (input) Iop_HAdd16Ux2 :: IROp where "Iop_HAdd16Ux2 \<equiv> 0x152b"
abbreviation (input) Iop_HAdd16Sx2 :: IROp where "Iop_HAdd16Sx2 \<equiv> 0x152c"
abbreviation (input) Iop_HSub16Ux2 :: IROp where "Iop_HSub16Ux2 \<equiv> 0x152d"
abbreviation (input) Iop_HSub16Sx2 :: IROp where "Iop_HSub16Sx2 \<equiv> 0x152e"
abbreviation (input) Iop_Add8x4 :: IROp where "Iop_Add8x4 \<equiv> 0x152f"
abbreviation (input) Iop_Sub8x4 :: IROp where "Iop_Sub8x4 \<equiv> 0x1530"
abbreviation (input) Iop_QAdd8Sx4 :: IROp where "Iop_QAdd8Sx4 \<equiv> 0x1531"
abbreviation (input) Iop_QAdd8Ux4 :: IROp where "Iop_QAdd8Ux4 \<equiv> 0x1532"
abbreviation (input) Iop_QSub8Sx4 :: IROp where "Iop_QSub8Sx4 \<equiv> 0x1533"
abbreviation (input) Iop_QSub8Ux4 :: IROp where "Iop_QSub8Ux4 \<equiv> 0x1534"
abbreviation (input) Iop_HAdd8Ux4 :: IROp where "Iop_HAdd8Ux4 \<equiv> 0x1535"
abbreviation (input) Iop_HAdd8Sx4 :: IROp where "Iop_HAdd8Sx4 \<equiv> 0x1536"
abbreviation (input) Iop_HSub8Ux4 :: IROp where "Iop_HSub8Ux4 \<equiv> 0x1537"
abbreviation (input) Iop_HSub8Sx4 :: IROp where "Iop_HSub8Sx4 \<equiv> 0x1538"
abbreviation (input) Iop_Sad8Ux4 :: IROp where "Iop_Sad8Ux4 \<equiv> 0x1539"
abbreviation (input) Iop_CmpNEZ16x2 :: IROp where "Iop_CmpNEZ16x2 \<equiv> 0x153a"
abbreviation (input) Iop_CmpNEZ8x4 :: IROp where "Iop_CmpNEZ8x4 \<equiv> 0x153b"
abbreviation (input) Iop_Reverse8sIn32_x1 :: IROp where "Iop_Reverse8sIn32_x1 \<equiv> 0x153c"
abbreviation (input) Iop_I32UtoF32x2_DEP :: IROp where "Iop_I32UtoF32x2_DEP \<equiv> 0x153d"
abbreviation (input) Iop_I32StoF32x2_DEP :: IROp where "Iop_I32StoF32x2_DEP \<equiv> 0x153e"
abbreviation (input) Iop_F32toI32Ux2_RZ :: IROp where "Iop_F32toI32Ux2_RZ \<equiv> 0x153f"
abbreviation (input) Iop_F32toI32Sx2_RZ :: IROp where "Iop_F32toI32Sx2_RZ \<equiv> 0x1540"
abbreviation (input) Iop_F32ToFixed32Ux2_RZ :: IROp where "Iop_F32ToFixed32Ux2_RZ \<equiv> 0x1541"
abbreviation (input) Iop_F32ToFixed32Sx2_RZ :: IROp where "Iop_F32ToFixed32Sx2_RZ \<equiv> 0x1542"
abbreviation (input) Iop_Fixed32UToF32x2_RN :: IROp where "Iop_Fixed32UToF32x2_RN \<equiv> 0x1543"
abbreviation (input) Iop_Fixed32SToF32x2_RN :: IROp where "Iop_Fixed32SToF32x2_RN \<equiv> 0x1544"
abbreviation (input) Iop_Max32Fx2 :: IROp where "Iop_Max32Fx2 \<equiv> 0x1545"
abbreviation (input) Iop_Min32Fx2 :: IROp where "Iop_Min32Fx2 \<equiv> 0x1546"
abbreviation (input) Iop_PwMax32Fx2 :: IROp where "Iop_PwMax32Fx2 \<equiv> 0x1547"
abbreviation (input) Iop_PwMin32Fx2 :: IROp where "Iop_PwMin32Fx2 \<equiv> 0x1548"
abbreviation (input) Iop_CmpEQ32Fx2 :: IROp where "Iop_CmpEQ32Fx2 \<equiv> 0x1549"
abbreviation (input) Iop_CmpGT32Fx2 :: IROp where "Iop_CmpGT32Fx2 \<equiv> 0x154a"
abbreviation (input) Iop_CmpGE32Fx2 :: IROp where "Iop_CmpGE32Fx2 \<equiv> 0x154b"
abbreviation (input) Iop_RecipEst32Fx2 :: IROp where "Iop_RecipEst32Fx2 \<equiv> 0x154c"
abbreviation (input) Iop_RecipStep32Fx2 :: IROp where "Iop_RecipStep32Fx2 \<equiv> 0x154d"
abbreviation (input) Iop_RSqrtEst32Fx2 :: IROp where "Iop_RSqrtEst32Fx2 \<equiv> 0x154e"
abbreviation (input) Iop_RSqrtStep32Fx2 :: IROp where "Iop_RSqrtStep32Fx2 \<equiv> 0x154f"
abbreviation (input) Iop_Neg32Fx2 :: IROp where "Iop_Neg32Fx2 \<equiv> 0x1550"
abbreviation (input) Iop_Abs32Fx2 :: IROp where "Iop_Abs32Fx2 \<equiv> 0x1551"
abbreviation (input) Iop_CmpNEZ8x8 :: IROp where "Iop_CmpNEZ8x8 \<equiv> 0x1552"
abbreviation (input) Iop_CmpNEZ16x4 :: IROp where "Iop_CmpNEZ16x4 \<equiv> 0x1553"
abbreviation (input) Iop_CmpNEZ32x2 :: IROp where "Iop_CmpNEZ32x2 \<equiv> 0x1554"
abbreviation (input) Iop_Add8x8 :: IROp where "Iop_Add8x8 \<equiv> 0x1555"
abbreviation (input) Iop_Add16x4 :: IROp where "Iop_Add16x4 \<equiv> 0x1556"
abbreviation (input) Iop_Add32x2 :: IROp where "Iop_Add32x2 \<equiv> 0x1557"
abbreviation (input) Iop_QAdd8Ux8 :: IROp where "Iop_QAdd8Ux8 \<equiv> 0x1558"
abbreviation (input) Iop_QAdd16Ux4 :: IROp where "Iop_QAdd16Ux4 \<equiv> 0x1559"
abbreviation (input) Iop_QAdd32Ux2 :: IROp where "Iop_QAdd32Ux2 \<equiv> 0x155a"
abbreviation (input) Iop_QAdd64Ux1 :: IROp where "Iop_QAdd64Ux1 \<equiv> 0x155b"
abbreviation (input) Iop_QAdd8Sx8 :: IROp where "Iop_QAdd8Sx8 \<equiv> 0x155c"
abbreviation (input) Iop_QAdd16Sx4 :: IROp where "Iop_QAdd16Sx4 \<equiv> 0x155d"
abbreviation (input) Iop_QAdd32Sx2 :: IROp where "Iop_QAdd32Sx2 \<equiv> 0x155e"
abbreviation (input) Iop_QAdd64Sx1 :: IROp where "Iop_QAdd64Sx1 \<equiv> 0x155f"
abbreviation (input) Iop_PwAdd8x8 :: IROp where "Iop_PwAdd8x8 \<equiv> 0x1560"
abbreviation (input) Iop_PwAdd16x4 :: IROp where "Iop_PwAdd16x4 \<equiv> 0x1561"
abbreviation (input) Iop_PwAdd32x2 :: IROp where "Iop_PwAdd32x2 \<equiv> 0x1562"
abbreviation (input) Iop_PwMax8Sx8 :: IROp where "Iop_PwMax8Sx8 \<equiv> 0x1563"
abbreviation (input) Iop_PwMax16Sx4 :: IROp where "Iop_PwMax16Sx4 \<equiv> 0x1564"
abbreviation (input) Iop_PwMax32Sx2 :: IROp where "Iop_PwMax32Sx2 \<equiv> 0x1565"
abbreviation (input) Iop_PwMax8Ux8 :: IROp where "Iop_PwMax8Ux8 \<equiv> 0x1566"
abbreviation (input) Iop_PwMax16Ux4 :: IROp where "Iop_PwMax16Ux4 \<equiv> 0x1567"
abbreviation (input) Iop_PwMax32Ux2 :: IROp where "Iop_PwMax32Ux2 \<equiv> 0x1568"
abbreviation (input) Iop_PwMin8Sx8 :: IROp where "Iop_PwMin8Sx8 \<equiv> 0x1569"
abbreviation (input) Iop_PwMin16Sx4 :: IROp where "Iop_PwMin16Sx4 \<equiv> 0x156a"
abbreviation (input) Iop_PwMin32Sx2 :: IROp where "Iop_PwMin32Sx2 \<equiv> 0x156b"
abbreviation (input) Iop_PwMin8Ux8 :: IROp where "Iop_PwMin8Ux8 \<equiv> 0x156c"
abbreviation (input) Iop_PwMin16Ux4 :: IROp where "Iop_PwMin16Ux4 \<equiv> 0x156d"
abbreviation (input) Iop_PwMin32Ux2 :: IROp where "Iop_PwMin32Ux2 \<equiv> 0x156e"
abbreviation (input) Iop_PwAddL8Ux8 :: IROp where "Iop_PwAddL8Ux8 \<equiv> 0x156f"
abbreviation (input) Iop_PwAddL16Ux4 :: IROp where "Iop_PwAddL16Ux4 \<equiv> 0x1570"
abbreviation (input) Iop_PwAddL32Ux2 :: IROp where "Iop_PwAddL32Ux2 \<equiv> 0x1571"
abbreviation (input) Iop_PwAddL8Sx8 :: IROp where "Iop_PwAddL8Sx8 \<equiv> 0x1572"
abbreviation (input) Iop_PwAddL16Sx4 :: IROp where "Iop_PwAddL16Sx4 \<equiv> 0x1573"
abbreviation (input) Iop_PwAddL32Sx2 :: IROp where "Iop_PwAddL32Sx2 \<equiv> 0x1574"
abbreviation (input) Iop_Sub8x8 :: IROp where "Iop_Sub8x8 \<equiv> 0x1575"
abbreviation (input) Iop_Sub16x4 :: IROp where "Iop_Sub16x4 \<equiv> 0x1576"
abbreviation (input) Iop_Sub32x2 :: IROp where "Iop_Sub32x2 \<equiv> 0x1577"
abbreviation (input) Iop_QSub8Ux8 :: IROp where "Iop_QSub8Ux8 \<equiv> 0x1578"
abbreviation (input) Iop_QSub16Ux4 :: IROp where "Iop_QSub16Ux4 \<equiv> 0x1579"
abbreviation (input) Iop_QSub32Ux2 :: IROp where "Iop_QSub32Ux2 \<equiv> 0x157a"
abbreviation (input) Iop_QSub64Ux1 :: IROp where "Iop_QSub64Ux1 \<equiv> 0x157b"
abbreviation (input) Iop_QSub8Sx8 :: IROp where "Iop_QSub8Sx8 \<equiv> 0x157c"
abbreviation (input) Iop_QSub16Sx4 :: IROp where "Iop_QSub16Sx4 \<equiv> 0x157d"
abbreviation (input) Iop_QSub32Sx2 :: IROp where "Iop_QSub32Sx2 \<equiv> 0x157e"
abbreviation (input) Iop_QSub64Sx1 :: IROp where "Iop_QSub64Sx1 \<equiv> 0x157f"
abbreviation (input) Iop_Abs8x8 :: IROp where "Iop_Abs8x8 \<equiv> 0x1580"
abbreviation (input) Iop_Abs16x4 :: IROp where "Iop_Abs16x4 \<equiv> 0x1581"
abbreviation (input) Iop_Abs32x2 :: IROp where "Iop_Abs32x2 \<equiv> 0x1582"
abbreviation (input) Iop_Mul8x8 :: IROp where "Iop_Mul8x8 \<equiv> 0x1583"
abbreviation (input) Iop_Mul16x4 :: IROp where "Iop_Mul16x4 \<equiv> 0x1584"
abbreviation (input) Iop_Mul32x2 :: IROp where "Iop_Mul32x2 \<equiv> 0x1585"
abbreviation (input) Iop_Mul32Fx2 :: IROp where "Iop_Mul32Fx2 \<equiv> 0x1586"
abbreviation (input) Iop_MulHi16Ux4 :: IROp where "Iop_MulHi16Ux4 \<equiv> 0x1587"
abbreviation (input) Iop_MulHi16Sx4 :: IROp where "Iop_MulHi16Sx4 \<equiv> 0x1588"
abbreviation (input) Iop_PolynomialMul8x8 :: IROp where "Iop_PolynomialMul8x8 \<equiv> 0x1589"
abbreviation (input) Iop_QDMulHi16Sx4 :: IROp where "Iop_QDMulHi16Sx4 \<equiv> 0x158a"
abbreviation (input) Iop_QDMulHi32Sx2 :: IROp where "Iop_QDMulHi32Sx2 \<equiv> 0x158b"
abbreviation (input) Iop_QRDMulHi16Sx4 :: IROp where "Iop_QRDMulHi16Sx4 \<equiv> 0x158c"
abbreviation (input) Iop_QRDMulHi32Sx2 :: IROp where "Iop_QRDMulHi32Sx2 \<equiv> 0x158d"
abbreviation (input) Iop_Avg8Ux8 :: IROp where "Iop_Avg8Ux8 \<equiv> 0x158e"
abbreviation (input) Iop_Avg16Ux4 :: IROp where "Iop_Avg16Ux4 \<equiv> 0x158f"
abbreviation (input) Iop_Max8Sx8 :: IROp where "Iop_Max8Sx8 \<equiv> 0x1590"
abbreviation (input) Iop_Max16Sx4 :: IROp where "Iop_Max16Sx4 \<equiv> 0x1591"
abbreviation (input) Iop_Max32Sx2 :: IROp where "Iop_Max32Sx2 \<equiv> 0x1592"
abbreviation (input) Iop_Max8Ux8 :: IROp where "Iop_Max8Ux8 \<equiv> 0x1593"
abbreviation (input) Iop_Max16Ux4 :: IROp where "Iop_Max16Ux4 \<equiv> 0x1594"
abbreviation (input) Iop_Max32Ux2 :: IROp where "Iop_Max32Ux2 \<equiv> 0x1595"
abbreviation (input) Iop_Min8Sx8 :: IROp where "Iop_Min8Sx8 \<equiv> 0x1596"
abbreviation (input) Iop_Min16Sx4 :: IROp where "Iop_Min16Sx4 \<equiv> 0x1597"
abbreviation (input) Iop_Min32Sx2 :: IROp where "Iop_Min32Sx2 \<equiv> 0x1598"
abbreviation (input) Iop_Min8Ux8 :: IROp where "Iop_Min8Ux8 \<equiv> 0x1599"
abbreviation (input) Iop_Min16Ux4 :: IROp where "Iop_Min16Ux4 \<equiv> 0x159a"
abbreviation (input) Iop_Min32Ux2 :: IROp where "Iop_Min32Ux2 \<equiv> 0x159b"
abbreviation (input) Iop_CmpEQ8x8 :: IROp where "Iop_CmpEQ8x8 \<equiv> 0x159c"
abbreviation (input) Iop_CmpEQ16x4 :: IROp where "Iop_CmpEQ16x4 \<equiv> 0x159d"
abbreviation (input) Iop_CmpEQ32x2 :: IROp where "Iop_CmpEQ32x2 \<equiv> 0x159e"
abbreviation (input) Iop_CmpGT8Ux8 :: IROp where "Iop_CmpGT8Ux8 \<equiv> 0x159f"
abbreviation (input) Iop_CmpGT16Ux4 :: IROp where "Iop_CmpGT16Ux4 \<equiv> 0x15a0"
abbreviation (input) Iop_CmpGT32Ux2 :: IROp where "Iop_CmpGT32Ux2 \<equiv> 0x15a1"
abbreviation (input) Iop_CmpGT8Sx8 :: IROp where "Iop_CmpGT8Sx8 \<equiv> 0x15a2"
abbreviation (input) Iop_CmpGT16Sx4 :: IROp where "Iop_CmpGT16Sx4 \<equiv> 0x15a3"
abbreviation (input) Iop_CmpGT32Sx2 :: IROp where "Iop_CmpGT32Sx2 \<equiv> 0x15a4"
abbreviation (input) Iop_Cnt8x8 :: IROp where "Iop_Cnt8x8 \<equiv> 0x15a5"
abbreviation (input) Iop_Clz8x8 :: IROp where "Iop_Clz8x8 \<equiv> 0x15a6"
abbreviation (input) Iop_Clz16x4 :: IROp where "Iop_Clz16x4 \<equiv> 0x15a7"
abbreviation (input) Iop_Clz32x2 :: IROp where "Iop_Clz32x2 \<equiv> 0x15a8"
abbreviation (input) Iop_Cls8x8 :: IROp where "Iop_Cls8x8 \<equiv> 0x15a9"
abbreviation (input) Iop_Cls16x4 :: IROp where "Iop_Cls16x4 \<equiv> 0x15aa"
abbreviation (input) Iop_Cls32x2 :: IROp where "Iop_Cls32x2 \<equiv> 0x15ab"
abbreviation (input) Iop_Clz64x2 :: IROp where "Iop_Clz64x2 \<equiv> 0x15ac"
abbreviation (input) Iop_Ctz8x16 :: IROp where "Iop_Ctz8x16 \<equiv> 0x15ad"
abbreviation (input) Iop_Ctz16x8 :: IROp where "Iop_Ctz16x8 \<equiv> 0x15ae"
abbreviation (input) Iop_Ctz32x4 :: IROp where "Iop_Ctz32x4 \<equiv> 0x15af"
abbreviation (input) Iop_Ctz64x2 :: IROp where "Iop_Ctz64x2 \<equiv> 0x15b0"
abbreviation (input) Iop_Shl8x8 :: IROp where "Iop_Shl8x8 \<equiv> 0x15b1"
abbreviation (input) Iop_Shl16x4 :: IROp where "Iop_Shl16x4 \<equiv> 0x15b2"
abbreviation (input) Iop_Shl32x2 :: IROp where "Iop_Shl32x2 \<equiv> 0x15b3"
abbreviation (input) Iop_Shr8x8 :: IROp where "Iop_Shr8x8 \<equiv> 0x15b4"
abbreviation (input) Iop_Shr16x4 :: IROp where "Iop_Shr16x4 \<equiv> 0x15b5"
abbreviation (input) Iop_Shr32x2 :: IROp where "Iop_Shr32x2 \<equiv> 0x15b6"
abbreviation (input) Iop_Sar8x8 :: IROp where "Iop_Sar8x8 \<equiv> 0x15b7"
abbreviation (input) Iop_Sar16x4 :: IROp where "Iop_Sar16x4 \<equiv> 0x15b8"
abbreviation (input) Iop_Sar32x2 :: IROp where "Iop_Sar32x2 \<equiv> 0x15b9"
abbreviation (input) Iop_Sal8x8 :: IROp where "Iop_Sal8x8 \<equiv> 0x15ba"
abbreviation (input) Iop_Sal16x4 :: IROp where "Iop_Sal16x4 \<equiv> 0x15bb"
abbreviation (input) Iop_Sal32x2 :: IROp where "Iop_Sal32x2 \<equiv> 0x15bc"
abbreviation (input) Iop_Sal64x1 :: IROp where "Iop_Sal64x1 \<equiv> 0x15bd"
abbreviation (input) Iop_ShlN8x8 :: IROp where "Iop_ShlN8x8 \<equiv> 0x15be"
abbreviation (input) Iop_ShlN16x4 :: IROp where "Iop_ShlN16x4 \<equiv> 0x15bf"
abbreviation (input) Iop_ShlN32x2 :: IROp where "Iop_ShlN32x2 \<equiv> 0x15c0"
abbreviation (input) Iop_ShrN8x8 :: IROp where "Iop_ShrN8x8 \<equiv> 0x15c1"
abbreviation (input) Iop_ShrN16x4 :: IROp where "Iop_ShrN16x4 \<equiv> 0x15c2"
abbreviation (input) Iop_ShrN32x2 :: IROp where "Iop_ShrN32x2 \<equiv> 0x15c3"
abbreviation (input) Iop_SarN8x8 :: IROp where "Iop_SarN8x8 \<equiv> 0x15c4"
abbreviation (input) Iop_SarN16x4 :: IROp where "Iop_SarN16x4 \<equiv> 0x15c5"
abbreviation (input) Iop_SarN32x2 :: IROp where "Iop_SarN32x2 \<equiv> 0x15c6"
abbreviation (input) Iop_QShl8x8 :: IROp where "Iop_QShl8x8 \<equiv> 0x15c7"
abbreviation (input) Iop_QShl16x4 :: IROp where "Iop_QShl16x4 \<equiv> 0x15c8"
abbreviation (input) Iop_QShl32x2 :: IROp where "Iop_QShl32x2 \<equiv> 0x15c9"
abbreviation (input) Iop_QShl64x1 :: IROp where "Iop_QShl64x1 \<equiv> 0x15ca"
abbreviation (input) Iop_QSal8x8 :: IROp where "Iop_QSal8x8 \<equiv> 0x15cb"
abbreviation (input) Iop_QSal16x4 :: IROp where "Iop_QSal16x4 \<equiv> 0x15cc"
abbreviation (input) Iop_QSal32x2 :: IROp where "Iop_QSal32x2 \<equiv> 0x15cd"
abbreviation (input) Iop_QSal64x1 :: IROp where "Iop_QSal64x1 \<equiv> 0x15ce"
abbreviation (input) Iop_QShlNsatSU8x8 :: IROp where "Iop_QShlNsatSU8x8 \<equiv> 0x15cf"
abbreviation (input) Iop_QShlNsatSU16x4 :: IROp where "Iop_QShlNsatSU16x4 \<equiv> 0x15d0"
abbreviation (input) Iop_QShlNsatSU32x2 :: IROp where "Iop_QShlNsatSU32x2 \<equiv> 0x15d1"
abbreviation (input) Iop_QShlNsatSU64x1 :: IROp where "Iop_QShlNsatSU64x1 \<equiv> 0x15d2"
abbreviation (input) Iop_QShlNsatUU8x8 :: IROp where "Iop_QShlNsatUU8x8 \<equiv> 0x15d3"
abbreviation (input) Iop_QShlNsatUU16x4 :: IROp where "Iop_QShlNsatUU16x4 \<equiv> 0x15d4"
abbreviation (input) Iop_QShlNsatUU32x2 :: IROp where "Iop_QShlNsatUU32x2 \<equiv> 0x15d5"
abbreviation (input) Iop_QShlNsatUU64x1 :: IROp where "Iop_QShlNsatUU64x1 \<equiv> 0x15d6"
abbreviation (input) Iop_QShlNsatSS8x8 :: IROp where "Iop_QShlNsatSS8x8 \<equiv> 0x15d7"
abbreviation (input) Iop_QShlNsatSS16x4 :: IROp where "Iop_QShlNsatSS16x4 \<equiv> 0x15d8"
abbreviation (input) Iop_QShlNsatSS32x2 :: IROp where "Iop_QShlNsatSS32x2 \<equiv> 0x15d9"
abbreviation (input) Iop_QShlNsatSS64x1 :: IROp where "Iop_QShlNsatSS64x1 \<equiv> 0x15da"
abbreviation (input) Iop_QNarrowBin16Sto8Ux8 :: IROp where "Iop_QNarrowBin16Sto8Ux8 \<equiv> 0x15db"
abbreviation (input) Iop_QNarrowBin16Sto8Sx8 :: IROp where "Iop_QNarrowBin16Sto8Sx8 \<equiv> 0x15dc"
abbreviation (input) Iop_QNarrowBin32Sto16Sx4 :: IROp where "Iop_QNarrowBin32Sto16Sx4 \<equiv> 0x15dd"
abbreviation (input) Iop_NarrowBin16to8x8 :: IROp where "Iop_NarrowBin16to8x8 \<equiv> 0x15de"
abbreviation (input) Iop_NarrowBin32to16x4 :: IROp where "Iop_NarrowBin32to16x4 \<equiv> 0x15df"
abbreviation (input) Iop_InterleaveHI8x8 :: IROp where "Iop_InterleaveHI8x8 \<equiv> 0x15e0"
abbreviation (input) Iop_InterleaveHI16x4 :: IROp where "Iop_InterleaveHI16x4 \<equiv> 0x15e1"
abbreviation (input) Iop_InterleaveHI32x2 :: IROp where "Iop_InterleaveHI32x2 \<equiv> 0x15e2"
abbreviation (input) Iop_InterleaveLO8x8 :: IROp where "Iop_InterleaveLO8x8 \<equiv> 0x15e3"
abbreviation (input) Iop_InterleaveLO16x4 :: IROp where "Iop_InterleaveLO16x4 \<equiv> 0x15e4"
abbreviation (input) Iop_InterleaveLO32x2 :: IROp where "Iop_InterleaveLO32x2 \<equiv> 0x15e5"
abbreviation (input) Iop_InterleaveOddLanes8x8 :: IROp where "Iop_InterleaveOddLanes8x8 \<equiv> 0x15e6"
abbreviation (input) Iop_InterleaveEvenLanes8x8 :: IROp where "Iop_InterleaveEvenLanes8x8 \<equiv> 0x15e7"
abbreviation (input) Iop_InterleaveOddLanes16x4 :: IROp where "Iop_InterleaveOddLanes16x4 \<equiv> 0x15e8"
abbreviation (input) Iop_InterleaveEvenLanes16x4 :: IROp where "Iop_InterleaveEvenLanes16x4 \<equiv> 0x15e9"
abbreviation (input) Iop_CatOddLanes8x8 :: IROp where "Iop_CatOddLanes8x8 \<equiv> 0x15ea"
abbreviation (input) Iop_CatOddLanes16x4 :: IROp where "Iop_CatOddLanes16x4 \<equiv> 0x15eb"
abbreviation (input) Iop_CatEvenLanes8x8 :: IROp where "Iop_CatEvenLanes8x8 \<equiv> 0x15ec"
abbreviation (input) Iop_CatEvenLanes16x4 :: IROp where "Iop_CatEvenLanes16x4 \<equiv> 0x15ed"
abbreviation (input) Iop_GetElem8x8 :: IROp where "Iop_GetElem8x8 \<equiv> 0x15ee"
abbreviation (input) Iop_GetElem16x4 :: IROp where "Iop_GetElem16x4 \<equiv> 0x15ef"
abbreviation (input) Iop_GetElem32x2 :: IROp where "Iop_GetElem32x2 \<equiv> 0x15f0"
abbreviation (input) Iop_SetElem8x8 :: IROp where "Iop_SetElem8x8 \<equiv> 0x15f1"
abbreviation (input) Iop_SetElem16x4 :: IROp where "Iop_SetElem16x4 \<equiv> 0x15f2"
abbreviation (input) Iop_SetElem32x2 :: IROp where "Iop_SetElem32x2 \<equiv> 0x15f3"
abbreviation (input) Iop_Dup8x8 :: IROp where "Iop_Dup8x8 \<equiv> 0x15f4"
abbreviation (input) Iop_Dup16x4 :: IROp where "Iop_Dup16x4 \<equiv> 0x15f5"
abbreviation (input) Iop_Dup32x2 :: IROp where "Iop_Dup32x2 \<equiv> 0x15f6"
abbreviation (input) Iop_Slice64 :: IROp where "Iop_Slice64 \<equiv> 0x15f7"
abbreviation (input) Iop_Reverse8sIn16_x4 :: IROp where "Iop_Reverse8sIn16_x4 \<equiv> 0x15f8"
abbreviation (input) Iop_Reverse8sIn32_x2 :: IROp where "Iop_Reverse8sIn32_x2 \<equiv> 0x15f9"
abbreviation (input) Iop_Reverse16sIn32_x2 :: IROp where "Iop_Reverse16sIn32_x2 \<equiv> 0x15fa"
abbreviation (input) Iop_Reverse8sIn64_x1 :: IROp where "Iop_Reverse8sIn64_x1 \<equiv> 0x15fb"
abbreviation (input) Iop_Reverse16sIn64_x1 :: IROp where "Iop_Reverse16sIn64_x1 \<equiv> 0x15fc"
abbreviation (input) Iop_Reverse32sIn64_x1 :: IROp where "Iop_Reverse32sIn64_x1 \<equiv> 0x15fd"
abbreviation (input) Iop_Perm8x8 :: IROp where "Iop_Perm8x8 \<equiv> 0x15fe"
abbreviation (input) Iop_PermOrZero8x8 :: IROp where "Iop_PermOrZero8x8 \<equiv> 0x15ff"
abbreviation (input) Iop_GetMSBs8x8 :: IROp where "Iop_GetMSBs8x8 \<equiv> 0x1600"
abbreviation (input) Iop_RecipEst32Ux2 :: IROp where "Iop_RecipEst32Ux2 \<equiv> 0x1601"
abbreviation (input) Iop_RSqrtEst32Ux2 :: IROp where "Iop_RSqrtEst32Ux2 \<equiv> 0x1602"
abbreviation (input) Iop_AddD64 :: IROp where "Iop_AddD64 \<equiv> 0x1603"
abbreviation (input) Iop_SubD64 :: IROp where "Iop_SubD64 \<equiv> 0x1604"
abbreviation (input) Iop_MulD64 :: IROp where "Iop_MulD64 \<equiv> 0x1605"
abbreviation (input) Iop_DivD64 :: IROp where "Iop_DivD64 \<equiv> 0x1606"
abbreviation (input) Iop_AddD128 :: IROp where "Iop_AddD128 \<equiv> 0x1607"
abbreviation (input) Iop_SubD128 :: IROp where "Iop_SubD128 \<equiv> 0x1608"
abbreviation (input) Iop_MulD128 :: IROp where "Iop_MulD128 \<equiv> 0x1609"
abbreviation (input) Iop_DivD128 :: IROp where "Iop_DivD128 \<equiv> 0x160a"
abbreviation (input) Iop_ShlD64 :: IROp where "Iop_ShlD64 \<equiv> 0x160b"
abbreviation (input) Iop_ShrD64 :: IROp where "Iop_ShrD64 \<equiv> 0x160c"
abbreviation (input) Iop_ShlD128 :: IROp where "Iop_ShlD128 \<equiv> 0x160d"
abbreviation (input) Iop_ShrD128 :: IROp where "Iop_ShrD128 \<equiv> 0x160e"
abbreviation (input) Iop_D32toD64 :: IROp where "Iop_D32toD64 \<equiv> 0x160f"
abbreviation (input) Iop_D64toD128 :: IROp where "Iop_D64toD128 \<equiv> 0x1610"
abbreviation (input) Iop_I32StoD128 :: IROp where "Iop_I32StoD128 \<equiv> 0x1611"
abbreviation (input) Iop_I32UtoD128 :: IROp where "Iop_I32UtoD128 \<equiv> 0x1612"
abbreviation (input) Iop_I64StoD128 :: IROp where "Iop_I64StoD128 \<equiv> 0x1613"
abbreviation (input) Iop_I64UtoD128 :: IROp where "Iop_I64UtoD128 \<equiv> 0x1614"
abbreviation (input) Iop_I128StoD128 :: IROp where "Iop_I128StoD128 \<equiv> 0x1615"
abbreviation (input) Iop_D64toD32 :: IROp where "Iop_D64toD32 \<equiv> 0x1616"
abbreviation (input) Iop_D128toD64 :: IROp where "Iop_D128toD64 \<equiv> 0x1617"
abbreviation (input) Iop_I32StoD64 :: IROp where "Iop_I32StoD64 \<equiv> 0x1618"
abbreviation (input) Iop_I32UtoD64 :: IROp where "Iop_I32UtoD64 \<equiv> 0x1619"
abbreviation (input) Iop_I64StoD64 :: IROp where "Iop_I64StoD64 \<equiv> 0x161a"
abbreviation (input) Iop_I64UtoD64 :: IROp where "Iop_I64UtoD64 \<equiv> 0x161b"
abbreviation (input) Iop_D64toI32S :: IROp where "Iop_D64toI32S \<equiv> 0x161c"
abbreviation (input) Iop_D64toI32U :: IROp where "Iop_D64toI32U \<equiv> 0x161d"
abbreviation (input) Iop_D64toI64S :: IROp where "Iop_D64toI64S \<equiv> 0x161e"
abbreviation (input) Iop_D64toI64U :: IROp where "Iop_D64toI64U \<equiv> 0x161f"
abbreviation (input) Iop_D128toI32S :: IROp where "Iop_D128toI32S \<equiv> 0x1620"
abbreviation (input) Iop_D128toI32U :: IROp where "Iop_D128toI32U \<equiv> 0x1621"
abbreviation (input) Iop_D128toI64S :: IROp where "Iop_D128toI64S \<equiv> 0x1622"
abbreviation (input) Iop_D128toI64U :: IROp where "Iop_D128toI64U \<equiv> 0x1623"
abbreviation (input) Iop_D128toI128S :: IROp where "Iop_D128toI128S \<equiv> 0x1624"
abbreviation (input) Iop_F32toD32 :: IROp where "Iop_F32toD32 \<equiv> 0x1625"
abbreviation (input) Iop_F32toD64 :: IROp where "Iop_F32toD64 \<equiv> 0x1626"
abbreviation (input) Iop_F32toD128 :: IROp where "Iop_F32toD128 \<equiv> 0x1627"
abbreviation (input) Iop_F64toD32 :: IROp where "Iop_F64toD32 \<equiv> 0x1628"
abbreviation (input) Iop_F64toD64 :: IROp where "Iop_F64toD64 \<equiv> 0x1629"
abbreviation (input) Iop_F64toD128 :: IROp where "Iop_F64toD128 \<equiv> 0x162a"
abbreviation (input) Iop_F128toD32 :: IROp where "Iop_F128toD32 \<equiv> 0x162b"
abbreviation (input) Iop_F128toD64 :: IROp where "Iop_F128toD64 \<equiv> 0x162c"
abbreviation (input) Iop_F128toD128 :: IROp where "Iop_F128toD128 \<equiv> 0x162d"
abbreviation (input) Iop_D32toF32 :: IROp where "Iop_D32toF32 \<equiv> 0x162e"
abbreviation (input) Iop_D32toF64 :: IROp where "Iop_D32toF64 \<equiv> 0x162f"
abbreviation (input) Iop_D32toF128 :: IROp where "Iop_D32toF128 \<equiv> 0x1630"
abbreviation (input) Iop_D64toF32 :: IROp where "Iop_D64toF32 \<equiv> 0x1631"
abbreviation (input) Iop_D64toF64 :: IROp where "Iop_D64toF64 \<equiv> 0x1632"
abbreviation (input) Iop_D64toF128 :: IROp where "Iop_D64toF128 \<equiv> 0x1633"
abbreviation (input) Iop_D128toF32 :: IROp where "Iop_D128toF32 \<equiv> 0x1634"
abbreviation (input) Iop_D128toF64 :: IROp where "Iop_D128toF64 \<equiv> 0x1635"
abbreviation (input) Iop_D128toF128 :: IROp where "Iop_D128toF128 \<equiv> 0x1636"
abbreviation (input) Iop_RoundD64toInt :: IROp where "Iop_RoundD64toInt \<equiv> 0x1637"
abbreviation (input) Iop_RoundD128toInt :: IROp where "Iop_RoundD128toInt \<equiv> 0x1638"
abbreviation (input) Iop_CmpD64 :: IROp where "Iop_CmpD64 \<equiv> 0x1639"
abbreviation (input) Iop_CmpD128 :: IROp where "Iop_CmpD128 \<equiv> 0x163a"
abbreviation (input) Iop_CmpExpD64 :: IROp where "Iop_CmpExpD64 \<equiv> 0x163b"
abbreviation (input) Iop_CmpExpD128 :: IROp where "Iop_CmpExpD128 \<equiv> 0x163c"
abbreviation (input) Iop_QuantizeD64 :: IROp where "Iop_QuantizeD64 \<equiv> 0x163d"
abbreviation (input) Iop_QuantizeD128 :: IROp where "Iop_QuantizeD128 \<equiv> 0x163e"
abbreviation (input) Iop_SignificanceRoundD64 :: IROp where "Iop_SignificanceRoundD64 \<equiv> 0x163f"
abbreviation (input) Iop_SignificanceRoundD128 :: IROp where "Iop_SignificanceRoundD128 \<equiv> 0x1640"
abbreviation (input) Iop_ExtractExpD64 :: IROp where "Iop_ExtractExpD64 \<equiv> 0x1641"
abbreviation (input) Iop_ExtractExpD128 :: IROp where "Iop_ExtractExpD128 \<equiv> 0x1642"
abbreviation (input) Iop_ExtractSigD64 :: IROp where "Iop_ExtractSigD64 \<equiv> 0x1643"
abbreviation (input) Iop_ExtractSigD128 :: IROp where "Iop_ExtractSigD128 \<equiv> 0x1644"
abbreviation (input) Iop_InsertExpD64 :: IROp where "Iop_InsertExpD64 \<equiv> 0x1645"
abbreviation (input) Iop_InsertExpD128 :: IROp where "Iop_InsertExpD128 \<equiv> 0x1646"
abbreviation (input) Iop_D64HLtoD128 :: IROp where "Iop_D64HLtoD128 \<equiv> 0x1647"
abbreviation (input) Iop_D128HItoD64 :: IROp where "Iop_D128HItoD64 \<equiv> 0x1648"
abbreviation (input) Iop_D128LOtoD64 :: IROp where "Iop_D128LOtoD64 \<equiv> 0x1649"
abbreviation (input) Iop_DPBtoBCD :: IROp where "Iop_DPBtoBCD \<equiv> 0x164a"
abbreviation (input) Iop_BCDtoDPB :: IROp where "Iop_BCDtoDPB \<equiv> 0x164b"
abbreviation (input) Iop_BCDAdd :: IROp where "Iop_BCDAdd \<equiv> 0x164c"
abbreviation (input) Iop_BCDSub :: IROp where "Iop_BCDSub \<equiv> 0x164d"
abbreviation (input) Iop_I128StoBCD128 :: IROp where "Iop_I128StoBCD128 \<equiv> 0x164e"
abbreviation (input) Iop_BCD128toI128S :: IROp where "Iop_BCD128toI128S \<equiv> 0x164f"
abbreviation (input) Iop_ReinterpI64asD64 :: IROp where "Iop_ReinterpI64asD64 \<equiv> 0x1650"
abbreviation (input) Iop_ReinterpD64asI64 :: IROp where "Iop_ReinterpD64asI64 \<equiv> 0x1651"
abbreviation (input) Iop_Sqrt16Fx8 :: IROp where "Iop_Sqrt16Fx8 \<equiv> 0x1652"
abbreviation (input) Iop_Add16Fx8 :: IROp where "Iop_Add16Fx8 \<equiv> 0x1653"
abbreviation (input) Iop_Sub16Fx8 :: IROp where "Iop_Sub16Fx8 \<equiv> 0x1654"
abbreviation (input) Iop_CmpLT16Fx8 :: IROp where "Iop_CmpLT16Fx8 \<equiv> 0x1655"
abbreviation (input) Iop_CmpLE16Fx8 :: IROp where "Iop_CmpLE16Fx8 \<equiv> 0x1656"
abbreviation (input) Iop_CmpEQ16Fx8 :: IROp where "Iop_CmpEQ16Fx8 \<equiv> 0x1657"
abbreviation (input) Iop_Abs16Fx8 :: IROp where "Iop_Abs16Fx8 \<equiv> 0x1658"
abbreviation (input) Iop_Neg16Fx8 :: IROp where "Iop_Neg16Fx8 \<equiv> 0x1659"
abbreviation (input) Iop_Add32Fx4 :: IROp where "Iop_Add32Fx4 \<equiv> 0x165a"
abbreviation (input) Iop_Sub32Fx4 :: IROp where "Iop_Sub32Fx4 \<equiv> 0x165b"
abbreviation (input) Iop_Mul32Fx4 :: IROp where "Iop_Mul32Fx4 \<equiv> 0x165c"
abbreviation (input) Iop_Div32Fx4 :: IROp where "Iop_Div32Fx4 \<equiv> 0x165d"
abbreviation (input) Iop_Max32Fx4 :: IROp where "Iop_Max32Fx4 \<equiv> 0x165e"
abbreviation (input) Iop_Min32Fx4 :: IROp where "Iop_Min32Fx4 \<equiv> 0x165f"
abbreviation (input) Iop_Add32Fx2 :: IROp where "Iop_Add32Fx2 \<equiv> 0x1660"
abbreviation (input) Iop_Sub32Fx2 :: IROp where "Iop_Sub32Fx2 \<equiv> 0x1661"
abbreviation (input) Iop_CmpEQ32Fx4 :: IROp where "Iop_CmpEQ32Fx4 \<equiv> 0x1662"
abbreviation (input) Iop_CmpLT32Fx4 :: IROp where "Iop_CmpLT32Fx4 \<equiv> 0x1663"
abbreviation (input) Iop_CmpLE32Fx4 :: IROp where "Iop_CmpLE32Fx4 \<equiv> 0x1664"
abbreviation (input) Iop_CmpUN32Fx4 :: IROp where "Iop_CmpUN32Fx4 \<equiv> 0x1665"
abbreviation (input) Iop_CmpGT32Fx4 :: IROp where "Iop_CmpGT32Fx4 \<equiv> 0x1666"
abbreviation (input) Iop_CmpGE32Fx4 :: IROp where "Iop_CmpGE32Fx4 \<equiv> 0x1667"
abbreviation (input) Iop_PwMax32Fx4 :: IROp where "Iop_PwMax32Fx4 \<equiv> 0x1668"
abbreviation (input) Iop_PwMin32Fx4 :: IROp where "Iop_PwMin32Fx4 \<equiv> 0x1669"
abbreviation (input) Iop_Abs32Fx4 :: IROp where "Iop_Abs32Fx4 \<equiv> 0x166a"
abbreviation (input) Iop_Neg32Fx4 :: IROp where "Iop_Neg32Fx4 \<equiv> 0x166b"
abbreviation (input) Iop_Sqrt32Fx4 :: IROp where "Iop_Sqrt32Fx4 \<equiv> 0x166c"
abbreviation (input) Iop_RecipEst32Fx4 :: IROp where "Iop_RecipEst32Fx4 \<equiv> 0x166d"
abbreviation (input) Iop_RecipStep32Fx4 :: IROp where "Iop_RecipStep32Fx4 \<equiv> 0x166e"
abbreviation (input) Iop_RSqrtEst32Fx4 :: IROp where "Iop_RSqrtEst32Fx4 \<equiv> 0x166f"
abbreviation (input) Iop_Scale2_32Fx4 :: IROp where "Iop_Scale2_32Fx4 \<equiv> 0x1670"
abbreviation (input) Iop_Log2_32Fx4 :: IROp where "Iop_Log2_32Fx4 \<equiv> 0x1671"
abbreviation (input) Iop_Exp2_32Fx4 :: IROp where "Iop_Exp2_32Fx4 \<equiv> 0x1672"
abbreviation (input) Iop_RSqrtStep32Fx4 :: IROp where "Iop_RSqrtStep32Fx4 \<equiv> 0x1673"
abbreviation (input) Iop_I32UtoF32x4_DEP :: IROp where "Iop_I32UtoF32x4_DEP \<equiv> 0x1674"
abbreviation (input) Iop_I32StoF32x4_DEP :: IROp where "Iop_I32StoF32x4_DEP \<equiv> 0x1675"
abbreviation (input) Iop_I32StoF32x4 :: IROp where "Iop_I32StoF32x4 \<equiv> 0x1676"
abbreviation (input) Iop_F32toI32Sx4 :: IROp where "Iop_F32toI32Sx4 \<equiv> 0x1677"
abbreviation (input) Iop_F32toI32Ux4_RZ :: IROp where "Iop_F32toI32Ux4_RZ \<equiv> 0x1678"
abbreviation (input) Iop_F32toI32Sx4_RZ :: IROp where "Iop_F32toI32Sx4_RZ \<equiv> 0x1679"
abbreviation (input) Iop_QF32toI32Ux4_RZ :: IROp where "Iop_QF32toI32Ux4_RZ \<equiv> 0x167a"
abbreviation (input) Iop_QF32toI32Sx4_RZ :: IROp where "Iop_QF32toI32Sx4_RZ \<equiv> 0x167b"
abbreviation (input) Iop_RoundF32x4_RM :: IROp where "Iop_RoundF32x4_RM \<equiv> 0x167c"
abbreviation (input) Iop_RoundF32x4_RP :: IROp where "Iop_RoundF32x4_RP \<equiv> 0x167d"
abbreviation (input) Iop_RoundF32x4_RN :: IROp where "Iop_RoundF32x4_RN \<equiv> 0x167e"
abbreviation (input) Iop_RoundF32x4_RZ :: IROp where "Iop_RoundF32x4_RZ \<equiv> 0x167f"
abbreviation (input) Iop_F32ToFixed32Ux4_RZ :: IROp where "Iop_F32ToFixed32Ux4_RZ \<equiv> 0x1680"
abbreviation (input) Iop_F32ToFixed32Sx4_RZ :: IROp where "Iop_F32ToFixed32Sx4_RZ \<equiv> 0x1681"
abbreviation (input) Iop_Fixed32UToF32x4_RN :: IROp where "Iop_Fixed32UToF32x4_RN \<equiv> 0x1682"
abbreviation (input) Iop_Fixed32SToF32x4_RN :: IROp where "Iop_Fixed32SToF32x4_RN \<equiv> 0x1683"
abbreviation (input) Iop_F32toF16x4_DEP :: IROp where "Iop_F32toF16x4_DEP \<equiv> 0x1684"
abbreviation (input) Iop_F32toF16x4 :: IROp where "Iop_F32toF16x4 \<equiv> 0x1685"
abbreviation (input) Iop_F16toF32x4 :: IROp where "Iop_F16toF32x4 \<equiv> 0x1686"
abbreviation (input) Iop_F64toF16x2_DEP :: IROp where "Iop_F64toF16x2_DEP \<equiv> 0x1687"
abbreviation (input) Iop_F16toF64x2 :: IROp where "Iop_F16toF64x2 \<equiv> 0x1688"
abbreviation (input) Iop_F32x4_2toQ16x8 :: IROp where "Iop_F32x4_2toQ16x8 \<equiv> 0x1689"
abbreviation (input) Iop_Add32F0x4 :: IROp where "Iop_Add32F0x4 \<equiv> 0x168a"
abbreviation (input) Iop_Sub32F0x4 :: IROp where "Iop_Sub32F0x4 \<equiv> 0x168b"
abbreviation (input) Iop_Mul32F0x4 :: IROp where "Iop_Mul32F0x4 \<equiv> 0x168c"
abbreviation (input) Iop_Div32F0x4 :: IROp where "Iop_Div32F0x4 \<equiv> 0x168d"
abbreviation (input) Iop_Max32F0x4 :: IROp where "Iop_Max32F0x4 \<equiv> 0x168e"
abbreviation (input) Iop_Min32F0x4 :: IROp where "Iop_Min32F0x4 \<equiv> 0x168f"
abbreviation (input) Iop_CmpEQ32F0x4 :: IROp where "Iop_CmpEQ32F0x4 \<equiv> 0x1690"
abbreviation (input) Iop_CmpLT32F0x4 :: IROp where "Iop_CmpLT32F0x4 \<equiv> 0x1691"
abbreviation (input) Iop_CmpLE32F0x4 :: IROp where "Iop_CmpLE32F0x4 \<equiv> 0x1692"
abbreviation (input) Iop_CmpUN32F0x4 :: IROp where "Iop_CmpUN32F0x4 \<equiv> 0x1693"
abbreviation (input) Iop_RecipEst32F0x4 :: IROp where "Iop_RecipEst32F0x4 \<equiv> 0x1694"
abbreviation (input) Iop_Sqrt32F0x4 :: IROp where "Iop_Sqrt32F0x4 \<equiv> 0x1695"
abbreviation (input) Iop_RSqrtEst32F0x4 :: IROp where "Iop_RSqrtEst32F0x4 \<equiv> 0x1696"
abbreviation (input) Iop_Add64Fx2 :: IROp where "Iop_Add64Fx2 \<equiv> 0x1697"
abbreviation (input) Iop_Sub64Fx2 :: IROp where "Iop_Sub64Fx2 \<equiv> 0x1698"
abbreviation (input) Iop_Mul64Fx2 :: IROp where "Iop_Mul64Fx2 \<equiv> 0x1699"
abbreviation (input) Iop_Div64Fx2 :: IROp where "Iop_Div64Fx2 \<equiv> 0x169a"
abbreviation (input) Iop_Max64Fx2 :: IROp where "Iop_Max64Fx2 \<equiv> 0x169b"
abbreviation (input) Iop_Min64Fx2 :: IROp where "Iop_Min64Fx2 \<equiv> 0x169c"
abbreviation (input) Iop_CmpEQ64Fx2 :: IROp where "Iop_CmpEQ64Fx2 \<equiv> 0x169d"
abbreviation (input) Iop_CmpLT64Fx2 :: IROp where "Iop_CmpLT64Fx2 \<equiv> 0x169e"
abbreviation (input) Iop_CmpLE64Fx2 :: IROp where "Iop_CmpLE64Fx2 \<equiv> 0x169f"
abbreviation (input) Iop_CmpUN64Fx2 :: IROp where "Iop_CmpUN64Fx2 \<equiv> 0x16a0"
abbreviation (input) Iop_Abs64Fx2 :: IROp where "Iop_Abs64Fx2 \<equiv> 0x16a1"
abbreviation (input) Iop_Neg64Fx2 :: IROp where "Iop_Neg64Fx2 \<equiv> 0x16a2"
abbreviation (input) Iop_Sqrt64Fx2 :: IROp where "Iop_Sqrt64Fx2 \<equiv> 0x16a3"
abbreviation (input) Iop_Scale2_64Fx2 :: IROp where "Iop_Scale2_64Fx2 \<equiv> 0x16a4"
abbreviation (input) Iop_Log2_64Fx2 :: IROp where "Iop_Log2_64Fx2 \<equiv> 0x16a5"
abbreviation (input) Iop_RecipEst64Fx2 :: IROp where "Iop_RecipEst64Fx2 \<equiv> 0x16a6"
abbreviation (input) Iop_RecipStep64Fx2 :: IROp where "Iop_RecipStep64Fx2 \<equiv> 0x16a7"
abbreviation (input) Iop_RSqrtEst64Fx2 :: IROp where "Iop_RSqrtEst64Fx2 \<equiv> 0x16a8"
abbreviation (input) Iop_RSqrtStep64Fx2 :: IROp where "Iop_RSqrtStep64Fx2 \<equiv> 0x16a9"
abbreviation (input) Iop_F64x2_2toQ32x4 :: IROp where "Iop_F64x2_2toQ32x4 \<equiv> 0x16aa"
abbreviation (input) Iop_Add64F0x2 :: IROp where "Iop_Add64F0x2 \<equiv> 0x16ab"
abbreviation (input) Iop_Sub64F0x2 :: IROp where "Iop_Sub64F0x2 \<equiv> 0x16ac"
abbreviation (input) Iop_Mul64F0x2 :: IROp where "Iop_Mul64F0x2 \<equiv> 0x16ad"
abbreviation (input) Iop_Div64F0x2 :: IROp where "Iop_Div64F0x2 \<equiv> 0x16ae"
abbreviation (input) Iop_Max64F0x2 :: IROp where "Iop_Max64F0x2 \<equiv> 0x16af"
abbreviation (input) Iop_Min64F0x2 :: IROp where "Iop_Min64F0x2 \<equiv> 0x16b0"
abbreviation (input) Iop_CmpEQ64F0x2 :: IROp where "Iop_CmpEQ64F0x2 \<equiv> 0x16b1"
abbreviation (input) Iop_CmpLT64F0x2 :: IROp where "Iop_CmpLT64F0x2 \<equiv> 0x16b2"
abbreviation (input) Iop_CmpLE64F0x2 :: IROp where "Iop_CmpLE64F0x2 \<equiv> 0x16b3"
abbreviation (input) Iop_CmpUN64F0x2 :: IROp where "Iop_CmpUN64F0x2 \<equiv> 0x16b4"
abbreviation (input) Iop_Sqrt64F0x2 :: IROp where "Iop_Sqrt64F0x2 \<equiv> 0x16b5"
abbreviation (input) Iop_V128to64 :: IROp where "Iop_V128to64 \<equiv> 0x16b6"
abbreviation (input) Iop_V128HIto64 :: IROp where "Iop_V128HIto64 \<equiv> 0x16b7"
abbreviation (input) Iop_64HLtoV128 :: IROp where "Iop_64HLtoV128 \<equiv> 0x16b8"
abbreviation (input) Iop_64UtoV128 :: IROp where "Iop_64UtoV128 \<equiv> 0x16b9"
abbreviation (input) Iop_SetV128lo64 :: IROp where "Iop_SetV128lo64 \<equiv> 0x16ba"
abbreviation (input) Iop_ZeroHI64ofV128 :: IROp where "Iop_ZeroHI64ofV128 \<equiv> 0x16bb"
abbreviation (input) Iop_ZeroHI96ofV128 :: IROp where "Iop_ZeroHI96ofV128 \<equiv> 0x16bc"
abbreviation (input) Iop_ZeroHI112ofV128 :: IROp where "Iop_ZeroHI112ofV128 \<equiv> 0x16bd"
abbreviation (input) Iop_ZeroHI120ofV128 :: IROp where "Iop_ZeroHI120ofV128 \<equiv> 0x16be"
abbreviation (input) Iop_32UtoV128 :: IROp where "Iop_32UtoV128 \<equiv> 0x16bf"
abbreviation (input) Iop_V128to32 :: IROp where "Iop_V128to32 \<equiv> 0x16c0"
abbreviation (input) Iop_SetV128lo32 :: IROp where "Iop_SetV128lo32 \<equiv> 0x16c1"
abbreviation (input) Iop_NotV128 :: IROp where "Iop_NotV128 \<equiv> 0x16c2"
abbreviation (input) Iop_AndV128 :: IROp where "Iop_AndV128 \<equiv> 0x16c3"
abbreviation (input) Iop_OrV128 :: IROp where "Iop_OrV128 \<equiv> 0x16c4"
abbreviation (input) Iop_XorV128 :: IROp where "Iop_XorV128 \<equiv> 0x16c5"
abbreviation (input) Iop_ShlV128 :: IROp where "Iop_ShlV128 \<equiv> 0x16c6"
abbreviation (input) Iop_ShrV128 :: IROp where "Iop_ShrV128 \<equiv> 0x16c7"
abbreviation (input) Iop_SarV128 :: IROp where "Iop_SarV128 \<equiv> 0x16c8"
abbreviation (input) Iop_CmpNEZ8x16 :: IROp where "Iop_CmpNEZ8x16 \<equiv> 0x16c9"
abbreviation (input) Iop_CmpNEZ16x8 :: IROp where "Iop_CmpNEZ16x8 \<equiv> 0x16ca"
abbreviation (input) Iop_CmpNEZ32x4 :: IROp where "Iop_CmpNEZ32x4 \<equiv> 0x16cb"
abbreviation (input) Iop_CmpNEZ64x2 :: IROp where "Iop_CmpNEZ64x2 \<equiv> 0x16cc"
abbreviation (input) Iop_CmpNEZ128x1 :: IROp where "Iop_CmpNEZ128x1 \<equiv> 0x16cd"
abbreviation (input) Iop_Add8x16 :: IROp where "Iop_Add8x16 \<equiv> 0x16ce"
abbreviation (input) Iop_Add16x8 :: IROp where "Iop_Add16x8 \<equiv> 0x16cf"
abbreviation (input) Iop_Add32x4 :: IROp where "Iop_Add32x4 \<equiv> 0x16d0"
abbreviation (input) Iop_Add64x2 :: IROp where "Iop_Add64x2 \<equiv> 0x16d1"
abbreviation (input) Iop_Add128x1 :: IROp where "Iop_Add128x1 \<equiv> 0x16d2"
abbreviation (input) Iop_QAdd8Ux16 :: IROp where "Iop_QAdd8Ux16 \<equiv> 0x16d3"
abbreviation (input) Iop_QAdd16Ux8 :: IROp where "Iop_QAdd16Ux8 \<equiv> 0x16d4"
abbreviation (input) Iop_QAdd32Ux4 :: IROp where "Iop_QAdd32Ux4 \<equiv> 0x16d5"
abbreviation (input) Iop_QAdd64Ux2 :: IROp where "Iop_QAdd64Ux2 \<equiv> 0x16d6"
abbreviation (input) Iop_QAdd8Sx16 :: IROp where "Iop_QAdd8Sx16 \<equiv> 0x16d7"
abbreviation (input) Iop_QAdd16Sx8 :: IROp where "Iop_QAdd16Sx8 \<equiv> 0x16d8"
abbreviation (input) Iop_QAdd32Sx4 :: IROp where "Iop_QAdd32Sx4 \<equiv> 0x16d9"
abbreviation (input) Iop_QAdd64Sx2 :: IROp where "Iop_QAdd64Sx2 \<equiv> 0x16da"
abbreviation (input) Iop_QAddExtUSsatSS8x16 :: IROp where "Iop_QAddExtUSsatSS8x16 \<equiv> 0x16db"
abbreviation (input) Iop_QAddExtUSsatSS16x8 :: IROp where "Iop_QAddExtUSsatSS16x8 \<equiv> 0x16dc"
abbreviation (input) Iop_QAddExtUSsatSS32x4 :: IROp where "Iop_QAddExtUSsatSS32x4 \<equiv> 0x16dd"
abbreviation (input) Iop_QAddExtUSsatSS64x2 :: IROp where "Iop_QAddExtUSsatSS64x2 \<equiv> 0x16de"
abbreviation (input) Iop_QAddExtSUsatUU8x16 :: IROp where "Iop_QAddExtSUsatUU8x16 \<equiv> 0x16df"
abbreviation (input) Iop_QAddExtSUsatUU16x8 :: IROp where "Iop_QAddExtSUsatUU16x8 \<equiv> 0x16e0"
abbreviation (input) Iop_QAddExtSUsatUU32x4 :: IROp where "Iop_QAddExtSUsatUU32x4 \<equiv> 0x16e1"
abbreviation (input) Iop_QAddExtSUsatUU64x2 :: IROp where "Iop_QAddExtSUsatUU64x2 \<equiv> 0x16e2"
abbreviation (input) Iop_Sub8x16 :: IROp where "Iop_Sub8x16 \<equiv> 0x16e3"
abbreviation (input) Iop_Sub16x8 :: IROp where "Iop_Sub16x8 \<equiv> 0x16e4"
abbreviation (input) Iop_Sub32x4 :: IROp where "Iop_Sub32x4 \<equiv> 0x16e5"
abbreviation (input) Iop_Sub64x2 :: IROp where "Iop_Sub64x2 \<equiv> 0x16e6"
abbreviation (input) Iop_Sub128x1 :: IROp where "Iop_Sub128x1 \<equiv> 0x16e7"
abbreviation (input) Iop_QSub8Ux16 :: IROp where "Iop_QSub8Ux16 \<equiv> 0x16e8"
abbreviation (input) Iop_QSub16Ux8 :: IROp where "Iop_QSub16Ux8 \<equiv> 0x16e9"
abbreviation (input) Iop_QSub32Ux4 :: IROp where "Iop_QSub32Ux4 \<equiv> 0x16ea"
abbreviation (input) Iop_QSub64Ux2 :: IROp where "Iop_QSub64Ux2 \<equiv> 0x16eb"
abbreviation (input) Iop_QSub8Sx16 :: IROp where "Iop_QSub8Sx16 \<equiv> 0x16ec"
abbreviation (input) Iop_QSub16Sx8 :: IROp where "Iop_QSub16Sx8 \<equiv> 0x16ed"
abbreviation (input) Iop_QSub32Sx4 :: IROp where "Iop_QSub32Sx4 \<equiv> 0x16ee"
abbreviation (input) Iop_QSub64Sx2 :: IROp where "Iop_QSub64Sx2 \<equiv> 0x16ef"
abbreviation (input) Iop_Mul8x16 :: IROp where "Iop_Mul8x16 \<equiv> 0x16f0"
abbreviation (input) Iop_Mul16x8 :: IROp where "Iop_Mul16x8 \<equiv> 0x16f1"
abbreviation (input) Iop_Mul32x4 :: IROp where "Iop_Mul32x4 \<equiv> 0x16f2"
abbreviation (input) Iop_MulHi8Ux16 :: IROp where "Iop_MulHi8Ux16 \<equiv> 0x16f3"
abbreviation (input) Iop_MulHi16Ux8 :: IROp where "Iop_MulHi16Ux8 \<equiv> 0x16f4"
abbreviation (input) Iop_MulHi32Ux4 :: IROp where "Iop_MulHi32Ux4 \<equiv> 0x16f5"
abbreviation (input) Iop_MulHi8Sx16 :: IROp where "Iop_MulHi8Sx16 \<equiv> 0x16f6"
abbreviation (input) Iop_MulHi16Sx8 :: IROp where "Iop_MulHi16Sx8 \<equiv> 0x16f7"
abbreviation (input) Iop_MulHi32Sx4 :: IROp where "Iop_MulHi32Sx4 \<equiv> 0x16f8"
abbreviation (input) Iop_MullEven8Ux16 :: IROp where "Iop_MullEven8Ux16 \<equiv> 0x16f9"
abbreviation (input) Iop_MullEven16Ux8 :: IROp where "Iop_MullEven16Ux8 \<equiv> 0x16fa"
abbreviation (input) Iop_MullEven32Ux4 :: IROp where "Iop_MullEven32Ux4 \<equiv> 0x16fb"
abbreviation (input) Iop_MullEven8Sx16 :: IROp where "Iop_MullEven8Sx16 \<equiv> 0x16fc"
abbreviation (input) Iop_MullEven16Sx8 :: IROp where "Iop_MullEven16Sx8 \<equiv> 0x16fd"
abbreviation (input) Iop_MullEven32Sx4 :: IROp where "Iop_MullEven32Sx4 \<equiv> 0x16fe"
abbreviation (input) Iop_Mull8Ux8 :: IROp where "Iop_Mull8Ux8 \<equiv> 0x16ff"
abbreviation (input) Iop_Mull8Sx8 :: IROp where "Iop_Mull8Sx8 \<equiv> 0x1700"
abbreviation (input) Iop_Mull16Ux4 :: IROp where "Iop_Mull16Ux4 \<equiv> 0x1701"
abbreviation (input) Iop_Mull16Sx4 :: IROp where "Iop_Mull16Sx4 \<equiv> 0x1702"
abbreviation (input) Iop_Mull32Ux2 :: IROp where "Iop_Mull32Ux2 \<equiv> 0x1703"
abbreviation (input) Iop_Mull32Sx2 :: IROp where "Iop_Mull32Sx2 \<equiv> 0x1704"
abbreviation (input) Iop_QDMull16Sx4 :: IROp where "Iop_QDMull16Sx4 \<equiv> 0x1705"
abbreviation (input) Iop_QDMull32Sx2 :: IROp where "Iop_QDMull32Sx2 \<equiv> 0x1706"
abbreviation (input) Iop_QDMulHi16Sx8 :: IROp where "Iop_QDMulHi16Sx8 \<equiv> 0x1707"
abbreviation (input) Iop_QDMulHi32Sx4 :: IROp where "Iop_QDMulHi32Sx4 \<equiv> 0x1708"
abbreviation (input) Iop_QRDMulHi16Sx8 :: IROp where "Iop_QRDMulHi16Sx8 \<equiv> 0x1709"
abbreviation (input) Iop_QRDMulHi32Sx4 :: IROp where "Iop_QRDMulHi32Sx4 \<equiv> 0x170a"
abbreviation (input) Iop_PolynomialMul8x16 :: IROp where "Iop_PolynomialMul8x16 \<equiv> 0x170b"
abbreviation (input) Iop_PolynomialMull8x8 :: IROp where "Iop_PolynomialMull8x8 \<equiv> 0x170c"
abbreviation (input) Iop_PolynomialMulAdd8x16 :: IROp where "Iop_PolynomialMulAdd8x16 \<equiv> 0x170d"
abbreviation (input) Iop_PolynomialMulAdd16x8 :: IROp where "Iop_PolynomialMulAdd16x8 \<equiv> 0x170e"
abbreviation (input) Iop_PolynomialMulAdd32x4 :: IROp where "Iop_PolynomialMulAdd32x4 \<equiv> 0x170f"
abbreviation (input) Iop_PolynomialMulAdd64x2 :: IROp where "Iop_PolynomialMulAdd64x2 \<equiv> 0x1710"
abbreviation (input) Iop_PwAdd8x16 :: IROp where "Iop_PwAdd8x16 \<equiv> 0x1711"
abbreviation (input) Iop_PwAdd16x8 :: IROp where "Iop_PwAdd16x8 \<equiv> 0x1712"
abbreviation (input) Iop_PwAdd32x4 :: IROp where "Iop_PwAdd32x4 \<equiv> 0x1713"
abbreviation (input) Iop_PwAdd32Fx2 :: IROp where "Iop_PwAdd32Fx2 \<equiv> 0x1714"
abbreviation (input) Iop_PwAddL8Ux16 :: IROp where "Iop_PwAddL8Ux16 \<equiv> 0x1715"
abbreviation (input) Iop_PwAddL16Ux8 :: IROp where "Iop_PwAddL16Ux8 \<equiv> 0x1716"
abbreviation (input) Iop_PwAddL32Ux4 :: IROp where "Iop_PwAddL32Ux4 \<equiv> 0x1717"
abbreviation (input) Iop_PwAddL64Ux2 :: IROp where "Iop_PwAddL64Ux2 \<equiv> 0x1718"
abbreviation (input) Iop_PwAddL8Sx16 :: IROp where "Iop_PwAddL8Sx16 \<equiv> 0x1719"
abbreviation (input) Iop_PwAddL16Sx8 :: IROp where "Iop_PwAddL16Sx8 \<equiv> 0x171a"
abbreviation (input) Iop_PwAddL32Sx4 :: IROp where "Iop_PwAddL32Sx4 \<equiv> 0x171b"
abbreviation (input) Iop_PwExtUSMulQAdd8x16 :: IROp where "Iop_PwExtUSMulQAdd8x16 \<equiv> 0x171c"
abbreviation (input) Iop_PwBitMtxXpose64x2 :: IROp where "Iop_PwBitMtxXpose64x2 \<equiv> 0x171d"
abbreviation (input) Iop_Abs8x16 :: IROp where "Iop_Abs8x16 \<equiv> 0x171e"
abbreviation (input) Iop_Abs16x8 :: IROp where "Iop_Abs16x8 \<equiv> 0x171f"
abbreviation (input) Iop_Abs32x4 :: IROp where "Iop_Abs32x4 \<equiv> 0x1720"
abbreviation (input) Iop_Abs64x2 :: IROp where "Iop_Abs64x2 \<equiv> 0x1721"
abbreviation (input) Iop_Avg8Ux16 :: IROp where "Iop_Avg8Ux16 \<equiv> 0x1722"
abbreviation (input) Iop_Avg16Ux8 :: IROp where "Iop_Avg16Ux8 \<equiv> 0x1723"
abbreviation (input) Iop_Avg32Ux4 :: IROp where "Iop_Avg32Ux4 \<equiv> 0x1724"
abbreviation (input) Iop_Avg64Ux2 :: IROp where "Iop_Avg64Ux2 \<equiv> 0x1725"
abbreviation (input) Iop_Avg8Sx16 :: IROp where "Iop_Avg8Sx16 \<equiv> 0x1726"
abbreviation (input) Iop_Avg16Sx8 :: IROp where "Iop_Avg16Sx8 \<equiv> 0x1727"
abbreviation (input) Iop_Avg32Sx4 :: IROp where "Iop_Avg32Sx4 \<equiv> 0x1728"
abbreviation (input) Iop_Avg64Sx2 :: IROp where "Iop_Avg64Sx2 \<equiv> 0x1729"
abbreviation (input) Iop_Max8Sx16 :: IROp where "Iop_Max8Sx16 \<equiv> 0x172a"
abbreviation (input) Iop_Max16Sx8 :: IROp where "Iop_Max16Sx8 \<equiv> 0x172b"
abbreviation (input) Iop_Max32Sx4 :: IROp where "Iop_Max32Sx4 \<equiv> 0x172c"
abbreviation (input) Iop_Max64Sx2 :: IROp where "Iop_Max64Sx2 \<equiv> 0x172d"
abbreviation (input) Iop_Max8Ux16 :: IROp where "Iop_Max8Ux16 \<equiv> 0x172e"
abbreviation (input) Iop_Max16Ux8 :: IROp where "Iop_Max16Ux8 \<equiv> 0x172f"
abbreviation (input) Iop_Max32Ux4 :: IROp where "Iop_Max32Ux4 \<equiv> 0x1730"
abbreviation (input) Iop_Max64Ux2 :: IROp where "Iop_Max64Ux2 \<equiv> 0x1731"
abbreviation (input) Iop_Min8Sx16 :: IROp where "Iop_Min8Sx16 \<equiv> 0x1732"
abbreviation (input) Iop_Min16Sx8 :: IROp where "Iop_Min16Sx8 \<equiv> 0x1733"
abbreviation (input) Iop_Min32Sx4 :: IROp where "Iop_Min32Sx4 \<equiv> 0x1734"
abbreviation (input) Iop_Min64Sx2 :: IROp where "Iop_Min64Sx2 \<equiv> 0x1735"
abbreviation (input) Iop_Min8Ux16 :: IROp where "Iop_Min8Ux16 \<equiv> 0x1736"
abbreviation (input) Iop_Min16Ux8 :: IROp where "Iop_Min16Ux8 \<equiv> 0x1737"
abbreviation (input) Iop_Min32Ux4 :: IROp where "Iop_Min32Ux4 \<equiv> 0x1738"
abbreviation (input) Iop_Min64Ux2 :: IROp where "Iop_Min64Ux2 \<equiv> 0x1739"
abbreviation (input) Iop_CmpEQ8x16 :: IROp where "Iop_CmpEQ8x16 \<equiv> 0x173a"
abbreviation (input) Iop_CmpEQ16x8 :: IROp where "Iop_CmpEQ16x8 \<equiv> 0x173b"
abbreviation (input) Iop_CmpEQ32x4 :: IROp where "Iop_CmpEQ32x4 \<equiv> 0x173c"
abbreviation (input) Iop_CmpEQ64x2 :: IROp where "Iop_CmpEQ64x2 \<equiv> 0x173d"
abbreviation (input) Iop_CmpGT8Sx16 :: IROp where "Iop_CmpGT8Sx16 \<equiv> 0x173e"
abbreviation (input) Iop_CmpGT16Sx8 :: IROp where "Iop_CmpGT16Sx8 \<equiv> 0x173f"
abbreviation (input) Iop_CmpGT32Sx4 :: IROp where "Iop_CmpGT32Sx4 \<equiv> 0x1740"
abbreviation (input) Iop_CmpGT64Sx2 :: IROp where "Iop_CmpGT64Sx2 \<equiv> 0x1741"
abbreviation (input) Iop_CmpGT8Ux16 :: IROp where "Iop_CmpGT8Ux16 \<equiv> 0x1742"
abbreviation (input) Iop_CmpGT16Ux8 :: IROp where "Iop_CmpGT16Ux8 \<equiv> 0x1743"
abbreviation (input) Iop_CmpGT32Ux4 :: IROp where "Iop_CmpGT32Ux4 \<equiv> 0x1744"
abbreviation (input) Iop_CmpGT64Ux2 :: IROp where "Iop_CmpGT64Ux2 \<equiv> 0x1745"
abbreviation (input) Iop_Cnt8x16 :: IROp where "Iop_Cnt8x16 \<equiv> 0x1746"
abbreviation (input) Iop_Clz8x16 :: IROp where "Iop_Clz8x16 \<equiv> 0x1747"
abbreviation (input) Iop_Clz16x8 :: IROp where "Iop_Clz16x8 \<equiv> 0x1748"
abbreviation (input) Iop_Clz32x4 :: IROp where "Iop_Clz32x4 \<equiv> 0x1749"
abbreviation (input) Iop_Cls8x16 :: IROp where "Iop_Cls8x16 \<equiv> 0x174a"
abbreviation (input) Iop_Cls16x8 :: IROp where "Iop_Cls16x8 \<equiv> 0x174b"
abbreviation (input) Iop_Cls32x4 :: IROp where "Iop_Cls32x4 \<equiv> 0x174c"
abbreviation (input) Iop_ShlN8x16 :: IROp where "Iop_ShlN8x16 \<equiv> 0x174d"
abbreviation (input) Iop_ShlN16x8 :: IROp where "Iop_ShlN16x8 \<equiv> 0x174e"
abbreviation (input) Iop_ShlN32x4 :: IROp where "Iop_ShlN32x4 \<equiv> 0x174f"
abbreviation (input) Iop_ShlN64x2 :: IROp where "Iop_ShlN64x2 \<equiv> 0x1750"
abbreviation (input) Iop_ShrN8x16 :: IROp where "Iop_ShrN8x16 \<equiv> 0x1751"
abbreviation (input) Iop_ShrN16x8 :: IROp where "Iop_ShrN16x8 \<equiv> 0x1752"
abbreviation (input) Iop_ShrN32x4 :: IROp where "Iop_ShrN32x4 \<equiv> 0x1753"
abbreviation (input) Iop_ShrN64x2 :: IROp where "Iop_ShrN64x2 \<equiv> 0x1754"
abbreviation (input) Iop_SarN8x16 :: IROp where "Iop_SarN8x16 \<equiv> 0x1755"
abbreviation (input) Iop_SarN16x8 :: IROp where "Iop_SarN16x8 \<equiv> 0x1756"
abbreviation (input) Iop_SarN32x4 :: IROp where "Iop_SarN32x4 \<equiv> 0x1757"
abbreviation (input) Iop_SarN64x2 :: IROp where "Iop_SarN64x2 \<equiv> 0x1758"
abbreviation (input) Iop_Shl8x16 :: IROp where "Iop_Shl8x16 \<equiv> 0x1759"
abbreviation (input) Iop_Shl16x8 :: IROp where "Iop_Shl16x8 \<equiv> 0x175a"
abbreviation (input) Iop_Shl32x4 :: IROp where "Iop_Shl32x4 \<equiv> 0x175b"
abbreviation (input) Iop_Shl64x2 :: IROp where "Iop_Shl64x2 \<equiv> 0x175c"
abbreviation (input) Iop_Shr8x16 :: IROp where "Iop_Shr8x16 \<equiv> 0x175d"
abbreviation (input) Iop_Shr16x8 :: IROp where "Iop_Shr16x8 \<equiv> 0x175e"
abbreviation (input) Iop_Shr32x4 :: IROp where "Iop_Shr32x4 \<equiv> 0x175f"
abbreviation (input) Iop_Shr64x2 :: IROp where "Iop_Shr64x2 \<equiv> 0x1760"
abbreviation (input) Iop_Sar8x16 :: IROp where "Iop_Sar8x16 \<equiv> 0x1761"
abbreviation (input) Iop_Sar16x8 :: IROp where "Iop_Sar16x8 \<equiv> 0x1762"
abbreviation (input) Iop_Sar32x4 :: IROp where "Iop_Sar32x4 \<equiv> 0x1763"
abbreviation (input) Iop_Sar64x2 :: IROp where "Iop_Sar64x2 \<equiv> 0x1764"
abbreviation (input) Iop_Sal8x16 :: IROp where "Iop_Sal8x16 \<equiv> 0x1765"
abbreviation (input) Iop_Sal16x8 :: IROp where "Iop_Sal16x8 \<equiv> 0x1766"
abbreviation (input) Iop_Sal32x4 :: IROp where "Iop_Sal32x4 \<equiv> 0x1767"
abbreviation (input) Iop_Sal64x2 :: IROp where "Iop_Sal64x2 \<equiv> 0x1768"
abbreviation (input) Iop_Rol8x16 :: IROp where "Iop_Rol8x16 \<equiv> 0x1769"
abbreviation (input) Iop_Rol16x8 :: IROp where "Iop_Rol16x8 \<equiv> 0x176a"
abbreviation (input) Iop_Rol32x4 :: IROp where "Iop_Rol32x4 \<equiv> 0x176b"
abbreviation (input) Iop_Rol64x2 :: IROp where "Iop_Rol64x2 \<equiv> 0x176c"
abbreviation (input) Iop_QShl8x16 :: IROp where "Iop_QShl8x16 \<equiv> 0x176d"
abbreviation (input) Iop_QShl16x8 :: IROp where "Iop_QShl16x8 \<equiv> 0x176e"
abbreviation (input) Iop_QShl32x4 :: IROp where "Iop_QShl32x4 \<equiv> 0x176f"
abbreviation (input) Iop_QShl64x2 :: IROp where "Iop_QShl64x2 \<equiv> 0x1770"
abbreviation (input) Iop_QSal8x16 :: IROp where "Iop_QSal8x16 \<equiv> 0x1771"
abbreviation (input) Iop_QSal16x8 :: IROp where "Iop_QSal16x8 \<equiv> 0x1772"
abbreviation (input) Iop_QSal32x4 :: IROp where "Iop_QSal32x4 \<equiv> 0x1773"
abbreviation (input) Iop_QSal64x2 :: IROp where "Iop_QSal64x2 \<equiv> 0x1774"
abbreviation (input) Iop_QShlNsatSU8x16 :: IROp where "Iop_QShlNsatSU8x16 \<equiv> 0x1775"
abbreviation (input) Iop_QShlNsatSU16x8 :: IROp where "Iop_QShlNsatSU16x8 \<equiv> 0x1776"
abbreviation (input) Iop_QShlNsatSU32x4 :: IROp where "Iop_QShlNsatSU32x4 \<equiv> 0x1777"
abbreviation (input) Iop_QShlNsatSU64x2 :: IROp where "Iop_QShlNsatSU64x2 \<equiv> 0x1778"
abbreviation (input) Iop_QShlNsatUU8x16 :: IROp where "Iop_QShlNsatUU8x16 \<equiv> 0x1779"
abbreviation (input) Iop_QShlNsatUU16x8 :: IROp where "Iop_QShlNsatUU16x8 \<equiv> 0x177a"
abbreviation (input) Iop_QShlNsatUU32x4 :: IROp where "Iop_QShlNsatUU32x4 \<equiv> 0x177b"
abbreviation (input) Iop_QShlNsatUU64x2 :: IROp where "Iop_QShlNsatUU64x2 \<equiv> 0x177c"
abbreviation (input) Iop_QShlNsatSS8x16 :: IROp where "Iop_QShlNsatSS8x16 \<equiv> 0x177d"
abbreviation (input) Iop_QShlNsatSS16x8 :: IROp where "Iop_QShlNsatSS16x8 \<equiv> 0x177e"
abbreviation (input) Iop_QShlNsatSS32x4 :: IROp where "Iop_QShlNsatSS32x4 \<equiv> 0x177f"
abbreviation (input) Iop_QShlNsatSS64x2 :: IROp where "Iop_QShlNsatSS64x2 \<equiv> 0x1780"
abbreviation (input) Iop_QandUQsh8x16 :: IROp where "Iop_QandUQsh8x16 \<equiv> 0x1781"
abbreviation (input) Iop_QandUQsh16x8 :: IROp where "Iop_QandUQsh16x8 \<equiv> 0x1782"
abbreviation (input) Iop_QandUQsh32x4 :: IROp where "Iop_QandUQsh32x4 \<equiv> 0x1783"
abbreviation (input) Iop_QandUQsh64x2 :: IROp where "Iop_QandUQsh64x2 \<equiv> 0x1784"
abbreviation (input) Iop_QandSQsh8x16 :: IROp where "Iop_QandSQsh8x16 \<equiv> 0x1785"
abbreviation (input) Iop_QandSQsh16x8 :: IROp where "Iop_QandSQsh16x8 \<equiv> 0x1786"
abbreviation (input) Iop_QandSQsh32x4 :: IROp where "Iop_QandSQsh32x4 \<equiv> 0x1787"
abbreviation (input) Iop_QandSQsh64x2 :: IROp where "Iop_QandSQsh64x2 \<equiv> 0x1788"
abbreviation (input) Iop_QandUQRsh8x16 :: IROp where "Iop_QandUQRsh8x16 \<equiv> 0x1789"
abbreviation (input) Iop_QandUQRsh16x8 :: IROp where "Iop_QandUQRsh16x8 \<equiv> 0x178a"
abbreviation (input) Iop_QandUQRsh32x4 :: IROp where "Iop_QandUQRsh32x4 \<equiv> 0x178b"
abbreviation (input) Iop_QandUQRsh64x2 :: IROp where "Iop_QandUQRsh64x2 \<equiv> 0x178c"
abbreviation (input) Iop_QandSQRsh8x16 :: IROp where "Iop_QandSQRsh8x16 \<equiv> 0x178d"
abbreviation (input) Iop_QandSQRsh16x8 :: IROp where "Iop_QandSQRsh16x8 \<equiv> 0x178e"
abbreviation (input) Iop_QandSQRsh32x4 :: IROp where "Iop_QandSQRsh32x4 \<equiv> 0x178f"
abbreviation (input) Iop_QandSQRsh64x2 :: IROp where "Iop_QandSQRsh64x2 \<equiv> 0x1790"
abbreviation (input) Iop_Sh8Sx16 :: IROp where "Iop_Sh8Sx16 \<equiv> 0x1791"
abbreviation (input) Iop_Sh16Sx8 :: IROp where "Iop_Sh16Sx8 \<equiv> 0x1792"
abbreviation (input) Iop_Sh32Sx4 :: IROp where "Iop_Sh32Sx4 \<equiv> 0x1793"
abbreviation (input) Iop_Sh64Sx2 :: IROp where "Iop_Sh64Sx2 \<equiv> 0x1794"
abbreviation (input) Iop_Sh8Ux16 :: IROp where "Iop_Sh8Ux16 \<equiv> 0x1795"
abbreviation (input) Iop_Sh16Ux8 :: IROp where "Iop_Sh16Ux8 \<equiv> 0x1796"
abbreviation (input) Iop_Sh32Ux4 :: IROp where "Iop_Sh32Ux4 \<equiv> 0x1797"
abbreviation (input) Iop_Sh64Ux2 :: IROp where "Iop_Sh64Ux2 \<equiv> 0x1798"
abbreviation (input) Iop_Rsh8Sx16 :: IROp where "Iop_Rsh8Sx16 \<equiv> 0x1799"
abbreviation (input) Iop_Rsh16Sx8 :: IROp where "Iop_Rsh16Sx8 \<equiv> 0x179a"
abbreviation (input) Iop_Rsh32Sx4 :: IROp where "Iop_Rsh32Sx4 \<equiv> 0x179b"
abbreviation (input) Iop_Rsh64Sx2 :: IROp where "Iop_Rsh64Sx2 \<equiv> 0x179c"
abbreviation (input) Iop_Rsh8Ux16 :: IROp where "Iop_Rsh8Ux16 \<equiv> 0x179d"
abbreviation (input) Iop_Rsh16Ux8 :: IROp where "Iop_Rsh16Ux8 \<equiv> 0x179e"
abbreviation (input) Iop_Rsh32Ux4 :: IROp where "Iop_Rsh32Ux4 \<equiv> 0x179f"
abbreviation (input) Iop_Rsh64Ux2 :: IROp where "Iop_Rsh64Ux2 \<equiv> 0x17a0"
abbreviation (input) Iop_QandQShrNnarrow16Uto8Ux8 :: IROp where "Iop_QandQShrNnarrow16Uto8Ux8 \<equiv> 0x17a1"
abbreviation (input) Iop_QandQShrNnarrow32Uto16Ux4 :: IROp where "Iop_QandQShrNnarrow32Uto16Ux4 \<equiv> 0x17a2"
abbreviation (input) Iop_QandQShrNnarrow64Uto32Ux2 :: IROp where "Iop_QandQShrNnarrow64Uto32Ux2 \<equiv> 0x17a3"
abbreviation (input) Iop_QandQSarNnarrow16Sto8Sx8 :: IROp where "Iop_QandQSarNnarrow16Sto8Sx8 \<equiv> 0x17a4"
abbreviation (input) Iop_QandQSarNnarrow32Sto16Sx4 :: IROp where "Iop_QandQSarNnarrow32Sto16Sx4 \<equiv> 0x17a5"
abbreviation (input) Iop_QandQSarNnarrow64Sto32Sx2 :: IROp where "Iop_QandQSarNnarrow64Sto32Sx2 \<equiv> 0x17a6"
abbreviation (input) Iop_QandQSarNnarrow16Sto8Ux8 :: IROp where "Iop_QandQSarNnarrow16Sto8Ux8 \<equiv> 0x17a7"
abbreviation (input) Iop_QandQSarNnarrow32Sto16Ux4 :: IROp where "Iop_QandQSarNnarrow32Sto16Ux4 \<equiv> 0x17a8"
abbreviation (input) Iop_QandQSarNnarrow64Sto32Ux2 :: IROp where "Iop_QandQSarNnarrow64Sto32Ux2 \<equiv> 0x17a9"
abbreviation (input) Iop_QandQRShrNnarrow16Uto8Ux8 :: IROp where "Iop_QandQRShrNnarrow16Uto8Ux8 \<equiv> 0x17aa"
abbreviation (input) Iop_QandQRShrNnarrow32Uto16Ux4 :: IROp where "Iop_QandQRShrNnarrow32Uto16Ux4 \<equiv> 0x17ab"
abbreviation (input) Iop_QandQRShrNnarrow64Uto32Ux2 :: IROp where "Iop_QandQRShrNnarrow64Uto32Ux2 \<equiv> 0x17ac"
abbreviation (input) Iop_QandQRSarNnarrow16Sto8Sx8 :: IROp where "Iop_QandQRSarNnarrow16Sto8Sx8 \<equiv> 0x17ad"
abbreviation (input) Iop_QandQRSarNnarrow32Sto16Sx4 :: IROp where "Iop_QandQRSarNnarrow32Sto16Sx4 \<equiv> 0x17ae"
abbreviation (input) Iop_QandQRSarNnarrow64Sto32Sx2 :: IROp where "Iop_QandQRSarNnarrow64Sto32Sx2 \<equiv> 0x17af"
abbreviation (input) Iop_QandQRSarNnarrow16Sto8Ux8 :: IROp where "Iop_QandQRSarNnarrow16Sto8Ux8 \<equiv> 0x17b0"
abbreviation (input) Iop_QandQRSarNnarrow32Sto16Ux4 :: IROp where "Iop_QandQRSarNnarrow32Sto16Ux4 \<equiv> 0x17b1"
abbreviation (input) Iop_QandQRSarNnarrow64Sto32Ux2 :: IROp where "Iop_QandQRSarNnarrow64Sto32Ux2 \<equiv> 0x17b2"
abbreviation (input) Iop_QNarrowBin16Sto8Ux16 :: IROp where "Iop_QNarrowBin16Sto8Ux16 \<equiv> 0x17b3"
abbreviation (input) Iop_QNarrowBin32Sto16Ux8 :: IROp where "Iop_QNarrowBin32Sto16Ux8 \<equiv> 0x17b4"
abbreviation (input) Iop_QNarrowBin16Sto8Sx16 :: IROp where "Iop_QNarrowBin16Sto8Sx16 \<equiv> 0x17b5"
abbreviation (input) Iop_QNarrowBin32Sto16Sx8 :: IROp where "Iop_QNarrowBin32Sto16Sx8 \<equiv> 0x17b6"
abbreviation (input) Iop_QNarrowBin16Uto8Ux16 :: IROp where "Iop_QNarrowBin16Uto8Ux16 \<equiv> 0x17b7"
abbreviation (input) Iop_QNarrowBin32Uto16Ux8 :: IROp where "Iop_QNarrowBin32Uto16Ux8 \<equiv> 0x17b8"
abbreviation (input) Iop_NarrowBin16to8x16 :: IROp where "Iop_NarrowBin16to8x16 \<equiv> 0x17b9"
abbreviation (input) Iop_NarrowBin32to16x8 :: IROp where "Iop_NarrowBin32to16x8 \<equiv> 0x17ba"
abbreviation (input) Iop_QNarrowBin64Sto32Sx4 :: IROp where "Iop_QNarrowBin64Sto32Sx4 \<equiv> 0x17bb"
abbreviation (input) Iop_QNarrowBin64Uto32Ux4 :: IROp where "Iop_QNarrowBin64Uto32Ux4 \<equiv> 0x17bc"
abbreviation (input) Iop_NarrowBin64to32x4 :: IROp where "Iop_NarrowBin64to32x4 \<equiv> 0x17bd"
abbreviation (input) Iop_NarrowUn16to8x8 :: IROp where "Iop_NarrowUn16to8x8 \<equiv> 0x17be"
abbreviation (input) Iop_NarrowUn32to16x4 :: IROp where "Iop_NarrowUn32to16x4 \<equiv> 0x17bf"
abbreviation (input) Iop_NarrowUn64to32x2 :: IROp where "Iop_NarrowUn64to32x2 \<equiv> 0x17c0"
abbreviation (input) Iop_QNarrowUn16Sto8Sx8 :: IROp where "Iop_QNarrowUn16Sto8Sx8 \<equiv> 0x17c1"
abbreviation (input) Iop_QNarrowUn32Sto16Sx4 :: IROp where "Iop_QNarrowUn32Sto16Sx4 \<equiv> 0x17c2"
abbreviation (input) Iop_QNarrowUn64Sto32Sx2 :: IROp where "Iop_QNarrowUn64Sto32Sx2 \<equiv> 0x17c3"
abbreviation (input) Iop_QNarrowUn16Sto8Ux8 :: IROp where "Iop_QNarrowUn16Sto8Ux8 \<equiv> 0x17c4"
abbreviation (input) Iop_QNarrowUn32Sto16Ux4 :: IROp where "Iop_QNarrowUn32Sto16Ux4 \<equiv> 0x17c5"
abbreviation (input) Iop_QNarrowUn64Sto32Ux2 :: IROp where "Iop_QNarrowUn64Sto32Ux2 \<equiv> 0x17c6"
abbreviation (input) Iop_QNarrowUn16Uto8Ux8 :: IROp where "Iop_QNarrowUn16Uto8Ux8 \<equiv> 0x17c7"
abbreviation (input) Iop_QNarrowUn32Uto16Ux4 :: IROp where "Iop_QNarrowUn32Uto16Ux4 \<equiv> 0x17c8"
abbreviation (input) Iop_QNarrowUn64Uto32Ux2 :: IROp where "Iop_QNarrowUn64Uto32Ux2 \<equiv> 0x17c9"
abbreviation (input) Iop_Widen8Uto16x8 :: IROp where "Iop_Widen8Uto16x8 \<equiv> 0x17ca"
abbreviation (input) Iop_Widen16Uto32x4 :: IROp where "Iop_Widen16Uto32x4 \<equiv> 0x17cb"
abbreviation (input) Iop_Widen32Uto64x2 :: IROp where "Iop_Widen32Uto64x2 \<equiv> 0x17cc"
abbreviation (input) Iop_Widen8Sto16x8 :: IROp where "Iop_Widen8Sto16x8 \<equiv> 0x17cd"
abbreviation (input) Iop_Widen16Sto32x4 :: IROp where "Iop_Widen16Sto32x4 \<equiv> 0x17ce"
abbreviation (input) Iop_Widen32Sto64x2 :: IROp where "Iop_Widen32Sto64x2 \<equiv> 0x17cf"
abbreviation (input) Iop_InterleaveHI8x16 :: IROp where "Iop_InterleaveHI8x16 \<equiv> 0x17d0"
abbreviation (input) Iop_InterleaveHI16x8 :: IROp where "Iop_InterleaveHI16x8 \<equiv> 0x17d1"
abbreviation (input) Iop_InterleaveHI32x4 :: IROp where "Iop_InterleaveHI32x4 \<equiv> 0x17d2"
abbreviation (input) Iop_InterleaveHI64x2 :: IROp where "Iop_InterleaveHI64x2 \<equiv> 0x17d3"
abbreviation (input) Iop_InterleaveLO8x16 :: IROp where "Iop_InterleaveLO8x16 \<equiv> 0x17d4"
abbreviation (input) Iop_InterleaveLO16x8 :: IROp where "Iop_InterleaveLO16x8 \<equiv> 0x17d5"
abbreviation (input) Iop_InterleaveLO32x4 :: IROp where "Iop_InterleaveLO32x4 \<equiv> 0x17d6"
abbreviation (input) Iop_InterleaveLO64x2 :: IROp where "Iop_InterleaveLO64x2 \<equiv> 0x17d7"
abbreviation (input) Iop_InterleaveOddLanes8x16 :: IROp where "Iop_InterleaveOddLanes8x16 \<equiv> 0x17d8"
abbreviation (input) Iop_InterleaveEvenLanes8x16 :: IROp where "Iop_InterleaveEvenLanes8x16 \<equiv> 0x17d9"
abbreviation (input) Iop_InterleaveOddLanes16x8 :: IROp where "Iop_InterleaveOddLanes16x8 \<equiv> 0x17da"
abbreviation (input) Iop_InterleaveEvenLanes16x8 :: IROp where "Iop_InterleaveEvenLanes16x8 \<equiv> 0x17db"
abbreviation (input) Iop_InterleaveOddLanes32x4 :: IROp where "Iop_InterleaveOddLanes32x4 \<equiv> 0x17dc"
abbreviation (input) Iop_InterleaveEvenLanes32x4 :: IROp where "Iop_InterleaveEvenLanes32x4 \<equiv> 0x17dd"
abbreviation (input) Iop_PackOddLanes8x16 :: IROp where "Iop_PackOddLanes8x16 \<equiv> 0x17de"
abbreviation (input) Iop_PackEvenLanes8x16 :: IROp where "Iop_PackEvenLanes8x16 \<equiv> 0x17df"
abbreviation (input) Iop_PackOddLanes16x8 :: IROp where "Iop_PackOddLanes16x8 \<equiv> 0x17e0"
abbreviation (input) Iop_PackEvenLanes16x8 :: IROp where "Iop_PackEvenLanes16x8 \<equiv> 0x17e1"
abbreviation (input) Iop_PackOddLanes32x4 :: IROp where "Iop_PackOddLanes32x4 \<equiv> 0x17e2"
abbreviation (input) Iop_PackEvenLanes32x4 :: IROp where "Iop_PackEvenLanes32x4 \<equiv> 0x17e3"
abbreviation (input) Iop_CatOddLanes8x16 :: IROp where "Iop_CatOddLanes8x16 \<equiv> 0x17e4"
abbreviation (input) Iop_CatOddLanes16x8 :: IROp where "Iop_CatOddLanes16x8 \<equiv> 0x17e5"
abbreviation (input) Iop_CatOddLanes32x4 :: IROp where "Iop_CatOddLanes32x4 \<equiv> 0x17e6"
abbreviation (input) Iop_CatEvenLanes8x16 :: IROp where "Iop_CatEvenLanes8x16 \<equiv> 0x17e7"
abbreviation (input) Iop_CatEvenLanes16x8 :: IROp where "Iop_CatEvenLanes16x8 \<equiv> 0x17e8"
abbreviation (input) Iop_CatEvenLanes32x4 :: IROp where "Iop_CatEvenLanes32x4 \<equiv> 0x17e9"
abbreviation (input) Iop_GetElem8x16 :: IROp where "Iop_GetElem8x16 \<equiv> 0x17ea"
abbreviation (input) Iop_GetElem16x8 :: IROp where "Iop_GetElem16x8 \<equiv> 0x17eb"
abbreviation (input) Iop_GetElem32x4 :: IROp where "Iop_GetElem32x4 \<equiv> 0x17ec"
abbreviation (input) Iop_GetElem64x2 :: IROp where "Iop_GetElem64x2 \<equiv> 0x17ed"
abbreviation (input) Iop_SetElem8x16 :: IROp where "Iop_SetElem8x16 \<equiv> 0x17ee"
abbreviation (input) Iop_SetElem16x8 :: IROp where "Iop_SetElem16x8 \<equiv> 0x17ef"
abbreviation (input) Iop_SetElem32x4 :: IROp where "Iop_SetElem32x4 \<equiv> 0x17f0"
abbreviation (input) Iop_SetElem64x2 :: IROp where "Iop_SetElem64x2 \<equiv> 0x17f1"
abbreviation (input) Iop_Dup8x16 :: IROp where "Iop_Dup8x16 \<equiv> 0x17f2"
abbreviation (input) Iop_Dup16x8 :: IROp where "Iop_Dup16x8 \<equiv> 0x17f3"
abbreviation (input) Iop_Dup32x4 :: IROp where "Iop_Dup32x4 \<equiv> 0x17f4"
abbreviation (input) Iop_SliceV128 :: IROp where "Iop_SliceV128 \<equiv> 0x17f5"
abbreviation (input) Iop_Reverse8sIn16_x8 :: IROp where "Iop_Reverse8sIn16_x8 \<equiv> 0x17f6"
abbreviation (input) Iop_Reverse8sIn32_x4 :: IROp where "Iop_Reverse8sIn32_x4 \<equiv> 0x17f7"
abbreviation (input) Iop_Reverse16sIn32_x4 :: IROp where "Iop_Reverse16sIn32_x4 \<equiv> 0x17f8"
abbreviation (input) Iop_Reverse8sIn64_x2 :: IROp where "Iop_Reverse8sIn64_x2 \<equiv> 0x17f9"
abbreviation (input) Iop_Reverse16sIn64_x2 :: IROp where "Iop_Reverse16sIn64_x2 \<equiv> 0x17fa"
abbreviation (input) Iop_Reverse32sIn64_x2 :: IROp where "Iop_Reverse32sIn64_x2 \<equiv> 0x17fb"
abbreviation (input) Iop_Reverse1sIn8_x16 :: IROp where "Iop_Reverse1sIn8_x16 \<equiv> 0x17fc"
abbreviation (input) Iop_Perm8x16 :: IROp where "Iop_Perm8x16 \<equiv> 0x17fd"
abbreviation (input) Iop_Perm32x4 :: IROp where "Iop_Perm32x4 \<equiv> 0x17fe"
abbreviation (input) Iop_PermOrZero8x16 :: IROp where "Iop_PermOrZero8x16 \<equiv> 0x17ff"
abbreviation (input) Iop_Perm8x16x2 :: IROp where "Iop_Perm8x16x2 \<equiv> 0x1800"
abbreviation (input) Iop_GetMSBs8x16 :: IROp where "Iop_GetMSBs8x16 \<equiv> 0x1801"
abbreviation (input) Iop_RecipEst32Ux4 :: IROp where "Iop_RecipEst32Ux4 \<equiv> 0x1802"
abbreviation (input) Iop_RSqrtEst32Ux4 :: IROp where "Iop_RSqrtEst32Ux4 \<equiv> 0x1803"
abbreviation (input) Iop_MulI128by10 :: IROp where "Iop_MulI128by10 \<equiv> 0x1804"
abbreviation (input) Iop_MulI128by10Carry :: IROp where "Iop_MulI128by10Carry \<equiv> 0x1805"
abbreviation (input) Iop_MulI128by10E :: IROp where "Iop_MulI128by10E \<equiv> 0x1806"
abbreviation (input) Iop_MulI128by10ECarry :: IROp where "Iop_MulI128by10ECarry \<equiv> 0x1807"
abbreviation (input) Iop_2xMultU64Add128CarryOut :: IROp where "Iop_2xMultU64Add128CarryOut \<equiv> 0x1808"
abbreviation (input) Iop_V256to64_0 :: IROp where "Iop_V256to64_0 \<equiv> 0x1809"
abbreviation (input) Iop_V256to64_1 :: IROp where "Iop_V256to64_1 \<equiv> 0x180a"
abbreviation (input) Iop_V256to64_2 :: IROp where "Iop_V256to64_2 \<equiv> 0x180b"
abbreviation (input) Iop_V256to64_3 :: IROp where "Iop_V256to64_3 \<equiv> 0x180c"
abbreviation (input) Iop_64x4toV256 :: IROp where "Iop_64x4toV256 \<equiv> 0x180d"
abbreviation (input) Iop_V256toV128_0 :: IROp where "Iop_V256toV128_0 \<equiv> 0x180e"
abbreviation (input) Iop_V256toV128_1 :: IROp where "Iop_V256toV128_1 \<equiv> 0x180f"
abbreviation (input) Iop_V128HLtoV256 :: IROp where "Iop_V128HLtoV256 \<equiv> 0x1810"
abbreviation (input) Iop_AndV256 :: IROp where "Iop_AndV256 \<equiv> 0x1811"
abbreviation (input) Iop_OrV256 :: IROp where "Iop_OrV256 \<equiv> 0x1812"
abbreviation (input) Iop_XorV256 :: IROp where "Iop_XorV256 \<equiv> 0x1813"
abbreviation (input) Iop_NotV256 :: IROp where "Iop_NotV256 \<equiv> 0x1814"
abbreviation (input) Iop_CmpNEZ8x32 :: IROp where "Iop_CmpNEZ8x32 \<equiv> 0x1815"
abbreviation (input) Iop_CmpNEZ16x16 :: IROp where "Iop_CmpNEZ16x16 \<equiv> 0x1816"
abbreviation (input) Iop_CmpNEZ32x8 :: IROp where "Iop_CmpNEZ32x8 \<equiv> 0x1817"
abbreviation (input) Iop_CmpNEZ64x4 :: IROp where "Iop_CmpNEZ64x4 \<equiv> 0x1818"
abbreviation (input) Iop_Add8x32 :: IROp where "Iop_Add8x32 \<equiv> 0x1819"
abbreviation (input) Iop_Add16x16 :: IROp where "Iop_Add16x16 \<equiv> 0x181a"
abbreviation (input) Iop_Add32x8 :: IROp where "Iop_Add32x8 \<equiv> 0x181b"
abbreviation (input) Iop_Add64x4 :: IROp where "Iop_Add64x4 \<equiv> 0x181c"
abbreviation (input) Iop_Sub8x32 :: IROp where "Iop_Sub8x32 \<equiv> 0x181d"
abbreviation (input) Iop_Sub16x16 :: IROp where "Iop_Sub16x16 \<equiv> 0x181e"
abbreviation (input) Iop_Sub32x8 :: IROp where "Iop_Sub32x8 \<equiv> 0x181f"
abbreviation (input) Iop_Sub64x4 :: IROp where "Iop_Sub64x4 \<equiv> 0x1820"
abbreviation (input) Iop_CmpEQ8x32 :: IROp where "Iop_CmpEQ8x32 \<equiv> 0x1821"
abbreviation (input) Iop_CmpEQ16x16 :: IROp where "Iop_CmpEQ16x16 \<equiv> 0x1822"
abbreviation (input) Iop_CmpEQ32x8 :: IROp where "Iop_CmpEQ32x8 \<equiv> 0x1823"
abbreviation (input) Iop_CmpEQ64x4 :: IROp where "Iop_CmpEQ64x4 \<equiv> 0x1824"
abbreviation (input) Iop_CmpGT8Sx32 :: IROp where "Iop_CmpGT8Sx32 \<equiv> 0x1825"
abbreviation (input) Iop_CmpGT16Sx16 :: IROp where "Iop_CmpGT16Sx16 \<equiv> 0x1826"
abbreviation (input) Iop_CmpGT32Sx8 :: IROp where "Iop_CmpGT32Sx8 \<equiv> 0x1827"
abbreviation (input) Iop_CmpGT64Sx4 :: IROp where "Iop_CmpGT64Sx4 \<equiv> 0x1828"
abbreviation (input) Iop_ShlN16x16 :: IROp where "Iop_ShlN16x16 \<equiv> 0x1829"
abbreviation (input) Iop_ShlN32x8 :: IROp where "Iop_ShlN32x8 \<equiv> 0x182a"
abbreviation (input) Iop_ShlN64x4 :: IROp where "Iop_ShlN64x4 \<equiv> 0x182b"
abbreviation (input) Iop_ShrN16x16 :: IROp where "Iop_ShrN16x16 \<equiv> 0x182c"
abbreviation (input) Iop_ShrN32x8 :: IROp where "Iop_ShrN32x8 \<equiv> 0x182d"
abbreviation (input) Iop_ShrN64x4 :: IROp where "Iop_ShrN64x4 \<equiv> 0x182e"
abbreviation (input) Iop_SarN16x16 :: IROp where "Iop_SarN16x16 \<equiv> 0x182f"
abbreviation (input) Iop_SarN32x8 :: IROp where "Iop_SarN32x8 \<equiv> 0x1830"
abbreviation (input) Iop_Max8Sx32 :: IROp where "Iop_Max8Sx32 \<equiv> 0x1831"
abbreviation (input) Iop_Max16Sx16 :: IROp where "Iop_Max16Sx16 \<equiv> 0x1832"
abbreviation (input) Iop_Max32Sx8 :: IROp where "Iop_Max32Sx8 \<equiv> 0x1833"
abbreviation (input) Iop_Max8Ux32 :: IROp where "Iop_Max8Ux32 \<equiv> 0x1834"
abbreviation (input) Iop_Max16Ux16 :: IROp where "Iop_Max16Ux16 \<equiv> 0x1835"
abbreviation (input) Iop_Max32Ux8 :: IROp where "Iop_Max32Ux8 \<equiv> 0x1836"
abbreviation (input) Iop_Min8Sx32 :: IROp where "Iop_Min8Sx32 \<equiv> 0x1837"
abbreviation (input) Iop_Min16Sx16 :: IROp where "Iop_Min16Sx16 \<equiv> 0x1838"
abbreviation (input) Iop_Min32Sx8 :: IROp where "Iop_Min32Sx8 \<equiv> 0x1839"
abbreviation (input) Iop_Min8Ux32 :: IROp where "Iop_Min8Ux32 \<equiv> 0x183a"
abbreviation (input) Iop_Min16Ux16 :: IROp where "Iop_Min16Ux16 \<equiv> 0x183b"
abbreviation (input) Iop_Min32Ux8 :: IROp where "Iop_Min32Ux8 \<equiv> 0x183c"
abbreviation (input) Iop_Mul16x16 :: IROp where "Iop_Mul16x16 \<equiv> 0x183d"
abbreviation (input) Iop_Mul32x8 :: IROp where "Iop_Mul32x8 \<equiv> 0x183e"
abbreviation (input) Iop_MulHi16Ux16 :: IROp where "Iop_MulHi16Ux16 \<equiv> 0x183f"
abbreviation (input) Iop_MulHi16Sx16 :: IROp where "Iop_MulHi16Sx16 \<equiv> 0x1840"
abbreviation (input) Iop_QAdd8Ux32 :: IROp where "Iop_QAdd8Ux32 \<equiv> 0x1841"
abbreviation (input) Iop_QAdd16Ux16 :: IROp where "Iop_QAdd16Ux16 \<equiv> 0x1842"
abbreviation (input) Iop_QAdd8Sx32 :: IROp where "Iop_QAdd8Sx32 \<equiv> 0x1843"
abbreviation (input) Iop_QAdd16Sx16 :: IROp where "Iop_QAdd16Sx16 \<equiv> 0x1844"
abbreviation (input) Iop_QSub8Ux32 :: IROp where "Iop_QSub8Ux32 \<equiv> 0x1845"
abbreviation (input) Iop_QSub16Ux16 :: IROp where "Iop_QSub16Ux16 \<equiv> 0x1846"
abbreviation (input) Iop_QSub8Sx32 :: IROp where "Iop_QSub8Sx32 \<equiv> 0x1847"
abbreviation (input) Iop_QSub16Sx16 :: IROp where "Iop_QSub16Sx16 \<equiv> 0x1848"
abbreviation (input) Iop_Avg8Ux32 :: IROp where "Iop_Avg8Ux32 \<equiv> 0x1849"
abbreviation (input) Iop_Avg16Ux16 :: IROp where "Iop_Avg16Ux16 \<equiv> 0x184a"
abbreviation (input) Iop_Perm32x8 :: IROp where "Iop_Perm32x8 \<equiv> 0x184b"
abbreviation (input) Iop_CipherV128 :: IROp where "Iop_CipherV128 \<equiv> 0x184c"
abbreviation (input) Iop_CipherLV128 :: IROp where "Iop_CipherLV128 \<equiv> 0x184d"
abbreviation (input) Iop_CipherSV128 :: IROp where "Iop_CipherSV128 \<equiv> 0x184e"
abbreviation (input) Iop_NCipherV128 :: IROp where "Iop_NCipherV128 \<equiv> 0x184f"
abbreviation (input) Iop_NCipherLV128 :: IROp where "Iop_NCipherLV128 \<equiv> 0x1850"
abbreviation (input) Iop_SHA512 :: IROp where "Iop_SHA512 \<equiv> 0x1851"
abbreviation (input) Iop_SHA256 :: IROp where "Iop_SHA256 \<equiv> 0x1852"
abbreviation (input) Iop_Add64Fx4 :: IROp where "Iop_Add64Fx4 \<equiv> 0x1853"
abbreviation (input) Iop_Sub64Fx4 :: IROp where "Iop_Sub64Fx4 \<equiv> 0x1854"
abbreviation (input) Iop_Mul64Fx4 :: IROp where "Iop_Mul64Fx4 \<equiv> 0x1855"
abbreviation (input) Iop_Div64Fx4 :: IROp where "Iop_Div64Fx4 \<equiv> 0x1856"
abbreviation (input) Iop_Add32Fx8 :: IROp where "Iop_Add32Fx8 \<equiv> 0x1857"
abbreviation (input) Iop_Sub32Fx8 :: IROp where "Iop_Sub32Fx8 \<equiv> 0x1858"
abbreviation (input) Iop_Mul32Fx8 :: IROp where "Iop_Mul32Fx8 \<equiv> 0x1859"
abbreviation (input) Iop_Div32Fx8 :: IROp where "Iop_Div32Fx8 \<equiv> 0x185a"
abbreviation (input) Iop_I32StoF32x8 :: IROp where "Iop_I32StoF32x8 \<equiv> 0x185b"
abbreviation (input) Iop_F32toI32Sx8 :: IROp where "Iop_F32toI32Sx8 \<equiv> 0x185c"
abbreviation (input) Iop_F32toF16x8 :: IROp where "Iop_F32toF16x8 \<equiv> 0x185d"
abbreviation (input) Iop_F16toF32x8 :: IROp where "Iop_F16toF32x8 \<equiv> 0x185e"
abbreviation (input) Iop_Sqrt32Fx8 :: IROp where "Iop_Sqrt32Fx8 \<equiv> 0x185f"
abbreviation (input) Iop_Sqrt64Fx4 :: IROp where "Iop_Sqrt64Fx4 \<equiv> 0x1860"
abbreviation (input) Iop_RSqrtEst32Fx8 :: IROp where "Iop_RSqrtEst32Fx8 \<equiv> 0x1861"
abbreviation (input) Iop_RecipEst32Fx8 :: IROp where "Iop_RecipEst32Fx8 \<equiv> 0x1862"
abbreviation (input) Iop_Max32Fx8 :: IROp where "Iop_Max32Fx8 \<equiv> 0x1863"
abbreviation (input) Iop_Min32Fx8 :: IROp where "Iop_Min32Fx8 \<equiv> 0x1864"
abbreviation (input) Iop_Max64Fx4 :: IROp where "Iop_Max64Fx4 \<equiv> 0x1865"
abbreviation (input) Iop_Min64Fx4 :: IROp where "Iop_Min64Fx4 \<equiv> 0x1866"
abbreviation (input) Iop_Rotx32 :: IROp where "Iop_Rotx32 \<equiv> 0x1867"
abbreviation (input) Iop_Rotx64 :: IROp where "Iop_Rotx64 \<equiv> 0x1868"
abbreviation (input) Iop_LAST :: IROp where "Iop_LAST \<equiv> 0x1869"

section \<open>Types of primitive operations\<close>

text \<open>
  The result type and the types of up to four arguments; an argument that the operation does
  not have is \<^term>\<open>Ity_INVALID\<close>, as in the out-parameters of the C function. The
  abbreviating functions are the macros of the source.
\<close>

type_synonym primop_types = "IRType \<times> IRType \<times> IRType \<times> IRType \<times> IRType"

definition ity_RMode :: IRType where
  "ity_RMode = Ity_I32"

definition UNARY :: "IRType \<Rightarrow> IRType \<Rightarrow> primop_types" where
  "UNARY ta1 td = (td, ta1, Ity_INVALID, Ity_INVALID, Ity_INVALID)"

definition BINARY :: "IRType \<Rightarrow> IRType \<Rightarrow> IRType \<Rightarrow> primop_types" where
  "BINARY ta1 ta2 td = (td, ta1, ta2, Ity_INVALID, Ity_INVALID)"

definition TERNARY :: "IRType \<Rightarrow> IRType \<Rightarrow> IRType \<Rightarrow> IRType \<Rightarrow> primop_types" where
  "TERNARY ta1 ta2 ta3 td = (td, ta1, ta2, ta3, Ity_INVALID)"

definition QUATERNARY :: "IRType \<Rightarrow> IRType \<Rightarrow> IRType \<Rightarrow> IRType \<Rightarrow> IRType \<Rightarrow> primop_types" where
  "QUATERNARY ta1 ta2 ta3 ta4 td = (td, ta1, ta2, ta3, ta4)"

definition COMPARISON :: "IRType \<Rightarrow> primop_types" where
  "COMPARISON ta = (Ity_I1, ta, ta, Ity_INVALID, Ity_INVALID)"

definition UNARY_COMPARISON :: "IRType \<Rightarrow> primop_types" where
  "UNARY_COMPARISON ta = (Ity_I1, ta, Ity_INVALID, Ity_INVALID, Ity_INVALID)"

lemmas primop_sig_defs =
  UNARY_def BINARY_def TERNARY_def QUATERNARY_def COMPARISON_def UNARY_COMPARISON_def ity_RMode_def

definition typeOfPrimop_8 :: "IROp \<Rightarrow> vex_error + primop_types" where
  "typeOfPrimop_8 op = (
  if op \<in> {
      Iop_NotV256, Iop_RSqrtEst32Fx8, Iop_Sqrt32Fx8, Iop_Sqrt64Fx4, Iop_RecipEst32Fx8,
      Iop_CmpNEZ8x32, Iop_CmpNEZ16x16, Iop_CmpNEZ64x4, Iop_CmpNEZ32x8}
  then Inr (UNARY Ity_V256 Ity_V256)
  else
  if op \<in> {
      Iop_ShlN16x16, Iop_ShlN32x8, Iop_ShlN64x4, Iop_ShrN16x16, Iop_ShrN32x8, Iop_ShrN64x4,
      Iop_SarN16x16, Iop_SarN32x8}
  then Inr (BINARY Ity_V256 Ity_I8 Ity_V256)
  else
  if op \<in> {
      Iop_Rotx32}
  then Inr (QUATERNARY Ity_I32 Ity_I8 Ity_I8 Ity_I8 Ity_I32)
  else
  if op \<in> {
      Iop_Rotx64}
  then Inr (QUATERNARY Ity_I64 Ity_I8 Ity_I8 Ity_I8 Ity_I64)
  else
  Inl (Vpanic ''typeOfPrimop''))"

definition typeOfPrimop_7 :: "IROp \<Rightarrow> vex_error + primop_types" where
  "typeOfPrimop_7 op = (
  if op \<in> {
      Iop_F32toD64}
  then Inr (BINARY ity_RMode Ity_F32 Ity_D64)
  else
  if op \<in> {
      Iop_F32toD128}
  then Inr (BINARY ity_RMode Ity_F32 Ity_D128)
  else
  if op \<in> {
      Iop_F64toD32}
  then Inr (BINARY ity_RMode Ity_F64 Ity_D32)
  else
  if op \<in> {
      Iop_F64toD64}
  then Inr (BINARY ity_RMode Ity_F64 Ity_D64)
  else
  if op \<in> {
      Iop_F64toD128}
  then Inr (BINARY ity_RMode Ity_F64 Ity_D128)
  else
  if op \<in> {
      Iop_F128toD32}
  then Inr (BINARY ity_RMode Ity_F128 Ity_D32)
  else
  if op \<in> {
      Iop_F128toD64}
  then Inr (BINARY ity_RMode Ity_F128 Ity_D64)
  else
  if op \<in> {
      Iop_F128toD128}
  then Inr (BINARY ity_RMode Ity_F128 Ity_D128)
  else
  if op \<in> {
      Iop_D32toF32}
  then Inr (BINARY ity_RMode Ity_D32 Ity_F32)
  else
  if op \<in> {
      Iop_D32toF64}
  then Inr (BINARY ity_RMode Ity_D32 Ity_F64)
  else
  if op \<in> {
      Iop_D32toF128}
  then Inr (BINARY ity_RMode Ity_D32 Ity_F128)
  else
  if op \<in> {
      Iop_D64toF32}
  then Inr (BINARY ity_RMode Ity_D64 Ity_F32)
  else
  if op \<in> {
      Iop_D64toF64}
  then Inr (BINARY ity_RMode Ity_D64 Ity_F64)
  else
  if op \<in> {
      Iop_D64toF128}
  then Inr (BINARY ity_RMode Ity_D64 Ity_F128)
  else
  if op \<in> {
      Iop_D128toF32}
  then Inr (BINARY ity_RMode Ity_D128 Ity_F32)
  else
  if op \<in> {
      Iop_D128toF64}
  then Inr (BINARY ity_RMode Ity_D128 Ity_F64)
  else
  if op \<in> {
      Iop_D128toF128}
  then Inr (BINARY ity_RMode Ity_D128 Ity_F128)
  else
  if op \<in> {
      Iop_CmpD64, Iop_CmpExpD64}
  then Inr (BINARY Ity_D64 Ity_D64 Ity_I32)
  else
  if op \<in> {
      Iop_CmpD128, Iop_CmpExpD128}
  then Inr (BINARY Ity_D128 Ity_D128 Ity_I32)
  else
  if op \<in> {
      Iop_QuantizeD64}
  then Inr (TERNARY ity_RMode Ity_D64 Ity_D64 Ity_D64)
  else
  if op \<in> {
      Iop_SignificanceRoundD64}
  then Inr (TERNARY ity_RMode Ity_I8 Ity_D64 Ity_D64)
  else
  if op \<in> {
      Iop_QuantizeD128}
  then Inr (TERNARY ity_RMode Ity_D128 Ity_D128 Ity_D128)
  else
  if op \<in> {
      Iop_SignificanceRoundD128}
  then Inr (TERNARY ity_RMode Ity_I8 Ity_D128 Ity_D128)
  else
  if op \<in> {
      Iop_ShlD128, Iop_ShrD128}
  then Inr (BINARY Ity_D128 Ity_I8 Ity_D128)
  else
  if op \<in> {
      Iop_AddD64, Iop_SubD64, Iop_MulD64, Iop_DivD64}
  then Inr (TERNARY ity_RMode Ity_D64 Ity_D64 Ity_D64)
  else
  if op \<in> {
      Iop_D128toD64}
  then Inr (BINARY ity_RMode Ity_D128 Ity_D64)
  else
  if op \<in> {
      Iop_AddD128, Iop_SubD128, Iop_MulD128, Iop_DivD128}
  then Inr (TERNARY ity_RMode Ity_D128 Ity_D128 Ity_D128)
  else
  if op \<in> {
      Iop_V256to64_0, Iop_V256to64_1, Iop_V256to64_2, Iop_V256to64_3}
  then Inr (UNARY Ity_V256 Ity_I64)
  else
  if op \<in> {
      Iop_64x4toV256}
  then Inr (QUATERNARY Ity_I64 Ity_I64 Ity_I64 Ity_I64 Ity_V256)
  else
  if op \<in> {
      Iop_AndV256, Iop_OrV256, Iop_XorV256, Iop_Max32Fx8, Iop_Min32Fx8, Iop_Max64Fx4,
      Iop_Min64Fx4, Iop_Add8x32, Iop_Add16x16, Iop_Add32x8, Iop_Add64x4, Iop_Sub8x32,
      Iop_Sub16x16, Iop_Sub32x8, Iop_Sub64x4, Iop_Mul16x16, Iop_Mul32x8, Iop_MulHi16Ux16,
      Iop_MulHi16Sx16, Iop_Avg8Ux32, Iop_Avg16Ux16, Iop_Max8Sx32, Iop_Max16Sx16, Iop_Max32Sx8,
      Iop_Max8Ux32, Iop_Max16Ux16, Iop_Max32Ux8, Iop_Min8Sx32, Iop_Min16Sx16, Iop_Min32Sx8,
      Iop_Min8Ux32, Iop_Min16Ux16, Iop_Min32Ux8, Iop_CmpEQ8x32, Iop_CmpEQ16x16, Iop_CmpEQ32x8,
      Iop_CmpEQ64x4, Iop_CmpGT8Sx32, Iop_CmpGT16Sx16, Iop_CmpGT32Sx8, Iop_CmpGT64Sx4,
      Iop_QAdd8Ux32, Iop_QAdd16Ux16, Iop_QAdd8Sx32, Iop_QAdd16Sx16, Iop_QSub8Ux32, Iop_QSub16Ux16,
      Iop_QSub8Sx32, Iop_QSub16Sx16, Iop_Perm32x8}
  then Inr (BINARY Ity_V256 Ity_V256 Ity_V256)
  else
  if op \<in> {
      Iop_I32StoF32x8, Iop_F32toI32Sx8}
  then Inr (BINARY ity_RMode Ity_V256 Ity_V256)
  else
  if op \<in> {
      Iop_F32toF16x8}
  then Inr (BINARY ity_RMode Ity_V256 Ity_V128)
  else
  if op \<in> {
      Iop_V256toV128_1, Iop_V256toV128_0}
  then Inr (UNARY Ity_V256 Ity_V128)
  else
  if op \<in> {
      Iop_F16toF32x8}
  then Inr (UNARY Ity_V128 Ity_V256)
  else
  if op \<in> {
      Iop_QandUQsh8x16, Iop_QandUQsh16x8, Iop_QandUQsh32x4, Iop_QandUQsh64x2, Iop_QandSQsh8x16,
      Iop_QandSQsh16x8, Iop_QandSQsh32x4, Iop_QandSQsh64x2, Iop_QandUQRsh8x16, Iop_QandUQRsh16x8,
      Iop_QandUQRsh32x4, Iop_QandUQRsh64x2, Iop_QandSQRsh8x16, Iop_QandSQRsh16x8,
      Iop_QandSQRsh32x4, Iop_QandSQRsh64x2, Iop_V128HLtoV256}
  then Inr (BINARY Ity_V128 Ity_V128 Ity_V256)
  else
  typeOfPrimop_8 op)"

definition typeOfPrimop_6 :: "IROp \<Rightarrow> vex_error + primop_types" where
  "typeOfPrimop_6 op = (
  if op \<in> {
      Iop_Add64Fx2, Iop_Sub64Fx2, Iop_Mul64Fx2, Iop_Div64Fx2, Iop_Add32Fx4, Iop_Sub32Fx4,
      Iop_Mul32Fx4, Iop_Div32Fx4, Iop_Add16Fx8, Iop_Sub16Fx8, Iop_F64x2_2toQ32x4,
      Iop_F32x4_2toQ16x8}
  then Inr (TERNARY ity_RMode Ity_V128 Ity_V128 Ity_V128)
  else
  if op \<in> {
      Iop_Add64Fx4, Iop_Sub64Fx4, Iop_Mul64Fx4, Iop_Div64Fx4, Iop_Add32Fx8, Iop_Sub32Fx8,
      Iop_Mul32Fx8, Iop_Div32Fx8}
  then Inr (TERNARY ity_RMode Ity_V256 Ity_V256 Ity_V256)
  else
  if op \<in> {
      Iop_NegF128, Iop_AbsF128}
  then Inr (UNARY Ity_F128 Ity_F128)
  else
  if op \<in> {
      Iop_SqrtF128, Iop_RoundF128toInt}
  then Inr (BINARY ity_RMode Ity_F128 Ity_F128)
  else
  if op \<in> {
      Iop_I32StoF128}
  then Inr (UNARY Ity_I32 Ity_F128)
  else
  if op \<in> {
      Iop_I64StoF128}
  then Inr (UNARY Ity_I64 Ity_F128)
  else
  if op \<in> {
      Iop_I32UtoF128}
  then Inr (UNARY Ity_I32 Ity_F128)
  else
  if op \<in> {
      Iop_I64UtoF128}
  then Inr (UNARY Ity_I64 Ity_F128)
  else
  if op \<in> {
      Iop_F128toI32S}
  then Inr (BINARY ity_RMode Ity_F128 Ity_I32)
  else
  if op \<in> {
      Iop_F128toI64S}
  then Inr (BINARY ity_RMode Ity_F128 Ity_I64)
  else
  if op \<in> {
      Iop_F128toI32U}
  then Inr (BINARY ity_RMode Ity_F128 Ity_I32)
  else
  if op \<in> {
      Iop_F128toI64U}
  then Inr (BINARY ity_RMode Ity_F128 Ity_I64)
  else
  if op \<in> {
      Iop_F32toF128}
  then Inr (UNARY Ity_F32 Ity_F128)
  else
  if op \<in> {
      Iop_F64toF128}
  then Inr (UNARY Ity_F64 Ity_F128)
  else
  if op \<in> {
      Iop_F128toF32}
  then Inr (BINARY ity_RMode Ity_F128 Ity_F32)
  else
  if op \<in> {
      Iop_F128toF64}
  then Inr (BINARY ity_RMode Ity_F128 Ity_F64)
  else
  if op \<in> {
      Iop_TruncF128toI32S, Iop_TruncF128toI64S, Iop_TruncF128toI128S, Iop_TruncF128toI32U,
      Iop_TruncF128toI64U, Iop_TruncF128toI128U}
  then Inr (UNARY Ity_F128 Ity_F128)
  else
  if op \<in> {
      Iop_F128toI128S, Iop_RndF128}
  then Inr (BINARY ity_RMode Ity_F128 Ity_F128)
  else
  if op \<in> {
      Iop_D32toD64}
  then Inr (UNARY Ity_D32 Ity_D64)
  else
  if op \<in> {
      Iop_ExtractExpD64}
  then Inr (UNARY Ity_D64 Ity_I64)
  else
  if op \<in> {
      Iop_ExtractSigD64}
  then Inr (UNARY Ity_D64 Ity_I64)
  else
  if op \<in> {
      Iop_InsertExpD64}
  then Inr (BINARY Ity_I64 Ity_D64 Ity_D64)
  else
  if op \<in> {
      Iop_ExtractExpD128}
  then Inr (UNARY Ity_D128 Ity_I64)
  else
  if op \<in> {
      Iop_ExtractSigD128}
  then Inr (UNARY Ity_D128 Ity_I64)
  else
  if op \<in> {
      Iop_InsertExpD128}
  then Inr (BINARY Ity_I64 Ity_D128 Ity_D128)
  else
  if op \<in> {
      Iop_D64toD128}
  then Inr (UNARY Ity_D64 Ity_D128)
  else
  if op \<in> {
      Iop_ReinterpD64asI64}
  then Inr (UNARY Ity_D64 Ity_I64)
  else
  if op \<in> {
      Iop_ReinterpI64asD64}
  then Inr (UNARY Ity_I64 Ity_D64)
  else
  if op \<in> {
      Iop_RoundD64toInt}
  then Inr (BINARY ity_RMode Ity_D64 Ity_D64)
  else
  if op \<in> {
      Iop_RoundD128toInt}
  then Inr (BINARY ity_RMode Ity_D128 Ity_D128)
  else
  if op \<in> {
      Iop_I32StoD128, Iop_I32UtoD128}
  then Inr (UNARY Ity_I32 Ity_D128)
  else
  if op \<in> {
      Iop_I64StoD128}
  then Inr (UNARY Ity_I64 Ity_D128)
  else
  if op \<in> {
      Iop_I64UtoD128}
  then Inr (UNARY Ity_I64 Ity_D128)
  else
  if op \<in> {
      Iop_DPBtoBCD, Iop_BCDtoDPB}
  then Inr (UNARY Ity_I64 Ity_I64)
  else
  if op \<in> {
      Iop_D128HItoD64, Iop_D128LOtoD64}
  then Inr (UNARY Ity_D128 Ity_D64)
  else
  if op \<in> {
      Iop_D128toI64S}
  then Inr (BINARY ity_RMode Ity_D128 Ity_I64)
  else
  if op \<in> {
      Iop_D128toI64U}
  then Inr (BINARY ity_RMode Ity_D128 Ity_I64)
  else
  if op \<in> {
      Iop_D128toI32S, Iop_D128toI32U}
  then Inr (BINARY ity_RMode Ity_D128 Ity_I32)
  else
  if op \<in> {
      Iop_D64HLtoD128}
  then Inr (BINARY Ity_D64 Ity_D64 Ity_D128)
  else
  if op \<in> {
      Iop_ShlD64, Iop_ShrD64}
  then Inr (BINARY Ity_D64 Ity_I8 Ity_D64)
  else
  if op \<in> {
      Iop_D64toD32}
  then Inr (BINARY ity_RMode Ity_D64 Ity_D32)
  else
  if op \<in> {
      Iop_D64toI32S, Iop_D64toI32U}
  then Inr (BINARY ity_RMode Ity_D64 Ity_I32)
  else
  if op \<in> {
      Iop_D64toI64S}
  then Inr (BINARY ity_RMode Ity_D64 Ity_I64)
  else
  if op \<in> {
      Iop_D64toI64U}
  then Inr (BINARY ity_RMode Ity_D64 Ity_I64)
  else
  if op \<in> {
      Iop_I32StoD64, Iop_I32UtoD64}
  then Inr (UNARY Ity_I32 Ity_D64)
  else
  if op \<in> {
      Iop_I64StoD64}
  then Inr (BINARY ity_RMode Ity_I64 Ity_D64)
  else
  if op \<in> {
      Iop_I64UtoD64}
  then Inr (BINARY ity_RMode Ity_I64 Ity_D64)
  else
  if op \<in> {
      Iop_F32toD32}
  then Inr (BINARY ity_RMode Ity_F32 Ity_D32)
  else
  typeOfPrimop_7 op)"

definition typeOfPrimop_5 :: "IROp \<Rightarrow> vex_error + primop_types" where
  "typeOfPrimop_5 op = (
  if op \<in> {
      Iop_NotV128, Iop_RecipEst32Fx4, Iop_RecipEst32F0x4, Iop_RecipEst64Fx2, Iop_RSqrtEst64Fx2,
      Iop_RecipEst32Ux4, Iop_RSqrtEst32F0x4, Iop_Sqrt32F0x4, Iop_Sqrt64F0x2, Iop_CmpNEZ8x16,
      Iop_CmpNEZ16x8, Iop_CmpNEZ32x4, Iop_CmpNEZ64x2, Iop_CmpNEZ128x1, Iop_Cnt8x16, Iop_Clz8x16,
      Iop_Clz16x8, Iop_Clz32x4, Iop_Clz64x2, Iop_Cls8x16, Iop_Cls16x8, Iop_Cls32x4,
      Iop_PwAddL8Ux16, Iop_PwAddL16Ux8, Iop_PwAddL32Ux4, Iop_PwAddL64Ux2, Iop_PwAddL8Sx16,
      Iop_PwAddL16Sx8, Iop_PwAddL32Sx4, Iop_Reverse8sIn64_x2, Iop_Reverse16sIn64_x2,
      Iop_Reverse32sIn64_x2, Iop_Reverse8sIn32_x4, Iop_Reverse16sIn32_x4, Iop_Reverse8sIn16_x8,
      Iop_Reverse1sIn8_x16, Iop_Neg64Fx2, Iop_Neg32Fx4, Iop_Neg16Fx8, Iop_Abs8x16, Iop_Abs16x8,
      Iop_Abs32x4, Iop_Abs64x2, Iop_CipherSV128, Iop_PwBitMtxXpose64x2, Iop_ZeroHI64ofV128,
      Iop_ZeroHI96ofV128, Iop_ZeroHI112ofV128, Iop_ZeroHI120ofV128, Iop_F16toF64x2,
      Iop_F64toF16x2_DEP, Iop_MulI128by10, Iop_MulI128by10Carry, Iop_Ctz8x16, Iop_Ctz16x8,
      Iop_Ctz32x4, Iop_Ctz64x2, Iop_BCD128toI128S}
  then Inr (UNARY Ity_V128 Ity_V128)
  else
  if op \<in> {
      Iop_ShlV128, Iop_ShrV128, Iop_SarV128, Iop_ShlN8x16, Iop_ShlN16x8, Iop_ShlN32x4,
      Iop_ShlN64x2, Iop_ShrN8x16, Iop_ShrN16x8, Iop_ShrN32x4, Iop_ShrN64x2, Iop_SarN8x16,
      Iop_SarN16x8, Iop_SarN32x4, Iop_SarN64x2, Iop_QShlNsatUU8x16, Iop_QShlNsatUU16x8,
      Iop_QShlNsatUU32x4, Iop_QShlNsatUU64x2, Iop_QShlNsatSU8x16, Iop_QShlNsatSU16x8,
      Iop_QShlNsatSU32x4, Iop_QShlNsatSU64x2, Iop_QShlNsatSS8x16, Iop_QShlNsatSS16x8,
      Iop_QShlNsatSS32x4, Iop_QShlNsatSS64x2, Iop_SHA256, Iop_SHA512,
      Iop_QandQShrNnarrow16Uto8Ux8, Iop_QandQShrNnarrow32Uto16Ux4, Iop_QandQShrNnarrow64Uto32Ux2,
      Iop_QandQSarNnarrow16Sto8Sx8, Iop_QandQSarNnarrow32Sto16Sx4, Iop_QandQSarNnarrow64Sto32Sx2,
      Iop_QandQSarNnarrow16Sto8Ux8, Iop_QandQSarNnarrow32Sto16Ux4, Iop_QandQSarNnarrow64Sto32Ux2,
      Iop_QandQRShrNnarrow16Uto8Ux8, Iop_QandQRShrNnarrow32Uto16Ux4,
      Iop_QandQRShrNnarrow64Uto32Ux2, Iop_QandQRSarNnarrow16Sto8Sx8,
      Iop_QandQRSarNnarrow32Sto16Sx4, Iop_QandQRSarNnarrow64Sto32Sx2,
      Iop_QandQRSarNnarrow16Sto8Ux8, Iop_QandQRSarNnarrow32Sto16Ux4,
      Iop_QandQRSarNnarrow64Sto32Ux2, Iop_I128StoBCD128}
  then Inr (BINARY Ity_V128 Ity_I8 Ity_V128)
  else
  if op \<in> {
      Iop_F32ToFixed32Ux4_RZ, Iop_F32ToFixed32Sx4_RZ, Iop_Fixed32UToF32x4_RN,
      Iop_Fixed32SToF32x4_RN}
  then Inr (BINARY Ity_V128 Ity_I8 Ity_V128)
  else
  if op \<in> {
      Iop_F32ToFixed32Ux2_RZ, Iop_F32ToFixed32Sx2_RZ, Iop_Fixed32UToF32x2_RN,
      Iop_Fixed32SToF32x2_RN}
  then Inr (BINARY Ity_I64 Ity_I8 Ity_I64)
  else
  if op \<in> {
      Iop_GetElem8x16}
  then Inr (BINARY Ity_V128 Ity_I8 Ity_I8)
  else
  if op \<in> {
      Iop_GetElem16x8}
  then Inr (BINARY Ity_V128 Ity_I8 Ity_I16)
  else
  if op \<in> {
      Iop_GetElem32x4}
  then Inr (BINARY Ity_V128 Ity_I8 Ity_I32)
  else
  if op \<in> {
      Iop_GetElem64x2}
  then Inr (BINARY Ity_V128 Ity_I8 Ity_I64)
  else
  if op \<in> {
      Iop_SetElem8x16}
  then Inr (TERNARY Ity_V128 Ity_I8 Ity_I8 Ity_V128)
  else
  if op \<in> {
      Iop_SetElem16x8}
  then Inr (TERNARY Ity_V128 Ity_I8 Ity_I16 Ity_V128)
  else
  if op \<in> {
      Iop_SetElem32x4}
  then Inr (TERNARY Ity_V128 Ity_I8 Ity_I32 Ity_V128)
  else
  if op \<in> {
      Iop_SetElem64x2}
  then Inr (TERNARY Ity_V128 Ity_I8 Ity_I64 Ity_V128)
  else
  if op \<in> {
      Iop_GetElem8x8}
  then Inr (BINARY Ity_I64 Ity_I8 Ity_I8)
  else
  if op \<in> {
      Iop_GetElem16x4}
  then Inr (BINARY Ity_I64 Ity_I8 Ity_I16)
  else
  if op \<in> {
      Iop_GetElem32x2}
  then Inr (BINARY Ity_I64 Ity_I8 Ity_I32)
  else
  if op \<in> {
      Iop_SetElem8x8}
  then Inr (TERNARY Ity_I64 Ity_I8 Ity_I8 Ity_I64)
  else
  if op \<in> {
      Iop_SetElem16x4}
  then Inr (TERNARY Ity_I64 Ity_I8 Ity_I16 Ity_I64)
  else
  if op \<in> {
      Iop_SetElem32x2}
  then Inr (TERNARY Ity_I64 Ity_I8 Ity_I32 Ity_I64)
  else
  if op \<in> {
      Iop_Slice64}
  then Inr (TERNARY Ity_I64 Ity_I64 Ity_I8 Ity_I64)
  else
  if op \<in> {
      Iop_SliceV128}
  then Inr (TERNARY Ity_V128 Ity_V128 Ity_I8 Ity_V128)
  else
  if op \<in> {
      Iop_BCDAdd, Iop_BCDSub}
  then Inr (BINARY Ity_V128 Ity_V128 Ity_V128)
  else
  if op \<in> {
      Iop_QDMull16Sx4, Iop_QDMull32Sx2}
  then Inr (BINARY Ity_I64 Ity_I64 Ity_V128)
  else
  if op \<in> {
      Iop_MAddF32, Iop_MSubF32}
  then Inr (QUATERNARY ity_RMode Ity_F32 Ity_F32 Ity_F32 Ity_F32)
  else
  if op \<in> {
      Iop_F64HLtoF128}
  then Inr (BINARY Ity_F64 Ity_F64 Ity_F128)
  else
  if op \<in> {
      Iop_F128HItoF64, Iop_F128LOtoF64}
  then Inr (UNARY Ity_F128 Ity_F64)
  else
  if op \<in> {
      Iop_AddF128, Iop_SubF128, Iop_MulF128, Iop_DivF128}
  then Inr (TERNARY ity_RMode Ity_F128 Ity_F128 Ity_F128)
  else
  if op \<in> {
      Iop_MAddF128, Iop_MSubF128, Iop_NegMAddF128, Iop_NegMSubF128}
  then Inr (QUATERNARY ity_RMode Ity_F128 Ity_F128 Ity_F128 Ity_F128)
  else
  typeOfPrimop_6 op)"

definition typeOfPrimop_4 :: "IROp \<Rightarrow> vex_error + primop_types" where
  "typeOfPrimop_4 op = (
  if op \<in> {
      Iop_V128to32}
  then Inr (UNARY Ity_V128 Ity_I32)
  else
  if op \<in> {
      Iop_32UtoV128}
  then Inr (UNARY Ity_I32 Ity_V128)
  else
  if op \<in> {
      Iop_64UtoV128}
  then Inr (UNARY Ity_I64 Ity_V128)
  else
  if op \<in> {
      Iop_SetV128lo32}
  then Inr (BINARY Ity_V128 Ity_I32 Ity_V128)
  else
  if op \<in> {
      Iop_SetV128lo64}
  then Inr (BINARY Ity_V128 Ity_I64 Ity_V128)
  else
  if op \<in> {
      Iop_Dup8x16}
  then Inr (UNARY Ity_I8 Ity_V128)
  else
  if op \<in> {
      Iop_Dup16x8}
  then Inr (UNARY Ity_I16 Ity_V128)
  else
  if op \<in> {
      Iop_Dup32x4}
  then Inr (UNARY Ity_I32 Ity_V128)
  else
  if op \<in> {
      Iop_Dup8x8}
  then Inr (UNARY Ity_I8 Ity_I64)
  else
  if op \<in> {
      Iop_Dup16x4}
  then Inr (UNARY Ity_I16 Ity_I64)
  else
  if op \<in> {
      Iop_Dup32x2}
  then Inr (UNARY Ity_I32 Ity_I64)
  else
  if op \<in> {
      Iop_CmpLT16Fx8, Iop_CmpLE16Fx8, Iop_CmpEQ16Fx8, Iop_CmpEQ32Fx4, Iop_CmpLT32Fx4,
      Iop_CmpEQ64Fx2, Iop_CmpLT64Fx2, Iop_CmpLE32Fx4, Iop_CmpUN32Fx4, Iop_CmpLE64Fx2,
      Iop_CmpUN64Fx2, Iop_CmpGT32Fx4, Iop_CmpGE32Fx4, Iop_CmpEQ32F0x4, Iop_CmpLT32F0x4,
      Iop_CmpEQ64F0x2, Iop_CmpLT64F0x2, Iop_CmpLE32F0x4, Iop_CmpUN32F0x4, Iop_CmpLE64F0x2,
      Iop_CmpUN64F0x2, Iop_Add32F0x4, Iop_Add64F0x2, Iop_Div32F0x4, Iop_Div64F0x2, Iop_Max32Fx4,
      Iop_Max32F0x4, Iop_PwMax32Fx4, Iop_PwMin32Fx4, Iop_Max64Fx2, Iop_Max64F0x2, Iop_Min32Fx4,
      Iop_Min32F0x4, Iop_Min64Fx2, Iop_Min64F0x2, Iop_Mul32F0x4, Iop_Mul64F0x2, Iop_Sub32F0x4,
      Iop_Sub64F0x2, Iop_AndV128, Iop_OrV128, Iop_XorV128, Iop_Add8x16, Iop_Add16x8, Iop_Add32x4,
      Iop_Add64x2, Iop_Add128x1, Iop_QAdd8Ux16, Iop_QAdd16Ux8, Iop_QAdd32Ux4, Iop_QAdd64Ux2,
      Iop_QAdd8Sx16, Iop_QAdd16Sx8, Iop_QAdd32Sx4, Iop_QAdd64Sx2, Iop_QAddExtUSsatSS8x16,
      Iop_QAddExtUSsatSS16x8, Iop_QAddExtUSsatSS32x4, Iop_QAddExtUSsatSS64x2,
      Iop_QAddExtSUsatUU8x16, Iop_QAddExtSUsatUU16x8, Iop_QAddExtSUsatUU32x4,
      Iop_QAddExtSUsatUU64x2, Iop_PwAdd8x16, Iop_PwAdd16x8, Iop_PwAdd32x4, Iop_Sub8x16,
      Iop_Sub16x8, Iop_Sub32x4, Iop_Sub64x2, Iop_Sub128x1, Iop_QSub8Ux16, Iop_QSub16Ux8,
      Iop_QSub32Ux4, Iop_QSub64Ux2, Iop_QSub8Sx16, Iop_QSub16Sx8, Iop_QSub32Sx4, Iop_QSub64Sx2,
      Iop_Mul8x16, Iop_Mul16x8, Iop_Mul32x4, Iop_PolynomialMul8x16, Iop_PolynomialMulAdd8x16,
      Iop_PolynomialMulAdd16x8, Iop_PolynomialMulAdd32x4, Iop_PolynomialMulAdd64x2,
      Iop_MulHi8Ux16, Iop_MulHi16Ux8, Iop_MulHi32Ux4, Iop_MulHi8Sx16, Iop_MulHi16Sx8,
      Iop_MulHi32Sx4, Iop_QDMulHi16Sx8, Iop_QDMulHi32Sx4, Iop_QRDMulHi16Sx8, Iop_QRDMulHi32Sx4,
      Iop_MullEven8Ux16, Iop_MullEven16Ux8, Iop_MullEven32Ux4, Iop_MullEven8Sx16,
      Iop_MullEven16Sx8, Iop_MullEven32Sx4, Iop_Avg8Ux16, Iop_Avg16Ux8, Iop_Avg32Ux4,
      Iop_Avg64Ux2, Iop_Avg8Sx16, Iop_Avg16Sx8, Iop_Avg32Sx4, Iop_Avg64Sx2, Iop_Max8Sx16,
      Iop_Max16Sx8, Iop_Max32Sx4, Iop_Max64Sx2, Iop_Max8Ux16, Iop_Max16Ux8, Iop_Max32Ux4,
      Iop_Max64Ux2, Iop_Min8Sx16, Iop_Min16Sx8, Iop_Min32Sx4, Iop_Min64Sx2, Iop_Min8Ux16,
      Iop_Min16Ux8, Iop_Min32Ux4, Iop_Min64Ux2, Iop_CmpEQ8x16, Iop_CmpEQ16x8, Iop_CmpEQ32x4,
      Iop_CmpEQ64x2, Iop_CmpGT8Sx16, Iop_CmpGT16Sx8, Iop_CmpGT32Sx4, Iop_CmpGT64Sx2,
      Iop_CmpGT8Ux16, Iop_CmpGT16Ux8, Iop_CmpGT32Ux4, Iop_CmpGT64Ux2, Iop_Shl8x16, Iop_Shl16x8,
      Iop_Shl32x4, Iop_Shl64x2, Iop_QShl8x16, Iop_QShl16x8, Iop_QShl32x4, Iop_QShl64x2,
      Iop_QSal8x16, Iop_QSal16x8, Iop_QSal32x4, Iop_QSal64x2, Iop_Shr8x16, Iop_Shr16x8,
      Iop_Shr32x4, Iop_Shr64x2, Iop_Sar8x16, Iop_Sar16x8, Iop_Sar32x4, Iop_Sar64x2, Iop_Sal8x16,
      Iop_Sal16x8, Iop_Sal32x4, Iop_Sal64x2, Iop_Rol8x16, Iop_Rol16x8, Iop_Rol32x4, Iop_Rol64x2,
      Iop_QNarrowBin16Sto8Ux16, Iop_QNarrowBin32Sto16Ux8, Iop_QNarrowBin16Sto8Sx16,
      Iop_QNarrowBin32Sto16Sx8, Iop_QNarrowBin16Uto8Ux16, Iop_QNarrowBin32Uto16Ux8,
      Iop_QNarrowBin64Sto32Sx4, Iop_QNarrowBin64Uto32Ux4, Iop_NarrowBin16to8x16,
      Iop_NarrowBin32to16x8, Iop_NarrowBin64to32x4, Iop_InterleaveHI8x16, Iop_InterleaveHI16x8,
      Iop_InterleaveHI32x4, Iop_InterleaveHI64x2, Iop_InterleaveLO8x16, Iop_InterleaveLO16x8,
      Iop_InterleaveLO32x4, Iop_InterleaveLO64x2, Iop_CatOddLanes8x16, Iop_CatEvenLanes8x16,
      Iop_CatOddLanes16x8, Iop_CatEvenLanes16x8, Iop_CatOddLanes32x4, Iop_CatEvenLanes32x4,
      Iop_InterleaveOddLanes8x16, Iop_InterleaveEvenLanes8x16, Iop_InterleaveOddLanes16x8,
      Iop_InterleaveEvenLanes16x8, Iop_InterleaveOddLanes32x4, Iop_InterleaveEvenLanes32x4,
      Iop_PackOddLanes8x16, Iop_PackEvenLanes8x16, Iop_PackOddLanes16x8, Iop_PackEvenLanes16x8,
      Iop_PackOddLanes32x4, Iop_PackEvenLanes32x4, Iop_Perm8x16, Iop_PermOrZero8x16, Iop_Perm32x4,
      Iop_RecipStep32Fx4, Iop_RecipStep64Fx2, Iop_RSqrtStep32Fx4, Iop_RSqrtStep64Fx2,
      Iop_CipherV128, Iop_CipherLV128, Iop_NCipherV128, Iop_NCipherLV128, Iop_Sh8Sx16,
      Iop_Sh16Sx8, Iop_Sh32Sx4, Iop_Sh64Sx2, Iop_Sh8Ux16, Iop_Sh16Ux8, Iop_Sh32Ux4, Iop_Sh64Ux2,
      Iop_Rsh8Sx16, Iop_Rsh16Sx8, Iop_Rsh32Sx4, Iop_Rsh64Sx2, Iop_Rsh8Ux16, Iop_Rsh16Ux8,
      Iop_Rsh32Ux4, Iop_Rsh64Ux2, Iop_MulI128by10E, Iop_MulI128by10ECarry, Iop_PwExtUSMulQAdd8x16,
      Iop_DivU128, Iop_DivS128, Iop_DivU128E, Iop_DivS128E, Iop_ModU128, Iop_ModS128}
  then Inr (BINARY Ity_V128 Ity_V128 Ity_V128)
  else
  if op \<in> {
      Iop_2xMultU64Add128CarryOut, Iop_Perm8x16x2}
  then Inr (TERNARY Ity_V128 Ity_V128 Ity_V128 Ity_V128)
  else
  if op \<in> {
      Iop_PolynomialMull8x8, Iop_Mull8Ux8, Iop_Mull8Sx8, Iop_Mull16Ux4, Iop_Mull16Sx4,
      Iop_Mull32Ux2, Iop_Mull32Sx2}
  then Inr (BINARY Ity_I64 Ity_I64 Ity_V128)
  else
  typeOfPrimop_5 op)"

definition typeOfPrimop_3 :: "IROp \<Rightarrow> vex_error + primop_types" where
  "typeOfPrimop_3 op = (
  if op \<in> {
      Iop_MaxNumF64, Iop_MinNumF64}
  then Inr (BINARY Ity_F64 Ity_F64 Ity_F64)
  else
  if op \<in> {
      Iop_MaxNumF32, Iop_MinNumF32}
  then Inr (BINARY Ity_F32 Ity_F32 Ity_F32)
  else
  if op \<in> {
      Iop_CmpF16}
  then Inr (BINARY Ity_F16 Ity_F16 Ity_I32)
  else
  if op \<in> {
      Iop_CmpF32}
  then Inr (BINARY Ity_F32 Ity_F32 Ity_I32)
  else
  if op \<in> {
      Iop_CmpF64}
  then Inr (BINARY Ity_F64 Ity_F64 Ity_I32)
  else
  if op \<in> {
      Iop_CmpF128}
  then Inr (BINARY Ity_F128 Ity_F128 Ity_I32)
  else
  if op \<in> {
      Iop_F64toI16S}
  then Inr (BINARY ity_RMode Ity_F64 Ity_I16)
  else
  if op \<in> {
      Iop_F64toI32S}
  then Inr (BINARY ity_RMode Ity_F64 Ity_I32)
  else
  if op \<in> {
      Iop_F64toI64S, Iop_F64toI64U}
  then Inr (BINARY ity_RMode Ity_F64 Ity_I64)
  else
  if op \<in> {
      Iop_F64toI32U}
  then Inr (BINARY ity_RMode Ity_F64 Ity_I32)
  else
  if op \<in> {
      Iop_I32StoF64}
  then Inr (UNARY Ity_I32 Ity_F64)
  else
  if op \<in> {
      Iop_I64StoF64}
  then Inr (BINARY ity_RMode Ity_I64 Ity_F64)
  else
  if op \<in> {
      Iop_I64UtoF64}
  then Inr (BINARY ity_RMode Ity_I64 Ity_F64)
  else
  if op \<in> {
      Iop_I64UtoF32}
  then Inr (BINARY ity_RMode Ity_I64 Ity_F32)
  else
  if op \<in> {
      Iop_I32UtoF64}
  then Inr (UNARY Ity_I32 Ity_F64)
  else
  if op \<in> {
      Iop_F32toI32S}
  then Inr (BINARY ity_RMode Ity_F32 Ity_I32)
  else
  if op \<in> {
      Iop_F32toI64S}
  then Inr (BINARY ity_RMode Ity_F32 Ity_I64)
  else
  if op \<in> {
      Iop_F32toI32U}
  then Inr (BINARY ity_RMode Ity_F32 Ity_I32)
  else
  if op \<in> {
      Iop_F32toI64U}
  then Inr (BINARY ity_RMode Ity_F32 Ity_I64)
  else
  if op \<in> {
      Iop_I32UtoF32}
  then Inr (BINARY ity_RMode Ity_I32 Ity_F32)
  else
  if op \<in> {
      Iop_I32StoF32}
  then Inr (BINARY ity_RMode Ity_I32 Ity_F32)
  else
  if op \<in> {
      Iop_I64StoF32}
  then Inr (BINARY ity_RMode Ity_I64 Ity_F32)
  else
  if op \<in> {
      Iop_F32toF64}
  then Inr (UNARY Ity_F32 Ity_F64)
  else
  if op \<in> {
      Iop_F16toF64}
  then Inr (UNARY Ity_F16 Ity_F64)
  else
  if op \<in> {
      Iop_F16toF32}
  then Inr (UNARY Ity_F16 Ity_F32)
  else
  if op \<in> {
      Iop_F64toF32}
  then Inr (BINARY ity_RMode Ity_F64 Ity_F32)
  else
  if op \<in> {
      Iop_F64toF16}
  then Inr (BINARY ity_RMode Ity_F64 Ity_F16)
  else
  if op \<in> {
      Iop_F32toF16}
  then Inr (BINARY ity_RMode Ity_F32 Ity_F16)
  else
  if op \<in> {
      Iop_ReinterpV128asI128}
  then Inr (UNARY Ity_V128 Ity_I128)
  else
  if op \<in> {
      Iop_ReinterpI128asV128}
  then Inr (UNARY Ity_I128 Ity_V128)
  else
  if op \<in> {
      Iop_ReinterpI128asF128}
  then Inr (UNARY Ity_I128 Ity_F128)
  else
  if op \<in> {
      Iop_ReinterpF128asI128}
  then Inr (UNARY Ity_F128 Ity_I128)
  else
  if op \<in> {
      Iop_ReinterpI64asF64}
  then Inr (UNARY Ity_I64 Ity_F64)
  else
  if op \<in> {
      Iop_ReinterpF64asI64}
  then Inr (UNARY Ity_F64 Ity_I64)
  else
  if op \<in> {
      Iop_ReinterpI32asF32}
  then Inr (UNARY Ity_I32 Ity_F32)
  else
  if op \<in> {
      Iop_ReinterpF32asI32}
  then Inr (UNARY Ity_F32 Ity_I32)
  else
  if op \<in> {
      Iop_I128StoF128}
  then Inr (BINARY ity_RMode Ity_I128 Ity_F128)
  else
  if op \<in> {
      Iop_I128UtoF128}
  then Inr (BINARY ity_RMode Ity_I128 Ity_F128)
  else
  if op \<in> {
      Iop_I128StoD128}
  then Inr (BINARY ity_RMode Ity_I128 Ity_D128)
  else
  if op \<in> {
      Iop_D128toI128S}
  then Inr (BINARY ity_RMode Ity_D128 Ity_I128)
  else
  if op \<in> {
      Iop_AtanF64, Iop_Yl2xF64, Iop_Yl2xp1F64, Iop_ScaleF64, Iop_PRemF64, Iop_PRem1F64}
  then Inr (TERNARY ity_RMode Ity_F64 Ity_F64 Ity_F64)
  else
  if op \<in> {
      Iop_PRemC3210F64, Iop_PRem1C3210F64}
  then Inr (TERNARY ity_RMode Ity_F64 Ity_F64 Ity_I32)
  else
  if op \<in> {
      Iop_SinF64, Iop_CosF64, Iop_TanF64, Iop_2xm1F64, Iop_RoundF64toInt}
  then Inr (BINARY ity_RMode Ity_F64 Ity_F64)
  else
  if op \<in> {
      Iop_MAddF64, Iop_MSubF64, Iop_MAddF64r32, Iop_MSubF64r32}
  then Inr (QUATERNARY ity_RMode Ity_F64 Ity_F64 Ity_F64 Ity_F64)
  else
  if op \<in> {
      Iop_RSqrtEst5GoodF64, Iop_RoundF64toF64_NEAREST, Iop_RoundF64toF64_NegINF,
      Iop_RoundF64toF64_PosINF, Iop_RoundF64toF64_ZERO}
  then Inr (UNARY Ity_F64 Ity_F64)
  else
  if op \<in> {
      Iop_RoundF64toF32}
  then Inr (BINARY ity_RMode Ity_F64 Ity_F64)
  else
  if op \<in> {
      Iop_TruncF64asF32}
  then Inr (UNARY Ity_F64 Ity_F32)
  else
  if op \<in> {
      Iop_I32UtoF32x4_DEP, Iop_I32StoF32x4_DEP, Iop_QF32toI32Ux4_RZ, Iop_QF32toI32Sx4_RZ,
      Iop_F32toI32Ux4_RZ, Iop_F32toI32Sx4_RZ, Iop_RoundF32x4_RM, Iop_RoundF32x4_RP,
      Iop_RoundF32x4_RN, Iop_RoundF32x4_RZ, Iop_Abs64Fx2, Iop_Abs32Fx4, Iop_Abs16Fx8,
      Iop_RSqrtEst32Fx4, Iop_RSqrtEst32Ux4}
  then Inr (UNARY Ity_V128 Ity_V128)
  else
  if op \<in> {
      Iop_Sqrt64Fx2, Iop_Sqrt32Fx4, Iop_Sqrt16Fx8, Iop_I32StoF32x4, Iop_F32toI32Sx4}
  then Inr (BINARY ity_RMode Ity_V128 Ity_V128)
  else
  if op \<in> {
      Iop_F32toF16x4}
  then Inr (BINARY ity_RMode Ity_V128 Ity_I64)
  else
  if op \<in> {
      Iop_64HLtoV128}
  then Inr (BINARY Ity_I64 Ity_I64 Ity_V128)
  else
  if op \<in> {
      Iop_Scale2_32Fx4, Iop_Scale2_64Fx2}
  then Inr (TERNARY ity_RMode Ity_V128 Ity_V128 Ity_V128)
  else
  if op \<in> {
      Iop_Log2_32Fx4, Iop_Log2_64Fx2, Iop_Exp2_32Fx4}
  then Inr (UNARY Ity_V128 Ity_V128)
  else
  if op \<in> {
      Iop_V128to64, Iop_V128HIto64, Iop_NarrowUn16to8x8, Iop_NarrowUn32to16x4,
      Iop_NarrowUn64to32x2, Iop_QNarrowUn16Uto8Ux8, Iop_QNarrowUn32Uto16Ux4,
      Iop_QNarrowUn64Uto32Ux2, Iop_QNarrowUn16Sto8Sx8, Iop_QNarrowUn32Sto16Sx4,
      Iop_QNarrowUn64Sto32Sx2, Iop_QNarrowUn16Sto8Ux8, Iop_QNarrowUn32Sto16Ux4,
      Iop_QNarrowUn64Sto32Ux2, Iop_F32toF16x4_DEP}
  then Inr (UNARY Ity_V128 Ity_I64)
  else
  if op \<in> {
      Iop_Widen8Uto16x8, Iop_Widen16Uto32x4, Iop_Widen32Uto64x2, Iop_Widen8Sto16x8,
      Iop_Widen16Sto32x4, Iop_Widen32Sto64x2, Iop_F16toF32x4}
  then Inr (UNARY Ity_I64 Ity_V128)
  else
  typeOfPrimop_4 op)"

definition typeOfPrimop_2 :: "IROp \<Rightarrow> vex_error + primop_types" where
  "typeOfPrimop_2 op = (
  if op \<in> {
      Iop_CmpEQ64, Iop_CmpNE64, Iop_CasCmpEQ64, Iop_CasCmpNE64, Iop_ExpCmpNE64, Iop_CmpLT64S,
      Iop_CmpLE64S, Iop_CmpLT64U, Iop_CmpLE64U}
  then Inr (COMPARISON Ity_I64)
  else
  if op \<in> {
      Iop_CmpNEZ8}
  then Inr (UNARY_COMPARISON Ity_I8)
  else
  if op \<in> {
      Iop_CmpNEZ16}
  then Inr (UNARY_COMPARISON Ity_I16)
  else
  if op \<in> {
      Iop_CmpNEZ32}
  then Inr (UNARY_COMPARISON Ity_I32)
  else
  if op \<in> {
      Iop_CmpNEZ64}
  then Inr (UNARY_COMPARISON Ity_I64)
  else
  if op \<in> {
      Iop_Left8}
  then Inr (UNARY Ity_I8 Ity_I8)
  else
  if op \<in> {
      Iop_Left16}
  then Inr (UNARY Ity_I16 Ity_I16)
  else
  if op \<in> {
      Iop_CmpwNEZ32, Iop_Left32}
  then Inr (UNARY Ity_I32 Ity_I32)
  else
  if op \<in> {
      Iop_CmpwNEZ64, Iop_Left64}
  then Inr (UNARY Ity_I64 Ity_I64)
  else
  if op \<in> {
      Iop_GetMSBs8x8}
  then Inr (UNARY Ity_I64 Ity_I8)
  else
  if op \<in> {
      Iop_GetMSBs8x16}
  then Inr (UNARY Ity_V128 Ity_I16)
  else
  if op \<in> {
      Iop_MullU8, Iop_MullS8}
  then Inr (BINARY Ity_I8 Ity_I8 Ity_I16)
  else
  if op \<in> {
      Iop_MullU16, Iop_MullS16}
  then Inr (BINARY Ity_I16 Ity_I16 Ity_I32)
  else
  if op \<in> {
      Iop_MullU32, Iop_MullS32}
  then Inr (BINARY Ity_I32 Ity_I32 Ity_I64)
  else
  if op \<in> {
      Iop_MullU64, Iop_MullS64}
  then Inr (BINARY Ity_I64 Ity_I64 Ity_I128)
  else
  if op \<in> {
      Iop_Clz32, Iop_Ctz32, Iop_ClzNat32, Iop_CtzNat32, Iop_PopCount32}
  then Inr (UNARY Ity_I32 Ity_I32)
  else
  if op \<in> {
      Iop_Clz64, Iop_Ctz64, Iop_ClzNat64, Iop_CtzNat64, Iop_PopCount64}
  then Inr (UNARY Ity_I64 Ity_I64)
  else
  if op \<in> {
      Iop_DivU32, Iop_DivS32, Iop_DivU32E, Iop_DivS32E}
  then Inr (BINARY Ity_I32 Ity_I32 Ity_I32)
  else
  if op \<in> {
      Iop_DivU64, Iop_DivS64, Iop_DivS64E, Iop_DivU64E}
  then Inr (BINARY Ity_I64 Ity_I64 Ity_I64)
  else
  if op \<in> {
      Iop_DivModU64to32, Iop_DivModS64to32}
  then Inr (BINARY Ity_I64 Ity_I32 Ity_I64)
  else
  if op \<in> {
      Iop_DivModU32to32, Iop_DivModS32to32}
  then Inr (BINARY Ity_I32 Ity_I32 Ity_I64)
  else
  if op \<in> {
      Iop_DivModU128to64, Iop_DivModS128to64}
  then Inr (BINARY Ity_I128 Ity_I64 Ity_I128)
  else
  if op \<in> {
      Iop_DivModU64to64, Iop_DivModS64to64}
  then Inr (BINARY Ity_I64 Ity_I64 Ity_I128)
  else
  if op \<in> {
      Iop_16HIto8, Iop_16to8}
  then Inr (UNARY Ity_I16 Ity_I8)
  else
  if op \<in> {
      Iop_8HLto16}
  then Inr (BINARY Ity_I8 Ity_I8 Ity_I16)
  else
  if op \<in> {
      Iop_32HIto16, Iop_32to16}
  then Inr (UNARY Ity_I32 Ity_I16)
  else
  if op \<in> {
      Iop_16HLto32}
  then Inr (BINARY Ity_I16 Ity_I16 Ity_I32)
  else
  if op \<in> {
      Iop_64HIto32, Iop_64to32}
  then Inr (UNARY Ity_I64 Ity_I32)
  else
  if op \<in> {
      Iop_32HLto64}
  then Inr (BINARY Ity_I32 Ity_I32 Ity_I64)
  else
  if op \<in> {
      Iop_128HIto64, Iop_128to64}
  then Inr (UNARY Ity_I128 Ity_I64)
  else
  if op \<in> {
      Iop_64HLto128}
  then Inr (BINARY Ity_I64 Ity_I64 Ity_I128)
  else
  if op \<in> {
      Iop_Not1}
  then Inr (UNARY Ity_I1 Ity_I1)
  else
  if op \<in> {
      Iop_And1, Iop_Or1}
  then Inr (BINARY Ity_I1 Ity_I1 Ity_I1)
  else
  if op \<in> {
      Iop_1Uto8}
  then Inr (UNARY Ity_I1 Ity_I8)
  else
  if op \<in> {
      Iop_1Sto8}
  then Inr (UNARY Ity_I1 Ity_I8)
  else
  if op \<in> {
      Iop_1Sto16}
  then Inr (UNARY Ity_I1 Ity_I16)
  else
  if op \<in> {
      Iop_1Uto32, Iop_1Sto32}
  then Inr (UNARY Ity_I1 Ity_I32)
  else
  if op \<in> {
      Iop_1Sto64, Iop_1Uto64}
  then Inr (UNARY Ity_I1 Ity_I64)
  else
  if op \<in> {
      Iop_32to1}
  then Inr (UNARY Ity_I32 Ity_I1)
  else
  if op \<in> {
      Iop_64to1}
  then Inr (UNARY Ity_I64 Ity_I1)
  else
  if op \<in> {
      Iop_8Uto32, Iop_8Sto32}
  then Inr (UNARY Ity_I8 Ity_I32)
  else
  if op \<in> {
      Iop_8Uto16, Iop_8Sto16}
  then Inr (UNARY Ity_I8 Ity_I16)
  else
  if op \<in> {
      Iop_16Uto32, Iop_16Sto32}
  then Inr (UNARY Ity_I16 Ity_I32)
  else
  if op \<in> {
      Iop_32Sto64, Iop_32Uto64}
  then Inr (UNARY Ity_I32 Ity_I64)
  else
  if op \<in> {
      Iop_8Uto64, Iop_8Sto64}
  then Inr (UNARY Ity_I8 Ity_I64)
  else
  if op \<in> {
      Iop_16Uto64, Iop_16Sto64}
  then Inr (UNARY Ity_I16 Ity_I64)
  else
  if op \<in> {
      Iop_64to16}
  then Inr (UNARY Ity_I64 Ity_I16)
  else
  if op \<in> {
      Iop_32to8}
  then Inr (UNARY Ity_I32 Ity_I8)
  else
  if op \<in> {
      Iop_64to8}
  then Inr (UNARY Ity_I64 Ity_I8)
  else
  if op \<in> {
      Iop_AddF64, Iop_SubF64, Iop_MulF64, Iop_DivF64, Iop_AddF64r32, Iop_SubF64r32, Iop_MulF64r32,
      Iop_DivF64r32}
  then Inr (TERNARY ity_RMode Ity_F64 Ity_F64 Ity_F64)
  else
  if op \<in> {
      Iop_AddF32, Iop_SubF32, Iop_MulF32, Iop_DivF32}
  then Inr (TERNARY ity_RMode Ity_F32 Ity_F32 Ity_F32)
  else
  if op \<in> {
      Iop_AddF16, Iop_SubF16}
  then Inr (TERNARY ity_RMode Ity_F16 Ity_F16 Ity_F16)
  else
  if op \<in> {
      Iop_NegF64, Iop_AbsF64}
  then Inr (UNARY Ity_F64 Ity_F64)
  else
  if op \<in> {
      Iop_NegF32, Iop_AbsF32}
  then Inr (UNARY Ity_F32 Ity_F32)
  else
  if op \<in> {
      Iop_NegF16, Iop_AbsF16}
  then Inr (UNARY Ity_F16 Ity_F16)
  else
  if op \<in> {
      Iop_SqrtF64, Iop_RecpExpF64}
  then Inr (BINARY ity_RMode Ity_F64 Ity_F64)
  else
  if op \<in> {
      Iop_SqrtF32, Iop_RoundF32toInt, Iop_RecpExpF32}
  then Inr (BINARY ity_RMode Ity_F32 Ity_F32)
  else
  if op \<in> {
      Iop_SqrtF16}
  then Inr (BINARY ity_RMode Ity_F16 Ity_F16)
  else
  typeOfPrimop_3 op)"

definition typeOfPrimop_1 :: "IROp \<Rightarrow> vex_error + primop_types" where
  "typeOfPrimop_1 op = (
  if op \<in> {
      Iop_Add8, Iop_Sub8, Iop_Mul8, Iop_Or8, Iop_And8, Iop_Xor8}
  then Inr (BINARY Ity_I8 Ity_I8 Ity_I8)
  else
  if op \<in> {
      Iop_Add16, Iop_Sub16, Iop_Mul16, Iop_Or16, Iop_And16, Iop_Xor16}
  then Inr (BINARY Ity_I16 Ity_I16 Ity_I16)
  else
  if op \<in> {
      Iop_CmpORD32U, Iop_CmpORD32S, Iop_Add32, Iop_Sub32, Iop_Mul32, Iop_Or32, Iop_And32,
      Iop_Xor32, Iop_Max32U, Iop_QAdd32S, Iop_QSub32S, Iop_Add16x2, Iop_Sub16x2, Iop_QAdd16Sx2,
      Iop_QAdd16Ux2, Iop_QSub16Sx2, Iop_QSub16Ux2, Iop_HAdd16Ux2, Iop_HAdd16Sx2, Iop_HSub16Ux2,
      Iop_HSub16Sx2, Iop_Add8x4, Iop_Sub8x4, Iop_QAdd8Sx4, Iop_QAdd8Ux4, Iop_QSub8Sx4,
      Iop_QSub8Ux4, Iop_HAdd8Ux4, Iop_HAdd8Sx4, Iop_HSub8Ux4, Iop_HSub8Sx4, Iop_Sad8Ux4}
  then Inr (BINARY Ity_I32 Ity_I32 Ity_I32)
  else
  if op \<in> {
      Iop_Add64, Iop_Sub64, Iop_Mul64, Iop_Or64, Iop_And64, Iop_Xor64, Iop_CmpORD64U,
      Iop_CmpORD64S, Iop_Avg8Ux8, Iop_Avg16Ux4, Iop_Add8x8, Iop_Add16x4, Iop_Add32x2,
      Iop_Add32Fx2, Iop_Sub32Fx2, Iop_CmpEQ8x8, Iop_CmpEQ16x4, Iop_CmpEQ32x2, Iop_CmpGT8Sx8,
      Iop_CmpGT16Sx4, Iop_CmpGT32Sx2, Iop_CmpGT8Ux8, Iop_CmpGT16Ux4, Iop_CmpGT32Ux2,
      Iop_CmpGT32Fx2, Iop_CmpEQ32Fx2, Iop_CmpGE32Fx2, Iop_InterleaveHI8x8, Iop_InterleaveLO8x8,
      Iop_InterleaveHI16x4, Iop_InterleaveLO16x4, Iop_InterleaveHI32x2, Iop_InterleaveLO32x2,
      Iop_CatOddLanes8x8, Iop_CatEvenLanes8x8, Iop_CatOddLanes16x4, Iop_CatEvenLanes16x4,
      Iop_InterleaveOddLanes8x8, Iop_InterleaveEvenLanes8x8, Iop_InterleaveOddLanes16x4,
      Iop_InterleaveEvenLanes16x4, Iop_Perm8x8, Iop_PermOrZero8x8, Iop_Max8Ux8, Iop_Max16Ux4,
      Iop_Max32Ux2, Iop_Max8Sx8, Iop_Max16Sx4, Iop_Max32Sx2, Iop_Max32Fx2, Iop_Min32Fx2,
      Iop_PwMax32Fx2, Iop_PwMin32Fx2, Iop_Min8Ux8, Iop_Min16Ux4, Iop_Min32Ux2, Iop_Min8Sx8,
      Iop_Min16Sx4, Iop_Min32Sx2, Iop_PwMax8Ux8, Iop_PwMax16Ux4, Iop_PwMax32Ux2, Iop_PwMax8Sx8,
      Iop_PwMax16Sx4, Iop_PwMax32Sx2, Iop_PwMin8Ux8, Iop_PwMin16Ux4, Iop_PwMin32Ux2,
      Iop_PwMin8Sx8, Iop_PwMin16Sx4, Iop_PwMin32Sx2, Iop_Mul8x8, Iop_Mul16x4, Iop_Mul32x2,
      Iop_Mul32Fx2, Iop_PolynomialMul8x8, Iop_MulHi16Sx4, Iop_MulHi16Ux4, Iop_QDMulHi16Sx4,
      Iop_QDMulHi32Sx2, Iop_QRDMulHi16Sx4, Iop_QRDMulHi32Sx2, Iop_QAdd8Sx8, Iop_QAdd16Sx4,
      Iop_QAdd32Sx2, Iop_QAdd64Sx1, Iop_QAdd8Ux8, Iop_QAdd16Ux4, Iop_QAdd32Ux2, Iop_QAdd64Ux1,
      Iop_PwAdd8x8, Iop_PwAdd16x4, Iop_PwAdd32x2, Iop_PwAdd32Fx2, Iop_QNarrowBin32Sto16Sx4,
      Iop_QNarrowBin16Sto8Sx8, Iop_QNarrowBin16Sto8Ux8, Iop_NarrowBin16to8x8,
      Iop_NarrowBin32to16x4, Iop_Sub8x8, Iop_Sub16x4, Iop_Sub32x2, Iop_QSub8Sx8, Iop_QSub16Sx4,
      Iop_QSub32Sx2, Iop_QSub64Sx1, Iop_QSub8Ux8, Iop_QSub16Ux4, Iop_QSub32Ux2, Iop_QSub64Ux1,
      Iop_Shl8x8, Iop_Shl16x4, Iop_Shl32x2, Iop_Shr8x8, Iop_Shr16x4, Iop_Shr32x2, Iop_Sar8x8,
      Iop_Sar16x4, Iop_Sar32x2, Iop_Sal8x8, Iop_Sal16x4, Iop_Sal32x2, Iop_Sal64x1, Iop_QShl8x8,
      Iop_QShl16x4, Iop_QShl32x2, Iop_QShl64x1, Iop_QSal8x8, Iop_QSal16x4, Iop_QSal32x2,
      Iop_QSal64x1, Iop_RecipStep32Fx2, Iop_RSqrtStep32Fx2}
  then Inr (BINARY Ity_I64 Ity_I64 Ity_I64)
  else
  if op \<in> {
      Iop_ShlN32x2, Iop_ShlN16x4, Iop_ShlN8x8, Iop_ShrN32x2, Iop_ShrN16x4, Iop_ShrN8x8,
      Iop_SarN32x2, Iop_SarN16x4, Iop_SarN8x8, Iop_QShlNsatUU8x8, Iop_QShlNsatUU16x4,
      Iop_QShlNsatUU32x2, Iop_QShlNsatUU64x1, Iop_QShlNsatSU8x8, Iop_QShlNsatSU16x4,
      Iop_QShlNsatSU32x2, Iop_QShlNsatSU64x1, Iop_QShlNsatSS8x8, Iop_QShlNsatSS16x4,
      Iop_QShlNsatSS32x2, Iop_QShlNsatSS64x1}
  then Inr (BINARY Ity_I64 Ity_I8 Ity_I64)
  else
  if op \<in> {
      Iop_Shl8, Iop_Shr8, Iop_Sar8}
  then Inr (BINARY Ity_I8 Ity_I8 Ity_I8)
  else
  if op \<in> {
      Iop_Shl16, Iop_Shr16, Iop_Sar16}
  then Inr (BINARY Ity_I16 Ity_I8 Ity_I16)
  else
  if op \<in> {
      Iop_Shl32, Iop_Shr32, Iop_Sar32}
  then Inr (BINARY Ity_I32 Ity_I8 Ity_I32)
  else
  if op \<in> {
      Iop_Shl64, Iop_Shr64, Iop_Sar64}
  then Inr (BINARY Ity_I64 Ity_I8 Ity_I64)
  else
  if op \<in> {
      Iop_Not8}
  then Inr (UNARY Ity_I8 Ity_I8)
  else
  if op \<in> {
      Iop_Not16}
  then Inr (UNARY Ity_I16 Ity_I16)
  else
  if op \<in> {
      Iop_Not32, Iop_CmpNEZ16x2, Iop_CmpNEZ8x4, Iop_Reverse8sIn32_x1}
  then Inr (UNARY Ity_I32 Ity_I32)
  else
  if op \<in> {
      Iop_Not64, Iop_CmpNEZ32x2, Iop_CmpNEZ16x4, Iop_CmpNEZ8x8, Iop_Cnt8x8, Iop_Clz8x8,
      Iop_Clz16x4, Iop_Clz32x2, Iop_Cls8x8, Iop_Cls16x4, Iop_Cls32x2, Iop_PwAddL8Ux8,
      Iop_PwAddL16Ux4, Iop_PwAddL32Ux2, Iop_PwAddL8Sx8, Iop_PwAddL16Sx4, Iop_PwAddL32Sx2,
      Iop_Reverse8sIn64_x1, Iop_Reverse16sIn64_x1, Iop_Reverse32sIn64_x1, Iop_Reverse8sIn32_x2,
      Iop_Reverse16sIn32_x2, Iop_Reverse8sIn16_x4, Iop_F32toI32Sx2_RZ, Iop_F32toI32Ux2_RZ,
      Iop_I32StoF32x2_DEP, Iop_I32UtoF32x2_DEP, Iop_RecipEst32Ux2, Iop_RecipEst32Fx2,
      Iop_Abs32Fx2, Iop_RSqrtEst32Fx2, Iop_RSqrtEst32Ux2, Iop_Neg32Fx2, Iop_Abs8x8, Iop_Abs16x4,
      Iop_Abs32x2}
  then Inr (UNARY Ity_I64 Ity_I64)
  else
  if op \<in> {
      Iop_CmpEQ8, Iop_CmpNE8, Iop_CasCmpEQ8, Iop_CasCmpNE8, Iop_ExpCmpNE8}
  then Inr (COMPARISON Ity_I8)
  else
  if op \<in> {
      Iop_CmpEQ16, Iop_CmpNE16, Iop_CasCmpEQ16, Iop_CasCmpNE16, Iop_ExpCmpNE16}
  then Inr (COMPARISON Ity_I16)
  else
  if op \<in> {
      Iop_CmpEQ32, Iop_CmpNE32, Iop_CasCmpEQ32, Iop_CasCmpNE32, Iop_ExpCmpNE32, Iop_CmpLT32S,
      Iop_CmpLE32S, Iop_CmpLT32U, Iop_CmpLE32U}
  then Inr (COMPARISON Ity_I32)
  else
  typeOfPrimop_2 op)"

definition typeOfPrimop :: "IROp \<Rightarrow> vex_error + primop_types" where
  "typeOfPrimop op = typeOfPrimop_1 op"

lemmas typeOfPrimop_defs =
  typeOfPrimop_def typeOfPrimop_1_def typeOfPrimop_2_def typeOfPrimop_3_def typeOfPrimop_4_def typeOfPrimop_5_def typeOfPrimop_6_def typeOfPrimop_7_def typeOfPrimop_8_def

end
