(* ===== verification/VEX_IR.thy ===== *)
theory VEX_IR
  imports VEX_Primop
begin

text \<open>
  VEX intermediate representation, as Derivgrind sees it: constants, expressions, statements and
  superblocks of \<^verbatim>\<open>VEX/pub/libvex_ir.h\<close>, and the helper functions of
  \<^verbatim>\<open>VEX/priv/ir_defs.c\<close> that Derivgrind calls (builders, \<^verbatim>\<open>typeOfIRExpr\<close>,
  \<^verbatim>\<open>newIRTemp\<close>, \<^verbatim>\<open>addStmtToIRSB\<close>).

  The constructors carry the names of the C builder functions (\<^verbatim>\<open>IRExpr_Unop\<close>,
  \<^verbatim>\<open>IRStmt_WrTmp\<close>), so generated code reads like the C that generates it. A NULL pointer is
  \<^term>\<open>None\<close>, a NULL-terminated argument vector is a list, and a growing array with its used
  and allocated sizes is a list. A temporary is a natural number; floating-point constants are
  their IEEE 754 bit patterns.
\<close>

section \<open>Data\<close>

datatype IREndness = Iend_LE | Iend_BE

datatype IRConst =
    IRConst_U1 bool
  | IRConst_U8 "8 word"
  | IRConst_U16 "16 word"
  | IRConst_U32 "32 word"
  | IRConst_U64 "64 word"
  | IRConst_U128 "16 word"
  | IRConst_F32 "32 word"
  | IRConst_F32i "32 word"
  | IRConst_F64 "64 word"
  | IRConst_F64i "64 word"
  | IRConst_V128 "16 word"
  | IRConst_V256 "32 word"

datatype IRConstTag =
    Ico_U1 | Ico_U8 | Ico_U16 | Ico_U32 | Ico_U64 | Ico_U128
  | Ico_F32 | Ico_F32i | Ico_F64 | Ico_F64i | Ico_V128 | Ico_V256

fun tagOfIRConst :: "IRConst \<Rightarrow> IRConstTag" where
  "tagOfIRConst (IRConst_U1 _) = Ico_U1"
| "tagOfIRConst (IRConst_U8 _) = Ico_U8"
| "tagOfIRConst (IRConst_U16 _) = Ico_U16"
| "tagOfIRConst (IRConst_U32 _) = Ico_U32"
| "tagOfIRConst (IRConst_U64 _) = Ico_U64"
| "tagOfIRConst (IRConst_U128 _) = Ico_U128"
| "tagOfIRConst (IRConst_F32 _) = Ico_F32"
| "tagOfIRConst (IRConst_F32i _) = Ico_F32i"
| "tagOfIRConst (IRConst_F64 _) = Ico_F64"
| "tagOfIRConst (IRConst_F64i _) = Ico_F64i"
| "tagOfIRConst (IRConst_V128 _) = Ico_V128"
| "tagOfIRConst (IRConst_V256 _) = Ico_V256"

text \<open>
  A helper function to be called from generated code. The address of a function is represented
  by the name of its symbol; \<^term>\<open>None\<close> is the null pointer.
\<close>

record IRCallee =
  regparms :: int
  cee_name :: "string option"
  cee_addr :: "string option"

record IRRegArray =
  base :: int
  elemTy :: IRType
  nElems :: int

type_synonym IRTemp = nat

definition IRTemp_INVALID :: IRTemp where
  "IRTemp_INVALID = 0xFFFFFFFF"

datatype IRExpr =
    IRExpr_Binder int
  | IRExpr_Get int IRType
  | IRExpr_GetI IRRegArray IRExpr int
  | IRExpr_RdTmp IRTemp
  | IRExpr_Qop IROp IRExpr IRExpr IRExpr IRExpr
  | IRExpr_Triop IROp IRExpr IRExpr IRExpr
  | IRExpr_Binop IROp IRExpr IRExpr
  | IRExpr_Unop IROp IRExpr
  | IRExpr_Load IREndness IRType IRExpr
  | IRExpr_Const IRConst
  | IRExpr_CCall IRCallee IRType "IRExpr list"
  | IRExpr_ITE IRExpr IRExpr IRExpr
  | IRExpr_VECRET
  | IRExpr_GSPTR

datatype IRJumpKind =
    Ijk_INVALID | Ijk_Boring | Ijk_Call | Ijk_Ret | Ijk_ClientReq | Ijk_Yield | Ijk_EmWarn
  | Ijk_EmFail | Ijk_NoDecode | Ijk_MapFail | Ijk_InvalICache | Ijk_FlushDCache | Ijk_NoRedir
  | Ijk_SigILL | Ijk_SigTRAP | Ijk_SigSEGV | Ijk_SigBUS | Ijk_SigFPE | Ijk_SigFPE_IntDiv
  | Ijk_SigFPE_IntOvf | Ijk_Sys_syscall | Ijk_Sys_int32 | Ijk_Sys_int128 | Ijk_Sys_int129
  | Ijk_Sys_int130 | Ijk_Sys_int145 | Ijk_Sys_int210 | Ijk_Sys_sysenter

datatype IREffect = Ifx_None | Ifx_Read | Ifx_Write | Ifx_Modify

datatype IRMBusEvent = Imbe_Fence | Imbe_CancelReservation

datatype IRLoadGOp =
    ILGop_INVALID | ILGop_IdentV128 | ILGop_Ident64 | ILGop_Ident32
  | ILGop_16Uto32 | ILGop_16Sto32 | ILGop_8Uto32 | ILGop_8Sto32

record FxState =
  fx :: IREffect
  fx_offset :: nat
  fx_size :: nat
  nRepeats :: nat
  repeatLen :: nat

record IRDirty =
  cee :: "IRCallee option"
  guard :: "IRExpr option"
  args :: "IRExpr list"
  tmp :: IRTemp
  mFx :: IREffect
  mAddr :: "IRExpr option"
  mSize :: int
  fxState :: "FxState list"

record IRCAS =
  oldHi :: IRTemp
  oldLo :: IRTemp
  cas_end :: IREndness
  cas_addr :: IRExpr
  expdHi :: "IRExpr option"
  expdLo :: IRExpr
  dataHi :: "IRExpr option"
  dataLo :: IRExpr

record IRPutI =
  puti_descr :: IRRegArray
  puti_ix :: IRExpr
  puti_bias :: int
  puti_data :: IRExpr

record IRStoreG =
  sg_end :: IREndness
  sg_addr :: IRExpr
  sg_data :: IRExpr
  sg_guard :: IRExpr

record IRLoadG =
  lg_end :: IREndness
  lg_cvt :: IRLoadGOp
  lg_dst :: IRTemp
  lg_addr :: IRExpr
  lg_alt :: IRExpr
  lg_guard :: IRExpr

datatype IRStmt =
    IRStmt_NoOp
  | IRStmt_IMark "64 word" nat nat
  | IRStmt_AbiHint IRExpr int IRExpr
  | IRStmt_Put int IRExpr
  | IRStmt_PutI IRPutI
  | IRStmt_WrTmp IRTemp IRExpr
  | IRStmt_Store IREndness IRExpr IRExpr
  | IRStmt_StoreG IRStoreG
  | IRStmt_LoadG IRLoadG
  | IRStmt_CAS IRCAS
  | IRStmt_LLSC IREndness IRTemp IRExpr "IRExpr option"
  | IRStmt_Dirty IRDirty
  | IRStmt_MBE IRMBusEvent
  | IRStmt_Exit IRExpr IRJumpKind IRConst int

type_synonym IRTypeEnv = "IRType list"

record IRSB =
  tyenv :: IRTypeEnv
  stmts :: "IRStmt list"
  sb_next :: IRExpr
  jumpkind :: IRJumpKind
  offsIP :: int

section \<open>Builders\<close>

definition mkIRCallee :: "int \<Rightarrow> string \<Rightarrow> string \<Rightarrow> vex_error + IRCallee" where
  "mkIRCallee rp name addr =
     bindE (ensure (rp \<ge> 0 \<and> rp \<le> 3) (Vassert ''regparms >= 0 && regparms <= 3'')) (\<lambda>_.
     Inr \<lparr>regparms = rp, cee_name = Some name, cee_addr = Some addr\<rparr>)"

definition mkIRRegArray :: "int \<Rightarrow> IRType \<Rightarrow> int \<Rightarrow> vex_error + IRRegArray" where
  "mkIRRegArray b ty n =
     bindE (ensure (\<not> (b < 0 \<or> b > 10000)) (Vassert ''arr->base'')) (\<lambda>_.
     bindE (ensure (ty \<noteq> Ity_I1) (Vassert ''arr->elemTy'')) (\<lambda>_.
     bindE (ensure (\<not> (n \<le> 0 \<or> n > 500)) (Vassert ''arr->nElems'')) (\<lambda>_.
     Inr \<lparr>base = b, elemTy = ty, nElems = n\<rparr>)))"

definition emptyIRDirty :: IRDirty where
  "emptyIRDirty =
     \<lparr>cee = None, guard = None, args = [], tmp = IRTemp_INVALID,
      mFx = Ifx_None, mAddr = None, mSize = 0, fxState = []\<rparr>"

definition unsafeIRDirty_0_N :: "int \<Rightarrow> string \<Rightarrow> string \<Rightarrow> IRExpr list \<Rightarrow> vex_error + IRDirty" where
  "unsafeIRDirty_0_N rp name addr as =
     bindE (mkIRCallee rp name addr) (\<lambda>c.
     Inr (emptyIRDirty\<lparr>cee := Some c, guard := Some (IRExpr_Const (IRConst_U1 True)), args := as\<rparr>))"

definition unsafeIRDirty_1_N ::
    "IRTemp \<Rightarrow> int \<Rightarrow> string \<Rightarrow> string \<Rightarrow> IRExpr list \<Rightarrow> vex_error + IRDirty" where
  "unsafeIRDirty_1_N dst rp name addr as =
     bindE (mkIRCallee rp name addr) (\<lambda>c.
     Inr (emptyIRDirty\<lparr>cee := Some c, guard := Some (IRExpr_Const (IRConst_U1 True)), args := as,
                       tmp := dst\<rparr>))"

definition mkIRExprCCall ::
    "IRType \<Rightarrow> int \<Rightarrow> string \<Rightarrow> string \<Rightarrow> IRExpr list \<Rightarrow> vex_error + IRExpr" where
  "mkIRExprCCall retty rp name addr as =
     bindE (mkIRCallee rp name addr) (\<lambda>c. Inr (IRExpr_CCall c retty as))"

definition mkIRPutI :: "IRRegArray \<Rightarrow> IRExpr \<Rightarrow> int \<Rightarrow> IRExpr \<Rightarrow> IRPutI" where
  "mkIRPutI descr ix bias data =
     \<lparr>puti_descr = descr, puti_ix = ix, puti_bias = bias, puti_data = data\<rparr>"

definition addStmtToIRSB :: "IRSB \<Rightarrow> IRStmt \<Rightarrow> IRSB" where
  "addStmtToIRSB bb st = bb\<lparr>stmts := stmts bb @ [st]\<rparr>"

definition newIRTemp :: "IRTypeEnv \<Rightarrow> IRType \<Rightarrow> IRTemp \<times> IRTypeEnv" where
  "newIRTemp env ty = (length env, env @ [ty])"

definition deepCopyIRSBExceptStmts :: "IRSB \<Rightarrow> IRSB" where
  "deepCopyIRSBExceptStmts bb =
     \<lparr>tyenv = tyenv bb, stmts = [], sb_next = sb_next bb, jumpkind = jumpkind bb,
      offsIP = offsIP bb\<rparr>"

section \<open>Types of expressions\<close>

definition typeOfIRTemp :: "IRTypeEnv \<Rightarrow> IRTemp \<Rightarrow> vex_error + IRType" where
  "typeOfIRTemp env t =
     (if t < length env then Inr (env ! t) else Inl (Vassert ''tmp < env->types_used''))"

fun typeOfIRConst :: "IRConst \<Rightarrow> IRType" where
  "typeOfIRConst (IRConst_U1 _) = Ity_I1"
| "typeOfIRConst (IRConst_U8 _) = Ity_I8"
| "typeOfIRConst (IRConst_U16 _) = Ity_I16"
| "typeOfIRConst (IRConst_U32 _) = Ity_I32"
| "typeOfIRConst (IRConst_U64 _) = Ity_I64"
| "typeOfIRConst (IRConst_U128 _) = Ity_I128"
| "typeOfIRConst (IRConst_F32 _) = Ity_F32"
| "typeOfIRConst (IRConst_F32i _) = Ity_F32"
| "typeOfIRConst (IRConst_F64 _) = Ity_F64"
| "typeOfIRConst (IRConst_F64i _) = Ity_F64"
| "typeOfIRConst (IRConst_V128 _) = Ity_V128"
| "typeOfIRConst (IRConst_V256 _) = Ity_V256"

definition typeOfIRLoadGOp :: "IRLoadGOp \<Rightarrow> vex_error + IRType \<times> IRType" where
  "typeOfIRLoadGOp cvt = (case cvt of
      ILGop_IdentV128 \<Rightarrow> Inr (Ity_V128, Ity_V128)
    | ILGop_Ident64 \<Rightarrow> Inr (Ity_I64, Ity_I64)
    | ILGop_Ident32 \<Rightarrow> Inr (Ity_I32, Ity_I32)
    | ILGop_16Uto32 \<Rightarrow> Inr (Ity_I32, Ity_I16)
    | ILGop_16Sto32 \<Rightarrow> Inr (Ity_I32, Ity_I16)
    | ILGop_8Uto32 \<Rightarrow> Inr (Ity_I32, Ity_I8)
    | ILGop_8Sto32 \<Rightarrow> Inr (Ity_I32, Ity_I8)
    | ILGop_INVALID \<Rightarrow> Inl (Vpanic ''typeOfIRLoadGOp''))"

fun typeOfIRExpr :: "IRTypeEnv \<Rightarrow> IRExpr \<Rightarrow> vex_error + IRType" where
  "typeOfIRExpr env (IRExpr_Load _ ty _) = Inr ty"
| "typeOfIRExpr env (IRExpr_Get _ ty) = Inr ty"
| "typeOfIRExpr env (IRExpr_GetI descr _ _) = Inr (elemTy descr)"
| "typeOfIRExpr env (IRExpr_RdTmp t) = typeOfIRTemp env t"
| "typeOfIRExpr env (IRExpr_Const con) = Inr (typeOfIRConst con)"
| "typeOfIRExpr env (IRExpr_Qop op _ _ _ _) = bindE (typeOfPrimop op) (\<lambda>ts. Inr (fst ts))"
| "typeOfIRExpr env (IRExpr_Triop op _ _ _) = bindE (typeOfPrimop op) (\<lambda>ts. Inr (fst ts))"
| "typeOfIRExpr env (IRExpr_Binop op _ _) = bindE (typeOfPrimop op) (\<lambda>ts. Inr (fst ts))"
| "typeOfIRExpr env (IRExpr_Unop op _) = bindE (typeOfPrimop op) (\<lambda>ts. Inr (fst ts))"
| "typeOfIRExpr env (IRExpr_CCall _ retty _) = Inr retty"
| "typeOfIRExpr env (IRExpr_ITE _ _ iffalse) = typeOfIRExpr env iffalse"
| "typeOfIRExpr env (IRExpr_Binder _) =
     Inl (Vpanic ''typeOfIRExpr: Binder is not a valid expression'')"
| "typeOfIRExpr env IRExpr_VECRET =
     Inl (Vpanic ''typeOfIRExpr: VECRET is not a valid expression'')"
| "typeOfIRExpr env IRExpr_GSPTR =
     Inl (Vpanic ''typeOfIRExpr: GSPTR is not a valid expression'')"

section \<open>Flatness\<close>

fun isIRAtom :: "IRExpr \<Rightarrow> bool" where
  "isIRAtom (IRExpr_RdTmp _) = True"
| "isIRAtom (IRExpr_Const _) = True"
| "isIRAtom _ = False"

fun is_IRExpr_VECRET_or_GSPTR :: "IRExpr \<Rightarrow> bool" where
  "is_IRExpr_VECRET_or_GSPTR IRExpr_VECRET = True"
| "is_IRExpr_VECRET_or_GSPTR IRExpr_GSPTR = True"
| "is_IRExpr_VECRET_or_GSPTR _ = False"

definition isIRAtom_or_VECRET_or_GSPTR :: "IRExpr \<Rightarrow> bool" where
  "isIRAtom_or_VECRET_or_GSPTR e \<longleftrightarrow> isIRAtom e \<or> is_IRExpr_VECRET_or_GSPTR e"

fun isFlatRHS :: "IRExpr \<Rightarrow> vex_error + bool" where
  "isFlatRHS (IRExpr_Binder _) = Inr True"
| "isFlatRHS (IRExpr_Get _ _) = Inr True"
| "isFlatRHS (IRExpr_GetI _ ix _) = Inr (isIRAtom ix)"
| "isFlatRHS (IRExpr_RdTmp _) = Inr True"
| "isFlatRHS (IRExpr_Qop _ a1 a2 a3 a4) =
     Inr (isIRAtom a1 \<and> isIRAtom a2 \<and> isIRAtom a3 \<and> isIRAtom a4)"
| "isFlatRHS (IRExpr_Triop _ a1 a2 a3) = Inr (isIRAtom a1 \<and> isIRAtom a2 \<and> isIRAtom a3)"
| "isFlatRHS (IRExpr_Binop _ a1 a2) = Inr (isIRAtom a1 \<and> isIRAtom a2)"
| "isFlatRHS (IRExpr_Unop _ a) = Inr (isIRAtom a)"
| "isFlatRHS (IRExpr_Load _ _ addr) = Inr (isIRAtom addr)"
| "isFlatRHS (IRExpr_Const _) = Inr True"
| "isFlatRHS (IRExpr_CCall _ _ as) = Inr (list_all isIRAtom as)"
| "isFlatRHS (IRExpr_ITE c t f) = Inr (isIRAtom c \<and> isIRAtom t \<and> isIRAtom f)"
| "isFlatRHS IRExpr_VECRET = Inl (Vpanic ''isFlatIRStmt(e)'')"
| "isFlatRHS IRExpr_GSPTR = Inl (Vpanic ''isFlatIRStmt(e)'')"

definition opt_atom :: "IRExpr option \<Rightarrow> bool" where
  "opt_atom eo = (case eo of None \<Rightarrow> True | Some e \<Rightarrow> isIRAtom e)"

fun isFlatIRStmt :: "IRStmt \<Rightarrow> vex_error + bool" where
  "isFlatIRStmt (IRStmt_AbiHint b _ nia) = Inr (isIRAtom b \<and> isIRAtom nia)"
| "isFlatIRStmt (IRStmt_Put _ data) = Inr (isIRAtom data)"
| "isFlatIRStmt (IRStmt_PutI p) = Inr (isIRAtom (puti_ix p) \<and> isIRAtom (puti_data p))"
| "isFlatIRStmt (IRStmt_WrTmp _ e) = isFlatRHS e"
| "isFlatIRStmt (IRStmt_Store _ addr data) = Inr (isIRAtom addr \<and> isIRAtom data)"
| "isFlatIRStmt (IRStmt_StoreG sg) =
     Inr (isIRAtom (sg_addr sg) \<and> isIRAtom (sg_data sg) \<and> isIRAtom (sg_guard sg))"
| "isFlatIRStmt (IRStmt_LoadG lg) =
     Inr (isIRAtom (lg_addr lg) \<and> isIRAtom (lg_alt lg) \<and> isIRAtom (lg_guard lg))"
| "isFlatIRStmt (IRStmt_CAS cas) =
     Inr (isIRAtom (cas_addr cas) \<and> opt_atom (expdHi cas) \<and> isIRAtom (expdLo cas)
          \<and> opt_atom (dataHi cas) \<and> isIRAtom (dataLo cas))"
| "isFlatIRStmt (IRStmt_LLSC _ _ addr storedata) = Inr (isIRAtom addr \<and> opt_atom storedata)"
| "isFlatIRStmt (IRStmt_Dirty di) =
     Inr ((case guard di of None \<Rightarrow> False | Some g \<Rightarrow> isIRAtom g)
          \<and> list_all isIRAtom_or_VECRET_or_GSPTR (args di) \<and> opt_atom (mAddr di))"
| "isFlatIRStmt IRStmt_NoOp = Inr True"
| "isFlatIRStmt (IRStmt_IMark _ _ _) = Inr True"
| "isFlatIRStmt (IRStmt_MBE _) = Inr True"
| "isFlatIRStmt (IRStmt_Exit g _ _ _) = Inr (isIRAtom g)"

end
