(* ===== verification/VEX_Sanity.thy ===== *)
theory VEX_Sanity
  imports VEX_IR
begin

text \<open>
  VEX's own sanity checker for superblocks, \<^verbatim>\<open>sanityCheckIRSB\<close> of
  \<^verbatim>\<open>VEX/priv/ir_defs.c\<close>: every temporary is assigned at most once and before it is used,
  and every statement is well typed. VEX runs it on the output of a tool's instrumentation
  function, so it is the contract that Derivgrind's generated code has to meet.

  The checker aborts on the first violation; the model returns the violation as an error value.
  \<^verbatim>\<open>def_counts\<close> is a function from temporaries to counts, all zero at the start.
\<close>

section \<open>Auxiliary checks\<close>

definition saneIRRegArray :: "IRRegArray \<Rightarrow> bool" where
  "saneIRRegArray arr =
     (if base arr < 0 \<or> base arr > 10000 then False
      else if elemTy arr = Ity_I1 then False
      else if nElems arr \<le> 0 \<or> nElems arr > 500 then False
      else True)"

definition saneIRCallee :: "IRCallee \<Rightarrow> bool" where
  "saneIRCallee c =
     (if cee_name c = None then False
      else if cee_addr c = None then False
      else if regparms c < 0 \<or> regparms c > 3 then False
      else True)"

definition saneIRConst :: "IRConst \<Rightarrow> bool" where
  "saneIRConst con = (case con of IRConst_U1 b \<Rightarrow> b = True \<or> b = False | _ \<Rightarrow> True)"

section \<open>Use before definition, single assignment\<close>

type_synonym def_counts = "IRTemp \<Rightarrow> nat"

definition useBeforeDef_Temp :: "IRTypeEnv \<Rightarrow> def_counts \<Rightarrow> IRTemp \<Rightarrow> vex_error + unit" where
  "useBeforeDef_Temp env dc t =
     bindE (ensure (t < length env) (SanityFail ''out of range Temp in IRExpr'')) (\<lambda>_.
     ensure (\<not> dc t < 1) (SanityFail ''IRTemp use before def in IRExpr''))"

definition assignedOnce_Temp ::
    "IRTypeEnv \<Rightarrow> string \<Rightarrow> string \<Rightarrow> IRTemp \<Rightarrow> def_counts \<Rightarrow> vex_error + def_counts" where
  "assignedOnce_Temp env err_range err_twice t dc =
     bindE (ensure (t < length env) (SanityFail err_range)) (\<lambda>_.
     let dc' = dc(t := dc t + 1) in
     bindE (ensure (\<not> dc' t > 1) (SanityFail err_twice)) (\<lambda>_. Inr dc'))"

fun useBeforeDef_Expr :: "IRTypeEnv \<Rightarrow> def_counts \<Rightarrow> IRExpr \<Rightarrow> vex_error + unit"
and useBeforeDef_CArgs :: "IRTypeEnv \<Rightarrow> def_counts \<Rightarrow> IRExpr list \<Rightarrow> vex_error + unit" where
  "useBeforeDef_Expr env dc (IRExpr_Get _ _) = Inr ()"
| "useBeforeDef_Expr env dc (IRExpr_GetI _ ix _) = useBeforeDef_Expr env dc ix"
| "useBeforeDef_Expr env dc (IRExpr_RdTmp t) = useBeforeDef_Temp env dc t"
| "useBeforeDef_Expr env dc (IRExpr_Qop _ a1 a2 a3 a4) =
     bindE (useBeforeDef_Expr env dc a1) (\<lambda>_. bindE (useBeforeDef_Expr env dc a2) (\<lambda>_.
     bindE (useBeforeDef_Expr env dc a3) (\<lambda>_. useBeforeDef_Expr env dc a4)))"
| "useBeforeDef_Expr env dc (IRExpr_Triop _ a1 a2 a3) =
     bindE (useBeforeDef_Expr env dc a1) (\<lambda>_. bindE (useBeforeDef_Expr env dc a2) (\<lambda>_.
     useBeforeDef_Expr env dc a3))"
| "useBeforeDef_Expr env dc (IRExpr_Binop _ a1 a2) =
     bindE (useBeforeDef_Expr env dc a1) (\<lambda>_. useBeforeDef_Expr env dc a2)"
| "useBeforeDef_Expr env dc (IRExpr_Unop _ a) = useBeforeDef_Expr env dc a"
| "useBeforeDef_Expr env dc (IRExpr_Load _ _ addr) = useBeforeDef_Expr env dc addr"
| "useBeforeDef_Expr env dc (IRExpr_Const _) = Inr ()"
| "useBeforeDef_Expr env dc (IRExpr_CCall _ _ as) = useBeforeDef_CArgs env dc as"
| "useBeforeDef_Expr env dc (IRExpr_ITE c t f) =
     bindE (useBeforeDef_Expr env dc c) (\<lambda>_. bindE (useBeforeDef_Expr env dc t) (\<lambda>_.
     useBeforeDef_Expr env dc f))"
| "useBeforeDef_Expr env dc (IRExpr_Binder _) = Inl (Vpanic ''useBeforeDef_Expr'')"
| "useBeforeDef_Expr env dc IRExpr_VECRET = Inl (Vpanic ''useBeforeDef_Expr'')"
| "useBeforeDef_Expr env dc IRExpr_GSPTR = Inl (Vpanic ''useBeforeDef_Expr'')"
| "useBeforeDef_CArgs env dc [] = Inr ()"
| "useBeforeDef_CArgs env dc (a # as) =
     bindE (ensure (\<not> is_IRExpr_VECRET_or_GSPTR a)
              (SanityFail ''IRExprP__* value in CCall arg list'')) (\<lambda>_.
     bindE (useBeforeDef_Expr env dc a) (\<lambda>_. useBeforeDef_CArgs env dc as))"

definition useBeforeDef_Opt ::
    "IRTypeEnv \<Rightarrow> def_counts \<Rightarrow> IRExpr option \<Rightarrow> vex_error + unit" where
  "useBeforeDef_Opt env dc eo = (case eo of None \<Rightarrow> Inr () | Some e \<Rightarrow> useBeforeDef_Expr env dc e)"

fun useBeforeDef_DirtyArgs ::
    "IRTypeEnv \<Rightarrow> def_counts \<Rightarrow> IRExpr list \<Rightarrow> vex_error + unit" where
  "useBeforeDef_DirtyArgs env dc [] = Inr ()"
| "useBeforeDef_DirtyArgs env dc (a # as) =
     bindE (if is_IRExpr_VECRET_or_GSPTR a then Inr () else useBeforeDef_Expr env dc a) (\<lambda>_.
     useBeforeDef_DirtyArgs env dc as)"

fun useBeforeDef_Stmt :: "IRTypeEnv \<Rightarrow> def_counts \<Rightarrow> IRStmt \<Rightarrow> vex_error + unit" where
  "useBeforeDef_Stmt env dc (IRStmt_IMark _ _ _) = Inr ()"
| "useBeforeDef_Stmt env dc (IRStmt_AbiHint b _ nia) =
     bindE (useBeforeDef_Expr env dc b) (\<lambda>_. useBeforeDef_Expr env dc nia)"
| "useBeforeDef_Stmt env dc (IRStmt_Put _ data) = useBeforeDef_Expr env dc data"
| "useBeforeDef_Stmt env dc (IRStmt_PutI p) =
     bindE (useBeforeDef_Expr env dc (puti_ix p)) (\<lambda>_. useBeforeDef_Expr env dc (puti_data p))"
| "useBeforeDef_Stmt env dc (IRStmt_WrTmp _ data) = useBeforeDef_Expr env dc data"
| "useBeforeDef_Stmt env dc (IRStmt_Store _ addr data) =
     bindE (useBeforeDef_Expr env dc addr) (\<lambda>_. useBeforeDef_Expr env dc data)"
| "useBeforeDef_Stmt env dc (IRStmt_StoreG sg) =
     bindE (useBeforeDef_Expr env dc (sg_addr sg)) (\<lambda>_.
     bindE (useBeforeDef_Expr env dc (sg_data sg)) (\<lambda>_. useBeforeDef_Expr env dc (sg_guard sg)))"
| "useBeforeDef_Stmt env dc (IRStmt_LoadG lg) =
     bindE (useBeforeDef_Expr env dc (lg_addr lg)) (\<lambda>_.
     bindE (useBeforeDef_Expr env dc (lg_alt lg)) (\<lambda>_. useBeforeDef_Expr env dc (lg_guard lg)))"
| "useBeforeDef_Stmt env dc (IRStmt_CAS cas) =
     bindE (useBeforeDef_Expr env dc (cas_addr cas)) (\<lambda>_.
     bindE (useBeforeDef_Opt env dc (expdHi cas)) (\<lambda>_.
     bindE (useBeforeDef_Expr env dc (expdLo cas)) (\<lambda>_.
     bindE (useBeforeDef_Opt env dc (dataHi cas)) (\<lambda>_. useBeforeDef_Expr env dc (dataLo cas)))))"
| "useBeforeDef_Stmt env dc (IRStmt_LLSC _ _ addr storedata) =
     bindE (useBeforeDef_Expr env dc addr) (\<lambda>_. useBeforeDef_Opt env dc storedata)"
| "useBeforeDef_Stmt env dc (IRStmt_Dirty d) =
     bindE (useBeforeDef_DirtyArgs env dc (args d)) (\<lambda>_.
     if mFx d \<noteq> Ifx_None then useBeforeDef_Opt env dc (mAddr d) else Inr ())"
| "useBeforeDef_Stmt env dc IRStmt_NoOp = Inr ()"
| "useBeforeDef_Stmt env dc (IRStmt_MBE _) = Inr ()"
| "useBeforeDef_Stmt env dc (IRStmt_Exit g _ _ _) = useBeforeDef_Expr env dc g"

fun assignedOnce_Stmt :: "IRTypeEnv \<Rightarrow> IRStmt \<Rightarrow> def_counts \<Rightarrow> vex_error + def_counts" where
  "assignedOnce_Stmt env (IRStmt_WrTmp t _) dc =
     assignedOnce_Temp env ''IRStmt.Tmp: destination tmp is out of range''
       ''IRStmt.Tmp: destination tmp is assigned more than once'' t dc"
| "assignedOnce_Stmt env (IRStmt_LoadG lg) dc =
     assignedOnce_Temp env ''IRStmt.LoadG: destination tmp is out of range''
       ''IRStmt.LoadG: destination tmp is assigned more than once'' (lg_dst lg) dc"
| "assignedOnce_Stmt env (IRStmt_Dirty d) dc =
     (if tmp d \<noteq> IRTemp_INVALID
      then assignedOnce_Temp env ''IRStmt.Dirty: destination tmp is out of range''
             ''IRStmt.Dirty: destination tmp is assigned more than once'' (tmp d) dc
      else Inr dc)"
| "assignedOnce_Stmt env (IRStmt_CAS cas) dc =
     bindE (if oldHi cas \<noteq> IRTemp_INVALID
            then assignedOnce_Temp env ''IRStmt.CAS: destination tmpHi is out of range''
                   ''IRStmt.CAS: destination tmpHi is assigned more than once'' (oldHi cas) dc
            else Inr dc) (\<lambda>dc1.
     assignedOnce_Temp env ''IRStmt.CAS: destination tmpLo is out of range''
       ''IRStmt.CAS: destination tmpLo is assigned more than once'' (oldLo cas) dc1)"
| "assignedOnce_Stmt env (IRStmt_LLSC _ result _ _) dc =
     assignedOnce_Temp env ''IRStmt.LLSC: destination tmp is out of range''
       ''IRStmt.LLSC: destination tmp is assigned more than once'' result dc"
| "assignedOnce_Stmt env _ dc = Inr dc"

section \<open>Type checking\<close>

definition tc_Qop :: "IRTypeEnv \<Rightarrow> IROp \<Rightarrow> IRExpr \<Rightarrow> IRExpr \<Rightarrow> IRExpr \<Rightarrow> IRExpr \<Rightarrow> vex_error + unit" where
  "tc_Qop env op a1 a2 a3 a4 =
     bindE (typeOfPrimop op) (\<lambda>(t_dst, t1, t2, t3, t4).
     bindE (ensure (\<not> (t1 = Ity_INVALID \<or> t2 = Ity_INVALID \<or> t3 = Ity_INVALID \<or> t4 = Ity_INVALID))
              (SanityFail ''Iex.Qop: wrong arity op'')) (\<lambda>_.
     bindE (typeOfIRExpr env a1) (\<lambda>tt1. bindE (typeOfIRExpr env a2) (\<lambda>tt2.
     bindE (typeOfIRExpr env a3) (\<lambda>tt3. bindE (typeOfIRExpr env a4) (\<lambda>tt4.
     ensure (\<not> (t1 \<noteq> tt1 \<or> t2 \<noteq> tt2 \<or> t3 \<noteq> tt3 \<or> t4 \<noteq> tt4))
       (SanityFail ''Iex.Qop: arg tys don't match op tys'')))))))"

definition tc_Triop :: "IRTypeEnv \<Rightarrow> IROp \<Rightarrow> IRExpr \<Rightarrow> IRExpr \<Rightarrow> IRExpr \<Rightarrow> vex_error + unit" where
  "tc_Triop env op a1 a2 a3 =
     bindE (typeOfPrimop op) (\<lambda>(t_dst, t1, t2, t3, t4).
     bindE (ensure (\<not> (t1 = Ity_INVALID \<or> t2 = Ity_INVALID \<or> t3 = Ity_INVALID \<or> t4 \<noteq> Ity_INVALID))
              (SanityFail ''Iex.Triop: wrong arity op'')) (\<lambda>_.
     bindE (typeOfIRExpr env a1) (\<lambda>tt1. bindE (typeOfIRExpr env a2) (\<lambda>tt2.
     bindE (typeOfIRExpr env a3) (\<lambda>tt3.
     ensure (\<not> (t1 \<noteq> tt1 \<or> t2 \<noteq> tt2 \<or> t3 \<noteq> tt3))
       (SanityFail ''Iex.Triop: arg tys don't match op tys''))))))"

definition tc_Binop :: "IRTypeEnv \<Rightarrow> IROp \<Rightarrow> IRExpr \<Rightarrow> IRExpr \<Rightarrow> vex_error + unit" where
  "tc_Binop env op a1 a2 =
     bindE (typeOfPrimop op) (\<lambda>(t_dst, t1, t2, t3, t4).
     bindE (ensure (\<not> (t1 = Ity_INVALID \<or> t2 = Ity_INVALID \<or> t3 \<noteq> Ity_INVALID \<or> t4 \<noteq> Ity_INVALID))
              (SanityFail ''Iex.Binop: wrong arity op'')) (\<lambda>_.
     bindE (typeOfIRExpr env a1) (\<lambda>tt1. bindE (typeOfIRExpr env a2) (\<lambda>tt2.
     ensure (\<not> (t1 \<noteq> tt1 \<or> t2 \<noteq> tt2))
       (SanityFail ''Iex.Binop: arg tys don't match op tys'')))))"

definition tc_Unop :: "IRTypeEnv \<Rightarrow> IROp \<Rightarrow> IRExpr \<Rightarrow> vex_error + unit" where
  "tc_Unop env op a =
     bindE (typeOfPrimop op) (\<lambda>(t_dst, t1, t2, t3, t4).
     bindE (ensure (\<not> (t1 = Ity_INVALID \<or> t2 \<noteq> Ity_INVALID \<or> t3 \<noteq> Ity_INVALID \<or> t4 \<noteq> Ity_INVALID))
              (SanityFail ''Iex.Unop: wrong arity op'')) (\<lambda>_.
     bindE (typeOfIRExpr env a) (\<lambda>tt.
     ensure (\<not> t1 \<noteq> tt) (SanityFail ''Iex.Unop: arg ty doesn't match op ty''))))"

fun tc_noI1 :: "IRTypeEnv \<Rightarrow> vex_error \<Rightarrow> IRExpr list \<Rightarrow> vex_error + unit" where
  "tc_noI1 env err [] = Inr ()"
| "tc_noI1 env err (a # as) =
     bindE (typeOfIRExpr env a) (\<lambda>t. bindE (ensure (t \<noteq> Ity_I1) err) (\<lambda>_. tc_noI1 env err as))"

fun tcExpr :: "IRTypeEnv \<Rightarrow> IRType \<Rightarrow> IRExpr \<Rightarrow> vex_error + unit"
and tc_CArgs :: "IRTypeEnv \<Rightarrow> IRType \<Rightarrow> nat \<Rightarrow> IRExpr list \<Rightarrow> vex_error + unit" where
  "tcExpr env gw (IRExpr_Get _ _) = Inr ()"
| "tcExpr env gw (IRExpr_RdTmp _) = Inr ()"
| "tcExpr env gw (IRExpr_GetI descr ix _) =
     bindE (tcExpr env gw ix) (\<lambda>_.
     bindE (typeOfIRExpr env ix) (\<lambda>t.
     bindE (ensure (t = Ity_I32) (SanityFail ''IRExpr.GetI.ix: not :: Ity_I32'')) (\<lambda>_.
     ensure (saneIRRegArray descr) (SanityFail ''IRExpr.GetI.descr: invalid descr''))))"
| "tcExpr env gw (IRExpr_Qop op a1 a2 a3 a4) =
     bindE (tcExpr env gw a1) (\<lambda>_. bindE (tcExpr env gw a2) (\<lambda>_.
     bindE (tcExpr env gw a3) (\<lambda>_. bindE (tcExpr env gw a4) (\<lambda>_. tc_Qop env op a1 a2 a3 a4))))"
| "tcExpr env gw (IRExpr_Triop op a1 a2 a3) =
     bindE (tcExpr env gw a1) (\<lambda>_. bindE (tcExpr env gw a2) (\<lambda>_.
     bindE (tcExpr env gw a3) (\<lambda>_. tc_Triop env op a1 a2 a3)))"
| "tcExpr env gw (IRExpr_Binop op a1 a2) =
     bindE (tcExpr env gw a1) (\<lambda>_. bindE (tcExpr env gw a2) (\<lambda>_. tc_Binop env op a1 a2))"
| "tcExpr env gw (IRExpr_Unop op a) =
     bindE (tcExpr env gw a) (\<lambda>_. tc_Unop env op a)"
| "tcExpr env gw (IRExpr_Load _ _ addr) =
     bindE (tcExpr env gw addr) (\<lambda>_.
     bindE (typeOfIRExpr env addr) (\<lambda>t.
     ensure (t = gw) (SanityFail ''Iex.Load.addr: not :: guest word type'')))"
| "tcExpr env gw (IRExpr_CCall c retty as) =
     bindE (ensure (saneIRCallee c) (SanityFail ''Iex.CCall.cee: bad IRCallee'')) (\<lambda>_.
     bindE (ensure (\<not> regparms c > int (length as))
              (SanityFail ''Iex.CCall.cee: #regparms > #args'')) (\<lambda>_.
     bindE (tc_CArgs env gw 0 as) (\<lambda>_.
     bindE (ensure (retty \<noteq> Ity_I1)
              (SanityFail ''Iex.CCall.retty: cannot return :: Ity_I1'')) (\<lambda>_.
     tc_noI1 env (SanityFail ''Iex.CCall.arg: arg :: Ity_I1'') as))))"
| "tcExpr env gw (IRExpr_Const con) =
     ensure (saneIRConst con) (SanityFail ''Iex.Const.con: invalid const'')"
| "tcExpr env gw (IRExpr_ITE c t f) =
     bindE (tcExpr env gw c) (\<lambda>_. bindE (tcExpr env gw t) (\<lambda>_. bindE (tcExpr env gw f) (\<lambda>_.
     bindE (typeOfIRExpr env c) (\<lambda>tc.
     bindE (ensure (tc = Ity_I1) (SanityFail ''Iex.ITE.cond: cond :: Ity_I1'')) (\<lambda>_.
     bindE (typeOfIRExpr env t) (\<lambda>tt. bindE (typeOfIRExpr env f) (\<lambda>tf.
     ensure (tt = tf) (SanityFail ''Iex.ITE: iftrue/iffalse mismatch''))))))))"
| "tcExpr env gw (IRExpr_Binder _) = Inl (Vpanic ''tcExpr'')"
| "tcExpr env gw IRExpr_VECRET = Inl (Vpanic ''tcExpr'')"
| "tcExpr env gw IRExpr_GSPTR = Inl (Vpanic ''tcExpr'')"
| "tc_CArgs env gw i [] = Inr ()"
| "tc_CArgs env gw i (a # as) =
     bindE (ensure (\<not> i \<ge> 32) (SanityFail ''Iex.CCall: > 32 args'')) (\<lambda>_.
     bindE (ensure (\<not> is_IRExpr_VECRET_or_GSPTR a)
              (SanityFail ''Iex.CCall.args: is VECRET/GSPTR'')) (\<lambda>_.
     bindE (tcExpr env gw a) (\<lambda>_. tc_CArgs env gw (i + 1) as)))"

definition bad_cas :: vex_error where
  "bad_cas = SanityFail ''IRStmt.CAS: ill-formed''"

definition tc_CAS_Hi :: "IRTypeEnv \<Rightarrow> IRCAS \<Rightarrow> vex_error + unit" where
  "tc_CAS_Hi env cas = (case (expdHi cas, dataHi cas) of
      (Some eHi, Some dHi) \<Rightarrow>
        bindE (typeOfIRExpr env eHi) (\<lambda>tyExpd. bindE (typeOfIRExpr env dHi) (\<lambda>tyData.
        bindE (ensure (tyExpd = tyData) bad_cas) (\<lambda>_.
        bindE (typeOfIRTemp env (oldHi cas)) (\<lambda>tyHi.
        bindE (ensure (tyExpd = tyHi) bad_cas) (\<lambda>_.
        bindE (typeOfIRTemp env (oldLo cas)) (\<lambda>tyLo. ensure (tyHi = tyLo) bad_cas))))))
    | _ \<Rightarrow> Inl bad_cas)"

definition tc_CAS :: "IRTypeEnv \<Rightarrow> IRType \<Rightarrow> IRCAS \<Rightarrow> vex_error + unit" where
  "tc_CAS env gw cas =
     bindE (ensure (oldHi cas = IRTemp_INVALID \<and> expdHi cas = None \<and> dataHi cas = None
                    \<or> oldHi cas \<noteq> IRTemp_INVALID \<and> expdHi cas \<noteq> None \<and> dataHi cas \<noteq> None)
              bad_cas) (\<lambda>_.
     bindE (tcExpr env gw (cas_addr cas)) (\<lambda>_.
     bindE (typeOfIRExpr env (cas_addr cas)) (\<lambda>tyAddr.
     bindE (ensure (tyAddr = gw) bad_cas) (\<lambda>_.
     bindE (typeOfIRExpr env (expdLo cas)) (\<lambda>tyExpd.
     bindE (typeOfIRExpr env (dataLo cas)) (\<lambda>tyData.
     bindE (ensure (tyExpd = tyData) bad_cas) (\<lambda>_.
     bindE (typeOfIRTemp env (oldLo cas)) (\<lambda>tyOld.
     bindE (ensure (tyExpd = tyOld) bad_cas) (\<lambda>_.
     bindE (ensure (tyExpd = Ity_I8 \<or> tyExpd = Ity_I16 \<or> tyExpd = Ity_I32
                    \<or> gw = Ity_I64 \<and> tyExpd = Ity_I64) bad_cas) (\<lambda>_.
     if oldHi cas \<noteq> IRTemp_INVALID then tc_CAS_Hi env cas else Inr ()))))))))))"

definition tc_LLSC ::
    "IRTypeEnv \<Rightarrow> IRType \<Rightarrow> IRTemp \<Rightarrow> IRExpr \<Rightarrow> IRExpr option \<Rightarrow> vex_error + unit" where
  "tc_LLSC env gw result addr storedata =
     bindE (typeOfIRExpr env addr) (\<lambda>tyAddr.
     bindE (ensure (tyAddr = gw) (SanityFail ''IRStmt.LLSC.addr: not :: guest word type'')) (\<lambda>_.
     bindE (typeOfIRTemp env result) (\<lambda>tyRes.
     case storedata of
       None \<Rightarrow>
         ensure (tyRes \<in> {Ity_I128, Ity_I64, Ity_I32, Ity_I16, Ity_I8})
           (SanityFail ''Ist.LLSC(LL).result :: bogus'')
     | Some data \<Rightarrow>
         bindE (ensure (tyRes = Ity_I1) (SanityFail ''Ist.LLSC(SC).result: not :: Ity_I1'')) (\<lambda>_.
         bindE (typeOfIRExpr env data) (\<lambda>tyData.
         ensure (tyData \<in> {Ity_I128, Ity_I64, Ity_I32, Ity_I16, Ity_I8})
           (SanityFail ''Ist.LLSC(SC).result :: storedata bogus''))))))"

definition saneFxState :: "FxState \<Rightarrow> bool" where
  "saneFxState f =
     (if fx f = Ifx_None then False
      else if fx_size f \<le> 0 then False
      else if nRepeats f = 0 then \<not> (repeatLen f \<noteq> 0)
      else if repeatLen f \<le> fx_size f then False
      else \<not> (repeatLen f mod fx_size f \<noteq> 0))"

definition VEX_N_FXSTATE :: nat where
  "VEX_N_FXSTATE = 7"

definition sane_IRDirty :: "IRDirty \<Rightarrow> bool" where
  "sane_IRDirty d = (case cee d of None \<Rightarrow> False | Some c \<Rightarrow>
      saneIRCallee c \<and> \<not> regparms c > int (length (args d))
      \<and> (if mFx d = Ifx_None then \<not> (mAddr d \<noteq> None \<or> mSize d \<noteq> 0)
         else \<not> (mAddr d = None \<or> mSize d = 0))
      \<and> \<not> length (fxState d) > VEX_N_FXSTATE
      \<and> list_all saneFxState (fxState d))"

fun tc_DirtyArgs ::
    "IRTypeEnv \<Rightarrow> IRType \<Rightarrow> nat \<Rightarrow> nat \<Rightarrow> nat \<Rightarrow> IRExpr list \<Rightarrow> vex_error + nat" where
  "tc_DirtyArgs env retTy i nVECRETs nGSPTRs [] = Inr nGSPTRs"
| "tc_DirtyArgs env retTy i nVECRETs nGSPTRs (arg # as) =
     bindE (ensure (\<not> i \<ge> 32) (SanityFail ''IRStmt.Dirty: > 32 args'')) (\<lambda>_.
     bindE (if arg = IRExpr_VECRET then Inr (nVECRETs + 1, nGSPTRs)
            else if arg = IRExpr_GSPTR then Inr (nVECRETs, nGSPTRs + 1)
            else bindE (typeOfIRExpr env arg) (\<lambda>t.
                 bindE (ensure (t \<noteq> Ity_I1) (SanityFail ''IRStmt.Dirty.arg[i] :: Ity_I1'')) (\<lambda>_.
                 Inr (nVECRETs, nGSPTRs)))) (\<lambda>(nV, nG).
     bindE (ensure (\<not> nG > 1) (SanityFail ''IRStmt.Dirty.args: > 1 GSPTR arg'')) (\<lambda>_.
     bindE (if nV = 1 then
              ensure (retTy = Ity_V128 \<or> retTy = Ity_V256)
                (SanityFail ''IRStmt.Dirty.args: VECRET present, but fn does not return V128 or V256'')
            else if nV = 0 then
              ensure (\<not> (retTy = Ity_V128 \<or> retTy = Ity_V256))
                (SanityFail ''IRStmt.Dirty.args: VECRET not present, but fn returns V128 or V256'')
            else Inl (SanityFail ''IRStmt.Dirty.args: > 1 VECRET present'')) (\<lambda>_.
     tc_DirtyArgs env retTy (i + 1) nV nG as))))"

definition tc_Dirty :: "IRTypeEnv \<Rightarrow> IRType \<Rightarrow> IRDirty \<Rightarrow> vex_error + unit" where
  "tc_Dirty env gw d =
     bindE (ensure (sane_IRDirty d) (SanityFail ''IRStmt.Dirty: ill-formed'')) (\<lambda>_.
     case guard d of
       None \<Rightarrow> Inl (SanityFail ''IRStmt.Dirty: ill-formed'')
     | Some g \<Rightarrow>
         bindE (tcExpr env gw g) (\<lambda>_.
         bindE (typeOfIRExpr env g) (\<lambda>tg.
         bindE (ensure (tg = Ity_I1) (SanityFail ''IRStmt.Dirty.guard not :: Ity_I1'')) (\<lambda>_.
         bindE (if tmp d \<noteq> IRTemp_INVALID
                then bindE (typeOfIRTemp env (tmp d)) (\<lambda>t.
                     bindE (ensure (t \<noteq> Ity_I1) (SanityFail ''IRStmt.Dirty.dst :: Ity_I1'')) (\<lambda>_. Inr t))
                else Inr Ity_INVALID) (\<lambda>retTy.
         bindE (tc_DirtyArgs env retTy 0 0 0 (args d)) (\<lambda>nGSPTRs.
         bindE (ensure (\<not> nGSPTRs > 1) (SanityFail ''IRStmt.Dirty.args: > 1 GSPTR present'')) (\<lambda>_.
         ensure (\<not> (fxState d = [] \<and> nGSPTRs \<noteq> 0))
           (SanityFail ''IRStmt.Dirty.args: GSPTR requested, but no fxState declared''))))))))"

fun tcStmt :: "IRTypeEnv \<Rightarrow> IRType \<Rightarrow> IRStmt \<Rightarrow> vex_error + unit" where
  "tcStmt env gw (IRStmt_IMark _ len delta) =
     bindE (ensure (\<not> len > 24) (SanityFail ''IRStmt.IMark.len: implausible'')) (\<lambda>_.
     ensure (\<not> delta > 1) (SanityFail ''IRStmt.IMark.delta: implausible''))"
| "tcStmt env gw (IRStmt_AbiHint b _ nia) =
     bindE (typeOfIRExpr env b) (\<lambda>tb.
     bindE (ensure (tb = gw) (SanityFail ''IRStmt.AbiHint.base: not :: guest word type'')) (\<lambda>_.
     bindE (typeOfIRExpr env nia) (\<lambda>tn.
     ensure (tn = gw) (SanityFail ''IRStmt.AbiHint.nia: not :: guest word type''))))"
| "tcStmt env gw (IRStmt_Put _ data) =
     bindE (tcExpr env gw data) (\<lambda>_.
     bindE (typeOfIRExpr env data) (\<lambda>t.
     ensure (t \<noteq> Ity_I1) (SanityFail ''IRStmt.Put.data: cannot Put :: Ity_I1'')))"
| "tcStmt env gw (IRStmt_PutI p) =
     bindE (tcExpr env gw (puti_data p)) (\<lambda>_.
     bindE (tcExpr env gw (puti_ix p)) (\<lambda>_.
     bindE (typeOfIRExpr env (puti_data p)) (\<lambda>td.
     bindE (ensure (td \<noteq> Ity_I1) (SanityFail ''IRStmt.PutI.data: cannot PutI :: Ity_I1'')) (\<lambda>_.
     bindE (ensure (td = elemTy (puti_descr p))
              (SanityFail ''IRStmt.PutI.data: data ty != elem ty'')) (\<lambda>_.
     bindE (typeOfIRExpr env (puti_ix p)) (\<lambda>tix.
     bindE (ensure (tix = Ity_I32) (SanityFail ''IRStmt.PutI.ix: not :: Ity_I32'')) (\<lambda>_.
     ensure (saneIRRegArray (puti_descr p)) (SanityFail ''IRStmt.PutI.descr: invalid descr''))))))))"
| "tcStmt env gw (IRStmt_WrTmp t data) =
     bindE (tcExpr env gw data) (\<lambda>_.
     bindE (typeOfIRTemp env t) (\<lambda>tt. bindE (typeOfIRExpr env data) (\<lambda>td.
     ensure (tt = td) (SanityFail ''IRStmt.Put.Tmp: tmp and expr do not match''))))"
| "tcStmt env gw (IRStmt_Store _ addr data) =
     bindE (tcExpr env gw addr) (\<lambda>_. bindE (tcExpr env gw data) (\<lambda>_.
     bindE (typeOfIRExpr env addr) (\<lambda>ta.
     bindE (ensure (ta = gw) (SanityFail ''IRStmt.Store.addr: not :: guest word type'')) (\<lambda>_.
     bindE (typeOfIRExpr env data) (\<lambda>td.
     ensure (td \<noteq> Ity_I1) (SanityFail ''IRStmt.Store.data: cannot Store :: Ity_I1''))))))"
| "tcStmt env gw (IRStmt_StoreG sg) =
     bindE (tcExpr env gw (sg_addr sg)) (\<lambda>_. bindE (tcExpr env gw (sg_data sg)) (\<lambda>_.
     bindE (tcExpr env gw (sg_guard sg)) (\<lambda>_.
     bindE (typeOfIRExpr env (sg_addr sg)) (\<lambda>ta.
     bindE (ensure (ta = gw) (SanityFail ''IRStmtG...addr: not :: guest word type'')) (\<lambda>_.
     bindE (typeOfIRExpr env (sg_data sg)) (\<lambda>td.
     bindE (ensure (td \<noteq> Ity_I1) (SanityFail ''IRStmtG...data: cannot Store :: Ity_I1'')) (\<lambda>_.
     bindE (typeOfIRExpr env (sg_guard sg)) (\<lambda>tg.
     ensure (tg = Ity_I1) (SanityFail ''IRStmtG...guard: not :: Ity_I1'')))))))))"
| "tcStmt env gw (IRStmt_LoadG lg) =
     bindE (tcExpr env gw (lg_addr lg)) (\<lambda>_. bindE (tcExpr env gw (lg_alt lg)) (\<lambda>_.
     bindE (tcExpr env gw (lg_guard lg)) (\<lambda>_.
     bindE (typeOfIRExpr env (lg_guard lg)) (\<lambda>tg.
     bindE (ensure (tg = Ity_I1) (SanityFail ''IRStmt.LoadG.guard: not :: Ity_I1'')) (\<lambda>_.
     bindE (typeOfIRExpr env (lg_addr lg)) (\<lambda>ta.
     bindE (ensure (ta = gw) (SanityFail ''IRStmt.LoadG.addr: not :: guest word type'')) (\<lambda>_.
     bindE (typeOfIRExpr env (lg_alt lg)) (\<lambda>talt. bindE (typeOfIRTemp env (lg_dst lg)) (\<lambda>tdst.
     bindE (ensure (talt = tdst) (SanityFail ''IRStmt.LoadG: dst/alt type mismatch'')) (\<lambda>_.
     bindE (typeOfIRLoadGOp (lg_cvt lg)) (\<lambda>(cvtRes, cvtArg).
     ensure (cvtRes = tdst) (SanityFail ''IRStmt.LoadG: dst/loaded type mismatch''))))))))))))"
| "tcStmt env gw (IRStmt_CAS cas) = tc_CAS env gw cas"
| "tcStmt env gw (IRStmt_LLSC _ result addr storedata) = tc_LLSC env gw result addr storedata"
| "tcStmt env gw (IRStmt_Dirty d) = tc_Dirty env gw d"
| "tcStmt env gw IRStmt_NoOp = Inr ()"
| "tcStmt env gw (IRStmt_MBE _) = Inr ()"
| "tcStmt env gw (IRStmt_Exit g _ dst oIP) =
     bindE (tcExpr env gw g) (\<lambda>_.
     bindE (typeOfIRExpr env g) (\<lambda>tg.
     bindE (ensure (tg = Ity_I1) (SanityFail ''IRStmt.Exit.guard: not :: Ity_I1'')) (\<lambda>_.
     bindE (ensure (saneIRConst dst) (SanityFail ''IRStmt.Exit.dst: bad dst'')) (\<lambda>_.
     bindE (ensure (typeOfIRConst dst = gw) (SanityFail ''IRStmt.Exit.dst: not :: guest word type'')) (\<lambda>_.
     ensure (\<not> oIP < 16) (SanityFail ''IRStmt.Exit.offsIP: too low''))))))"

section \<open>Checking a superblock\<close>

fun flat_Stmts :: "IRStmt list \<Rightarrow> vex_error + unit" where
  "flat_Stmts [] = Inr ()"
| "flat_Stmts (st # sts) =
     bindE (isFlatIRStmt st) (\<lambda>b.
     bindE (ensure b (SanityFail ''IRStmt: is not flat'')) (\<lambda>_. flat_Stmts sts))"

fun defs_Stmts :: "IRTypeEnv \<Rightarrow> def_counts \<Rightarrow> IRStmt list \<Rightarrow> vex_error + def_counts" where
  "defs_Stmts env dc [] = Inr dc"
| "defs_Stmts env dc (st # sts) =
     bindE (useBeforeDef_Stmt env dc st) (\<lambda>_.
     bindE (assignedOnce_Stmt env st dc) (\<lambda>dc'. defs_Stmts env dc' sts))"

fun tc_Stmts :: "IRTypeEnv \<Rightarrow> IRType \<Rightarrow> IRStmt list \<Rightarrow> vex_error + unit" where
  "tc_Stmts env gw [] = Inr ()"
| "tc_Stmts env gw (st # sts) = bindE (tcStmt env gw st) (\<lambda>_. tc_Stmts env gw sts)"

definition sanityCheckIRSB :: "IRSB \<Rightarrow> bool \<Rightarrow> IRType \<Rightarrow> vex_error + unit" where
  "sanityCheckIRSB bb require_flat guest_word_size =
     bindE (ensure (guest_word_size = Ity_I32 \<or> guest_word_size = Ity_I64)
              (Vassert ''guest_word_size'')) (\<lambda>_.
     bindE (ensure (list_all isPlausibleIRType (tyenv bb))
              (SanityFail ''Temp declared with implausible type'')) (\<lambda>_.
     bindE (if require_flat
            then bindE (flat_Stmts (stmts bb)) (\<lambda>_.
                 ensure (isIRAtom (sb_next bb)) (SanityFail ''bb->next is not an atom''))
            else Inr ()) (\<lambda>_.
     bindE (defs_Stmts (tyenv bb) (\<lambda>_. 0) (stmts bb)) (\<lambda>_.
     bindE (tc_Stmts (tyenv bb) guest_word_size (stmts bb)) (\<lambda>_.
     bindE (typeOfIRExpr (tyenv bb) (sb_next bb)) (\<lambda>tn.
     bindE (ensure (tn = guest_word_size) (SanityFail ''bb->next field has wrong type'')) (\<lambda>_.
     ensure (\<not> offsIP bb < 16) (SanityFail ''bb->offsIP: too low''))))))))"

section \<open>Checks of a sequence of statements\<close>

lemma defs_Stmts_append [simp]:
  "defs_Stmts env dc (xs @ ys) = bindE (defs_Stmts env dc xs) (\<lambda>dc'. defs_Stmts env dc' ys)"
  by (induction xs arbitrary: dc) (simp_all add: bindE_def split: sum.splits)

lemma tc_Stmts_append [simp]:
  "tc_Stmts env gw (xs @ ys) = bindE (tc_Stmts env gw xs) (\<lambda>_. tc_Stmts env gw ys)"
  by (induction xs) (simp_all add: bindE_def split: sum.splits)

lemma isPlausible_all [simp]: "isPlausibleIRType ty"
  by (cases ty) (simp_all add: isPlausibleIRType_def)

end
