(* ===== verification/VEX_Typing.thy ===== *)
theory VEX_Typing
  imports VEX_Sanity
begin

text \<open>
  The contract of VEX's sanity checker in a form that composes. \<open>wt env gw dc e ty\<close> says that
  expression \<open>e\<close> passes all expression checks of \<^verbatim>\<open>sanityCheckIRSB\<close> and has type
  \<open>ty\<close>; \<open>wt_stmt\<close> says the same of a statement and relates the definition counts before and
  after it; \<open>sane_sb\<close> says that the statements collected so far in a block pass all statement
  checks. The collection \<open>wt_simps\<close> characterises \<open>wt\<close> for every expression form, and the
  weakening lemmas say that growing the type environment (\<^verbatim>\<open>newIRTemp\<close>) or defining more
  temporaries keeps everything that was accepted.
\<close>

named_theorems wt_simps \<open>characterisation of well-typed expressions\<close>

section \<open>Well-typed expressions\<close>

definition wt :: "IRTypeEnv \<Rightarrow> IRType \<Rightarrow> def_counts \<Rightarrow> IRExpr \<Rightarrow> IRType \<Rightarrow> bool" where
  "wt env gw dc e ty \<longleftrightarrow>
     useBeforeDef_Expr env dc e = Inr () \<and> tcExpr env gw e = Inr () \<and> typeOfIRExpr env e = Inr ty"

lemma wt_type: "wt env gw dc e ty \<Longrightarrow> typeOfIRExpr env e = Inr ty"
  by (simp add: wt_def)

lemma wt_unique: "wt env gw dc e ty \<Longrightarrow> wt env gw dc e ty' \<Longrightarrow> ty' = ty"
  by (simp add: wt_def)

lemma sane_const [simp]: "saneIRConst c"
  by (simp add: saneIRConst_def split: IRConst.split)

lemma wt_Const [wt_simps]: "wt env gw dc (IRExpr_Const c) ty \<longleftrightarrow> ty = typeOfIRConst c"
  by (auto simp: wt_def)

lemma wt_RdTmp [wt_simps]:
  "wt env gw dc (IRExpr_RdTmp t) ty \<longleftrightarrow> t < length env \<and> 1 \<le> dc t \<and> env ! t = ty"
  by (auto simp: wt_def useBeforeDef_Temp_def typeOfIRTemp_def monad_inv split: if_splits)

lemma wt_Get [wt_simps]: "wt env gw dc (IRExpr_Get off t) ty \<longleftrightarrow> t = ty"
  by (auto simp: wt_def)

lemma wt_GetI [wt_simps]:
  "wt env gw dc (IRExpr_GetI descr ix bias) ty \<longleftrightarrow>
     wt env gw dc ix Ity_I32 \<and> saneIRRegArray descr \<and> elemTy descr = ty"
  by (auto simp: wt_def monad_inv)

lemma wt_Load [wt_simps]:
  "wt env gw dc (IRExpr_Load e t addr) ty \<longleftrightarrow> wt env gw dc addr gw \<and> t = ty"
  by (auto simp: wt_def monad_inv)

lemma wt_ITE [wt_simps]:
  "wt env gw dc (IRExpr_ITE c a b) ty \<longleftrightarrow>
     wt env gw dc c Ity_I1 \<and> wt env gw dc a ty \<and> wt env gw dc b ty"
  by (auto simp: wt_def monad_inv)

lemma wt_Unop [wt_simps]:
  "wt env gw dc (IRExpr_Unop op a) ty \<longleftrightarrow>
     (\<exists>t1. typeOfPrimop op = Inr (ty, t1, Ity_INVALID, Ity_INVALID, Ity_INVALID)
        \<and> t1 \<noteq> Ity_INVALID \<and> wt env gw dc a t1)"
  by (auto simp: wt_def tc_Unop_def monad_inv)

lemma wt_Binop [wt_simps]:
  "wt env gw dc (IRExpr_Binop op a b) ty \<longleftrightarrow>
     (\<exists>t1 t2. typeOfPrimop op = Inr (ty, t1, t2, Ity_INVALID, Ity_INVALID)
        \<and> t1 \<noteq> Ity_INVALID \<and> t2 \<noteq> Ity_INVALID \<and> wt env gw dc a t1 \<and> wt env gw dc b t2)"
  by (auto simp: wt_def tc_Binop_def monad_inv)

lemma wt_Triop [wt_simps]:
  "wt env gw dc (IRExpr_Triop op a b c) ty \<longleftrightarrow>
     (\<exists>t1 t2 t3. typeOfPrimop op = Inr (ty, t1, t2, t3, Ity_INVALID)
        \<and> t1 \<noteq> Ity_INVALID \<and> t2 \<noteq> Ity_INVALID \<and> t3 \<noteq> Ity_INVALID
        \<and> wt env gw dc a t1 \<and> wt env gw dc b t2 \<and> wt env gw dc c t3)"
  by (auto simp: wt_def tc_Triop_def monad_inv)

lemma wt_Qop [wt_simps]:
  "wt env gw dc (IRExpr_Qop op a b c d) ty \<longleftrightarrow>
     (\<exists>t1 t2 t3 t4. typeOfPrimop op = Inr (ty, t1, t2, t3, t4)
        \<and> t1 \<noteq> Ity_INVALID \<and> t2 \<noteq> Ity_INVALID \<and> t3 \<noteq> Ity_INVALID \<and> t4 \<noteq> Ity_INVALID
        \<and> wt env gw dc a t1 \<and> wt env gw dc b t2 \<and> wt env gw dc c t3 \<and> wt env gw dc d t4)"
  by (auto simp: wt_def tc_Qop_def monad_inv)

lemma typed_not_special: "typeOfIRExpr env e = Inr ty \<Longrightarrow> \<not> is_IRExpr_VECRET_or_GSPTR e"
  by (cases e) simp_all

lemma wt_CArgs:
  "useBeforeDef_CArgs env dc as = Inr () \<and> tc_CArgs env gw i as = Inr () \<and> tc_noI1 env err as = Inr ()
   \<longleftrightarrow> i + length as \<le> 32 + (if as = [] then i else 0)
       \<and> list_all (\<lambda>a. \<exists>t. t \<noteq> Ity_I1 \<and> wt env gw dc a t) as"
proof (induction as arbitrary: i)
  case (Cons a as)
  show ?case
    using Cons.IH [of "i + 1"] typed_not_special [of env a]
    by (cases "as = []") (auto simp: monad_inv wt_def)
qed simp

lemma wt_CCall [wt_simps]:
  "wt env gw dc (IRExpr_CCall c retty as) ty \<longleftrightarrow>
     saneIRCallee c \<and> regparms c \<le> int (length as) \<and> length as \<le> 32
     \<and> list_all (\<lambda>a. \<exists>t. t \<noteq> Ity_I1 \<and> wt env gw dc a t) as \<and> retty \<noteq> Ity_I1 \<and> ty = retty"
  using wt_CArgs [of env dc as gw 0 "SanityFail ''Iex.CCall.arg: arg :: Ity_I1''"]
  by (auto simp: wt_def monad_inv)

lemma not_wt_special [wt_simps]:
  "\<not> wt env gw dc (IRExpr_Binder i) ty" "\<not> wt env gw dc IRExpr_VECRET ty" "\<not> wt env gw dc IRExpr_GSPTR ty"
  by (simp_all add: wt_def)

lemma wt_atom:
  "isIRAtom e \<Longrightarrow> wt env gw dc e ty \<longleftrightarrow> useBeforeDef_Expr env dc e = Inr () \<and> typeOfIRExpr env e = Inr ty"
  by (cases e) (auto simp: wt_def)

section \<open>Weakening\<close>

lemma typeOfIRTemp_extend [simp]:
  "is_ok (typeOfIRTemp env t) \<Longrightarrow> typeOfIRTemp (env @ xs) t = typeOfIRTemp env t"
  by (simp add: typeOfIRTemp_def nth_append split: if_splits)

lemma typeOfIRExpr_extend [simp]:
  "is_ok (typeOfIRExpr env e) \<Longrightarrow> typeOfIRExpr (env @ xs) e = typeOfIRExpr env e"
  by (induction e) auto

lemma useBeforeDef_extend:
  "useBeforeDef_Expr env dc e = Inr () \<Longrightarrow> (\<And>t. t < length env \<Longrightarrow> dc t \<le> dc' t) \<Longrightarrow>
     useBeforeDef_Expr (env @ xs) dc' e = Inr ()"
  "useBeforeDef_CArgs env dc as = Inr () \<Longrightarrow> (\<And>t. t < length env \<Longrightarrow> dc t \<le> dc' t) \<Longrightarrow>
     useBeforeDef_CArgs (env @ xs) dc' as = Inr ()"
proof (induction env dc e and env dc as rule: useBeforeDef_Expr_useBeforeDef_CArgs.induct)
  case (3 env dc t)
  then show ?case
    by (force simp: useBeforeDef_Temp_def monad_inv)
qed (auto simp: monad_inv)

lemma tc_prim_extend:
  "tc_Qop env op a b c d = Inr () \<Longrightarrow> tc_Qop (env @ xs) op a b c d = Inr ()"
  "tc_Triop env op a b c = Inr () \<Longrightarrow> tc_Triop (env @ xs) op a b c = Inr ()"
  "tc_Binop env op a b = Inr () \<Longrightarrow> tc_Binop (env @ xs) op a b = Inr ()"
  "tc_Unop env op a = Inr () \<Longrightarrow> tc_Unop (env @ xs) op a = Inr ()"
  by (auto simp: tc_Qop_def tc_Triop_def tc_Binop_def tc_Unop_def monad_inv)

lemma tc_noI1_extend: "tc_noI1 env err as = Inr () \<Longrightarrow> tc_noI1 (env @ xs) err as = Inr ()"
  by (induction as) (auto simp: monad_inv)

lemma tcExpr_extend:
  "tcExpr env gw e = Inr () \<Longrightarrow> tcExpr (env @ xs) gw e = Inr ()"
  "tc_CArgs env gw i as = Inr () \<Longrightarrow> tc_CArgs (env @ xs) gw i as = Inr ()"
  by (induction env gw e and env gw i as rule: tcExpr_tc_CArgs.induct)
     (auto simp: monad_inv tc_prim_extend tc_noI1_extend)

lemma wt_extend:
  assumes "wt env gw dc e ty" and "\<And>t. t < length env \<Longrightarrow> dc t \<le> dc' t"
  shows "wt (env @ xs) gw dc' e ty"
  using assms by (auto simp: wt_def useBeforeDef_extend tcExpr_extend)

section \<open>Well-typed statements\<close>

definition wt_stmt ::
    "IRTypeEnv \<Rightarrow> IRType \<Rightarrow> def_counts \<Rightarrow> IRStmt \<Rightarrow> def_counts \<Rightarrow> bool" where
  "wt_stmt env gw dc st dc' \<longleftrightarrow>
     useBeforeDef_Stmt env dc st = Inr () \<and> assignedOnce_Stmt env st dc = Inr dc'
     \<and> tcStmt env gw st = Inr ()"

lemma assignedOnce_Temp_Inr [monad_inv]:
  "assignedOnce_Temp env r w t dc = Inr dc' \<longleftrightarrow> t < length env \<and> dc t = 0 \<and> dc' = dc(t := 1)"
  by (auto simp: assignedOnce_Temp_def monad_inv Let_def)

lemma useBeforeDef_Opt_extend:
  "useBeforeDef_Opt env dc eo = Inr () \<Longrightarrow> (\<And>t. t < length env \<Longrightarrow> dc t \<le> dc' t) \<Longrightarrow>
     useBeforeDef_Opt (env @ xs) dc' eo = Inr ()"
  by (auto simp: useBeforeDef_Opt_def useBeforeDef_extend split: option.splits)

lemma useBeforeDef_DirtyArgs_extend:
  "useBeforeDef_DirtyArgs env dc as = Inr () \<Longrightarrow> (\<And>t. t < length env \<Longrightarrow> dc t \<le> dc' t) \<Longrightarrow>
     useBeforeDef_DirtyArgs (env @ xs) dc' as = Inr ()"
  by (induction as) (auto simp: monad_inv useBeforeDef_extend)

lemma useBeforeDef_Stmt_extend:
  "useBeforeDef_Stmt env dc st = Inr () \<Longrightarrow> (\<And>t. t < length env \<Longrightarrow> dc t \<le> dc' t) \<Longrightarrow>
     useBeforeDef_Stmt (env @ xs) dc' st = Inr ()"
  by (cases st)
     (auto simp: monad_inv useBeforeDef_extend useBeforeDef_Opt_extend useBeforeDef_DirtyArgs_extend)

lemma assignedOnce_Stmt_extend:
  "assignedOnce_Stmt env st dc = Inr dc' \<Longrightarrow> assignedOnce_Stmt (env @ xs) st dc = Inr dc'"
  by (cases st) (auto simp: monad_inv split: if_splits)

lemma tc_DirtyArgs_extend:
  "tc_DirtyArgs env rt i nV nG as = Inr n \<Longrightarrow> tc_DirtyArgs (env @ xs) rt i nV nG as = Inr n"
proof (induction env rt i nV nG as rule: tc_DirtyArgs.induct)
  case (2 env retTy i nV nG arg as)
  have "tc_DirtyArgs (env @ xs) retTy (i + 1) v g as = Inr n"
    if "tc_DirtyArgs env retTy (i + 1) v g as = Inr n" "v \<in> {nV, nV + 1}" for v g
    using 2 that by (force simp: monad_inv split: if_splits)
  then show ?case
    using 2(2) by (fastforce simp: monad_inv split: if_splits)
qed simp

lemma tc_CAS_extend: "tc_CAS env gw cas = Inr () \<Longrightarrow> tc_CAS (env @ xs) gw cas = Inr ()"
  by (auto simp: tc_CAS_def tc_CAS_Hi_def monad_inv tcExpr_extend split: option.splits if_splits)

lemma tc_LLSC_extend:
  "tc_LLSC env gw r addr sd = Inr () \<Longrightarrow> tc_LLSC (env @ xs) gw r addr sd = Inr ()"
  by (auto simp: tc_LLSC_def monad_inv split: option.splits)

lemma tc_Dirty_extend: "tc_Dirty env gw d = Inr () \<Longrightarrow> tc_Dirty (env @ xs) gw d = Inr ()"
  by (auto simp: tc_Dirty_def monad_inv tcExpr_extend tc_DirtyArgs_extend split: option.splits if_splits)

lemma tcStmt_extend: "tcStmt env gw st = Inr () \<Longrightarrow> tcStmt (env @ xs) gw st = Inr ()"
  by (cases st)
     (auto simp: monad_inv tcExpr_extend tc_CAS_extend tc_LLSC_extend tc_Dirty_extend)

lemma defs_Stmts_extend:
  "defs_Stmts env dc sts = Inr dc' \<Longrightarrow> defs_Stmts (env @ xs) dc sts = Inr dc'"
  by (induction sts arbitrary: dc)
     (auto simp: monad_inv useBeforeDef_Stmt_extend assignedOnce_Stmt_extend)

lemma tc_Stmts_extend: "tc_Stmts env gw sts = Inr () \<Longrightarrow> tc_Stmts (env @ xs) gw sts = Inr ()"
  by (induction sts) (auto simp: monad_inv tcStmt_extend)

section \<open>Sane partial blocks\<close>

definition sane_sb :: "IRType \<Rightarrow> IRSB \<Rightarrow> def_counts \<Rightarrow> bool" where
  "sane_sb gw sb dc \<longleftrightarrow>
     defs_Stmts (tyenv sb) (\<lambda>_. 0) (stmts sb) = Inr dc \<and> tc_Stmts (tyenv sb) gw (stmts sb) = Inr ()"

lemma sane_sb_add:
  "sane_sb gw sb dc \<Longrightarrow> wt_stmt (tyenv sb) gw dc st dc' \<Longrightarrow> sane_sb gw (addStmtToIRSB sb st) dc'"
  by (simp add: sane_sb_def wt_stmt_def addStmtToIRSB_def)

lemma sane_sb_newtmp:
  "sane_sb gw sb dc \<Longrightarrow> sane_sb gw (sb\<lparr>tyenv := tyenv sb @ xs\<rparr>) dc"
  by (simp add: sane_sb_def defs_Stmts_extend tc_Stmts_extend)

lemma assignedOnce_Stmt_bound:
  "assignedOnce_Stmt env st dc = Inr dc' \<Longrightarrow> \<forall>t\<ge>length env. dc t = 0 \<Longrightarrow> \<forall>t\<ge>length env. dc' t = 0"
  by (cases st) (auto simp: monad_inv split: if_splits)

lemma defs_Stmts_bound:
  "defs_Stmts env dc sts = Inr dc' \<Longrightarrow> \<forall>t\<ge>length env. dc t = 0 \<Longrightarrow> \<forall>t\<ge>length env. dc' t = 0"
  by (induction sts arbitrary: dc) (auto simp: monad_inv dest: assignedOnce_Stmt_bound)

lemma sane_sb_fresh: "sane_sb gw sb dc \<Longrightarrow> length (tyenv sb) \<le> t \<Longrightarrow> dc t = 0"
  using defs_Stmts_bound [of "tyenv sb" "\<lambda>_. 0" "stmts sb" dc] by (simp add: sane_sb_def)

lemma sanityCheckIRSB_iff:
  "sanityCheckIRSB sb False gw = Inr () \<longleftrightarrow>
     (gw = Ity_I32 \<or> gw = Ity_I64) \<and> (\<exists>dc. sane_sb gw sb dc)
     \<and> typeOfIRExpr (tyenv sb) (sb_next sb) = Inr gw \<and> 16 \<le> offsIP sb"
  by (auto simp: sanityCheckIRSB_def sane_sb_def monad_inv list_all_iff)

section \<open>Rules for the statements that instrumentation emits\<close>

lemma wt_stmt_WrTmp:
  "wt env gw dc e ty \<Longrightarrow> t < length env \<Longrightarrow> env ! t = ty \<Longrightarrow> dc t = 0 \<Longrightarrow>
     wt_stmt env gw dc (IRStmt_WrTmp t e) (dc(t := 1))"
  by (simp add: wt_stmt_def wt_def typeOfIRTemp_def monad_inv)

lemma wt_stmt_WrTmp2:
  "wt env gw dc e ty \<Longrightarrow> t < length env \<Longrightarrow> env ! t = ty \<Longrightarrow> dc t = 0 \<Longrightarrow> D = {t} \<Longrightarrow>
     wt_stmt env gw dc (IRStmt_WrTmp t e) (\<lambda>u. if u \<in> D then 1 else dc u)"
  by (auto simp: wt_stmt_def wt_def typeOfIRTemp_def monad_inv)

lemma wt_stmt_Put:
  "wt env gw dc e ty \<Longrightarrow> ty \<noteq> Ity_I1 \<Longrightarrow> wt_stmt env gw dc (IRStmt_Put off e) dc"
  by (simp add: wt_stmt_def wt_def)

lemma wt_stmt_PutI:
  "wt env gw dc e (elemTy descr) \<Longrightarrow> wt env gw dc ix Ity_I32 \<Longrightarrow> saneIRRegArray descr \<Longrightarrow>
     wt_stmt env gw dc (IRStmt_PutI (mkIRPutI descr ix bias e)) dc"
  by (auto simp: wt_stmt_def wt_def mkIRPutI_def saneIRRegArray_def monad_inv split: if_splits)

lemma wt_stmt_Store:
  "wt env gw dc addr gw \<Longrightarrow> wt env gw dc e ty \<Longrightarrow> ty \<noteq> Ity_I1 \<Longrightarrow>
     wt_stmt env gw dc (IRStmt_Store en addr e) dc"
  by (simp add: wt_stmt_def wt_def)

lemma tc_DirtyArgs_plain:
  "list_all (\<lambda>a. \<exists>t. t \<noteq> Ity_I1 \<and> wt env gw dc a t) as \<Longrightarrow> i + length as \<le> 32 \<Longrightarrow>
     rt \<noteq> Ity_V128 \<Longrightarrow> rt \<noteq> Ity_V256 \<Longrightarrow> tc_DirtyArgs env rt i 0 nG as = Inr nG" if "nG \<le> 1"
  using that by (induction as arbitrary: i) (auto simp: wt_def)

lemma useBeforeDef_DirtyArgs_plain:
  "list_all (\<lambda>a. \<exists>t. t \<noteq> Ity_I1 \<and> wt env gw dc a t) as \<Longrightarrow> useBeforeDef_DirtyArgs env dc as = Inr ()"
  by (induction as) (auto simp: wt_def)

lemma unsafeIRDirty_ok:
  "unsafeIRDirty_0_N 0 name addr as =
     Inr (emptyIRDirty\<lparr>cee := Some \<lparr>regparms = 0, cee_name = Some name, cee_addr = Some addr\<rparr>,
                       guard := Some (IRExpr_Const (IRConst_U1 True)), args := as\<rparr>)"
  "unsafeIRDirty_1_N t 0 name addr as =
     Inr (emptyIRDirty\<lparr>cee := Some \<lparr>regparms = 0, cee_name = Some name, cee_addr = Some addr\<rparr>,
                       guard := Some (IRExpr_Const (IRConst_U1 True)), args := as, tmp := t\<rparr>)"
  by (simp_all add: unsafeIRDirty_0_N_def unsafeIRDirty_1_N_def mkIRCallee_def)

lemma wt_stmt_Dirty_0:
  assumes "unsafeIRDirty_0_N 0 name addr as = Inr d" "length as \<le> 32"
    and "list_all (\<lambda>a. \<exists>t. t \<noteq> Ity_I1 \<and> wt env gw dc a t) as" and "wt env gw dc g Ity_I1"
  shows "wt_stmt env gw dc (IRStmt_Dirty d) dc" "wt_stmt env gw dc (IRStmt_Dirty (d\<lparr>guard := Some g\<rparr>)) dc"
  using assms
  by (auto simp: unsafeIRDirty_ok emptyIRDirty_def wt_stmt_def tc_Dirty_def sane_IRDirty_def
        saneIRCallee_def VEX_N_FXSTATE_def useBeforeDef_DirtyArgs_plain tc_DirtyArgs_plain [of 0] wt_def)

lemma wt_stmt_Dirty_1:
  assumes "unsafeIRDirty_1_N t 0 name addr as = Inr d" "length as \<le> 32"
    and "list_all (\<lambda>a. \<exists>t. t \<noteq> Ity_I1 \<and> wt env gw dc a t) as"
    and "t < length env" "dc t = 0" "t \<noteq> IRTemp_INVALID" "env ! t \<notin> {Ity_I1, Ity_V128, Ity_V256}"
  shows "wt_stmt env gw dc (IRStmt_Dirty d) (dc(t := 1))"
  using assms
  by (auto simp: unsafeIRDirty_ok emptyIRDirty_def wt_stmt_def tc_Dirty_def sane_IRDirty_def monad_inv
        saneIRCallee_def VEX_N_FXSTATE_def useBeforeDef_DirtyArgs_plain tc_DirtyArgs_plain [of 0] typeOfIRTemp_def)

end
