(* ===== verification/DG_Utils.thy ===== *)
theory DG_Utils
  imports VEX_Typing
begin

text \<open>
  The expression-building utilities of \<^verbatim>\<open>derivgrind/dg_utils.c\<close>: zero and all-ones constants of
  every type, the SIMD constant 2.0, the zero test, extraction and assembly of SIMD components, type
  reinterpretation, and the addresses of a compare-and-swap.

  A failed \<^verbatim>\<open>tl_assert\<close> is \<^term>\<open>Inl (Vassert s)\<close>. Falling off the end of a
  non-void function, reading an uninitialised variable or indexing a table out of range is
  \<^term>\<open>Inl (Undefined s)\<close>. The functions use the differentiation environment only through the type
  environment of the output block, which is the argument \<open>env\<close>.
\<close>

section \<open>Constants\<close>

definition Irrm_NEAREST :: "32 word" where
  "Irrm_NEAREST = 0"

definition Irrm_ZERO :: "32 word" where
  "Irrm_ZERO = 3"

definition DEFAULT_ROUNDING :: IRExpr where
  "DEFAULT_ROUNDING = IRExpr_Const (IRConst_U32 Irrm_NEAREST)"

text \<open>IEEE 754 bit patterns of the floating-point literals in the sources.\<close>

definition F64_zero :: "64 word" where "F64_zero = 0"
definition F64_half :: "64 word" where "F64_half = 0x3fe0000000000000"
definition F64_one :: "64 word" where "F64_one = 0x3ff0000000000000"
definition F64_minus_one :: "64 word" where "F64_minus_one = 0xbff0000000000000"
definition F64_two :: "64 word" where "F64_two = 0x4000000000000000"
definition F64_ln2 :: "64 word" where "F64_ln2 = 0x3fe62e42fefa39ef"
definition F32_zero :: "32 word" where "F32_zero = 0"
definition F32_two :: "32 word" where "F32_two = 0x40000000"

definition mkIRConst_zero :: "IRType \<Rightarrow> vex_error + IRExpr" where
  "mkIRConst_zero type =
     (let zeroU = IRExpr_Const (IRConst_U64 0);
          zeroF = IRExpr_Unop Iop_ReinterpI64asF64 zeroU
      in case type of
        Ity_INVALID \<Rightarrow> Inl (Vassert ''mkIRConst_zero'')
      | Ity_I1 \<Rightarrow> Inr (IRExpr_Const (IRConst_U1 False))
      | Ity_I8 \<Rightarrow> Inr (IRExpr_Const (IRConst_U8 0))
      | Ity_I16 \<Rightarrow> Inr (IRExpr_Const (IRConst_U16 0))
      | Ity_I32 \<Rightarrow> Inr (IRExpr_Const (IRConst_U32 0))
      | Ity_I64 \<Rightarrow> Inr zeroU
      | Ity_I128 \<Rightarrow> Inr (IRExpr_Const (IRConst_U128 0))
      | Ity_F16 \<Rightarrow> Inr (IRExpr_Binop Iop_F64toF16 DEFAULT_ROUNDING zeroF)
      | Ity_F32 \<Rightarrow> Inr (IRExpr_Const (IRConst_F32 F32_zero))
      | Ity_F64 \<Rightarrow> Inr zeroF
      | Ity_D32 \<Rightarrow> Inr (IRExpr_Binop Iop_F64toD32 DEFAULT_ROUNDING zeroF)
      | Ity_D64 \<Rightarrow> Inr (IRExpr_Binop Iop_F64toD64 DEFAULT_ROUNDING zeroF)
      | Ity_D128 \<Rightarrow> Inr (IRExpr_Binop Iop_F64toD128 DEFAULT_ROUNDING zeroF)
      | Ity_F128 \<Rightarrow> Inr (IRExpr_Unop Iop_F64toF128 zeroF)
      | Ity_V128 \<Rightarrow> Inr (IRExpr_Binop Iop_64HLtoV128 zeroU zeroU)
      | Ity_V256 \<Rightarrow> Inr (IRExpr_Qop Iop_64x4toV256 zeroU zeroU zeroU zeroU))"

definition mkIRConst_ones :: "IRType \<Rightarrow> vex_error + IRExpr" where
  "mkIRConst_ones type =
     (let onesU = IRExpr_Const (IRConst_U64 0xffffffffffffffff)
      in case type of
        Ity_INVALID \<Rightarrow> Inl (Vassert ''mkIRConst_ones'')
      | Ity_I1 \<Rightarrow> Inr (IRExpr_Const (IRConst_U1 True))
      | Ity_I8 \<Rightarrow> Inr (IRExpr_Const (IRConst_U8 0xff))
      | Ity_I16 \<Rightarrow> Inr (IRExpr_Const (IRConst_U16 0xffff))
      | Ity_I32 \<Rightarrow> Inr (IRExpr_Const (IRConst_U32 0xffffffff))
      | Ity_I64 \<Rightarrow> Inr onesU
      | Ity_I128 \<Rightarrow> Inr (IRExpr_Binop Iop_64HLto128 onesU onesU)
      | Ity_F32 \<Rightarrow> Inr (IRExpr_Unop Iop_ReinterpI32asF32 (IRExpr_Const (IRConst_U32 0xffffffff)))
      | Ity_F64 \<Rightarrow> Inr (IRExpr_Unop Iop_ReinterpI64asF64 onesU)
      | Ity_V128 \<Rightarrow> Inr (IRExpr_Binop Iop_64HLtoV128 onesU onesU)
      | Ity_V256 \<Rightarrow> Inr (IRExpr_Qop Iop_64x4toV256 onesU onesU onesU onesU)
      | _ \<Rightarrow> Inl (Vassert ''mkIRConst_ones''))"

definition mkIRConst_fptwo :: "nat \<Rightarrow> nat \<Rightarrow> vex_error + IRExpr" where
  "mkIRConst_fptwo fpsize simdsize =
     (let two4_1 = IRExpr_Const (IRConst_F32 F32_two);
          i4 = IRExpr_Unop Iop_ReinterpF32asI32 two4_1;
          two4_2 = IRExpr_Binop Iop_32HLto64 i4 i4;
          two8_1 = IRExpr_Const (IRConst_F64 F64_two);
          i8 = IRExpr_Unop Iop_ReinterpF64asI64 two8_1
      in if fpsize = 4 then
           (if simdsize = 1 then Inr two4_1
            else if simdsize = 2 then Inr two4_2
            else if simdsize = 4 then Inr (IRExpr_Binop Iop_64HLtoV128 two4_2 two4_2)
            else if simdsize = 8 then Inr (IRExpr_Qop Iop_64x4toV256 two4_2 two4_2 two4_2 two4_2)
            else Inl (Undefined ''mkIRConst_fptwo''))
         else
           (if simdsize = 1 then Inr two8_1
            else if simdsize = 2 then Inr (IRExpr_Binop Iop_64HLtoV128 i8 i8)
            else if simdsize = 4 then Inr (IRExpr_Qop Iop_64x4toV256 i8 i8 i8 i8)
            else Inl (Undefined ''mkIRConst_fptwo'')))"

section \<open>Zero test\<close>

text \<open>
  \<^verbatim>\<open>isZero\<close> calls itself at \<^verbatim>\<open>Ity_I64\<close>, \<^verbatim>\<open>Ity_I128\<close> and
  \<^verbatim>\<open>Ity_V128\<close>; these three instances come first.
\<close>

definition isZero_I64 :: "IRExpr \<Rightarrow> IRExpr" where
  "isZero_I64 expr = IRExpr_Binop Iop_CmpEQ64 expr (IRExpr_Const (IRConst_U64 0))"

definition isZero_I128 :: "IRExpr \<Rightarrow> IRExpr" where
  "isZero_I128 expr =
     IRExpr_Binop Iop_And1 (isZero_I64 (IRExpr_Unop Iop_128to64 expr))
                           (isZero_I64 (IRExpr_Unop Iop_128HIto64 expr))"

definition isZero_V128 :: "IRExpr \<Rightarrow> IRExpr" where
  "isZero_V128 expr =
     IRExpr_Binop Iop_And1 (isZero_I64 (IRExpr_Unop Iop_V128to64 expr))
                           (isZero_I64 (IRExpr_Unop Iop_V128HIto64 expr))"

definition isZero :: "IRExpr \<Rightarrow> IRType \<Rightarrow> IRExpr" where
  "isZero expr type = (case type of
      Ity_INVALID \<Rightarrow> IRExpr_Const (IRConst_U1 True)
    | Ity_I1 \<Rightarrow> IRExpr_Unop Iop_Not1 expr
    | Ity_I8 \<Rightarrow> IRExpr_Binop Iop_CmpEQ8 expr (IRExpr_Const (IRConst_U8 0))
    | Ity_I16 \<Rightarrow> IRExpr_Binop Iop_CmpEQ16 expr (IRExpr_Const (IRConst_U16 0))
    | Ity_I32 \<Rightarrow> IRExpr_Binop Iop_CmpEQ32 expr (IRExpr_Const (IRConst_U32 0))
    | Ity_I64 \<Rightarrow> isZero_I64 expr
    | Ity_I128 \<Rightarrow> isZero_I128 expr
    | Ity_F32 \<Rightarrow> IRExpr_Binop Iop_CmpEQ32 (IRExpr_Unop Iop_ReinterpF32asI32 expr)
                  (IRExpr_Const (IRConst_U32 0))
    | Ity_F64 \<Rightarrow> IRExpr_Binop Iop_CmpEQ64 (IRExpr_Unop Iop_ReinterpF64asI64 expr)
                  (IRExpr_Const (IRConst_U64 0))
    | Ity_F128 \<Rightarrow> isZero_I128 (IRExpr_Unop Iop_ReinterpF128asI128 expr)
    | Ity_V128 \<Rightarrow> isZero_V128 expr
    | Ity_V256 \<Rightarrow> IRExpr_Binop Iop_And1 (isZero_V128 (IRExpr_Unop Iop_V256toV128_0 expr))
                                        (isZero_V128 (IRExpr_Unop Iop_V256toV128_1 expr))
    | _ \<Rightarrow> IRExpr_Const (IRConst_U1 False))"

section \<open>SIMD vectors\<close>

definition table_at :: "'a list \<Rightarrow> nat \<Rightarrow> vex_error + 'a" where
  "table_at xs i = (if i < length xs then Inr (xs ! i) else Inl (Undefined ''index out of range''))"

definition arr64to32 :: "IROp list" where
  "arr64to32 = [Iop_64to32, Iop_64HIto32]"

definition arr128to64 :: "IROp list" where
  "arr128to64 = [Iop_V128to64, Iop_V128HIto64]"

definition arr256to64 :: "IROp list" where
  "arr256to64 = [Iop_V256to64_0, Iop_V256to64_1, Iop_V256to64_2, Iop_V256to64_3]"

definition SIMD_as_int :: "IRType \<Rightarrow> IRExpr \<Rightarrow> IRExpr" where
  "SIMD_as_int type e =
     (if type = Ity_F64 then IRExpr_Unop Iop_ReinterpF64asI64 e
      else if type = Ity_F32 then IRExpr_Unop Iop_ReinterpF32asI32 e
      else if type = Ity_I128 then IRExpr_Unop Iop_ReinterpI128asV128 e
      else e)"

definition SIMD_extract :: "nat \<Rightarrow> nat \<Rightarrow> nat \<Rightarrow> IRExpr \<Rightarrow> vex_error + IRExpr" where
  "SIMD_extract fpsize simdsize component e =
     (if fpsize = 4 then
       (if simdsize = 1 then Inr e
        else if simdsize = 2 then
          bindE (table_at arr64to32 component) (\<lambda>op. Inr (IRExpr_Unop op e))
        else if simdsize = 4 then
          bindE (table_at arr64to32 (component mod 2)) (\<lambda>op1.
          bindE (table_at arr128to64 (component div 2)) (\<lambda>op2.
          Inr (IRExpr_Unop op1 (IRExpr_Unop op2 e))))
        else if simdsize = 8 then
          bindE (table_at arr64to32 (component mod 2)) (\<lambda>op1.
          bindE (table_at arr256to64 (component div 2)) (\<lambda>op2.
          Inr (IRExpr_Unop op1 (IRExpr_Unop op2 e))))
        else Inl (Undefined ''getSIMDComponent''))
     else
       (if simdsize = 1 then Inr e
        else if simdsize = 2 then
          bindE (table_at arr128to64 component) (\<lambda>op. Inr (IRExpr_Unop op e))
        else if simdsize = 4 then
          bindE (table_at arr256to64 component) (\<lambda>op. Inr (IRExpr_Unop op e))
        else Inl (Undefined ''getSIMDComponent'')))"

definition getSIMDComponent ::
    "IRTypeEnv \<Rightarrow> IRExpr \<Rightarrow> nat \<Rightarrow> nat \<Rightarrow> nat \<Rightarrow> vex_error + IRExpr" where
  "getSIMDComponent env e0 fpsize simdsize component =
     bindE (typeOfIRExpr env e0) (\<lambda>type0.
     let e = SIMD_as_int type0 e0 in
     bindE (typeOfIRExpr env e) (\<lambda>type.
     bindE (ensure (\<not> (type \<noteq> Ity_I32 \<and> type \<noteq> Ity_I64 \<and> type \<noteq> Ity_V128 \<and> type \<noteq> Ity_V256))
              (Vassert ''Bad type in getSIMDComponent.'')) (\<lambda>_.
     SIMD_extract fpsize simdsize component e)))"

definition SIMD_from_part :: "IRTypeEnv \<Rightarrow> IRType \<Rightarrow> nat \<Rightarrow> IRExpr \<Rightarrow> vex_error + IRExpr" where
  "SIMD_from_part env type fpsize e =
     bindE (typeOfIRExpr env e) (\<lambda>t.
     bindE (ensure (t = type) (Vassert ''assembleSIMDVector'')) (\<lambda>_.
     Inr (if type = Ity_F64 then IRExpr_Unop Iop_ReinterpF64asI64 e
          else if type = Ity_F32 then IRExpr_Unop Iop_ReinterpF32asI32 e
          else if type = Ity_I64 \<and> fpsize = 4 then IRExpr_Unop Iop_64to32 e
          else e)))"

definition SIMD_join :: "bool \<Rightarrow> nat \<Rightarrow> IRExpr list \<Rightarrow> vex_error + IRExpr" where
  "SIMD_join four_bytes simdsize es =
     (let hl = (\<lambda>i. IRExpr_Binop Iop_32HLto64 (es ! (i + 1)) (es ! i)) in
      if four_bytes then
       (if simdsize = 1 then Inr (es ! 0)
        else if simdsize = 2 then Inr (hl 0)
        else if simdsize = 4 then Inr (IRExpr_Binop Iop_64HLtoV128 (hl 2) (hl 0))
        else if simdsize = 8 then Inr (IRExpr_Qop Iop_64x4toV256 (hl 6) (hl 4) (hl 2) (hl 0))
        else Inl (Undefined ''assembleSIMDVector''))
      else
       (if simdsize = 1 then Inr (es ! 0)
        else if simdsize = 2 then Inr (IRExpr_Binop Iop_64HLtoV128 (es ! 1) (es ! 0))
        else if simdsize = 4 then
          Inr (IRExpr_Qop Iop_64x4toV256 (es ! 3) (es ! 2) (es ! 1) (es ! 0))
        else Inl (Undefined ''assembleSIMDVector'')))"

definition assembleSIMDVector ::
    "IRTypeEnv \<Rightarrow> IRExpr list \<Rightarrow> nat \<Rightarrow> nat \<Rightarrow> vex_error + IRExpr" where
  "assembleSIMDVector env expressions fpsize simdsize =
     bindE (ensure (simdsize \<le> length expressions \<and> expressions \<noteq> [])
              (Undefined ''assembleSIMDVector'')) (\<lambda>_.
     bindE (typeOfIRExpr env (hd expressions)) (\<lambda>type.
     bindE (mapE (SIMD_from_part env type fpsize) (take simdsize expressions)) (\<lambda>es.
     bindE (sizeofIRType type) (\<lambda>szB. SIMD_join (szB = 4) simdsize es))))"

section \<open>Type conversion\<close>

definition reinterpretType :: "IRTypeEnv \<Rightarrow> IRExpr \<Rightarrow> IRType \<Rightarrow> vex_error + IRExpr" where
  "reinterpretType env expr type =
     bindE (typeOfIRExpr env expr) (\<lambda>origtype.
     bindE (sizeofIRType origtype) (\<lambda>s1. bindE (sizeofIRType type) (\<lambda>s2.
     bindE (ensure (s1 = s2) (Vassert ''reinterpretType: size'')) (\<lambda>_.
     if type = origtype then Inr expr
     else if type = Ity_F64 \<and> origtype = Ity_I64 then Inr (IRExpr_Unop Iop_ReinterpI64asF64 expr)
     else if type = Ity_I64 \<and> origtype = Ity_F64 then Inr (IRExpr_Unop Iop_ReinterpF64asI64 expr)
     else if type = Ity_F32 \<and> origtype = Ity_I32 then Inr (IRExpr_Unop Iop_ReinterpI32asF32 expr)
     else if type = Ity_I32 \<and> origtype = Ity_F32 then Inr (IRExpr_Unop Iop_ReinterpF32asI32 expr)
     else if type = Ity_I128 \<and> origtype = Ity_V128 then Inr (IRExpr_Unop Iop_ReinterpV128asI128 expr)
     else if type = Ity_V128 \<and> origtype = Ity_I128 then Inr (IRExpr_Unop Iop_ReinterpI128asV128 expr)
     else Inl (Vassert ''Unhandled type combination in reinterpType.'')))))"

definition convertToF64 :: "IRTypeEnv \<Rightarrow> IRExpr \<Rightarrow> vex_error + IRExpr \<times> IRType" where
  "convertToF64 env expr =
     bindE (typeOfIRExpr env expr) (\<lambda>originaltype.
     case originaltype of
       Ity_F64 \<Rightarrow> Inr (expr, originaltype)
     | Ity_F32 \<Rightarrow> Inr (IRExpr_Unop Iop_F32toF64 expr, originaltype)
     | _ \<Rightarrow> Inl (Vassert ''Bad type in convertToF64.''))"

definition convertFromF64 :: "IRExpr \<Rightarrow> IRType \<Rightarrow> vex_error + IRExpr" where
  "convertFromF64 expr originaltype =
     (case originaltype of
       Ity_F64 \<Rightarrow> Inr expr
     | Ity_F32 \<Rightarrow> Inr (IRExpr_Binop Iop_F64toF32 (IRExpr_Const (IRConst_U32 Irrm_ZERO)) expr)
     | _ \<Rightarrow> Inl (Vassert ''Bad type in convertFromF64.''))"

section \<open>Compare-and-swap addresses\<close>

definition addressesOfCAS :: "IRTypeEnv \<Rightarrow> IRCAS \<Rightarrow> vex_error + IRExpr \<times> IRExpr option" where
  "addressesOfCAS env det =
     bindE (typeOfIRExpr env (expdLo det)) (\<lambda>type.
     bindE (typeOfIRExpr env (cas_addr det)) (\<lambda>addrty.
     bindE (case addrty of
              Ity_I32 \<Rightarrow> bindE (sizeofIRType type) (\<lambda>size.
                         Inr (Iop_Add32, IRExpr_Const (IRConst_U32 (of_nat size))))
            | Ity_I64 \<Rightarrow> bindE (sizeofIRType type) (\<lambda>size.
                         Inr (Iop_Add64, IRExpr_Const (IRConst_U64 (of_nat size))))
            | _ \<Rightarrow> Inl (Vassert ''Unhandled type for address in translation of Ist_CAS.''))
       (\<lambda>(add, offset).
     let double_element = (expdHi det \<noteq> None);
         other = IRExpr_Binop add (cas_addr det) offset
     in if cas_end det = Iend_LE then
          (if double_element then Inr (cas_addr det, Some other) else Inr (cas_addr det, None))
        else
          (if double_element then Inr (other, Some (cas_addr det)) else Inr (cas_addr det, None)))))"

section \<open>Types of the built expressions\<close>

text \<open>
  The signatures of the primitive operations that the utilities use, evaluated from
  \<open>typeOfPrimop\<close>.
\<close>

named_theorems prim_types \<open>evaluated signatures of primitive operations\<close>

lemma prim_types_utils [prim_types]:
  "typeOfPrimop Iop_Not1 = Inr (Ity_I1, Ity_I1, Ity_INVALID, Ity_INVALID, Ity_INVALID)"
  "typeOfPrimop Iop_And1 = Inr (Ity_I1, Ity_I1, Ity_I1, Ity_INVALID, Ity_INVALID)"
  "typeOfPrimop Iop_CmpEQ8 = Inr (Ity_I1, Ity_I8, Ity_I8, Ity_INVALID, Ity_INVALID)"
  "typeOfPrimop Iop_CmpEQ16 = Inr (Ity_I1, Ity_I16, Ity_I16, Ity_INVALID, Ity_INVALID)"
  "typeOfPrimop Iop_CmpEQ32 = Inr (Ity_I1, Ity_I32, Ity_I32, Ity_INVALID, Ity_INVALID)"
  "typeOfPrimop Iop_CmpEQ64 = Inr (Ity_I1, Ity_I64, Ity_I64, Ity_INVALID, Ity_INVALID)"
  "typeOfPrimop Iop_Add32 = Inr (Ity_I32, Ity_I32, Ity_I32, Ity_INVALID, Ity_INVALID)"
  "typeOfPrimop Iop_Add64 = Inr (Ity_I64, Ity_I64, Ity_I64, Ity_INVALID, Ity_INVALID)"
  "typeOfPrimop Iop_ReinterpI64asF64 = Inr (Ity_F64, Ity_I64, Ity_INVALID, Ity_INVALID, Ity_INVALID)"
  "typeOfPrimop Iop_ReinterpF64asI64 = Inr (Ity_I64, Ity_F64, Ity_INVALID, Ity_INVALID, Ity_INVALID)"
  "typeOfPrimop Iop_ReinterpI32asF32 = Inr (Ity_F32, Ity_I32, Ity_INVALID, Ity_INVALID, Ity_INVALID)"
  "typeOfPrimop Iop_ReinterpF32asI32 = Inr (Ity_I32, Ity_F32, Ity_INVALID, Ity_INVALID, Ity_INVALID)"
  "typeOfPrimop Iop_ReinterpI128asV128 = Inr (Ity_V128, Ity_I128, Ity_INVALID, Ity_INVALID, Ity_INVALID)"
  "typeOfPrimop Iop_ReinterpV128asI128 = Inr (Ity_I128, Ity_V128, Ity_INVALID, Ity_INVALID, Ity_INVALID)"
  "typeOfPrimop Iop_ReinterpF128asI128 = Inr (Ity_I128, Ity_F128, Ity_INVALID, Ity_INVALID, Ity_INVALID)"
  "typeOfPrimop Iop_F64toF16 = Inr (Ity_F16, Ity_I32, Ity_F64, Ity_INVALID, Ity_INVALID)"
  "typeOfPrimop Iop_F64toD32 = Inr (Ity_D32, Ity_I32, Ity_F64, Ity_INVALID, Ity_INVALID)"
  "typeOfPrimop Iop_F64toD64 = Inr (Ity_D64, Ity_I32, Ity_F64, Ity_INVALID, Ity_INVALID)"
  "typeOfPrimop Iop_F64toD128 = Inr (Ity_D128, Ity_I32, Ity_F64, Ity_INVALID, Ity_INVALID)"
  "typeOfPrimop Iop_F64toF128 = Inr (Ity_F128, Ity_F64, Ity_INVALID, Ity_INVALID, Ity_INVALID)"
  "typeOfPrimop Iop_F32toF64 = Inr (Ity_F64, Ity_F32, Ity_INVALID, Ity_INVALID, Ity_INVALID)"
  "typeOfPrimop Iop_F64toF32 = Inr (Ity_F32, Ity_I32, Ity_F64, Ity_INVALID, Ity_INVALID)"
  "typeOfPrimop Iop_64HLto128 = Inr (Ity_I128, Ity_I64, Ity_I64, Ity_INVALID, Ity_INVALID)"
  "typeOfPrimop Iop_64HLtoV128 = Inr (Ity_V128, Ity_I64, Ity_I64, Ity_INVALID, Ity_INVALID)"
  "typeOfPrimop Iop_64x4toV256 = Inr (Ity_V256, Ity_I64, Ity_I64, Ity_I64, Ity_I64)"
  "typeOfPrimop Iop_32HLto64 = Inr (Ity_I64, Ity_I32, Ity_I32, Ity_INVALID, Ity_INVALID)"
  "typeOfPrimop Iop_64to32 = Inr (Ity_I32, Ity_I64, Ity_INVALID, Ity_INVALID, Ity_INVALID)"
  "typeOfPrimop Iop_64HIto32 = Inr (Ity_I32, Ity_I64, Ity_INVALID, Ity_INVALID, Ity_INVALID)"
  "typeOfPrimop Iop_128to64 = Inr (Ity_I64, Ity_I128, Ity_INVALID, Ity_INVALID, Ity_INVALID)"
  "typeOfPrimop Iop_128HIto64 = Inr (Ity_I64, Ity_I128, Ity_INVALID, Ity_INVALID, Ity_INVALID)"
  "typeOfPrimop Iop_V128to64 = Inr (Ity_I64, Ity_V128, Ity_INVALID, Ity_INVALID, Ity_INVALID)"
  "typeOfPrimop Iop_V128HIto64 = Inr (Ity_I64, Ity_V128, Ity_INVALID, Ity_INVALID, Ity_INVALID)"
  "typeOfPrimop Iop_V256toV128_0 = Inr (Ity_V128, Ity_V256, Ity_INVALID, Ity_INVALID, Ity_INVALID)"
  "typeOfPrimop Iop_V256toV128_1 = Inr (Ity_V128, Ity_V256, Ity_INVALID, Ity_INVALID, Ity_INVALID)"
  "typeOfPrimop Iop_V256to64_0 = Inr (Ity_I64, Ity_V256, Ity_INVALID, Ity_INVALID, Ity_INVALID)"
  "typeOfPrimop Iop_V256to64_1 = Inr (Ity_I64, Ity_V256, Ity_INVALID, Ity_INVALID, Ity_INVALID)"
  "typeOfPrimop Iop_V256to64_2 = Inr (Ity_I64, Ity_V256, Ity_INVALID, Ity_INVALID, Ity_INVALID)"
  "typeOfPrimop Iop_V256to64_3 = Inr (Ity_I64, Ity_V256, Ity_INVALID, Ity_INVALID, Ity_INVALID)"
  by (simp_all add: typeOfPrimop_defs primop_sig_defs)

lemma mkIRConst_zero_wt:
  "type \<noteq> Ity_INVALID \<Longrightarrow> \<exists>e. mkIRConst_zero type = Inr e \<and> wt env gw dc e type"
  by (cases type) (simp_all add: mkIRConst_zero_def Let_def DEFAULT_ROUNDING_def wt_simps prim_types)

lemma mkIRConst_ones_wt:
  "type \<notin> {Ity_INVALID, Ity_F16, Ity_D32, Ity_D64, Ity_D128, Ity_F128} \<Longrightarrow>
     \<exists>e. mkIRConst_ones type = Inr e \<and> wt env gw dc e type"
  by (cases type) (simp_all add: mkIRConst_ones_def Let_def wt_simps prim_types)

lemma isZero_wt: "wt env gw dc e type \<Longrightarrow> wt env gw dc (isZero e type) Ity_I1"
  by (cases type)
     (simp_all add: isZero_def isZero_I64_def isZero_I128_def isZero_V128_def wt_simps prim_types)

lemma mkIRConst_zero_const:
  "mkIRConst_zero type = Inr e \<Longrightarrow> type \<in> {Ity_I64, Ity_F64} \<Longrightarrow> wt env gw dc e type"
  by (auto simp: mkIRConst_zero_def Let_def wt_simps prim_types)

text \<open>
  A SIMD layout is a component size in bytes and a number of components; the vector of such a
  layout is an integer or vector of 4, 8, 16 or 32 bytes, or a scalar of the same size.
\<close>

definition SIMD_layouts :: "(nat \<times> nat) set" where
  "SIMD_layouts = {(4, 1), (4, 2), (4, 4), (4, 8), (8, 1), (8, 2), (8, 4)}"

definition SIMD_inttype :: "nat \<Rightarrow> IRType" where
  "SIMD_inttype szB =
     (if szB = 4 then Ity_I32 else if szB = 8 then Ity_I64
      else if szB = 16 then Ity_V128 else Ity_V256)"

definition SIMD_vector_type :: "nat \<Rightarrow> IRType \<Rightarrow> bool" where
  "SIMD_vector_type szB ty \<longleftrightarrow>
     ty = SIMD_inttype szB \<or> szB = 4 \<and> ty = Ity_F32 \<or> szB = 8 \<and> ty = Ity_F64
     \<or> szB = 16 \<and> ty = Ity_I128"

lemma SIMD_tables:
  "i < 2 \<Longrightarrow> \<exists>op. table_at arr64to32 i = Inr op
     \<and> typeOfPrimop op = Inr (Ity_I32, Ity_I64, Ity_INVALID, Ity_INVALID, Ity_INVALID)"
  "i < 2 \<Longrightarrow> \<exists>op. table_at arr128to64 i = Inr op
     \<and> typeOfPrimop op = Inr (Ity_I64, Ity_V128, Ity_INVALID, Ity_INVALID, Ity_INVALID)"
  "i < 4 \<Longrightarrow> \<exists>op. table_at arr256to64 i = Inr op
     \<and> typeOfPrimop op = Inr (Ity_I64, Ity_V256, Ity_INVALID, Ity_INVALID, Ity_INVALID)"
  by (auto simp: table_at_def arr64to32_def arr128to64_def arr256to64_def prim_types lt_2_cases lt_4_cases)

lemma SIMD_extract_wt:
  assumes "(fpsize, simdsize) \<in> SIMD_layouts" "component < simdsize"
    and "wt env gw dc e (SIMD_inttype (fpsize * simdsize))"
  shows "\<exists>r. SIMD_extract fpsize simdsize component e = Inr r \<and> wt env gw dc r (SIMD_inttype fpsize)"
proof -
  have "component mod 2 < 2" "simdsize = 4 \<Longrightarrow> component div 2 < 2" "simdsize = 8 \<Longrightarrow> component div 2 < 4"
    using assms(2) by auto
  then show ?thesis
    using assms SIMD_tables(1) [of component] SIMD_tables(1) [of "component mod 2"]
      SIMD_tables(2) [of component] SIMD_tables(2) [of "component div 2"]
      SIMD_tables(3) [of component] SIMD_tables(3) [of "component div 2"]
    by (auto simp: SIMD_layouts_def SIMD_extract_def SIMD_inttype_def wt_simps)
qed

lemma SIMD_as_int_wt:
  assumes "(fpsize, simdsize) \<in> SIMD_layouts" "wt env gw dc e ty" "SIMD_vector_type (fpsize * simdsize) ty"
  shows "wt env gw dc (SIMD_as_int ty e) (SIMD_inttype (fpsize * simdsize))"
  using assms
  by (auto simp: SIMD_layouts_def SIMD_vector_type_def SIMD_inttype_def SIMD_as_int_def wt_simps prim_types)

lemma getSIMDComponent_wt:
  assumes "(fpsize, simdsize) \<in> SIMD_layouts" "component < simdsize"
    and "wt env gw dc e ty" "SIMD_vector_type (fpsize * simdsize) ty"
  shows "\<exists>r. getSIMDComponent env e fpsize simdsize component = Inr r
             \<and> wt env gw dc r (SIMD_inttype fpsize)"
proof -
  have int: "wt env gw dc (SIMD_as_int ty e) (SIMD_inttype (fpsize * simdsize))"
    by (rule SIMD_as_int_wt) fact+
  have "SIMD_inttype (fpsize * simdsize) \<in> {Ity_I32, Ity_I64, Ity_V128, Ity_V256}"
    by (simp add: SIMD_inttype_def)
  then have "getSIMDComponent env e fpsize simdsize component
             = SIMD_extract fpsize simdsize component (SIMD_as_int ty e)"
    by (auto simp: getSIMDComponent_def wt_type [OF assms(3)] wt_type [OF int] Let_def)
  then show ?thesis
    using SIMD_extract_wt [OF assms(1,2) int] by simp
qed

text \<open>Assembling takes components of type I32 (or I64) back to a vector.\<close>

lemma SIMD_join_wt:
  assumes "(fpsize, simdsize) \<in> SIMD_layouts" "length es = simdsize"
    and "\<And>i. i < simdsize \<Longrightarrow> wt env gw dc (es ! i) (SIMD_inttype fpsize)"
  shows "\<exists>r. SIMD_join (fpsize = 4) simdsize es = Inr r
             \<and> wt env gw dc r (SIMD_inttype (fpsize * simdsize))"
  using assms
  by (auto simp: SIMD_layouts_def SIMD_join_def SIMD_inttype_def wt_simps prim_types Let_def)

lemma mapE_id: "(\<And>x. x \<in> set xs \<Longrightarrow> f x = Inr x) \<Longrightarrow> mapE f xs = Inr xs"
  by (induction xs) auto

lemma assembleSIMDVector_wt:
  assumes "(fpsize, simdsize) \<in> SIMD_layouts" "length es = simdsize"
    and "list_all (\<lambda>e. wt env gw dc e (SIMD_inttype fpsize)) es"
  shows "\<exists>r. assembleSIMDVector env es fpsize simdsize = Inr r
             \<and> wt env gw dc r (SIMD_inttype (fpsize * simdsize))"
proof -
  have ne: "es \<noteq> []" and f: "fpsize = 4 \<or> fpsize = 8"
    using assms(1,2) by (auto simp: SIMD_layouts_def)
  have ety: "typeOfIRExpr env e = Inr (SIMD_inttype fpsize)" if "e \<in> set es" for e
    using assms(3) that by (auto simp: list_all_iff dest: wt_type)
  have "mapE (SIMD_from_part env (SIMD_inttype fpsize) fpsize) (take simdsize es) = Inr es"
    using ety f assms(2) by (subst mapE_id) (auto simp: SIMD_from_part_def SIMD_inttype_def)
  moreover have "sizeofIRType (SIMD_inttype fpsize) = Inr fpsize"
    using f by (auto simp: SIMD_inttype_def sizeofIRType_def)
  ultimately have "assembleSIMDVector env es fpsize simdsize = SIMD_join (fpsize = 4) simdsize es"
    using assms(2) ne ety [of "hd es"] by (simp add: assembleSIMDVector_def)
  then show ?thesis
    using SIMD_join_wt [OF assms(1,2), of env gw dc] assms(2,3) by (auto simp: list_all_length)
qed

lemma reinterpretType_wt:
  assumes "wt env gw dc e (SIMD_inttype szB)" "SIMD_vector_type szB ty" "szB \<in> {4, 8, 16, 32}"
  shows "\<exists>r. reinterpretType env e ty = Inr r \<and> wt env gw dc r ty"
  using assms wt_type [OF assms(1)]
  by (auto simp: reinterpretType_def SIMD_inttype_def SIMD_vector_type_def sizeofIRType_def wt_simps prim_types)

end
