(* ===== verification/DG_Expr.thy ===== *)
theory DG_Expr
  imports DG_Utils
begin

text \<open>
  The mode-independent instrumentation machinery: \<^verbatim>\<open>DiffEnv\<close> of
  \<^verbatim>\<open>derivgrind/dg_utils.h\<close>, the table of callbacks \<^verbatim>\<open>ExpressionHandling\<close> of
  \<^verbatim>\<open>derivgrind/dg_expressionhandling.h\<close>, and the functions
  \<^verbatim>\<open>dg_modify_expression\<close>, \<^verbatim>\<open>dg_modify_expression_or_default\<close> and
  \<^verbatim>\<open>add_statement_modified\<close> of \<^verbatim>\<open>derivgrind/dg_expressionhandling.c\<close>.

  The code is written in the state-and-error monad over \<^verbatim>\<open>DiffEnv\<close>, whose output block
  \<^verbatim>\<open>sb_out\<close> collects the generated statements. A shadow value (\<^verbatim>\<open>void*\<close> in C)
  is of the type parameter \<open>'d\<close> of the callback table: one expression in forward mode, a pair of
  expressions in recording and bit-trick mode. NULL is \<^term>\<open>None\<close>.

  Three points of the translation: the arguments of an operation are modified from left to right (C
  leaves the order open, and modifying an atom emits no statement, so on the flat blocks that VEX
  hands to tools the order does not matter); the warnings that are printed are not part of the
  model, so the \<^verbatim>\<open>warn\<close> and \<^verbatim>\<open>operation\<close> arguments of
  \<^verbatim>\<open>dg_modify_expression_or_default\<close> are dropped; a dirty call is recognised by the name of
  its callee.
\<close>

section \<open>Environment and primitive actions\<close>

record DiffEnv =
  tmp_offset :: IRTemp
  gs_offset :: int
  sb_out :: IRSB
  cas_succeeded :: IRTemp

type_synonym 'a dgM = "(DiffEnv, vex_error, 'a) stE"

definition emit :: "IRStmt \<Rightarrow> unit dgM" where
  "emit st = modifyM (\<lambda>\<sigma>. \<sigma>\<lparr>sb_out := addStmtToIRSB (sb_out \<sigma>) st\<rparr>)"

definition newTemp :: "IRType \<Rightarrow> IRTemp dgM" where
  "newTemp ty \<sigma> =
     (let (t, env) = newIRTemp (tyenv (sb_out \<sigma>)) ty
      in Inr (t, \<sigma>\<lparr>sb_out := (sb_out \<sigma>)\<lparr>tyenv := env\<rparr>\<rparr>))"

definition envM :: "(IRTypeEnv \<Rightarrow> vex_error + 'a) \<Rightarrow> 'a dgM" where
  "envM f \<sigma> = liftM (f (tyenv (sb_out \<sigma>))) \<sigma>"

definition typeM :: "IRExpr \<Rightarrow> IRType dgM" where
  "typeM e = envM (\<lambda>env. typeOfIRExpr env e)"

text \<open>
  The pattern with which instrumentation calls a helper function at run time: a dirty call without
  and with a result temporary (\<^verbatim>\<open>unsafeIRDirty_0_N\<close>, \<^verbatim>\<open>unsafeIRDirty_1_N\<close>), the
  former with an optional guard.
\<close>

definition set_guard :: "IRExpr option \<Rightarrow> IRDirty \<Rightarrow> IRDirty" where
  "set_guard g dd = (case g of None \<Rightarrow> dd | Some e \<Rightarrow> dd\<lparr>guard := Some e\<rparr>)"

definition emit_helper :: "string \<Rightarrow> IRExpr list \<Rightarrow> IRExpr option \<Rightarrow> unit dgM" where
  "emit_helper name as g =
     bindM (liftM (unsafeIRDirty_0_N 0 name name as)) (\<lambda>dd. emit (IRStmt_Dirty (set_guard g dd)))"

definition emit_helper_1 :: "IRTemp \<Rightarrow> string \<Rightarrow> IRExpr list \<Rightarrow> unit dgM" where
  "emit_helper_1 t name as =
     bindM (liftM (unsafeIRDirty_1_N t 0 name name as)) (\<lambda>dd. emit (IRStmt_Dirty dd))"

section \<open>The callback table\<close>

record 'd ExpressionHandling =
  wrtmp :: "IRTemp \<Rightarrow> 'd \<Rightarrow> unit dgM"
  rdtmp :: "IRTemp \<Rightarrow> 'd dgM"
  puti :: "int \<Rightarrow> 'd \<Rightarrow> (IRRegArray \<times> IRExpr) option \<Rightarrow> unit dgM"
  geti :: "int \<Rightarrow> IRType \<Rightarrow> (IRRegArray \<times> IRExpr) option \<Rightarrow> 'd dgM"
  store :: "IRExpr \<Rightarrow> 'd \<Rightarrow> IRExpr option \<Rightarrow> unit dgM"
  load :: "IRExpr \<Rightarrow> IRType \<Rightarrow> 'd dgM"
  dirty_storeF80le :: "IRExpr \<Rightarrow> 'd \<Rightarrow> unit dgM"
  dirty_loadF80le :: "IRExpr \<Rightarrow> IRTemp \<Rightarrow> unit dgM"
  eh_constant :: "IRConstTag \<Rightarrow> 'd dgM"
  eh_default :: "IRType \<Rightarrow> 'd dgM"
  compare :: "'d \<Rightarrow> 'd \<Rightarrow> IRExpr dgM"
  ite :: "IRExpr \<Rightarrow> 'd \<Rightarrow> 'd \<Rightarrow> 'd dgM"
  operation :: "IROp \<Rightarrow> IRExpr option list \<Rightarrow> 'd option list \<Rightarrow> 'd option dgM"
  ccall :: "IRCallee \<Rightarrow> IRType \<Rightarrow> IRExpr list \<Rightarrow> 'd option list \<Rightarrow> 'd option dgM"

text \<open>
  The operands \<^verbatim>\<open>arg1\<close> to \<^verbatim>\<open>arg4\<close> and their shadows
  \<^verbatim>\<open>mod1\<close> to \<^verbatim>\<open>mod4\<close> are passed as lists of length four, with \<^term>\<open>None\<close> for
  NULL. The register array and the index of \<^verbatim>\<open>puti\<close> and \<^verbatim>\<open>geti\<close> are both NULL
  or both given, so they are one optional pair.
\<close>

definition someM :: "'d dgM \<Rightarrow> 'd option dgM" where
  "someM m = bindM m (\<lambda>d. returnM (Some d))"

section \<open>Modifying expressions\<close>

fun dg_modify_expression :: "'d ExpressionHandling \<Rightarrow> IRExpr \<Rightarrow> 'd option dgM"
and dg_modify_args :: "'d ExpressionHandling \<Rightarrow> IRExpr list \<Rightarrow> 'd option list dgM" where
  "dg_modify_expression eh (IRExpr_Qop op a1 a2 a3 a4) =
     bindM (dg_modify_expression eh a1) (\<lambda>m1. bindM (dg_modify_expression eh a2) (\<lambda>m2.
     bindM (dg_modify_expression eh a3) (\<lambda>m3. bindM (dg_modify_expression eh a4) (\<lambda>m4.
     operation eh op [Some a1, Some a2, Some a3, Some a4] [m1, m2, m3, m4]))))"
| "dg_modify_expression eh (IRExpr_Triop op a1 a2 a3) =
     bindM (dg_modify_expression eh a1) (\<lambda>m1. bindM (dg_modify_expression eh a2) (\<lambda>m2.
     bindM (dg_modify_expression eh a3) (\<lambda>m3.
     operation eh op [Some a1, Some a2, Some a3, None] [m1, m2, m3, None])))"
| "dg_modify_expression eh (IRExpr_Binop op a1 a2) =
     bindM (dg_modify_expression eh a1) (\<lambda>m1. bindM (dg_modify_expression eh a2) (\<lambda>m2.
     operation eh op [Some a1, Some a2, None, None] [m1, m2, None, None]))"
| "dg_modify_expression eh (IRExpr_Unop op a1) =
     bindM (dg_modify_expression eh a1) (\<lambda>m1.
     operation eh op [Some a1, None, None, None] [m1, None, None, None])"
| "dg_modify_expression eh (IRExpr_Const con) = someM (eh_constant eh (tagOfIRConst con))"
| "dg_modify_expression eh (IRExpr_ITE cond iftrue iffalse) =
     bindM (dg_modify_expression eh iftrue) (\<lambda>dtrue.
     bindM (dg_modify_expression eh iffalse) (\<lambda>dfalse.
     case (dtrue, dfalse) of
       (Some dt, Some df) \<Rightarrow> someM (ite eh cond dt df)
     | _ \<Rightarrow> returnM None))"
| "dg_modify_expression eh (IRExpr_RdTmp t) = someM (rdtmp eh t)"
| "dg_modify_expression eh (IRExpr_Get offset ty) = someM (geti eh offset ty None)"
| "dg_modify_expression eh (IRExpr_GetI descr ix bias) =
     someM (geti eh bias Ity_INVALID (Some (descr, ix)))"
| "dg_modify_expression eh (IRExpr_Load _ ty addr) = someM (load eh addr ty)"
| "dg_modify_expression eh (IRExpr_CCall c retty as) =
     bindM (dg_modify_args eh as) (\<lambda>modified_args. ccall eh c retty as modified_args)"
| "dg_modify_expression eh (IRExpr_Binder _) = returnM None"
| "dg_modify_expression eh IRExpr_VECRET = returnM None"
| "dg_modify_expression eh IRExpr_GSPTR = returnM None"
| "dg_modify_args eh [] = returnM []"
| "dg_modify_args eh (a # as) =
     bindM (dg_modify_expression eh a) (\<lambda>m. bindM (dg_modify_args eh as) (\<lambda>ms.
     returnM (m # ms)))"

definition dg_modify_expression_or_default :: "'d ExpressionHandling \<Rightarrow> IRExpr \<Rightarrow> 'd dgM" where
  "dg_modify_expression_or_default eh expr =
     bindM (dg_modify_expression eh expr) (\<lambda>diff.
     case diff of
       Some d \<Rightarrow> returnM d
     | None \<Rightarrow> bindM (typeM expr) (\<lambda>type. eh_default eh type))"

section \<open>Instrumenting statements\<close>

definition CAS_cmp :: "IRType \<Rightarrow> vex_error + IROp" where
  "CAS_cmp type = (case type of
      Ity_I8 \<Rightarrow> Inr Iop_CmpEQ8
    | Ity_I16 \<Rightarrow> Inr Iop_CmpEQ16
    | Ity_I32 \<Rightarrow> Inr Iop_CmpEQ32
    | Ity_I64 \<Rightarrow> Inr Iop_CmpEQ64
    | _ \<Rightarrow> Inl (Vassert ''Unhandled type in translation of Ist_CAS.''))"

text \<open>One half (low or high) of the test whether a compare-and-swap succeeds.\<close>

definition CAS_equal ::
    "'d ExpressionHandling \<Rightarrow> IREndness \<Rightarrow> IROp \<Rightarrow> IRType \<Rightarrow> IRExpr \<Rightarrow> IRExpr \<Rightarrow> IRExpr dgM" where
  "CAS_equal eh en cmp type expd addr =
     (let equal_values = IRExpr_Binop cmp expd (IRExpr_Load en type addr) in
      bindM (dg_modify_expression_or_default eh expd) (\<lambda>modified_expd.
      bindM (load eh addr type) (\<lambda>l.
      bindM (compare eh modified_expd l) (\<lambda>equal_modifiedvalues.
      returnM (IRExpr_Binop Iop_And1 equal_values equal_modifiedvalues)))))"

definition CAS_store :: "'d ExpressionHandling \<Rightarrow> IRExpr \<Rightarrow> IRExpr \<Rightarrow> IRTemp \<Rightarrow> unit dgM" where
  "CAS_store eh addr data succeeded =
     bindM (dg_modify_expression_or_default eh data) (\<lambda>modified_data.
     store eh addr modified_data (Some (IRExpr_RdTmp succeeded)))"

definition whenM :: "('a \<times> 'b) option \<Rightarrow> ('a \<Rightarrow> 'b \<Rightarrow> unit dgM) \<Rightarrow> unit dgM" where
  "whenM o_pair f = (case o_pair of None \<Rightarrow> returnM () | Some (a, b) \<Rightarrow> f a b)"

text \<open>
  The high part exists exactly when \<^verbatim>\<open>expdHi\<close> is not NULL; then
  \<^verbatim>\<open>addressesOfCAS\<close> returns a high address. \<open>zip_opt\<close> pairs the two.
\<close>

definition zip_opt :: "'a option \<Rightarrow> 'b option \<Rightarrow> ('a \<times> 'b) option" where
  "zip_opt x y = (case (x, y) of (Some a, Some b) \<Rightarrow> Some (a, b) | _ \<Rightarrow> None)"

definition derefM :: "'a option \<Rightarrow> 'a dgM" where
  "derefM p = (case p of None \<Rightarrow> failM (Undefined ''null pointer'') | Some x \<Rightarrow> returnM x)"

text \<open>
  The instrumentation of a compare-and-swap: the condition of success, its temporary
  \<^verbatim>\<open>cas_succeeded\<close>, and the shadow updates that depend on it.
\<close>

definition CAS_test ::
    "'d ExpressionHandling \<Rightarrow> IRCAS \<Rightarrow> (IRType \<times> IRExpr \<times> IRExpr option \<times> IRExpr) dgM" where
  "CAS_test eh det =
     bindM (typeM (expdLo det)) (\<lambda>type.
     bindM (envM (\<lambda>env. addressesOfCAS env det)) (\<lambda>(addr_Lo, addr_Hi).
     bindM (liftM (CAS_cmp type)) (\<lambda>cmp.
     bindM (CAS_equal eh (cas_end det) cmp type (expdLo det) addr_Lo) (\<lambda>equal_Lo.
     bindM (case zip_opt (expdHi det) addr_Hi of
              Some (expd, addr) \<Rightarrow> CAS_equal eh (cas_end det) cmp type expd addr
            | None \<Rightarrow> returnM (IRExpr_Const (IRConst_U1 True))) (\<lambda>equal_Hi.
     returnM (type, addr_Lo, addr_Hi, IRExpr_Binop Iop_And1 equal_Lo equal_Hi))))))"

definition CAS_update ::
    "'d ExpressionHandling \<Rightarrow> IRCAS \<Rightarrow> IRType \<Rightarrow> IRExpr \<Rightarrow> IRExpr option \<Rightarrow> IRTemp \<Rightarrow> unit dgM" where
  "CAS_update eh det type addr_Lo addr_Hi succeeded =
     seqM (bindM (load eh addr_Lo type) (\<lambda>l. wrtmp eh (oldLo det) l))
     (seqM (whenM (zip_opt (expdHi det) addr_Hi) (\<lambda>_ addr.
              bindM (load eh addr type) (\<lambda>l. wrtmp eh (oldHi det) l)))
     (seqM (CAS_store eh addr_Lo (dataLo det) succeeded)
           (whenM (zip_opt (expdHi det) addr_Hi) (\<lambda>_ addr.
              bindM (derefM (dataHi det)) (\<lambda>data. CAS_store eh addr data succeeded)))))"

definition add_CAS_modified :: "'d ExpressionHandling \<Rightarrow> IRCAS \<Rightarrow> unit dgM" where
  "add_CAS_modified eh det =
     bindM (CAS_test eh det) (\<lambda>(type, addr_Lo, addr_Hi, equal).
     bindM (newTemp Ity_I1) (\<lambda>succeeded.
     seqM (modifyM (\<lambda>\<sigma>. \<sigma>\<lparr>cas_succeeded := succeeded\<rparr>))
     (seqM (emit (IRStmt_WrTmp succeeded equal))
           (CAS_update eh det type addr_Lo addr_Hi succeeded))))"

definition arg_at :: "IRExpr list \<Rightarrow> nat \<Rightarrow> IRExpr dgM" where
  "arg_at as i = (if i < length as then returnM (as ! i) else failM (Undefined ''argument vector''))"

definition is_storeF80le :: "string \<Rightarrow> bool" where
  "is_storeF80le name \<longleftrightarrow>
     name = ''x86g_dirtyhelper_storeF80le'' \<or> name = ''amd64g_dirtyhelper_storeF80le''"

definition is_loadF80le :: "string \<Rightarrow> bool" where
  "is_loadF80le name \<longleftrightarrow>
     name = ''x86g_dirtyhelper_loadF80le'' \<or> name = ''amd64g_dirtyhelper_loadF80le''"

definition add_Dirty_modified :: "'d ExpressionHandling \<Rightarrow> IRDirty \<Rightarrow> unit dgM" where
  "add_Dirty_modified eh det =
     (case cee det of
        None \<Rightarrow> failM (Undefined ''det->cee'')
      | Some c \<Rightarrow> (case cee_name c of
          None \<Rightarrow> failM (Undefined ''det->cee->name'')
        | Some name \<Rightarrow>
           if is_storeF80le name then
             bindM (arg_at (args det) 0) (\<lambda>addr. bindM (arg_at (args det) 1) (\<lambda>expr.
             bindM (dg_modify_expression_or_default eh expr) (\<lambda>modified_expr.
             dirty_storeF80le eh addr modified_expr)))
           else if is_loadF80le name then
             bindM (arg_at (args det) 0) (\<lambda>addr. dirty_loadF80le eh addr (tmp det))
           else if tmp det \<noteq> IRTemp_INVALID then
             bindM (envM (\<lambda>env. typeOfIRTemp env (tmp det))) (\<lambda>type.
             bindM (eh_default eh type) (\<lambda>d. wrtmp eh (tmp det) d))
           else returnM ()))"

fun add_statement_modified :: "'d ExpressionHandling \<Rightarrow> IRStmt \<Rightarrow> unit dgM" where
  "add_statement_modified eh (IRStmt_WrTmp t data) =
     bindM (dg_modify_expression_or_default eh data) (\<lambda>modified_expr. wrtmp eh t modified_expr)"
| "add_statement_modified eh (IRStmt_Put offset data) =
     bindM (dg_modify_expression_or_default eh data) (\<lambda>modified_expr. puti eh offset modified_expr None)"
| "add_statement_modified eh (IRStmt_PutI det) =
     bindM (dg_modify_expression_or_default eh (puti_data det)) (\<lambda>modified_expr.
     puti eh (puti_bias det) modified_expr (Some (puti_descr det, puti_ix det)))"
| "add_statement_modified eh (IRStmt_Store _ addr data) =
     bindM (dg_modify_expression_or_default eh data) (\<lambda>modified_expr. store eh addr modified_expr None)"
| "add_statement_modified eh (IRStmt_StoreG det) =
     bindM (dg_modify_expression_or_default eh (sg_data det)) (\<lambda>modified_expr.
     store eh (sg_addr det) modified_expr (Some (sg_guard det)))"
| "add_statement_modified eh (IRStmt_LoadG det) =
     bindM (envM (\<lambda>env. if lg_dst det < length env then Inr (env ! lg_dst det)
                         else Inl (Undefined ''tyenv->types[det->dst]''))) (\<lambda>type.
     bindM (load eh (lg_addr det) type) (\<lambda>modified_data_read.
     bindM (dg_modify_expression_or_default eh (lg_alt det)) (\<lambda>modified_expr_alt.
     bindM (ite eh (lg_guard det) modified_data_read modified_expr_alt) (\<lambda>d.
     wrtmp eh (lg_dst det) d))))"
| "add_statement_modified eh (IRStmt_CAS det) = add_CAS_modified eh det"
| "add_statement_modified eh (IRStmt_LLSC _ _ _ _) = returnM ()"
| "add_statement_modified eh (IRStmt_Dirty det) = add_Dirty_modified eh det"
| "add_statement_modified eh IRStmt_NoOp = returnM ()"
| "add_statement_modified eh (IRStmt_IMark _ _ _) = returnM ()"
| "add_statement_modified eh (IRStmt_AbiHint _ _ _) = returnM ()"
| "add_statement_modified eh (IRStmt_Exit _ _ _ _) = returnM ()"
| "add_statement_modified eh (IRStmt_MBE _) = returnM ()"

end
