(* ===== verification/DG_Emission.thy ===== *)
theory DG_Emission
  imports DG_Expr
begin

text \<open>
  What instrumentation may touch. \<open>appends S m\<close> says that action \<open>m\<close>, whenever it succeeds, only
  appends statements that satisfy \<open>S\<close> to the output block, only adds temporaries, and leaves the
  jump at the end of the block alone. The locale \<open>emitting_handling\<close> states this for every callback
  of a table, and its lemmas extend it to the whole instrumentation of a statement. With \<open>S\<close> the
  property to write only shadow state, this is the transparency of the instrumentation: the original
  program cannot observe it.
\<close>

definition block_end :: "IRSB \<Rightarrow> IRExpr \<times> IRJumpKind \<times> int" where
  "block_end sb = (sb_next sb, jumpkind sb, offsIP sb)"

definition appended :: "(IRTemp \<Rightarrow> int \<Rightarrow> IRStmt \<Rightarrow> bool) \<Rightarrow> DiffEnv \<Rightarrow> DiffEnv \<Rightarrow> bool" where
  "appended S \<sigma> \<sigma>' \<longleftrightarrow>
     tmp_offset \<sigma>' = tmp_offset \<sigma> \<and> gs_offset \<sigma>' = gs_offset \<sigma>
     \<and> block_end (sb_out \<sigma>') = block_end (sb_out \<sigma>)
     \<and> (\<exists>tys. tyenv (sb_out \<sigma>') = tyenv (sb_out \<sigma>) @ tys)
     \<and> (\<exists>sts. stmts (sb_out \<sigma>') = stmts (sb_out \<sigma>) @ sts
              \<and> list_all (S (tmp_offset \<sigma>) (gs_offset \<sigma>)) sts)"

definition appends :: "(IRTemp \<Rightarrow> int \<Rightarrow> IRStmt \<Rightarrow> bool) \<Rightarrow> 'a dgM \<Rightarrow> bool" where
  "appends S m \<longleftrightarrow> (\<forall>\<sigma> x \<sigma>'. tmp_offset \<sigma> \<le> length (tyenv (sb_out \<sigma>)) \<longrightarrow> m \<sigma> = Inr (x, \<sigma>') \<longrightarrow> appended S \<sigma> \<sigma>')"

named_theorems appends_intro \<open>composition rules for actions that only append statements\<close>

lemma appended_refl: "appended S \<sigma> \<sigma>"
  by (simp add: appended_def)

lemma appended_trans: "appended S \<sigma> \<sigma>1 \<Longrightarrow> appended S \<sigma>1 \<sigma>2 \<Longrightarrow> appended S \<sigma> \<sigma>2"
  by (auto simp: appended_def)

lemma appended_room: "appended S \<sigma> \<sigma>' \<Longrightarrow> tmp_offset \<sigma> \<le> length (tyenv (sb_out \<sigma>)) \<Longrightarrow> tmp_offset \<sigma>' \<le> length (tyenv (sb_out \<sigma>'))"
  by (auto simp: appended_def)

lemma appendsD: "appends S m \<Longrightarrow> m \<sigma> = Inr (x, \<sigma>') \<Longrightarrow> tmp_offset \<sigma> \<le> length (tyenv (sb_out \<sigma>)) \<Longrightarrow> appended S \<sigma> \<sigma>'"
  by (simp add: appends_def)

lemma appends_pure: "(\<And>\<sigma> x \<sigma>'. m \<sigma> = Inr (x, \<sigma>') \<Longrightarrow> \<sigma>' = \<sigma>) \<Longrightarrow> appends S m"
  using appended_refl by (fastforce simp: appends_def)

lemma appends_simple [appends_intro]:
  "appends S (returnM x)" "appends S (failM e)" "appends S (liftM r)" "appends S getM"
  "appends S (assertM b e)" "appends S (envM f)" "appends S (typeM ex)"
  by (rule appends_pure; simp add: monad_inv typeM_def envM_def)+

lemma appends_bind [appends_intro]:
  assumes "appends S m" "\<And>x. appends S (f x)"
  shows "appends S (bindM m f)"
  unfolding appends_def
proof (intro allI impI)
  fix \<sigma> y \<sigma>2 assume 0: "tmp_offset \<sigma> \<le> length (tyenv (sb_out \<sigma>))" and "bindM m f \<sigma> = Inr (y, \<sigma>2)"
  then obtain x \<sigma>1 where 1: "m \<sigma> = Inr (x, \<sigma>1)" "f x \<sigma>1 = Inr (y, \<sigma>2)"
    by (auto simp: monad_inv)
  have a1: "appended S \<sigma> \<sigma>1" using appendsD [OF assms(1) 1(1) 0] .
  then show "appended S \<sigma> \<sigma>2"
    using appendsD [OF assms(2) 1(2) appended_room [OF a1 0]] by (rule appended_trans)
qed

lemma appends_seq [appends_intro]: "appends S m \<Longrightarrow> appends S n \<Longrightarrow> appends S (seqM m n)"
  by (simp add: seqM_def appends_bind)

lemma appends_someM [appends_intro]: "appends S m \<Longrightarrow> appends S (someM m)"
  by (simp add: someM_def appends_intro)

lemma appends_newTemp [appends_intro]: "appends S (newTemp ty)"
  by (auto simp: appends_def appended_def newTemp_def newIRTemp_def block_end_def)

lemma appends_set_cas [appends_intro]: "appends S (modifyM (\<lambda>\<sigma>. \<sigma>\<lparr>cas_succeeded := t\<rparr>))"
  by (simp add: appends_def appended_def modifyM_def)

lemma appends_emit: "(\<And>n g. S n g st) \<Longrightarrow> appends S (emit st)"
  by (auto simp: appends_def appended_def emit_def modifyM_def addStmtToIRSB_def block_end_def)

text \<open>
  A fresh temporary lies above the temporaries of the input block: after its allocation as \<open>t\<close>, what
  is emitted need only be admissible for offsets up to \<open>t\<close>.
\<close>

definition below :: "IRTemp \<Rightarrow> (IRTemp \<Rightarrow> int \<Rightarrow> IRStmt \<Rightarrow> bool) \<Rightarrow> IRTemp \<Rightarrow> int \<Rightarrow> IRStmt \<Rightarrow> bool" where
  "below t S n gs st \<longleftrightarrow> (n \<le> t \<longrightarrow> S n gs st)"

lemma below_eq: "n \<le> t \<Longrightarrow> below t S n = S n"
  by (simp add: below_def fun_eq_iff)

lemma belowI: "S n gs st \<Longrightarrow> below t S n gs st"
  by (simp add: below_def)

lemma appended_below:
  "tmp_offset \<sigma> \<le> t \<Longrightarrow> appended (below t S) \<sigma> \<sigma>' = appended S \<sigma> \<sigma>'"
  by (simp add: appended_def below_eq)

lemma appended_mono:
  "appended S \<sigma> \<sigma>' \<Longrightarrow> (\<And>st. S (tmp_offset \<sigma>) (gs_offset \<sigma>) st \<Longrightarrow> S' (tmp_offset \<sigma>) (gs_offset \<sigma>) st) \<Longrightarrow> appended S' \<sigma> \<sigma>'"
  unfolding appended_def by (meson list.pred_mono_strong)

lemma appends_below: "appends S m \<Longrightarrow> appends (below t S) m"
  unfolding appends_def by (blast intro: appended_mono [of S] belowI)

lemma appends_newTemp_bind:
  assumes "\<And>t. appends (below t S) (f t)"
  shows "appends S (bindM (newTemp ty) f)"
  unfolding appends_def
proof (intro allI impI)
  fix \<sigma> x \<sigma>' assume 0: "tmp_offset \<sigma> \<le> length (tyenv (sb_out \<sigma>))" and m: "bindM (newTemp ty) f \<sigma> = Inr (x, \<sigma>')"
  let ?t = "length (tyenv (sb_out \<sigma>))" and ?\<sigma> = "\<sigma>\<lparr>sb_out := (sb_out \<sigma>)\<lparr>tyenv := tyenv (sb_out \<sigma>) @ [ty]\<rparr>\<rparr>"
  have n: "newTemp ty \<sigma> = Inr (?t, ?\<sigma>)" by (simp add: newTemp_def newIRTemp_def)
  have "appended (below ?t S) ?\<sigma> \<sigma>'"
    using m n 0 by (intro appendsD [OF assms]) auto
  then have "appended S ?\<sigma> \<sigma>'" using appended_below [of ?\<sigma> ?t S] 0 by simp
  then show "appended S \<sigma> \<sigma>'"
    using appendsD [OF appends_newTemp n 0] appended_trans by blast
qed

text \<open>Emission of a statement that depends on the current offsets.\<close>

lemma appends_get_emit:
  "(\<And>\<sigma>. S (tmp_offset \<sigma>) (gs_offset \<sigma>) (f \<sigma>)) \<Longrightarrow> appends S (bindM getM (\<lambda>\<sigma>. emit (f \<sigma>)))"
  by (auto simp: appends_def appended_def emit_def modifyM_def addStmtToIRSB_def block_end_def bindM_def getM_def)

lemma appends_mapM [appends_intro]: "(\<And>x. appends S (f x)) \<Longrightarrow> appends S (mapM f xs)"
  by (induction xs) (simp_all add: appends_intro)

lemma appends_whenM [appends_intro]: "(\<And>a b. p = Some (a, b) \<Longrightarrow> appends S (f a b)) \<Longrightarrow> appends S (whenM p f)"
  by (auto simp: whenM_def appends_intro split: option.split)

lemma appends_derefM [appends_intro]: "appends S (derefM p)"
  by (simp add: derefM_def appends_intro split: option.split)

lemma appends_arg_at [appends_intro]: "appends S (arg_at as i)"
  by (simp add: arg_at_def appends_intro)

text \<open>Calls of helper functions.\<close>

definition helper_call :: "string set \<Rightarrow> IRTemp \<Rightarrow> IRDirty \<Rightarrow> bool" where
  "helper_call names n d \<longleftrightarrow> (tmp d = IRTemp_INVALID \<or> n \<le> tmp d)
     \<and> (\<exists>c name. cee d = Some c \<and> cee_name c = Some name \<and> cee_addr c = Some name \<and> name \<in> names)"

lemma emit_helper_eq:
  "emit_helper name as g = emit (IRStmt_Dirty (set_guard g (emptyIRDirty\<lparr>
     cee := Some \<lparr>regparms = 0, cee_name = Some name, cee_addr = Some name\<rparr>,
     guard := Some (IRExpr_Const (IRConst_U1 True)), args := as\<rparr>)))"
  "emit_helper_1 t name as = emit (IRStmt_Dirty (emptyIRDirty\<lparr>
     cee := Some \<lparr>regparms = 0, cee_name = Some name, cee_addr = Some name\<rparr>,
     guard := Some (IRExpr_Const (IRConst_U1 True)), args := as, tmp := t\<rparr>))"
  by (rule ext; simp add: emit_helper_def emit_helper_1_def unsafeIRDirty_ok liftM_def bindM_def)+

lemma appends_helper:
  "(\<And>n gs d. helper_call names n d \<Longrightarrow> S n gs (IRStmt_Dirty d)) \<Longrightarrow> name \<in> names \<Longrightarrow> appends S (emit_helper name as g)"
  by (auto simp: emit_helper_eq helper_call_def set_guard_def emptyIRDirty_def intro!: appends_emit split: option.split)

lemma appends_helper_1:
  assumes "\<And>n gs d. helper_call names n d \<Longrightarrow> S n gs (IRStmt_Dirty d)" "name \<in> names" "\<And>\<sigma>. tmp_offset \<sigma> \<le> f \<sigma>"
  shows "appends S (bindM getM (\<lambda>\<sigma>. emit_helper_1 (f \<sigma>) name as))"
  using assms by (auto simp: emit_helper_eq helper_call_def emptyIRDirty_def intro!: appends_get_emit)

lemma appends_helper_fresh:
  assumes "\<And>n gs d. helper_call names n d \<Longrightarrow> S n gs (IRStmt_Dirty d)" "name \<in> names"
  shows "appends (below t S) (emit_helper_1 t name as)"
  using assms by (auto simp: emit_helper_eq helper_call_def emptyIRDirty_def below_def intro!: appends_emit)

text \<open>Guest state offsets in a statement are not negative.\<close>

fun nonneg_offsets :: "IRStmt \<Rightarrow> bool" where
  "nonneg_offsets (IRStmt_Put off _) \<longleftrightarrow> 0 \<le> off"
| "nonneg_offsets (IRStmt_PutI p) \<longleftrightarrow> 0 \<le> base (puti_descr p)"
| "nonneg_offsets _ \<longleftrightarrow> True"

locale emitting_handling =
  fixes eh :: "'d ExpressionHandling"
    and S :: "IRTemp \<Rightarrow> int \<Rightarrow> IRStmt \<Rightarrow> bool"
  assumes wrtmp_appends: "appends S (wrtmp eh t d)"
    and rdtmp_appends: "appends S (rdtmp eh t)"
    and put_appends: "0 \<le> off \<Longrightarrow> appends S (puti eh off d None)"
    and puti_appends: "0 \<le> base descr \<Longrightarrow> appends S (puti eh off d (Some (descr, ix)))"
    and geti_appends: "appends S (geti eh off ty di)"
    and store_appends: "appends S (store eh addr d g)"
    and load_appends: "appends S (load eh addr ty)"
    and storeF80le_appends: "appends S (dirty_storeF80le eh addr d)"
    and loadF80le_appends: "appends S (dirty_loadF80le eh addr t)"
    and constant_appends: "appends S (eh_constant eh tag)"
    and default_appends: "appends S (eh_default eh ty)"
    and compare_appends: "appends S (compare eh d d')"
    and ite_appends: "appends S (ite eh c d d')"
    and operation_appends: "appends S (operation eh op as ds)"
    and ccall_appends: "appends S (ccall eh cl ty cargs ds)"
    and cas_temp_allowed: "n \<le> t \<Longrightarrow> S n gs (IRStmt_WrTmp t e)"
begin

lemmas handler_appends =
  wrtmp_appends rdtmp_appends put_appends puti_appends geti_appends store_appends load_appends
  storeF80le_appends loadF80le_appends constant_appends default_appends compare_appends ite_appends
  operation_appends ccall_appends

lemma modify_expression_appends: "appends S (dg_modify_expression eh e)"
proof (induction e)
  case (IRExpr_CCall c ty as)
  have "appends S (dg_modify_args eh as)"
    using IRExpr_CCall by (induction as) (simp_all add: appends_intro)
  then show ?case by (simp add: appends_intro handler_appends)
next
  case (IRExpr_ITE c a b)
  then show ?case by (auto intro!: appends_intro ite_appends split: option.split)
qed (simp_all add: appends_intro handler_appends)

lemma modify_or_default_appends: "appends S (dg_modify_expression_or_default eh e)"
  unfolding dg_modify_expression_or_default_def
  by (auto intro!: appends_intro modify_expression_appends default_appends split: option.split)

lemma CAS_equal_appends: "appends S (CAS_equal eh en cmp type expd addr)"
  unfolding CAS_equal_def Let_def
  by (intro appends_intro modify_or_default_appends load_appends compare_appends)

lemma CAS_test_appends: "appends S (CAS_test eh det)"
  unfolding CAS_test_def
  by (auto intro!: appends_intro CAS_equal_appends split: option.split prod.split)

lemma CAS_store_appends: "appends S (CAS_store eh addr data s)"
  unfolding CAS_store_def by (intro appends_intro modify_or_default_appends store_appends)

lemma CAS_update_appends: "appends S (CAS_update eh det type aLo aHi s)"
  unfolding CAS_update_def
  by (intro appends_intro load_appends wrtmp_appends CAS_store_appends)

lemma CAS_appends: "appends S (add_CAS_modified eh det)"
  unfolding add_CAS_modified_def
  by (auto intro!: appends_bind [OF CAS_test_appends] appends_newTemp_bind appends_seq appends_set_cas appends_emit
        appends_below [OF CAS_update_appends] simp: below_def cas_temp_allowed split: prod.split)

lemma Dirty_appends: "appends S (add_Dirty_modified eh det)"
  unfolding add_Dirty_modified_def
  by (auto intro!: appends_intro modify_or_default_appends handler_appends split: option.split)

theorem statement_appends: "nonneg_offsets st \<Longrightarrow> appends S (add_statement_modified eh st)"
  by (cases st)
     (auto intro!: appends_intro modify_or_default_appends handler_appends CAS_appends Dirty_appends)

end

end
