(* ===== verification/DG_Handling.thy ===== *)
theory DG_Handling
  imports DG_Emission
begin

text \<open>
  The contract between the mode-independent instrumentation (\<open>DG_Expr\<close>) and the callback table of a
  mode, as the locale \<open>shadow_handling\<close>: every callback succeeds on well-typed arguments, yields
  well-typed shadow values, appends only statements that VEX's sanity checker accepts, and defines
  exactly the shadow temporaries it is asked to define. The lemmas proved in the locale lift the
  contract to \<^verbatim>\<open>dg_modify_expression\<close> and \<^verbatim>\<open>add_statement_modified\<close>. The locale is
  interpreted for the tables of the modes in the theories of the modes.
\<close>

section \<open>Progress of the output block\<close>

text \<open>
  The shadows of temporary \<open>t\<close> in \<open>k\<close> layers are the temporaries \<open>t + n\<close> to \<open>t + k * n\<close>, where \<open>n\<close> is
  the number of temporaries of the input block.
\<close>

definition shadow_temps :: "nat \<Rightarrow> nat \<Rightarrow> IRTemp \<Rightarrow> IRTemp set" where
  "shadow_temps n k t = (\<lambda>j. t + j * n) ` {1..k}"

definition diff_inv :: "bool \<Rightarrow> IRType \<Rightarrow> IRTypeEnv \<Rightarrow> int \<Rightarrow> nat \<Rightarrow> DiffEnv \<Rightarrow> def_counts \<Rightarrow> bool" where
  "diff_inv pre gw env0 goff k \<sigma> dc \<longleftrightarrow>
     pre \<and> tmp_offset \<sigma> = length env0 \<and> gs_offset \<sigma> = goff
     \<and> (length (tyenv (sb_out \<sigma>)) \<le> IRTemp_INVALID \<longrightarrow> sane_sb gw (sb_out \<sigma>) dc)
     \<and> (\<forall>t. length (tyenv (sb_out \<sigma>)) \<le> t \<longrightarrow> dc t = 0)
     \<and> (\<exists>xs. tyenv (sb_out \<sigma>) = env0 @ concat (replicate k env0) @ xs)"

text \<open>
  \<open>diff_inv\<close> is the invariant of the output block while instrumentation runs: its statements pass
  VEX's checks, with the definition counts \<open>dc\<close>, as long as there are not more temporaries than their
  32-bit numbers can tell apart; its temporaries are those of the input block, \<open>k\<close> layers of shadows and
  helpers. \<open>pre\<close> is what a mode assumes about the input block as a whole.
\<close>

definition progress :: "DiffEnv \<Rightarrow> def_counts \<Rightarrow> DiffEnv \<Rightarrow> def_counts \<Rightarrow> IRTemp set \<Rightarrow> bool" where
  "progress \<sigma> dc \<sigma>' dc' D \<longleftrightarrow>
     (\<exists>xs. tyenv (sb_out \<sigma>') = tyenv (sb_out \<sigma>) @ xs)
     \<and> (\<forall>t < length (tyenv (sb_out \<sigma>)). if t \<in> D then dc t = 0 \<and> dc' t = 1 else dc' t = dc t)"

definition runs ::
    "(DiffEnv \<Rightarrow> def_counts \<Rightarrow> bool) \<Rightarrow> 'a dgM \<Rightarrow> DiffEnv \<Rightarrow> def_counts \<Rightarrow> IRTemp set
     \<Rightarrow> ('a \<Rightarrow> DiffEnv \<Rightarrow> def_counts \<Rightarrow> bool) \<Rightarrow> bool" where
  "runs I m \<sigma> dc D Q \<longleftrightarrow>
     (\<exists>x \<sigma>' dc'. m \<sigma> = Inr (x, \<sigma>') \<and> I \<sigma>' dc' \<and> progress \<sigma> dc \<sigma>' dc' D
                 \<and> cas_succeeded \<sigma>' = cas_succeeded \<sigma> \<and> Q x \<sigma>' dc')"

lemma progress_refl: "progress \<sigma> dc \<sigma> dc {}"
  by (simp add: progress_def)

lemma progress_at:
  "progress \<sigma> dc \<sigma>' dc' D \<Longrightarrow> t < length (tyenv (sb_out \<sigma>)) \<Longrightarrow>
     (t \<in> D \<longrightarrow> dc t = 0 \<and> dc' t = 1) \<and> (t \<notin> D \<longrightarrow> dc' t = dc t)"
  by (auto simp: progress_def)

lemma progress_length:
  "progress \<sigma> dc \<sigma>' dc' D \<Longrightarrow> length (tyenv (sb_out \<sigma>)) \<le> length (tyenv (sb_out \<sigma>'))"
  by (auto simp: progress_def)

lemma progressI:
  "tyenv (sb_out \<sigma>') = tyenv (sb_out \<sigma>) @ xs \<Longrightarrow>
   (\<And>t. t < length (tyenv (sb_out \<sigma>)) \<Longrightarrow> (t \<in> D \<longrightarrow> dc t = 0 \<and> dc' t = 1) \<and> (t \<notin> D \<longrightarrow> dc' t = dc t)) \<Longrightarrow>
   progress \<sigma> dc \<sigma>' dc' D"
  by (auto simp: progress_def)

lemma progress_trans:
  assumes 1: "progress \<sigma> dc \<sigma>1 dc1 D" and 2: "progress \<sigma>1 dc1 \<sigma>2 dc2 D'"
  shows "progress \<sigma> dc \<sigma>2 dc2 (D \<union> D')"
proof -
  obtain xs ys where "tyenv (sb_out \<sigma>2) = tyenv (sb_out \<sigma>) @ xs @ ys"
    using 1 2 by (auto simp: progress_def)
  then show ?thesis
  proof (rule progressI)
    fix t assume t: "t < length (tyenv (sb_out \<sigma>))"
    show "(t \<in> D \<union> D' \<longrightarrow> dc t = 0 \<and> dc2 t = 1) \<and> (t \<notin> D \<union> D' \<longrightarrow> dc2 t = dc t)"
      using progress_at [OF 1 t] progress_at [OF 2, of t] progress_length [OF 1] t by auto
  qed
qed

lemma progress_le: "progress \<sigma> dc \<sigma>' dc' D \<Longrightarrow> t < length (tyenv (sb_out \<sigma>)) \<Longrightarrow> dc t \<le> dc' t"
  by (auto simp: progress_def split: if_splits)

lemma progress_wt:
  assumes "progress \<sigma> dc \<sigma>' dc' D" "wt (tyenv (sb_out \<sigma>)) gw dc e ty"
  shows "wt (tyenv (sb_out \<sigma>')) gw dc' e ty"
  using assms(1) wt_extend [OF assms(2), of dc'] progress_le [OF assms(1)]
  by (auto simp: progress_def)

lemma runsI:
  "m \<sigma> = Inr (x, \<sigma>') \<Longrightarrow> I \<sigma>' dc' \<Longrightarrow> progress \<sigma> dc \<sigma>' dc' D \<Longrightarrow> cas_succeeded \<sigma>' = cas_succeeded \<sigma>
     \<Longrightarrow> Q x \<sigma>' dc' \<Longrightarrow> runs I m \<sigma> dc D Q"
  unfolding runs_def by blast

lemma runsE:
  assumes "runs I m \<sigma> dc D Q"
  obtains x \<sigma>' dc' where "m \<sigma> = Inr (x, \<sigma>')" "I \<sigma>' dc'" "progress \<sigma> dc \<sigma>' dc' D"
    "cas_succeeded \<sigma>' = cas_succeeded \<sigma>" "Q x \<sigma>' dc'"
  using assms unfolding runs_def by blast

lemma runs_return: "I \<sigma> dc \<Longrightarrow> Q x \<sigma> dc \<Longrightarrow> runs I (returnM x) \<sigma> dc {} Q"
  by (rule runsI [OF _ _ progress_refl]) (simp_all add: returnM_def)

lemma runs_bind:
  assumes "runs I m \<sigma> dc D Q"
    and "\<And>x \<sigma>' dc'. I \<sigma>' dc' \<Longrightarrow> progress \<sigma> dc \<sigma>' dc' D \<Longrightarrow> Q x \<sigma>' dc' \<Longrightarrow> runs I (f x) \<sigma>' dc' D' R"
  shows "runs I (bindM m f) \<sigma> dc (D \<union> D') R"
proof -
  obtain x \<sigma>' dc' where 1: "m \<sigma> = Inr (x, \<sigma>')" "I \<sigma>' dc'" "progress \<sigma> dc \<sigma>' dc' D"
      "cas_succeeded \<sigma>' = cas_succeeded \<sigma>" "Q x \<sigma>' dc'"
    using assms(1) by (rule runsE)
  obtain y \<sigma>2 dc2 where 2: "f x \<sigma>' = Inr (y, \<sigma>2)" "I \<sigma>2 dc2" "progress \<sigma>' dc' \<sigma>2 dc2 D'"
      "cas_succeeded \<sigma>2 = cas_succeeded \<sigma>'" "R y \<sigma>2 dc2"
    using assms(2) [OF 1(2,3,5)] by (rule runsE)
  show ?thesis
    by (rule runsI [where x = y and \<sigma>' = \<sigma>2 and dc' = dc2])
       (simp_all add: 1 2 progress_trans [OF 1(3) 2(3)])
qed

lemma runs_bind_pure:
  assumes "runs I m \<sigma> dc {} Q"
    and "\<And>x \<sigma>' dc'. I \<sigma>' dc' \<Longrightarrow> progress \<sigma> dc \<sigma>' dc' {} \<Longrightarrow> Q x \<sigma>' dc' \<Longrightarrow> runs I (f x) \<sigma>' dc' D R"
  shows "runs I (bindM m f) \<sigma> dc D R"
  using runs_bind [OF assms] by simp

lemma runs_seq:
  assumes "runs I m \<sigma> dc D Q"
    and "\<And>x \<sigma>' dc'. I \<sigma>' dc' \<Longrightarrow> progress \<sigma> dc \<sigma>' dc' D \<Longrightarrow> Q x \<sigma>' dc' \<Longrightarrow> runs I n \<sigma>' dc' D' R"
  shows "runs I (seqM m n) \<sigma> dc (D \<union> D') R"
  unfolding seqM_def using assms by (rule runs_bind)

lemma runs_weaken:
  "runs I m \<sigma> dc D Q \<Longrightarrow> (\<And>x \<sigma>' dc'. progress \<sigma> dc \<sigma>' dc' D \<Longrightarrow> Q x \<sigma>' dc' \<Longrightarrow> R x \<sigma>' dc')
     \<Longrightarrow> runs I m \<sigma> dc D R"
  by (elim runsE) (auto intro: runsI)

lemma runs_lift: "I \<sigma> dc \<Longrightarrow> m = Inr x \<Longrightarrow> Q x \<sigma> dc \<Longrightarrow> runs I (liftM m) \<sigma> dc {} Q"
  by (rule runsI [OF _ _ progress_refl]) (simp_all add: liftM_def)

lemma runs_env:
  "I \<sigma> dc \<Longrightarrow> f (tyenv (sb_out \<sigma>)) = Inr x \<Longrightarrow> Q x \<sigma> dc \<Longrightarrow> runs I (envM f) \<sigma> dc {} Q"
  by (rule runsI [OF _ _ progress_refl]) (simp_all add: envM_def liftM_def)

lemma runs_get: "I \<sigma> dc \<Longrightarrow> Q \<sigma> \<sigma> dc \<Longrightarrow> runs I getM \<sigma> dc {} Q"
  by (rule runsI [OF _ _ progress_refl]) (simp_all add: getM_def)

lemma runs_assert: "I \<sigma> dc \<Longrightarrow> b \<Longrightarrow> Q () \<sigma> dc \<Longrightarrow> runs I (assertM b e) \<sigma> dc {} Q"
  by (rule runsI [OF _ _ progress_refl]) (simp_all add: assertM_def)

lemma runs_some:
  "runs I m \<sigma> dc D Q \<Longrightarrow> runs I (someM m) \<sigma> dc D (\<lambda>r \<sigma>' dc'. \<exists>d. r = Some d \<and> Q d \<sigma>' dc')"
  by (elim runsE) (auto intro!: runsI simp: someM_def returnM_def)

text \<open>The temporaries a statement defines, and what the checker's bookkeeping makes of them.\<close>

fun stmt_defs :: "IRStmt \<Rightarrow> IRTemp set" where
  "stmt_defs (IRStmt_WrTmp t _) = {t}"
| "stmt_defs (IRStmt_LoadG lg) = {lg_dst lg}"
| "stmt_defs (IRStmt_Dirty d) = (if tmp d \<noteq> IRTemp_INVALID then {tmp d} else {})"
| "stmt_defs (IRStmt_CAS cas) = (if oldHi cas \<noteq> IRTemp_INVALID then {oldHi cas} else {}) \<union> {oldLo cas}"
| "stmt_defs (IRStmt_LLSC _ result _ _) = {result}"
| "stmt_defs _ = {}"

lemma assignedOnce_defs:
  "assignedOnce_Stmt env st dc = Inr dc' \<Longrightarrow>
     (\<forall>t\<in>stmt_defs st. t < length env \<and> dc t = 0) \<and> dc' = (\<lambda>t. if t \<in> stmt_defs st then 1 else dc t)"
  by (cases st) (auto simp: monad_inv split: if_splits)

text \<open>Emitting a statement and allocating a temporary.\<close>

lemma runs_emit_bounded:
  assumes "diff_inv pre gw env0 goff k \<sigma> dc" "\<forall>t\<in>D. dc t = 0 \<and> t < length (tyenv (sb_out \<sigma>))"
    and "length (tyenv (sb_out \<sigma>)) \<le> IRTemp_INVALID \<Longrightarrow>
           wt_stmt (tyenv (sb_out \<sigma>)) gw dc st (\<lambda>t. if t \<in> D then 1 else dc t)"
    and "\<And>\<sigma>' dc'. tyenv (sb_out \<sigma>') = tyenv (sb_out \<sigma>) \<Longrightarrow> dc' = (\<lambda>t. if t \<in> D then 1 else dc t) \<Longrightarrow> Q () \<sigma>' dc'"
  shows "runs (diff_inv pre gw env0 goff k) (emit st) \<sigma> dc D Q"
proof -
  let ?\<sigma> = "\<sigma>\<lparr>sb_out := addStmtToIRSB (sb_out \<sigma>) st\<rparr>" and ?dc = "\<lambda>t. if t \<in> D then 1 else dc t"
  have "tyenv (sb_out ?\<sigma>) = tyenv (sb_out \<sigma>)" by (simp add: addStmtToIRSB_def)
  moreover have "diff_inv pre gw env0 goff k ?\<sigma> ?dc"
    using assms(1,2) sane_sb_add [OF _ assms(3)] by (auto simp: diff_inv_def addStmtToIRSB_def)
  moreover have "progress \<sigma> dc ?\<sigma> ?dc D"
    using assms(2) by (simp add: progress_def addStmtToIRSB_def)
  moreover have "emit st \<sigma> = Inr ((), ?\<sigma>)"
    by (simp add: emit_def modifyM_def)
  ultimately show ?thesis
    using assms(4) [of ?\<sigma> ?dc] by (intro runsI) auto
qed

lemma wt_stmt_defs_bound:
  assumes "wt_stmt env gw dc st (\<lambda>t. if t \<in> D then 1 else dc t)" "\<forall>t\<in>D. dc t = 0" "t \<in> D"
  shows "t < length env"
proof -
  let ?dc' = "\<lambda>t. if t \<in> D then 1 else dc t"
  have "assignedOnce_Stmt env st dc = Inr ?dc'" using assms(1) by (simp add: wt_stmt_def)
  from assignedOnce_defs [OF this]
  have d: "\<forall>t\<in>stmt_defs st. t < length env" and e: "?dc' = (\<lambda>t. if t \<in> stmt_defs st then 1 else dc t)" by auto
  have "t \<in> stmt_defs st" using fun_cong [OF e, of t] assms(2,3) by (simp split: if_splits)
  then show ?thesis using d by simp
qed

lemma runs_emit_defs:
  assumes "diff_inv pre gw env0 goff k \<sigma> dc" "wt_stmt (tyenv (sb_out \<sigma>)) gw dc st (\<lambda>t. if t \<in> D then 1 else dc t)"
    and "\<forall>t\<in>D. dc t = 0"
    and "\<And>\<sigma>' dc'. tyenv (sb_out \<sigma>') = tyenv (sb_out \<sigma>) \<Longrightarrow> dc' = (\<lambda>t. if t \<in> D then 1 else dc t) \<Longrightarrow> Q () \<sigma>' dc'"
  shows "runs (diff_inv pre gw env0 goff k) (emit st) \<sigma> dc D Q"
  using wt_stmt_defs_bound [OF assms(2,3)] assms by (intro runs_emit_bounded) auto

lemma runs_emit:
  assumes "diff_inv pre gw env0 goff k \<sigma> dc" "wt_stmt (tyenv (sb_out \<sigma>)) gw dc st dc"
    and "\<And>\<sigma>'. tyenv (sb_out \<sigma>') = tyenv (sb_out \<sigma>) \<Longrightarrow> Q () \<sigma>' dc"
  shows "runs (diff_inv pre gw env0 goff k) (emit st) \<sigma> dc {} Q"
  using runs_emit_defs [of pre gw env0 goff k \<sigma> dc st "{}" Q] assms by simp

lemma runs_helper:
  assumes "diff_inv pre gw env0 goff k \<sigma> dc" "length as \<le> 32"
    and "list_all (\<lambda>a. \<exists>t. t \<noteq> Ity_I1 \<and> wt (tyenv (sb_out \<sigma>)) gw dc a t) as"
    and "\<And>e. g = Some e \<Longrightarrow> wt (tyenv (sb_out \<sigma>)) gw dc e Ity_I1"
  shows "runs (diff_inv pre gw env0 goff k) (emit_helper name as g) \<sigma> dc {} (\<lambda>_ \<sigma>' dc'. dc' = dc \<and> tyenv (sb_out \<sigma>') = tyenv (sb_out \<sigma>))"
proof -
  obtain d where d: "unsafeIRDirty_0_N 0 name name as = Inr d" by (simp add: unsafeIRDirty_ok)
  have w: "wt (tyenv (sb_out \<sigma>)) gw dc (IRExpr_Const (IRConst_U1 True)) Ity_I1" by (simp add: wt_simps)
  have "wt_stmt (tyenv (sb_out \<sigma>)) gw dc (IRStmt_Dirty (set_guard g d)) dc"
    using wt_stmt_Dirty_0 [OF d assms(2,3)] assms(4) w by (cases g) (auto simp: set_guard_def)
  then have "runs (diff_inv pre gw env0 goff k) (emit (IRStmt_Dirty (set_guard g d))) \<sigma> dc {}
       (\<lambda>_ \<sigma>' dc'. dc' = dc \<and> tyenv (sb_out \<sigma>') = tyenv (sb_out \<sigma>))"
    by (intro runs_emit [OF assms(1)]) auto
  then show ?thesis
    using d by (simp add: emit_helper_def runs_def liftM_def bindM_def)
qed

lemma runs_helper_1:
  assumes "diff_inv pre gw env0 goff k \<sigma> dc" "length as \<le> 32"
    and "list_all (\<lambda>a. \<exists>t. t \<noteq> Ity_I1 \<and> wt (tyenv (sb_out \<sigma>)) gw dc a t) as"
    and "t < length (tyenv (sb_out \<sigma>))" "dc t = 0" "tyenv (sb_out \<sigma>) ! t = Ity_I64"
  shows "runs (diff_inv pre gw env0 goff k) (emit_helper_1 t name as) \<sigma> dc {t}
           (\<lambda>_ \<sigma>' dc'. dc' = (\<lambda>u. if u \<in> {t} then 1 else dc u) \<and> tyenv (sb_out \<sigma>') = tyenv (sb_out \<sigma>))"
proof -
  obtain d where d: "unsafeIRDirty_1_N t 0 name name as = Inr d" by (simp add: unsafeIRDirty_ok)
  have upd: "(\<lambda>u. if u \<in> {t} then 1 else dc u) = dc(t := 1)" by auto
  have "wt_stmt (tyenv (sb_out \<sigma>)) gw dc (IRStmt_Dirty d) (\<lambda>u. if u \<in> {t} then 1 else dc u)"
    if "length (tyenv (sb_out \<sigma>)) \<le> IRTemp_INVALID"
    unfolding upd using assms(4,6) that by (intro wt_stmt_Dirty_1 [OF d assms(2-5)]) auto
  then have "runs (diff_inv pre gw env0 goff k) (emit (IRStmt_Dirty d)) \<sigma> dc {t}
       (\<lambda>_ \<sigma>' dc'. dc' = (\<lambda>u. if u \<in> {t} then 1 else dc u) \<and> tyenv (sb_out \<sigma>') = tyenv (sb_out \<sigma>))"
    using assms(4,5) by (intro runs_emit_bounded [OF assms(1)]) auto
  then show ?thesis
    using d by (simp add: emit_helper_1_def runs_def liftM_def bindM_def)
qed

lemma runs_newTemp:
  assumes "diff_inv pre gw env0 goff k \<sigma> dc"
    and "\<And>\<sigma>'. tyenv (sb_out \<sigma>') = tyenv (sb_out \<sigma>) @ [ty] \<Longrightarrow> Q (length (tyenv (sb_out \<sigma>))) \<sigma>' dc"
  shows "runs (diff_inv pre gw env0 goff k) (newTemp ty) \<sigma> dc {} Q"
proof -
  let ?\<sigma> = "\<sigma>\<lparr>sb_out := (sb_out \<sigma>)\<lparr>tyenv := tyenv (sb_out \<sigma>) @ [ty]\<rparr>\<rparr>"
  have "diff_inv pre gw env0 goff k ?\<sigma> dc"
    using assms(1) by (auto simp: diff_inv_def sane_sb_newtmp)
  moreover have "progress \<sigma> dc ?\<sigma> dc {}" by (simp add: progress_def)
  moreover have "newTemp ty \<sigma> = Inr (length (tyenv (sb_out \<sigma>)), ?\<sigma>)"
    by (simp add: newTemp_def newIRTemp_def)
  ultimately show ?thesis
    using assms(2) [of ?\<sigma>] by (intro runsI) auto
qed

lemma progress_drop_fresh:
  assumes "progress \<sigma> dc \<sigma>' dc' D" "\<forall>t\<in>D. length (tyenv (sb_out \<sigma>)) \<le> t"
  shows "progress \<sigma> dc \<sigma>' dc' {}"
proof -
  obtain xs where "tyenv (sb_out \<sigma>') = tyenv (sb_out \<sigma>) @ xs"
    using assms(1) by (auto simp: progress_def)
  then show ?thesis
    using progress_at [OF assms(1)] assms(2) by (intro progressI) (auto simp: not_le [symmetric])
qed

lemma runs_drop_fresh:
  "runs I m \<sigma> dc D Q \<Longrightarrow> \<forall>t\<in>D. length (tyenv (sb_out \<sigma>)) \<le> t \<Longrightarrow> runs I m \<sigma> dc {} Q"
  by (elim runsE) (auto intro!: runsI intro: progress_drop_fresh)

text \<open>A fresh temporary that is assigned at once: the net effect defines no old temporary.\<close>

lemma runs_define_fresh:
  assumes inv: "diff_inv pre gw env0 goff k \<sigma> dc" and e: "wt (tyenv (sb_out \<sigma>)) gw dc e ty"
  shows "runs (diff_inv pre gw env0 goff k)
           (bindM (newTemp ty) (\<lambda>t. seqM (emit (IRStmt_WrTmp t e)) (returnM t))) \<sigma> dc {}
           (\<lambda>t \<sigma>' dc'. wt (tyenv (sb_out \<sigma>')) gw dc' (IRExpr_RdTmp t) ty)" (is "runs _ _ _ _ _ ?Q")
proof -
  let ?I = "diff_inv pre gw env0 goff k" and ?t = "length (tyenv (sb_out \<sigma>))"
  have dc_t: "dc ?t = 0"
    using inv by (auto simp: diff_inv_def)
  have "runs ?I (bindM (newTemp ty) (\<lambda>t. seqM (emit (IRStmt_WrTmp t e)) (returnM t))) \<sigma> dc ({} \<union> ({?t} \<union> {})) ?Q"
  proof (rule runs_bind [where Q = "\<lambda>x \<sigma>' dc'. x = ?t \<and> tyenv (sb_out \<sigma>') = tyenv (sb_out \<sigma>) @ [ty] \<and> dc' = dc"])
    show "runs ?I (newTemp ty) \<sigma> dc {} (\<lambda>x \<sigma>' dc'. x = ?t \<and> tyenv (sb_out \<sigma>') = tyenv (sb_out \<sigma>) @ [ty] \<and> dc' = dc)"
      using inv by (rule runs_newTemp) simp
  next
    fix x \<sigma>1 dc1
    assume 1: "?I \<sigma>1 dc1" "progress \<sigma> dc \<sigma>1 dc1 {}" "x = ?t \<and> tyenv (sb_out \<sigma>1) = tyenv (sb_out \<sigma>) @ [ty] \<and> dc1 = dc"
    have "wt_stmt (tyenv (sb_out \<sigma>1)) gw dc1 (IRStmt_WrTmp x e) (\<lambda>t. if t \<in> {?t} then 1 else dc1 t)"
      using 1(3) dc_t progress_wt [OF 1(2) e] by (intro wt_stmt_WrTmp2) auto
    then have "runs ?I (emit (IRStmt_WrTmp x e)) \<sigma>1 dc1 {?t}
        (\<lambda>_ \<sigma>' dc'. wt (tyenv (sb_out \<sigma>')) gw dc' (IRExpr_RdTmp x) ty)"
      using 1 dc_t by (intro runs_emit_defs) (auto simp: wt_simps)
    then show "runs ?I (seqM (emit (IRStmt_WrTmp x e)) (returnM x)) \<sigma>1 dc1 ({?t} \<union> {}) ?Q"
      by (rule runs_seq) (auto intro: runs_return)
  qed
  then show ?thesis
    by (rule runs_drop_fresh) simp
qed

section \<open>Shadow temporaries\<close>

lemma shadow_temps_bound: "t < n \<Longrightarrow> u \<in> shadow_temps n k t \<Longrightarrow> n \<le> u \<and> u < Suc k * n"
proof -
  assume "t < n" "u \<in> shadow_temps n k t"
  then obtain j where j: "1 \<le> j" "j \<le> k" "u = t + j * n"
    by (auto simp: shadow_temps_def)
  have "n \<le> j * n" "j * n \<le> k * n"
    using j mult_le_mono1 [of 1 j n] by (auto intro: mult_le_mono1)
  then have "n \<le> t + j * n" "t + j * n < n + k * n"
    using \<open>t < n\<close> by linarith+
  then show ?thesis using j by simp
qed

lemma shadow_temps_mod: "t < n \<Longrightarrow> u \<in> shadow_temps n k t \<Longrightarrow> u mod n = t"
  by (auto simp: shadow_temps_def)

lemma shadow_temps_disjoint:
  "t < n \<Longrightarrow> t' < n \<Longrightarrow> t \<noteq> t' \<Longrightarrow> shadow_temps n k t \<inter> shadow_temps n k t' = {}"
  using shadow_temps_mod by blast

lemma nth_concat_replicate:
  "t < length xs \<Longrightarrow> j < k \<Longrightarrow> concat (replicate k xs) ! (t + j * length xs) = xs ! t"
  by (induction k arbitrary: j) (auto simp: nth_append less_Suc_eq_0_disj)

lemma length_concat_replicate: "length (concat (replicate k xs)) = k * length xs"
  by (induction k) simp_all

lemma diff_inv_length:
  "diff_inv pre gw env0 goff k \<sigma> dc \<Longrightarrow> Suc k * length env0 \<le> length (tyenv (sb_out \<sigma>))"
  by (auto simp: diff_inv_def length_concat_replicate)

lemma diff_inv_shadow_type:
  assumes "diff_inv pre gw env0 goff k \<sigma> dc" "t < length env0" "u \<in> shadow_temps (length env0) k t"
  shows "u < length (tyenv (sb_out \<sigma>))" "tyenv (sb_out \<sigma>) ! u = env0 ! t"
proof -
  obtain xs where xs: "tyenv (sb_out \<sigma>) = env0 @ concat (replicate k env0) @ xs"
    using assms(1) by (auto simp: diff_inv_def)
  obtain j where j: "j < k" "u = length env0 + (t + j * length env0)"
    using assms(3) by (auto simp: shadow_temps_def) (metis Suc_le_lessD Suc_pred add.assoc add.commute less_le_trans mult_Suc not_less zero_less_one)
  show "u < length (tyenv (sb_out \<sigma>))"
    using shadow_temps_bound [OF assms(2,3)] diff_inv_length [OF assms(1)] by linarith
  have "t + j * length env0 < k * length env0"
    using shadow_temps_bound [OF assms(2,3)] j by simp
  then show "tyenv (sb_out \<sigma>) ! u = env0 ! t"
    using nth_concat_replicate [OF assms(2) j(1)] j(2) xs
    by (simp add: nth_append length_concat_replicate)
qed

text \<open>What the instrumentation asks of an input expression beyond VEX's sanity check.\<close>

fun ok_expr :: "int \<Rightarrow> nat \<Rightarrow> (IROp \<Rightarrow> bool) \<Rightarrow> (IRType \<Rightarrow> bool) \<Rightarrow> IRExpr \<Rightarrow> bool" where
  "ok_expr goff k good goodt (IRExpr_Qop op a b c d) \<longleftrightarrow> good op \<and> list_all isIRAtom [a, b, c, d]"
| "ok_expr goff k good goodt (IRExpr_Triop op a b c) \<longleftrightarrow> good op \<and> list_all isIRAtom [a, b, c]"
| "ok_expr goff k good goodt (IRExpr_Binop op a b) \<longleftrightarrow> good op \<and> list_all isIRAtom [a, b]"
| "ok_expr goff k good goodt (IRExpr_Unop op a) \<longleftrightarrow> good op \<and> isIRAtom a"
| "ok_expr goff k good goodt (IRExpr_ITE c a b) \<longleftrightarrow> ok_expr goff k good goodt a \<and> ok_expr goff k good goodt b"
| "ok_expr goff k good goodt (IRExpr_GetI descr ix _) \<longleftrightarrow> base descr + int k * goff \<le> 10000"
| "ok_expr goff k good goodt (IRExpr_Load _ ty addr) \<longleftrightarrow> ty \<noteq> Ity_I1 \<and> ty \<noteq> Ity_INVALID"
| "ok_expr goff k good goodt (IRExpr_CCall _ retty as) \<longleftrightarrow> goodt retty \<and> list_all isIRAtom as"
| "ok_expr goff k good goodt _ \<longleftrightarrow> True"

text \<open>
  What the instrumentation asks of an input statement beyond VEX's sanity check. The helper that
  stores an 80-bit float gets an address and an I64 and returns nothing, the one that loads an
  80-bit float gets an address and returns an I64; load-linked/store-conditional is not
  instrumented.
\<close>

definition ok_Dirty :: "IRType \<Rightarrow> IRTypeEnv \<Rightarrow> IRDirty \<Rightarrow> bool" where
  "ok_Dirty gw env0 d \<longleftrightarrow> (case cee d of None \<Rightarrow> False | Some c \<Rightarrow> (case cee_name c of None \<Rightarrow> False | Some name \<Rightarrow>
     if is_storeF80le name then
       2 \<le> length (args d) \<and> tmp d = IRTemp_INVALID \<and> isIRAtom (args d ! 0) \<and> isIRAtom (args d ! 1)
       \<and> typeOfIRExpr env0 (args d ! 0) = Inr gw \<and> typeOfIRExpr env0 (args d ! 1) = Inr Ity_I64
     else if is_loadF80le name then
       1 \<le> length (args d) \<and> tmp d \<noteq> IRTemp_INVALID \<and> isIRAtom (args d ! 0)
       \<and> typeOfIRExpr env0 (args d ! 0) = Inr gw \<and> typeOfIRTemp env0 (tmp d) = Inr Ity_I64
     else True))"

fun ok_stmt :: "IRType \<Rightarrow> IRTypeEnv \<Rightarrow> int \<Rightarrow> nat \<Rightarrow> (IROp \<Rightarrow> bool) \<Rightarrow> (IRType \<Rightarrow> bool) \<Rightarrow> IRStmt \<Rightarrow> bool" where
  "ok_stmt gw env0 goff k good goodt (IRStmt_WrTmp _ e) \<longleftrightarrow> ok_expr goff k good goodt e"
| "ok_stmt gw env0 goff k good goodt (IRStmt_Put off _) \<longleftrightarrow> 0 \<le> off"
| "ok_stmt gw env0 goff k good goodt (IRStmt_PutI p) \<longleftrightarrow>
     0 \<le> base (puti_descr p) \<and> base (puti_descr p) + int k * goff \<le> 10000"
| "ok_stmt gw env0 goff k good goodt (IRStmt_LLSC _ _ _ _) \<longleftrightarrow> False"
| "ok_stmt gw env0 goff k good goodt (IRStmt_Dirty d) \<longleftrightarrow> ok_Dirty gw env0 d"
| "ok_stmt gw env0 goff k good goodt _ \<longleftrightarrow> True"

section \<open>The contract of a callback table\<close>

text \<open>
  An operand list with its shadows fits a signature: an operand of type \<open>Ity_INVALID\<close> is absent, any
  other is present and well typed, and so is its shadow.
\<close>

definition operands_ok ::
    "(IRExpr \<Rightarrow> IRType \<Rightarrow> bool) \<Rightarrow> ('d \<Rightarrow> IRType \<Rightarrow> bool) \<Rightarrow> IRType list
     \<Rightarrow> IRExpr option list \<Rightarrow> 'd option list \<Rightarrow> bool" where
  "operands_ok w wd ts as ds \<longleftrightarrow>
     length as = length ts \<and> length ds = length ts
     \<and> (\<forall>i < length ts. if ts ! i = Ity_INVALID then as ! i = None \<and> ds ! i = None
          else (\<exists>e. as ! i = Some e \<and> w e (ts ! i)) \<and> (\<exists>d. ds ! i = Some d \<and> wd d (ts ! i)))"

lemma operands_okI:
  assumes "list_all2 w es ts" "list_all2 (\<lambda>m t. \<exists>d. m = Some d \<and> wd d t) ms ts" "Ity_INVALID \<notin> set ts"
  shows "operands_ok w wd (ts @ replicate n Ity_INVALID) (map Some es @ replicate n None) (ms @ replicate n None)"
  using assms by (auto simp: operands_ok_def nth_append list_all2_conv_all_nth in_set_conv_nth)

locale shadow_handling = emitting_handling eh S
  for eh :: "'d ExpressionHandling" and S :: "IRTemp \<Rightarrow> int \<Rightarrow> IRStmt \<Rightarrow> bool" +
  fixes pre :: bool
    and gw :: IRType
    and env0 :: IRTypeEnv
    and goff :: int
    and k :: nat
    and wtd :: "IRTypeEnv \<Rightarrow> def_counts \<Rightarrow> 'd \<Rightarrow> IRType \<Rightarrow> bool"
    and good_op :: "IROp \<Rightarrow> bool"
    and good_ty :: "IRType \<Rightarrow> bool"
  assumes wtd_extend:
      "wtd env dc d ty \<Longrightarrow> (\<And>t. t < length env \<Longrightarrow> dc t \<le> dc' t) \<Longrightarrow> wtd (env @ xs) dc' d ty"
    and wrtmp_law:
      "diff_inv pre gw env0 goff k \<sigma> dc \<Longrightarrow> t < length env0 \<Longrightarrow> wtd (tyenv (sb_out \<sigma>)) dc d (env0 ! t) \<Longrightarrow>
       \<forall>u\<in>shadow_temps (length env0) k t. dc u = 0 \<Longrightarrow>
       runs (diff_inv pre gw env0 goff k) (wrtmp eh t d) \<sigma> dc (shadow_temps (length env0) k t) (\<lambda>_ _ _. True)"
    and rdtmp_law:
      "diff_inv pre gw env0 goff k \<sigma> dc \<Longrightarrow> t < length env0 \<Longrightarrow>
       \<forall>u\<in>shadow_temps (length env0) k t. 1 \<le> dc u \<Longrightarrow>
       runs (diff_inv pre gw env0 goff k) (rdtmp eh t) \<sigma> dc {} (\<lambda>d \<sigma>' dc'. wtd (tyenv (sb_out \<sigma>')) dc' d (env0 ! t))"
    and put_law:
      "diff_inv pre gw env0 goff k \<sigma> dc \<Longrightarrow> wtd (tyenv (sb_out \<sigma>)) dc d ty \<Longrightarrow> ty \<noteq> Ity_I1 \<Longrightarrow>
       runs (diff_inv pre gw env0 goff k) (puti eh off d None) \<sigma> dc {} (\<lambda>_ _ _. True)"
    and puti_law:
      "diff_inv pre gw env0 goff k \<sigma> dc \<Longrightarrow> wtd (tyenv (sb_out \<sigma>)) dc d (elemTy descr) \<Longrightarrow>
       wt (tyenv (sb_out \<sigma>)) gw dc ix Ity_I32 \<Longrightarrow> saneIRRegArray descr \<Longrightarrow> base descr + int k * goff \<le> 10000 \<Longrightarrow>
       runs (diff_inv pre gw env0 goff k) (puti eh off d (Some (descr, ix))) \<sigma> dc {} (\<lambda>_ _ _. True)"
    and get_law:
      "diff_inv pre gw env0 goff k \<sigma> dc \<Longrightarrow>
       runs (diff_inv pre gw env0 goff k) (geti eh off ty None) \<sigma> dc {} (\<lambda>d \<sigma>' dc'. wtd (tyenv (sb_out \<sigma>')) dc' d ty)"
    and geti_law:
      "diff_inv pre gw env0 goff k \<sigma> dc \<Longrightarrow> wt (tyenv (sb_out \<sigma>)) gw dc ix Ity_I32 \<Longrightarrow> saneIRRegArray descr \<Longrightarrow>
       base descr + int k * goff \<le> 10000 \<Longrightarrow>
       runs (diff_inv pre gw env0 goff k) (geti eh off ty (Some (descr, ix))) \<sigma> dc {}
         (\<lambda>d \<sigma>' dc'. wtd (tyenv (sb_out \<sigma>')) dc' d (elemTy descr))"
    and store_law:
      "diff_inv pre gw env0 goff k \<sigma> dc \<Longrightarrow> wt (tyenv (sb_out \<sigma>)) gw dc addr gw \<Longrightarrow>
       wtd (tyenv (sb_out \<sigma>)) dc d ty \<Longrightarrow> ty \<noteq> Ity_I1 \<Longrightarrow> ty \<noteq> Ity_INVALID \<Longrightarrow>
       (\<And>e. g = Some e \<Longrightarrow> wt (tyenv (sb_out \<sigma>)) gw dc e Ity_I1) \<Longrightarrow>
       runs (diff_inv pre gw env0 goff k) (store eh addr d g) \<sigma> dc {} (\<lambda>_ _ _. True)"
    and load_law:
      "diff_inv pre gw env0 goff k \<sigma> dc \<Longrightarrow> wt (tyenv (sb_out \<sigma>)) gw dc addr gw \<Longrightarrow>
       ty \<noteq> Ity_I1 \<Longrightarrow> ty \<noteq> Ity_INVALID \<Longrightarrow>
       runs (diff_inv pre gw env0 goff k) (load eh addr ty) \<sigma> dc {} (\<lambda>d \<sigma>' dc'. wtd (tyenv (sb_out \<sigma>')) dc' d ty)"
    and storeF80le_law:
      "diff_inv pre gw env0 goff k \<sigma> dc \<Longrightarrow> wt (tyenv (sb_out \<sigma>)) gw dc addr gw \<Longrightarrow>
       wtd (tyenv (sb_out \<sigma>)) dc d Ity_I64 \<Longrightarrow>
       runs (diff_inv pre gw env0 goff k) (dirty_storeF80le eh addr d) \<sigma> dc {} (\<lambda>_ _ _. True)"
    and loadF80le_law:
      "diff_inv pre gw env0 goff k \<sigma> dc \<Longrightarrow> wt (tyenv (sb_out \<sigma>)) gw dc addr gw \<Longrightarrow>
       t < length env0 \<Longrightarrow> env0 ! t = Ity_I64 \<Longrightarrow> \<forall>u\<in>shadow_temps (length env0) k t. dc u = 0 \<Longrightarrow>
       runs (diff_inv pre gw env0 goff k) (dirty_loadF80le eh addr t) \<sigma> dc (shadow_temps (length env0) k t) (\<lambda>_ _ _. True)"
    and constant_law:
      "diff_inv pre gw env0 goff k \<sigma> dc \<Longrightarrow>
       runs (diff_inv pre gw env0 goff k) (eh_constant eh (tagOfIRConst con)) \<sigma> dc {}
         (\<lambda>d \<sigma>' dc'. wtd (tyenv (sb_out \<sigma>')) dc' d (typeOfIRConst con))"
    and default_law:
      "diff_inv pre gw env0 goff k \<sigma> dc \<Longrightarrow> good_ty ty \<Longrightarrow>
       runs (diff_inv pre gw env0 goff k) (eh_default eh ty) \<sigma> dc {} (\<lambda>d \<sigma>' dc'. wtd (tyenv (sb_out \<sigma>')) dc' d ty)"
    and compare_law:
      "diff_inv pre gw env0 goff k \<sigma> dc \<Longrightarrow> wtd (tyenv (sb_out \<sigma>)) dc a ty \<Longrightarrow> wtd (tyenv (sb_out \<sigma>)) dc b ty \<Longrightarrow>
       ty \<in> {Ity_I8, Ity_I16, Ity_I32, Ity_I64} \<Longrightarrow>
       runs (diff_inv pre gw env0 goff k) (compare eh a b) \<sigma> dc {} (\<lambda>e \<sigma>' dc'. wt (tyenv (sb_out \<sigma>')) gw dc' e Ity_I1)"
    and ite_law:
      "diff_inv pre gw env0 goff k \<sigma> dc \<Longrightarrow> wt (tyenv (sb_out \<sigma>)) gw dc c Ity_I1 \<Longrightarrow>
       wtd (tyenv (sb_out \<sigma>)) dc a ty \<Longrightarrow> wtd (tyenv (sb_out \<sigma>)) dc b ty \<Longrightarrow>
       runs (diff_inv pre gw env0 goff k) (ite eh c a b) \<sigma> dc {} (\<lambda>d \<sigma>' dc'. wtd (tyenv (sb_out \<sigma>')) dc' d ty)"
    and operation_law:
      "diff_inv pre gw env0 goff k \<sigma> dc \<Longrightarrow> good_op op \<Longrightarrow> typeOfPrimop op = Inr (ty, t1, t2, t3, t4) \<Longrightarrow>
       operands_ok (wt (tyenv (sb_out \<sigma>)) gw dc) (wtd (tyenv (sb_out \<sigma>)) dc) [t1, t2, t3, t4] as ds \<Longrightarrow>
       runs (diff_inv pre gw env0 goff k) (operation eh op as ds) \<sigma> dc {}
         (\<lambda>r \<sigma>' dc'. \<forall>d. r = Some d \<longrightarrow> wtd (tyenv (sb_out \<sigma>')) dc' d ty)"
    and good_const: "good_ty (typeOfIRConst con)"
    and good_valid: "good_ty ty \<Longrightarrow> ty \<noteq> Ity_INVALID"
    and good_env: "pre \<Longrightarrow> list_all good_ty env0"
    and ccall_law:
      "diff_inv pre gw env0 goff k \<sigma> dc \<Longrightarrow> good_ty retty \<Longrightarrow>
       list_all2 (\<lambda>a m. \<exists>t d. wt (tyenv (sb_out \<sigma>)) gw dc a t \<and> m = Some d \<and> wtd (tyenv (sb_out \<sigma>)) dc d t) cargs cds \<Longrightarrow>
       runs (diff_inv pre gw env0 goff k) (ccall eh cl retty cargs cds) \<sigma> dc {}
         (\<lambda>r \<sigma>' dc'. \<forall>d. r = Some d \<longrightarrow> wtd (tyenv (sb_out \<sigma>')) dc' d retty)"
begin

lemma progress_wtd:
  "progress \<sigma> dc \<sigma>' dc' D \<Longrightarrow> wtd (tyenv (sb_out \<sigma>)) dc d ty \<Longrightarrow> wtd (tyenv (sb_out \<sigma>')) dc' d ty"
  using wtd_extend [of "tyenv (sb_out \<sigma>)" dc d ty dc'] progress_le [of \<sigma> dc \<sigma>' dc' D]
  by (auto simp: progress_def)

abbreviation inv :: "DiffEnv \<Rightarrow> def_counts \<Rightarrow> bool" where
  "inv \<equiv> diff_inv pre gw env0 goff k"

text \<open>
  \<open>input_ok dc0 \<sigma> dc\<close>: everything the input block has defined so far (\<open>dc0\<close>) is defined in the output
  block, and so are its shadows; \<open>unshadowed dc t\<close>: the shadows of \<open>t\<close> are still undefined.
\<close>

definition input_ok :: "def_counts \<Rightarrow> DiffEnv \<Rightarrow> def_counts \<Rightarrow> bool" where
  "input_ok dc0 \<sigma> dc \<longleftrightarrow> inv \<sigma> dc
     \<and> (\<forall>t<length env0. dc0 t \<le> dc t \<and> (\<forall>u\<in>shadow_temps (length env0) k t. dc0 t \<le> dc u))"

definition unshadowed :: "def_counts \<Rightarrow> IRTemp \<Rightarrow> bool" where
  "unshadowed dc t \<longleftrightarrow> (\<forall>u\<in>shadow_temps (length env0) k t. dc u = 0)"

lemma input_ok_progress:
  assumes "input_ok dc0 \<sigma> dc" "inv \<sigma>' dc'" "progress \<sigma> dc \<sigma>' dc' D"
  shows "input_ok dc0 \<sigma>' dc'"
proof -
  have le: "dc u \<le> dc' u" if "t < length env0" "u = t \<or> u \<in> shadow_temps (length env0) k t" for t u
  proof -
    have "u < length (tyenv (sb_out \<sigma>))"
      using that diff_inv_shadow_type(1) [of pre gw env0 goff k \<sigma> dc t u] diff_inv_length [of pre gw env0 goff k \<sigma> dc] assms(1)
      by (auto simp: input_ok_def)
    then show ?thesis by (rule progress_le [OF assms(3)])
  qed
  have "dc0 t \<le> dc' t" "\<forall>u\<in>shadow_temps (length env0) k t. dc0 t \<le> dc' u" if "t < length env0" for t
    using assms(1) that le [OF that] by (auto simp: input_ok_def intro: le_trans)
  then show ?thesis
    using assms(2) by (simp add: input_ok_def)
qed

lemma unshadowed_progress:
  assumes "unshadowed dc t" "inv \<sigma> dc" "progress \<sigma> dc \<sigma>' dc' D" "t < length env0"
    and "shadow_temps (length env0) k t \<inter> D = {}"
  shows "unshadowed dc' t"
  using assms progress_at [OF assms(3)] diff_inv_shadow_type(1) [OF assms(2,4)]
  unfolding unshadowed_def by (metis disjoint_iff)

lemma input_wt:
  assumes "input_ok dc0 \<sigma> dc" "wt env0 gw dc0 e ty"
  shows "wt (tyenv (sb_out \<sigma>)) gw dc e ty"
proof -
  obtain xs where "tyenv (sb_out \<sigma>) = env0 @ xs"
    using assms(1) by (auto simp: input_ok_def diff_inv_def)
  then show ?thesis
    using wt_extend [OF assms(2), of dc] assms(1) by (simp add: input_ok_def)
qed

definition modifies :: "def_counts \<Rightarrow> IRExpr \<Rightarrow> IRType \<Rightarrow> bool" where
  "modifies dc0 e ty \<longleftrightarrow> (\<forall>\<sigma> dc. input_ok dc0 \<sigma> dc \<longrightarrow>
     runs inv (dg_modify_expression eh e) \<sigma> dc {}
       (\<lambda>r \<sigma>' dc'. \<forall>d. r = Some d \<longrightarrow> wtd (tyenv (sb_out \<sigma>')) dc' d ty))"

lemma modify_atom_present:
  assumes "isIRAtom e" "wt env0 gw dc0 e t" "input_ok dc0 \<sigma> dc"
  shows "runs inv (dg_modify_expression eh e) \<sigma> dc {} (\<lambda>r \<sigma>' dc'. \<exists>d. r = Some d \<and> wtd (tyenv (sb_out \<sigma>')) dc' d t)"
  using assms
  by (cases e) (fastforce simp: wt_simps input_ok_def intro!: runs_some rdtmp_law constant_law)+

lemma modifies_mapM:
  assumes "list_all2 (\<lambda>e t. isIRAtom e \<and> wt env0 gw dc0 e t) es ts" "input_ok dc0 \<sigma> dc"
  shows "runs inv (mapM (dg_modify_expression eh) es) \<sigma> dc {}
           (\<lambda>ms \<sigma>' dc'. list_all2 (\<lambda>m t. \<exists>d. m = Some d \<and> wtd (tyenv (sb_out \<sigma>')) dc' d t) ms ts)"
  using assms
proof (induction es ts arbitrary: \<sigma> dc rule: list_all2_induct)
  case Nil
  then show ?case by (simp add: runs_return input_ok_def)
next
  case (Cons e es t ts)
  have e: "runs inv (dg_modify_expression eh e) \<sigma> dc {}
             (\<lambda>r \<sigma>' dc'. \<exists>d. r = Some d \<and> wtd (tyenv (sb_out \<sigma>')) dc' d t)"
    using Cons.hyps(1) Cons.prems by (intro modify_atom_present) auto
  show ?case
    unfolding mapM.simps
  proof (rule runs_bind_pure [OF e])
    fix m \<sigma>1 dc1
    assume 1: "inv \<sigma>1 dc1" "progress \<sigma> dc \<sigma>1 dc1 {}" "\<exists>d. m = Some d \<and> wtd (tyenv (sb_out \<sigma>1)) dc1 d t"
    have "input_ok dc0 \<sigma>1 dc1"
      using Cons.prems 1 by (auto intro: input_ok_progress)
    then show "runs inv (bindM (mapM (dg_modify_expression eh) es) (\<lambda>ys. returnM (m # ys))) \<sigma>1 dc1 {}
        (\<lambda>ms \<sigma>' dc'. list_all2 (\<lambda>m t. \<exists>d. m = Some d \<and> wtd (tyenv (sb_out \<sigma>')) dc' d t) ms (t # ts))"
      using 1(3) by (intro runs_bind_pure [OF Cons.IH] runs_return) (auto intro: progress_wtd)
  qed
qed

lemma modifies_operation:
  assumes "typeOfPrimop op = Inr (ty, t1, t2, t3, t4)" "[t1, t2, t3, t4] = ts @ replicate n Ity_INVALID"
    and "Ity_INVALID \<notin> set ts" "good_op op" "list_all2 (\<lambda>e t. isIRAtom e \<and> wt env0 gw dc0 e t) es ts"
    and in0: "input_ok dc0 \<sigma> dc"
  shows "runs inv (bindM (mapM (dg_modify_expression eh) es)
             (\<lambda>ms. operation eh op (map Some es @ replicate n None) (ms @ replicate n None))) \<sigma> dc {}
           (\<lambda>r \<sigma>' dc'. \<forall>d. r = Some d \<longrightarrow> wtd (tyenv (sb_out \<sigma>')) dc' d ty)"
proof (rule runs_bind_pure [OF modifies_mapM [OF assms(5) in0]])
  fix ms \<sigma>1 dc1
  assume 1: "inv \<sigma>1 dc1" "progress \<sigma> dc \<sigma>1 dc1 {}"
    "list_all2 (\<lambda>m t. \<exists>d. m = Some d \<and> wtd (tyenv (sb_out \<sigma>1)) dc1 d t) ms ts"
  have "input_ok dc0 \<sigma>1 dc1"
    using in0 1 by (auto intro: input_ok_progress)
  then have "list_all2 (wt (tyenv (sb_out \<sigma>1)) gw dc1) es ts"
    using assms(5) by (auto simp: list_all2_conv_all_nth intro: input_wt)
  then show "runs inv (operation eh op (map Some es @ replicate n None) (ms @ replicate n None)) \<sigma>1 dc1 {}
      (\<lambda>r \<sigma>' dc'. \<forall>d. r = Some d \<longrightarrow> wtd (tyenv (sb_out \<sigma>')) dc' d ty)"
    using 1 assms(1-4) operands_okI by (intro operation_law) auto
qed

lemma modifies_ITE:
  assumes "modifies dc0 a ty" "modifies dc0 b ty" "wt env0 gw dc0 c Ity_I1"
  shows "modifies dc0 (IRExpr_ITE c a b) ty"
  unfolding modifies_def
proof (intro allI impI)
  fix \<sigma> dc assume in0: "input_ok dc0 \<sigma> dc"
  have a: "runs inv (dg_modify_expression eh a) \<sigma> dc {}
             (\<lambda>r \<sigma>' dc'. \<forall>d. r = Some d \<longrightarrow> wtd (tyenv (sb_out \<sigma>')) dc' d ty)"
    using assms(1) in0 by (simp add: modifies_def)
  show "runs inv (dg_modify_expression eh (IRExpr_ITE c a b)) \<sigma> dc {}
          (\<lambda>r \<sigma>' dc'. \<forall>d. r = Some d \<longrightarrow> wtd (tyenv (sb_out \<sigma>')) dc' d ty)"
    unfolding dg_modify_expression.simps
  proof (rule runs_bind_pure [OF a])
    fix m1 \<sigma>1 dc1
    assume 1: "inv \<sigma>1 dc1" "progress \<sigma> dc \<sigma>1 dc1 {}" "\<forall>d. m1 = Some d \<longrightarrow> wtd (tyenv (sb_out \<sigma>1)) dc1 d ty"
    have in1: "input_ok dc0 \<sigma>1 dc1" using in0 1 by (auto intro: input_ok_progress)
    have b: "runs inv (dg_modify_expression eh b) \<sigma>1 dc1 {}
             (\<lambda>r \<sigma>' dc'. \<forall>d. r = Some d \<longrightarrow> wtd (tyenv (sb_out \<sigma>')) dc' d ty)"
      using assms(2) in1 by (simp add: modifies_def)
    show "runs inv (bindM (dg_modify_expression eh b) (\<lambda>dfalse. case (m1, dfalse) of
          (Some dt, Some df) \<Rightarrow> someM (ite eh c dt df) | _ \<Rightarrow> returnM None)) \<sigma>1 dc1 {}
          (\<lambda>r \<sigma>' dc'. \<forall>d. r = Some d \<longrightarrow> wtd (tyenv (sb_out \<sigma>')) dc' d ty)"
    proof (rule runs_bind_pure [OF b])
      fix m2 \<sigma>2 dc2
      assume 2: "inv \<sigma>2 dc2" "progress \<sigma>1 dc1 \<sigma>2 dc2 {}" "\<forall>d. m2 = Some d \<longrightarrow> wtd (tyenv (sb_out \<sigma>2)) dc2 d ty"
      have in2: "input_ok dc0 \<sigma>2 dc2" using in1 2 by (auto intro: input_ok_progress)
      have "runs inv (someM (ite eh c d1 d2)) \<sigma>2 dc2 {}
              (\<lambda>r \<sigma>' dc'. \<forall>d. r = Some d \<longrightarrow> wtd (tyenv (sb_out \<sigma>')) dc' d ty)"
        if "m1 = Some d1" "m2 = Some d2" for d1 d2
        using that 1 2 in2 assms(3)
        by (intro runs_weaken [OF runs_some [OF ite_law]]) (auto intro: progress_wtd input_wt)
      then show "runs inv (case (m1, m2) of (Some dt, Some df) \<Rightarrow> someM (ite eh c dt df) | _ \<Rightarrow> returnM None)
          \<sigma>2 dc2 {} (\<lambda>r \<sigma>' dc'. \<forall>d. r = Some d \<longrightarrow> wtd (tyenv (sb_out \<sigma>')) dc' d ty)"
        using 2(1) by (auto split: option.split intro: runs_return)
    qed
  qed
qed

lemma runs_someD:
  "runs inv m \<sigma> dc {} (\<lambda>d \<sigma>' dc'. wtd (tyenv (sb_out \<sigma>')) dc' d ty) \<Longrightarrow>
   runs inv (someM m) \<sigma> dc {} (\<lambda>r \<sigma>' dc'. \<forall>d. r = Some d \<longrightarrow> wtd (tyenv (sb_out \<sigma>')) dc' d ty)"
  by (rule runs_weaken [OF runs_some]) auto

lemma modify_args_runs:
  "list_all isIRAtom as \<Longrightarrow> list_all (\<lambda>a. \<exists>t. wt env0 gw dc0 a t) as \<Longrightarrow> input_ok dc0 \<sigma> dc \<Longrightarrow>
   runs inv (dg_modify_args eh as) \<sigma> dc {} (\<lambda>ms \<sigma>' dc'.
     list_all2 (\<lambda>a m. \<exists>t d. wt (tyenv (sb_out \<sigma>')) gw dc' a t \<and> m = Some d \<and> wtd (tyenv (sb_out \<sigma>')) dc' d t) as ms)"
proof (induction as arbitrary: \<sigma> dc)
  case Nil
  then show ?case by (simp add: runs_return input_ok_def)
next
  case (Cons a as)
  then obtain t where t: "wt env0 gw dc0 a t" by auto
  have a: "runs inv (dg_modify_expression eh a) \<sigma> dc {} (\<lambda>r \<sigma>' dc'. \<exists>d. r = Some d \<and> wtd (tyenv (sb_out \<sigma>')) dc' d t)"
    using Cons.prems t by (intro modify_atom_present) auto
  show ?case
    unfolding dg_modify_args.simps
  proof (rule runs_bind_pure [OF a])
    fix m \<sigma>1 dc1
    assume 1: "inv \<sigma>1 dc1" "progress \<sigma> dc \<sigma>1 dc1 {}" "\<exists>d. m = Some d \<and> wtd (tyenv (sb_out \<sigma>1)) dc1 d t"
    have in1: "input_ok dc0 \<sigma>1 dc1" using Cons.prems(3) 1 by (auto intro: input_ok_progress)
    have as: "runs inv (dg_modify_args eh as) \<sigma>1 dc1 {} (\<lambda>ms \<sigma>' dc'.
        list_all2 (\<lambda>a m. \<exists>t d. wt (tyenv (sb_out \<sigma>')) gw dc' a t \<and> m = Some d \<and> wtd (tyenv (sb_out \<sigma>')) dc' d t) as ms)"
      using Cons.prems in1 by (intro Cons.IH) auto
    show "runs inv (bindM (dg_modify_args eh as) (\<lambda>ms. returnM (m # ms))) \<sigma>1 dc1 {} (\<lambda>ms \<sigma>' dc'.
        list_all2 (\<lambda>a m. \<exists>t d. wt (tyenv (sb_out \<sigma>')) gw dc' a t \<and> m = Some d \<and> wtd (tyenv (sb_out \<sigma>')) dc' d t) (a # as) ms)"
    proof (rule runs_bind_pure [OF as])
      fix ms \<sigma>2 dc2
      assume 2: "inv \<sigma>2 dc2" "progress \<sigma>1 dc1 \<sigma>2 dc2 {}"
        "list_all2 (\<lambda>a m. \<exists>t d. wt (tyenv (sb_out \<sigma>2)) gw dc2 a t \<and> m = Some d \<and> wtd (tyenv (sb_out \<sigma>2)) dc2 d t) as ms"
      have "wt (tyenv (sb_out \<sigma>2)) gw dc2 a t"
        using in1 2(1,2) t by (auto intro: input_wt input_ok_progress)
      then show "runs inv (returnM (m # ms)) \<sigma>2 dc2 {} (\<lambda>ms \<sigma>' dc'.
          list_all2 (\<lambda>a m. \<exists>t d. wt (tyenv (sb_out \<sigma>')) gw dc' a t \<and> m = Some d \<and> wtd (tyenv (sb_out \<sigma>')) dc' d t) (a # as) ms)"
        using 1(3) 2 progress_wtd [OF 2(2)] by (intro runs_return) auto
    qed
  qed
qed

lemma modify_expression_modifies:
  "wt env0 gw dc0 e ty \<Longrightarrow> ok_expr goff k good_op good_ty e \<Longrightarrow> modifies dc0 e ty"
proof (induction e arbitrary: ty)
  case (IRExpr_RdTmp t)
  then show ?case
    by (fastforce simp: modifies_def wt_simps input_ok_def intro!: runs_someD rdtmp_law)
next
  case (IRExpr_Qop op a b c d)
  then obtain t1 t2 t3 t4 where "typeOfPrimop op = Inr (ty, t1, t2, t3, t4)" "Ity_INVALID \<notin> set [t1, t2, t3, t4]"
    "list_all2 (\<lambda>e t. isIRAtom e \<and> wt env0 gw dc0 e t) [a, b, c, d] [t1, t2, t3, t4]"
    by (auto simp: wt_simps)
  then show ?case
    using modifies_operation [of op ty t1 t2 t3 t4 "[t1, t2, t3, t4]" 0 dc0 "[a, b, c, d]"] IRExpr_Qop
    by (auto simp: modifies_def bindM_assoc)
next
  case (IRExpr_Triop op a b c)
  then obtain t1 t2 t3 where "typeOfPrimop op = Inr (ty, t1, t2, t3, Ity_INVALID)" "Ity_INVALID \<notin> set [t1, t2, t3]"
    "list_all2 (\<lambda>e t. isIRAtom e \<and> wt env0 gw dc0 e t) [a, b, c] [t1, t2, t3]"
    by (auto simp: wt_simps)
  then show ?case
    using modifies_operation [of op ty t1 t2 t3 Ity_INVALID "[t1, t2, t3]" 1 dc0 "[a, b, c]"] IRExpr_Triop
    by (auto simp: modifies_def bindM_assoc)
next
  case (IRExpr_Binop op a b)
  then obtain t1 t2 where "typeOfPrimop op = Inr (ty, t1, t2, Ity_INVALID, Ity_INVALID)" "Ity_INVALID \<notin> set [t1, t2]"
    "list_all2 (\<lambda>e t. isIRAtom e \<and> wt env0 gw dc0 e t) [a, b] [t1, t2]"
    by (auto simp: wt_simps)
  then show ?case
    using modifies_operation [of op ty t1 t2 Ity_INVALID Ity_INVALID "[t1, t2]" 2 dc0 "[a, b]"] IRExpr_Binop
    by (auto simp: modifies_def bindM_assoc numeral_2_eq_2)
next
  case (IRExpr_Unop op a)
  then obtain t1 where "typeOfPrimop op = Inr (ty, t1, Ity_INVALID, Ity_INVALID, Ity_INVALID)" "Ity_INVALID \<notin> set [t1]"
    "list_all2 (\<lambda>e t. isIRAtom e \<and> wt env0 gw dc0 e t) [a] [t1]"
    by (auto simp: wt_simps)
  then show ?case
    using modifies_operation [of op ty t1 Ity_INVALID Ity_INVALID Ity_INVALID "[t1]" 3 dc0 "[a]"] IRExpr_Unop
    by (auto simp: modifies_def bindM_assoc numeral_3_eq_3)
next
  case (IRExpr_CCall c retty as)
  then have "list_all (\<lambda>a. \<exists>t. wt env0 gw dc0 a t) as" "list_all isIRAtom as" "good_ty retty" "ty = retty"
    by (auto simp: wt_simps list_all_iff)
  then show ?case
    by (auto simp: modifies_def input_ok_def intro!: runs_bind_pure [OF modify_args_runs] ccall_law)
next
  case (IRExpr_ITE c a b)
  then show ?case by (auto simp: wt_simps intro: modifies_ITE)
next
  case (IRExpr_GetI descr ix bias)
  then show ?case
    by (auto simp: modifies_def wt_simps intro!: runs_someD geti_law intro: input_wt simp: input_ok_def)
next
  case (IRExpr_Load en t addr)
  then show ?case
    by (auto simp: modifies_def wt_simps intro!: runs_someD load_law intro: input_wt simp: input_ok_def)
qed (auto simp: modifies_def wt_simps input_ok_def intro!: runs_someD get_law constant_law)

lemma modify_or_default_runs:
  assumes "input_ok dc0 \<sigma> dc" "wt env0 gw dc0 e ty" "ok_expr goff k good_op good_ty e" "good_ty ty"
  shows "runs inv (dg_modify_expression_or_default eh e) \<sigma> dc {}
           (\<lambda>d \<sigma>' dc'. wtd (tyenv (sb_out \<sigma>')) dc' d ty)"
proof -
  have m: "runs inv (dg_modify_expression eh e) \<sigma> dc {}
          (\<lambda>r \<sigma>' dc'. \<forall>d. r = Some d \<longrightarrow> wtd (tyenv (sb_out \<sigma>')) dc' d ty)"
    using modify_expression_modifies [OF assms(2,3)] assms(1) by (simp add: modifies_def)
  show ?thesis
    unfolding dg_modify_expression_or_default_def
  proof (rule runs_bind_pure [OF m])
    fix r \<sigma>1 dc1
    assume 1: "inv \<sigma>1 dc1" "progress \<sigma> dc \<sigma>1 dc1 {}" "\<forall>d. r = Some d \<longrightarrow> wtd (tyenv (sb_out \<sigma>1)) dc1 d ty"
    have "wt (tyenv (sb_out \<sigma>1)) gw dc1 e ty"
      using assms(1,2) 1 by (auto intro: input_wt input_ok_progress)
    then have "runs inv (bindM (typeM e) (eh_default eh)) \<sigma>1 dc1 {} (\<lambda>d \<sigma>' dc'. wtd (tyenv (sb_out \<sigma>')) dc' d ty)"
      unfolding typeM_def using 1(1) assms(4)
      by (intro runs_bind_pure [OF runs_env [where Q = "\<lambda>x _ _. x = ty"]]) (auto dest: wt_type intro: default_law)
    then show "runs inv (case r of None \<Rightarrow> bindM (typeM e) (eh_default eh) | Some d \<Rightarrow> returnM d) \<sigma>1 dc1 {}
         (\<lambda>d \<sigma>' dc'. wtd (tyenv (sb_out \<sigma>')) dc' d ty)"
      using 1 by (cases r) (auto intro: runs_return)
  qed
qed

lemma input_ok_pre: "input_ok dc0 \<sigma> dc \<Longrightarrow> pre"
  by (simp add: input_ok_def diff_inv_def)

lemma atom_good: "pre \<Longrightarrow> isIRAtom e \<Longrightarrow> wt env0 gw dc0 e ty \<Longrightarrow> good_ty ty"
  using good_const good_env by (cases e) (auto simp: wt_simps list_all_length)

lemma ok_expr_atom [simp]: "isIRAtom e \<Longrightarrow> ok_expr goff k good_op good_ty e"
  by (cases e) auto

lemma modify_atom_runs:
  "input_ok dc0 \<sigma> dc \<Longrightarrow> wt env0 gw dc0 e ty \<Longrightarrow> isIRAtom e \<Longrightarrow>
   runs inv (dg_modify_expression_or_default eh e) \<sigma> dc {} (\<lambda>d \<sigma>' dc'. wtd (tyenv (sb_out \<sigma>')) dc' d ty)"
  by (rule modify_or_default_runs) (auto intro: atom_good input_ok_pre)

lemma modify_wrtmp_runs:
  assumes "inv \<sigma> dc" "t < length env0" "unshadowed dc t"
    and "runs inv m \<sigma> dc {} (\<lambda>d \<sigma>' dc'. wtd (tyenv (sb_out \<sigma>')) dc' d (env0 ! t))"
  shows "runs inv (bindM m (wrtmp eh t)) \<sigma> dc (shadow_temps (length env0) k t) (\<lambda>_ _ _. True)"
proof (rule runs_bind_pure [OF assms(4)])
  fix d \<sigma>1 dc1
  assume 1: "inv \<sigma>1 dc1" "progress \<sigma> dc \<sigma>1 dc1 {}" "wtd (tyenv (sb_out \<sigma>1)) dc1 d (env0 ! t)"
  have "unshadowed dc1 t"
    using unshadowed_progress [OF assms(3,1) 1(2) assms(2)] by simp
  then show "runs inv (wrtmp eh t d) \<sigma>1 dc1 (shadow_temps (length env0) k t) (\<lambda>_ _ _. True)"
    using 1 assms(2) by (intro wrtmp_law) (auto simp: unshadowed_def)
qed

definition shadow_defs :: "IRStmt \<Rightarrow> IRTemp set" where
  "shadow_defs st = (\<Union>t\<in>stmt_defs st. shadow_temps (length env0) k t)"

lemma Store_runs:
  assumes "input_ok dc0 \<sigma> dc" "wt env0 gw dc0 addr gw" "wt env0 gw dc0 e ty" "isIRAtom e" "ty \<noteq> Ity_I1"
    and "\<And>x. g = Some x \<Longrightarrow> wt env0 gw dc0 x Ity_I1"
  shows "runs inv (bindM (dg_modify_expression_or_default eh e) (\<lambda>d. store eh addr d g)) \<sigma> dc {} (\<lambda>_ _ _. True)"
proof (rule runs_bind_pure [OF modify_atom_runs [OF assms(1,3,4)]])
  fix d \<sigma>1 dc1
  assume 1: "inv \<sigma>1 dc1" "progress \<sigma> dc \<sigma>1 dc1 {}" "wtd (tyenv (sb_out \<sigma>1)) dc1 d ty"
  then have "input_ok dc0 \<sigma>1 dc1" using assms(1) by (auto intro: input_ok_progress)
  then show "runs inv (store eh addr d g) \<sigma>1 dc1 {} (\<lambda>_ _ _. True)"
    using 1 assms(2,5,6) good_valid [OF atom_good [OF input_ok_pre [OF assms(1)] assms(4,3)]]
    by (intro store_law) (auto intro: input_wt)
qed

lemma LoadG_runs:
  assumes "input_ok dc0 \<sigma> dc" "wt_stmt env0 gw dc0 (IRStmt_LoadG lg) dc0'" "isFlatIRStmt (IRStmt_LoadG lg) = Inr True"
    and "unshadowed dc (lg_dst lg)"
  shows "runs inv (add_statement_modified eh (IRStmt_LoadG lg)) \<sigma> dc
           (shadow_temps (length env0) k (lg_dst lg)) (\<lambda>_ _ _. True)"
proof -
  let ?t = "lg_dst lg"
  let ?ty = "env0 ! ?t"
  have t: "?t < length env0" and inv: "inv \<sigma> dc"
    using assms(1,2) by (auto simp: wt_stmt_def monad_inv input_ok_def)
  have w: "wt env0 gw dc0 (lg_addr lg) gw" "wt env0 gw dc0 (lg_alt lg) ?ty" "wt env0 gw dc0 (lg_guard lg) Ity_I1"
    and ty: "?ty \<noteq> Ity_I1" "?ty \<noteq> Ity_INVALID"
    using assms(2) by (auto simp: wt_stmt_def wt_def monad_inv typeOfIRTemp_def typeOfIRLoadGOp_def split: if_splits IRLoadGOp.splits)
  have env: "?t < length (tyenv (sb_out \<sigma>))" "tyenv (sb_out \<sigma>) ! ?t = ?ty"
    using assms(1) t by (auto simp: input_ok_def diff_inv_def nth_append)
  have load: "runs inv (load eh (lg_addr lg) ?ty) \<sigma> dc {} (\<lambda>d \<sigma>' dc'. wtd (tyenv (sb_out \<sigma>')) dc' d ?ty)"
    using assms(1) w ty by (intro load_law) (auto intro: input_wt simp: input_ok_def)
  have "runs inv (bindM (load eh (lg_addr lg) ?ty) (\<lambda>d1.
          bindM (dg_modify_expression_or_default eh (lg_alt lg)) (\<lambda>d2. ite eh (lg_guard lg) d1 d2))) \<sigma> dc {}
          (\<lambda>d \<sigma>' dc'. wtd (tyenv (sb_out \<sigma>')) dc' d ?ty)"
  proof (rule runs_bind_pure [OF load])
    fix d1 \<sigma>1 dc1
    assume 1: "inv \<sigma>1 dc1" "progress \<sigma> dc \<sigma>1 dc1 {}" "wtd (tyenv (sb_out \<sigma>1)) dc1 d1 ?ty"
    have in1: "input_ok dc0 \<sigma>1 dc1" using assms(1) 1 by (auto intro: input_ok_progress)
    have alt: "isIRAtom (lg_alt lg)" using assms(3) by simp
    show "runs inv (bindM (dg_modify_expression_or_default eh (lg_alt lg)) (\<lambda>d2. ite eh (lg_guard lg) d1 d2)) \<sigma>1 dc1 {}
          (\<lambda>d \<sigma>' dc'. wtd (tyenv (sb_out \<sigma>')) dc' d ?ty)"
      using in1 1 w(3)
      by (intro runs_bind_pure [OF modify_atom_runs [OF in1 w(2) alt]] ite_law)
         (auto intro: progress_wtd input_wt input_ok_progress)
  qed
  from modify_wrtmp_runs [OF inv t assms(4) this] show ?thesis
    using env by (simp add: bindM_assoc envM_def liftM_def runs_def bindM_def)
qed

lemma useBeforeDef_DirtyArgs_nth:
  "useBeforeDef_DirtyArgs env dc as = Inr () \<Longrightarrow> i < length as \<Longrightarrow> isIRAtom (as ! i) \<Longrightarrow>
     useBeforeDef_Expr env dc (as ! i) = Inr ()"
  by (induction as arbitrary: i) (auto simp: monad_inv nth_Cons split: nat.splits if_splits elim: isIRAtom.elims)

lemma runs_arg: "inv \<sigma> dc \<Longrightarrow> i < length as \<Longrightarrow> runs inv (arg_at as i) \<sigma> dc {} (\<lambda>x _ _. x = as ! i)"
  by (simp add: arg_at_def runs_return)

lemma Dirty_runs:
  assumes "input_ok dc0 \<sigma> dc" "wt_stmt env0 gw dc0 (IRStmt_Dirty d) dc0'" "ok_Dirty gw env0 d"
    and "\<forall>t\<in>stmt_defs (IRStmt_Dirty d). unshadowed dc t"
  shows "runs inv (add_Dirty_modified eh d) \<sigma> dc (shadow_defs (IRStmt_Dirty d)) (\<lambda>_ _ _. True)"
proof -
  obtain c name where c: "cee d = Some c" "cee_name c = Some name"
    using assms(3) by (auto simp: ok_Dirty_def split: option.splits)
  have args: "wt env0 gw dc0 (args d ! i) ty"
    if "i < length (args d)" "isIRAtom (args d ! i)" "typeOfIRExpr env0 (args d ! i) = Inr ty" for i ty
    using that assms(2) by (simp add: wt_atom wt_stmt_def monad_inv useBeforeDef_DirtyArgs_nth)
  have tmp: "tmp d < length env0 \<and> unshadowed dc (tmp d)" if "tmp d \<noteq> IRTemp_INVALID"
    using assms(2,4) that by (auto simp: wt_stmt_def monad_inv)
  have inv: "inv \<sigma> dc" using assms(1) by (simp add: input_ok_def)
  have store: "runs inv (add_Dirty_modified eh d) \<sigma> dc {} (\<lambda>_ _ _. True)" if "is_storeF80le name"
  proof -
    have a: "2 \<le> length (args d)" "isIRAtom (args d ! 1)" "wt env0 gw dc0 (args d ! 0) gw" "wt env0 gw dc0 (args d ! 1) Ity_I64"
      using assms(3) args [of 0 gw] args [of 1 Ity_I64] that c by (cases "args d"; force simp: ok_Dirty_def)+
    have m: "runs inv (dg_modify_expression_or_default eh (args d ! 1)) \<sigma> dc {}
               (\<lambda>d \<sigma>' dc'. wtd (tyenv (sb_out \<sigma>')) dc' d Ity_I64)"
      using modify_atom_runs [OF assms(1) a(4,2)] .
    have "runs inv (bindM (dg_modify_expression_or_default eh (args d ! 1)) (dirty_storeF80le eh (args d ! 0)))
            \<sigma> dc {} (\<lambda>_ _ _. True)"
      using assms(1) a(3)
      by (intro runs_bind_pure [OF m] storeF80le_law) (auto intro: input_wt input_ok_progress)
    then show ?thesis
      using that c a(1) by (cases "args d") (auto simp: add_Dirty_modified_def arg_at_def)
  qed
  have load: "runs inv (add_Dirty_modified eh d) \<sigma> dc (shadow_temps (length env0) k (tmp d)) (\<lambda>_ _ _. True)"
    if "is_loadF80le name" "\<not> is_storeF80le name"
  proof -
    have a: "1 \<le> length (args d)" "wt env0 gw dc0 (args d ! 0) gw" "tmp d \<noteq> IRTemp_INVALID"
        "typeOfIRTemp env0 (tmp d) = Inr Ity_I64"
      using assms(3) args [of 0 gw] that c by (cases "args d"; force simp: ok_Dirty_def)+
    have "runs inv (dirty_loadF80le eh (args d ! 0) (tmp d)) \<sigma> dc (shadow_temps (length env0) k (tmp d)) (\<lambda>_ _ _. True)"
      using assms(1) a tmp
      by (intro loadF80le_law) (auto intro: input_wt simp: input_ok_def unshadowed_def typeOfIRTemp_def split: if_splits)
    then show ?thesis
      using that c a(1) by (cases "args d") (auto simp: add_Dirty_modified_def arg_at_def)
  qed
  have other: "runs inv (add_Dirty_modified eh d) \<sigma> dc (shadow_temps (length env0) k (tmp d)) (\<lambda>_ _ _. True)"
    if "\<not> is_loadF80le name" "\<not> is_storeF80le name" "tmp d \<noteq> IRTemp_INVALID"
  proof -
    have "good_ty (env0 ! tmp d)"
      using good_env [OF input_ok_pre [OF assms(1)]] tmp [OF that(3)] by (simp add: list_all_length)
    then have "runs inv (bindM (eh_default eh (env0 ! tmp d)) (wrtmp eh (tmp d))) \<sigma> dc
            (shadow_temps (length env0) k (tmp d)) (\<lambda>_ _ _. True)"
      using tmp [OF that(3)] inv by (intro modify_wrtmp_runs default_law) auto
    moreover have "typeOfIRTemp (tyenv (sb_out \<sigma>)) (tmp d) = Inr (env0 ! tmp d)"
      using assms(1) tmp [OF that(3)] by (auto simp: input_ok_def diff_inv_def typeOfIRTemp_def nth_append)
    ultimately show ?thesis
      using that c by (simp add: add_Dirty_modified_def envM_def liftM_def runs_def bindM_def)
  qed
  have none: "runs inv (add_Dirty_modified eh d) \<sigma> dc {} (\<lambda>_ _ _. True)"
    if "\<not> is_loadF80le name" "\<not> is_storeF80le name" "tmp d = IRTemp_INVALID"
    using that c inv by (simp add: add_Dirty_modified_def runs_return)
  show ?thesis
    using store load other none assms(3) c
    by (auto simp: shadow_defs_def ok_Dirty_def split: if_splits)
qed

lemma plain_stmt_runs:
  assumes "input_ok dc0 \<sigma> dc" "wt_stmt env0 gw dc0 st dc0'" "isFlatIRStmt st = Inr True"
    and "ok_stmt gw env0 goff k good_op good_ty st" "\<And>cas. st \<noteq> IRStmt_CAS cas" "\<forall>t\<in>stmt_defs st. unshadowed dc t"
  shows "runs inv (add_statement_modified eh st) \<sigma> dc (shadow_defs st) (\<lambda>_ _ _. True)"
proof -
  have inv: "inv \<sigma> dc" using assms(1) by (simp add: input_ok_def)
  show ?thesis
  proof (cases st)
    case (IRStmt_WrTmp t e)
    then have t: "t < length env0" "unshadowed dc t" "wt env0 gw dc0 e (env0 ! t)"
      using assms(2,6) by (auto simp: wt_stmt_def wt_def monad_inv typeOfIRTemp_def split: if_splits)
    then have "good_ty (env0 ! t)"
      using good_env [OF input_ok_pre [OF assms(1)]] by (simp add: list_all_length)
    then show ?thesis
      using IRStmt_WrTmp t inv assms(1,4) by (simp add: shadow_defs_def modify_wrtmp_runs modify_or_default_runs)
  next
    case (IRStmt_Put off e)
    then obtain ty where ty: "wt env0 gw dc0 e ty" "ty \<noteq> Ity_I1" "isIRAtom e"
      using assms(2,3) by (auto simp: wt_stmt_def wt_def monad_inv)
    have "runs inv (bindM (dg_modify_expression_or_default eh e) (\<lambda>d. puti eh off d None)) \<sigma> dc {} (\<lambda>_ _ _. True)"
      using ty(2) by (intro runs_bind_pure [OF modify_atom_runs [OF assms(1) ty(1,3)]] put_law)
    then show ?thesis using IRStmt_Put by (simp add: shadow_defs_def)
  next
    case (IRStmt_PutI p)
    then have p: "wt env0 gw dc0 (puti_data p) (elemTy (puti_descr p))" "wt env0 gw dc0 (puti_ix p) Ity_I32"
        "saneIRRegArray (puti_descr p)" "isIRAtom (puti_data p)"
      using assms(2,3) by (auto simp: wt_stmt_def wt_def monad_inv)
    have "runs inv (bindM (dg_modify_expression_or_default eh (puti_data p))
            (\<lambda>d. puti eh (puti_bias p) d (Some (puti_descr p, puti_ix p)))) \<sigma> dc {} (\<lambda>_ _ _. True)"
      using IRStmt_PutI assms(1,4) p(2,3)
      by (intro runs_bind_pure [OF modify_atom_runs [OF assms(1) p(1,4)]] puti_law)
         (auto intro: input_wt input_ok_progress)
    then show ?thesis using IRStmt_PutI by (simp add: shadow_defs_def)
  next
    case (IRStmt_Store en addr e)
    then obtain ty where "wt env0 gw dc0 addr gw" "wt env0 gw dc0 e ty" "ty \<noteq> Ity_I1" "isIRAtom e"
      using assms(2,3) by (auto simp: wt_stmt_def wt_def monad_inv)
    then show ?thesis
      using IRStmt_Store Store_runs [OF assms(1), of addr e ty None] by (simp add: shadow_defs_def)
  next
    case (IRStmt_StoreG sg)
    then obtain ty where "wt env0 gw dc0 (sg_addr sg) gw" "wt env0 gw dc0 (sg_data sg) ty" "ty \<noteq> Ity_I1"
        "isIRAtom (sg_data sg)" "wt env0 gw dc0 (sg_guard sg) Ity_I1"
      using assms(2,3) by (auto simp: wt_stmt_def wt_def monad_inv)
    then show ?thesis
      using IRStmt_StoreG Store_runs [OF assms(1), of "sg_addr sg" "sg_data sg" ty "Some (sg_guard sg)"]
      by (simp add: shadow_defs_def)
  next
    case (IRStmt_LoadG lg)
    then show ?thesis using LoadG_runs [of dc0 \<sigma> dc lg dc0'] assms by (simp add: shadow_defs_def)
  next
    case (IRStmt_Dirty d)
    then show ?thesis using Dirty_runs [of dc0 \<sigma> dc d dc0'] assms by simp
  qed (use inv assms(4,5) in \<open>auto simp: shadow_defs_def intro: runs_return\<close>)
qed

text \<open>Compare-and-swap.\<close>

lemma CAS_equal_runs:
  assumes "input_ok dc0 \<sigma> dc" "wt env0 gw dc0 expd ty" "isIRAtom expd" "wt (tyenv (sb_out \<sigma>)) gw dc addr gw"
    and "ty \<in> {Ity_I8, Ity_I16, Ity_I32, Ity_I64}" "CAS_cmp ty = Inr cmp"
  shows "runs inv (CAS_equal eh en cmp ty expd addr) \<sigma> dc {} (\<lambda>e \<sigma>' dc'. wt (tyenv (sb_out \<sigma>')) gw dc' e Ity_I1)"
  unfolding CAS_equal_def Let_def
proof (rule runs_bind_pure [OF modify_atom_runs [OF assms(1-3)]])
  fix d1 \<sigma>1 dc1
  assume 1: "inv \<sigma>1 dc1" "progress \<sigma> dc \<sigma>1 dc1 {}" "wtd (tyenv (sb_out \<sigma>1)) dc1 d1 ty"
  have in1: "input_ok dc0 \<sigma>1 dc1" using assms(1) 1 by (auto intro: input_ok_progress)
  have addr1: "wt (tyenv (sb_out \<sigma>1)) gw dc1 addr gw" using progress_wt [OF 1(2) assms(4)] .
  have load: "runs inv (load eh addr ty) \<sigma>1 dc1 {} (\<lambda>d \<sigma>' dc'. wtd (tyenv (sb_out \<sigma>')) dc' d ty)"
    using 1(1) addr1 assms(5) by (intro load_law) auto
  show "runs inv (bindM (load eh addr ty) (\<lambda>l. bindM (compare eh d1 l) (\<lambda>eq.
          returnM (IRExpr_Binop Iop_And1 (IRExpr_Binop cmp expd (IRExpr_Load en ty addr)) eq)))) \<sigma>1 dc1 {}
        (\<lambda>e \<sigma>' dc'. wt (tyenv (sb_out \<sigma>')) gw dc' e Ity_I1)"
  proof (rule runs_bind_pure [OF load])
    fix d2 \<sigma>2 dc2
    assume 2: "inv \<sigma>2 dc2" "progress \<sigma>1 dc1 \<sigma>2 dc2 {}" "wtd (tyenv (sb_out \<sigma>2)) dc2 d2 ty"
    have w2: "wt (tyenv (sb_out \<sigma>2)) gw dc2 expd ty" "wt (tyenv (sb_out \<sigma>2)) gw dc2 addr gw"
      using progress_wt [OF 2(2)] addr1 input_wt [OF in1 assms(2)] by auto
    have cmp: "runs inv (compare eh d1 d2) \<sigma>2 dc2 {} (\<lambda>e \<sigma>' dc'. wt (tyenv (sb_out \<sigma>')) gw dc' e Ity_I1)"
      using 2 progress_wtd [OF 2(2) 1(3)] assms(5) by (intro compare_law) auto
    show "runs inv (bindM (compare eh d1 d2) (\<lambda>eq.
          returnM (IRExpr_Binop Iop_And1 (IRExpr_Binop cmp expd (IRExpr_Load en ty addr)) eq))) \<sigma>2 dc2 {}
        (\<lambda>e \<sigma>' dc'. wt (tyenv (sb_out \<sigma>')) gw dc' e Ity_I1)"
    proof (rule runs_bind_pure [OF cmp])
      fix eq \<sigma>3 dc3
      assume 3: "inv \<sigma>3 dc3" "progress \<sigma>2 dc2 \<sigma>3 dc3 {}" "wt (tyenv (sb_out \<sigma>3)) gw dc3 eq Ity_I1"
      have "wt (tyenv (sb_out \<sigma>3)) gw dc3 (IRExpr_Binop cmp expd (IRExpr_Load en ty addr)) Ity_I1"
        using progress_wt [OF 3(2)] w2 assms(5,6) by (auto simp: CAS_cmp_def wt_simps prim_types)
      then show "runs inv (returnM (IRExpr_Binop Iop_And1 (IRExpr_Binop cmp expd (IRExpr_Load en ty addr)) eq)) \<sigma>3 dc3 {}
        (\<lambda>e \<sigma>' dc'. wt (tyenv (sb_out \<sigma>')) gw dc' e Ity_I1)"
        using 3 by (intro runs_return) (auto simp: wt_Binop prim_types)
    qed
  qed
qed

text \<open>The facts that VEX's checker gives about a flat compare-and-swap.\<close>

definition CAS_facts :: "def_counts \<Rightarrow> IRCAS \<Rightarrow> IRType \<Rightarrow> bool" where
  "CAS_facts dc0 cas ty \<longleftrightarrow>
     ty \<in> {Ity_I8, Ity_I16, Ity_I32, Ity_I64} \<and> wt env0 gw dc0 (cas_addr cas) gw
     \<and> wt env0 gw dc0 (expdLo cas) ty \<and> wt env0 gw dc0 (dataLo cas) ty
     \<and> isIRAtom (expdLo cas) \<and> isIRAtom (dataLo cas)
     \<and> oldLo cas < length env0 \<and> dc0 (oldLo cas) = 0 \<and> env0 ! oldLo cas = ty
     \<and> (case expdHi cas of
          None \<Rightarrow> oldHi cas = IRTemp_INVALID \<and> dataHi cas = None
        | Some eHi \<Rightarrow> oldHi cas \<noteq> IRTemp_INVALID \<and> wt env0 gw dc0 eHi ty \<and> isIRAtom eHi
            \<and> (\<exists>dHi. dataHi cas = Some dHi \<and> wt env0 gw dc0 dHi ty \<and> isIRAtom dHi)
            \<and> oldHi cas < length env0 \<and> dc0 (oldHi cas) = 0 \<and> env0 ! oldHi cas = ty \<and> oldHi cas \<noteq> oldLo cas)"

lemma CAS_factsI:
  assumes "wt_stmt env0 gw dc0 (IRStmt_CAS cas) dc0'" "isFlatIRStmt (IRStmt_CAS cas) = Inr True"
  shows "\<exists>ty. CAS_facts dc0 cas ty"
  using assms
  by (auto simp: CAS_facts_def wt_stmt_def tc_CAS_def tc_CAS_Hi_def monad_inv wt_atom opt_atom_def
      useBeforeDef_Opt_def typeOfIRTemp_def split: option.splits if_splits)

lemma CAS_addresses:
  assumes "input_ok dc0 \<sigma> dc" "CAS_facts dc0 cas ty" "gw = Ity_I32 \<or> gw = Ity_I64"
  shows "\<exists>aLo aHi. addressesOfCAS (tyenv (sb_out \<sigma>)) cas = Inr (aLo, aHi) \<and> wt (tyenv (sb_out \<sigma>)) gw dc aLo gw
           \<and> (aHi = None \<longleftrightarrow> expdHi cas = None) \<and> (\<forall>a. aHi = Some a \<longrightarrow> wt (tyenv (sb_out \<sigma>)) gw dc a gw)"
proof -
  have w: "wt (tyenv (sb_out \<sigma>)) gw dc (cas_addr cas) gw" "wt (tyenv (sb_out \<sigma>)) gw dc (expdLo cas) ty"
    and ty: "ty \<in> {Ity_I8, Ity_I16, Ity_I32, Ity_I64}"
    using assms(2) input_wt [OF assms(1)] by (auto simp: CAS_facts_def)
  obtain n where "sizeofIRType ty = Inr n"
    using ty by (auto simp: sizeofIRType_def)
  then show ?thesis
    using w(1) assms(3) wt_type [OF w(1)] wt_type [OF w(2)]
    by (auto simp: addressesOfCAS_def Let_def wt_simps prim_types)
qed

lemma CAS_test_runs:
  assumes "input_ok dc0 \<sigma> dc" "CAS_facts dc0 cas ty" "gw = Ity_I32 \<or> gw = Ity_I64"
  shows "runs inv (CAS_test eh cas) \<sigma> dc {} (\<lambda>(type, aLo, aHi, eq) \<sigma>' dc'. type = ty
           \<and> wt (tyenv (sb_out \<sigma>')) gw dc' aLo gw \<and> (aHi = None \<longleftrightarrow> expdHi cas = None)
           \<and> (\<forall>a. aHi = Some a \<longrightarrow> wt (tyenv (sb_out \<sigma>')) gw dc' a gw) \<and> wt (tyenv (sb_out \<sigma>')) gw dc' eq Ity_I1)"
    (is "runs inv _ \<sigma> dc {} ?Q")
proof -
  obtain aLo aHi where a: "addressesOfCAS (tyenv (sb_out \<sigma>)) cas = Inr (aLo, aHi)"
      "wt (tyenv (sb_out \<sigma>)) gw dc aLo gw" "aHi = None \<longleftrightarrow> expdHi cas = None"
      "\<forall>x. aHi = Some x \<longrightarrow> wt (tyenv (sb_out \<sigma>)) gw dc x gw"
    using CAS_addresses [OF assms] by (elim exE conjE) (rule that)
  have f: "wt env0 gw dc0 (expdLo cas) ty" "isIRAtom (expdLo cas)" "ty \<in> {Ity_I8, Ity_I16, Ity_I32, Ity_I64}"
    using assms(2) by (auto simp: CAS_facts_def)
  have ety: "typeOfIRExpr (tyenv (sb_out \<sigma>)) (expdLo cas) = Inr ty"
    using wt_type [OF input_wt [OF assms(1) f(1)]] .
  obtain cmp where cmp: "CAS_cmp ty = Inr cmp"
    using f(3) by (auto simp: CAS_cmp_def)
  let ?hi = "case zip_opt (expdHi cas) aHi of Some (expd, addr) \<Rightarrow> CAS_equal eh (cas_end cas) cmp ty expd addr
            | None \<Rightarrow> returnM (IRExpr_Const (IRConst_U1 True))"
  have "runs inv (bindM (CAS_equal eh (cas_end cas) cmp ty (expdLo cas) aLo) (\<lambda>equal_Lo.
     bindM ?hi (\<lambda>equal_Hi. returnM (ty, aLo, aHi, IRExpr_Binop Iop_And1 equal_Lo equal_Hi)))) \<sigma> dc {} ?Q"
  proof (rule runs_bind_pure [OF CAS_equal_runs [OF assms(1) f(1,2) a(2) f(3) cmp]])
    fix lo \<sigma>1 dc1
    assume 1: "inv \<sigma>1 dc1" "progress \<sigma> dc \<sigma>1 dc1 {}" "wt (tyenv (sb_out \<sigma>1)) gw dc1 lo Ity_I1"
    have in1: "input_ok dc0 \<sigma>1 dc1" using assms(1) 1 by (auto intro: input_ok_progress)
    have hi: "runs inv ?hi \<sigma>1 dc1 {} (\<lambda>e \<sigma>' dc'. wt (tyenv (sb_out \<sigma>')) gw dc' e Ity_I1)"
      using assms(2) 1 a(4) f(3) cmp in1 progress_wt [OF 1(2)]
      by (auto simp: zip_opt_def CAS_facts_def wt_simps split: option.split
          intro!: runs_return CAS_equal_runs intro: progress_wt)
    show "runs inv (bindM ?hi (\<lambda>equal_Hi. returnM (ty, aLo, aHi, IRExpr_Binop Iop_And1 lo equal_Hi))) \<sigma>1 dc1 {} ?Q"
    proof (rule runs_bind_pure [OF hi])
      fix hi' \<sigma>2 dc2
      assume 2: "inv \<sigma>2 dc2" "progress \<sigma>1 dc1 \<sigma>2 dc2 {}" "wt (tyenv (sb_out \<sigma>2)) gw dc2 hi' Ity_I1"
      then show "runs inv (returnM (ty, aLo, aHi, IRExpr_Binop Iop_And1 lo hi')) \<sigma>2 dc2 {} ?Q"
        using 1 a progress_wt [OF 2(2)] progress_wt [OF 1(2)]
        by (intro runs_return) (auto simp: wt_Binop prim_types)
    qed
  qed
  then show ?thesis
    using ety a(1) cmp by (simp add: CAS_test_def typeM_def envM_def liftM_def runs_def bindM_def)
qed

lemma CAS_store_runs:
  assumes "input_ok dc0 \<sigma> dc" "wt env0 gw dc0 e ty" "isIRAtom e" "ty \<noteq> Ity_I1"
    and "wt (tyenv (sb_out \<sigma>)) gw dc addr gw" "wt (tyenv (sb_out \<sigma>)) gw dc (IRExpr_RdTmp s) Ity_I1"
  shows "runs inv (CAS_store eh addr e s) \<sigma> dc {} (\<lambda>_ _ _. True)"
  unfolding CAS_store_def
  using assms(4-6) good_valid [OF atom_good [OF input_ok_pre [OF assms(1)] assms(3,2)]]
  by (intro runs_bind_pure [OF modify_atom_runs [OF assms(1-3)]] store_law) (auto intro: progress_wt)

lemma CAS_old_runs:
  assumes "inv \<sigma> dc" "t < length env0" "unshadowed dc t" "env0 ! t = ty" "wt (tyenv (sb_out \<sigma>)) gw dc addr gw"
    and "ty \<in> {Ity_I8, Ity_I16, Ity_I32, Ity_I64}"
  shows "runs inv (bindM (load eh addr ty) (wrtmp eh t)) \<sigma> dc (shadow_temps (length env0) k t) (\<lambda>_ _ _. True)"
proof -
  have "runs inv (load eh addr ty) \<sigma> dc {} (\<lambda>d \<sigma>' dc'. wtd (tyenv (sb_out \<sigma>')) dc' d ty)"
    using assms(1,5,6) by (intro load_law) auto
  then show ?thesis
    using assms(1-4) by (intro modify_wrtmp_runs) auto
qed

lemma CAS_update_runs:
  assumes in0: "input_ok dc0 \<sigma> dc" and f: "CAS_facts dc0 cas ty"
    and un: "\<forall>t\<in>stmt_defs (IRStmt_CAS cas). unshadowed dc t"
    and w: "wt (tyenv (sb_out \<sigma>)) gw dc aLo gw" "aHi = None \<longleftrightarrow> expdHi cas = None"
      "\<forall>a. aHi = Some a \<longrightarrow> wt (tyenv (sb_out \<sigma>)) gw dc a gw" "wt (tyenv (sb_out \<sigma>)) gw dc (IRExpr_RdTmp s) Ity_I1"
  shows "runs inv (CAS_update eh cas ty aLo aHi s) \<sigma> dc (shadow_defs (IRStmt_CAS cas)) (\<lambda>_ _ _. True)"
proof -
  let ?Lo = "shadow_temps (length env0) k (oldLo cas)"
  let ?Hi = "if expdHi cas = None then {} else shadow_temps (length env0) k (oldHi cas)"
  have ty: "ty \<in> {Ity_I8, Ity_I16, Ity_I32, Ity_I64}" and inv: "inv \<sigma> dc"
    using f in0 by (auto simp: CAS_facts_def input_ok_def)
  have lo: "runs inv (bindM (load eh aLo ty) (wrtmp eh (oldLo cas))) \<sigma> dc ?Lo (\<lambda>_ _ _. True)"
    using inv f un w(1) by (intro CAS_old_runs) (auto simp: CAS_facts_def)
  have "runs inv (CAS_update eh cas ty aLo aHi s) \<sigma> dc (?Lo \<union> (?Hi \<union> ({} \<union> {}))) (\<lambda>_ _ _. True)"
    unfolding CAS_update_def
  proof (rule runs_seq [OF lo])
    fix x \<sigma>1 dc1 assume 1: "inv \<sigma>1 dc1" "progress \<sigma> dc \<sigma>1 dc1 ?Lo"
    have hi: "runs inv (whenM (zip_opt (expdHi cas) aHi) (\<lambda>_ addr. bindM (load eh addr ty) (wrtmp eh (oldHi cas))))
            \<sigma>1 dc1 ?Hi (\<lambda>_ _ _. True)"
    proof (cases "expdHi cas")
      case (Some eHi)
      then obtain a where a: "aHi = Some a" using w(2) by auto
      have "unshadowed dc1 (oldHi cas)"
        using f un Some shadow_temps_disjoint [of "oldHi cas" "length env0" "oldLo cas" k]
        by (intro unshadowed_progress [OF _ inv 1(2)]) (auto simp: CAS_facts_def)
      then show ?thesis
        using Some a 1 f ty progress_wt [OF 1(2)] w(3)
        by (auto simp: whenM_def zip_opt_def CAS_facts_def intro!: CAS_old_runs)
    qed (use 1 in \<open>simp add: whenM_def zip_opt_def runs_return\<close>)
    show "runs inv (seqM (whenM (zip_opt (expdHi cas) aHi) (\<lambda>_ addr. bindM (load eh addr ty) (wrtmp eh (oldHi cas))))
        (seqM (CAS_store eh aLo (dataLo cas) s) (whenM (zip_opt (expdHi cas) aHi) (\<lambda>_ addr.
              bindM (derefM (dataHi cas)) (\<lambda>data. CAS_store eh addr data s))))) \<sigma>1 dc1 (?Hi \<union> ({} \<union> {})) (\<lambda>_ _ _. True)"
    proof (rule runs_seq [OF hi])
      fix x \<sigma>2 dc2 assume 2: "inv \<sigma>2 dc2" "progress \<sigma>1 dc1 \<sigma>2 dc2 ?Hi"
      have p2: "progress \<sigma> dc \<sigma>2 dc2 (?Lo \<union> ?Hi)" by (rule progress_trans [OF 1(2) 2(2)])
      have in2: "input_ok dc0 \<sigma>2 dc2" using in0 2(1) p2 by (rule input_ok_progress)
      have st: "runs inv (CAS_store eh aLo (dataLo cas) s) \<sigma>2 dc2 {} (\<lambda>_ _ _. True)"
        using in2 f progress_wt [OF p2] w(1,4) ty by (intro CAS_store_runs) (auto simp: CAS_facts_def)
      show "runs inv (seqM (CAS_store eh aLo (dataLo cas) s) (whenM (zip_opt (expdHi cas) aHi) (\<lambda>_ addr.
              bindM (derefM (dataHi cas)) (\<lambda>data. CAS_store eh addr data s)))) \<sigma>2 dc2 ({} \<union> {}) (\<lambda>_ _ _. True)"
      proof (rule runs_seq [OF st])
        fix x \<sigma>3 dc3 assume 3: "inv \<sigma>3 dc3" "progress \<sigma>2 dc2 \<sigma>3 dc3 {}"
        have p3: "progress \<sigma> dc \<sigma>3 dc3 (?Lo \<union> ?Hi \<union> {})" by (rule progress_trans [OF p2 3(2)])
        have in3: "input_ok dc0 \<sigma>3 dc3" using in0 3(1) p3 by (rule input_ok_progress)
        show "runs inv (whenM (zip_opt (expdHi cas) aHi) (\<lambda>_ addr.
              bindM (derefM (dataHi cas)) (\<lambda>data. CAS_store eh addr data s))) \<sigma>3 dc3 {} (\<lambda>_ _ _. True)"
          using f 3(1) in3 progress_wt [OF p3] w ty
          by (auto simp: whenM_def zip_opt_def CAS_facts_def derefM_def split: option.splits
              intro!: runs_return CAS_store_runs [of dc0])
      qed
    qed
  qed
  moreover have "shadow_defs (IRStmt_CAS cas) = ?Lo \<union> (?Hi \<union> ({} \<union> {}))"
    using f by (auto simp: shadow_defs_def CAS_facts_def split: option.splits)
  ultimately show ?thesis by simp
qed

lemma cas_sb_commute: "\<sigma>\<lparr>cas_succeeded := s, sb_out := x\<rparr> = \<sigma>\<lparr>sb_out := x, cas_succeeded := s\<rparr>"
  for \<sigma> :: DiffEnv
  by (cases \<sigma>) simp

lemma add_CAS_ok:
  assumes "input_ok dc0 \<sigma> dc" "CAS_facts dc0 cas ty" "gw = Ity_I32 \<or> gw = Ity_I64"
    and "\<forall>t\<in>stmt_defs (IRStmt_CAS cas). unshadowed dc t"
  shows "\<exists>\<sigma>' dc'. add_CAS_modified eh cas \<sigma> = Inr ((), \<sigma>') \<and> inv \<sigma>' dc'
           \<and> progress \<sigma> dc \<sigma>' dc' (shadow_defs (IRStmt_CAS cas))
           \<and> wt (tyenv (sb_out \<sigma>')) gw dc' (IRExpr_RdTmp (cas_succeeded \<sigma>')) Ity_I1"
proof -
  obtain ty' aLo aHi eq \<sigma>1 dc1 where 1: "CAS_test eh cas \<sigma> = Inr ((ty', aLo, aHi, eq), \<sigma>1)" "inv \<sigma>1 dc1"
      "progress \<sigma> dc \<sigma>1 dc1 {}" "ty' = ty" "wt (tyenv (sb_out \<sigma>1)) gw dc1 aLo gw" "aHi = None \<longleftrightarrow> expdHi cas = None"
      "\<forall>a. aHi = Some a \<longrightarrow> wt (tyenv (sb_out \<sigma>1)) gw dc1 a gw" "wt (tyenv (sb_out \<sigma>1)) gw dc1 eq Ity_I1"
    using CAS_test_runs [OF assms(1-3)] by (elim runsE) auto
  let ?m = "bindM (newTemp Ity_I1) (\<lambda>t. seqM (emit (IRStmt_WrTmp t eq)) (returnM t))"
  obtain s \<sigma>2 dc2 where 2: "?m \<sigma>1 = Inr (s, \<sigma>2)" "inv \<sigma>2 dc2" "progress \<sigma>1 dc1 \<sigma>2 dc2 {}"
      "wt (tyenv (sb_out \<sigma>2)) gw dc2 (IRExpr_RdTmp s) Ity_I1"
    using runs_define_fresh [OF 1(2) 1(8)] by (elim runsE) auto
  let ?\<sigma>2 = "\<sigma>2\<lparr>cas_succeeded := s\<rparr>"
  have p2: "progress \<sigma> dc ?\<sigma>2 dc2 {}"
    using progress_trans [OF 1(3) 2(3)] by (simp add: progress_def)
  have inv2: "inv ?\<sigma>2 dc2" using 2(2) by (simp add: diff_inv_def)
  have in2: "input_ok dc0 ?\<sigma>2 dc2" using assms(1) inv2 p2 by (rule input_ok_progress)
  have inv0: "inv \<sigma> dc" using assms(1) by (simp add: input_ok_def)
  have "t < length env0" if "t \<in> stmt_defs (IRStmt_CAS cas)" for t
    using assms(2) that by (auto simp: CAS_facts_def split: option.splits if_splits)
  then have un2: "\<forall>t\<in>stmt_defs (IRStmt_CAS cas). unshadowed dc2 t"
    using assms(4) unshadowed_progress [OF _ inv0 p2] by auto
  have "runs inv (CAS_update eh cas ty aLo aHi s) ?\<sigma>2 dc2 (shadow_defs (IRStmt_CAS cas)) (\<lambda>_ _ _. True)"
    using 1(5-7) 2(4) progress_wt [OF 2(3)] by (intro CAS_update_runs [OF in2 assms(2) un2]) auto
  then obtain \<sigma>3 dc3 where 3: "CAS_update eh cas ty aLo aHi s ?\<sigma>2 = Inr ((), \<sigma>3)" "inv \<sigma>3 dc3"
      "progress ?\<sigma>2 dc2 \<sigma>3 dc3 (shadow_defs (IRStmt_CAS cas))" "cas_succeeded \<sigma>3 = s"
    by (elim runsE) auto
  have "add_CAS_modified eh cas \<sigma> = Inr ((), \<sigma>3)"
    using 1(1,4) 2(1) 3(1)
    by (auto simp: add_CAS_modified_def bindM_def seqM_def newTemp_def newIRTemp_def emit_def modifyM_def returnM_def Let_def
        cas_sb_commute)
  moreover have "wt (tyenv (sb_out \<sigma>3)) gw dc3 (IRExpr_RdTmp (cas_succeeded \<sigma>3)) Ity_I1"
    using progress_wt [OF 3(3)] 2(4) 3(4) by simp
  ultimately show ?thesis
    using 3(2) progress_trans [OF p2 3(3)] by auto
qed

theorem add_statement_ok:
  assumes "input_ok dc0 \<sigma> dc" "wt_stmt env0 gw dc0 st dc0'" "isFlatIRStmt st = Inr True"
    and "ok_stmt gw env0 goff k good_op good_ty st" "gw = Ity_I32 \<or> gw = Ity_I64" "\<forall>t\<in>stmt_defs st. unshadowed dc t"
  shows "\<exists>\<sigma>' dc'. add_statement_modified eh st \<sigma> = Inr ((), \<sigma>') \<and> inv \<sigma>' dc' \<and> progress \<sigma> dc \<sigma>' dc' (shadow_defs st)
           \<and> (\<forall>cas. st = IRStmt_CAS cas \<longrightarrow> wt (tyenv (sb_out \<sigma>')) gw dc' (IRExpr_RdTmp (cas_succeeded \<sigma>')) Ity_I1)"
proof (cases "\<exists>cas. st = IRStmt_CAS cas")
  case True
  then obtain cas where cas: "st = IRStmt_CAS cas" by blast
  obtain ty where "CAS_facts dc0 cas ty"
    using CAS_factsI [of dc0 cas dc0'] assms(2,3) cas by auto
  then show ?thesis
    using add_CAS_ok [OF assms(1) _ assms(5)] assms(6) cas by simp
next
  case False
  then have "runs inv (add_statement_modified eh st) \<sigma> dc (shadow_defs st) (\<lambda>_ _ _. True)"
    using plain_stmt_runs [OF assms(1-4)] assms(6) by simp
  then show ?thesis
    using False by (elim runsE) auto
qed

end

end
