(* ===== verification/DG_Block.thy ===== *)
theory DG_Block
  imports DG_Handling
begin

text \<open>
  Instrumentation of a superblock: \<^verbatim>\<open>dg_original_statement\<close> and the mode-independent part of
  \<^verbatim>\<open>dg_instrument\<close> of \<^verbatim>\<open>derivgrind/dg_main.c\<close>. The statement handler of the mode and
  its number of shadow layers (one in forward mode, two in recording and bit-trick mode) are
  arguments.

  The theorem proved here for every callback table that meets the contract \<open>shadow_handling\<close>:
  instrumenting a flat block that VEX's sanity checker accepts succeeds, and the checker accepts the
  result.
\<close>

section \<open>Copying the original statement\<close>

definition original_CAS :: "IRCAS \<Rightarrow> unit dgM" where
  "original_CAS det =
     bindM (typeM (expdLo det)) (\<lambda>type.
     bindM (envM (\<lambda>env. addressesOfCAS env det)) (\<lambda>(addr_Lo, addr_Hi).
     bindM getM (\<lambda>\<sigma>. let succeeded = IRExpr_RdTmp (cas_succeeded \<sigma>) in
     seqM (emit (IRStmt_WrTmp (oldLo det) (IRExpr_Load (cas_end det) type addr_Lo)))
     (seqM (whenM (zip_opt (expdHi det) addr_Hi) (\<lambda>_ addr.
              emit (IRStmt_WrTmp (oldHi det) (IRExpr_Load (cas_end det) type addr))))
     (seqM (emit (IRStmt_Store (cas_end det) addr_Lo
              (IRExpr_ITE succeeded (dataLo det) (IRExpr_Load (cas_end det) type addr_Lo))))
           (whenM (zip_opt (expdHi det) addr_Hi) (\<lambda>_ addr.
              bindM (derefM (dataHi det)) (\<lambda>data.
              emit (IRStmt_Store (cas_end det) addr
                (IRExpr_ITE succeeded data (IRExpr_Load (cas_end det) type addr)))))))))))"

definition dg_original_statement :: "IRStmt \<Rightarrow> unit dgM" where
  "dg_original_statement st = bindM getM (\<lambda>\<sigma>.
     case st of
       IRStmt_CAS det \<Rightarrow>
         if cas_succeeded \<sigma> \<noteq> IRTemp_INVALID then original_CAS det else emit st
     | _ \<Rightarrow> emit st)"

section \<open>The block\<close>

fun is_IMark :: "IRStmt \<Rightarrow> bool" where
  "is_IMark (IRStmt_IMark _ _ _) = True"
| "is_IMark _ = False"

text \<open>The loop that allocates one layer of shadow temporaries.\<close>

fun add_shadow_temps :: "IRTypeEnv \<Rightarrow> IRType list \<Rightarrow> IRTypeEnv" where
  "add_shadow_temps env [] = env"
| "add_shadow_temps env (ty # tys) = add_shadow_temps (snd (newIRTemp env ty)) tys"

fun copy_until_IMark :: "IRSB \<Rightarrow> IRStmt list \<Rightarrow> IRSB \<times> IRStmt list" where
  "copy_until_IMark sb [] = (sb, [])"
| "copy_until_IMark sb (st # sts) =
     (if is_IMark st then (sb, st # sts) else copy_until_IMark (addStmtToIRSB sb st) sts)"

definition instrument_stmt :: "(IRStmt \<Rightarrow> unit dgM) \<Rightarrow> IRStmt \<Rightarrow> unit dgM" where
  "instrument_stmt handle_stmt st =
     seqM (modifyM (\<lambda>\<sigma>. \<sigma>\<lparr>cas_succeeded := IRTemp_INVALID\<rparr>))
     (seqM (handle_stmt st) (dg_original_statement st))"

definition instrument_block ::
    "(IRStmt \<Rightarrow> unit dgM) \<Rightarrow> nat \<Rightarrow> int \<Rightarrow> IRSB \<Rightarrow> vex_error + IRSB" where
  "instrument_block handle_stmt layers total_sizeB sb_in =
     (let sb0 = deepCopyIRSBExceptStmts sb_in;
          env = ((\<lambda>e. add_shadow_temps e (tyenv sb_in)) ^^ layers) (tyenv sb0);
          (sb1, rest) = copy_until_IMark (sb0\<lparr>tyenv := env\<rparr>) (stmts sb_in);
          \<sigma> = \<lparr>tmp_offset = length (tyenv sb_in), gs_offset = total_sizeB, sb_out = sb1,
               cas_succeeded = IRTemp_INVALID\<rparr>
      in bindE (iterM (instrument_stmt handle_stmt) rest \<sigma>) (\<lambda>(_, \<sigma>'). Inr (sb_out \<sigma>')))"

section \<open>Properties of the loops\<close>

lemma add_shadow_temps_append: "add_shadow_temps env tys = env @ tys"
  by (induction tys arbitrary: env) (simp_all add: newIRTemp_def)

lemma shadow_layers: "((\<lambda>e. add_shadow_temps e tys) ^^ k) env = env @ concat (replicate k tys)"
proof (induction k)
  case (Suc k)
  have "concat (replicate k tys) @ tys = tys @ concat (replicate k tys)"
    by (induction k) simp_all
  with Suc show ?case by (simp add: add_shadow_temps_append)
qed simp

lemma copy_until_IMark_eq:
  "copy_until_IMark sb sts =
     (sb\<lparr>stmts := stmts sb @ takeWhile (\<lambda>st. \<not> is_IMark st) sts\<rparr>, dropWhile (\<lambda>st. \<not> is_IMark st) sts)"
  by (induction sts arbitrary: sb) (simp_all add: addStmtToIRSB_def)

lemma flat_Stmts_append: "flat_Stmts (xs @ ys) = bindE (flat_Stmts xs) (\<lambda>_. flat_Stmts ys)"
  by (induction xs) (simp_all add: bindE_def split: sum.splits)

lemma appends_iterM: "(\<And>x. x \<in> set xs \<Longrightarrow> appends S (f x)) \<Longrightarrow> appends S (iterM f xs)"
  by (induction xs) (simp_all add: appends_intro)

lemma ok_stmt_nonneg: "ok_stmt gw env0 goff k good goodt st \<Longrightarrow> nonneg_offsets st"
  by (cases st) auto

section \<open>Transparency\<close>

text \<open>
  \<open>weaves S os out\<close>: the statement list \<open>out\<close> consists of the statements \<open>os\<close>, in their order, and of
  additional statements that satisfy \<open>S\<close>; a compare-and-swap of \<open>os\<close> may be replaced by the loads and
  guarded stores that \<^verbatim>\<open>dg_original_statement\<close> writes instead of it.
\<close>

definition CAS_stmts :: "IRCAS \<Rightarrow> IRType \<Rightarrow> IRExpr \<Rightarrow> IRExpr option \<Rightarrow> IRTemp \<Rightarrow> IRStmt list" where
  "CAS_stmts cas ty aLo aHi s =
     (let guarded = (\<lambda>a d. IRStmt_Store (cas_end cas) a
            (IRExpr_ITE (IRExpr_RdTmp s) d (IRExpr_Load (cas_end cas) ty a))) in
      [IRStmt_WrTmp (oldLo cas) (IRExpr_Load (cas_end cas) ty aLo)]
      @ (case (expdHi cas, aHi) of (Some _, Some a) \<Rightarrow>
           [IRStmt_WrTmp (oldHi cas) (IRExpr_Load (cas_end cas) ty a)] | _ \<Rightarrow> [])
      @ [guarded aLo (dataLo cas)]
      @ (case (expdHi cas, aHi) of (Some _, Some a) \<Rightarrow> [guarded a (the (dataHi cas))] | _ \<Rightarrow> []))"

inductive weaves :: "(IRStmt \<Rightarrow> bool) \<Rightarrow> IRStmt list \<Rightarrow> IRStmt list \<Rightarrow> bool" for S where
  weave_Nil: "weaves S [] []"
| weave_shadow: "S st \<Longrightarrow> weaves S os out \<Longrightarrow> weaves S os (st # out)"
| weave_copy: "weaves S os out \<Longrightarrow> weaves S (st # os) (st # out)"
| weave_CAS: "addressesOfCAS env cas = Inr (aLo, aHi) \<Longrightarrow> weaves S os out \<Longrightarrow>
    weaves S (IRStmt_CAS cas # os) (CAS_stmts cas ty aLo aHi s @ out)"

lemma weaves_append: "weaves S os out \<Longrightarrow> weaves S os' out' \<Longrightarrow> weaves S (os @ os') (out @ out')"
  by (induction rule: weaves.induct) (auto intro: weaves.intros)

lemma weaves_shadows: "list_all S sts \<Longrightarrow> weaves S [] sts"
  by (induction sts) (auto intro: weaves.intros)

lemma weaves_refl: "weaves S sts sts"
  by (induction sts) (auto intro: weaves.intros)

lemma original_weaves:
  assumes "dg_original_statement st \<sigma> = Inr (x, \<sigma>')"
  shows "\<exists>sts. stmts (sb_out \<sigma>') = stmts (sb_out \<sigma>) @ sts \<and> weaves S [st] sts"
proof (cases "\<exists>cas. st = IRStmt_CAS cas \<and> cas_succeeded \<sigma> \<noteq> IRTemp_INVALID")
  case True
  then obtain cas where cas: "st = IRStmt_CAS cas" "cas_succeeded \<sigma> \<noteq> IRTemp_INVALID" by blast
  then obtain ty aLo aHi where a: "typeOfIRExpr (tyenv (sb_out \<sigma>)) (expdLo cas) = Inr ty"
      "addressesOfCAS (tyenv (sb_out \<sigma>)) cas = Inr (aLo, aHi)"
      "stmts (sb_out \<sigma>') = stmts (sb_out \<sigma>) @ CAS_stmts cas ty aLo aHi (cas_succeeded \<sigma>)"
    using assms
    by (auto simp: dg_original_statement_def original_CAS_def typeM_def envM_def monad_inv Let_def emit_def
        addStmtToIRSB_def whenM_def zip_opt_def derefM_def CAS_stmts_def split: option.splits)
  then show ?thesis
    using weave_CAS [OF a(2) weave_Nil, of S ty "cas_succeeded \<sigma>"] cas by auto
next
  case False
  then have "dg_original_statement st \<sigma> = emit st \<sigma>"
    by (cases st) (auto simp: dg_original_statement_def getM_def bindM_def)
  then show ?thesis
    using assms weaves_refl [of S "[st]"] by (auto simp: emit_def modifyM_def addStmtToIRSB_def)
qed

lemma appends_original: "appends (\<lambda>_ _ _. True) (dg_original_statement st)"
  unfolding dg_original_statement_def original_CAS_def Let_def
  by (auto intro!: appends_intro appends_emit split: IRStmt.split prod.split)

context emitting_handling
begin

lemma instrument_stmt_appends:
  "nonneg_offsets st \<Longrightarrow> appends (\<lambda>_ _ _. True) (instrument_stmt (add_statement_modified eh) st)"
  using statement_appends [of st]
  unfolding instrument_stmt_def by (intro appends_intro appends_original) (auto simp: appends_def intro: appended_mono)

lemma instrument_stmt_weaves:
  assumes "instrument_stmt (add_statement_modified eh) st \<sigma> = Inr (x, \<sigma>')" "nonneg_offsets st"
    and "tmp_offset \<sigma> \<le> length (tyenv (sb_out \<sigma>))"
  shows "\<exists>sts. stmts (sb_out \<sigma>') = stmts (sb_out \<sigma>) @ sts \<and> weaves (S (tmp_offset \<sigma>) (gs_offset \<sigma>)) [st] sts"
proof -
  let ?\<sigma> = "\<sigma>\<lparr>cas_succeeded := IRTemp_INVALID\<rparr>"
  obtain \<sigma>1 where 1: "add_statement_modified eh st ?\<sigma> = Inr ((), \<sigma>1)" "dg_original_statement st \<sigma>1 = Inr (x, \<sigma>')"
    using assms(1) by (auto simp: instrument_stmt_def monad_inv)
  obtain sts1 where s1: "stmts (sb_out \<sigma>1) = stmts (sb_out \<sigma>) @ sts1" "list_all (S (tmp_offset \<sigma>) (gs_offset \<sigma>)) sts1"
    using appendsD [OF statement_appends [OF assms(2)] 1(1)] assms(3) by (auto simp: appended_def)
  obtain sts2 where s2: "stmts (sb_out \<sigma>') = stmts (sb_out \<sigma>1) @ sts2" "weaves (S (tmp_offset \<sigma>) (gs_offset \<sigma>)) [st] sts2"
    using original_weaves [OF 1(2)] by blast
  show ?thesis
    using weaves_append [OF weaves_shadows [OF s1(2)] s2(2)] s1(1) s2(1) by auto
qed

lemma instrument_stmts_weaves:
  assumes "iterM (instrument_stmt (add_statement_modified eh)) os \<sigma> = Inr (x, \<sigma>')" "list_all nonneg_offsets os"
    and "tmp_offset \<sigma> \<le> length (tyenv (sb_out \<sigma>))"
  shows "\<exists>sts. stmts (sb_out \<sigma>') = stmts (sb_out \<sigma>) @ sts \<and> weaves (S (tmp_offset \<sigma>) (gs_offset \<sigma>)) os sts"
  using assms
proof (induction os arbitrary: \<sigma>)
  case Nil
  then show ?case by (auto simp: monad_inv intro: weave_Nil)
next
  case (Cons st os)
  obtain \<sigma>1 where 1: "instrument_stmt (add_statement_modified eh) st \<sigma> = Inr ((), \<sigma>1)"
      "iterM (instrument_stmt (add_statement_modified eh)) os \<sigma>1 = Inr (x, \<sigma>')"
    using Cons.prems(1) by (auto simp: monad_inv)
  have nn: "nonneg_offsets st" "list_all nonneg_offsets os" using Cons.prems(2) by auto
  have a: "appended (\<lambda>_ _ _. True) \<sigma> \<sigma>1"
    using appendsD [OF instrument_stmt_appends [OF nn(1)] 1(1) Cons.prems(3)] .
  obtain sts1 where s1: "stmts (sb_out \<sigma>1) = stmts (sb_out \<sigma>) @ sts1" "weaves (S (tmp_offset \<sigma>) (gs_offset \<sigma>)) [st] sts1"
    using instrument_stmt_weaves [OF 1(1) nn(1) Cons.prems(3)] by blast
  obtain sts2 where s2: "stmts (sb_out \<sigma>') = stmts (sb_out \<sigma>1) @ sts2" "weaves (S (tmp_offset \<sigma>1) (gs_offset \<sigma>1)) os sts2"
    using Cons.IH [OF 1(2) nn(2) appended_room [OF a Cons.prems(3)]] by blast
  show ?case
    using weaves_append [OF s1(2), of os sts2] s1(1) s2 a by (auto simp: appended_def)
qed

theorem instrument_block_weaves:
  assumes "instrument_block (add_statement_modified eh) k g sb = Inr sb'" "list_all nonneg_offsets (stmts sb)"
  shows "weaves (S (length (tyenv sb)) g) (stmts sb) (stmts sb')"
proof -
  let ?pre = "takeWhile (\<lambda>st. \<not> is_IMark st) (stmts sb)" and ?suf = "dropWhile (\<lambda>st. \<not> is_IMark st) (stmts sb)"
  obtain \<sigma> \<sigma>' where r: "iterM (instrument_stmt (add_statement_modified eh)) ?suf \<sigma> = Inr ((), \<sigma>')" "sb' = sb_out \<sigma>'"
      "tmp_offset \<sigma> = length (tyenv sb)" "gs_offset \<sigma> = g" "stmts (sb_out \<sigma>) = ?pre"
      "tmp_offset \<sigma> \<le> length (tyenv (sb_out \<sigma>))"
    using assms(1)
    by (auto simp: instrument_block_def Let_def copy_until_IMark_eq bindE_Inr shadow_layers deepCopyIRSBExceptStmts_def)
  have "list_all nonneg_offsets ?suf"
    using assms(2) by (auto simp: list_all_iff dest: set_dropWhileD)
  then obtain sts where "stmts sb' = ?pre @ sts" "weaves (S (length (tyenv sb)) g) ?suf sts"
    using instrument_stmts_weaves [OF r(1) _ r(6)] r(2-5) by auto
  then show ?thesis
    using weaves_append [OF weaves_refl [of _ ?pre]] by (metis takeWhile_dropWhile_id)
qed

end

section \<open>The original statement is accepted\<close>

lemma assignedOnce_transfer:
  assumes "assignedOnce_Stmt env st dcf = Inr dcf'" "\<forall>t<length env. dc t = dcf t"
  shows "assignedOnce_Stmt (env @ xs) st dc = Inr (\<lambda>t. if t \<in> stmt_defs st then 1 else dc t)"
  using assms by (cases st) (auto simp: monad_inv split: if_splits)

lemma wt_stmt_transfer:
  assumes "wt_stmt env gw dcf st dcf'" "\<forall>t<length env. dc t = dcf t"
  shows "wt_stmt (env @ xs) gw dc st (\<lambda>t. if t \<in> stmt_defs st then 1 else dc t)"
  using assms assignedOnce_transfer [of env st dcf dcf' dc xs]
  by (auto simp: wt_stmt_def useBeforeDef_Stmt_extend tcStmt_extend)

context shadow_handling
begin

lemma copy_stmt_runs:
  assumes "inv \<sigma> dc" "wt_stmt env0 gw dcf st dcf'" "\<forall>t<length env0. dc t = dcf t"
  shows "runs inv (emit st) \<sigma> dc (stmt_defs st) (\<lambda>_ _ _. True)"
proof -
  obtain xs where xs: "tyenv (sb_out \<sigma>) = env0 @ xs"
    using assms(1) by (auto simp: diff_inv_def)
  have "\<forall>t\<in>stmt_defs st. dc t = 0"
    using assms(2,3) assignedOnce_defs [of env0 st dcf dcf'] by (auto simp: wt_stmt_def)
  then show ?thesis
    using wt_stmt_transfer [OF assms(2,3), of xs] assms(1) xs by (intro runs_emit_defs) auto
qed

lemma emit_old_runs:
  assumes "inv \<sigma> dc" "t < length env0" "dc t = 0" "env0 ! t = ty" "wt (tyenv (sb_out \<sigma>)) gw dc addr gw"
  shows "runs inv (emit (IRStmt_WrTmp t (IRExpr_Load en ty addr))) \<sigma> dc {t} (\<lambda>_ _ _. True)"
proof (rule runs_emit_defs [OF assms(1)])
  show "wt_stmt (tyenv (sb_out \<sigma>)) gw dc (IRStmt_WrTmp t (IRExpr_Load en ty addr)) (\<lambda>u. if u \<in> {t} then 1 else dc u)"
    using assms diff_inv_length [OF assms(1)]
    by (intro wt_stmt_WrTmp2 [of _ _ _ _ ty]) (auto simp: wt_simps diff_inv_def nth_append)
qed (use assms in auto)

lemma emit_cas_store_runs:
  assumes "inv \<sigma> dc" "wt (tyenv (sb_out \<sigma>)) gw dc addr gw" "wt (tyenv (sb_out \<sigma>)) gw dc data ty"
    and "wt (tyenv (sb_out \<sigma>)) gw dc (IRExpr_RdTmp s) Ity_I1" "ty \<noteq> Ity_I1"
  shows "runs inv (emit (IRStmt_Store en addr (IRExpr_ITE (IRExpr_RdTmp s) data (IRExpr_Load en ty addr)))) \<sigma> dc {} (\<lambda>_ _ _. True)"
  using assms(2-5) by (intro runs_emit [OF assms(1)] wt_stmt_Store [of _ _ _ _ _ ty]) (simp_all add: wt_ITE wt_Load)

lemma original_CAS_runs:
  assumes in0: "input_ok dc0 \<sigma> dc" and f: "CAS_facts dc0 cas ty" and gw: "gw = Ity_I32 \<or> gw = Ity_I64"
    and old: "\<forall>t\<in>stmt_defs (IRStmt_CAS cas). dc t = 0"
    and s: "wt (tyenv (sb_out \<sigma>)) gw dc (IRExpr_RdTmp (cas_succeeded \<sigma>)) Ity_I1"
  shows "runs inv (original_CAS cas) \<sigma> dc (stmt_defs (IRStmt_CAS cas)) (\<lambda>_ _ _. True)"
proof -
  obtain aLo aHi where a: "addressesOfCAS (tyenv (sb_out \<sigma>)) cas = Inr (aLo, aHi)"
      "wt (tyenv (sb_out \<sigma>)) gw dc aLo gw" "aHi = None \<longleftrightarrow> expdHi cas = None"
      "\<forall>x. aHi = Some x \<longrightarrow> wt (tyenv (sb_out \<sigma>)) gw dc x gw"
    using CAS_addresses [OF in0 f gw] by (elim exE conjE) (rule that)
  have inv: "inv \<sigma> dc" and ety: "typeOfIRExpr (tyenv (sb_out \<sigma>)) (expdLo cas) = Inr ty" and ty: "ty \<noteq> Ity_I1"
    using in0 f wt_type [OF input_wt [OF in0]] by (auto simp: input_ok_def CAS_facts_def)
  let ?hi = "\<lambda>g. whenM (zip_opt (expdHi cas) aHi) g" and ?s = "cas_succeeded \<sigma>" and ?en = "cas_end cas"
  let ?Hi = "if expdHi cas = None then {} else {oldHi cas}"
  let ?st = "\<lambda>a d. emit (IRStmt_Store ?en a (IRExpr_ITE (IRExpr_RdTmp ?s) d (IRExpr_Load ?en ty a)))"
  have lo: "runs inv (emit (IRStmt_WrTmp (oldLo cas) (IRExpr_Load ?en ty aLo))) \<sigma> dc {oldLo cas} (\<lambda>_ _ _. True)"
    using f old a(2) by (intro emit_old_runs [OF inv]) (auto simp: CAS_facts_def)
  have "runs inv (seqM (emit (IRStmt_WrTmp (oldLo cas) (IRExpr_Load ?en ty aLo)))
     (seqM (?hi (\<lambda>_ addr. emit (IRStmt_WrTmp (oldHi cas) (IRExpr_Load ?en ty addr))))
     (seqM (?st aLo (dataLo cas)) (?hi (\<lambda>_ addr. bindM (derefM (dataHi cas)) (?st addr)))))) \<sigma> dc
     ({oldLo cas} \<union> (?Hi \<union> ({} \<union> {}))) (\<lambda>_ _ _. True)"
  proof (rule runs_seq [OF lo])
    fix x \<sigma>1 dc1 assume 1: "inv \<sigma>1 dc1" "progress \<sigma> dc \<sigma>1 dc1 {oldLo cas}"
    have "dc1 (oldHi cas) = 0" if "expdHi cas \<noteq> None"
      using that f old progress_at [OF 1(2), of "oldHi cas"] diff_inv_length [OF inv]
      by (auto simp: CAS_facts_def)
    then have hi: "runs inv (?hi (\<lambda>_ addr. emit (IRStmt_WrTmp (oldHi cas) (IRExpr_Load ?en ty addr)))) \<sigma>1 dc1 ?Hi (\<lambda>_ _ _. True)"
      using 1(1) f a(3,4) progress_wt [OF 1(2)]
      by (auto simp: whenM_def zip_opt_def CAS_facts_def split: option.splits intro!: runs_return emit_old_runs)
    show "runs inv (seqM (?hi (\<lambda>_ addr. emit (IRStmt_WrTmp (oldHi cas) (IRExpr_Load ?en ty addr))))
       (seqM (?st aLo (dataLo cas)) (?hi (\<lambda>_ addr. bindM (derefM (dataHi cas)) (?st addr))))) \<sigma>1 dc1
       (?Hi \<union> ({} \<union> {})) (\<lambda>_ _ _. True)"
    proof (rule runs_seq [OF hi])
      fix x \<sigma>2 dc2 assume 2: "inv \<sigma>2 dc2" "progress \<sigma>1 dc1 \<sigma>2 dc2 ?Hi"
      have p: "progress \<sigma> dc \<sigma>2 dc2 ({oldLo cas} \<union> ?Hi)" by (rule progress_trans [OF 1(2) 2(2)])
      have in2: "input_ok dc0 \<sigma>2 dc2" using in0 2(1) p by (rule input_ok_progress)
      have "runs inv (?st aLo (dataLo cas)) \<sigma>2 dc2 {} (\<lambda>_ _ _. True)"
        using f input_wt [OF in2] progress_wt [OF p] a(2) s ty
        by (intro emit_cas_store_runs [OF 2(1)]) (auto simp: CAS_facts_def)
      then show "runs inv (seqM (?st aLo (dataLo cas)) (?hi (\<lambda>_ addr. bindM (derefM (dataHi cas)) (?st addr)))) \<sigma>2 dc2
          ({} \<union> {}) (\<lambda>_ _ _. True)"
      proof (rule runs_seq)
        fix x \<sigma>3 dc3 assume 3: "inv \<sigma>3 dc3" "progress \<sigma>2 dc2 \<sigma>3 dc3 {}"
        have p3: "progress \<sigma> dc \<sigma>3 dc3 ({oldLo cas} \<union> ?Hi \<union> {})" by (rule progress_trans [OF p 3(2)])
        have in3: "input_ok dc0 \<sigma>3 dc3" using in0 3(1) p3 by (rule input_ok_progress)
        show "runs inv (?hi (\<lambda>_ addr. bindM (derefM (dataHi cas)) (?st addr))) \<sigma>3 dc3 {} (\<lambda>_ _ _. True)"
          using f input_wt [OF in3] progress_wt [OF p3] a(3,4) s ty 3(1)
          by (auto simp: whenM_def zip_opt_def CAS_facts_def derefM_def split: option.splits
              intro!: runs_return emit_cas_store_runs)
      qed
    qed
  qed
  moreover have "stmt_defs (IRStmt_CAS cas) = {oldLo cas} \<union> (?Hi \<union> ({} \<union> {}))"
    using f by (auto simp: CAS_facts_def split: option.splits)
  ultimately show ?thesis
    using a(1) ety by (simp add: original_CAS_def typeM_def envM_def liftM_def runs_def bindM_def getM_def Let_def)
qed

section \<open>The instrumented block is accepted\<close>

text \<open>
  The state between two instrumented statements. \<open>dc0\<close> counts the definitions since the first
  \<^verbatim>\<open>IMark\<close>, \<open>dcf\<close> those since the beginning of the block: the output block defines the
  original temporaries as \<open>dcf\<close> says and their shadows as \<open>dc0\<close> says.
\<close>

definition block_inv :: "def_counts \<Rightarrow> def_counts \<Rightarrow> DiffEnv \<Rightarrow> def_counts \<Rightarrow> bool" where
  "block_inv dc0 dcf \<sigma> dc \<longleftrightarrow> inv \<sigma> dc \<and> (\<forall>t<length env0. dc t = dcf t \<and> dc0 t \<le> dcf t
     \<and> (\<forall>u\<in>shadow_temps (length env0) k t. dc u = dc0 t))"

lemma block_inv_input_ok: "block_inv dc0 dcf \<sigma> dc \<Longrightarrow> input_ok dc0 \<sigma> dc"
  by (auto simp: block_inv_def input_ok_def)

lemma shadow_defs_iff:
  assumes "\<forall>t\<in>stmt_defs st. t < length env0" "t < length env0" "u \<in> shadow_temps (length env0) k t"
  shows "u \<in> shadow_defs st \<longleftrightarrow> t \<in> stmt_defs st" "u \<notin> stmt_defs st" "t \<notin> shadow_defs st"
proof -
  show "u \<in> shadow_defs st \<longleftrightarrow> t \<in> stmt_defs st"
    using assms shadow_temps_mod [OF assms(2,3)] shadow_temps_mod [of _ "length env0" u k]
    unfolding shadow_defs_def by auto
  show "u \<notin> stmt_defs st"
    using assms shadow_temps_bound [OF assms(2,3)] by auto
  show "t \<notin> shadow_defs st"
    using assms(1,2) shadow_temps_bound [of _ "length env0" t k] unfolding shadow_defs_def by fastforce
qed

lemma shadow_defs_ge:
  "\<forall>t\<in>stmt_defs st. t < length env0 \<Longrightarrow> t < length env0 \<Longrightarrow> t \<notin> shadow_defs st"
  using shadow_temps_bound [of _ "length env0" t k] unfolding shadow_defs_def by fastforce

lemma original_statement_runs:
  assumes "input_ok dc0 \<sigma> dc" "wt_stmt env0 gw dc0 st dc0'" "wt_stmt env0 gw dcf st dcf'"
    and "isFlatIRStmt st = Inr True" "gw = Ity_I32 \<or> gw = Ity_I64" "\<forall>t<length env0. dc t = dcf t"
    and "\<And>cas. st = IRStmt_CAS cas \<Longrightarrow> wt (tyenv (sb_out \<sigma>)) gw dc (IRExpr_RdTmp (cas_succeeded \<sigma>)) Ity_I1"
  shows "runs inv (dg_original_statement st) \<sigma> dc (stmt_defs st) (\<lambda>_ _ _. True)"
proof (cases "\<exists>cas. st = IRStmt_CAS cas \<and> cas_succeeded \<sigma> \<noteq> IRTemp_INVALID")
  case True
  then obtain cas where cas: "st = IRStmt_CAS cas" "cas_succeeded \<sigma> \<noteq> IRTemp_INVALID" by blast
  obtain ty where ty: "CAS_facts dc0 cas ty"
    using CAS_factsI [of dc0 cas dc0'] assms(2,4) cas by auto
  have "\<forall>t\<in>stmt_defs (IRStmt_CAS cas). dc t = 0"
    using assignedOnce_defs [of env0 st dcf dcf'] assms(3,6) cas(1) by (simp add: wt_stmt_def)
  then have "runs inv (original_CAS cas) \<sigma> dc (stmt_defs st) (\<lambda>_ _ _. True)"
    using original_CAS_runs [OF assms(1) ty assms(5)] assms(7) cas(1) by simp
  then show ?thesis
    using cas by (simp add: dg_original_statement_def getM_def bindM_def runs_def)
next
  case False
  have "inv \<sigma> dc" using assms(1) by (simp add: input_ok_def)
  then have "runs inv (emit st) \<sigma> dc (stmt_defs st) (\<lambda>_ _ _. True)"
    using assms(3,6) by (rule copy_stmt_runs)
  moreover have "dg_original_statement st \<sigma> = emit st \<sigma>"
    using False by (cases st) (auto simp: dg_original_statement_def getM_def bindM_def)
  ultimately show ?thesis by (simp add: runs_def)
qed

lemma instrument_stmt_ok:
  assumes bi: "block_inv dc0 dcf \<sigma> dc" and w0: "wt_stmt env0 gw dc0 st dc0'" and wf: "wt_stmt env0 gw dcf st dcf'"
    and flat: "isFlatIRStmt st = Inr True" and ok: "ok_stmt gw env0 goff k good_op good_ty st"
    and gw: "gw = Ity_I32 \<or> gw = Ity_I64"
  shows "\<exists>\<sigma>' dc'. instrument_stmt (add_statement_modified eh) st \<sigma> = Inr ((), \<sigma>') \<and> block_inv dc0' dcf' \<sigma>' dc'"
proof -
  let ?\<sigma> = "\<sigma>\<lparr>cas_succeeded := IRTemp_INVALID\<rparr>"
  have d0: "\<forall>t\<in>stmt_defs st. t < length env0 \<and> dc0 t = 0" "dc0' = (\<lambda>t. if t \<in> stmt_defs st then 1 else dc0 t)"
    and df: "\<forall>t\<in>stmt_defs st. dcf t = 0" "dcf' = (\<lambda>t. if t \<in> stmt_defs st then 1 else dcf t)"
    using assignedOnce_defs [of env0 st dc0 dc0'] assignedOnce_defs [of env0 st dcf dcf'] w0 wf
    by (auto simp: wt_stmt_def)
  have bi': "block_inv dc0 dcf ?\<sigma> dc" using bi unfolding block_inv_def diff_inv_def by simp
  have un: "\<forall>t\<in>stmt_defs st. unshadowed dc t" using bi d0 by (auto simp: block_inv_def unshadowed_def)
  obtain \<sigma>1 dc1 where 1: "add_statement_modified eh st ?\<sigma> = Inr ((), \<sigma>1)" "inv \<sigma>1 dc1"
      "progress ?\<sigma> dc \<sigma>1 dc1 (shadow_defs st)"
      "\<And>cas. st = IRStmt_CAS cas \<Longrightarrow> wt (tyenv (sb_out \<sigma>1)) gw dc1 (IRExpr_RdTmp (cas_succeeded \<sigma>1)) Ity_I1"
    using add_statement_ok [OF block_inv_input_ok [OF bi'] w0 flat ok gw un] by auto
  have len: "Suc k * length env0 \<le> length (tyenv (sb_out ?\<sigma>))"
    using bi' diff_inv_length unfolding block_inv_def by blast
  have low: "dc1 t = dcf t" if "t < length env0" for t
    using progress_at [OF 1(3), of t] len that shadow_defs_ge [of st t] d0 bi by (auto simp: block_inv_def)
  have "input_ok dc0 \<sigma>1 dc1" using block_inv_input_ok [OF bi'] 1(2,3) by (rule input_ok_progress)
  then have "runs inv (dg_original_statement st) \<sigma>1 dc1 (stmt_defs st) (\<lambda>_ _ _. True)"
    using original_statement_runs [OF _ w0 wf flat gw] low 1(4) by simp
  then obtain \<sigma>2 dc2 where 2: "dg_original_statement st \<sigma>1 = Inr ((), \<sigma>2)" "inv \<sigma>2 dc2"
      "progress \<sigma>1 dc1 \<sigma>2 dc2 (stmt_defs st)"
    by (elim runsE) auto
  have "block_inv dc0' dcf' \<sigma>2 dc2"
    unfolding block_inv_def
  proof (intro conjI allI impI ballI)
    fix t assume t: "t < length env0"
    have len1: "t < length (tyenv (sb_out \<sigma>1))" using t diff_inv_length [OF 1(2)] by simp
    show "dc2 t = dcf' t" using progress_at [OF 2(3) len1] low [OF t] df by auto
    show "dc0' t \<le> dcf' t" using bi t d0 df by (auto simp: block_inv_def)
    fix u assume u: "u \<in> shadow_temps (length env0) k t"
    have u0: "u < length (tyenv (sb_out ?\<sigma>))" using shadow_temps_bound [OF t u] len by linarith
    have u1: "u < length (tyenv (sb_out \<sigma>1))" using u0 progress_length [OF 1(3)] by linarith
    have "dc2 u = dc1 u" using progress_at [OF 2(3) u1] shadow_defs_iff [OF _ t u] d0 by auto
    also have "\<dots> = dc0' t"
      using progress_at [OF 1(3) u0] shadow_defs_iff [OF _ t u] d0 bi t u by (auto simp: block_inv_def)
    finally show "dc2 u = dc0' t" .
  qed (rule 2(2))
  then show ?thesis
    using 1(1) 2(1) by (auto simp: instrument_stmt_def seqM_def bindM_def modifyM_def)
qed

lemma instrument_stmts_ok:
  assumes "defs_Stmts env0 dc0 sts = Inr e0" "defs_Stmts env0 dcf sts = Inr ef" "tc_Stmts env0 gw sts = Inr ()"
    and "flat_Stmts sts = Inr ()" "list_all (ok_stmt gw env0 goff k good_op good_ty) sts" "gw = Ity_I32 \<or> gw = Ity_I64"
    and "block_inv dc0 dcf \<sigma> dc"
  shows "\<exists>\<sigma>' dc'. iterM (instrument_stmt (add_statement_modified eh)) sts \<sigma> = Inr ((), \<sigma>') \<and> inv \<sigma>' dc'"
  using assms
proof (induction sts arbitrary: dc0 dcf \<sigma> dc)
  case Nil
  then show ?case by (auto simp: returnM_def block_inv_def)
next
  case (Cons st sts)
  obtain dc0' dcf' where w: "wt_stmt env0 gw dc0 st dc0'" "wt_stmt env0 gw dcf st dcf'"
      "defs_Stmts env0 dc0' sts = Inr e0" "defs_Stmts env0 dcf' sts = Inr ef"
    using Cons.prems(1-3) by (auto simp: wt_stmt_def monad_inv)
  obtain \<sigma>1 dc1 where 1: "instrument_stmt (add_statement_modified eh) st \<sigma> = Inr ((), \<sigma>1)" "block_inv dc0' dcf' \<sigma>1 dc1"
    using instrument_stmt_ok [OF Cons.prems(7) w(1,2)] Cons.prems(4-6) by (auto simp: monad_inv)
  show ?case
    using Cons.IH [OF w(3,4) _ _ _ Cons.prems(6) 1(2)] Cons.prems(3-5) 1(1) by (auto simp: monad_inv)
qed

theorem instrument_block_ok:
  assumes pre: pre and sane: "sanityCheckIRSB sb True gw = Inr ()" and env: "tyenv sb = env0"
    and suffix: "defs_Stmts env0 (\<lambda>_. 0) (dropWhile (\<lambda>st. \<not> is_IMark st) (stmts sb)) = Inr e0"
    and ok: "list_all (ok_stmt gw env0 goff k good_op good_ty) (dropWhile (\<lambda>st. \<not> is_IMark st) (stmts sb))"
  shows "\<exists>sb'. instrument_block (add_statement_modified eh) k goff sb = Inr sb'
     \<and> (length (tyenv sb') \<le> IRTemp_INVALID \<longrightarrow> sanityCheckIRSB sb' False gw = Inr ())"
proof -
  let ?pre = "takeWhile (\<lambda>st. \<not> is_IMark st) (stmts sb)" and ?suf = "dropWhile (\<lambda>st. \<not> is_IMark st) (stmts sb)"
  let ?env = "env0 @ concat (replicate k env0)"
  let ?sb = "\<lparr>tyenv = ?env, stmts = ?pre, sb_next = sb_next sb, jumpkind = jumpkind sb, offsIP = offsIP sb\<rparr>"
  let ?\<sigma> = "\<lparr>tmp_offset = length env0, gs_offset = goff, sb_out = ?sb, cas_succeeded = IRTemp_INVALID\<rparr>"
  have gw: "gw = Ity_I32 \<or> gw = Ity_I64" and flat: "flat_Stmts (?pre @ ?suf) = Inr ()"
    and nxt: "typeOfIRExpr env0 (sb_next sb) = Inr gw" "16 \<le> offsIP sb"
    using sane env by (auto simp: sanityCheckIRSB_def monad_inv)
  obtain ef where "defs_Stmts env0 (\<lambda>_. 0) (?pre @ ?suf) = Inr ef" and tc: "tc_Stmts env0 gw (?pre @ ?suf) = Inr ()"
    using sane env by (auto simp: sanityCheckIRSB_def monad_inv)
  then obtain dcf where dcf: "defs_Stmts env0 (\<lambda>_. 0) ?pre = Inr dcf" "defs_Stmts env0 dcf ?suf = Inr ef"
    unfolding defs_Stmts_append by (auto simp: bindE_Inr)
  have tc': "tc_Stmts env0 gw ?pre = Inr ()" "tc_Stmts env0 gw ?suf = Inr ()"
    using tc unfolding tc_Stmts_append by (auto simp: bindE_Inr)
  have flat': "flat_Stmts ?suf = Inr ()"
    using flat by (simp only: flat_Stmts_append bindE_Inr) auto
  have fresh: "dcf u = 0" if "length env0 \<le> u" for u
    using defs_Stmts_bound [OF dcf(1)] that by simp
  then have "inv ?\<sigma> dcf"
    using pre dcf(1) tc'(1) by (auto simp: diff_inv_def sane_sb_def intro!: defs_Stmts_extend tc_Stmts_extend)
  then have "block_inv (\<lambda>_. 0) dcf ?\<sigma> dcf"
    using shadow_temps_bound [of _ "length env0" _ k] fresh by (auto simp: block_inv_def)
  then obtain \<sigma>' dc' where r: "iterM (instrument_stmt (add_statement_modified eh)) ?suf ?\<sigma> = Inr ((), \<sigma>')" "inv \<sigma>' dc'"
    using instrument_stmts_ok [OF suffix dcf(2) tc'(2) flat' ok gw] by blast
  have "appends (\<lambda>_ _ _. True) (iterM (instrument_stmt (add_statement_modified eh)) ?suf)"
    using ok by (intro appends_iterM instrument_stmt_appends) (auto simp: list_all_iff dest: ok_stmt_nonneg)
  from appendsD [OF this r(1)] have a: "appended (\<lambda>_ _ _. True) ?\<sigma> \<sigma>'" by simp
  have "instrument_block (add_statement_modified eh) k goff sb = Inr (sb_out \<sigma>')"
    using r(1) env
    by (simp add: instrument_block_def Let_def copy_until_IMark_eq shadow_layers deepCopyIRSBExceptStmts_def)
  moreover have "sanityCheckIRSB (sb_out \<sigma>') False gw = Inr ()" if "length (tyenv (sb_out \<sigma>')) \<le> IRTemp_INVALID"
    using that gw nxt r(2) a by (auto simp: sanityCheckIRSB_iff diff_inv_def appended_def block_end_def)
  ultimately show ?thesis by blast
qed

end

end
