(* ===== verification/DG_OpRules.thy ===== *)
theory DG_OpRules
  imports DG_Block
begin

text \<open>
  What the three code generators of \<^verbatim>\<open>derivgrind/gen_operationhandling_code.py\<close> share. The
  script writes one C \<^verbatim>\<open>case\<close> per VEX operation into
  \<^verbatim>\<open>dg_dot_operations.c\<close>, \<^verbatim>\<open>dg_bar_operations.c\<close> and
  \<^verbatim>\<open>dg_trick_operations.c\<close>. This theory holds its tables of operations (SIMD layouts,
  minimum and maximum, bitwise logic, moves, shifts, conversions), the guard around every case
  (\<open>op_case\<close>, the common part of \<^verbatim>\<open>makeCaseDot\<close>, \<^verbatim>\<open>makeCaseBar\<close> and
  \<^verbatim>\<open>makeCaseTrick\<close>), \<^verbatim>\<open>IROp_Info.apply\<close> and
  \<^verbatim>\<open>applyComponentwisely\<close>. The C text that the script assembles from strings is here the
  monadic code that this text denotes. The cases are disjoint, so the order of the switch does not
  matter.
\<close>

section \<open>Tables of operations\<close>

record arith_layout =
  add_op :: IROp
  sub_op :: IROp
  mul_op :: IROp
  div_op :: IROp
  sqrt_op :: IROp
  fpsize :: nat
  simdsize :: nat
  llo :: bool

definition arith_layouts :: "arith_layout list" where
  "arith_layouts =
    [\<lparr>add_op = Iop_AddF64, sub_op = Iop_SubF64, mul_op = Iop_MulF64, div_op = Iop_DivF64,
      sqrt_op = Iop_SqrtF64, fpsize = 8, simdsize = 1, llo = False\<rparr>,
     \<lparr>add_op = Iop_AddF32, sub_op = Iop_SubF32, mul_op = Iop_MulF32, div_op = Iop_DivF32,
      sqrt_op = Iop_SqrtF32, fpsize = 4, simdsize = 1, llo = False\<rparr>,
     \<lparr>add_op = Iop_Add64Fx2, sub_op = Iop_Sub64Fx2, mul_op = Iop_Mul64Fx2, div_op = Iop_Div64Fx2,
      sqrt_op = Iop_Sqrt64Fx2, fpsize = 8, simdsize = 2, llo = False\<rparr>,
     \<lparr>add_op = Iop_Add64Fx4, sub_op = Iop_Sub64Fx4, mul_op = Iop_Mul64Fx4, div_op = Iop_Div64Fx4,
      sqrt_op = Iop_Sqrt64Fx4, fpsize = 8, simdsize = 4, llo = False\<rparr>,
     \<lparr>add_op = Iop_Add32Fx4, sub_op = Iop_Sub32Fx4, mul_op = Iop_Mul32Fx4, div_op = Iop_Div32Fx4,
      sqrt_op = Iop_Sqrt32Fx4, fpsize = 4, simdsize = 4, llo = False\<rparr>,
     \<lparr>add_op = Iop_Add32Fx8, sub_op = Iop_Sub32Fx8, mul_op = Iop_Mul32Fx8, div_op = Iop_Div32Fx8,
      sqrt_op = Iop_Sqrt32Fx8, fpsize = 4, simdsize = 8, llo = False\<rparr>,
     \<lparr>add_op = Iop_Add32F0x4, sub_op = Iop_Sub32F0x4, mul_op = Iop_Mul32F0x4, div_op = Iop_Div32F0x4,
      sqrt_op = Iop_Sqrt32F0x4, fpsize = 4, simdsize = 4, llo = True\<rparr>,
     \<lparr>add_op = Iop_Add64F0x2, sub_op = Iop_Sub64F0x2, mul_op = Iop_Mul64F0x2, div_op = Iop_Div64F0x2,
      sqrt_op = Iop_Sqrt64F0x2, fpsize = 8, simdsize = 2, llo = True\<rparr>]"

definition arith_ops :: "arith_layout \<Rightarrow> IROp list" where
  "arith_ops L = [add_op L, sub_op L, mul_op L, div_op L, sqrt_op L]"

definition sqrt_noroundingmode :: "arith_layout \<Rightarrow> bool" where
  "sqrt_noroundingmode L \<longleftrightarrow> llo L \<or> fpsize L * simdsize L = 32"

text \<open>Negation: operation, component size, number of components.\<close>

definition neg_table :: "(IROp \<times> nat \<times> nat) list" where
  "neg_table = [(Iop_NegF64, 8, 1), (Iop_NegF32, 4, 1), (Iop_Neg64Fx2, 8, 2), (Iop_Neg32Fx2, 4, 2),
                (Iop_Neg32Fx4, 4, 4)]"

text \<open>Minimum and maximum: operation, whether it is the minimum, component size, components, llo.\<close>

definition minmax_table :: "(IROp \<times> bool \<times> nat \<times> nat \<times> bool) list" where
  "minmax_table =
    [(Iop_Min32Fx2, True, 4, 2, False), (Iop_Min32Fx4, True, 4, 4, False), (Iop_Min32F0x4, True, 4, 4, True),
     (Iop_Min64Fx2, True, 8, 2, False), (Iop_Min64F0x2, True, 8, 2, True), (Iop_Min32Fx8, True, 4, 8, False),
     (Iop_Min64Fx4, True, 8, 4, False),
     (Iop_Max32Fx2, False, 4, 2, False), (Iop_Max32Fx4, False, 4, 4, False), (Iop_Max32F0x4, False, 4, 4, True),
     (Iop_Max64Fx2, False, 8, 2, False), (Iop_Max64F0x2, False, 8, 2, True), (Iop_Max32Fx8, False, 4, 8, False),
     (Iop_Max64Fx4, False, 8, 4, False)]"

text \<open>Bitwise logic: operation, name, component size, number of components.\<close>

definition bitwise_table :: "(IROp \<times> string \<times> nat \<times> nat) list" where
  "bitwise_table =
    [(Iop_And32, ''and'', 4, 1), (Iop_And64, ''and'', 8, 1), (Iop_AndV128, ''and'', 8, 2), (Iop_AndV256, ''and'', 8, 4),
     (Iop_Or32, ''or'', 4, 1), (Iop_Or64, ''or'', 8, 1), (Iop_OrV128, ''or'', 8, 2), (Iop_OrV256, ''or'', 8, 4),
     (Iop_Xor32, ''xor'', 4, 1), (Iop_Xor64, ''xor'', 8, 1), (Iop_XorV128, ''xor'', 8, 2), (Iop_XorV256, ''xor'', 8, 4)]"

text \<open>Fused multiply-add: operation, whether it adds (else subtracts), component size.\<close>

definition fma_table :: "(IROp \<times> bool \<times> nat) list" where
  "fma_table = [(Iop_MAddF64, True, 8), (Iop_MAddF32, True, 4), (Iop_MSubF64, False, 8), (Iop_MSubF32, False, 4)]"

text \<open>Unary operations that move data or set it to zero.\<close>

definition unary_move_ops :: "IROp list" where
  "unary_move_ops =
    [Iop_ReinterpI32asF32, Iop_ReinterpF32asI32, Iop_ReinterpI64asF64, Iop_ReinterpF64asI64,
     Iop_16to8, Iop_32to16, Iop_64to32, Iop_V128to64, Iop_128to64,
     Iop_16HIto8, Iop_32HIto16, Iop_64HIto32, Iop_V128HIto64, Iop_128HIto64,
     Iop_64to8, Iop_32to8, Iop_64to16, Iop_V256toV128_0, Iop_V256toV128_1, Iop_64UtoV128, Iop_32UtoV128,
     Iop_V128to32, Iop_ZeroHI64ofV128, Iop_ZeroHI96ofV128, Iop_ZeroHI112ofV128, Iop_ZeroHI120ofV128,
     Iop_8Uto16, Iop_8Sto16, Iop_8Uto32, Iop_8Sto32, Iop_8Uto64, Iop_8Sto64,
     Iop_16Uto32, Iop_16Sto32, Iop_16Uto64, Iop_16Sto64, Iop_32Uto64, Iop_32Sto64]"

text \<open>Binary operations that move data.\<close>

definition binary_move_ops :: "IROp list" where
  "binary_move_ops =
    [Iop_8HLto16, Iop_16HLto32, Iop_32HLto64, Iop_64HLto128, Iop_64HLtoV128, Iop_V128HLtoV256,
     Iop_SetV128lo32, Iop_SetV128lo64,
     Iop_InterleaveHI8x16, Iop_InterleaveHI16x8, Iop_InterleaveHI32x4, Iop_InterleaveHI64x2,
     Iop_InterleaveLO8x16, Iop_InterleaveLO16x8, Iop_InterleaveLO32x4, Iop_InterleaveLO64x2]"

definition shift_ops :: "IROp list" where
  "shift_ops = [Iop_Shr8, Iop_Shr16, Iop_Shr32, Iop_Shr64, Iop_Shl8, Iop_Shl16, Iop_Shl32, Iop_Shl64]"

definition zero_unary_ops :: "IROp list" where
  "zero_unary_ops = [Iop_I32StoF64, Iop_I32UtoF64]"

definition zero_binary64_ops :: "IROp list" where
  "zero_binary64_ops = [Iop_I64StoF64, Iop_I64UtoF64, Iop_RoundF64toInt]"

definition zero_binary32_ops :: "IROp list" where
  "zero_binary32_ops = [Iop_I64StoF32, Iop_I64UtoF32, Iop_I32StoF32, Iop_I32UtoF32]"

section \<open>Applying an operation\<close>

definition dg_rounding_mode :: IRExpr where
  "dg_rounding_mode = IRExpr_Const (IRConst_U32 0)"

fun apply_op :: "IROp \<Rightarrow> IRExpr list \<Rightarrow> vex_error + IRExpr" where
  "apply_op op [a] = Inr (IRExpr_Unop op a)"
| "apply_op op [a, b] = Inr (IRExpr_Binop op a b)"
| "apply_op op [a, b, c] = Inr (IRExpr_Triop op a b c)"
| "apply_op op [a, b, c, d] = Inr (IRExpr_Qop op a b c d)"
| "apply_op op _ = Inl (Undefined ''IROp_Info.apply'')"

definition cF64 :: "64 word \<Rightarrow> IRExpr" where
  "cF64 w = IRExpr_Const (IRConst_F64 w)"

section \<open>The guard of a case\<close>

text \<open>
  \<^verbatim>\<open>makeCaseDot\<close> and its siblings return NULL when the shadow of a differentiable input is
  missing. The operands \<^verbatim>\<open>arg1\<close> to \<^verbatim>\<open>arg<nargs>\<close> are never NULL for an operation
  of arity \<^verbatim>\<open>nargs\<close>.
\<close>

definition op_case ::
    "nat \<Rightarrow> nat list \<Rightarrow> IRExpr option list \<Rightarrow> 'd option list
     \<Rightarrow> ((nat \<Rightarrow> IRExpr) \<Rightarrow> (nat \<Rightarrow> 'd) \<Rightarrow> 'd dgM) \<Rightarrow> 'd option dgM" where
  "op_case nargs diffinputs as ds body =
     (if \<not> list_all (\<lambda>i. ds ! (i - 1) \<noteq> None) diffinputs then returnM None
      else if \<not> list_all (\<lambda>i. as ! (i - 1) \<noteq> None) [1..<nargs + 1]
      then failM (Undefined ''operand'')
      else someM (body (\<lambda>i. the (as ! (i - 1))) (\<lambda>i. the (ds ! (i - 1)))))"

section \<open>Component-wise code\<close>

text \<open>
  The body of a component sees the parts of the inputs as I64 expressions and returns the parts of
  the outputs as I64 expressions; components of four bytes are widened and narrowed.
\<close>

definition component_inputs :: "nat \<Rightarrow> nat \<Rightarrow> nat \<Rightarrow> IRExpr list \<Rightarrow> IRTypeEnv \<Rightarrow> vex_error + IRExpr list" where
  "component_inputs fps simd i inputs env =
     mapE (\<lambda>e. bindE (getSIMDComponent env e fps simd i) (\<lambda>p.
       Inr (if fps = 4 then IRExpr_Binop Iop_32HLto64 (IRExpr_Const (IRConst_U32 0)) p else p))) inputs"

definition component_outputs :: "nat \<Rightarrow> IRExpr list \<Rightarrow> IRExpr list" where
  "component_outputs fps outs = map (\<lambda>e. if fps = 4 then IRExpr_Unop Iop_64to32 e else e) outs"

definition applyComponentwisely ::
    "IRExpr list \<Rightarrow> nat \<Rightarrow> nat \<Rightarrow> nat \<Rightarrow> (nat \<Rightarrow> IRExpr list \<Rightarrow> IRExpr list dgM) \<Rightarrow> IRExpr list dgM" where
  "applyComponentwisely inputs nouts fps simd body =
     bindM (mapM (\<lambda>i.
              bindM (envM (component_inputs fps simd i inputs)) (\<lambda>parts.
              bindM (body i parts) (\<lambda>outs. returnM (component_outputs fps outs)))) [0..<simd]) (\<lambda>parts.
     envM (\<lambda>env. mapE (\<lambda>k. assembleSIMDVector env (map (\<lambda>outs. outs ! k) parts) fps simd) [0..<nouts]))"

section \<open>Emission\<close>

lemma appends_branch [appends_intro]:
  "appends S m \<Longrightarrow> appends S n \<Longrightarrow> appends S (if b then m else n)"
  "appends S n \<Longrightarrow> (\<And>x. appends S (f x)) \<Longrightarrow> appends S (case p of None \<Rightarrow> n | Some x \<Rightarrow> f x)"
  "(\<And>a b. appends S (g a b)) \<Longrightarrow> appends S (case q of (a, b) \<Rightarrow> g a b)"
  by (auto split: option.split prod.split)

lemma appends_op_case [appends_intro]:
  "(\<And>A D. appends S (body A D)) \<Longrightarrow> appends S (op_case n is as ds body)"
  by (simp add: op_case_def appends_intro)

lemma appends_componentwise [appends_intro]:
  "(\<And>i parts. appends S (body i parts)) \<Longrightarrow> appends S (applyComponentwisely inputs nouts fps simd body)"
  unfolding applyComponentwisely_def by (intro appends_intro)

end
