(* ===== verification/DG_OpTypes.thy ===== *)
theory DG_OpTypes
  imports DG_OpRules
begin

text \<open>
  The signatures of the operations that have rules, and their arities and vector types as facts about
  the tables of \<open>DG_OpRules\<close>. With these facts the typing of a rule is proved once per family of
  operations instead of once per operation.
\<close>

section \<open>Signatures\<close>

lemma prim_types_arith [prim_types]:
  "typeOfPrimop Iop_AddF64 = Inr (Ity_F64, Ity_I32, Ity_F64, Ity_F64, Ity_INVALID)"
  "typeOfPrimop Iop_SubF64 = Inr (Ity_F64, Ity_I32, Ity_F64, Ity_F64, Ity_INVALID)"
  "typeOfPrimop Iop_MulF64 = Inr (Ity_F64, Ity_I32, Ity_F64, Ity_F64, Ity_INVALID)"
  "typeOfPrimop Iop_DivF64 = Inr (Ity_F64, Ity_I32, Ity_F64, Ity_F64, Ity_INVALID)"
  "typeOfPrimop Iop_SqrtF64 = Inr (Ity_F64, Ity_I32, Ity_F64, Ity_INVALID, Ity_INVALID)"
  "typeOfPrimop Iop_AddF32 = Inr (Ity_F32, Ity_I32, Ity_F32, Ity_F32, Ity_INVALID)"
  "typeOfPrimop Iop_SubF32 = Inr (Ity_F32, Ity_I32, Ity_F32, Ity_F32, Ity_INVALID)"
  "typeOfPrimop Iop_MulF32 = Inr (Ity_F32, Ity_I32, Ity_F32, Ity_F32, Ity_INVALID)"
  "typeOfPrimop Iop_DivF32 = Inr (Ity_F32, Ity_I32, Ity_F32, Ity_F32, Ity_INVALID)"
  "typeOfPrimop Iop_SqrtF32 = Inr (Ity_F32, Ity_I32, Ity_F32, Ity_INVALID, Ity_INVALID)"
  "typeOfPrimop Iop_Add64Fx2 = Inr (Ity_V128, Ity_I32, Ity_V128, Ity_V128, Ity_INVALID)"
  "typeOfPrimop Iop_Sub64Fx2 = Inr (Ity_V128, Ity_I32, Ity_V128, Ity_V128, Ity_INVALID)"
  "typeOfPrimop Iop_Mul64Fx2 = Inr (Ity_V128, Ity_I32, Ity_V128, Ity_V128, Ity_INVALID)"
  "typeOfPrimop Iop_Div64Fx2 = Inr (Ity_V128, Ity_I32, Ity_V128, Ity_V128, Ity_INVALID)"
  "typeOfPrimop Iop_Sqrt64Fx2 = Inr (Ity_V128, Ity_I32, Ity_V128, Ity_INVALID, Ity_INVALID)"
  "typeOfPrimop Iop_Add64Fx4 = Inr (Ity_V256, Ity_I32, Ity_V256, Ity_V256, Ity_INVALID)"
  "typeOfPrimop Iop_Sub64Fx4 = Inr (Ity_V256, Ity_I32, Ity_V256, Ity_V256, Ity_INVALID)"
  "typeOfPrimop Iop_Mul64Fx4 = Inr (Ity_V256, Ity_I32, Ity_V256, Ity_V256, Ity_INVALID)"
  "typeOfPrimop Iop_Div64Fx4 = Inr (Ity_V256, Ity_I32, Ity_V256, Ity_V256, Ity_INVALID)"
  "typeOfPrimop Iop_Sqrt64Fx4 = Inr (Ity_V256, Ity_V256, Ity_INVALID, Ity_INVALID, Ity_INVALID)"
  "typeOfPrimop Iop_Add32Fx4 = Inr (Ity_V128, Ity_I32, Ity_V128, Ity_V128, Ity_INVALID)"
  "typeOfPrimop Iop_Sub32Fx4 = Inr (Ity_V128, Ity_I32, Ity_V128, Ity_V128, Ity_INVALID)"
  "typeOfPrimop Iop_Mul32Fx4 = Inr (Ity_V128, Ity_I32, Ity_V128, Ity_V128, Ity_INVALID)"
  "typeOfPrimop Iop_Div32Fx4 = Inr (Ity_V128, Ity_I32, Ity_V128, Ity_V128, Ity_INVALID)"
  "typeOfPrimop Iop_Sqrt32Fx4 = Inr (Ity_V128, Ity_I32, Ity_V128, Ity_INVALID, Ity_INVALID)"
  "typeOfPrimop Iop_Add32Fx8 = Inr (Ity_V256, Ity_I32, Ity_V256, Ity_V256, Ity_INVALID)"
  "typeOfPrimop Iop_Sub32Fx8 = Inr (Ity_V256, Ity_I32, Ity_V256, Ity_V256, Ity_INVALID)"
  "typeOfPrimop Iop_Mul32Fx8 = Inr (Ity_V256, Ity_I32, Ity_V256, Ity_V256, Ity_INVALID)"
  "typeOfPrimop Iop_Div32Fx8 = Inr (Ity_V256, Ity_I32, Ity_V256, Ity_V256, Ity_INVALID)"
  "typeOfPrimop Iop_Sqrt32Fx8 = Inr (Ity_V256, Ity_V256, Ity_INVALID, Ity_INVALID, Ity_INVALID)"
  "typeOfPrimop Iop_Add32F0x4 = Inr (Ity_V128, Ity_V128, Ity_V128, Ity_INVALID, Ity_INVALID)"
  "typeOfPrimop Iop_Sub32F0x4 = Inr (Ity_V128, Ity_V128, Ity_V128, Ity_INVALID, Ity_INVALID)"
  "typeOfPrimop Iop_Mul32F0x4 = Inr (Ity_V128, Ity_V128, Ity_V128, Ity_INVALID, Ity_INVALID)"
  "typeOfPrimop Iop_Div32F0x4 = Inr (Ity_V128, Ity_V128, Ity_V128, Ity_INVALID, Ity_INVALID)"
  "typeOfPrimop Iop_Sqrt32F0x4 = Inr (Ity_V128, Ity_V128, Ity_INVALID, Ity_INVALID, Ity_INVALID)"
  "typeOfPrimop Iop_Add64F0x2 = Inr (Ity_V128, Ity_V128, Ity_V128, Ity_INVALID, Ity_INVALID)"
  "typeOfPrimop Iop_Sub64F0x2 = Inr (Ity_V128, Ity_V128, Ity_V128, Ity_INVALID, Ity_INVALID)"
  "typeOfPrimop Iop_Mul64F0x2 = Inr (Ity_V128, Ity_V128, Ity_V128, Ity_INVALID, Ity_INVALID)"
  "typeOfPrimop Iop_Div64F0x2 = Inr (Ity_V128, Ity_V128, Ity_V128, Ity_INVALID, Ity_INVALID)"
  "typeOfPrimop Iop_Sqrt64F0x2 = Inr (Ity_V128, Ity_V128, Ity_INVALID, Ity_INVALID, Ity_INVALID)"
  by (simp_all add: typeOfPrimop_defs primop_sig_defs)

lemma prim_types_neg_abs [prim_types]:
  "typeOfPrimop Iop_NegF64 = Inr (Ity_F64, Ity_F64, Ity_INVALID, Ity_INVALID, Ity_INVALID)"
  "typeOfPrimop Iop_NegF32 = Inr (Ity_F32, Ity_F32, Ity_INVALID, Ity_INVALID, Ity_INVALID)"
  "typeOfPrimop Iop_Neg64Fx2 = Inr (Ity_V128, Ity_V128, Ity_INVALID, Ity_INVALID, Ity_INVALID)"
  "typeOfPrimop Iop_Neg32Fx2 = Inr (Ity_I64, Ity_I64, Ity_INVALID, Ity_INVALID, Ity_INVALID)"
  "typeOfPrimop Iop_Neg32Fx4 = Inr (Ity_V128, Ity_V128, Ity_INVALID, Ity_INVALID, Ity_INVALID)"
  "typeOfPrimop Iop_AbsF64 = Inr (Ity_F64, Ity_F64, Ity_INVALID, Ity_INVALID, Ity_INVALID)"
  "typeOfPrimop Iop_AbsF32 = Inr (Ity_F32, Ity_F32, Ity_INVALID, Ity_INVALID, Ity_INVALID)"
  "typeOfPrimop Iop_CmpF64 = Inr (Ity_I32, Ity_F64, Ity_F64, Ity_INVALID, Ity_INVALID)"
  "typeOfPrimop Iop_CmpF32 = Inr (Ity_I32, Ity_F32, Ity_F32, Ity_INVALID, Ity_INVALID)"
  "typeOfPrimop Iop_32to1 = Inr (Ity_I1, Ity_I32, Ity_INVALID, Ity_INVALID, Ity_INVALID)"
  by (simp_all add: typeOfPrimop_defs primop_sig_defs)

lemma prim_types_minmax [prim_types]:
  "typeOfPrimop Iop_Min32Fx2 = Inr (Ity_I64, Ity_I64, Ity_I64, Ity_INVALID, Ity_INVALID)"
  "typeOfPrimop Iop_Min32Fx4 = Inr (Ity_V128, Ity_V128, Ity_V128, Ity_INVALID, Ity_INVALID)"
  "typeOfPrimop Iop_Min32F0x4 = Inr (Ity_V128, Ity_V128, Ity_V128, Ity_INVALID, Ity_INVALID)"
  "typeOfPrimop Iop_Min64Fx2 = Inr (Ity_V128, Ity_V128, Ity_V128, Ity_INVALID, Ity_INVALID)"
  "typeOfPrimop Iop_Min64F0x2 = Inr (Ity_V128, Ity_V128, Ity_V128, Ity_INVALID, Ity_INVALID)"
  "typeOfPrimop Iop_Min32Fx8 = Inr (Ity_V256, Ity_V256, Ity_V256, Ity_INVALID, Ity_INVALID)"
  "typeOfPrimop Iop_Min64Fx4 = Inr (Ity_V256, Ity_V256, Ity_V256, Ity_INVALID, Ity_INVALID)"
  "typeOfPrimop Iop_Max32Fx2 = Inr (Ity_I64, Ity_I64, Ity_I64, Ity_INVALID, Ity_INVALID)"
  "typeOfPrimop Iop_Max32Fx4 = Inr (Ity_V128, Ity_V128, Ity_V128, Ity_INVALID, Ity_INVALID)"
  "typeOfPrimop Iop_Max32F0x4 = Inr (Ity_V128, Ity_V128, Ity_V128, Ity_INVALID, Ity_INVALID)"
  "typeOfPrimop Iop_Max64Fx2 = Inr (Ity_V128, Ity_V128, Ity_V128, Ity_INVALID, Ity_INVALID)"
  "typeOfPrimop Iop_Max64F0x2 = Inr (Ity_V128, Ity_V128, Ity_V128, Ity_INVALID, Ity_INVALID)"
  "typeOfPrimop Iop_Max32Fx8 = Inr (Ity_V256, Ity_V256, Ity_V256, Ity_INVALID, Ity_INVALID)"
  "typeOfPrimop Iop_Max64Fx4 = Inr (Ity_V256, Ity_V256, Ity_V256, Ity_INVALID, Ity_INVALID)"
  by (simp_all add: typeOfPrimop_defs primop_sig_defs)

lemma prim_types_fma_misc [prim_types]:
  "typeOfPrimop Iop_MAddF64 = Inr (Ity_F64, Ity_I32, Ity_F64, Ity_F64, Ity_F64)"
  "typeOfPrimop Iop_MAddF32 = Inr (Ity_F32, Ity_I32, Ity_F32, Ity_F32, Ity_F32)"
  "typeOfPrimop Iop_MSubF64 = Inr (Ity_F64, Ity_I32, Ity_F64, Ity_F64, Ity_F64)"
  "typeOfPrimop Iop_MSubF32 = Inr (Ity_F32, Ity_I32, Ity_F32, Ity_F32, Ity_F32)"
  "typeOfPrimop Iop_ScaleF64 = Inr (Ity_F64, Ity_I32, Ity_F64, Ity_F64, Ity_INVALID)"
  "typeOfPrimop Iop_Yl2xF64 = Inr (Ity_F64, Ity_I32, Ity_F64, Ity_F64, Ity_INVALID)"
  "typeOfPrimop Iop_Yl2xp1F64 = Inr (Ity_F64, Ity_I32, Ity_F64, Ity_F64, Ity_INVALID)"
  by (simp_all add: typeOfPrimop_defs primop_sig_defs)

lemma prim_types_bitwise [prim_types]:
  "typeOfPrimop Iop_And32 = Inr (Ity_I32, Ity_I32, Ity_I32, Ity_INVALID, Ity_INVALID)"
  "typeOfPrimop Iop_And64 = Inr (Ity_I64, Ity_I64, Ity_I64, Ity_INVALID, Ity_INVALID)"
  "typeOfPrimop Iop_AndV128 = Inr (Ity_V128, Ity_V128, Ity_V128, Ity_INVALID, Ity_INVALID)"
  "typeOfPrimop Iop_AndV256 = Inr (Ity_V256, Ity_V256, Ity_V256, Ity_INVALID, Ity_INVALID)"
  "typeOfPrimop Iop_Or32 = Inr (Ity_I32, Ity_I32, Ity_I32, Ity_INVALID, Ity_INVALID)"
  "typeOfPrimop Iop_Or64 = Inr (Ity_I64, Ity_I64, Ity_I64, Ity_INVALID, Ity_INVALID)"
  "typeOfPrimop Iop_OrV128 = Inr (Ity_V128, Ity_V128, Ity_V128, Ity_INVALID, Ity_INVALID)"
  "typeOfPrimop Iop_OrV256 = Inr (Ity_V256, Ity_V256, Ity_V256, Ity_INVALID, Ity_INVALID)"
  "typeOfPrimop Iop_Xor32 = Inr (Ity_I32, Ity_I32, Ity_I32, Ity_INVALID, Ity_INVALID)"
  "typeOfPrimop Iop_Xor64 = Inr (Ity_I64, Ity_I64, Ity_I64, Ity_INVALID, Ity_INVALID)"
  "typeOfPrimop Iop_XorV128 = Inr (Ity_V128, Ity_V128, Ity_V128, Ity_INVALID, Ity_INVALID)"
  "typeOfPrimop Iop_XorV256 = Inr (Ity_V256, Ity_V256, Ity_V256, Ity_INVALID, Ity_INVALID)"
  by (simp_all add: typeOfPrimop_defs primop_sig_defs)

lemma prim_types_moves [prim_types]:
  "typeOfPrimop Iop_16to8 = Inr (Ity_I8, Ity_I16, Ity_INVALID, Ity_INVALID, Ity_INVALID)"
  "typeOfPrimop Iop_32to16 = Inr (Ity_I16, Ity_I32, Ity_INVALID, Ity_INVALID, Ity_INVALID)"
  "typeOfPrimop Iop_16HIto8 = Inr (Ity_I8, Ity_I16, Ity_INVALID, Ity_INVALID, Ity_INVALID)"
  "typeOfPrimop Iop_32HIto16 = Inr (Ity_I16, Ity_I32, Ity_INVALID, Ity_INVALID, Ity_INVALID)"
  "typeOfPrimop Iop_64to8 = Inr (Ity_I8, Ity_I64, Ity_INVALID, Ity_INVALID, Ity_INVALID)"
  "typeOfPrimop Iop_32to8 = Inr (Ity_I8, Ity_I32, Ity_INVALID, Ity_INVALID, Ity_INVALID)"
  "typeOfPrimop Iop_64to16 = Inr (Ity_I16, Ity_I64, Ity_INVALID, Ity_INVALID, Ity_INVALID)"
  "typeOfPrimop Iop_64UtoV128 = Inr (Ity_V128, Ity_I64, Ity_INVALID, Ity_INVALID, Ity_INVALID)"
  "typeOfPrimop Iop_32UtoV128 = Inr (Ity_V128, Ity_I32, Ity_INVALID, Ity_INVALID, Ity_INVALID)"
  "typeOfPrimop Iop_V128to32 = Inr (Ity_I32, Ity_V128, Ity_INVALID, Ity_INVALID, Ity_INVALID)"
  "typeOfPrimop Iop_ZeroHI64ofV128 = Inr (Ity_V128, Ity_V128, Ity_INVALID, Ity_INVALID, Ity_INVALID)"
  "typeOfPrimop Iop_ZeroHI96ofV128 = Inr (Ity_V128, Ity_V128, Ity_INVALID, Ity_INVALID, Ity_INVALID)"
  "typeOfPrimop Iop_ZeroHI112ofV128 = Inr (Ity_V128, Ity_V128, Ity_INVALID, Ity_INVALID, Ity_INVALID)"
  "typeOfPrimop Iop_ZeroHI120ofV128 = Inr (Ity_V128, Ity_V128, Ity_INVALID, Ity_INVALID, Ity_INVALID)"
  "typeOfPrimop Iop_8Uto16 = Inr (Ity_I16, Ity_I8, Ity_INVALID, Ity_INVALID, Ity_INVALID)"
  "typeOfPrimop Iop_8Sto16 = Inr (Ity_I16, Ity_I8, Ity_INVALID, Ity_INVALID, Ity_INVALID)"
  "typeOfPrimop Iop_8Uto32 = Inr (Ity_I32, Ity_I8, Ity_INVALID, Ity_INVALID, Ity_INVALID)"
  "typeOfPrimop Iop_8Sto32 = Inr (Ity_I32, Ity_I8, Ity_INVALID, Ity_INVALID, Ity_INVALID)"
  "typeOfPrimop Iop_8Uto64 = Inr (Ity_I64, Ity_I8, Ity_INVALID, Ity_INVALID, Ity_INVALID)"
  "typeOfPrimop Iop_8Sto64 = Inr (Ity_I64, Ity_I8, Ity_INVALID, Ity_INVALID, Ity_INVALID)"
  "typeOfPrimop Iop_16Uto32 = Inr (Ity_I32, Ity_I16, Ity_INVALID, Ity_INVALID, Ity_INVALID)"
  "typeOfPrimop Iop_16Sto32 = Inr (Ity_I32, Ity_I16, Ity_INVALID, Ity_INVALID, Ity_INVALID)"
  "typeOfPrimop Iop_16Uto64 = Inr (Ity_I64, Ity_I16, Ity_INVALID, Ity_INVALID, Ity_INVALID)"
  "typeOfPrimop Iop_16Sto64 = Inr (Ity_I64, Ity_I16, Ity_INVALID, Ity_INVALID, Ity_INVALID)"
  "typeOfPrimop Iop_32Uto64 = Inr (Ity_I64, Ity_I32, Ity_INVALID, Ity_INVALID, Ity_INVALID)"
  "typeOfPrimop Iop_32Sto64 = Inr (Ity_I64, Ity_I32, Ity_INVALID, Ity_INVALID, Ity_INVALID)"
  "typeOfPrimop Iop_8HLto16 = Inr (Ity_I16, Ity_I8, Ity_I8, Ity_INVALID, Ity_INVALID)"
  "typeOfPrimop Iop_16HLto32 = Inr (Ity_I32, Ity_I16, Ity_I16, Ity_INVALID, Ity_INVALID)"
  "typeOfPrimop Iop_V128HLtoV256 = Inr (Ity_V256, Ity_V128, Ity_V128, Ity_INVALID, Ity_INVALID)"
  "typeOfPrimop Iop_SetV128lo32 = Inr (Ity_V128, Ity_V128, Ity_I32, Ity_INVALID, Ity_INVALID)"
  "typeOfPrimop Iop_SetV128lo64 = Inr (Ity_V128, Ity_V128, Ity_I64, Ity_INVALID, Ity_INVALID)"
  "typeOfPrimop Iop_InterleaveHI8x16 = Inr (Ity_V128, Ity_V128, Ity_V128, Ity_INVALID, Ity_INVALID)"
  "typeOfPrimop Iop_InterleaveHI16x8 = Inr (Ity_V128, Ity_V128, Ity_V128, Ity_INVALID, Ity_INVALID)"
  "typeOfPrimop Iop_InterleaveHI32x4 = Inr (Ity_V128, Ity_V128, Ity_V128, Ity_INVALID, Ity_INVALID)"
  "typeOfPrimop Iop_InterleaveHI64x2 = Inr (Ity_V128, Ity_V128, Ity_V128, Ity_INVALID, Ity_INVALID)"
  "typeOfPrimop Iop_InterleaveLO8x16 = Inr (Ity_V128, Ity_V128, Ity_V128, Ity_INVALID, Ity_INVALID)"
  "typeOfPrimop Iop_InterleaveLO16x8 = Inr (Ity_V128, Ity_V128, Ity_V128, Ity_INVALID, Ity_INVALID)"
  "typeOfPrimop Iop_InterleaveLO32x4 = Inr (Ity_V128, Ity_V128, Ity_V128, Ity_INVALID, Ity_INVALID)"
  "typeOfPrimop Iop_InterleaveLO64x2 = Inr (Ity_V128, Ity_V128, Ity_V128, Ity_INVALID, Ity_INVALID)"
  by (simp_all add: typeOfPrimop_defs primop_sig_defs)

lemma prim_types_shifts_conversions [prim_types]:
  "typeOfPrimop Iop_Shr8 = Inr (Ity_I8, Ity_I8, Ity_I8, Ity_INVALID, Ity_INVALID)"
  "typeOfPrimop Iop_Shr16 = Inr (Ity_I16, Ity_I16, Ity_I8, Ity_INVALID, Ity_INVALID)"
  "typeOfPrimop Iop_Shr32 = Inr (Ity_I32, Ity_I32, Ity_I8, Ity_INVALID, Ity_INVALID)"
  "typeOfPrimop Iop_Shr64 = Inr (Ity_I64, Ity_I64, Ity_I8, Ity_INVALID, Ity_INVALID)"
  "typeOfPrimop Iop_Shl8 = Inr (Ity_I8, Ity_I8, Ity_I8, Ity_INVALID, Ity_INVALID)"
  "typeOfPrimop Iop_Shl16 = Inr (Ity_I16, Ity_I16, Ity_I8, Ity_INVALID, Ity_INVALID)"
  "typeOfPrimop Iop_Shl32 = Inr (Ity_I32, Ity_I32, Ity_I8, Ity_INVALID, Ity_INVALID)"
  "typeOfPrimop Iop_Shl64 = Inr (Ity_I64, Ity_I64, Ity_I8, Ity_INVALID, Ity_INVALID)"
  "typeOfPrimop Iop_I32StoF64 = Inr (Ity_F64, Ity_I32, Ity_INVALID, Ity_INVALID, Ity_INVALID)"
  "typeOfPrimop Iop_I32UtoF64 = Inr (Ity_F64, Ity_I32, Ity_INVALID, Ity_INVALID, Ity_INVALID)"
  "typeOfPrimop Iop_I64StoF64 = Inr (Ity_F64, Ity_I32, Ity_I64, Ity_INVALID, Ity_INVALID)"
  "typeOfPrimop Iop_I64UtoF64 = Inr (Ity_F64, Ity_I32, Ity_I64, Ity_INVALID, Ity_INVALID)"
  "typeOfPrimop Iop_RoundF64toInt = Inr (Ity_F64, Ity_I32, Ity_F64, Ity_INVALID, Ity_INVALID)"
  "typeOfPrimop Iop_I64StoF32 = Inr (Ity_F32, Ity_I32, Ity_I64, Ity_INVALID, Ity_INVALID)"
  "typeOfPrimop Iop_I64UtoF32 = Inr (Ity_F32, Ity_I32, Ity_I64, Ity_INVALID, Ity_INVALID)"
  "typeOfPrimop Iop_I32StoF32 = Inr (Ity_F32, Ity_I32, Ity_I32, Ity_INVALID, Ity_INVALID)"
  "typeOfPrimop Iop_I32UtoF32 = Inr (Ity_F32, Ity_I32, Ity_I32, Ity_INVALID, Ity_INVALID)"
  by (simp_all add: typeOfPrimop_defs primop_sig_defs)

section \<open>Families\<close>

text \<open>The vector type of \<open>n\<close> floats of \<open>fps\<close> bytes, as VEX's arithmetic uses it.\<close>

definition vector_type :: "nat \<Rightarrow> nat \<Rightarrow> IRType" where
  "vector_type fps n =
     (if n = 1 then (if fps = 4 then Ity_F32 else Ity_F64)
      else if fps * n = 8 then Ity_I64 else if fps * n = 16 then Ity_V128 else Ity_V256)"

definition layout_type :: "arith_layout \<Rightarrow> IRType" where
  "layout_type L = vector_type (fpsize L) (simdsize L)"

definition arith_sig :: "arith_layout \<Rightarrow> IROp \<Rightarrow> bool" where
  "arith_sig L op \<longleftrightarrow>
     (let V = layout_type L in
      typeOfPrimop op = Inr (if llo L then (V, V, V, Ity_INVALID, Ity_INVALID) else (V, Ity_I32, V, V, Ity_INVALID)))"

definition sqrt_sig :: "arith_layout \<Rightarrow> bool" where
  "sqrt_sig L \<longleftrightarrow>
     (let V = layout_type L in
      typeOfPrimop (sqrt_op L) = Inr (if sqrt_noroundingmode L then (V, V, Ity_INVALID, Ity_INVALID, Ity_INVALID)
        else (V, Ity_I32, V, Ity_INVALID, Ity_INVALID)))"

lemma arith_layouts_typed:
  "list_all (\<lambda>L. arith_sig L (add_op L) \<and> arith_sig L (sub_op L) \<and> arith_sig L (mul_op L) \<and> arith_sig L (div_op L)
      \<and> sqrt_sig L \<and> layout_type L \<noteq> Ity_INVALID \<and> (fpsize L, simdsize L) \<in> SIMD_layouts) arith_layouts"
  by (simp add: arith_layouts_def arith_sig_def sqrt_sig_def layout_type_def vector_type_def sqrt_noroundingmode_def
      prim_types Let_def SIMD_layouts_def)

text \<open>An operation has \<open>n\<close> operands: the first \<open>n\<close> operand types of its signature are present.\<close>

definition has_arity :: "IROp \<Rightarrow> nat \<Rightarrow> bool" where
  "has_arity op n \<longleftrightarrow> (case typeOfPrimop op of Inl _ \<Rightarrow> False
     | Inr (_, t1, t2, t3, t4) \<Rightarrow>
         map (\<lambda>t. t \<noteq> Ity_INVALID) [t1, t2, t3, t4] = replicate n True @ replicate (4 - n) False)"

lemma replicate_small: "replicate 2 x = [x, x]" "replicate 3 x = [x, x, x]"
  by (simp_all add: numeral_2_eq_2 numeral_3_eq_3)

lemma has_arity_D:
  assumes "typeOfPrimop op = Inr (ty, t1, t2, t3, t4)"
  shows "has_arity op 1 \<Longrightarrow> t1 \<noteq> Ity_INVALID \<and> t2 = Ity_INVALID \<and> t3 = Ity_INVALID \<and> t4 = Ity_INVALID"
    and "has_arity op 2 \<Longrightarrow> t1 \<noteq> Ity_INVALID \<and> t2 \<noteq> Ity_INVALID \<and> t3 = Ity_INVALID \<and> t4 = Ity_INVALID"
  using assms by (simp_all add: has_arity_def replicate_small)

lemma neg_table_typed:
  "list_all (\<lambda>(op, fps, simd). (fps, simd) \<in> SIMD_layouts
      \<and> (let V = vector_type fps simd in typeOfPrimop op = Inr (V, V, Ity_INVALID, Ity_INVALID, Ity_INVALID))) neg_table"
  by (simp add: neg_table_def vector_type_def prim_types SIMD_layouts_def)

lemma minmax_table_typed:
  "list_all (\<lambda>(op, is_min, fps, simd, llo). (fps, simd) \<in> SIMD_layouts
      \<and> (let V = SIMD_inttype (fps * simd) in typeOfPrimop op = Inr (V, V, V, Ity_INVALID, Ity_INVALID))) minmax_table"
  by (simp add: minmax_table_def SIMD_inttype_def prim_types SIMD_layouts_def)

lemma bitwise_table_typed:
  "list_all (\<lambda>(op, name, fps, simd). (fps, simd) \<in> SIMD_layouts
      \<and> (let V = SIMD_inttype (fps * simd) in typeOfPrimop op = Inr (V, V, V, Ity_INVALID, Ity_INVALID))) bitwise_table"
  by (simp add: bitwise_table_def SIMD_inttype_def prim_types SIMD_layouts_def)

lemma fma_table_typed:
  "list_all (\<lambda>(op, is_add, fps). (fps = 4 \<or> fps = 8)
      \<and> (let V = vector_type fps 1 in typeOfPrimop op = Inr (V, Ity_I32, V, V, V))) fma_table"
  by (simp add: fma_table_def vector_type_def prim_types)

lemma move_ops_typed:
  "list_all (\<lambda>op. has_arity op 1) unary_move_ops" "list_all (\<lambda>op. has_arity op 2) binary_move_ops"
  "list_all (\<lambda>op. has_arity op 2) shift_ops"
  by (simp_all add: unary_move_ops_def binary_move_ops_def shift_ops_def has_arity_def replicate_small prim_types)

lemma zero_ops_typed:
  "list_all (\<lambda>op. has_arity op 1 \<and> fst (projr (typeOfPrimop op)) = Ity_F64) zero_unary_ops"
  "list_all (\<lambda>op. has_arity op 2 \<and> fst (projr (typeOfPrimop op)) = Ity_F64) zero_binary64_ops"
  "list_all (\<lambda>op. has_arity op 2 \<and> fst (projr (typeOfPrimop op)) = Ity_F32) zero_binary32_ops"
  by (simp_all add: zero_unary_ops_def zero_binary64_ops_def zero_binary32_ops_def has_arity_def replicate_small prim_types)

lemma map_of_typed: "list_all P xs \<Longrightarrow> map_of xs k = Some v \<Longrightarrow> P (k, v)"
  by (auto simp: list_all_iff dest: map_of_SomeD)

lemma find_typed: "list_all P xs \<Longrightarrow> find q xs = Some x \<Longrightarrow> P x \<and> q x"
  by (auto simp: list_all_iff find_Some_iff)

lemma vector_type_SIMD: "(fps, n) \<in> SIMD_layouts \<Longrightarrow> SIMD_vector_type (fps * n) (vector_type fps n)"
  by (auto simp: SIMD_layouts_def SIMD_vector_type_def SIMD_inttype_def vector_type_def)

lemma mkIRConst_fptwo_wt:
  "(fps, n) \<in> SIMD_layouts \<Longrightarrow> \<exists>e. mkIRConst_fptwo fps n = Inr e \<and> wt env gw dc e (vector_type fps n)"
  by (auto simp: SIMD_layouts_def mkIRConst_fptwo_def vector_type_def Let_def wt_simps prim_types)

section \<open>Typing rules for the case guard and for component-wise code\<close>

lemma runs_lift_ex: "I \<sigma> dc \<Longrightarrow> \<exists>x. m = Inr x \<and> Q x \<sigma> dc \<Longrightarrow> runs I (liftM m) \<sigma> dc {} Q"
  by (elim exE conjE) (rule runs_lift)

lemma runs_mapM:
  assumes "I \<sigma> dc"
    and "\<And>x \<sigma>' dc'. x \<in> set xs \<Longrightarrow> I \<sigma>' dc' \<Longrightarrow> progress \<sigma> dc \<sigma>' dc' {} \<Longrightarrow> runs I (f x) \<sigma>' dc' {} P"
    and "\<And>y \<sigma>1 dc1 \<sigma>2 dc2. progress \<sigma>1 dc1 \<sigma>2 dc2 {} \<Longrightarrow> P y \<sigma>1 dc1 \<Longrightarrow> P y \<sigma>2 dc2"
  shows "runs I (mapM f xs) \<sigma> dc {} (\<lambda>ys \<sigma>' dc'. length ys = length xs \<and> list_all (\<lambda>y. P y \<sigma>' dc') ys)"
  using assms(1,2)
proof (induction xs arbitrary: \<sigma> dc)
  case Nil
  then show ?case by (simp add: runs_return)
next
  case (Cons x xs)
  have x: "runs I (f x) \<sigma> dc {} P"
    using Cons.prems progress_refl by simp
  show ?case
    unfolding mapM.simps
  proof (rule runs_bind_pure [OF x])
    fix y \<sigma>1 dc1 assume 1: "I \<sigma>1 dc1" "progress \<sigma> dc \<sigma>1 dc1 {}" "P y \<sigma>1 dc1"
    have xs: "runs I (mapM f xs) \<sigma>1 dc1 {} (\<lambda>ys \<sigma>' dc'. length ys = length xs \<and> list_all (\<lambda>y. P y \<sigma>' dc') ys)"
      using 1 progress_trans [OF 1(2)] by (intro Cons.IH Cons.prems(2)) auto
    show "runs I (bindM (mapM f xs) (\<lambda>ys. returnM (y # ys))) \<sigma>1 dc1 {}
        (\<lambda>ys \<sigma>' dc'. length ys = length (x # xs) \<and> list_all (\<lambda>y. P y \<sigma>' dc') ys)"
      using 1(3) assms(3) by (intro runs_bind_pure [OF xs] runs_return) auto
  qed
qed

lemma runs_op_case:
  assumes "I \<sigma> dc" "operands_ok w wd ts as ds"
    and "\<forall>i\<in>{1..n} \<union> set diffs. 1 \<le> i \<and> i \<le> length ts \<and> ts ! (i - 1) \<noteq> Ity_INVALID"
    and "\<And>A D. (\<And>i. i \<in> {1..n} \<Longrightarrow> w (A i) (ts ! (i - 1))) \<Longrightarrow> (\<And>i. i \<in> set diffs \<Longrightarrow> wd (D i) (ts ! (i - 1))) \<Longrightarrow>
           runs I (body A D) \<sigma> dc {} Q"
  shows "runs I (op_case n diffs as ds body) \<sigma> dc {} (\<lambda>r \<sigma>' dc'. \<forall>d. r = Some d \<longrightarrow> Q d \<sigma>' dc')"
proof (cases "list_all (\<lambda>i. ds ! (i - 1) \<noteq> None) diffs")
  case False
  then show ?thesis using assms(1) by (auto simp: op_case_def intro: runs_return)
next
  case True
  have A: "\<exists>e. as ! (i - 1) = Some e \<and> w e (ts ! (i - 1))" if "i \<in> {1..n}" for i
    using assms(2) bspec [OF assms(3), of i] that by (auto simp: operands_ok_def)
  have D: "\<exists>d. ds ! (i - 1) = Some d \<and> wd d (ts ! (i - 1))" if i: "i \<in> set diffs" for i
    using assms(2) bspec [OF assms(3), of i] i by (auto simp: operands_ok_def)
  have "list_all (\<lambda>i. as ! (i - 1) \<noteq> None) [1..<n + 1]"
    unfolding list_all_iff
  proof
    fix i assume "i \<in> set [1..<n + 1]"
    then have "i \<in> {1..n}" by auto
    then show "as ! (i - 1) \<noteq> None" using A [of i] by auto
  qed
  moreover have "runs I (body (\<lambda>i. the (as ! (i - 1))) (\<lambda>i. the (ds ! (i - 1)))) \<sigma> dc {} Q"
    using A D by (intro assms(4)) fastforce+
  ultimately show ?thesis
    using True unfolding op_case_def
    by (simp only: not_not if_True if_False simp_thms) (rule runs_weaken [OF runs_some], assumption, auto)
qed

lemma component_inputs_wt:
  assumes "(fps, simd) \<in> SIMD_layouts" "i < simd"
    and "list_all (\<lambda>e. \<exists>ty. wt env gw dc e ty \<and> SIMD_vector_type (fps * simd) ty) inputs"
  shows "\<exists>parts. component_inputs fps simd i inputs env = Inr parts \<and> length parts = length inputs
           \<and> list_all (\<lambda>e. wt env gw dc e Ity_I64) parts"
  using assms(3)
proof (induction inputs)
  case (Cons e inputs)
  then obtain ty where "wt env gw dc e ty" "SIMD_vector_type (fps * simd) ty" by auto
  then obtain r where r: "getSIMDComponent env e fps simd i = Inr r" "wt env gw dc r (SIMD_inttype fps)"
    using getSIMDComponent_wt [OF assms(1,2)] by blast
  have "wt env gw dc (if fps = 4 then IRExpr_Binop Iop_32HLto64 (IRExpr_Const (IRConst_U32 0)) r else r) Ity_I64"
    using r(2) assms(1) by (auto simp: SIMD_layouts_def SIMD_inttype_def wt_simps prim_types)
  then show ?case
    using Cons r(1) by (auto simp: component_inputs_def)
qed (simp add: component_inputs_def)

lemma component_outputs_wt:
  assumes "(fps, simd) \<in> SIMD_layouts" "list_all (\<lambda>e. wt env gw dc e Ity_I64) outs"
  shows "list_all (\<lambda>e. wt env gw dc e (SIMD_inttype fps)) (component_outputs fps outs)"
  using assms by (auto simp: component_outputs_def SIMD_layouts_def SIMD_inttype_def list_all_iff wt_simps prim_types)

lemma assemble_outputs_wt:
  assumes "(fps, simd) \<in> SIMD_layouts" "length parts = simd"
    and "list_all (\<lambda>outs. length outs = nouts \<and> list_all (\<lambda>e. wt env gw dc e (SIMD_inttype fps)) outs) parts"
  shows "\<exists>vs. mapE (\<lambda>k. assembleSIMDVector env (map (\<lambda>outs. outs ! k) parts) fps simd) [0..<nouts] = Inr vs
           \<and> length vs = nouts \<and> list_all (\<lambda>e. wt env gw dc e (SIMD_inttype (fps * simd))) vs"
proof -
  let ?f = "\<lambda>k. assembleSIMDVector env (map (\<lambda>outs. outs ! k) parts) fps simd"
  have "\<exists>r. ?f k = Inr r \<and> wt env gw dc r (SIMD_inttype (fps * simd))" if "k < nouts" for k
    using that assms by (intro assembleSIMDVector_wt) (auto simp: list_all_iff)
  then obtain r where r: "\<And>k. k < nouts \<Longrightarrow> ?f k = Inr (r k) \<and> wt env gw dc (r k) (SIMD_inttype (fps * simd))"
    by metis
  then have "mapE ?f [0..<nouts] = Inr (map r [0..<nouts])"
    by (simp add: mapE_Inr list_all2_conv_all_nth)
  then show ?thesis using r by (auto simp: list_all_iff)
qed

lemma runs_componentwise:
  assumes inv: "diff_inv pre gw env0 goff k \<sigma> dc" and lay: "(fps, simd) \<in> SIMD_layouts"
    and inp: "list_all (\<lambda>e. \<exists>ty. wt (tyenv (sb_out \<sigma>)) gw dc e ty \<and> SIMD_vector_type (fps * simd) ty) inputs"
    and body: "\<And>i parts \<sigma>' dc'. i < simd \<Longrightarrow> diff_inv pre gw env0 goff k \<sigma>' dc' \<Longrightarrow> progress \<sigma> dc \<sigma>' dc' {} \<Longrightarrow>
       length parts = length inputs \<Longrightarrow> list_all (\<lambda>e. wt (tyenv (sb_out \<sigma>')) gw dc' e Ity_I64) parts \<Longrightarrow>
       runs (diff_inv pre gw env0 goff k) (body i parts) \<sigma>' dc' {}
         (\<lambda>outs \<sigma>'' dc''. length outs = nouts \<and> list_all (\<lambda>e. wt (tyenv (sb_out \<sigma>'')) gw dc'' e Ity_I64) outs)"
  shows "runs (diff_inv pre gw env0 goff k) (applyComponentwisely inputs nouts fps simd body) \<sigma> dc {}
           (\<lambda>outs \<sigma>' dc'. length outs = nouts
              \<and> list_all (\<lambda>e. wt (tyenv (sb_out \<sigma>')) gw dc' e (SIMD_inttype (fps * simd))) outs)"
    (is "runs ?I _ _ _ _ ?Q")
proof -
  let ?P = "\<lambda>outs \<sigma>' dc'. length outs = nouts \<and> list_all (\<lambda>e. wt (tyenv (sb_out \<sigma>')) gw dc' e (SIMD_inttype fps)) outs"
  let ?c = "\<lambda>i. bindM (envM (component_inputs fps simd i inputs)) (\<lambda>parts.
              bindM (body i parts) (\<lambda>outs. returnM (component_outputs fps outs)))"
  have comp: "runs ?I (?c i) \<sigma>1 dc1 {} ?P" if i: "i < simd" and 1: "?I \<sigma>1 dc1" "progress \<sigma> dc \<sigma>1 dc1 {}" for i \<sigma>1 dc1
  proof -
    have "list_all (\<lambda>e. \<exists>ty. wt (tyenv (sb_out \<sigma>1)) gw dc1 e ty \<and> SIMD_vector_type (fps * simd) ty) inputs"
      using inp progress_wt [OF 1(2)] by (fastforce simp: list_all_iff)
    then obtain parts where p: "component_inputs fps simd i inputs (tyenv (sb_out \<sigma>1)) = Inr parts"
        "length parts = length inputs" "list_all (\<lambda>e. wt (tyenv (sb_out \<sigma>1)) gw dc1 e Ity_I64) parts"
      using component_inputs_wt [OF lay i] by blast
    have "runs ?I (envM (component_inputs fps simd i inputs)) \<sigma>1 dc1 {} (\<lambda>x \<sigma>' dc'. x = parts \<and> \<sigma>' = \<sigma>1 \<and> dc' = dc1)"
      using 1(1) p(1) by (rule runs_env) simp
    then show ?thesis
      by (rule runs_bind_pure)
         (use i 1 p body component_outputs_wt [OF lay] in \<open>fastforce intro!: runs_bind_pure runs_return simp: component_outputs_def\<close>)
  qed
  have m: "runs ?I (mapM ?c [0..<simd]) \<sigma> dc {} (\<lambda>ys \<sigma>' dc'. length ys = length [0..<simd] \<and> list_all (\<lambda>y. ?P y \<sigma>' dc') ys)"
    using inv comp by (rule runs_mapM) (auto simp: list_all_iff intro: progress_wt)
  show ?thesis
    unfolding applyComponentwisely_def
  proof (rule runs_bind_pure [OF m])
    fix parts \<sigma>1 dc1
    assume 1: "?I \<sigma>1 dc1" "progress \<sigma> dc \<sigma>1 dc1 {}" "length parts = length [0..<simd] \<and> list_all (\<lambda>y. ?P y \<sigma>1 dc1) parts"
    have "\<exists>vs. mapE (\<lambda>k. assembleSIMDVector (tyenv (sb_out \<sigma>1)) (map (\<lambda>outs. outs ! k) parts) fps simd) [0..<nouts] = Inr vs
        \<and> length vs = nouts \<and> list_all (\<lambda>e. wt (tyenv (sb_out \<sigma>1)) gw dc1 e (SIMD_inttype (fps * simd))) vs"
      using 1(3) by (intro assemble_outputs_wt [OF lay]) auto
    then show "runs ?I (envM (\<lambda>env. mapE (\<lambda>k. assembleSIMDVector env (map (\<lambda>outs. outs ! k) parts) fps simd) [0..<nouts])) \<sigma>1 dc1 {} ?Q"
      using 1(1) by (elim exE conjE) (rule runs_env, auto)
  qed
qed

end
