(* ===== verification/DG_Growth.thy ===== *)
theory DG_Growth
  imports DG_OpTypes
begin

text \<open>
  How much a block grows. VEX numbers temporaries with 32 bits, the number \<^verbatim>\<open>IRTemp_INVALID\<close> being reserved, so
  instrumentation must not allocate too many. \<open>grows n m\<close> says that action \<open>m\<close> allocates at most \<open>n\<close>
  temporaries; the locale \<open>bounded_handling\<close> states it for the callbacks of a table, and its lemmas bound
  the temporaries of an instrumented block by a linear function of the size of the input block.
\<close>

definition grows :: "nat \<Rightarrow> 'a dgM \<Rightarrow> bool" where
  "grows n m \<longleftrightarrow> (\<forall>\<sigma> x \<sigma>'. m \<sigma> = Inr (x, \<sigma>') \<longrightarrow> length (tyenv (sb_out \<sigma>')) \<le> length (tyenv (sb_out \<sigma>)) + n)"

named_theorems grows_intro \<open>bounds on the number of temporaries that an action allocates\<close>

lemma growsD: "grows n m \<Longrightarrow> m \<sigma> = Inr (x, \<sigma>') \<Longrightarrow> length (tyenv (sb_out \<sigma>')) \<le> length (tyenv (sb_out \<sigma>)) + n"
  by (simp add: grows_def)

lemma grows_mono: "grows m a \<Longrightarrow> m \<le> n \<Longrightarrow> grows n a"
  by (fastforce simp: grows_def)

lemma grows_simple [grows_intro]:
  "grows n (returnM x)" "grows n (failM e)" "grows n (liftM r)" "grows n getM"
  "grows n (assertM b e)" "grows n (envM f)" "grows n (typeM ex)" "grows n (emit st)" "grows n (derefM p)" "grows n (arg_at as i)"
  "grows n (modifyM (\<lambda>\<sigma>. \<sigma>\<lparr>cas_succeeded := t\<rparr>))"
  by (auto simp: grows_def monad_inv typeM_def envM_def emit_def addStmtToIRSB_def derefM_def arg_at_def failM_def split: option.splits if_splits)

lemma grows_newTemp: "1 \<le> n \<Longrightarrow> grows n (newTemp ty)"
  by (auto simp: grows_def newTemp_def newIRTemp_def)

lemma grows_bind_add: "grows a m \<Longrightarrow> (\<And>x. grows b (f x)) \<Longrightarrow> grows (a + b) (bindM m f)"
  unfolding grows_def by (fastforce simp: monad_inv)

lemma grows_seq_add: "grows a m \<Longrightarrow> grows b k \<Longrightarrow> grows (a + b) (seqM m k)"
  unfolding seqM_def by (rule grows_bind_add)

lemma grows_bind [grows_intro]: "grows 0 m \<Longrightarrow> (\<And>x. grows n (f x)) \<Longrightarrow> grows n (bindM m f)"
  by (rule grows_bind_add [where a = 0, simplified])

lemma grows_seq [grows_intro]: "grows 0 m \<Longrightarrow> grows n k \<Longrightarrow> grows n (seqM m k)"
  by (rule grows_seq_add [where a = 0, simplified])

lemma grows_bind_last: "grows n m \<Longrightarrow> (\<And>x. grows 0 (f x)) \<Longrightarrow> grows n (bindM m f)"
  by (rule grows_bind_add [where b = 0, simplified])

lemma grows_newTemp_bind: "(\<And>t. grows n (f t)) \<Longrightarrow> grows (Suc n) (bindM (newTemp ty) f)"
  using grows_bind_add [OF grows_newTemp [OF order.refl], of n f] by simp

lemma grows_someM [grows_intro]: "grows n m \<Longrightarrow> grows n (someM m)"
  unfolding someM_def by (rule grows_bind_last) (assumption, rule grows_simple)

lemma grows_branch [grows_intro]:
  "(b \<Longrightarrow> grows n m) \<Longrightarrow> (\<not> b \<Longrightarrow> grows n k) \<Longrightarrow> grows n (if b then m else k)"
  "(p = None \<Longrightarrow> grows n k) \<Longrightarrow> (\<And>x. p = Some x \<Longrightarrow> grows n (f x)) \<Longrightarrow> grows n (case p of None \<Rightarrow> k | Some x \<Rightarrow> f x)"
  "(\<And>a b. q = (a, b) \<Longrightarrow> grows n (g a b)) \<Longrightarrow> grows n (case q of (a, b) \<Rightarrow> g a b)"
  by (auto split: option.split prod.split)

lemma grows_helper [grows_intro]: "grows n (emit_helper name as g)" "grows n (emit_helper_1 t name as)"
  unfolding emit_helper_eq by (rule grows_simple)+

lemma grows_whenM [grows_intro]: "(\<And>a b. p = Some (a, b) \<Longrightarrow> grows n (f a b)) \<Longrightarrow> grows n (whenM p f)"
  unfolding whenM_def by (intro grows_branch grows_simple) simp

lemma grows_mapM: "(\<And>x. x \<in> set xs \<Longrightarrow> grows n (f x)) \<Longrightarrow> grows (length xs * n) (mapM f xs)"
proof (induction xs)
  case (Cons x xs)
  have "grows (length xs * n) (bindM (mapM f xs) (\<lambda>ys. returnM (y # ys)))" for y
    using Cons by (intro grows_bind_last grows_simple) auto
  moreover have "grows n (f x)" using Cons.prems by simp
  ultimately have "grows (n + length xs * n) (bindM (f x) (\<lambda>y. bindM (mapM f xs) (\<lambda>ys. returnM (y # ys))))"
    by (intro grows_bind_add)
  then show ?case by simp
qed (simp add: grows_simple)

lemma grows_op_case [grows_intro]: "(\<And>A D. grows n (body A D)) \<Longrightarrow> grows n (op_case k is as ds body)"
  unfolding op_case_def by (intro grows_intro)

lemma grows_componentwise:
  assumes "\<And>i parts. grows n (body i parts)" "simd * n \<le> m"
  shows "grows m (applyComponentwisely inputs nouts fps simd body)"
proof -
  have "grows n (bindM (envM (component_inputs fps simd i inputs)) (\<lambda>parts.
      bindM (body i parts) (\<lambda>outs. returnM (component_outputs fps outs))))" for i
    by (intro grows_bind grows_bind_last assms(1) grows_simple)
  then have "grows (length [0..<simd] * n) (mapM (\<lambda>i. bindM (envM (component_inputs fps simd i inputs)) (\<lambda>parts.
      bindM (body i parts) (\<lambda>outs. returnM (component_outputs fps outs)))) [0..<simd])"
    by (intro grows_mapM)
  then show ?thesis
    unfolding applyComponentwisely_def using assms(2)
    by (intro grows_bind_last [OF grows_mono] grows_simple) auto
qed

section \<open>Instrumentation\<close>

locale bounded_handling =
  fixes eh :: "'d ExpressionHandling" and N :: nat
  assumes wrtmp_grows: "grows 0 (wrtmp eh t d)"
    and rdtmp_grows: "grows 0 (rdtmp eh t)"
    and puti_grows: "grows 0 (puti eh off d di)"
    and geti_grows: "grows 0 (geti eh off ty di)"
    and store_grows: "grows 0 (store eh addr d g)"
    and load_grows: "grows N (load eh addr ty)"
    and storeF80le_grows: "grows 0 (dirty_storeF80le eh addr d)"
    and loadF80le_grows: "grows 0 (dirty_loadF80le eh addr t)"
    and constant_grows: "grows 0 (eh_constant eh tag)"
    and default_grows: "grows 0 (eh_default eh ty)"
    and compare_grows: "grows 0 (compare eh d d')"
    and ite_grows: "grows 0 (ite eh c d d')"
    and operation_grows: "grows N (operation eh op as ds)"
    and ccall_grows: "grows N (ccall eh cl ty cargs ds)"
begin

lemmas quiet =
  wrtmp_grows rdtmp_grows puti_grows geti_grows store_grows storeF80le_grows loadF80le_grows constant_grows
  default_grows compare_grows ite_grows

lemma atom_grows: "isIRAtom_or_VECRET_or_GSPTR e \<Longrightarrow> grows 0 (dg_modify_expression eh e)"
  by (cases e) (simp_all add: isIRAtom_or_VECRET_or_GSPTR_def grows_intro quiet)

lemma atom_grows' [simp]: "isIRAtom e \<Longrightarrow> grows 0 (dg_modify_expression eh e)"
  by (rule atom_grows) (simp add: isIRAtom_or_VECRET_or_GSPTR_def)

lemma args_grow: "list_all isIRAtom as \<Longrightarrow> grows 0 (dg_modify_args eh as)"
  by (induction as) (simp_all add: grows_intro)

lemma quiet_mono: "grows 0 m \<Longrightarrow> grows n m"
  using grows_mono by blast

lemma flat_expression_grows: "isFlatRHS e = Inr True \<Longrightarrow> grows N (dg_modify_expression eh e)"
  by (cases e)
     (auto intro!: grows_bind grows_someM args_grow operation_grows ccall_grows load_grows quiet_mono [OF quiet(2)]
        quiet_mono [OF quiet(4)] quiet_mono [OF quiet(8)] quiet_mono [OF ite_grows] grows_simple split: option.split)

lemma or_default_grows: "grows n (dg_modify_expression eh e) \<Longrightarrow> grows n (dg_modify_expression_or_default eh e)"
  unfolding dg_modify_expression_or_default_def by (intro grows_bind_last grows_intro default_grows)

lemma atom_or_default: "isIRAtom_or_VECRET_or_GSPTR e \<Longrightarrow> grows 0 (dg_modify_expression_or_default eh e)"
  by (intro or_default_grows atom_grows)

lemma atom_or_default' [simp]: "isIRAtom e \<Longrightarrow> grows 0 (dg_modify_expression_or_default eh e)"
  by (intro or_default_grows atom_grows')

lemma CAS_equal_grows: "isIRAtom expd \<Longrightarrow> grows N (CAS_equal eh en cmp type expd addr)"
  unfolding CAS_equal_def Let_def
  by (intro grows_bind [OF atom_or_default'] grows_bind_last [OF load_grows] grows_bind [OF compare_grows] grows_simple)

lemma CAS_test_grows:
  assumes "isIRAtom (expdLo det)" "opt_atom (expdHi det)"
  shows "grows (N + N) (CAS_test eh det)"
proof -
  have "grows N (case zip_opt (expdHi det) aHi of Some (expd, addr) \<Rightarrow> CAS_equal eh en cmp type expd addr
      | None \<Rightarrow> returnM (IRExpr_Const (IRConst_U1 True)))" for aHi en cmp type
    using assms(2) by (intro grows_intro CAS_equal_grows) (auto simp: opt_atom_def zip_opt_def split: option.splits)
  then show ?thesis
    unfolding CAS_test_def using assms(1)
    by (intro grows_bind [OF grows_simple(7)] grows_bind [OF grows_simple(6)] grows_bind [OF grows_simple(3)] grows_branch(3)
          grows_bind_add [OF CAS_equal_grows] grows_bind_last [where n = N] grows_simple)
qed

lemma CAS_store_grows: "isIRAtom data \<Longrightarrow> grows 0 (CAS_store eh addr data s)"
  unfolding CAS_store_def by (intro grows_bind [OF atom_or_default'] store_grows)

lemma CAS_update_grows:
  assumes "isIRAtom (dataLo det)" "opt_atom (dataHi det)"
  shows "grows (N + N) (CAS_update eh det type aLo aHi s)"
proof -
  have ld: "grows N (bindM (load eh a type) (wrtmp eh t))" for a t
    by (intro grows_bind_last [OF load_grows] wrtmp_grows)
  have hi: "grows 0 (bindM (derefM (dataHi det)) (\<lambda>data. CAS_store eh addr data s))" for addr
    using assms(2) CAS_store_grows
    by (cases "dataHi det") (auto simp: derefM_def opt_atom_def grows_def failM_def monad_inv)
  show ?thesis
    unfolding CAS_update_def using assms(1)
    by (intro grows_seq_add grows_seq CAS_store_grows grows_whenM ld hi
          grows_seq_add [where b = 0, simplified])
qed

lemma CAS_grows:
  assumes "isFlatIRStmt (IRStmt_CAS det) = Inr True"
  shows "grows (4 * N + 1) (add_CAS_modified eh det)"
proof -
  have "grows ((N + N) + Suc (N + N)) (add_CAS_modified eh det)"
    unfolding add_CAS_modified_def
    using assms
    by (intro grows_bind_add CAS_test_grows grows_branch grows_newTemp_bind grows_seq CAS_update_grows grows_simple) auto
  then show ?thesis by (rule grows_mono) simp
qed

lemma Dirty_grows:
  assumes "isFlatIRStmt (IRStmt_Dirty det) = Inr True"
  shows "grows 0 (add_Dirty_modified eh det)"
proof -
  have st: "grows 0 (bindM (arg_at (args det) 1) (\<lambda>expr. bindM (dg_modify_expression_or_default eh expr) (dirty_storeF80le eh addr)))" for addr
    using assms atom_or_default growsD [OF storeF80le_grows] growsD [OF atom_or_default]
    by (auto simp: grows_def monad_inv arg_at_def failM_def list_all_length split: if_splits) (meson order.trans)+
  show ?thesis
    unfolding add_Dirty_modified_def
    by (intro grows_branch; ((rule grows_bind [OF grows_simple(10)], rule st)
          | intro grows_bind [OF grows_simple(10)] grows_bind [OF grows_simple(6)] grows_bind [OF default_grows] grows_simple quiet))
qed

theorem statement_grows: "isFlatIRStmt st = Inr True \<Longrightarrow> grows (4 * N + 1) (add_statement_modified eh st)"
proof (cases st)
  case (IRStmt_LoadG lg)
  assume "isFlatIRStmt st = Inr True"
  then have "grows N (add_statement_modified eh st)"
    using IRStmt_LoadG
    by (auto intro!: grows_bind grows_bind_last [OF load_grows] grows_simple wrtmp_grows ite_grows)
  then show ?thesis by (rule grows_mono) simp
next
  case (IRStmt_WrTmp t e)
  assume "isFlatIRStmt st = Inr True"
  then have "grows N (add_statement_modified eh st)"
    using IRStmt_WrTmp by (auto intro!: grows_bind_last [OF or_default_grows] flat_expression_grows wrtmp_grows)
  then show ?thesis by (rule grows_mono) simp
qed (auto intro!: CAS_grows [simplified] quiet_mono [OF Dirty_grows] grows_bind [OF atom_or_default'] grows_simple quiet_mono [OF puti_grows]
        quiet_mono [OF store_grows])

lemma original_grows: "grows 0 (dg_original_statement st)"
  unfolding dg_original_statement_def original_CAS_def Let_def
  by (cases st) (auto intro!: grows_intro)

lemma instrument_stmt_grows:
  "isFlatIRStmt st = Inr True \<Longrightarrow> grows (4 * N + 1) (instrument_stmt (add_statement_modified eh) st)"
  unfolding instrument_stmt_def
  using grows_seq_add [OF statement_grows original_grows, of st st] by (intro grows_seq [OF grows_simple(11)]) simp

lemma instrument_stmts_grow:
  "flat_Stmts sts = Inr () \<Longrightarrow> grows (length sts * (4 * N + 1)) (iterM (instrument_stmt (add_statement_modified eh)) sts)"
proof (induction sts)
  case (Cons st sts)
  then have "isFlatIRStmt st = Inr True" "flat_Stmts sts = Inr ()" by (auto simp: monad_inv)
  then show ?case
    using grows_seq_add [OF instrument_stmt_grows Cons.IH, of st] by (simp add: algebra_simps)
qed (simp add: grows_simple)

theorem instrument_block_grows:
  assumes "instrument_block (add_statement_modified eh) k goff sb = Inr sb'" "flat_Stmts (stmts sb) = Inr ()"
  shows "length (tyenv sb') \<le> Suc k * length (tyenv sb) + length (stmts sb) * (4 * N + 1)"
proof -
  let ?pre = "takeWhile (\<lambda>st. \<not> is_IMark st) (stmts sb)" and ?suf = "dropWhile (\<lambda>st. \<not> is_IMark st) (stmts sb)"
  let ?sb = "\<lparr>tyenv = tyenv sb @ concat (replicate k (tyenv sb)), stmts = ?pre, sb_next = sb_next sb, jumpkind = jumpkind sb, offsIP = offsIP sb\<rparr>"
  let ?\<sigma> = "\<lparr>tmp_offset = length (tyenv sb), gs_offset = goff, sb_out = ?sb, cas_succeeded = IRTemp_INVALID\<rparr>"
  obtain \<sigma>' where r: "iterM (instrument_stmt (add_statement_modified eh)) ?suf ?\<sigma> = Inr ((), \<sigma>')" "sb' = sb_out \<sigma>'"
    using assms(1)
    by (auto simp: instrument_block_def Let_def copy_until_IMark_eq shadow_layers deepCopyIRSBExceptStmts_def monad_inv)
  have "flat_Stmts (?pre @ ?suf) = Inr ()" using assms(2) by simp
  then have "flat_Stmts ?suf = Inr ()" by (simp only: flat_Stmts_append bindE_Inr) auto
  from growsD [OF instrument_stmts_grow [OF this] r(1)]
  have "length (tyenv sb') \<le> Suc k * length (tyenv sb) + length ?suf * (4 * N + 1)"
    by (simp add: r(2) length_concat_replicate)
  moreover have "length ?suf * (4 * N + 1) \<le> length (stmts sb) * (4 * N + 1)"
    by (intro mult_le_mono1 length_dropWhile_le)
  ultimately show ?thesis by linarith
qed

end

end
