(* ===== verification/DG_Common.thy ===== *)
theory DG_Common
  imports DG_Growth
begin

text \<open>
  What the three modes share besides the operation tables: the configuration that the callbacks refer to,
  i.e. the build switch \<^verbatim>\<open>BUILD_32BIT\<close> and the address of the buffer through which shadow values are
  transferred to and from shadow memory (\<^verbatim>\<open>dg_dot_shadow_mem_buffer\<close>, \<^verbatim>\<open>dg_bar_shadow_mem_buffer\<close>), the comparison
  operation of \<^verbatim>\<open>dg_dot_compare\<close> and \<^verbatim>\<open>dg_bar_compare\<close>, and typing lemmas for their callbacks.
\<close>

record DG_Config =
  build_32bit :: bool
  shadow_mem_buffer :: "64 word"

definition buffer_const :: "'a DG_Config_scheme \<Rightarrow> 64 word \<Rightarrow> IRExpr" where
  "buffer_const cfg off =
     (if build_32bit cfg then IRExpr_Const (IRConst_U32 (ucast (shadow_mem_buffer cfg + off)))
      else IRExpr_Const (IRConst_U64 (shadow_mem_buffer cfg + off)))"

definition compare_op :: "IRType \<Rightarrow> vex_error + IROp" where
  "compare_op type = (case type of
      Ity_I8 \<Rightarrow> Inr Iop_CmpEQ8
    | Ity_I16 \<Rightarrow> Inr Iop_CmpEQ16
    | Ity_I32 \<Rightarrow> Inr Iop_CmpEQ32
    | Ity_I64 \<Rightarrow> Inr Iop_CmpEQ64
    | _ \<Rightarrow> Inl (Vassert ''Unhandled type in compare.''))"

section \<open>Typing lemmas\<close>

lemma bindE_ex: "\<exists>x. m = Inr x \<and> P x \<Longrightarrow> (\<And>x. P x \<Longrightarrow> \<exists>y. f x = Inr y \<and> Q y) \<Longrightarrow> \<exists>y. bindE m f = Inr y \<and> Q y"
  by auto

lemma liftM_ok: "liftM (Inr x) = returnM x"
  by (simp add: liftM_def returnM_def fun_eq_iff)

lemma upto_split:
  "{Suc 0..Suc (Suc 0)} = {1, Suc (Suc 0)}" "{Suc 0..2} = {1, 2}" "{Suc 0..3} = {1, 2, 3}" "{Suc 0..4} = {1, 2, 3, 4}"
  by auto

lemma sizeofIRType_ok: "ty \<noteq> Ity_I1 \<Longrightarrow> ty \<noteq> Ity_INVALID \<Longrightarrow> \<exists>n. sizeofIRType ty = Inr n"
  by (cases ty) (auto simp: sizeofIRType_def)

lemma shadow_descr_ok:
  "saneIRRegArray descr \<Longrightarrow> 0 \<le> off \<Longrightarrow> base descr + off \<le> 10000 \<Longrightarrow>
   \<exists>d. mkIRRegArray (base descr + off) (elemTy descr) (nElems descr) = Inr d \<and> saneIRRegArray d \<and> elemTy d = elemTy descr"
  by (rule exI [of _ "\<lparr>base = base descr + off, elemTy = elemTy descr, nElems = nElems descr\<rparr>"])
     (simp add: mkIRRegArray_def saneIRRegArray_def split: if_splits)

lemma typeOfIRConst_valid: "typeOfIRConst con \<noteq> Ity_INVALID"
  by (cases con) simp_all

section \<open>Instrumentation that is sane and bounded\<close>

text \<open>
  A callback table with both contracts: it meets VEX's typing discipline and allocates at most \<open>N\<close> temporaries
  per operation. Then a block that is small enough for the numbers of its temporaries to fit their type is
  instrumented successfully.
\<close>

definition fits :: "nat \<Rightarrow> nat \<Rightarrow> IRSB \<Rightarrow> bool" where
  "fits k N sb \<longleftrightarrow> Suc k * length (tyenv sb) + length (stmts sb) * (4 * N + 1) \<le> IRTemp_INVALID"

locale sane_handling = shadow_handling eh S pre gw env0 goff k wtd good_op good_ty + bounded_handling eh N
  for eh :: "'d ExpressionHandling" and S :: "IRTemp \<Rightarrow> int \<Rightarrow> IRStmt \<Rightarrow> bool" and pre :: bool and gw :: IRType
    and env0 :: IRTypeEnv and goff :: int and k :: nat and wtd :: "IRTypeEnv \<Rightarrow> def_counts \<Rightarrow> 'd \<Rightarrow> IRType \<Rightarrow> bool"
    and good_op :: "IROp \<Rightarrow> bool" and good_ty :: "IRType \<Rightarrow> bool" and N :: nat
begin

theorem instrument_block_sane:
  assumes "pre" "sanityCheckIRSB sb True gw = Inr ()" "tyenv sb = env0" "fits k N sb"
    and "is_ok (defs_Stmts env0 (\<lambda>_. 0) (dropWhile (\<lambda>st. \<not> is_IMark st) (stmts sb)))"
    and "list_all (ok_stmt gw env0 goff k good_op good_ty) (dropWhile (\<lambda>st. \<not> is_IMark st) (stmts sb))"
  shows "\<exists>sb'. instrument_block (add_statement_modified eh) k goff sb = Inr sb' \<and> sanityCheckIRSB sb' False gw = Inr ()"
proof -
  obtain sb' where sb': "instrument_block (add_statement_modified eh) k goff sb = Inr sb'"
      "length (tyenv sb') \<le> IRTemp_INVALID \<longrightarrow> sanityCheckIRSB sb' False gw = Inr ()"
    using instrument_block_ok [OF assms(1-3) _ assms(6)] assms(5) by (auto simp: is_ok_iff)
  have "flat_Stmts (stmts sb) = Inr ()" using assms(2) by (auto simp: sanityCheckIRSB_def monad_inv)
  then have "length (tyenv sb') \<le> IRTemp_INVALID"
    using instrument_block_grows [OF sb'(1)] assms(4) unfolding fits_def by linarith
  then show ?thesis using sb' by blast
qed

end

end
