(* ===== verification/DG_Bar.thy ===== *)
theory DG_Bar
  imports DG_Common
begin

text \<open>
  Recording mode: the callbacks of \<^verbatim>\<open>derivgrind/bar/dg_bar.c\<close> and the operation rules (\<^verbatim>\<open>barcode\<close>) of
  \<^verbatim>\<open>derivgrind/gen_operationhandling_code.py\<close>. A shadow value is a pair of expressions, the lower and
  the higher layer of the index. The options \<^verbatim>\<open>--record-values\<close> and \<^verbatim>\<open>--typegrind\<close> extend the configuration.
  The callbacks other than \<^verbatim>\<open>operation\<close>, \<^verbatim>\<open>ccall\<close> and those for 80-bit numbers also serve the bit-trick
  finder.
\<close>

section \<open>Callbacks\<close>

record Bar_Config = DG_Config +
  record_values :: bool
  unhandled_ones :: bool

type_synonym layers = "IRExpr \<times> IRExpr"

definition dg_bar_wrtmp :: "IRTemp \<Rightarrow> layers \<Rightarrow> unit dgM" where
  "dg_bar_wrtmp temp expr = bindM getM (\<lambda>\<sigma>.
     seqM (emit (IRStmt_WrTmp (temp + tmp_offset \<sigma>) (fst expr)))
          (emit (IRStmt_WrTmp (temp + 2 * tmp_offset \<sigma>) (snd expr))))"

definition dg_bar_rdtmp :: "IRTemp \<Rightarrow> layers dgM" where
  "dg_bar_rdtmp temp = bindM getM (\<lambda>\<sigma>.
     returnM (IRExpr_RdTmp (temp + tmp_offset \<sigma>), IRExpr_RdTmp (temp + 2 * tmp_offset \<sigma>)))"

definition dg_bar_puti :: "int \<Rightarrow> layers \<Rightarrow> (IRRegArray \<times> IRExpr) option \<Rightarrow> unit dgM" where
  "dg_bar_puti offset expr descr_ix = bindM getM (\<lambda>\<sigma>.
     case descr_ix of
       Some (descr, ix) \<Rightarrow>
         bindM (liftM (mkIRRegArray (base descr + gs_offset \<sigma>) (elemTy descr) (nElems descr))) (\<lambda>shadow_descrLo.
         seqM (emit (IRStmt_PutI (mkIRPutI shadow_descrLo ix (offset + gs_offset \<sigma>) (fst expr))))
         (bindM (liftM (mkIRRegArray (base descr + 2 * gs_offset \<sigma>) (elemTy descr) (nElems descr))) (\<lambda>shadow_descrHi.
         emit (IRStmt_PutI (mkIRPutI shadow_descrHi ix (offset + 2 * gs_offset \<sigma>) (snd expr))))))
     | None \<Rightarrow>
         seqM (emit (IRStmt_Put (offset + gs_offset \<sigma>) (fst expr)))
              (emit (IRStmt_Put (offset + 2 * gs_offset \<sigma>) (snd expr))))"

definition dg_bar_geti :: "int \<Rightarrow> IRType \<Rightarrow> (IRRegArray \<times> IRExpr) option \<Rightarrow> layers dgM" where
  "dg_bar_geti offset type descr_ix = bindM getM (\<lambda>\<sigma>.
     case descr_ix of
       Some (descr, ix) \<Rightarrow>
         bindM (liftM (mkIRRegArray (base descr + gs_offset \<sigma>) (elemTy descr) (nElems descr))) (\<lambda>shadow_descrLo.
         bindM (liftM (mkIRRegArray (base descr + 2 * gs_offset \<sigma>) (elemTy descr) (nElems descr))) (\<lambda>shadow_descrHi.
         returnM (IRExpr_GetI shadow_descrLo ix (offset + gs_offset \<sigma>),
                  IRExpr_GetI shadow_descrHi ix (offset + 2 * gs_offset \<sigma>))))
     | None \<Rightarrow> returnM (IRExpr_Get (offset + gs_offset \<sigma>) type, IRExpr_Get (offset + 2 * gs_offset \<sigma>) type))"

text \<open>The second half of the transfer buffer begins 32 bytes, one \<^verbatim>\<open>V256\<close>, after the first.\<close>

definition dg_bar_store :: "'a DG_Config_scheme \<Rightarrow> IRExpr \<Rightarrow> layers \<Rightarrow> IRExpr option \<Rightarrow> unit dgM" where
  "dg_bar_store cfg addr expr g =
     seqM (emit (IRStmt_Store Iend_LE (buffer_const cfg 0) (fst expr)))
     (seqM (emit (IRStmt_Store Iend_LE (buffer_const cfg 32) (snd expr)))
     (bindM (typeM (fst expr)) (\<lambda>type. bindM (typeM (snd expr)) (\<lambda>type2.
     seqM (assertM (type = type2) (Vassert ''dg_bar_store''))
     (bindM (liftM (sizeofIRType type)) (\<lambda>szB.
     emit_helper ''dg_bar_x86g_amd64g_dirtyhelper_store''
       [addr, IRExpr_Const (IRConst_U64 (of_nat szB))] g))))))"

definition dg_bar_load :: "'a DG_Config_scheme \<Rightarrow> IRExpr \<Rightarrow> IRType \<Rightarrow> layers dgM" where
  "dg_bar_load cfg addr type =
     bindM (liftM (sizeofIRType type)) (\<lambda>szB.
     seqM (emit_helper ''dg_bar_x86g_amd64g_dirtyhelper_load''
             [addr, IRExpr_Const (IRConst_U64 (of_nat szB))] None)
     (bindM (newTemp type) (\<lambda>exLo_tmp. bindM (newTemp type) (\<lambda>exHi_tmp.
     seqM (emit (IRStmt_WrTmp exLo_tmp (IRExpr_Load Iend_LE type (buffer_const cfg 0))))
     (seqM (emit (IRStmt_WrTmp exHi_tmp (IRExpr_Load Iend_LE type (buffer_const cfg 32))))
           (returnM (IRExpr_RdTmp exLo_tmp, IRExpr_RdTmp exHi_tmp)))))))"

definition dg_bar_dirty_storeF80le :: "IRExpr \<Rightarrow> layers \<Rightarrow> unit dgM" where
  "dg_bar_dirty_storeF80le addr expr =
     seqM (emit_helper ''dg_bar_x86g_amd64g_dirtyhelper_storeF80le_Lo'' [addr, fst expr] None)
          (emit_helper ''dg_bar_x86g_amd64g_dirtyhelper_storeF80le_Hi'' [addr, snd expr] None)"

definition load_layers :: "string \<Rightarrow> string \<Rightarrow> IRExpr \<Rightarrow> IRTemp \<Rightarrow> unit dgM" where
  "load_layers lo hi addr temp = bindM getM (\<lambda>\<sigma>.
     seqM (emit_helper_1 (temp + tmp_offset \<sigma>) lo [addr]) (emit_helper_1 (temp + 2 * tmp_offset \<sigma>) hi [addr]))"

definition dg_bar_dirty_loadF80le :: "IRExpr \<Rightarrow> IRTemp \<Rightarrow> unit dgM" where
  "dg_bar_dirty_loadF80le =
     load_layers ''dg_bar_x86g_amd64g_dirtyhelper_loadF80le_Lo'' ''dg_bar_x86g_amd64g_dirtyhelper_loadF80le_Hi''"

definition both :: "IRExpr \<Rightarrow> layers" where
  "both e = (e, e)"

definition dg_bar_constant :: "IRConstTag \<Rightarrow> layers dgM" where
  "dg_bar_constant type = returnM (both (case type of
      Ico_F64 \<Rightarrow> IRExpr_Unop Iop_ReinterpI64asF64 (IRExpr_Const (IRConst_U64 0))
    | Ico_F64i \<Rightarrow> IRExpr_Const (IRConst_F64i 0)
    | Ico_F32 \<Rightarrow> IRExpr_Unop Iop_ReinterpI32asF32 (IRExpr_Const (IRConst_U32 0))
    | Ico_F32i \<Rightarrow> IRExpr_Unop Iop_ReinterpI32asF32 (IRExpr_Const (IRConst_U32 0))
    | Ico_U1 \<Rightarrow> IRExpr_Const (IRConst_U1 False)
    | Ico_U8 \<Rightarrow> IRExpr_Const (IRConst_U8 0)
    | Ico_U16 \<Rightarrow> IRExpr_Const (IRConst_U16 0)
    | Ico_U32 \<Rightarrow> IRExpr_Const (IRConst_U32 0)
    | Ico_U64 \<Rightarrow> IRExpr_Const (IRConst_U64 0)
    | Ico_U128 \<Rightarrow> IRExpr_Const (IRConst_U128 0)
    | Ico_V128 \<Rightarrow> IRExpr_Const (IRConst_V128 0)
    | Ico_V256 \<Rightarrow> IRExpr_Const (IRConst_V256 0)))"

definition bar_zero :: "IRType \<Rightarrow> vex_error + IRExpr" where
  "bar_zero type =
     (let zeroU = IRExpr_Const (IRConst_U64 0) in
      case type of
        Ity_I1 \<Rightarrow> Inr (IRExpr_Const (IRConst_U1 False))
      | Ity_I8 \<Rightarrow> Inr (IRExpr_Const (IRConst_U8 0))
      | Ity_I16 \<Rightarrow> Inr (IRExpr_Const (IRConst_U16 0))
      | Ity_I32 \<Rightarrow> Inr (IRExpr_Const (IRConst_U32 0))
      | Ity_I64 \<Rightarrow> Inr zeroU
      | Ity_I128 \<Rightarrow> Inr (IRExpr_Const (IRConst_U128 0))
      | Ity_F32 \<Rightarrow> Inr (IRExpr_Unop Iop_ReinterpI32asF32 (IRExpr_Const (IRConst_U32 0)))
      | Ity_F64 \<Rightarrow> Inr (IRExpr_Const (IRConst_F64i 0))
      | Ity_D64 \<Rightarrow> Inr (IRExpr_Unop Iop_ReinterpI64asD64 zeroU)
      | Ity_F128 \<Rightarrow> Inr (IRExpr_Unop Iop_ReinterpI128asF128 (IRExpr_Const (IRConst_U128 0)))
      | Ity_V128 \<Rightarrow> Inr (IRExpr_Binop Iop_64HLtoV128 zeroU zeroU)
      | Ity_V256 \<Rightarrow> Inr (IRExpr_Qop Iop_64x4toV256 zeroU zeroU zeroU zeroU)
      | _ \<Rightarrow> Inl (Vassert ''dg_bar_default_''))"

definition dg_bar_default :: "IRType \<Rightarrow> layers dgM" where
  "dg_bar_default type = bindM (liftM (bar_zero type)) (\<lambda>zero. returnM (both zero))"

definition dg_bar_compare :: "layers \<Rightarrow> layers \<Rightarrow> IRExpr dgM" where
  "dg_bar_compare arg1 arg2 =
     bindM (typeM (fst arg1)) (\<lambda>type. bindM (typeM (fst arg2)) (\<lambda>type2.
     seqM (assertM (type = type2) (Vassert ''dg_bar_compare''))
     (bindM (liftM (compare_op type)) (\<lambda>cmp.
     returnM (IRExpr_Binop Iop_And1 (IRExpr_Binop cmp (fst arg1) (fst arg2)) (IRExpr_Binop cmp (snd arg1) (snd arg2)))))))"

definition dg_bar_ite :: "IRExpr \<Rightarrow> layers \<Rightarrow> layers \<Rightarrow> layers dgM" where
  "dg_bar_ite cond dtrue dfalse =
     returnM (IRExpr_ITE cond (fst dtrue) (fst dfalse), IRExpr_ITE cond (snd dtrue) (snd dfalse))"

section \<open>Recording\<close>

definition widen32 :: "IRExpr \<Rightarrow> IRExpr" where
  "widen32 e = IRExpr_Binop Iop_32HLto64 (IRExpr_Const (IRConst_U32 0)) e"

definition dg_bar_writeToTape ::
    "bool \<Rightarrow> layers \<Rightarrow> layers \<Rightarrow> IRExpr \<Rightarrow> IRExpr \<Rightarrow> IRExpr \<Rightarrow> layers dgM" where
  "dg_bar_writeToTape rv index1 index2 diff1 diff2 value =
     bindM (newTemp Ity_I64) (\<lambda>returnindex.
     seqM (emit_helper_1 returnindex ''dg_bar_writeToTape_call''
             [fst index1, snd index1, fst index2, snd index2,
              IRExpr_Unop Iop_ReinterpF64asI64 diff1, IRExpr_Unop Iop_ReinterpF64asI64 diff2])
     (seqM (if rv then emit_helper ''dg_bar_writeToTape_value_call''
                         [IRExpr_Unop Iop_ReinterpF64asI64 value, IRExpr_RdTmp returnindex] None
            else returnM ())
           (returnM (widen32 (IRExpr_Unop Iop_64to32 (IRExpr_RdTmp returnindex)),
                     widen32 (IRExpr_Unop Iop_64HIto32 (IRExpr_RdTmp returnindex))))))"

text \<open>
  \<^verbatim>\<open>createBarCode\<close>. The inputs are the operands on which the result depends, with their values \<open>X\<close> and indices \<open>I\<close>.
  The partial derivatives and the value are expressions over the values of the inputs' components as F64,
  numbered in the order of the inputs.
\<close>

definition part_f :: "nat \<Rightarrow> IRExpr \<Rightarrow> IRExpr" where
  "part_f fps part =
     (if fps = 4 then IRExpr_Unop Iop_F32toF64 (IRExpr_Unop Iop_ReinterpI32asF32 (IRExpr_Unop Iop_64to32 part))
      else IRExpr_Unop Iop_ReinterpI64asF64 part)"

definition no_index :: layers where
  "no_index = both (IRExpr_Const (IRConst_U64 0))"

definition record_component ::
    "bool \<Rightarrow> layers list \<Rightarrow> IRExpr list \<Rightarrow> IRExpr \<Rightarrow> layers dgM" where
  "record_component rv indices partials value =
     (case (indices, partials) of
        ([i], [p]) \<Rightarrow> dg_bar_writeToTape rv i no_index p (cF64 F64_zero) value
      | ([i, j], [p, q]) \<Rightarrow> dg_bar_writeToTape rv i j p q value
      | ([i, j, k], [p, q, r]) \<Rightarrow>
          bindM (dg_bar_writeToTape rv i j p q (cF64 F64_zero)) (\<lambda>indexIntermediate.
          dg_bar_writeToTape rv indexIntermediate k (cF64 F64_one) r value)
      | _ \<Rightarrow> failM (Undefined ''createBarCode''))"

fun triples :: "'a list \<Rightarrow> ('a \<times> 'a \<times> 'a) list" where
  "triples (a # b # c # xs) = (a, b, c) # triples xs"
| "triples _ = []"

definition bar_body ::
    "bool \<Rightarrow> (IRExpr list \<Rightarrow> IRExpr list) \<Rightarrow> (IRExpr list \<Rightarrow> IRExpr) \<Rightarrow> nat \<Rightarrow> bool \<Rightarrow> nat \<Rightarrow> IRExpr list \<Rightarrow> IRExpr list dgM" where
  "bar_body rv partials value fps low i parts =
     (let indices = map snd (triples parts);
          floats = map (\<lambda>t. part_f fps (fst t)) (triples parts)
      in if low \<and> i \<noteq> 0 then returnM [fst (indices ! 0), snd (indices ! 0)]
         else bindM (record_component rv indices (partials floats) (value floats)) (\<lambda>index.
              returnM [fst index, snd index]))"

definition reinterpret_layers :: "IRExpr \<Rightarrow> IRExpr list \<Rightarrow> layers dgM" where
  "reinterpret_layers result outs =
     bindM (typeM result) (\<lambda>type.
     bindM (envM (\<lambda>env. reinterpretType env (outs ! 0) type)) (\<lambda>lo.
     bindM (envM (\<lambda>env. reinterpretType env (outs ! 1) type)) (\<lambda>hi. returnM (lo, hi))))"

text \<open>
  What \<^verbatim>\<open>createBarCode\<close> and \<^verbatim>\<open>createTrickCode\<close> share: code for every component of the inputs with their
  layers, and the cast of the two assembled vectors to the type of the result of the operation.
\<close>

definition componentwise_layers ::
    "IROp \<Rightarrow> IRExpr list \<Rightarrow> (IRExpr \<times> layers) list \<Rightarrow> nat \<Rightarrow> nat \<Rightarrow> (nat \<Rightarrow> IRExpr list \<Rightarrow> IRExpr list dgM) \<Rightarrow> layers dgM" where
  "componentwise_layers op operands inputs fps simd body =
     bindM (applyComponentwisely (concat (map (\<lambda>(x, lo, hi). [x, lo, hi]) inputs)) 2 fps simd body) (\<lambda>outs.
     bindM (liftM (apply_op op operands)) (\<lambda>result. reinterpret_layers result outs))"

definition createBarCode ::
    "bool \<Rightarrow> IROp \<Rightarrow> IRExpr list \<Rightarrow> (IRExpr \<times> layers) list \<Rightarrow> (IRExpr list \<Rightarrow> IRExpr list) \<Rightarrow> (IRExpr list \<Rightarrow> IRExpr)
      \<Rightarrow> nat \<Rightarrow> nat \<Rightarrow> bool \<Rightarrow> layers dgM" where
  "createBarCode rv op operands inputs partials value fps simd low =
     componentwise_layers op operands inputs fps simd (bar_body rv partials value fps low)"

section \<open>Operation rules\<close>

definition less_test :: "IRExpr \<Rightarrow> IRExpr \<Rightarrow> IRExpr" where
  "less_test x y = IRExpr_Unop Iop_32to1 (IRExpr_Binop Iop_CmpF64 x y)"

definition F64_op :: "IROp \<Rightarrow> IRExpr \<Rightarrow> IRExpr \<Rightarrow> IRExpr" where
  "F64_op op x y = IRExpr_Triop op dg_rounding_mode x y"

definition F64_sqrt :: "IRExpr \<Rightarrow> IRExpr" where
  "F64_sqrt x = IRExpr_Binop Iop_SqrtF64 dg_rounding_mode x"

text \<open>The partial derivatives and the value, of addition, subtraction, multiplication, division and square root.\<close>

definition arith_partials :: "arith_layout \<Rightarrow> IROp \<Rightarrow> IRExpr list \<Rightarrow> IRExpr list" where
  "arith_partials L op xs =
     (let x = xs ! 0; y = xs ! 1 in
      if op = add_op L then [cF64 F64_one, cF64 F64_one]
      else if op = sub_op L then [cF64 F64_one, cF64 F64_minus_one]
      else if op = mul_op L then [y, x]
      else if op = div_op L then
        [F64_op Iop_DivF64 (cF64 F64_one) y,
         F64_op Iop_DivF64 (F64_op Iop_MulF64 (cF64 F64_minus_one) x) (F64_op Iop_MulF64 y y)]
      else [F64_op Iop_DivF64 (cF64 F64_half) (F64_sqrt x)])"

definition arith_value :: "arith_layout \<Rightarrow> IROp \<Rightarrow> IRExpr list \<Rightarrow> IRExpr" where
  "arith_value L op xs =
     (let x = xs ! 0; y = xs ! 1 in
      if op = add_op L then F64_op Iop_AddF64 x y
      else if op = sub_op L then F64_op Iop_SubF64 x y
      else if op = mul_op L then F64_op Iop_MulF64 x y
      else if op = div_op L then F64_op Iop_DivF64 x y
      else F64_sqrt x)"

text \<open>The differentiable operands of an arithmetic operation, after the rounding mode if there is one.\<close>

definition arith_inputs :: "arith_layout \<Rightarrow> IROp \<Rightarrow> nat list" where
  "arith_inputs L op =
     (if op = sqrt_op L then (if sqrt_noroundingmode L then [1] else [2])
      else if llo L then [1, 2] else [2, 3])"

definition arith_nargs :: "arith_layout \<Rightarrow> IROp \<Rightarrow> nat" where
  "arith_nargs L op = last (arith_inputs L op)"

text \<open>A case of the switch whose code is made by \<^verbatim>\<open>createBarCode\<close>: all differentiable operands are inputs.\<close>

definition bar_case ::
    "bool \<Rightarrow> IROp \<Rightarrow> nat \<Rightarrow> nat list \<Rightarrow> IRExpr option list \<Rightarrow> layers option list
      \<Rightarrow> ((nat \<Rightarrow> IRExpr) \<Rightarrow> IRExpr list \<Rightarrow> IRExpr list) \<Rightarrow> ((nat \<Rightarrow> IRExpr) \<Rightarrow> IRExpr list \<Rightarrow> IRExpr)
      \<Rightarrow> nat \<Rightarrow> nat \<Rightarrow> bool \<Rightarrow> layers option dgM" where
  "bar_case rv op nargs inputs as is partials value fps simd low =
     op_case nargs inputs as is (\<lambda>A I.
       createBarCode rv op (map A [1..<nargs + 1]) (map (\<lambda>i. (A i, I i)) inputs) (partials A) (value A) fps simd low)"

definition bar_abs_partials :: "IRConst \<Rightarrow> IRExpr list \<Rightarrow> IRExpr list" where
  "bar_abs_partials zero xs =
     [IRExpr_ITE (less_test (xs ! 0) (IRExpr_Const zero)) (cF64 F64_minus_one) (cF64 F64_one)]"

definition bar_minmax_partials :: "bool \<Rightarrow> IRExpr list \<Rightarrow> IRExpr list" where
  "bar_minmax_partials is_min xs =
     (let less = less_test (xs ! 0) (xs ! 1);
          a = cF64 (if is_min then F64_one else F64_zero);
          b = cF64 (if is_min then F64_zero else F64_one)
      in [IRExpr_ITE less a b, IRExpr_ITE less b a])"

definition bar_minmax_value :: "bool \<Rightarrow> IRExpr list \<Rightarrow> IRExpr" where
  "bar_minmax_value is_min xs =
     IRExpr_ITE (less_test (xs ! 0) (xs ! 1)) (if is_min then xs ! 0 else xs ! 1) (if is_min then xs ! 1 else xs ! 0)"

definition bar_yl2x_partials :: "IROp \<Rightarrow> (nat \<Rightarrow> IRExpr) \<Rightarrow> IRExpr \<Rightarrow> IRExpr list" where
  "bar_yl2x_partials op A x =
     [IRExpr_Triop op (A 1) (cF64 F64_one) (A 3),
      IRExpr_Triop Iop_DivF64 (A 1) (A 2) (IRExpr_Triop Iop_MulF64 (A 1) (cF64 F64_ln2) x)]"

text \<open>
  Bitwise logic calls a helper for every component and fetches the two layers of its result. The names of the
  helpers begin with \<open>prefix\<close>, which is \<^verbatim>\<open>dg_bar_bitwise_\<close> or \<^verbatim>\<open>dg_trick_bitwise_\<close>.
\<close>

definition bitwise_call :: "string \<Rightarrow> string \<Rightarrow> IRExpr list \<Rightarrow> IRExpr list dgM" where
  "bitwise_call prefix name parts =
     seqM (emit_helper (prefix @ name @ ''64'') parts None)
     (bindM (newTemp Ity_I64) (\<lambda>iLo. bindM (newTemp Ity_I64) (\<lambda>iHi.
     seqM (emit_helper_1 iLo (prefix @ ''get_lower'') [])
     (seqM (emit_helper_1 iHi (prefix @ ''get_higher'') [])
           (returnM [IRExpr_RdTmp iLo, IRExpr_RdTmp iHi])))))"

definition bitwise_layers :: "string \<Rightarrow> string \<Rightarrow> nat \<Rightarrow> nat \<Rightarrow> (nat \<Rightarrow> IRExpr) \<Rightarrow> (nat \<Rightarrow> layers) \<Rightarrow> layers dgM" where
  "bitwise_layers prefix name fps simd A I =
     bindM (applyComponentwisely [A 1, fst (I 1), snd (I 1), A 2, fst (I 2), snd (I 2)] 2 fps simd
              (\<lambda>_ parts. bitwise_call prefix name parts)) (\<lambda>outs.
     returnM (outs ! 0, outs ! 1))"

definition map_layers :: "(IRExpr \<Rightarrow> IRExpr) \<Rightarrow> layers \<Rightarrow> layers" where
  "map_layers f i = (f (fst i), f (snd i))"

definition bar_unhandled :: "Bar_Config \<Rightarrow> IROp \<Rightarrow> layers option dgM" where
  "bar_unhandled cfg op =
     (if unhandled_ones cfg then
        bindM (liftM (typeOfPrimop op)) (\<lambda>(t_dst, _).
        bindM (liftM (mkIRConst_ones t_dst)) (\<lambda>indexLo. returnM (Some (both indexLo))))
      else returnM None)"

definition dg_bar_operation ::
    "Bar_Config \<Rightarrow> IROp \<Rightarrow> IRExpr option list \<Rightarrow> layers option list \<Rightarrow> layers option dgM" where
  "dg_bar_operation cfg op as is =
     (let rv = record_values cfg in
      case find (\<lambda>L. op \<in> set (arith_ops L)) arith_layouts of Some L \<Rightarrow>
        bar_case rv op (arith_nargs L op) (arith_inputs L op) as is (\<lambda>_. arith_partials L op) (\<lambda>_. arith_value L op)
          (fpsize L) (simdsize L) (llo L) | None \<Rightarrow>
      case map_of neg_table op of Some (fps, simd) \<Rightarrow>
        bar_case rv op 1 [1] as is (\<lambda>_ _. [cF64 F64_minus_one]) (\<lambda>_ xs. IRExpr_Unop op (xs ! 0)) fps simd False | None \<Rightarrow>
      if op = Iop_AbsF64 then
        bar_case rv op 1 [1] as is (\<lambda>_. bar_abs_partials (IRConst_F64i 0)) (\<lambda>_ xs. IRExpr_Unop op (xs ! 0)) 8 1 False
      else if op = Iop_AbsF32 then
        bar_case rv op 1 [1] as is (\<lambda>_. bar_abs_partials (IRConst_F32i 0)) (\<lambda>_ xs. IRExpr_Unop op (xs ! 0)) 4 1 False
      else case map_of minmax_table op of Some (is_min, fps, simd, low) \<Rightarrow>
        bar_case rv op 2 [1, 2] as is (\<lambda>_. bar_minmax_partials is_min) (\<lambda>_. bar_minmax_value is_min) fps simd low | None \<Rightarrow>
      case map_of fma_table op of Some (is_add, fps) \<Rightarrow>
        bar_case rv op 4 [2, 3, 4] as is
          (\<lambda>_ xs. [xs ! 1, xs ! 0, cF64 (if is_add then F64_one else F64_minus_one)])
          (\<lambda>A xs. IRExpr_Qop op (A 1) (xs ! 0) (xs ! 1) (xs ! 2)) fps 1 False | None \<Rightarrow>
      if op = Iop_ScaleF64 then
        bar_case rv op 3 [2] as is (\<lambda>A _. [IRExpr_Triop Iop_ScaleF64 (A 1) (cF64 F64_one) (A 3)])
          (\<lambda>A _. IRExpr_Triop op (A 1) (A 2) (A 3)) 8 1 False
      else if op = Iop_Yl2xF64 then
        bar_case rv op 3 [2, 3] as is (\<lambda>A _. bar_yl2x_partials op A (A 3))
          (\<lambda>A _. IRExpr_Triop op (A 1) (A 2) (A 3)) 8 1 False
      else if op = Iop_Yl2xp1F64 then
        bar_case rv op 3 [2, 3] as is
          (\<lambda>A _. bar_yl2x_partials op A (IRExpr_Triop Iop_AddF64 (A 1) (A 3) (cF64 F64_one)))
          (\<lambda>A _. IRExpr_Triop op (A 1) (A 2) (A 3)) 8 1 False
      else case map_of bitwise_table op of Some (name, fps, simd) \<Rightarrow>
        op_case 2 [1, 2] as is (bitwise_layers ''dg_bar_bitwise_'' name fps simd) | None \<Rightarrow>
      if op \<in> set unary_move_ops then
        op_case 1 [1] as is (\<lambda>A I. returnM (map_layers (IRExpr_Unop op) (I 1)))
      else if op = Iop_F32toF64 then
        op_case 1 [1] as is (\<lambda>A I.
          returnM (map_layers (\<lambda>i. IRExpr_Unop Iop_ReinterpI64asF64 (widen32 (IRExpr_Unop Iop_ReinterpF32asI32 i))) (I 1)))
      else if op \<in> set zero_unary_ops then
        op_case 1 [] as is (\<lambda>A I. bindM (liftM (mkIRConst_zero Ity_F64)) (\<lambda>z. returnM (both z)))
      else if op \<in> set binary_move_ops then
        op_case 2 [1, 2] as is (\<lambda>A I.
          returnM (IRExpr_Binop op (fst (I 1)) (fst (I 2)), IRExpr_Binop op (snd (I 1)) (snd (I 2))))
      else if op \<in> set shift_ops then
        op_case 2 [1] as is (\<lambda>A I. returnM (map_layers (\<lambda>i. IRExpr_Binop op i (A 2)) (I 1)))
      else if op = Iop_F64toF32 then
        op_case 2 [2] as is (\<lambda>A I. returnM (map_layers (\<lambda>i.
          IRExpr_Unop Iop_ReinterpI32asF32 (IRExpr_Unop Iop_64to32 (IRExpr_Unop Iop_ReinterpF64asI64 i))) (I 2)))
      else if op \<in> set zero_binary64_ops then
        op_case 2 [] as is (\<lambda>A I. returnM (both (IRExpr_Unop Iop_ReinterpI64asF64 (IRExpr_Const (IRConst_U64 0)))))
      else if op \<in> set zero_binary32_ops then
        op_case 2 [] as is (\<lambda>A I. returnM (both (IRExpr_Unop Iop_ReinterpI32asF32 (IRExpr_Const (IRConst_U32 0)))))
      else if op = Iop_64x4toV256 then
        op_case 4 [1, 2, 3, 4] as is (\<lambda>A I.
          returnM (IRExpr_Qop Iop_64x4toV256 (fst (I 1)) (fst (I 2)) (fst (I 3)) (fst (I 4)),
                   IRExpr_Qop Iop_64x4toV256 (snd (I 1)) (snd (I 2)) (snd (I 3)) (snd (I 4))))
      else bar_unhandled cfg op)"

definition dg_bar_ccall ::
    "IRCallee \<Rightarrow> IRType \<Rightarrow> IRExpr list \<Rightarrow> layers option list \<Rightarrow> layers option dgM" where
  "dg_bar_ccall c retty as modified_args = returnM None"

section \<open>The callback table of the recording mode\<close>

definition dg_bar_expressionhandling :: "Bar_Config \<Rightarrow> layers ExpressionHandling" where
  "dg_bar_expressionhandling cfg =
    \<lparr>wrtmp = dg_bar_wrtmp, rdtmp = dg_bar_rdtmp, puti = dg_bar_puti, geti = dg_bar_geti,
     store = dg_bar_store cfg, load = dg_bar_load cfg,
     dirty_storeF80le = dg_bar_dirty_storeF80le, dirty_loadF80le = dg_bar_dirty_loadF80le,
     eh_constant = dg_bar_constant, eh_default = dg_bar_default,
     compare = dg_bar_compare, ite = dg_bar_ite,
     operation = dg_bar_operation cfg, ccall = dg_bar_ccall\<rparr>"

definition dg_bar_handle_statement :: "Bar_Config \<Rightarrow> IRStmt \<Rightarrow> unit dgM" where
  "dg_bar_handle_statement cfg st_orig = add_statement_modified (dg_bar_expressionhandling cfg) st_orig"

section \<open>Transparency of the recording mode\<close>

text \<open>
  The statements that instrumentation with two shadow layers may add to a block with \<open>n\<close> temporaries and a
  guest state of \<open>g\<close> bytes: assignments of temporaries above \<open>n\<close>, writes to the guest state above \<open>g\<close>,
  stores into the two halves of the transfer buffer, and calls of the helper functions \<open>hs\<close>.
\<close>

fun layers_shadow_stmt :: "'a DG_Config_scheme \<Rightarrow> string set \<Rightarrow> IRTemp \<Rightarrow> int \<Rightarrow> IRStmt \<Rightarrow> bool" where
  "layers_shadow_stmt cfg hs n g (IRStmt_WrTmp t _) \<longleftrightarrow> n \<le> t"
| "layers_shadow_stmt cfg hs n g (IRStmt_Put off _) \<longleftrightarrow> (0 \<le> g \<longrightarrow> g \<le> off)"
| "layers_shadow_stmt cfg hs n g (IRStmt_PutI p) \<longleftrightarrow> (0 \<le> g \<longrightarrow> g \<le> base (puti_descr p))"
| "layers_shadow_stmt cfg hs n g (IRStmt_Store _ addr _) \<longleftrightarrow> addr = buffer_const cfg 0 \<or> addr = buffer_const cfg 32"
| "layers_shadow_stmt cfg hs n g (IRStmt_Dirty d) \<longleftrightarrow> helper_call hs n d"
| "layers_shadow_stmt cfg hs n g _ \<longleftrightarrow> False"

definition bar_helpers :: "string set" where
  "bar_helpers = {''dg_bar_x86g_amd64g_dirtyhelper_store'', ''dg_bar_x86g_amd64g_dirtyhelper_load'',
     ''dg_bar_x86g_amd64g_dirtyhelper_storeF80le_Lo'', ''dg_bar_x86g_amd64g_dirtyhelper_storeF80le_Hi'',
     ''dg_bar_x86g_amd64g_dirtyhelper_loadF80le_Lo'', ''dg_bar_x86g_amd64g_dirtyhelper_loadF80le_Hi'',
     ''dg_bar_writeToTape_call'', ''dg_bar_writeToTape_value_call'',
     ''dg_bar_bitwise_and64'', ''dg_bar_bitwise_or64'', ''dg_bar_bitwise_xor64'',
     ''dg_bar_bitwise_get_lower'', ''dg_bar_bitwise_get_higher''}"

lemma bar_helpers_mem:
  "''dg_bar_x86g_amd64g_dirtyhelper_store'' \<in> bar_helpers" "''dg_bar_x86g_amd64g_dirtyhelper_load'' \<in> bar_helpers"
  "''dg_bar_x86g_amd64g_dirtyhelper_storeF80le_Lo'' \<in> bar_helpers" "''dg_bar_x86g_amd64g_dirtyhelper_storeF80le_Hi'' \<in> bar_helpers"
  "''dg_bar_x86g_amd64g_dirtyhelper_loadF80le_Lo'' \<in> bar_helpers" "''dg_bar_x86g_amd64g_dirtyhelper_loadF80le_Hi'' \<in> bar_helpers"
  "''dg_bar_writeToTape_call'' \<in> bar_helpers" "''dg_bar_writeToTape_value_call'' \<in> bar_helpers"
  "''dg_bar_bitwise_and64'' \<in> bar_helpers" "''dg_bar_bitwise_or64'' \<in> bar_helpers" "''dg_bar_bitwise_xor64'' \<in> bar_helpers"
  "''dg_bar_bitwise_get_lower'' \<in> bar_helpers" "''dg_bar_bitwise_get_higher'' \<in> bar_helpers"
  by (simp_all add: bar_helpers_def)

lemma appends_layers_helper:
  "name \<in> hs \<Longrightarrow> appends (layers_shadow_stmt cfg hs) (emit_helper name as g)"
  by (rule appends_helper) auto

lemma appends_layers_fresh:
  "name \<in> hs \<Longrightarrow> appends (below t (layers_shadow_stmt cfg hs)) (emit_helper_1 t name as)"
  by (rule appends_helper_fresh) auto

lemma appends_layers_fresh2:
  "name \<in> hs \<Longrightarrow> appends (below u (below t (layers_shadow_stmt cfg hs))) (emit_helper_1 u name as)"
  by (rule appends_helper_fresh) (auto simp: below_def)

lemma appends_get_emit2:
  assumes "\<And>\<sigma>. S (tmp_offset \<sigma>) (gs_offset \<sigma>) (f \<sigma>)" "\<And>\<sigma>. S (tmp_offset \<sigma>) (gs_offset \<sigma>) (h \<sigma>)"
  shows "appends S (bindM getM (\<lambda>\<sigma>. seqM (emit (f \<sigma>)) (emit (h \<sigma>))))"
  using assms by (auto simp: appends_def appended_def emit_def modifyM_def addStmtToIRSB_def block_end_def bindM_def seqM_def getM_def)

lemma layers_load_appends:
  "''dg_bar_x86g_amd64g_dirtyhelper_load'' \<in> hs \<Longrightarrow> appends (layers_shadow_stmt cfg hs) (dg_bar_load cfg addr ty)"
  unfolding dg_bar_load_def
  by (intro appends_bind appends_seq appends_simple appends_layers_helper appends_newTemp_bind appends_emit) (auto simp: below_def)

lemma layers_store_appends:
  "''dg_bar_x86g_amd64g_dirtyhelper_store'' \<in> hs \<Longrightarrow> appends (layers_shadow_stmt cfg hs) (dg_bar_store cfg addr d g)"
  unfolding dg_bar_store_def
  by (intro appends_bind appends_seq appends_simple appends_layers_helper appends_emit) auto

lemma layers_loadF80le_appends:
  "lo \<in> hs \<Longrightarrow> hi \<in> hs \<Longrightarrow> appends (layers_shadow_stmt cfg hs) (load_layers lo hi addr t)"
  unfolding load_layers_def emit_helper_eq
  by (rule appends_get_emit2) (auto simp: helper_call_def emptyIRDirty_def)

lemma layers_puti_appends:
  "0 \<le> off \<Longrightarrow> appends (layers_shadow_stmt cfg hs) (dg_bar_puti off d None)"
  "0 \<le> base descr \<Longrightarrow> appends (layers_shadow_stmt cfg hs) (dg_bar_puti off d (Some (descr, ix)))"
  by (auto simp: dg_bar_puti_def mkIRRegArray_def mkIRPutI_def appends_def appended_def monad_inv emit_def
        addStmtToIRSB_def block_end_def)

lemma wrtmp_layers_appends: "appends (layers_shadow_stmt cfg hs) (dg_bar_wrtmp t d)"
  unfolding dg_bar_wrtmp_def by (rule appends_get_emit2) auto

lemma writeToTape_appends: "appends (layers_shadow_stmt cfg bar_helpers) (dg_bar_writeToTape rv i j p q v)"
  unfolding dg_bar_writeToTape_def
  by (intro appends_newTemp_bind appends_seq appends_layers_fresh appends_branch appends_below [OF appends_layers_helper] appends_simple)
     (auto simp: bar_helpers_def)

lemma createBarCode_appends: "appends (layers_shadow_stmt cfg bar_helpers) (createBarCode rv op es ins ps v fps simd low)"
proof -
  have "appends (layers_shadow_stmt cfg bar_helpers) (record_component rv is ps v)" for "is" ps v
    unfolding record_component_def
    by (auto intro!: writeToTape_appends appends_intro split: list.split prod.split)
  then show ?thesis
    unfolding createBarCode_def componentwise_layers_def bar_body_def reinterpret_layers_def Let_def by (intro appends_intro)
qed

lemma bitwise_layers_appends:
  assumes "prefix @ name @ ''64'' \<in> hs" "prefix @ ''get_lower'' \<in> hs" "prefix @ ''get_higher'' \<in> hs"
  shows "appends (layers_shadow_stmt cfg hs) (bitwise_layers prefix name fps simd A I)"
proof -
  have "appends (layers_shadow_stmt cfg hs) (bitwise_call prefix name parts)" for parts
    unfolding bitwise_call_def
    using assms
    by (intro appends_seq appends_newTemp_bind appends_layers_helper appends_below [OF appends_layers_fresh] appends_layers_fresh2 appends_simple)
  then show ?thesis unfolding bitwise_layers_def by (intro appends_intro)
qed

lemma bitwise_names: "map_of bitwise_table op = Some (name, x) \<Longrightarrow> name \<in> {''and'', ''or'', ''xor''}"
  by (auto simp: bitwise_table_def split: if_splits)

lemma appends_case:
  "(b \<Longrightarrow> appends S m) \<Longrightarrow> (\<not> b \<Longrightarrow> appends S n) \<Longrightarrow> appends S (if b then m else n)"
  "(p = None \<Longrightarrow> appends S n) \<Longrightarrow> (\<And>x. p = Some x \<Longrightarrow> appends S (f x)) \<Longrightarrow> appends S (case p of None \<Rightarrow> n | Some x \<Rightarrow> f x)"
  "(\<And>a b. q = (a, b) \<Longrightarrow> appends S (g a b)) \<Longrightarrow> appends S (case q of (a, b) \<Rightarrow> g a b)"
  by (auto split: option.split prod.split)

lemma bar_operation_appends: "appends (layers_shadow_stmt cfg bar_helpers) (dg_bar_operation cfg op as is)"
proof -
  have bw: "appends (layers_shadow_stmt cfg bar_helpers) (op_case 2 [1, 2] as is (bitwise_layers ''dg_bar_bitwise_'' name fps simd))"
    if "map_of bitwise_table op = Some (name, fps, simd)" for name fps simd
    using bitwise_names [OF that] by (intro appends_op_case bitwise_layers_appends) (auto simp: bar_helpers_mem)
  have bc: "appends (layers_shadow_stmt cfg bar_helpers) (bar_case rv op n ins as is ps v fps simd low)" for rv n ins ps v fps simd low
    unfolding bar_case_def by (intro appends_op_case createBarCode_appends)
  have un: "appends (layers_shadow_stmt cfg bar_helpers) (bar_unhandled cfg op)"
    unfolding bar_unhandled_def by (intro appends_intro)
  show ?thesis
    unfolding dg_bar_operation_def Let_def
    by (intro appends_case; (rule bc un | (rule bw, simp) | intro appends_intro))
qed

interpretation bar_emit: emitting_handling "dg_bar_expressionhandling cfg" "layers_shadow_stmt cfg bar_helpers" for cfg
  by unfold_locales
     (auto simp: dg_bar_expressionhandling_def dg_bar_rdtmp_def dg_bar_geti_def dg_bar_constant_def
        dg_bar_default_def dg_bar_compare_def dg_bar_ite_def dg_bar_ccall_def dg_bar_dirty_storeF80le_def dg_bar_dirty_loadF80le_def
        layers_puti_appends wrtmp_layers_appends bar_operation_appends bar_helpers_mem
        intro!: appends_intro layers_load_appends layers_store_appends layers_loadF80le_appends appends_layers_helper split: option.split)

end
