(* ===== verification/DG_Trick.thy ===== *)
theory DG_Trick
  imports DG_Bar
begin

text \<open>
  Bit-trick finder: the callbacks of \<^verbatim>\<open>derivgrind/trick/dg_trick.c\<close> and the operation rules (\<^verbatim>\<open>trickcode\<close>) of
  \<^verbatim>\<open>derivgrind/gen_operationhandling_code.py\<close>. A shadow value is a pair of expressions, the activity flags and the
  discreteness flags. Most callbacks are those of the recording mode.
\<close>

section \<open>Flags\<close>

definition dg_trick_dirty_storeF80le :: "IRExpr \<Rightarrow> layers \<Rightarrow> unit dgM" where
  "dg_trick_dirty_storeF80le addr expr =
     emit_helper ''dg_trick_x86g_amd64g_dirtyhelper_storeF80le'' [addr, fst expr, snd expr] None"

definition dg_trick_dirty_loadF80le :: "IRExpr \<Rightarrow> IRTemp \<Rightarrow> unit dgM" where
  "dg_trick_dirty_loadF80le =
     load_layers ''dg_trick_x86g_amd64g_dirtyhelper_loadF80le_Lo'' ''dg_trick_x86g_amd64g_dirtyhelper_loadF80le_Hi''"

definition dg_trick_warn4 :: "layers \<Rightarrow> unit dgM" where
  "dg_trick_warn4 flags =
     emit_helper ''dg_trick_warn_dirtyhelper'' [fst flags, snd flags, IRExpr_Const (IRConst_U64 4)] None"

definition dg_trick_warn8 :: "layers \<Rightarrow> unit dgM" where
  "dg_trick_warn8 flags =
     emit_helper ''dg_trick_warn_dirtyhelper'' [fst flags, snd flags, IRExpr_Const (IRConst_U64 8)] None"

text \<open>None of the listed flags, with their types, has a bit set.\<close>

definition not_active :: "(IRExpr \<times> IRType) list \<Rightarrow> IRExpr" where
  "not_active fs =
     foldl (\<lambda>notActive (f, type). IRExpr_Binop Iop_And1 notActive (isZero f type)) (IRExpr_Const (IRConst_U1 True)) fs"

text \<open>Activity flags of type \<open>type\<close>: all zero if \<open>inactive\<close> holds, else all ones.\<close>

definition activity_flags :: "IRExpr \<Rightarrow> IRType \<Rightarrow> vex_error + IRExpr" where
  "activity_flags inactive type =
     bindE (mkIRConst_zero type) (\<lambda>zero. bindE (mkIRConst_ones type) (\<lambda>ones. Inr (IRExpr_ITE inactive zero ones)))"

definition non_discrete :: "IRExpr \<Rightarrow> IRType \<Rightarrow> layers dgM" where
  "non_discrete inactive type =
     bindM (liftM (activity_flags inactive type)) (\<lambda>flagsLo.
     bindM (liftM (mkIRConst_zero type)) (\<lambda>flagsHi. returnM (flagsLo, flagsHi)))"

definition discrete :: "IRExpr \<Rightarrow> IRType \<Rightarrow> layers dgM" where
  "discrete flagsLo type =
     bindM (liftM (mkIRConst_ones type)) (\<lambda>flagsHi. returnM (flagsLo, flagsHi))"

section \<open>Operation rules\<close>

text \<open>
  \<^verbatim>\<open>createTrickCode\<close>: warn about every input that is active and discrete; the result is active when an input
  is, and it is discrete when \<open>resultIsDiscrete\<close> says so.
\<close>

definition trick_body :: "bool \<Rightarrow> nat \<Rightarrow> bool \<Rightarrow> nat \<Rightarrow> IRExpr list \<Rightarrow> IRExpr list dgM" where
  "trick_body resultIsDiscrete fps low i parts =
     (let flags = map snd (triples parts) in
      if low \<and> i \<noteq> 0 then returnM [fst (flags ! 0), snd (flags ! 0)]
      else bindM (mapM (if fps = 4 then dg_trick_warn4 else dg_trick_warn8) flags) (\<lambda>_.
           bindM (liftM (activity_flags (not_active (map (\<lambda>f. (fst f, Ity_I64)) flags)) Ity_I64)) (\<lambda>flagsIntLo_part.
           bindM (liftM (if resultIsDiscrete then mkIRConst_ones Ity_I64 else mkIRConst_zero Ity_I64)) (\<lambda>flagsIntHi_part.
           returnM [flagsIntLo_part, flagsIntHi_part]))))"

definition createTrickCode ::
    "IROp \<Rightarrow> IRExpr list \<Rightarrow> (IRExpr \<times> layers) list \<Rightarrow> bool \<Rightarrow> nat \<Rightarrow> nat \<Rightarrow> bool \<Rightarrow> layers dgM" where
  "createTrickCode op operands inputs resultIsDiscrete fps simd low =
     componentwise_layers op operands inputs fps simd (trick_body resultIsDiscrete fps low)"

text \<open>
  The floating-point operations whose code is made by \<^verbatim>\<open>createTrickCode\<close>: number of operands, operands that are
  inputs, size and number of components, lowest lane only.
\<close>

definition float_layout :: "IROp \<Rightarrow> (nat \<times> nat list \<times> nat \<times> nat \<times> bool) option" where
  "float_layout op =
     (case find (\<lambda>L. op \<in> set (arith_ops L)) arith_layouts of
        Some L \<Rightarrow> Some (arith_nargs L op, arith_inputs L op, fpsize L, simdsize L, llo L) | None \<Rightarrow>
      case map_of neg_table op of Some (fps, simd) \<Rightarrow> Some (1, [1], fps, simd, False) | None \<Rightarrow>
      if op = Iop_AbsF64 then Some (1, [1], 8, 1, False)
      else if op = Iop_AbsF32 then Some (1, [1], 4, 1, False)
      else case map_of minmax_table op of Some (_, fps, simd, low) \<Rightarrow> Some (2, [1, 2], fps, simd, low) | None \<Rightarrow>
      case map_of fma_table op of Some (_, fps) \<Rightarrow> Some (4, [2, 3, 4], fps, 1, False) | None \<Rightarrow>
      if op = Iop_ScaleF64 then Some (3, [2], 8, 1, False)
      else if op = Iop_Yl2xF64 \<or> op = Iop_Yl2xp1F64 then Some (3, [2, 3], 8, 1, False)
      else None)"

text \<open>
  The flags of an operand on which the result does not depend in a differentiable way. The code uses them
  without checking that they exist.
\<close>

definition flags_of :: "layers option list \<Rightarrow> nat \<Rightarrow> layers dgM" where
  "flags_of fs i = derefM (fs ! (i - 1))"

definition trick_shift :: "IROp \<Rightarrow> (nat \<Rightarrow> IRExpr) \<Rightarrow> layers \<Rightarrow> layers dgM" where
  "trick_shift op A f =
     bindM (typeM (IRExpr_Binop op (A 1) (A 2))) (\<lambda>type.
     bindM (liftM (mkIRConst_ones type)) (\<lambda>ones.
     returnM (IRExpr_Binop op (fst f) (A 2),
              IRExpr_ITE (isZero (A 2) Ity_I8) (IRExpr_Binop op (snd f) (A 2)) ones)))"

text \<open>
  An operation without a rule: activity is infectious, and the result is discrete. I128 and I1 are treated
  specially because the instruction selection cannot handle conditional expressions of these types.
\<close>

definition trick_unhandled :: "IROp \<Rightarrow> layers option list \<Rightarrow> layers option dgM" where
  "trick_unhandled op fs =
     bindM (liftM (typeOfPrimop op)) (\<lambda>(t_dst, t_arg1, t_arg2, t_arg3, t_arg4).
       let notActive = not_active (concat (map (\<lambda>(f, type). case f of None \<Rightarrow> [] | Some f \<Rightarrow> [(fst f, type)])
                         (zip fs [t_arg1, t_arg2, t_arg3, t_arg4])))
       in bindM (liftM (if t_dst = Ity_I128 then
                   bindE (activity_flags notActive Ity_I64) (\<lambda>i64. Inr (IRExpr_Binop Iop_64HLto128 i64 i64))
                 else if t_dst = Ity_I1 then Inr (IRExpr_Unop Iop_Not1 notActive)
                 else activity_flags notActive t_dst)) (\<lambda>flagsLo.
          someM (discrete flagsLo t_dst)))"

definition dg_trick_operation :: "IROp \<Rightarrow> IRExpr option list \<Rightarrow> layers option list \<Rightarrow> layers option dgM" where
  "dg_trick_operation op as fs =
     (case float_layout op of Some (nargs, inputs, fps, simd, low) \<Rightarrow>
        op_case nargs inputs as fs (\<lambda>A F.
          createTrickCode op (map A [1..<nargs + 1]) (map (\<lambda>i. (A i, F i)) inputs) False fps simd low) | None \<Rightarrow>
      case map_of bitwise_table op of Some (name, fps, simd) \<Rightarrow>
        op_case 2 [1, 2] as fs (bitwise_layers ''dg_trick_bitwise_'' name fps simd) | None \<Rightarrow>
      if op \<in> set unary_move_ops then
        op_case 1 [1] as fs (\<lambda>A F. returnM (map_layers (IRExpr_Unop op) (F 1)))
      else if op = Iop_F32toF64 then
        op_case 1 [1] as fs (\<lambda>A F.
          seqM (dg_trick_warn4 (map_layers (\<lambda>f. IRExpr_Binop Iop_32HLto64 (IRExpr_Unop Iop_ReinterpF32asI32 f)
                                               (IRExpr_Const (IRConst_U32 0))) (F 1)))
               (non_discrete (isZero (fst (F 1)) Ity_F32) Ity_F64))
      else if op \<in> set zero_unary_ops then
        op_case 1 [] as fs (\<lambda>A F. bindM (flags_of fs 1) (\<lambda>f. non_discrete (isZero (fst f) Ity_I32) Ity_F64))
      else if op \<in> set binary_move_ops then
        op_case 2 [1, 2] as fs (\<lambda>A F.
          returnM (IRExpr_Binop op (fst (F 1)) (fst (F 2)), IRExpr_Binop op (snd (F 1)) (snd (F 2))))
      else if op \<in> set shift_ops then op_case 2 [1] as fs (\<lambda>A F. trick_shift op A (F 1))
      else if op = Iop_F64toF32 then
        op_case 2 [2] as fs (\<lambda>A F.
          seqM (dg_trick_warn8 (map_layers (IRExpr_Unop Iop_ReinterpF64asI64) (F 2)))
               (non_discrete (isZero (fst (F 2)) Ity_F64) Ity_F32))
      else if op \<in> set zero_binary64_ops then
        op_case 2 [] as fs (\<lambda>A F. bindM (flags_of fs 2) (\<lambda>f.
          seqM (if op = Iop_RoundF64toInt then dg_trick_warn8 (map_layers (IRExpr_Unop Iop_ReinterpF64asI64) f) else returnM ())
               (bindM (typeM (fst f)) (\<lambda>type. non_discrete (isZero (fst f) type) Ity_F64))))
      else if op \<in> set zero_binary32_ops then
        op_case 2 [] as fs (\<lambda>A F. bindM (flags_of fs 2) (\<lambda>f.
          bindM (typeM (fst f)) (\<lambda>type. non_discrete (isZero (fst f) type) Ity_F32)))
      else if op = Iop_64x4toV256 then
        op_case 4 [1, 2, 3, 4] as fs (\<lambda>A F.
          returnM (IRExpr_Qop Iop_64x4toV256 (fst (F 1)) (fst (F 2)) (fst (F 3)) (fst (F 4)),
                   IRExpr_Qop Iop_64x4toV256 (snd (F 1)) (snd (F 2)) (snd (F 3)) (snd (F 4))))
      else trick_unhandled op fs)"

text \<open>A helper function called by the program: its result is active if an argument is, and discrete.\<close>

definition dg_trick_ccall ::
    "IRCallee \<Rightarrow> IRType \<Rightarrow> IRExpr list \<Rightarrow> layers option list \<Rightarrow> layers option dgM" where
  "dg_trick_ccall c retty as modified_args =
     bindM (mapM (\<lambda>(a, m). bindM (typeM a) (\<lambda>argtype. bindM (derefM m) (\<lambda>f. returnM (fst f, argtype))))
              (zip as modified_args)) (\<lambda>fs.
     bindM (liftM (activity_flags (not_active fs) retty)) (\<lambda>flagsLo.
     someM (discrete flagsLo retty)))"

section \<open>The callback table of the bit-trick finder\<close>

definition dg_trick_expressionhandling :: "DG_Config \<Rightarrow> layers ExpressionHandling" where
  "dg_trick_expressionhandling cfg =
    \<lparr>wrtmp = dg_bar_wrtmp, rdtmp = dg_bar_rdtmp, puti = dg_bar_puti, geti = dg_bar_geti,
     store = dg_bar_store cfg, load = dg_bar_load cfg,
     dirty_storeF80le = dg_trick_dirty_storeF80le, dirty_loadF80le = dg_trick_dirty_loadF80le,
     eh_constant = dg_bar_constant, eh_default = dg_bar_default,
     compare = dg_bar_compare, ite = dg_bar_ite,
     operation = dg_trick_operation, ccall = dg_trick_ccall\<rparr>"

definition dg_trick_handle_statement :: "DG_Config \<Rightarrow> IRStmt \<Rightarrow> unit dgM" where
  "dg_trick_handle_statement cfg st_orig = add_statement_modified (dg_trick_expressionhandling cfg) st_orig"

section \<open>Transparency of the bit-trick finder\<close>

definition trick_helpers :: "string set" where
  "trick_helpers = {''dg_bar_x86g_amd64g_dirtyhelper_store'', ''dg_bar_x86g_amd64g_dirtyhelper_load'',
     ''dg_trick_x86g_amd64g_dirtyhelper_storeF80le'',
     ''dg_trick_x86g_amd64g_dirtyhelper_loadF80le_Lo'', ''dg_trick_x86g_amd64g_dirtyhelper_loadF80le_Hi'',
     ''dg_trick_warn_dirtyhelper'',
     ''dg_trick_bitwise_and64'', ''dg_trick_bitwise_or64'', ''dg_trick_bitwise_xor64'',
     ''dg_trick_bitwise_get_lower'', ''dg_trick_bitwise_get_higher''}"

lemma trick_helpers_mem:
  "''dg_bar_x86g_amd64g_dirtyhelper_store'' \<in> trick_helpers" "''dg_bar_x86g_amd64g_dirtyhelper_load'' \<in> trick_helpers"
  "''dg_trick_x86g_amd64g_dirtyhelper_storeF80le'' \<in> trick_helpers"
  "''dg_trick_x86g_amd64g_dirtyhelper_loadF80le_Lo'' \<in> trick_helpers" "''dg_trick_x86g_amd64g_dirtyhelper_loadF80le_Hi'' \<in> trick_helpers"
  "''dg_trick_warn_dirtyhelper'' \<in> trick_helpers"
  "''dg_trick_bitwise_and64'' \<in> trick_helpers" "''dg_trick_bitwise_or64'' \<in> trick_helpers" "''dg_trick_bitwise_xor64'' \<in> trick_helpers"
  "''dg_trick_bitwise_get_lower'' \<in> trick_helpers" "''dg_trick_bitwise_get_higher'' \<in> trick_helpers"
  by (simp_all add: trick_helpers_def)

lemma trick_warn_appends:
  "appends (layers_shadow_stmt cfg trick_helpers) (dg_trick_warn4 f)" "appends (layers_shadow_stmt cfg trick_helpers) (dg_trick_warn8 f)"
  unfolding dg_trick_warn4_def dg_trick_warn8_def by (rule appends_layers_helper, rule trick_helpers_mem)+

lemma flags_appends: "appends S (non_discrete e ty)" "appends S (discrete e ty)" "appends S (flags_of fs i)"
  unfolding non_discrete_def discrete_def flags_of_def by (intro appends_intro appends_derefM)+

lemma createTrickCode_appends: "appends (layers_shadow_stmt cfg trick_helpers) (createTrickCode op es ins d fps simd low)"
proof -
  have "appends (layers_shadow_stmt cfg trick_helpers) ((if fps = 4 then dg_trick_warn4 else dg_trick_warn8) f)" for f
    by (simp add: trick_warn_appends)
  then show ?thesis
    unfolding createTrickCode_def componentwise_layers_def trick_body_def reinterpret_layers_def Let_def by (intro appends_intro)
qed

lemma trick_operation_appends: "appends (layers_shadow_stmt cfg trick_helpers) (dg_trick_operation op as fs)"
proof -
  have bw: "appends (layers_shadow_stmt cfg trick_helpers) (op_case 2 [1, 2] as fs (bitwise_layers ''dg_trick_bitwise_'' name fps simd))"
    if "map_of bitwise_table op = Some (name, fps, simd)" for name fps simd
    using bitwise_names [OF that] by (intro appends_op_case bitwise_layers_appends) (auto simp: trick_helpers_mem)
  have un: "appends (layers_shadow_stmt cfg trick_helpers) (trick_unhandled op fs)"
    unfolding trick_unhandled_def Let_def by (intro appends_intro flags_appends)
  show ?thesis
    unfolding dg_trick_operation_def trick_shift_def
    by (intro appends_case; (rule un | (rule bw, simp) |
        (intro appends_op_case appends_bind appends_seq createTrickCode_appends trick_warn_appends flags_appends
           appends_branch appends_simple)))
qed

lemma trick_ccall_appends: "appends S (dg_trick_ccall c retty as ms)"
  unfolding dg_trick_ccall_def by (intro appends_intro appends_derefM flags_appends)

interpretation trick_emit: emitting_handling "dg_trick_expressionhandling cfg" "layers_shadow_stmt cfg trick_helpers" for cfg
  by unfold_locales
     (auto simp: dg_trick_expressionhandling_def dg_bar_rdtmp_def dg_bar_geti_def dg_bar_constant_def
        dg_bar_default_def dg_bar_compare_def dg_bar_ite_def dg_trick_dirty_storeF80le_def dg_trick_dirty_loadF80le_def
        layers_puti_appends wrtmp_layers_appends trick_operation_appends trick_ccall_appends trick_helpers_mem
        intro!: appends_intro layers_load_appends layers_store_appends layers_loadF80le_appends appends_layers_helper split: option.split)

end
