(* ===== verification/DG_Layers_Typing.thy ===== *)
theory DG_Layers_Typing
  imports DG_Bar
begin

text \<open>
  The callbacks with two shadow layers, shared by the recording mode and the bit-trick finder, meet the laws of the
  contract \<open>shadow_handling\<close>: both layers of a shadow value have the type of the value.
\<close>

definition wt2 :: "IRType \<Rightarrow> IRTypeEnv \<Rightarrow> def_counts \<Rightarrow> layers \<Rightarrow> IRType \<Rightarrow> bool" where
  "wt2 gw env dc d ty \<longleftrightarrow> wt env gw dc (fst d) ty \<and> wt env gw dc (snd d) ty"

text \<open>What typing with two layers asks of the input block and of the configuration; \<open>good\<close> are the types that a mode supports.\<close>

definition layers_pre :: "'a DG_Config_scheme \<Rightarrow> (IRType \<Rightarrow> bool) \<Rightarrow> IRType \<Rightarrow> IRTypeEnv \<Rightarrow> int \<Rightarrow> bool" where
  "layers_pre cfg good gw env0 goff \<longleftrightarrow>
     0 \<le> goff \<and> gw = (if build_32bit cfg then Ity_I32 else Ity_I64) \<and> list_all good env0"

lemma layers_buffer_wt: "layers_pre cfg good gw env0 goff \<Longrightarrow> wt env gw dc (buffer_const cfg off) gw"
  by (simp add: layers_pre_def buffer_const_def wt_simps)

lemma progress_wt2: "progress \<sigma> dc \<sigma>' dc' D \<Longrightarrow> wt2 gw (tyenv (sb_out \<sigma>)) dc d ty \<Longrightarrow> wt2 gw (tyenv (sb_out \<sigma>')) dc' d ty"
  by (auto simp: wt2_def intro: progress_wt)

lemma wt2_extend: "wt2 gw env dc d ty \<Longrightarrow> (\<And>t. t < length env \<Longrightarrow> dc t \<le> dc' t) \<Longrightarrow> wt2 gw (env @ xs) dc' d ty"
  by (auto simp: wt2_def intro: wt_extend)

lemma shadow_temps_2: "shadow_temps n 2 t = {t + n, t + 2 * n}"
proof -
  have "{1..2} = {1, 2 :: nat}" by auto
  then show ?thesis by (simp add: shadow_temps_def insert_commute)
qed

lemma runs_get_bind [simp]: "runs I (bindM getM f) \<sigma> dc D Q = runs I (f \<sigma>) \<sigma> dc D Q"
  by (simp add: runs_def bindM_def getM_def)

lemma runs_lift_bind: "m = Inr x \<Longrightarrow> runs I (bindM (liftM m) f) \<sigma> dc D Q = runs I (f x) \<sigma> dc D Q"
  by (simp add: runs_def bindM_def liftM_def)

lemma runs_typeM_bind: "typeOfIRExpr (tyenv (sb_out \<sigma>)) e = Inr ty \<Longrightarrow> runs I (bindM (typeM e) f) \<sigma> dc D Q = runs I (f ty) \<sigma> dc D Q"
  by (simp add: runs_def bindM_def liftM_def typeM_def envM_def)

lemma runs_envM_bind: "g (tyenv (sb_out \<sigma>)) = Inr x \<Longrightarrow> runs I (bindM (envM g) f) \<sigma> dc D Q = runs I (f x) \<sigma> dc D Q"
  by (simp add: runs_def bindM_def liftM_def envM_def)

lemma runs_assert_seq: "b \<Longrightarrow> runs I (seqM (assertM b e) m) \<sigma> dc D Q = runs I m \<sigma> dc D Q"
  by (simp add: runs_def seqM_def bindM_def assertM_def)

text \<open>An action on a fresh temporary that is defined by it: the net effect defines no old temporary.\<close>

lemma runs_fresh:
  assumes "diff_inv pre gw env0 goff k \<sigma> dc" "\<forall>t\<in>D. length (tyenv (sb_out \<sigma>)) \<le> t"
    and "\<And>\<sigma>'. diff_inv pre gw env0 goff k \<sigma>' dc \<Longrightarrow> progress \<sigma> dc \<sigma>' dc {} \<Longrightarrow> tyenv (sb_out \<sigma>') = tyenv (sb_out \<sigma>) @ [ty] \<Longrightarrow>
       dc (length (tyenv (sb_out \<sigma>))) = 0 \<Longrightarrow> runs (diff_inv pre gw env0 goff k) (f (length (tyenv (sb_out \<sigma>)))) \<sigma>' dc D Q"
  shows "runs (diff_inv pre gw env0 goff k) (bindM (newTemp ty) f) \<sigma> dc {} Q"
proof -
  let ?I = "diff_inv pre gw env0 goff k" and ?t = "length (tyenv (sb_out \<sigma>))"
  have "dc ?t = 0" using assms(1) by (simp add: diff_inv_def)
  then have "runs ?I (bindM (newTemp ty) f) \<sigma> dc ({} \<union> D) Q"
    by (intro runs_bind [OF runs_newTemp [OF assms(1), where Q = "\<lambda>x \<sigma>' dc'. x = ?t \<and> tyenv (sb_out \<sigma>') = tyenv (sb_out \<sigma>) @ [ty] \<and> dc' = dc"]])
       (auto intro: assms(3))
  then show ?thesis using assms(2) by (intro runs_drop_fresh) auto
qed

text \<open>Sequencing of two statements that define different temporaries.\<close>

lemma runs_emit_wrtmp:
  assumes "diff_inv pre gw env0 goff k \<sigma> dc" "wt (tyenv (sb_out \<sigma>)) gw dc e (tyenv (sb_out \<sigma>) ! t)" "t < length (tyenv (sb_out \<sigma>))" "dc t = 0"
  shows "runs (diff_inv pre gw env0 goff k) (emit (IRStmt_WrTmp t e)) \<sigma> dc {t}
    (\<lambda>_ \<sigma>' dc'. dc' = (\<lambda>u. if u \<in> {t} then 1 else dc u) \<and> tyenv (sb_out \<sigma>') = tyenv (sb_out \<sigma>))"
  using assms by (intro runs_emit_defs [OF assms(1)] wt_stmt_WrTmp2) auto

lemma layers_wrtmp_law:
  assumes "diff_inv pre gw env0 goff 2 \<sigma> dc" "t < length env0" "wt2 gw (tyenv (sb_out \<sigma>)) dc d (env0 ! t)"
    and "\<forall>u\<in>shadow_temps (length env0) 2 t. dc u = 0"
  shows "runs (diff_inv pre gw env0 goff 2) (dg_bar_wrtmp t d) \<sigma> dc (shadow_temps (length env0) 2 t) (\<lambda>_ _ _. True)"
proof -
  let ?I = "diff_inv pre gw env0 goff 2" and ?t = "t + length env0" and ?u = "t + 2 * length env0"
  have off: "tmp_offset \<sigma> = length env0" using assms(1) by (simp add: diff_inv_def)
  have sh: "?t < length (tyenv (sb_out \<sigma>))" "tyenv (sb_out \<sigma>) ! ?t = env0 ! t"
    "?u < length (tyenv (sb_out \<sigma>))" "tyenv (sb_out \<sigma>) ! ?u = env0 ! t"
    using diff_inv_shadow_type [OF assms(1,2)] by (auto simp: shadow_temps_2)
  have ne: "?t \<noteq> ?u" using assms(2) by auto
  have "runs ?I (seqM (emit (IRStmt_WrTmp ?t (fst d))) (emit (IRStmt_WrTmp ?u (snd d)))) \<sigma> dc ({?t} \<union> {?u}) (\<lambda>_ _ _. True)"
  proof (rule runs_seq [OF runs_emit_wrtmp [OF assms(1)]])
    fix x \<sigma>1 dc1
    assume 1: "?I \<sigma>1 dc1" "progress \<sigma> dc \<sigma>1 dc1 {?t}" "dc1 = (\<lambda>u. if u \<in> {?t} then 1 else dc u) \<and> tyenv (sb_out \<sigma>1) = tyenv (sb_out \<sigma>)"
    have "wt (tyenv (sb_out \<sigma>1)) gw dc1 (snd d) (env0 ! t)" using progress_wt [OF 1(2)] assms(3) by (simp add: wt2_def)
    then show "runs ?I (emit (IRStmt_WrTmp ?u (snd d))) \<sigma>1 dc1 {?u} (\<lambda>_ _ _. True)"
      using 1 sh ne assms(4) by (intro runs_weaken [OF runs_emit_wrtmp]) (auto simp: shadow_temps_2)
  qed (use sh assms(3,4) in \<open>auto simp: wt2_def shadow_temps_2\<close>)
  then show ?thesis
    by (simp add: dg_bar_wrtmp_def shadow_temps_2 off insert_commute)
qed

lemma layers_rdtmp_law:
  assumes "diff_inv pre gw env0 goff 2 \<sigma> dc" "t < length env0" "\<forall>u\<in>shadow_temps (length env0) 2 t. 1 \<le> dc u"
  shows "runs (diff_inv pre gw env0 goff 2) (dg_bar_rdtmp t) \<sigma> dc {} (\<lambda>d \<sigma>' dc'. wt2 gw (tyenv (sb_out \<sigma>')) dc' d (env0 ! t))"
proof -
  have "tmp_offset \<sigma> = length env0" using assms(1) by (simp add: diff_inv_def)
  then show ?thesis
    using diff_inv_shadow_type [OF assms(1,2)] assms(1,3)
    by (auto simp: dg_bar_rdtmp_def shadow_temps_2 wt2_def wt_simps intro!: runs_return)
qed

lemma runs_emit_plain:
  assumes "diff_inv pre gw env0 goff k \<sigma> dc" "wt_stmt (tyenv (sb_out \<sigma>)) gw dc st dc"
  shows "runs (diff_inv pre gw env0 goff k) (emit st) \<sigma> dc {} (\<lambda>_ \<sigma>' dc'. dc' = dc \<and> tyenv (sb_out \<sigma>') = tyenv (sb_out \<sigma>))"
  using assms by (intro runs_emit) auto

lemma runs_seq_pure:
  assumes "runs I m \<sigma> dc {} Q"
    and "\<And>x \<sigma>' dc'. I \<sigma>' dc' \<Longrightarrow> progress \<sigma> dc \<sigma>' dc' {} \<Longrightarrow> Q x \<sigma>' dc' \<Longrightarrow> runs I n \<sigma>' dc' D R"
  shows "runs I (seqM m n) \<sigma> dc D R"
  using runs_seq [OF assms] by simp

lemma runs_emit_seq:
  assumes "diff_inv pre gw env0 goff k \<sigma> dc" "wt_stmt (tyenv (sb_out \<sigma>)) gw dc st dc"
    and "\<And>\<sigma>'. diff_inv pre gw env0 goff k \<sigma>' dc \<Longrightarrow> tyenv (sb_out \<sigma>') = tyenv (sb_out \<sigma>) \<Longrightarrow> runs (diff_inv pre gw env0 goff k) m \<sigma>' dc D Q"
  shows "runs (diff_inv pre gw env0 goff k) (seqM (emit st) m) \<sigma> dc D Q"
  using assms(3) by (intro runs_seq_pure [OF runs_emit_plain [OF assms(1,2)]]) auto

lemma layers_puti_laws:
  assumes "diff_inv (layers_pre cfg good gw env0 goff) gw env0 goff 2 \<sigma> dc"
  shows "wt2 gw (tyenv (sb_out \<sigma>)) dc d ty \<Longrightarrow> ty \<noteq> Ity_I1 \<Longrightarrow>
      runs (diff_inv (layers_pre cfg good gw env0 goff) gw env0 goff 2) (dg_bar_puti off d None) \<sigma> dc {} (\<lambda>_ _ _. True)"
    and "wt2 gw (tyenv (sb_out \<sigma>)) dc d (elemTy descr) \<Longrightarrow> wt (tyenv (sb_out \<sigma>)) gw dc ix Ity_I32 \<Longrightarrow>
      saneIRRegArray descr \<Longrightarrow> base descr + int 2 * goff \<le> 10000 \<Longrightarrow>
      runs (diff_inv (layers_pre cfg good gw env0 goff) gw env0 goff 2) (dg_bar_puti off d (Some (descr, ix))) \<sigma> dc {} (\<lambda>_ _ _. True)"
    and "runs (diff_inv (layers_pre cfg good gw env0 goff) gw env0 goff 2) (dg_bar_geti off ty None) \<sigma> dc {}
      (\<lambda>d \<sigma>' dc'. wt2 gw (tyenv (sb_out \<sigma>')) dc' d ty)"
    and "wt (tyenv (sb_out \<sigma>)) gw dc ix Ity_I32 \<Longrightarrow> saneIRRegArray descr \<Longrightarrow> base descr + int 2 * goff \<le> 10000 \<Longrightarrow>
      runs (diff_inv (layers_pre cfg good gw env0 goff) gw env0 goff 2) (dg_bar_geti off ty (Some (descr, ix))) \<sigma> dc {}
      (\<lambda>d \<sigma>' dc'. wt2 gw (tyenv (sb_out \<sigma>')) dc' d (elemTy descr))"
proof -
  let ?I = "diff_inv (layers_pre cfg good gw env0 goff) gw env0 goff 2"
  have g: "gs_offset \<sigma> = goff" "0 \<le> goff" using assms by (auto simp: diff_inv_def layers_pre_def)
  have descr: "\<exists>lo hi. mkIRRegArray (base descr + goff) (elemTy descr) (nElems descr) = Inr lo \<and> saneIRRegArray lo \<and> elemTy lo = elemTy descr
      \<and> mkIRRegArray (base descr + 2 * goff) (elemTy descr) (nElems descr) = Inr hi \<and> saneIRRegArray hi \<and> elemTy hi = elemTy descr"
    if "saneIRRegArray descr" "base descr + int 2 * goff \<le> 10000"
    using shadow_descr_ok [of descr goff] shadow_descr_ok [of descr "2 * goff"] that g by auto
  show "runs ?I (dg_bar_puti off d None) \<sigma> dc {} (\<lambda>_ _ _. True)" if "wt2 gw (tyenv (sb_out \<sigma>)) dc d ty" "ty \<noteq> Ity_I1"
    using that assms unfolding dg_bar_puti_def
    by (auto simp: wt2_def intro!: runs_emit_seq runs_weaken [OF runs_emit_plain] wt_stmt_Put [of _ _ _ _ ty])
  show "runs ?I (dg_bar_geti off ty None) \<sigma> dc {} (\<lambda>d \<sigma>' dc'. wt2 gw (tyenv (sb_out \<sigma>')) dc' d ty)"
    using assms unfolding dg_bar_geti_def by (auto intro!: runs_return simp: wt2_def wt_simps)
  show "runs ?I (dg_bar_puti off d (Some (descr, ix))) \<sigma> dc {} (\<lambda>_ _ _. True)"
    if w: "wt2 gw (tyenv (sb_out \<sigma>)) dc d (elemTy descr)" "wt (tyenv (sb_out \<sigma>)) gw dc ix Ity_I32" "saneIRRegArray descr"
      "base descr + int 2 * goff \<le> 10000"
    using descr [OF w(3,4)] w(1,2) assms unfolding dg_bar_puti_def
    by (auto simp: wt2_def g runs_lift_bind intro!: runs_emit_seq runs_weaken [OF runs_emit_plain] wt_stmt_PutI)
  show "runs ?I (dg_bar_geti off ty (Some (descr, ix))) \<sigma> dc {} (\<lambda>d \<sigma>' dc'. wt2 gw (tyenv (sb_out \<sigma>')) dc' d (elemTy descr))"
    if w: "wt (tyenv (sb_out \<sigma>)) gw dc ix Ity_I32" "saneIRRegArray descr" "base descr + int 2 * goff \<le> 10000"
    using descr [OF w(2,3)] w(1) assms unfolding dg_bar_geti_def
    by (auto simp: wt2_def wt_simps g runs_lift_bind intro!: runs_return)
qed

lemma layers_store_law:
  assumes inv: "diff_inv (layers_pre cfg good gw env0 goff) gw env0 goff 2 \<sigma> dc" and a: "wt (tyenv (sb_out \<sigma>)) gw dc addr gw"
    and d: "wt2 gw (tyenv (sb_out \<sigma>)) dc d ty" "ty \<noteq> Ity_I1" "ty \<noteq> Ity_INVALID"
    and g: "\<And>e. g = Some e \<Longrightarrow> wt (tyenv (sb_out \<sigma>)) gw dc e Ity_I1"
  shows "runs (diff_inv (layers_pre cfg good gw env0 goff) gw env0 goff 2) (dg_bar_store cfg addr d g) \<sigma> dc {} (\<lambda>_ _ _. True)"
proof -
  have pre: "layers_pre cfg good gw env0 goff" using inv by (simp add: diff_inv_def)
  have gw: "gw \<noteq> Ity_I1" using pre by (auto simp: layers_pre_def)
  obtain n where n: "sizeofIRType ty = Inr n" using sizeofIRType_ok d by blast
  note d' = d(1) [unfolded wt2_def]
  have h: "\<exists>t. t \<noteq> Ity_I1 \<and> wt (tyenv (sb_out \<sigma>)) gw dc addr t" using a gw by blast
  show ?thesis
    unfolding dg_bar_store_def
    using inv h d' g n wt_type [OF d' [THEN conjunct1]] wt_type [OF d' [THEN conjunct2]] layers_buffer_wt [OF pre]
    by (auto simp: runs_typeM_bind runs_lift_bind runs_assert_seq wt_simps
          intro!: runs_emit_seq wt_stmt_Store [OF _ _ d(2)] runs_weaken [OF runs_helper]) blast
qed

text \<open>Two fresh temporaries that are defined by one action each.\<close>

lemma runs_two_fresh:
  assumes inv: "diff_inv pre gw env0 goff k \<sigma> dc"
    and m1: "\<And>\<sigma>' dc' t. diff_inv pre gw env0 goff k \<sigma>' dc' \<Longrightarrow> t < length (tyenv (sb_out \<sigma>')) \<Longrightarrow> dc' t = 0 \<Longrightarrow> tyenv (sb_out \<sigma>') ! t = ty \<Longrightarrow>
        runs (diff_inv pre gw env0 goff k) (m1 t) \<sigma>' dc' {t}
          (\<lambda>_ \<sigma>'' dc''. dc'' = (\<lambda>u. if u \<in> {t} then 1 else dc' u) \<and> tyenv (sb_out \<sigma>'') = tyenv (sb_out \<sigma>'))"
    and m2: "\<And>\<sigma>' dc' t. diff_inv pre gw env0 goff k \<sigma>' dc' \<Longrightarrow> t < length (tyenv (sb_out \<sigma>')) \<Longrightarrow> dc' t = 0 \<Longrightarrow> tyenv (sb_out \<sigma>') ! t = ty \<Longrightarrow>
        runs (diff_inv pre gw env0 goff k) (m2 t) \<sigma>' dc' {t}
          (\<lambda>_ \<sigma>'' dc''. dc'' = (\<lambda>u. if u \<in> {t} then 1 else dc' u) \<and> tyenv (sb_out \<sigma>'') = tyenv (sb_out \<sigma>'))"
    and Q: "\<And>\<sigma>' dc' t u. wt (tyenv (sb_out \<sigma>')) gw dc' (IRExpr_RdTmp t) ty \<Longrightarrow> wt (tyenv (sb_out \<sigma>')) gw dc' (IRExpr_RdTmp u) ty \<Longrightarrow> Q (f t u) \<sigma>' dc'"
  shows "runs (diff_inv pre gw env0 goff k)
    (bindM (newTemp ty) (\<lambda>t. bindM (newTemp ty) (\<lambda>u. seqM (m1 t) (seqM (m2 u) (returnM (f t u)))))) \<sigma> dc {} Q"
proof -
  let ?I = "diff_inv pre gw env0 goff k" and ?t = "length (tyenv (sb_out \<sigma>))"
  have two: "runs ?I (seqM (m1 ?t) (seqM (m2 (Suc ?t)) (returnM (f ?t (Suc ?t))))) \<sigma>1 dc {?t, Suc ?t} Q"
    if 1: "?I \<sigma>1 dc" "tyenv (sb_out \<sigma>1) = tyenv (sb_out \<sigma>) @ [ty, ty]" "dc ?t = 0" "dc (Suc ?t) = 0" for \<sigma>1
  proof -
    have n: "?t < length (tyenv (sb_out \<sigma>1))" "tyenv (sb_out \<sigma>1) ! ?t = ty" "Suc ?t < length (tyenv (sb_out \<sigma>1))" "tyenv (sb_out \<sigma>1) ! Suc ?t = ty"
      using 1(2) by (simp_all add: nth_append)
    have "runs ?I (seqM (m1 ?t) (seqM (m2 (Suc ?t)) (returnM (f ?t (Suc ?t))))) \<sigma>1 dc ({?t} \<union> ({Suc ?t} \<union> {})) Q"
    proof (rule runs_seq [OF m1 [OF 1(1) n(1) 1(3) n(2)]])
      fix x \<sigma>2 dc2
      assume 2: "?I \<sigma>2 dc2" "dc2 = (\<lambda>u. if u \<in> {?t} then 1 else dc u) \<and> tyenv (sb_out \<sigma>2) = tyenv (sb_out \<sigma>1)"
      have h: "Suc ?t < length (tyenv (sb_out \<sigma>2))" "dc2 (Suc ?t) = 0" "tyenv (sb_out \<sigma>2) ! Suc ?t = ty"
        using 2(2) n 1(4) by auto
      show "runs ?I (seqM (m2 (Suc ?t)) (returnM (f ?t (Suc ?t)))) \<sigma>2 dc2 ({Suc ?t} \<union> {}) Q"
      proof (rule runs_seq [OF m2 [OF 2(1) h]])
        fix y \<sigma>3 dc3
        assume 3: "?I \<sigma>3 dc3" "dc3 = (\<lambda>u. if u \<in> {Suc ?t} then 1 else dc2 u) \<and> tyenv (sb_out \<sigma>3) = tyenv (sb_out \<sigma>2)"
        then show "runs ?I (returnM (f ?t (Suc ?t))) \<sigma>3 dc3 {} Q"
          using 2(2) n by (intro runs_return Q) (auto simp: wt_simps)
      qed
    qed
    then show ?thesis by (simp add: insert_commute)
  qed
  show ?thesis
  proof (rule runs_fresh [OF inv, where D = "{?t, Suc ?t}"], goal_cases)
    case (2 \<sigma>2)
    have u: "dc (Suc ?t) = 0" using 2(1,3) by (simp add: diff_inv_def)
    have "runs ?I (bindM (newTemp ty) (\<lambda>u. seqM (m1 ?t) (seqM (m2 u) (returnM (f ?t u))))) \<sigma>2 dc ({} \<union> {?t, Suc ?t}) Q"
      using 2 u
      by (intro runs_bind [OF runs_newTemp [OF 2(1), where Q = "\<lambda>x \<sigma>' dc'. x = Suc ?t \<and> tyenv (sb_out \<sigma>') = tyenv (sb_out \<sigma>2) @ [ty] \<and> dc' = dc"]])
         (auto intro!: two)
    then show ?case by simp
  qed simp
qed

lemma layers_load_law:
  assumes inv: "diff_inv (layers_pre cfg good gw env0 goff) gw env0 goff 2 \<sigma> dc" and a: "wt (tyenv (sb_out \<sigma>)) gw dc addr gw"
    and ty: "ty \<noteq> Ity_I1" "ty \<noteq> Ity_INVALID"
  shows "runs (diff_inv (layers_pre cfg good gw env0 goff) gw env0 goff 2) (dg_bar_load cfg addr ty) \<sigma> dc {}
           (\<lambda>d \<sigma>' dc'. wt2 gw (tyenv (sb_out \<sigma>')) dc' d ty)" (is "runs ?I _ _ _ _ ?Q")
proof -
  have pre: "layers_pre cfg good gw env0 goff" using inv by (simp add: diff_inv_def)
  have gw: "gw \<noteq> Ity_I1" using pre by (auto simp: layers_pre_def)
  obtain n where n: "sizeofIRType ty = Inr n" using sizeofIRType_ok ty by blast
  let ?ld = "\<lambda>off. IRExpr_Load Iend_LE ty (buffer_const cfg off)"
  have ld: "wt env gw dc' (?ld off) ty" for env dc' off
    using layers_buffer_wt [OF pre] by (simp add: wt_simps)
  have h: "\<exists>t. t \<noteq> Ity_I1 \<and> wt (tyenv (sb_out \<sigma>)) gw dc addr t" using a gw by blast
  show ?thesis
    unfolding dg_bar_load_def runs_lift_bind [OF n]
  proof (rule runs_seq_pure [OF runs_helper [OF inv]])
    fix x \<sigma>1 dc1 assume "?I \<sigma>1 dc1"
    then show "runs ?I (bindM (newTemp ty) (\<lambda>t. bindM (newTemp ty) (\<lambda>u. seqM (emit (IRStmt_WrTmp t (?ld 0)))
        (seqM (emit (IRStmt_WrTmp u (?ld 32))) (returnM (IRExpr_RdTmp t, IRExpr_RdTmp u)))))) \<sigma>1 dc1 {} ?Q"
      using ld by (intro runs_two_fresh runs_emit_wrtmp) (auto simp: wt2_def)
  qed (use h in \<open>auto simp: wt_simps\<close>)
qed

lemma runs_helper_seq:
  assumes "diff_inv pre gw env0 goff k \<sigma> dc" "length as \<le> 32"
    and "list_all (\<lambda>a. \<exists>t. t \<noteq> Ity_I1 \<and> wt (tyenv (sb_out \<sigma>)) gw dc a t) as"
    and "\<And>\<sigma>'. diff_inv pre gw env0 goff k \<sigma>' dc \<Longrightarrow> tyenv (sb_out \<sigma>') = tyenv (sb_out \<sigma>) \<Longrightarrow> runs (diff_inv pre gw env0 goff k) m \<sigma>' dc D Q"
  shows "runs (diff_inv pre gw env0 goff k) (seqM (emit_helper name as None) m) \<sigma> dc D Q"
  using assms(4) by (intro runs_seq_pure [OF runs_helper [OF assms(1-3)]]) auto

lemma wt_not_I1: "wt env gw dc e ty \<Longrightarrow> ty \<noteq> Ity_I1 \<Longrightarrow> \<exists>t. t \<noteq> Ity_I1 \<and> wt env gw dc e t"
  by blast

lemma load_layers_law:
  assumes inv: "diff_inv pre gw env0 goff 2 \<sigma> dc" and a: "wt (tyenv (sb_out \<sigma>)) gw dc addr gw" "gw \<noteq> Ity_I1"
    and t: "t < length env0" "env0 ! t = Ity_I64" "\<forall>u\<in>shadow_temps (length env0) 2 t. dc u = 0"
  shows "runs (diff_inv pre gw env0 goff 2) (load_layers lo hi addr t) \<sigma> dc (shadow_temps (length env0) 2 t) (\<lambda>_ _ _. True)"
proof -
  let ?I = "diff_inv pre gw env0 goff 2" and ?t = "t + length env0" and ?u = "t + 2 * length env0"
  have off: "tmp_offset \<sigma> = length env0" using inv by (simp add: diff_inv_def)
  have sh: "?t < length (tyenv (sb_out \<sigma>))" "tyenv (sb_out \<sigma>) ! ?t = Ity_I64"
    "?u < length (tyenv (sb_out \<sigma>))" "tyenv (sb_out \<sigma>) ! ?u = Ity_I64"
    using diff_inv_shadow_type [OF inv t(1)] t(2) by (auto simp: shadow_temps_2)
  have ne: "?t \<noteq> ?u" using t(1) by auto
  have "runs ?I (seqM (emit_helper_1 ?t lo [addr]) (emit_helper_1 ?u hi [addr])) \<sigma> dc ({?t} \<union> {?u}) (\<lambda>_ _ _. True)"
  proof (rule runs_seq [OF runs_helper_1 [OF inv]])
    fix x \<sigma>1 dc1
    assume 1: "?I \<sigma>1 dc1" "progress \<sigma> dc \<sigma>1 dc1 {?t}" "dc1 = (\<lambda>u. if u \<in> {?t} then 1 else dc u) \<and> tyenv (sb_out \<sigma>1) = tyenv (sb_out \<sigma>)"
    have "\<exists>t. t \<noteq> Ity_I1 \<and> wt (tyenv (sb_out \<sigma>1)) gw dc1 addr t" using progress_wt [OF 1(2) a(1)] a(2) by blast
    then show "runs ?I (emit_helper_1 ?u hi [addr]) \<sigma>1 dc1 {?u} (\<lambda>_ _ _. True)"
      using 1 sh ne t(3) by (intro runs_weaken [OF runs_helper_1]) (auto simp: shadow_temps_2)
  qed (use sh t(3) wt_not_I1 [OF a] in \<open>auto simp: shadow_temps_2\<close>)
  then show ?thesis
    by (simp add: load_layers_def shadow_temps_2 off insert_commute)
qed

text \<open>The types for which a default shadow exists.\<close>

definition default_type :: "IRType \<Rightarrow> bool" where
  "default_type ty \<longleftrightarrow> ty \<notin> {Ity_INVALID, Ity_F16, Ity_D32, Ity_D128}"

lemma default_type_const: "default_type (typeOfIRConst con)"
  by (cases con) (simp_all add: default_type_def)

lemma prim_types_zero [prim_types]:
  "typeOfPrimop Iop_ReinterpI64asD64 = Inr (Ity_D64, Ity_I64, Ity_INVALID, Ity_INVALID, Ity_INVALID)"
  "typeOfPrimop Iop_ReinterpI128asF128 = Inr (Ity_F128, Ity_I128, Ity_INVALID, Ity_INVALID, Ity_INVALID)"
  by (simp_all add: typeOfPrimop_defs primop_sig_defs)

lemma bar_zero_wt: "default_type ty \<Longrightarrow> \<exists>e. bar_zero ty = Inr e \<and> wt env gw dc e ty"
  by (cases ty) (simp_all add: default_type_def bar_zero_def Let_def wt_simps prim_types)

lemma layers_pure_laws:
  assumes inv: "diff_inv pre gw env0 goff 2 \<sigma> dc"
  shows "runs (diff_inv pre gw env0 goff 2) (dg_bar_constant (tagOfIRConst con)) \<sigma> dc {}
      (\<lambda>d \<sigma>' dc'. wt2 gw (tyenv (sb_out \<sigma>')) dc' d (typeOfIRConst con))"
    and "default_type ty \<Longrightarrow> runs (diff_inv pre gw env0 goff 2) (dg_bar_default ty) \<sigma> dc {}
      (\<lambda>d \<sigma>' dc'. wt2 gw (tyenv (sb_out \<sigma>')) dc' d ty)"
    and "wt2 gw (tyenv (sb_out \<sigma>)) dc x ty \<Longrightarrow> wt2 gw (tyenv (sb_out \<sigma>)) dc y ty \<Longrightarrow> ty \<in> {Ity_I8, Ity_I16, Ity_I32, Ity_I64} \<Longrightarrow>
      runs (diff_inv pre gw env0 goff 2) (dg_bar_compare x y) \<sigma> dc {} (\<lambda>e \<sigma>' dc'. wt (tyenv (sb_out \<sigma>')) gw dc' e Ity_I1)"
    and "wt (tyenv (sb_out \<sigma>)) gw dc c Ity_I1 \<Longrightarrow> wt2 gw (tyenv (sb_out \<sigma>)) dc x ty \<Longrightarrow> wt2 gw (tyenv (sb_out \<sigma>)) dc y ty \<Longrightarrow>
      runs (diff_inv pre gw env0 goff 2) (dg_bar_ite c x y) \<sigma> dc {} (\<lambda>d \<sigma>' dc'. wt2 gw (tyenv (sb_out \<sigma>')) dc' d ty)"
proof -
  let ?I = "diff_inv pre gw env0 goff 2"
  show "runs ?I (dg_bar_constant (tagOfIRConst con)) \<sigma> dc {} (\<lambda>d \<sigma>' dc'. wt2 gw (tyenv (sb_out \<sigma>')) dc' d (typeOfIRConst con))"
    unfolding dg_bar_constant_def using inv
    by (intro runs_return) (cases con; simp add: wt2_def both_def wt_simps prim_types)+
  show "runs ?I (dg_bar_default ty) \<sigma> dc {} (\<lambda>d \<sigma>' dc'. wt2 gw (tyenv (sb_out \<sigma>')) dc' d ty)" if "default_type ty"
    using bar_zero_wt [OF that, of "tyenv (sb_out \<sigma>)" gw dc] inv
    by (auto simp: dg_bar_default_def runs_lift_bind wt2_def both_def intro!: runs_return)
  show "runs ?I (dg_bar_compare x y) \<sigma> dc {} (\<lambda>e \<sigma>' dc'. wt (tyenv (sb_out \<sigma>')) gw dc' e Ity_I1)"
    if w: "wt2 gw (tyenv (sb_out \<sigma>)) dc x ty" "wt2 gw (tyenv (sb_out \<sigma>)) dc y ty" and ty: "ty \<in> {Ity_I8, Ity_I16, Ity_I32, Ity_I64}"
  proof -
    have c: "\<exists>c. compare_op ty = Inr c \<and> typeOfPrimop c = Inr (Ity_I1, ty, ty, Ity_INVALID, Ity_INVALID)"
      using ty by (auto simp: compare_op_def prim_types)
    then show ?thesis
      using w inv ty wt_type [of "tyenv (sb_out \<sigma>)" gw dc "fst x" ty] wt_type [of "tyenv (sb_out \<sigma>)" gw dc "fst y" ty]
      by (auto simp: dg_bar_compare_def runs_typeM_bind runs_lift_bind runs_assert_seq wt2_def wt_simps prim_types intro!: runs_return)
  qed
  show "runs ?I (dg_bar_ite c x y) \<sigma> dc {} (\<lambda>d \<sigma>' dc'. wt2 gw (tyenv (sb_out \<sigma>')) dc' d ty)"
    if "wt (tyenv (sb_out \<sigma>)) gw dc c Ity_I1" "wt2 gw (tyenv (sb_out \<sigma>)) dc x ty" "wt2 gw (tyenv (sb_out \<sigma>)) dc y ty"
    using that inv by (auto simp: dg_bar_ite_def wt2_def wt_simps intro!: runs_return)
qed

section \<open>Operation rules with two layers\<close>

definition layers_op_ok ::
    "bool \<Rightarrow> IRType \<Rightarrow> IRTypeEnv \<Rightarrow> int \<Rightarrow> DiffEnv \<Rightarrow> def_counts \<Rightarrow> IRType \<Rightarrow> layers option dgM \<Rightarrow> bool" where
  "layers_op_ok pre gw env0 goff \<sigma> dc ty m \<longleftrightarrow>
     runs (diff_inv pre gw env0 goff 2) m \<sigma> dc {}
       (\<lambda>r \<sigma>' dc'. \<forall>d. r = Some d \<longrightarrow> wt2 gw (tyenv (sb_out \<sigma>')) dc' d ty)"

definition layers_operands ::
    "(IRExpr \<Rightarrow> IRType \<Rightarrow> bool) \<Rightarrow> (layers \<Rightarrow> IRType \<Rightarrow> bool) \<Rightarrow> IRType list \<Rightarrow> nat \<Rightarrow> nat list \<Rightarrow> (nat \<Rightarrow> IRExpr) \<Rightarrow> (nat \<Rightarrow> layers) \<Rightarrow> bool" where
  "layers_operands w w2 ts n diffs A D \<longleftrightarrow>
     (\<forall>i\<in>{1..n}. w (A i) (ts ! (i - 1))) \<and> (\<forall>i\<in>set diffs. w2 (D i) (ts ! (i - 1)))"

lemma layers_op_case_ok:
  assumes inv: "diff_inv pre gw env0 goff 2 \<sigma> dc"
    and ops: "operands_ok (wt (tyenv (sb_out \<sigma>)) gw dc) (wt2 gw (tyenv (sb_out \<sigma>)) dc) ts as ds"
    and ts: "\<forall>i\<in>{1..n} \<union> set diffs. 1 \<le> i \<and> i \<le> length ts \<and> ts ! (i - 1) \<noteq> Ity_INVALID"
    and body: "\<And>A D. layers_operands (wt (tyenv (sb_out \<sigma>)) gw dc) (wt2 gw (tyenv (sb_out \<sigma>)) dc) ts n diffs A D \<Longrightarrow>
           runs (diff_inv pre gw env0 goff 2) (m A D) \<sigma> dc {} (\<lambda>d \<sigma>' dc'. wt2 gw (tyenv (sb_out \<sigma>')) dc' d ty)"
  shows "layers_op_ok pre gw env0 goff \<sigma> dc ty (op_case n diffs as ds m)"
  unfolding layers_op_ok_def
  by (rule runs_op_case [where w = "wt (tyenv (sb_out \<sigma>)) gw dc" and wd = "wt2 gw (tyenv (sb_out \<sigma>)) dc" and I = "diff_inv pre gw env0 goff 2", OF inv ops ts])
     (simp add: body layers_operands_def)

lemma layers_op_case_return_ok:
  assumes "diff_inv pre gw env0 goff 2 \<sigma> dc"
    and "operands_ok (wt (tyenv (sb_out \<sigma>)) gw dc) (wt2 gw (tyenv (sb_out \<sigma>)) dc) ts as ds"
    and "\<forall>i\<in>{1..n} \<union> set diffs. 1 \<le> i \<and> i \<le> length ts \<and> ts ! (i - 1) \<noteq> Ity_INVALID"
    and "\<And>A D. layers_operands (wt (tyenv (sb_out \<sigma>)) gw dc) (wt2 gw (tyenv (sb_out \<sigma>)) dc) ts n diffs A D \<Longrightarrow>
           wt2 gw (tyenv (sb_out \<sigma>)) dc (f A D) ty"
  shows "layers_op_ok pre gw env0 goff \<sigma> dc ty (op_case n diffs as ds (\<lambda>A D. returnM (f A D)))"
  by (rule layers_op_case_ok [OF assms(1-3)]) (simp add: assms(1,4) runs_return)

lemma layers_op_ok_branch:
  "(b \<Longrightarrow> layers_op_ok pre gw env0 goff \<sigma> dc ty m) \<Longrightarrow> (\<not> b \<Longrightarrow> layers_op_ok pre gw env0 goff \<sigma> dc ty n) \<Longrightarrow>
   layers_op_ok pre gw env0 goff \<sigma> dc ty (if b then m else n)"
  "(p = None \<Longrightarrow> layers_op_ok pre gw env0 goff \<sigma> dc ty n) \<Longrightarrow> (\<And>x. p = Some x \<Longrightarrow> layers_op_ok pre gw env0 goff \<sigma> dc ty (f x)) \<Longrightarrow>
   layers_op_ok pre gw env0 goff \<sigma> dc ty (case p of None \<Rightarrow> n | Some x \<Rightarrow> f x)"
  "(\<And>a b. q = (a, b) \<Longrightarrow> layers_op_ok pre gw env0 goff \<sigma> dc ty (g a b)) \<Longrightarrow> layers_op_ok pre gw env0 goff \<sigma> dc ty (case q of (a, b) \<Rightarrow> g a b)"
  by (auto split: option.split prod.split)

end
