(* ===== verification/DG_Dot.thy ===== *)
theory DG_Dot
  imports DG_Common
begin

text \<open>
  Forward mode: the callbacks of \<^verbatim>\<open>derivgrind/dot/dg_dot.c\<close> and the forward-mode operation
  rules (\<^verbatim>\<open>dotcode\<close>) of \<^verbatim>\<open>derivgrind/gen_operationhandling_code.py\<close>. A shadow value is
  one expression, the dot value.
\<close>

section \<open>Callbacks\<close>

definition dg_dot_wrtmp :: "IRTemp \<Rightarrow> IRExpr \<Rightarrow> unit dgM" where
  "dg_dot_wrtmp temp expr = bindM getM (\<lambda>\<sigma>. emit (IRStmt_WrTmp (temp + tmp_offset \<sigma>) expr))"

definition dg_dot_rdtmp :: "IRTemp \<Rightarrow> IRExpr dgM" where
  "dg_dot_rdtmp temp = bindM getM (\<lambda>\<sigma>. returnM (IRExpr_RdTmp (temp + tmp_offset \<sigma>)))"

definition dg_dot_puti :: "int \<Rightarrow> IRExpr \<Rightarrow> (IRRegArray \<times> IRExpr) option \<Rightarrow> unit dgM" where
  "dg_dot_puti offset expr descr_ix = bindM getM (\<lambda>\<sigma>.
     case descr_ix of
       Some (descr, ix) \<Rightarrow>
         bindM (liftM (mkIRRegArray (base descr + gs_offset \<sigma>) (elemTy descr) (nElems descr))) (\<lambda>shadow_descr.
         emit (IRStmt_PutI (mkIRPutI shadow_descr ix (offset + gs_offset \<sigma>) expr)))
     | None \<Rightarrow> emit (IRStmt_Put (offset + gs_offset \<sigma>) expr))"

definition dg_dot_geti :: "int \<Rightarrow> IRType \<Rightarrow> (IRRegArray \<times> IRExpr) option \<Rightarrow> IRExpr dgM" where
  "dg_dot_geti offset type descr_ix = bindM getM (\<lambda>\<sigma>.
     case descr_ix of
       Some (descr, ix) \<Rightarrow>
         bindM (liftM (mkIRRegArray (base descr + gs_offset \<sigma>) (elemTy descr) (nElems descr))) (\<lambda>shadow_descr.
         returnM (IRExpr_GetI shadow_descr ix (offset + gs_offset \<sigma>)))
     | None \<Rightarrow> returnM (IRExpr_Get (offset + gs_offset \<sigma>) type))"

definition dg_dot_store :: "DG_Config \<Rightarrow> IRExpr \<Rightarrow> IRExpr \<Rightarrow> IRExpr option \<Rightarrow> unit dgM" where
  "dg_dot_store cfg addr expr g =
     seqM (emit (IRStmt_Store Iend_LE (buffer_const cfg 0) expr))
     (bindM (typeM expr) (\<lambda>type.
     bindM (liftM (sizeofIRType type)) (\<lambda>szB.
     emit_helper ''dg_dot_x86g_amd64g_dirtyhelper_store''
       [addr, IRExpr_Const (IRConst_U64 (of_nat szB))] g)))"

definition dg_dot_load :: "DG_Config \<Rightarrow> IRExpr \<Rightarrow> IRType \<Rightarrow> IRExpr dgM" where
  "dg_dot_load cfg addr type =
     bindM (liftM (sizeofIRType type)) (\<lambda>szB.
     seqM (emit_helper ''dg_dot_x86g_amd64g_dirtyhelper_load''
             [addr, IRExpr_Const (IRConst_U64 (of_nat szB))] None)
     (bindM (newTemp type) (\<lambda>ex_tmp.
     seqM (emit (IRStmt_WrTmp ex_tmp (IRExpr_Load Iend_LE type (buffer_const cfg 0))))
          (returnM (IRExpr_RdTmp ex_tmp)))))"

definition dg_dot_dirty_storeF80le :: "IRExpr \<Rightarrow> IRExpr \<Rightarrow> unit dgM" where
  "dg_dot_dirty_storeF80le addr expr =
     emit_helper ''dg_dot_x86g_amd64g_dirtyhelper_storeF80le'' [addr, expr] None"

definition dg_dot_dirty_loadF80le :: "IRExpr \<Rightarrow> IRTemp \<Rightarrow> unit dgM" where
  "dg_dot_dirty_loadF80le addr temp = bindM getM (\<lambda>\<sigma>.
     emit_helper_1 (temp + tmp_offset \<sigma>) ''dg_dot_x86g_amd64g_dirtyhelper_loadF80le'' [addr])"

definition dg_dot_constant :: "IRConstTag \<Rightarrow> IRExpr dgM" where
  "dg_dot_constant type = returnM (IRExpr_Const (case type of
      Ico_F64 \<Rightarrow> IRConst_F64 F64_zero
    | Ico_F64i \<Rightarrow> IRConst_F64i 0
    | Ico_F32 \<Rightarrow> IRConst_F32 F32_zero
    | Ico_F32i \<Rightarrow> IRConst_F32i 0
    | Ico_U1 \<Rightarrow> IRConst_U1 False
    | Ico_U8 \<Rightarrow> IRConst_U8 0
    | Ico_U16 \<Rightarrow> IRConst_U16 0
    | Ico_U32 \<Rightarrow> IRConst_U32 0
    | Ico_U64 \<Rightarrow> IRConst_U64 0
    | Ico_U128 \<Rightarrow> IRConst_U128 0
    | Ico_V128 \<Rightarrow> IRConst_V128 0
    | Ico_V256 \<Rightarrow> IRConst_V256 0))"

definition dg_dot_default :: "IRType \<Rightarrow> IRExpr dgM" where
  "dg_dot_default type = liftM (mkIRConst_zero type)"

definition dg_dot_compare :: "IRExpr \<Rightarrow> IRExpr \<Rightarrow> IRExpr dgM" where
  "dg_dot_compare arg1 arg2 =
     bindM (typeM arg1) (\<lambda>type. bindM (typeM arg2) (\<lambda>type2.
     seqM (assertM (type = type2) (Vassert ''dg_dot_compare''))
     (bindM (liftM (compare_op type)) (\<lambda>cmp. returnM (IRExpr_Binop cmp arg1 arg2)))))"

definition dg_dot_ite :: "IRExpr \<Rightarrow> IRExpr \<Rightarrow> IRExpr \<Rightarrow> IRExpr dgM" where
  "dg_dot_ite cond dtrue dfalse = returnM (IRExpr_ITE cond dtrue dfalse)"

section \<open>Operation rules\<close>

text \<open>
  The rules of the arithmetic of one SIMD layout. \<open>rm\<close> is the rounding mode operand, which
  lowest-lane-only operations do not have; \<open>x\<close>, \<open>y\<close> are the operands and \<open>dx\<close>, \<open>dy\<close> their dot
  values.
\<close>

definition dot_mul :: "arith_layout \<Rightarrow> IRExpr list \<Rightarrow> IRExpr \<Rightarrow> IRExpr \<Rightarrow> IRExpr \<Rightarrow> IRExpr \<Rightarrow> vex_error + IRExpr" where
  "dot_mul L rm x y dx dy =
     bindE (apply_op (mul_op L) (rm @ [dx, y])) (\<lambda>p.
     bindE (apply_op (mul_op L) (rm @ [dy, x])) (\<lambda>q.
     apply_op (add_op L) (rm @ [p, q])))"

definition dot_div :: "arith_layout \<Rightarrow> IRExpr list \<Rightarrow> IRExpr \<Rightarrow> IRExpr \<Rightarrow> IRExpr \<Rightarrow> IRExpr \<Rightarrow> vex_error + IRExpr" where
  "dot_div L rm x y dx dy =
     bindE (apply_op (mul_op L) (rm @ [dx, y])) (\<lambda>p.
     bindE (apply_op (mul_op L) (rm @ [x, dy])) (\<lambda>q.
     bindE (apply_op (sub_op L) (rm @ [p, q])) (\<lambda>num.
     bindE (apply_op (mul_op L) (rm @ [y, y])) (\<lambda>den.
     apply_op (div_op L) (rm @ [num, den])))))"

definition dot_sqrt :: "arith_layout \<Rightarrow> IRExpr list \<Rightarrow> IRExpr list \<Rightarrow> IRExpr \<Rightarrow> IRExpr \<Rightarrow> vex_error + IRExpr" where
  "dot_sqrt L sqrt_rm rm x dx =
     bindE (mkIRConst_fptwo (fpsize L) (simdsize L)) (\<lambda>two.
     bindE (apply_op (sqrt_op L) (sqrt_rm @ [x])) (\<lambda>root.
     bindE (apply_op (mul_op L) (rm @ [two, root])) (\<lambda>den.
     apply_op (div_op L) (rm @ [dx, den]))))"

definition dot_arith ::
    "arith_layout \<Rightarrow> IROp \<Rightarrow> IRExpr option list \<Rightarrow> IRExpr option list \<Rightarrow> IRExpr option dgM" where
  "dot_arith L op as ds =
     (let i = (if llo L then 1 else 2);
          n = i + 1;
          rm = (\<lambda>A. if llo L then [] else [A 1]) in
      if op = add_op L then
        op_case n [i, i + 1] as ds (\<lambda>A D. liftM (apply_op (add_op L) (rm A @ [D i, D (i + 1)])))
      else if op = sub_op L then
        op_case n [i, i + 1] as ds (\<lambda>A D. liftM (apply_op (sub_op L) (rm A @ [D i, D (i + 1)])))
      else if op = mul_op L then
        op_case n [i, i + 1] as ds (\<lambda>A D.
          liftM (dot_mul L (rm A) (A i) (A (i + 1)) (D i) (D (i + 1))))
      else if op = div_op L then
        op_case n [i, i + 1] as ds (\<lambda>A D.
          liftM (dot_div L (rm A) (A i) (A (i + 1)) (D i) (D (i + 1))))
      else if sqrt_noroundingmode L then
        op_case 1 [1] as ds (\<lambda>A D.
          liftM (dot_sqrt L [] (if llo L then [] else [dg_rounding_mode]) (A 1) (D 1)))
      else
        op_case 2 [2] as ds (\<lambda>A D. liftM (dot_sqrt L [A 1] [A 1] (A 2) (D 2))))"

definition dot_abs :: "IROp \<Rightarrow> IRConst \<Rightarrow> IROp \<Rightarrow> IRExpr \<Rightarrow> IRExpr \<Rightarrow> IRExpr" where
  "dot_abs cmp zero neg x dx =
     IRExpr_ITE (IRExpr_Unop Iop_32to1 (IRExpr_Binop cmp x (IRExpr_Const zero))) (IRExpr_Unop neg dx) dx"

definition minmax_name :: "bool \<Rightarrow> nat \<Rightarrow> string" where
  "minmax_name is_min fps =
     (if is_min then (if fps = 4 then ''dg_dot_arithmetic_min32'' else ''dg_dot_arithmetic_min64'')
      else (if fps = 4 then ''dg_dot_arithmetic_max32'' else ''dg_dot_arithmetic_max64''))"

definition bitwise_name :: "string \<Rightarrow> string" where
  "bitwise_name op = ''dg_dot_bitwise_'' @ op @ ''64''"

definition dot_ccall_componentwise ::
    "string \<Rightarrow> nat \<Rightarrow> nat \<Rightarrow> (nat \<Rightarrow> IRExpr) \<Rightarrow> (nat \<Rightarrow> IRExpr) \<Rightarrow> IRExpr dgM" where
  "dot_ccall_componentwise name fps simd A D =
     bindM (applyComponentwisely [A 1, D 1, A 2, D 2] 1 fps simd (\<lambda>i parts.
              bindM (liftM (mkIRExprCCall Ity_I64 0 name name parts)) (\<lambda>e. returnM [e]))) (\<lambda>outs.
     returnM (outs ! 0))"

definition dot_fma :: "bool \<Rightarrow> nat \<Rightarrow> (nat \<Rightarrow> IRExpr) \<Rightarrow> (nat \<Rightarrow> IRExpr) \<Rightarrow> IRExpr" where
  "dot_fma is_add fps A D =
     (let c = (\<lambda>e. if fps = 8 then e else IRExpr_Unop Iop_F32toF64 e);
          res = IRExpr_Triop (if is_add then Iop_AddF64 else Iop_SubF64) (A 1)
                  (IRExpr_Triop Iop_AddF64 (A 1)
                     (IRExpr_Triop Iop_MulF64 (A 1) (c (D 2)) (c (A 3)))
                     (IRExpr_Triop Iop_MulF64 (A 1) (c (A 2)) (c (D 3))))
                  (c (D 4))
      in if fps = 4 then IRExpr_Binop Iop_F64toF32 (A 1) res else res)"

definition dot_yl2x :: "IROp \<Rightarrow> (nat \<Rightarrow> IRExpr) \<Rightarrow> (nat \<Rightarrow> IRExpr) \<Rightarrow> IRExpr \<Rightarrow> IRExpr" where
  "dot_yl2x op A D x =
     IRExpr_Triop Iop_AddF64 (A 1) (IRExpr_Triop op (A 1) (D 2) (A 3))
       (IRExpr_Triop Iop_DivF64 (A 1) (IRExpr_Triop Iop_MulF64 (A 1) (A 2) (D 3))
          (IRExpr_Triop Iop_MulF64 (A 1) (cF64 F64_ln2) x))"

definition dg_dot_operation ::
    "IROp \<Rightarrow> IRExpr option list \<Rightarrow> IRExpr option list \<Rightarrow> IRExpr option dgM" where
  "dg_dot_operation op as ds =
     (case find (\<lambda>L. op \<in> set (arith_ops L)) arith_layouts of Some L \<Rightarrow> dot_arith L op as ds | None \<Rightarrow>
      case map_of neg_table op of Some _ \<Rightarrow>
        op_case 1 [1] as ds (\<lambda>A D. returnM (IRExpr_Unop op (D 1))) | None \<Rightarrow>
      if op = Iop_AbsF64 then
        op_case 1 [1] as ds (\<lambda>A D. returnM (dot_abs Iop_CmpF64 (IRConst_F64i 0) Iop_NegF64 (A 1) (D 1)))
      else if op = Iop_AbsF32 then
        op_case 1 [1] as ds (\<lambda>A D. returnM (dot_abs Iop_CmpF32 (IRConst_F32i 0) Iop_NegF32 (A 1) (D 1)))
      else case map_of minmax_table op of Some (is_min, fps, simd, _) \<Rightarrow>
        op_case 2 [1, 2] as ds (dot_ccall_componentwise (minmax_name is_min fps) fps simd) | None \<Rightarrow>
      case map_of fma_table op of Some (is_add, fps) \<Rightarrow>
        op_case 4 [2, 3, 4] as ds (\<lambda>A D. returnM (dot_fma is_add fps A D)) | None \<Rightarrow>
      if op = Iop_ScaleF64 then
        op_case 3 [2] as ds (\<lambda>A D. returnM (IRExpr_Triop Iop_ScaleF64 (A 1) (D 2) (A 3)))
      else if op = Iop_Yl2xF64 then
        op_case 3 [2, 3] as ds (\<lambda>A D. returnM (dot_yl2x Iop_Yl2xF64 A D (A 3)))
      else if op = Iop_Yl2xp1F64 then
        op_case 3 [2, 3] as ds (\<lambda>A D.
          returnM (dot_yl2x Iop_Yl2xp1F64 A D (IRExpr_Triop Iop_AddF64 (A 1) (A 3) (cF64 F64_one))))
      else case map_of bitwise_table op of Some (name, fps, simd) \<Rightarrow>
        op_case 2 [1, 2] as ds (dot_ccall_componentwise (bitwise_name name) fps simd) | None \<Rightarrow>
      if op \<in> set unary_move_ops then
        op_case 1 [1] as ds (\<lambda>A D. returnM (IRExpr_Unop op (D 1)))
      else if op = Iop_F32toF64 then
        op_case 1 [1] as ds (\<lambda>A D. returnM (IRExpr_Unop Iop_F32toF64 (D 1)))
      else if op \<in> set zero_unary_ops then
        op_case 1 [] as ds (\<lambda>A D. returnM (IRExpr_Const (IRConst_F64i 0)))
      else if op \<in> set binary_move_ops then
        op_case 2 [1, 2] as ds (\<lambda>A D. returnM (IRExpr_Binop op (D 1) (D 2)))
      else if op \<in> set shift_ops then
        op_case 2 [1] as ds (\<lambda>A D. returnM (IRExpr_Binop op (D 1) (A 2)))
      else if op = Iop_F64toF32 then
        op_case 2 [2] as ds (\<lambda>A D. returnM (IRExpr_Binop Iop_F64toF32 (A 1) (D 2)))
      else if op \<in> set zero_binary64_ops then
        op_case 2 [] as ds (\<lambda>A D. returnM (IRExpr_Const (IRConst_F64i 0)))
      else if op \<in> set zero_binary32_ops then
        op_case 2 [] as ds (\<lambda>A D. returnM (IRExpr_Const (IRConst_F32i 0)))
      else if op = Iop_64x4toV256 then
        op_case 4 [1, 2, 3, 4] as ds (\<lambda>A D. returnM (IRExpr_Qop Iop_64x4toV256 (D 1) (D 2) (D 3) (D 4)))
      else returnM None)"

definition dg_dot_ccall ::
    "IRCallee \<Rightarrow> IRType \<Rightarrow> IRExpr list \<Rightarrow> IRExpr option list \<Rightarrow> IRExpr option dgM" where
  "dg_dot_ccall c retty as modified_args = returnM None"

section \<open>The callback table of the forward mode\<close>

definition dg_dot_expressionhandling :: "DG_Config \<Rightarrow> IRExpr ExpressionHandling" where
  "dg_dot_expressionhandling cfg =
    \<lparr>wrtmp = dg_dot_wrtmp, rdtmp = dg_dot_rdtmp, puti = dg_dot_puti, geti = dg_dot_geti,
     store = dg_dot_store cfg, load = dg_dot_load cfg,
     dirty_storeF80le = dg_dot_dirty_storeF80le, dirty_loadF80le = dg_dot_dirty_loadF80le,
     eh_constant = dg_dot_constant, eh_default = dg_dot_default,
     compare = dg_dot_compare, ite = dg_dot_ite,
     operation = dg_dot_operation, ccall = dg_dot_ccall\<rparr>"

definition dg_dot_handle_statement :: "DG_Config \<Rightarrow> IRStmt \<Rightarrow> unit dgM" where
  "dg_dot_handle_statement cfg st_orig = add_statement_modified (dg_dot_expressionhandling cfg) st_orig"

section \<open>Transparency of the forward mode\<close>

text \<open>
  The statements that forward-mode instrumentation may add to a block with \<open>n\<close> temporaries and a
  guest state of \<open>g\<close> bytes: assignments of temporaries above \<open>n\<close>, writes to the guest state above \<open>g\<close>,
  stores into the transfer buffer, and calls of the shadow helpers.
\<close>

definition dot_helpers :: "string set" where
  "dot_helpers = {''dg_dot_x86g_amd64g_dirtyhelper_store'', ''dg_dot_x86g_amd64g_dirtyhelper_load'',
     ''dg_dot_x86g_amd64g_dirtyhelper_storeF80le'', ''dg_dot_x86g_amd64g_dirtyhelper_loadF80le''}"

fun dot_shadow_stmt :: "DG_Config \<Rightarrow> IRTemp \<Rightarrow> int \<Rightarrow> IRStmt \<Rightarrow> bool" where
  "dot_shadow_stmt cfg n g (IRStmt_WrTmp t _) \<longleftrightarrow> n \<le> t"
| "dot_shadow_stmt cfg n g (IRStmt_Put off _) \<longleftrightarrow> g \<le> off"
| "dot_shadow_stmt cfg n g (IRStmt_PutI p) \<longleftrightarrow> g \<le> base (puti_descr p)"
| "dot_shadow_stmt cfg n g (IRStmt_Store _ addr _) \<longleftrightarrow> addr = buffer_const cfg 0"
| "dot_shadow_stmt cfg n g (IRStmt_Dirty d) \<longleftrightarrow> helper_call dot_helpers n d"
| "dot_shadow_stmt cfg n g _ \<longleftrightarrow> False"

lemma appends_dot_helper [appends_intro]:
  "name \<in> dot_helpers \<Longrightarrow> appends (dot_shadow_stmt cfg) (emit_helper name as g)"
  by (rule appends_helper) auto

lemma dot_load_appends: "appends (dot_shadow_stmt cfg) (dg_dot_load cfg addr ty)"
  unfolding dg_dot_load_def
  by (intro appends_bind appends_seq appends_simple appends_dot_helper appends_newTemp_bind appends_emit)
     (auto simp: below_def dot_helpers_def)

lemma dot_store_appends: "appends (dot_shadow_stmt cfg) (dg_dot_store cfg addr d g)"
  unfolding dg_dot_store_def
  by (intro appends_bind appends_seq appends_simple appends_dot_helper appends_emit) (auto simp: dot_helpers_def)

lemma dot_loadF80le_appends: "appends (dot_shadow_stmt cfg) (dg_dot_dirty_loadF80le addr t)"
  unfolding dg_dot_dirty_loadF80le_def by (rule appends_helper_1 [of dot_helpers]) (auto simp: dot_helpers_def)

lemma dot_puti_appends:
  "0 \<le> off \<Longrightarrow> appends (dot_shadow_stmt cfg) (dg_dot_puti off d None)"
  "0 \<le> base descr \<Longrightarrow> appends (dot_shadow_stmt cfg) (dg_dot_puti off d (Some (descr, ix)))"
  by (auto simp: dg_dot_puti_def mkIRRegArray_def mkIRPutI_def appends_def appended_def monad_inv emit_def
        addStmtToIRSB_def block_end_def)

lemma dot_operation_appends: "appends S (dg_dot_operation op as ds)"
  unfolding dg_dot_operation_def dot_arith_def dot_ccall_componentwise_def Let_def
  by (intro appends_intro)

interpretation dot_emit: emitting_handling "dg_dot_expressionhandling cfg" "dot_shadow_stmt cfg" for cfg
  by unfold_locales
     (auto simp: dg_dot_expressionhandling_def dg_dot_wrtmp_def dg_dot_rdtmp_def dg_dot_geti_def dg_dot_constant_def
        dg_dot_default_def dg_dot_compare_def dg_dot_ite_def dg_dot_ccall_def dg_dot_dirty_storeF80le_def
        dot_helpers_def dot_puti_appends dot_load_appends dot_store_appends
        dot_operation_appends
        dot_loadF80le_appends
        intro!: appends_intro appends_get_emit split: option.split)

end
