(* ===== verification/DG_Dot_Typing.thy ===== *)
theory DG_Dot_Typing
  imports DG_Dot
begin

text \<open>
  Forward-mode instrumentation keeps VEX's sanity checker satisfied: the callbacks and the operation
  rules of \<open>DG_Dot\<close> meet the contract \<open>shadow_handling\<close> with one shadow layer, where a dot value has the
  type of the value it belongs to. The properties at the end instantiate the block theorems of
  \<open>DG_Block\<close>.
\<close>

section \<open>Operation rules\<close>

definition arith_operands :: "arith_layout \<Rightarrow> (IRExpr \<Rightarrow> IRType \<Rightarrow> bool) \<Rightarrow> IRExpr list \<Rightarrow> bool" where
  "arith_operands L w rm \<longleftrightarrow> list_all (\<lambda>e. w e Ity_I32) rm \<and> length rm = (if llo L then 0 else 1)"

lemma arith_apply_wt:
  assumes "L \<in> set arith_layouts" "op \<in> {add_op L, sub_op L, mul_op L, div_op L}" "arith_operands L (wt env gw dc) rm"
    and "wt env gw dc a (layout_type L)" "wt env gw dc b (layout_type L)"
  shows "\<exists>e. apply_op op (rm @ [a, b]) = Inr e \<and> wt env gw dc e (layout_type L)"
proof -
  have sig: "arith_sig L op" "layout_type L \<noteq> Ity_INVALID"
    using arith_layouts_typed assms(1,2) by (auto simp: list_all_iff)
  show ?thesis
  proof (cases "llo L")
    case True
    then show ?thesis
      using assms(3-5) sig by (simp add: arith_operands_def arith_sig_def wt_Binop Let_def)
  next
    case False
    then obtain r where "rm = [r]" "wt env gw dc r Ity_I32"
      using assms(3) by (cases rm) (auto simp: arith_operands_def)
    then show ?thesis
      using False assms(4,5) sig by (simp add: arith_sig_def wt_Triop Let_def)
  qed
qed

lemma dot_mul_div_wt:
  assumes "L \<in> set arith_layouts" "arith_operands L (wt env gw dc) rm"
    and "wt env gw dc x (layout_type L)" "wt env gw dc y (layout_type L)"
    and "wt env gw dc dx (layout_type L)" "wt env gw dc dy (layout_type L)"
  shows "\<exists>e. dot_mul L rm x y dx dy = Inr e \<and> wt env gw dc e (layout_type L)"
    and "\<exists>e. dot_div L rm x y dx dy = Inr e \<and> wt env gw dc e (layout_type L)"
  unfolding dot_mul_def dot_div_def
  by (intro bindE_ex [where P = "\<lambda>e. wt env gw dc e (layout_type L)"] arith_apply_wt [OF assms(1) _ assms(2)];
      simp add: assms)+

lemma dot_sqrt_wt:
  assumes "L \<in> set arith_layouts" "arith_operands L (wt env gw dc) rm"
    and "list_all (\<lambda>e. wt env gw dc e Ity_I32) srm" "length srm = (if sqrt_noroundingmode L then 0 else 1)"
    and "wt env gw dc x (layout_type L)" "wt env gw dc dx (layout_type L)"
  shows "\<exists>e. dot_sqrt L srm rm x dx = Inr e \<and> wt env gw dc e (layout_type L)"
proof -
  have L: "sqrt_sig L" "layout_type L \<noteq> Ity_INVALID" "(fpsize L, simdsize L) \<in> SIMD_layouts"
    using arith_layouts_typed assms(1) by (auto simp: list_all_iff)
  have two: "\<exists>e. mkIRConst_fptwo (fpsize L) (simdsize L) = Inr e \<and> wt env gw dc e (layout_type L)"
    unfolding layout_type_def by (rule mkIRConst_fptwo_wt [OF L(3)])
  have root: "\<exists>e. apply_op (sqrt_op L) (srm @ [x]) = Inr e \<and> wt env gw dc e (layout_type L)"
  proof (cases srm)
    case Nil
    then show ?thesis using assms(4,5) L by (auto simp: sqrt_sig_def wt_Unop Let_def split: if_splits)
  next
    case (Cons r rs)
    then show ?thesis using assms(3-5) L by (auto simp: sqrt_sig_def wt_Binop Let_def split: if_splits)
  qed
  show ?thesis
    unfolding dot_sqrt_def
    by (rule bindE_ex [OF two], rule bindE_ex [OF root],
        intro bindE_ex [where P = "\<lambda>e. wt env gw dc e (layout_type L)"] arith_apply_wt [OF assms(1) _ assms(2)]; simp add: assms)
qed

text \<open>A rule of the forward mode yields a dot value of the type of the result.\<close>

definition dot_op_ok ::
    "bool \<Rightarrow> IRType \<Rightarrow> IRTypeEnv \<Rightarrow> int \<Rightarrow> nat \<Rightarrow> DiffEnv \<Rightarrow> def_counts \<Rightarrow> IRType \<Rightarrow> IRExpr option dgM \<Rightarrow> bool" where
  "dot_op_ok pre gw env0 goff k \<sigma> dc ty m \<longleftrightarrow>
     runs (diff_inv pre gw env0 goff k) m \<sigma> dc {}
       (\<lambda>r \<sigma>' dc'. \<forall>d. r = Some d \<longrightarrow> wt (tyenv (sb_out \<sigma>')) gw dc' d ty)"

text \<open>The operands that a case of arity \<open>n\<close> with differentiable inputs \<open>diffs\<close> sees, with their types.\<close>

definition case_operands ::
    "(IRExpr \<Rightarrow> IRType \<Rightarrow> bool) \<Rightarrow> IRType list \<Rightarrow> nat \<Rightarrow> nat list \<Rightarrow> (nat \<Rightarrow> IRExpr) \<Rightarrow> (nat \<Rightarrow> IRExpr) \<Rightarrow> bool" where
  "case_operands w ts n diffs A D \<longleftrightarrow>
     (\<forall>i\<in>{1..n}. w (A i) (ts ! (i - 1))) \<and> (\<forall>i\<in>set diffs. w (D i) (ts ! (i - 1)))"

lemma dot_op_case_ok:
  assumes inv: "diff_inv pre gw env0 goff k \<sigma> dc"
    and ops: "operands_ok (wt (tyenv (sb_out \<sigma>)) gw dc) (wt (tyenv (sb_out \<sigma>)) gw dc) ts as ds"
    and ts: "\<forall>i\<in>{1..n} \<union> set diffs. 1 \<le> i \<and> i \<le> length ts \<and> ts ! (i - 1) \<noteq> Ity_INVALID"
    and body: "\<And>A D. case_operands (wt (tyenv (sb_out \<sigma>)) gw dc) ts n diffs A D \<Longrightarrow>
           \<exists>e. m A D = Inr e \<and> wt (tyenv (sb_out \<sigma>)) gw dc e ty"
  shows "dot_op_ok pre gw env0 goff k \<sigma> dc ty (op_case n diffs as ds (\<lambda>A D. liftM (m A D)))"
  unfolding dot_op_ok_def
proof (rule runs_op_case [where w = "wt (tyenv (sb_out \<sigma>)) gw dc" and I = "diff_inv pre gw env0 goff k", OF inv ops ts])
  fix A D
  assume "\<And>i. i \<in> {1..n} \<Longrightarrow> wt (tyenv (sb_out \<sigma>)) gw dc (A i) (ts ! (i - 1))"
    and "\<And>i. i \<in> set diffs \<Longrightarrow> wt (tyenv (sb_out \<sigma>)) gw dc (D i) (ts ! (i - 1))"
  then have "\<exists>e. m A D = Inr e \<and> wt (tyenv (sb_out \<sigma>)) gw dc e ty"
    by (intro body) (simp add: case_operands_def)
  then show "runs (diff_inv pre gw env0 goff k) (liftM (m A D)) \<sigma> dc {} (\<lambda>d \<sigma>' dc'. wt (tyenv (sb_out \<sigma>')) gw dc' d ty)"
    by (rule runs_lift_ex [where I = "diff_inv pre gw env0 goff k", OF inv])
qed

lemma dot_op_case_return_ok:
  assumes "diff_inv pre gw env0 goff k \<sigma> dc"
    and "operands_ok (wt (tyenv (sb_out \<sigma>)) gw dc) (wt (tyenv (sb_out \<sigma>)) gw dc) ts as ds"
    and "\<forall>i\<in>{1..n} \<union> set diffs. 1 \<le> i \<and> i \<le> length ts \<and> ts ! (i - 1) \<noteq> Ity_INVALID"
    and "\<And>A D. case_operands (wt (tyenv (sb_out \<sigma>)) gw dc) ts n diffs A D \<Longrightarrow> wt (tyenv (sb_out \<sigma>)) gw dc (f A D) ty"
  shows "dot_op_ok pre gw env0 goff k \<sigma> dc ty (op_case n diffs as ds (\<lambda>A D. returnM (f A D)))"
  unfolding liftM_ok [symmetric]
  by (rule dot_op_case_ok [OF assms(1-3)]) (simp add: assms(4))


lemma dot_arith_ok:
  assumes inv: "diff_inv pre gw env0 goff k \<sigma> dc" and L: "L \<in> set arith_layouts" and op: "op \<in> set (arith_ops L)"
    and ty: "typeOfPrimop op = Inr (ty, t1, t2, t3, t4)"
    and ops: "operands_ok (wt (tyenv (sb_out \<sigma>)) gw dc) (wt (tyenv (sb_out \<sigma>)) gw dc) [t1, t2, t3, t4] as ds"
  shows "dot_op_ok pre gw env0 goff k \<sigma> dc ty (dot_arith L op as ds)"
proof (cases "op \<in> {add_op L, sub_op L, mul_op L, div_op L}")
  case True
  have sig: "arith_sig L op" "layout_type L \<noteq> Ity_INVALID"
    using arith_layouts_typed L True by (auto simp: list_all_iff)
  let ?i = "if llo L then 1 else 2 :: nat" and ?w = "wt (tyenv (sb_out \<sigma>)) gw dc"
  let ?rm = "\<lambda>A :: nat \<Rightarrow> IRExpr. if llo L then [] else [A 1]"
  have tys: "ty = layout_type L" "[t1, t2, t3, t4] ! (?i - 1) = ty" "[t1, t2, t3, t4] ! ?i = ty" "llo L \<or> t1 = Ity_I32"
    using sig ty by (auto simp: arith_sig_def Let_def split: if_splits)
  have bound: "\<forall>i\<in>{1..?i + 1} \<union> set [?i, ?i + 1]. 1 \<le> i \<and> i \<le> length [t1, t2, t3, t4] \<and> [t1, t2, t3, t4] ! (i - 1) \<noteq> Ity_INVALID"
    using sig(2) tys by (auto simp: upto_split split: if_splits)
  have use: "arith_operands L ?w (?rm A) \<and> ?w (A ?i) (layout_type L) \<and> ?w (A (?i + 1)) (layout_type L)
        \<and> ?w (D ?i) (layout_type L) \<and> ?w (D (?i + 1)) (layout_type L)"
    if "case_operands ?w [t1, t2, t3, t4] (?i + 1) [?i, ?i + 1] A D" for A D
    using that tys by (auto simp: case_operands_def arith_operands_def upto_split split: if_splits)
  note case_ok = dot_op_case_ok [where k = k and ty = ty, OF inv ops bound]
  have add: "\<exists>e. apply_op op (?rm A @ [D ?i, D (?i + 1)]) = Inr e \<and> ?w e ty"
    and mul: "\<exists>e. dot_mul L (?rm A) (A ?i) (A (?i + 1)) (D ?i) (D (?i + 1)) = Inr e \<and> ?w e ty"
    and div: "\<exists>e. dot_div L (?rm A) (A ?i) (A (?i + 1)) (D ?i) (D (?i + 1)) = Inr e \<and> ?w e ty"
    if "case_operands ?w [t1, t2, t3, t4] (?i + 1) [?i, ?i + 1] A D" for A D
    unfolding tys(1) using use [OF that] True
    by (simp_all only: arith_apply_wt [OF L] dot_mul_div_wt [OF L])
  have ok: "dot_op_ok pre gw env0 goff k \<sigma> dc ty (op_case (?i + 1) [?i, ?i + 1] as ds (\<lambda>A D. liftM (apply_op op (?rm A @ [D ?i, D (?i + 1)]))))"
    "dot_op_ok pre gw env0 goff k \<sigma> dc ty (op_case (?i + 1) [?i, ?i + 1] as ds (\<lambda>A D. liftM (dot_mul L (?rm A) (A ?i) (A (?i + 1)) (D ?i) (D (?i + 1)))))"
    "dot_op_ok pre gw env0 goff k \<sigma> dc ty (op_case (?i + 1) [?i, ?i + 1] as ds (\<lambda>A D. liftM (dot_div L (?rm A) (A ?i) (A (?i + 1)) (D ?i) (D (?i + 1)))))"
    by (rule case_ok, rule add mul div, assumption)+
  have "dot_op_ok pre gw env0 goff k \<sigma> dc ty (if op = add_op L then m1 else if op = sub_op L then m2
      else if op = mul_op L then m3 else if op = div_op L then m4 else m5)"
    if "op = add_op L \<Longrightarrow> dot_op_ok pre gw env0 goff k \<sigma> dc ty m1" "op = sub_op L \<Longrightarrow> dot_op_ok pre gw env0 goff k \<sigma> dc ty m2"
      "dot_op_ok pre gw env0 goff k \<sigma> dc ty m3" "dot_op_ok pre gw env0 goff k \<sigma> dc ty m4" for m1 m2 m3 m4 m5
    using True that by auto
  then show ?thesis
    unfolding dot_arith_def Let_def by this (use ok in simp_all)
next
  case False
  then have o': "op = sqrt_op L" using op by (auto simp: arith_ops_def)
  have sig: "sqrt_sig L" "layout_type L \<noteq> Ity_INVALID"
    using arith_layouts_typed L by (auto simp: list_all_iff)
  let ?w = "wt (tyenv (sb_out \<sigma>)) gw dc"
  have rm: "?w dg_rounding_mode Ity_I32" by (simp add: dg_rounding_mode_def wt_simps)
  show ?thesis
  proof (cases "sqrt_noroundingmode L")
    case True
    then have "ty = layout_type L" "t1 = layout_type L"
      using sig(1) o' ty by (auto simp: sqrt_sig_def Let_def)
    then have "dot_op_ok pre gw env0 goff k \<sigma> dc ty (op_case 1 [1] as ds (\<lambda>A D.
          liftM (dot_sqrt L [] (if llo L then [] else [dg_rounding_mode]) (A 1) (D 1))))"
      using sig(2) True rm
      by (intro dot_op_case_ok [OF inv ops]) (auto simp: case_operands_def arith_operands_def intro!: dot_sqrt_wt [OF L])
    then show ?thesis
      using False True o' by (simp add: dot_arith_def)
  next
    case s: False
    then have "ty = layout_type L" "t1 = Ity_I32" "t2 = layout_type L" "\<not> llo L"
      using sig(1) o' ty by (auto simp: sqrt_sig_def sqrt_noroundingmode_def Let_def)
    then have "dot_op_ok pre gw env0 goff k \<sigma> dc ty (op_case 2 [2] as ds (\<lambda>A D.
          liftM (dot_sqrt L [A 1] [A 1] (A 2) (D 2))))"
      using sig(2) s
      by (intro dot_op_case_ok [OF inv ops]) (auto simp: upto_split case_operands_def arith_operands_def intro!: dot_sqrt_wt [OF L])
    then show ?thesis
      using False s o' by (simp add: dot_arith_def)
  qed
qed

lemma dot_componentwise_ok:
  assumes inv: "diff_inv pre gw env0 goff k \<sigma> dc" and lay: "(fps, simd) \<in> SIMD_layouts"
    and ops: "operands_ok (wt (tyenv (sb_out \<sigma>)) gw dc) (wt (tyenv (sb_out \<sigma>)) gw dc) [t1, t2, t3, t4] as ds"
    and ts: "t1 = SIMD_inttype (fps * simd)" "t2 = t1"
  shows "dot_op_ok pre gw env0 goff k \<sigma> dc t1 (op_case 2 [1, 2] as ds (dot_ccall_componentwise name fps simd))"
  unfolding dot_op_ok_def
proof (rule runs_op_case [where w = "wt (tyenv (sb_out \<sigma>)) gw dc" and I = "diff_inv pre gw env0 goff k", OF inv ops])
  show "\<forall>i\<in>{1..2} \<union> set [1, 2]. 1 \<le> i \<and> i \<le> length [t1, t2, t3, t4] \<and> [t1, t2, t3, t4] ! (i - 1) \<noteq> Ity_INVALID"
    using ts by (auto simp: upto_split SIMD_inttype_def)
next
  fix A D
  assume w: "\<And>i. i \<in> {1..2} \<Longrightarrow> wt (tyenv (sb_out \<sigma>)) gw dc (A i) ([t1, t2, t3, t4] ! (i - 1))"
    "\<And>i. i \<in> set [1, 2] \<Longrightarrow> wt (tyenv (sb_out \<sigma>)) gw dc (D i) ([t1, t2, t3, t4] ! (i - 1))"
  have inp: "list_all (\<lambda>e. \<exists>ty. wt (tyenv (sb_out \<sigma>)) gw dc e ty \<and> SIMD_vector_type (fps * simd) ty) [A 1, D 1, A 2, D 2]"
    using w [of 1] w [of 2] ts by (auto simp: SIMD_vector_type_def)
  show "runs (diff_inv pre gw env0 goff k) (dot_ccall_componentwise name fps simd A D) \<sigma> dc {}
          (\<lambda>d \<sigma>' dc'. wt (tyenv (sb_out \<sigma>')) gw dc' d t1)"
    unfolding dot_ccall_componentwise_def
  proof (rule runs_bind_pure [OF runs_componentwise [OF inv lay inp, where nouts = 1]])
    fix i parts \<sigma>' dc'
    assume inv': "diff_inv pre gw env0 goff k \<sigma>' dc'" and p: "length parts = length [A 1, D 1, A 2, D 2]"
      "list_all (\<lambda>e. wt (tyenv (sb_out \<sigma>')) gw dc' e Ity_I64) parts"
    have "list_all (\<lambda>e. \<exists>t. t \<noteq> Ity_I1 \<and> wt (tyenv (sb_out \<sigma>')) gw dc' e t) parts"
      using p(2) by (auto simp: list_all_iff)
    then have "\<exists>e. mkIRExprCCall Ity_I64 0 name name parts = Inr e \<and> wt (tyenv (sb_out \<sigma>')) gw dc' e Ity_I64"
      using p(1) by (auto simp: mkIRExprCCall_def mkIRCallee_def wt_simps saneIRCallee_def)
    then show "runs (diff_inv pre gw env0 goff k) (bindM (liftM (mkIRExprCCall Ity_I64 0 name name parts)) (\<lambda>e. returnM [e])) \<sigma>' dc' {}
        (\<lambda>outs \<sigma>'' dc''. length outs = 1 \<and> list_all (\<lambda>e. wt (tyenv (sb_out \<sigma>'')) gw dc'' e Ity_I64) outs)"
      by (intro runs_bind_pure [OF runs_lift_ex [where I = "diff_inv pre gw env0 goff k", OF inv']] runs_return) auto
  next
    fix outs \<sigma>' dc'
    assume "diff_inv pre gw env0 goff k \<sigma>' dc'"
      "length outs = 1 \<and> list_all (\<lambda>e. wt (tyenv (sb_out \<sigma>')) gw dc' e (SIMD_inttype (fps * simd))) outs"
    then show "runs (diff_inv pre gw env0 goff k) (returnM (outs ! 0)) \<sigma>' dc' {} (\<lambda>d \<sigma>'' dc''. wt (tyenv (sb_out \<sigma>'')) gw dc'' d t1)"
      using ts by (intro runs_return) (auto simp: list_all_length)
  qed
qed

lemma dot_op_ok_branch:
  "(b \<Longrightarrow> dot_op_ok pre gw env0 goff k \<sigma> dc ty m) \<Longrightarrow> (\<not> b \<Longrightarrow> dot_op_ok pre gw env0 goff k \<sigma> dc ty n) \<Longrightarrow>
   dot_op_ok pre gw env0 goff k \<sigma> dc ty (if b then m else n)"
  "(p = None \<Longrightarrow> dot_op_ok pre gw env0 goff k \<sigma> dc ty n) \<Longrightarrow> (\<And>x. p = Some x \<Longrightarrow> dot_op_ok pre gw env0 goff k \<sigma> dc ty (f x)) \<Longrightarrow>
   dot_op_ok pre gw env0 goff k \<sigma> dc ty (case p of None \<Rightarrow> n | Some x \<Rightarrow> f x)"
  "(\<And>a b. q = (a, b) \<Longrightarrow> dot_op_ok pre gw env0 goff k \<sigma> dc ty (g a b)) \<Longrightarrow> dot_op_ok pre gw env0 goff k \<sigma> dc ty (case q of (a, b) \<Rightarrow> g a b)"
  by (auto split: option.split prod.split)

lemma dot_operation_ok:
  assumes inv: "diff_inv pre gw env0 goff k \<sigma> dc"
    and ty: "typeOfPrimop op = Inr (ty, t1, t2, t3, t4)"
    and ops: "operands_ok (wt (tyenv (sb_out \<sigma>)) gw dc) (wt (tyenv (sb_out \<sigma>)) gw dc) [t1, t2, t3, t4] as ds"
  shows "dot_op_ok pre gw env0 goff k \<sigma> dc ty (dg_dot_operation op as ds)"
proof -
  let ?w = "wt (tyenv (sb_out \<sigma>)) gw dc" and ?ok = "dot_op_ok pre gw env0 goff k \<sigma> dc ty"
  note ret = dot_op_case_return_ok [where k = k, OF inv ops]
  note simps = case_operands_def upto_split wt_simps prim_types
  have unary: "?ok (op_case 1 [1] as ds (\<lambda>A D. returnM (IRExpr_Unop op (D 1))))" if "has_arity op 1"
    using has_arity_D(1) [OF ty that] ty by (intro ret) (auto simp: case_operands_def wt_simps)
  have binary: "?ok (op_case 2 [1, 2] as ds (\<lambda>A D. returnM (IRExpr_Binop op (D 1) (D 2))))"
    and shift: "?ok (op_case 2 [1] as ds (\<lambda>A D. returnM (IRExpr_Binop op (D 1) (A 2))))" if "has_arity op 2"
    using has_arity_D(2) [OF ty that] ty by (intro ret; auto simp: case_operands_def upto_split wt_simps)+
  have zero: "?ok (op_case n [] as ds (\<lambda>A D. returnM (IRExpr_Const c)))"
    if "has_arity op n" "n = 1 \<or> n = 2" "fst (projr (typeOfPrimop op)) = typeOfIRConst c" for n c
    using that has_arity_D [OF ty] ty by (intro ret) (auto simp: upto_split wt_simps)
  have neg: "?ok (op_case 1 [1] as ds (\<lambda>A D. returnM (IRExpr_Unop op (D 1))))" if "map_of neg_table op = Some x" for x
    using map_of_typed [OF neg_table_typed that] by (intro unary) (auto simp: has_arity_def Let_def vector_type_def replicate_small split: prod.splits if_splits)
  have abs64: "?ok (op_case 1 [1] as ds (\<lambda>A D. returnM (dot_abs Iop_CmpF64 (IRConst_F64i 0) Iop_NegF64 (A 1) (D 1))))" if "op = Iop_AbsF64"
    using that ty by (intro ret) (auto simp: dot_abs_def simps)
  have abs32: "?ok (op_case 1 [1] as ds (\<lambda>A D. returnM (dot_abs Iop_CmpF32 (IRConst_F32i 0) Iop_NegF32 (A 1) (D 1))))" if "op = Iop_AbsF32"
    using that ty by (intro ret) (auto simp: dot_abs_def simps)
  have minmax: "?ok (op_case 2 [1, 2] as ds (dot_ccall_componentwise name fps simd))"
    if "map_of minmax_table op = Some (m, fps, simd, l)" for name m fps simd l
    using map_of_typed [OF minmax_table_typed that] ty dot_componentwise_ok [OF inv _ ops, where fps = fps and simd = simd and name = name]
    by (auto simp: Let_def)
  have bitwise: "?ok (op_case 2 [1, 2] as ds (dot_ccall_componentwise name fps simd))"
    if "map_of bitwise_table op = Some (m, fps, simd)" for name m fps simd
    using map_of_typed [OF bitwise_table_typed that] ty dot_componentwise_ok [OF inv _ ops, where fps = fps and simd = simd and name = name]
    by (auto simp: Let_def)
  have fma: "?ok (op_case 4 [2, 3, 4] as ds (\<lambda>A D. returnM (dot_fma is_add fps A D)))"
    if "map_of fma_table op = Some (is_add, fps)" for is_add fps
    using map_of_typed [OF fma_table_typed that] ty by (intro ret) (auto simp: dot_fma_def Let_def vector_type_def simps)
  have arith: "?ok (dot_arith L op as ds)" if "find (\<lambda>L. op \<in> set (arith_ops L)) arith_layouts = Some L" for L
    using that by (intro dot_arith_ok [OF inv _ _ ty ops]) (auto simp: find_Some_iff)
  have scale: "?ok (op_case 3 [2] as ds (\<lambda>A D. returnM (IRExpr_Triop Iop_ScaleF64 (A 1) (D 2) (A 3))))" if "op = Iop_ScaleF64"
    using that ty by (intro ret) (auto simp: simps)
  have yl2x: "?ok (op_case 3 [2, 3] as ds (\<lambda>A D. returnM (dot_yl2x Iop_Yl2xF64 A D (A 3))))" if "op = Iop_Yl2xF64"
    using that ty by (intro ret) (auto simp: dot_yl2x_def cF64_def simps)
  have yl2xp1: "?ok (op_case 3 [2, 3] as ds (\<lambda>A D.
          returnM (dot_yl2x Iop_Yl2xp1F64 A D (IRExpr_Triop Iop_AddF64 (A 1) (A 3) (cF64 F64_one)))))" if "op = Iop_Yl2xp1F64"
    using that ty by (intro ret) (auto simp: dot_yl2x_def cF64_def simps)
  have widen: "?ok (op_case 1 [1] as ds (\<lambda>A D. returnM (IRExpr_Unop Iop_F32toF64 (D 1))))" if "op = Iop_F32toF64"
    using that ty by (intro ret) (auto simp: simps)
  have narrow: "?ok (op_case 2 [2] as ds (\<lambda>A D. returnM (IRExpr_Binop Iop_F64toF32 (A 1) (D 2))))" if "op = Iop_F64toF32"
    using that ty by (intro ret) (auto simp: simps)
  have join: "?ok (op_case 4 [1, 2, 3, 4] as ds (\<lambda>A D. returnM (IRExpr_Qop Iop_64x4toV256 (D 1) (D 2) (D 3) (D 4))))"
    if "op = Iop_64x4toV256" using that ty by (intro ret) (auto simp: simps)
  have moves: "op \<in> set unary_move_ops \<Longrightarrow> has_arity op 1" "op \<in> set binary_move_ops \<Longrightarrow> has_arity op 2" "op \<in> set shift_ops \<Longrightarrow> has_arity op 2"
    using move_ops_typed by (auto simp: list_all_iff)
  have zeros: "op \<in> set zero_unary_ops \<Longrightarrow> ?ok (op_case 1 [] as ds (\<lambda>A D. returnM (IRExpr_Const (IRConst_F64i 0))))"
    "op \<in> set zero_binary64_ops \<Longrightarrow> ?ok (op_case 2 [] as ds (\<lambda>A D. returnM (IRExpr_Const (IRConst_F64i 0))))"
    "op \<in> set zero_binary32_ops \<Longrightarrow> ?ok (op_case 2 [] as ds (\<lambda>A D. returnM (IRExpr_Const (IRConst_F32i 0))))"
    using zero_ops_typed by (auto simp: list_all_iff intro!: zero)
  have none: "?ok (returnM None)"
    using inv unfolding dot_op_ok_def by (intro runs_return) auto
  show ?thesis
    unfolding dg_dot_operation_def
    by (intro dot_op_ok_branch;
        (rule none | rule arith neg abs64 abs32 scale yl2x yl2xp1 widen narrow join zeros unary [OF moves(1)]
           binary [OF moves(2)] shift [OF moves(3)], assumption | simp only: minmax bitwise fma))
qed

text \<open>What the typing of the forward mode asks of the input block and of the configuration.\<close>

definition dot_pre :: "DG_Config \<Rightarrow> IRType \<Rightarrow> IRTypeEnv \<Rightarrow> int \<Rightarrow> bool" where
  "dot_pre cfg gw env0 goff \<longleftrightarrow>
     0 \<le> goff \<and> gw = (if build_32bit cfg then Ity_I32 else Ity_I64) \<and> 2 * length env0 \<le> IRTemp_INVALID
     \<and> list_all (\<lambda>t. t \<noteq> Ity_INVALID) env0"

lemma buffer_const_wt: "dot_pre cfg gw env0 goff \<Longrightarrow> wt env gw dc (buffer_const cfg off) gw"
  by (simp add: dot_pre_def buffer_const_def wt_simps)

lemma shadow_temps_1: "shadow_temps n 1 t = {t + n}" "shadow_temps n (Suc 0) t = {t + n}"
  by (simp_all add: shadow_temps_def)

lemma dot_wrtmp_law:
  assumes "diff_inv pre gw env0 goff 1 \<sigma> dc" "t < length env0" "wt (tyenv (sb_out \<sigma>)) gw dc d (env0 ! t)"
    and "\<forall>u\<in>shadow_temps (length env0) 1 t. dc u = 0"
  shows "runs (diff_inv pre gw env0 goff 1) (dg_dot_wrtmp t d) \<sigma> dc (shadow_temps (length env0) 1 t) (\<lambda>_ _ _. True)"
proof -
  have off: "tmp_offset \<sigma> = length env0" using assms(1) by (simp add: diff_inv_def)
  have sh: "t + length env0 < length (tyenv (sb_out \<sigma>))" "tyenv (sb_out \<sigma>) ! (t + length env0) = env0 ! t"
    using diff_inv_shadow_type [OF assms(1,2), of "t + length env0"] by (auto simp: shadow_temps_1)
  have upd: "(\<lambda>u. if u \<in> {t + length env0} then 1 else dc u) = dc(t + length env0 := 1)" by auto
  have "wt_stmt (tyenv (sb_out \<sigma>)) gw dc (IRStmt_WrTmp (t + length env0) d) (\<lambda>u. if u \<in> {t + length env0} then 1 else dc u)"
    unfolding upd using assms(3,4) sh by (intro wt_stmt_WrTmp) (auto simp: shadow_temps_1)
  then have "runs (diff_inv pre gw env0 goff 1) (emit (IRStmt_WrTmp (t + length env0) d)) \<sigma> dc {t + length env0} (\<lambda>_ _ _. True)"
    using assms(4) by (intro runs_emit_defs [OF assms(1)]) (auto simp: shadow_temps_1)
  then show ?thesis
    by (simp add: dg_dot_wrtmp_def shadow_temps_1 off runs_def bindM_def getM_def)
qed

lemma dot_rdtmp_law:
  assumes "diff_inv pre gw env0 goff 1 \<sigma> dc" "t < length env0" "\<forall>u\<in>shadow_temps (length env0) 1 t. 1 \<le> dc u"
  shows "runs (diff_inv pre gw env0 goff 1) (dg_dot_rdtmp t) \<sigma> dc {} (\<lambda>d \<sigma>' dc'. wt (tyenv (sb_out \<sigma>')) gw dc' d (env0 ! t))"
proof -
  have "tmp_offset \<sigma> = length env0" using assms(1) by (simp add: diff_inv_def)
  then show ?thesis
    using diff_inv_shadow_type [OF assms(1,2), of "t + length env0"] assms(1,3)
    by (intro runsI [OF _ _ progress_refl]) (auto simp: dg_dot_rdtmp_def bindM_def getM_def returnM_def shadow_temps_1 wt_simps)
qed

lemma dot_puti_laws:
  assumes "diff_inv (dot_pre cfg gw env0 goff) gw env0 goff 1 \<sigma> dc"
  shows "wt (tyenv (sb_out \<sigma>)) gw dc d ty \<Longrightarrow> ty \<noteq> Ity_I1 \<Longrightarrow>
      runs (diff_inv (dot_pre cfg gw env0 goff) gw env0 goff 1) (dg_dot_puti off d None) \<sigma> dc {} (\<lambda>_ _ _. True)"
    and "wt (tyenv (sb_out \<sigma>)) gw dc d (elemTy descr) \<Longrightarrow> wt (tyenv (sb_out \<sigma>)) gw dc ix Ity_I32 \<Longrightarrow>
      saneIRRegArray descr \<Longrightarrow> base descr + int 1 * goff \<le> 10000 \<Longrightarrow>
      runs (diff_inv (dot_pre cfg gw env0 goff) gw env0 goff 1) (dg_dot_puti off d (Some (descr, ix))) \<sigma> dc {} (\<lambda>_ _ _. True)"
    and "runs (diff_inv (dot_pre cfg gw env0 goff) gw env0 goff 1) (dg_dot_geti off ty None) \<sigma> dc {}
      (\<lambda>d \<sigma>' dc'. wt (tyenv (sb_out \<sigma>')) gw dc' d ty)"
    and "wt (tyenv (sb_out \<sigma>)) gw dc ix Ity_I32 \<Longrightarrow> saneIRRegArray descr \<Longrightarrow> base descr + int 1 * goff \<le> 10000 \<Longrightarrow>
      runs (diff_inv (dot_pre cfg gw env0 goff) gw env0 goff 1) (dg_dot_geti off ty (Some (descr, ix))) \<sigma> dc {}
      (\<lambda>d \<sigma>' dc'. wt (tyenv (sb_out \<sigma>')) gw dc' d (elemTy descr))"
proof -
  have g: "gs_offset \<sigma> = goff" "0 \<le> goff" using assms by (auto simp: diff_inv_def dot_pre_def)
  note get = runs_bind_pure [OF runs_get [where I = "diff_inv (dot_pre cfg gw env0 goff) gw env0 goff 1" and Q = "\<lambda>x \<sigma>' dc'. x = \<sigma> \<and> \<sigma>' = \<sigma> \<and> dc' = dc", OF assms]]
  note lift = runs_bind_pure [OF runs_lift_ex [where I = "diff_inv (dot_pre cfg gw env0 goff) gw env0 goff 1", OF assms]]
  show "runs (diff_inv (dot_pre cfg gw env0 goff) gw env0 goff 1) (dg_dot_puti off d None) \<sigma> dc {} (\<lambda>_ _ _. True)"
    if "wt (tyenv (sb_out \<sigma>)) gw dc d ty" "ty \<noteq> Ity_I1"
    using that assms unfolding dg_dot_puti_def by (intro get) (auto intro!: runs_emit wt_stmt_Put)
  show "runs (diff_inv (dot_pre cfg gw env0 goff) gw env0 goff 1) (dg_dot_geti off ty None) \<sigma> dc {}
      (\<lambda>d \<sigma>' dc'. wt (tyenv (sb_out \<sigma>')) gw dc' d ty)"
    using assms unfolding dg_dot_geti_def by (intro get) (auto intro!: runs_return simp: wt_simps)
  show "runs (diff_inv (dot_pre cfg gw env0 goff) gw env0 goff 1) (dg_dot_puti off d (Some (descr, ix))) \<sigma> dc {} (\<lambda>_ _ _. True)"
    if w: "wt (tyenv (sb_out \<sigma>)) gw dc d (elemTy descr)" "wt (tyenv (sb_out \<sigma>)) gw dc ix Ity_I32" "saneIRRegArray descr"
      "base descr + int 1 * goff \<le> 10000"
  proof -
    obtain sd where "mkIRRegArray (base descr + gs_offset \<sigma>) (elemTy descr) (nElems descr) = Inr sd" "saneIRRegArray sd" "elemTy sd = elemTy descr"
      using shadow_descr_ok [of descr goff] w g by auto
    then show ?thesis
      using w assms runs_emit [OF assms wt_stmt_PutI [of _ _ _ _ sd], where Q = "\<lambda>_ _ _. True"]
      by (simp add: dg_dot_puti_def runs_def bindM_def getM_def liftM_def)
  qed
  show "runs (diff_inv (dot_pre cfg gw env0 goff) gw env0 goff 1) (dg_dot_geti off ty (Some (descr, ix))) \<sigma> dc {}
      (\<lambda>d \<sigma>' dc'. wt (tyenv (sb_out \<sigma>')) gw dc' d (elemTy descr))"
    if w: "wt (tyenv (sb_out \<sigma>)) gw dc ix Ity_I32" "saneIRRegArray descr" "base descr + int 1 * goff \<le> 10000"
  proof -
    obtain sd where "mkIRRegArray (base descr + gs_offset \<sigma>) (elemTy descr) (nElems descr) = Inr sd" "saneIRRegArray sd" "elemTy sd = elemTy descr"
      using shadow_descr_ok [of descr goff] w g by auto
    then show ?thesis
      using w assms by (intro runsI [OF _ _ progress_refl]) (auto simp: dg_dot_geti_def bindM_def getM_def liftM_def returnM_def wt_simps)
  qed
qed

lemma dot_store_law:
  assumes inv: "diff_inv (dot_pre cfg gw env0 goff) gw env0 goff 1 \<sigma> dc" and a: "wt (tyenv (sb_out \<sigma>)) gw dc addr gw"
    and d: "wt (tyenv (sb_out \<sigma>)) gw dc d ty" "ty \<noteq> Ity_I1" "ty \<noteq> Ity_INVALID"
    and g: "\<And>e. g = Some e \<Longrightarrow> wt (tyenv (sb_out \<sigma>)) gw dc e Ity_I1"
  shows "runs (diff_inv (dot_pre cfg gw env0 goff) gw env0 goff 1) (dg_dot_store cfg addr d g) \<sigma> dc {} (\<lambda>_ _ _. True)"
proof -
  let ?I = "diff_inv (dot_pre cfg gw env0 goff) gw env0 goff 1"
  have pre: "dot_pre cfg gw env0 goff" using inv by (simp add: diff_inv_def)
  obtain n where n: "sizeofIRType ty = Inr n" using sizeofIRType_ok d by blast
  have st: "runs ?I (emit (IRStmt_Store Iend_LE (buffer_const cfg 0) d)) \<sigma> dc {} (\<lambda>_ \<sigma>' dc'. dc' = dc \<and> tyenv (sb_out \<sigma>') = tyenv (sb_out \<sigma>))"
    using buffer_const_wt [OF pre] d by (intro runs_emit [OF inv] wt_stmt_Store) auto
  have "runs ?I (dg_dot_store cfg addr d g) \<sigma> dc ({} \<union> {}) (\<lambda>_ _ _. True)"
    unfolding dg_dot_store_def
  proof (rule runs_seq [OF st])
    fix x \<sigma>1 dc1
    assume 1: "?I \<sigma>1 dc1" "progress \<sigma> dc \<sigma>1 dc1 {}" "dc1 = dc \<and> tyenv (sb_out \<sigma>1) = tyenv (sb_out \<sigma>)"
    have gw: "gw \<noteq> Ity_I1" using pre by (auto simp: dot_pre_def)
    have h: "runs ?I (emit_helper ''dg_dot_x86g_amd64g_dirtyhelper_store'' [addr, IRExpr_Const (IRConst_U64 (of_nat n))] g) \<sigma>1 dc1 {}
        (\<lambda>_ \<sigma>' dc'. dc' = dc1 \<and> tyenv (sb_out \<sigma>') = tyenv (sb_out \<sigma>1))"
      using 1 a g gw by (intro runs_helper [OF 1(1)]) (auto simp: wt_simps)
    have "typeOfIRExpr (tyenv (sb_out \<sigma>1)) d = Inr ty" using 1(3) wt_type [OF d(1)] by simp
    then show "runs ?I (bindM (typeM d) (\<lambda>type. bindM (liftM (sizeofIRType type)) (\<lambda>szB.
        emit_helper ''dg_dot_x86g_amd64g_dirtyhelper_store'' [addr, IRExpr_Const (IRConst_U64 (of_nat szB))] g))) \<sigma>1 dc1 {} (\<lambda>_ _ _. True)"
      using runs_weaken [OF h, of "\<lambda>_ _ _. True"] n by (simp add: runs_def typeM_def envM_def liftM_def bindM_def)
  qed
  then show ?thesis by simp
qed

lemma dot_load_law:
  assumes inv: "diff_inv (dot_pre cfg gw env0 goff) gw env0 goff 1 \<sigma> dc" and a: "wt (tyenv (sb_out \<sigma>)) gw dc addr gw"
    and ty: "ty \<noteq> Ity_I1" "ty \<noteq> Ity_INVALID"
  shows "runs (diff_inv (dot_pre cfg gw env0 goff) gw env0 goff 1) (dg_dot_load cfg addr ty) \<sigma> dc {}
           (\<lambda>d \<sigma>' dc'. wt (tyenv (sb_out \<sigma>')) gw dc' d ty)" (is "runs ?I _ _ _ _ ?Q")
proof -
  have pre: "dot_pre cfg gw env0 goff" using inv by (simp add: diff_inv_def)
  obtain n where n: "sizeofIRType ty = Inr n" using sizeofIRType_ok ty by blast
  let ?h = "emit_helper ''dg_dot_x86g_amd64g_dirtyhelper_load'' [addr, IRExpr_Const (IRConst_U64 (of_nat n))] None"
  let ?ld = "IRExpr_Load Iend_LE ty (buffer_const cfg 0)"
  have gw: "gw \<noteq> Ity_I1" using pre by (auto simp: dot_pre_def)
  have h: "runs ?I ?h \<sigma> dc {} (\<lambda>_ \<sigma>' dc'. dc' = dc \<and> tyenv (sb_out \<sigma>') = tyenv (sb_out \<sigma>))"
    using a gw by (intro runs_helper [OF inv]) (auto simp: wt_simps)
  have "runs ?I (seqM ?h (bindM (bindM (newTemp ty) (\<lambda>t. seqM (emit (IRStmt_WrTmp t ?ld)) (returnM t))) (\<lambda>t. returnM (IRExpr_RdTmp t)))) \<sigma> dc ({} \<union> {}) ?Q"
  proof (rule runs_seq [OF h])
    fix x \<sigma>1 dc1
    assume 1: "?I \<sigma>1 dc1" "dc1 = dc \<and> tyenv (sb_out \<sigma>1) = tyenv (sb_out \<sigma>)"
    have "wt (tyenv (sb_out \<sigma>1)) gw dc1 ?ld ty"
      using buffer_const_wt [OF pre] by (simp add: wt_simps)
    then show "runs ?I (bindM (bindM (newTemp ty) (\<lambda>t. seqM (emit (IRStmt_WrTmp t ?ld)) (returnM t))) (\<lambda>t. returnM (IRExpr_RdTmp t))) \<sigma>1 dc1 {} ?Q"
      by (intro runs_bind_pure [OF runs_define_fresh [OF 1(1)]] runs_return) auto
  qed
  then show ?thesis
    using n by (simp add: dg_dot_load_def liftM_ok bindM_return bindM_assoc seqM_def)
qed

lemma dot_F80_laws:
  assumes inv: "diff_inv (dot_pre cfg gw env0 goff) gw env0 goff 1 \<sigma> dc" and a: "wt (tyenv (sb_out \<sigma>)) gw dc addr gw"
  shows "wt (tyenv (sb_out \<sigma>)) gw dc d Ity_I64 \<Longrightarrow>
      runs (diff_inv (dot_pre cfg gw env0 goff) gw env0 goff 1) (dg_dot_dirty_storeF80le addr d) \<sigma> dc {} (\<lambda>_ _ _. True)"
    and "t < length env0 \<Longrightarrow> env0 ! t = Ity_I64 \<Longrightarrow> \<forall>u\<in>shadow_temps (length env0) 1 t. dc u = 0 \<Longrightarrow>
      runs (diff_inv (dot_pre cfg gw env0 goff) gw env0 goff 1) (dg_dot_dirty_loadF80le addr t) \<sigma> dc
        (shadow_temps (length env0) 1 t) (\<lambda>_ _ _. True)"
proof -
  let ?I = "diff_inv (dot_pre cfg gw env0 goff) gw env0 goff 1"
  have pre: "gw \<noteq> Ity_I1" "2 * length env0 \<le> IRTemp_INVALID" and off: "tmp_offset \<sigma> = length env0"
    using inv by (auto simp: diff_inv_def dot_pre_def)
  show "runs ?I (dg_dot_dirty_storeF80le addr d) \<sigma> dc {} (\<lambda>_ _ _. True)" if "wt (tyenv (sb_out \<sigma>)) gw dc d Ity_I64"
    unfolding dg_dot_dirty_storeF80le_def
    using a pre that by (intro runs_weaken [OF runs_helper [OF inv]]) auto
  show "runs ?I (dg_dot_dirty_loadF80le addr t) \<sigma> dc (shadow_temps (length env0) 1 t) (\<lambda>_ _ _. True)"
    if t: "t < length env0" "env0 ! t = Ity_I64" "\<forall>u\<in>shadow_temps (length env0) 1 t. dc u = 0"
  proof -
    let ?t = "t + length env0"
    have sh: "?t < length (tyenv (sb_out \<sigma>))" "tyenv (sb_out \<sigma>) ! ?t = Ity_I64"
      using diff_inv_shadow_type [OF inv t(1), of ?t] t(2) by (auto simp: shadow_temps_1)
    have "runs ?I (emit_helper_1 ?t ''dg_dot_x86g_amd64g_dirtyhelper_loadF80le'' [addr]) \<sigma> dc {?t} (\<lambda>_ _ _. True)"
      using a pre t sh by (intro runs_weaken [OF runs_helper_1 [OF inv]]) (auto simp: shadow_temps_1)
    then show ?thesis
      by (simp add: dg_dot_dirty_loadF80le_def shadow_temps_1 off runs_def bindM_def getM_def)
  qed
qed

lemma dot_pure_laws:
  assumes inv: "diff_inv (dot_pre cfg gw env0 goff) gw env0 goff 1 \<sigma> dc"
  shows "runs (diff_inv (dot_pre cfg gw env0 goff) gw env0 goff 1) (dg_dot_constant (tagOfIRConst con)) \<sigma> dc {}
      (\<lambda>d \<sigma>' dc'. wt (tyenv (sb_out \<sigma>')) gw dc' d (typeOfIRConst con))"
    and "ty \<noteq> Ity_INVALID \<Longrightarrow> runs (diff_inv (dot_pre cfg gw env0 goff) gw env0 goff 1) (dg_dot_default ty) \<sigma> dc {}
      (\<lambda>d \<sigma>' dc'. wt (tyenv (sb_out \<sigma>')) gw dc' d ty)"
    and "wt (tyenv (sb_out \<sigma>)) gw dc x ty \<Longrightarrow> wt (tyenv (sb_out \<sigma>)) gw dc y ty \<Longrightarrow> ty \<in> {Ity_I8, Ity_I16, Ity_I32, Ity_I64} \<Longrightarrow>
      runs (diff_inv (dot_pre cfg gw env0 goff) gw env0 goff 1) (dg_dot_compare x y) \<sigma> dc {}
      (\<lambda>e \<sigma>' dc'. wt (tyenv (sb_out \<sigma>')) gw dc' e Ity_I1)"
proof -
  let ?I = "diff_inv (dot_pre cfg gw env0 goff) gw env0 goff 1"
  show "runs ?I (dg_dot_constant (tagOfIRConst con)) \<sigma> dc {} (\<lambda>d \<sigma>' dc'. wt (tyenv (sb_out \<sigma>')) gw dc' d (typeOfIRConst con))"
    unfolding dg_dot_constant_def using inv by (intro runs_return) (cases con; simp add: wt_simps)+
  show "runs ?I (dg_dot_default ty) \<sigma> dc {} (\<lambda>d \<sigma>' dc'. wt (tyenv (sb_out \<sigma>')) gw dc' d ty)" if "ty \<noteq> Ity_INVALID"
    unfolding dg_dot_default_def by (rule runs_lift_ex [where I = ?I, OF inv]) (rule mkIRConst_zero_wt [OF that])
  show "runs ?I (dg_dot_compare x y) \<sigma> dc {} (\<lambda>e \<sigma>' dc'. wt (tyenv (sb_out \<sigma>')) gw dc' e Ity_I1)"
    if w: "wt (tyenv (sb_out \<sigma>)) gw dc x ty" "wt (tyenv (sb_out \<sigma>)) gw dc y ty" and ty: "ty \<in> {Ity_I8, Ity_I16, Ity_I32, Ity_I64}"
  proof -
    obtain c where c: "compare_op ty = Inr c" "wt (tyenv (sb_out \<sigma>)) gw dc (IRExpr_Binop c x y) Ity_I1"
      using ty w by (auto simp: compare_op_def wt_simps prim_types)
    then have "dg_dot_compare x y \<sigma> = Inr (IRExpr_Binop c x y, \<sigma>)"
      using wt_type [OF w(1)] wt_type [OF w(2)]
      by (simp add: dg_dot_compare_def typeM_def envM_def liftM_def bindM_def seqM_def assertM_def returnM_def)
    then show ?thesis using inv c(2) by (intro runsI [OF _ _ progress_refl]) auto
  qed
qed

interpretation dot_typed: shadow_handling "dg_dot_expressionhandling cfg" "dot_shadow_stmt cfg"
    "dot_pre cfg gw env0 goff" gw env0 goff 1 "\<lambda>env dc d ty. wt env gw dc d ty" "\<lambda>_. True" "\<lambda>ty. ty \<noteq> Ity_INVALID"
  for cfg gw env0 goff
  by unfold_locales
     (unfold dg_dot_expressionhandling_def ExpressionHandling.simps,
      (rule wt_extend dot_wrtmp_law dot_rdtmp_law dot_puti_laws dot_store_law dot_load_law dot_F80_laws dot_pure_laws
         dot_operation_ok [unfolded dot_op_ok_def], assumption+
       | rule typeOfIRConst_valid
       | fastforce simp: dg_dot_ite_def dg_dot_ccall_def wt_simps dot_pre_def intro: runs_return)+)

lemma dot_load_grows: "grows (Suc 0) (dg_dot_load cfg addr ty)"
  unfolding dg_dot_load_def by (intro grows_newTemp_bind grows_intro)

lemma dot_operation_grows: "grows n (dg_dot_operation op as ds)"
proof -
  have "grows 0 (dg_dot_operation op as ds)"
    unfolding dg_dot_operation_def dot_arith_def dot_ccall_componentwise_def Let_def
    by (intro grows_intro grows_componentwise [where n = 0]) simp_all
  then show ?thesis by (rule grows_mono) simp
qed

interpretation dot_bounded: bounded_handling "dg_dot_expressionhandling cfg" 1 for cfg
  by unfold_locales
     (auto simp: dg_dot_expressionhandling_def dg_dot_wrtmp_def dg_dot_rdtmp_def dg_dot_puti_def dg_dot_geti_def dg_dot_store_def
        dg_dot_dirty_storeF80le_def dg_dot_dirty_loadF80le_def dg_dot_constant_def dg_dot_default_def dg_dot_compare_def dg_dot_ite_def
        dg_dot_ccall_def dot_load_grows dot_operation_grows intro!: grows_intro split: option.split)

interpretation dot_sane: sane_handling "dg_dot_expressionhandling cfg" "dot_shadow_stmt cfg"
    "dot_pre cfg gw env0 goff" gw env0 goff 1 "\<lambda>env dc d ty. wt env gw dc d ty" "\<lambda>_. True" "\<lambda>ty. ty \<noteq> Ity_INVALID" 1
  for cfg gw env0 goff ..

section \<open>Forward-mode instrumentation of a block\<close>

text \<open>
  A block that adds a register and a memory cell, stores the sum and keeps it in a register: the
  concrete input on which the properties below are exercised.
\<close>

definition sample_block :: IRSB where
  "sample_block =
    \<lparr>tyenv = [Ity_F64, Ity_F64, Ity_F64, Ity_I64],
     stmts = [IRStmt_IMark 4096 4 0,
              IRStmt_WrTmp 0 (IRExpr_Get 224 Ity_F64),
              IRStmt_WrTmp 3 (IRExpr_Get 48 Ity_I64),
              IRStmt_WrTmp 1 (IRExpr_Load Iend_LE Ity_F64 (IRExpr_RdTmp 3)),
              IRStmt_WrTmp 2 (IRExpr_Triop Iop_MulF64 (IRExpr_Const (IRConst_U32 0)) (IRExpr_RdTmp 0) (IRExpr_RdTmp 1)),
              IRStmt_Put 224 (IRExpr_RdTmp 2),
              IRStmt_Store Iend_LE (IRExpr_RdTmp 3) (IRExpr_RdTmp 2)],
     sb_next = IRExpr_Const (IRConst_U64 4100), jumpkind = Ijk_Boring, offsIP = 184\<rparr>"

definition sample_config :: DG_Config where
  "sample_config = \<lparr>build_32bit = False, shadow_mem_buffer = 65536\<rparr>"

lemma sample_block_sane: "sanityCheckIRSB sample_block True Ity_I64 = Inr ()"
  by (simp add: sample_block_def sanityCheckIRSB_def useBeforeDef_Temp_def assignedOnce_Temp_def typeOfIRTemp_def
      tc_Triop_def prim_types)

lemma sample_block_defs:
  "is_ok (defs_Stmts (tyenv sample_block) (\<lambda>_. 0) (dropWhile (\<lambda>st. \<not> is_IMark st) (stmts sample_block)))"
  by (simp add: sample_block_def useBeforeDef_Temp_def assignedOnce_Temp_def)

lemma dot_handle_eq: "dg_dot_handle_statement cfg = add_statement_modified (dg_dot_expressionhandling cfg)"
  by (simp add: dg_dot_handle_statement_def fun_eq_iff)

lemma sample_pre: "dot_pre sample_config Ity_I64 (tyenv sample_block) 928"
  "list_all (ok_stmt Ity_I64 (tyenv sample_block) 928 1 (\<lambda>_. True) (\<lambda>ty. ty \<noteq> Ity_INVALID)) (dropWhile (\<lambda>st. \<not> is_IMark st) (stmts sample_block))"
  "fits 1 1 sample_block"
  by (simp_all add: dot_pre_def fits_def sample_block_def sample_config_def IRTemp_INVALID_def)

lemma sample_instrumented: "\<exists>sb'. instrument_block (dg_dot_handle_statement sample_config) 1 928 sample_block = Inr sb'"
  using dot_sane.instrument_block_sane [OF sample_pre(1) sample_block_sane refl sample_pre(3) sample_block_defs sample_pre(2)]
  by (auto simp: dot_handle_eq)

text \<open>
  C2. Forward mode: if VEX's sanity checker accepts a flat superblock, then instrumenting the block succeeds and the checker accepts the
  instrumented block, for blocks with any operations that satisfy these conditions: no temporary and no result of a C call
  has the invalid type; the word size of the guest is that of
  the build and the size of the guest state is not negative; from the first instruction mark on, no statement is a
  load-linked or store-conditional, the operands of operations and C calls are atoms, offsets of \<^verbatim>\<open>Put\<close> and bases of
  \<^verbatim>\<open>PutI\<close> are not negative, the bases of register arrays and of their shadows are at most the 10000 that VEX allows, no value of type I1 is loaded, dirty
  calls name their callee, the 80-bit load and store helpers are called with the signatures VEX gives them, and no temporary is used that only the statements before the
  first instruction mark (which are copied without a shadow) assign; and there is room for the temporaries that are added
  (\<open>fits\<close>).
\<close>

theorem dot_instrument_sane:
  assumes "sanityCheckIRSB sb True gw = Inr ()" "dot_pre cfg gw (tyenv sb) gs_size"
    and "is_ok (defs_Stmts (tyenv sb) (\<lambda>_. 0) (dropWhile (\<lambda>st. \<not> is_IMark st) (stmts sb)))"
    and "list_all (ok_stmt gw (tyenv sb) gs_size 1 (\<lambda>_. True) (\<lambda>ty. ty \<noteq> Ity_INVALID)) (dropWhile (\<lambda>st. \<not> is_IMark st) (stmts sb))"
    and "fits 1 1 sb"
  shows "\<exists>sb'. instrument_block (dg_dot_handle_statement cfg) 1 gs_size sb = Inr sb' \<and> sanityCheckIRSB sb' False gw = Inr ()"
  unfolding dot_handle_eq by (rule dot_sane.instrument_block_sane [OF assms(2,1) refl assms(5,3,4)])

theorem dot_instrument_sane_witness:
  "\<exists>sb'. instrument_block (dg_dot_handle_statement sample_config) 1 928 sample_block = Inr sb'
     \<and> sanityCheckIRSB sb' False Ity_I64 = Inr ()"
  by (rule dot_instrument_sane [OF sample_block_sane sample_pre(1) sample_block_defs sample_pre(2,3)])

text \<open>
  C6. Forward mode is transparent up to compare-and-swap: if offsets into the guest state are not negative, the statements of the instrumented
  block are those of the input block, in their order, interleaved only with statements that assign temporaries above those of the
  input, write guest state above its end, store into the transfer buffer or call a shadow helper; except that each
  compare-and-swap is taken out and replaced by loads and guarded stores of the client's memory that it accesses, as \<^verbatim>\<open>dg_original_statement\<close> does.
\<close>

theorem dot_instrument_transparent:
  assumes "instrument_block (dg_dot_handle_statement cfg) 1 gs_size sb = Inr sb'" "list_all nonneg_offsets (stmts sb)"
  shows "weaves (dot_shadow_stmt cfg (length (tyenv sb)) gs_size) (stmts sb) (stmts sb')"
  using dot_emit.instrument_block_weaves assms
  by (simp add: dot_handle_eq)

theorem dot_instrument_transparent_witness:
  "\<exists>sb'. instrument_block (dg_dot_handle_statement sample_config) 1 928 sample_block = Inr sb'
     \<and> weaves (dot_shadow_stmt sample_config 4 928) (stmts sample_block) (stmts sb')"
proof -
  obtain sb' where "instrument_block (dg_dot_handle_statement sample_config) 1 928 sample_block = Inr sb'"
    using sample_instrumented by blast
  moreover have "list_all nonneg_offsets (stmts sample_block)" "length (tyenv sample_block) = 4"
    by (simp_all add: sample_block_def)
  ultimately show ?thesis
    using dot_instrument_transparent [of sample_config 928 sample_block sb'] by auto
qed

end
