(* ===== verification/DG_Bar_Typing.thy ===== *)
theory DG_Bar_Typing
  imports DG_Layers_Typing DG_Dot_Typing
begin

text \<open>
  Recording-mode instrumentation keeps VEX's sanity checker satisfied: the operation rules of \<open>DG_Bar\<close> yield
  indices of the right type, so that its callbacks meet the contracts of \<open>DG_Common\<close>. Some rules build
  ill-typed expressions; \<open>bar_good_op\<close> leaves them out, and the last property shows what happens to them.
\<close>

section \<open>Recording\<close>

lemma widen32_wt: "wt env gw dc e Ity_I32 \<Longrightarrow> wt env gw dc (widen32 e) Ity_I64"
  by (simp add: widen32_def wt_simps prim_types)

lemma cF64_wt: "wt env gw dc (cF64 w) Ity_F64"
  by (simp add: cF64_def wt_simps)

lemma writeToTape_ok:
  assumes inv: "diff_inv pre gw env0 goff 2 \<sigma> dc"
    and i: "wt2 gw (tyenv (sb_out \<sigma>)) dc i Ity_I64" "wt2 gw (tyenv (sb_out \<sigma>)) dc j Ity_I64"
    and p: "wt (tyenv (sb_out \<sigma>)) gw dc p Ity_F64" "wt (tyenv (sb_out \<sigma>)) gw dc q Ity_F64"
    and v: "rv \<Longrightarrow> wt (tyenv (sb_out \<sigma>)) gw dc v Ity_F64"
  shows "runs (diff_inv pre gw env0 goff 2) (dg_bar_writeToTape rv i j p q v) \<sigma> dc {} (\<lambda>d \<sigma>' dc'. wt2 gw (tyenv (sb_out \<sigma>')) dc' d Ity_I64)"
  unfolding dg_bar_writeToTape_def
proof (rule runs_fresh [OF inv, where D = "{length (tyenv (sb_out \<sigma>))}"], goal_cases)
  case (2 \<sigma>1)
  let ?I = "diff_inv pre gw env0 goff 2" and ?t = "length (tyenv (sb_out \<sigma>))"
  let ?args = "[fst i, snd i, fst j, snd j, IRExpr_Unop Iop_ReinterpF64asI64 p, IRExpr_Unop Iop_ReinterpF64asI64 q]"
  let ?Q = "\<lambda>d \<sigma>' dc'. wt2 gw (tyenv (sb_out \<sigma>')) dc' d Ity_I64"
  have "list_all (\<lambda>a. wt (tyenv (sb_out \<sigma>1)) gw dc a Ity_I64) ?args"
    using progress_wt [OF 2(2)] i p by (simp add: wt2_def wt_simps prim_types)
  then have args: "list_all (\<lambda>a. \<exists>t. t \<noteq> Ity_I1 \<and> wt (tyenv (sb_out \<sigma>1)) gw dc a t) ?args"
    by (rule list.pred_mono_strong) blast
  let ?val = "if rv then emit_helper ''dg_bar_writeToTape_value_call'' [IRExpr_Unop Iop_ReinterpF64asI64 v, IRExpr_RdTmp ?t] None else returnM ()"
  have "runs ?I (seqM (emit_helper_1 ?t ''dg_bar_writeToTape_call'' ?args) (seqM ?val
      (returnM (widen32 (IRExpr_Unop Iop_64to32 (IRExpr_RdTmp ?t)), widen32 (IRExpr_Unop Iop_64HIto32 (IRExpr_RdTmp ?t))))))
      \<sigma>1 dc ({?t} \<union> ({} \<union> {})) ?Q"
  proof (rule runs_seq [OF runs_helper_1 [OF 2(1) _ args]])
    fix x \<sigma>2 dc2
    assume 3: "?I \<sigma>2 dc2" "progress \<sigma>1 dc \<sigma>2 dc2 {?t}" "dc2 = (\<lambda>u. if u \<in> {?t} then 1 else dc u) \<and> tyenv (sb_out \<sigma>2) = tyenv (sb_out \<sigma>1)"
    have t: "wt (tyenv (sb_out \<sigma>2)) gw dc2 (IRExpr_RdTmp ?t) Ity_I64"
      using 2(3) 3(3) by (simp add: wt_simps)
    have "rv \<Longrightarrow> wt (tyenv (sb_out \<sigma>2)) gw dc2 (IRExpr_Unop Iop_ReinterpF64asI64 v) Ity_I64"
      using progress_wt [OF 3(2) progress_wt [OF 2(2) v]] by (simp add: wt_simps prim_types)
    then have val: "runs ?I ?val \<sigma>2 dc2 {} (\<lambda>_ \<sigma>' dc'. dc' = dc2 \<and> tyenv (sb_out \<sigma>') = tyenv (sb_out \<sigma>2))"
      using 3(1) wt_not_I1 [OF t] wt_not_I1 [of "tyenv (sb_out \<sigma>2)" gw dc2 "IRExpr_Unop Iop_ReinterpF64asI64 v" Ity_I64]
      by (auto intro!: runs_helper runs_return)
    show "runs ?I (seqM ?val (returnM (widen32 (IRExpr_Unop Iop_64to32 (IRExpr_RdTmp ?t)), widen32 (IRExpr_Unop Iop_64HIto32 (IRExpr_RdTmp ?t)))))
        \<sigma>2 dc2 ({} \<union> {}) ?Q"
      using t by (intro runs_seq [OF val] runs_return) (auto simp: wt2_def prim_types wt_Unop intro!: widen32_wt)
  qed (use 2(3,4) in auto)
  then show ?case by simp
qed simp

lemma record_component_ok:
  assumes inv: "diff_inv pre gw env0 goff 2 \<sigma> dc"
    and i: "list_all (\<lambda>i. wt2 gw (tyenv (sb_out \<sigma>)) dc i Ity_I64) is" "length is \<in> {1, 2, 3}"
    and p: "list_all (\<lambda>p. wt (tyenv (sb_out \<sigma>)) gw dc p Ity_F64) ps" "length ps = length is"
    and v: "rv \<Longrightarrow> wt (tyenv (sb_out \<sigma>)) gw dc v Ity_F64"
  shows "runs (diff_inv pre gw env0 goff 2) (record_component rv is ps v) \<sigma> dc {} (\<lambda>d \<sigma>' dc'. wt2 gw (tyenv (sb_out \<sigma>')) dc' d Ity_I64)"
proof -
  have none: "wt2 gw env dc no_index Ity_I64" for env dc
    by (simp add: no_index_def both_def wt2_def wt_simps)
  consider a x where "is = [a]" "ps = [x]" | a b x y where "is = [a, b]" "ps = [x, y]"
    | a b c x y z where "is = [a, b, c]" "ps = [x, y, z]"
    using i(2) p(2) by (auto simp: length_Suc_conv numeral_2_eq_2 numeral_3_eq_3)
  then show ?thesis
  proof cases
    case 1
    then show ?thesis using inv i p v none cF64_wt by (simp add: record_component_def writeToTape_ok)
  next
    case 2
    then show ?thesis using inv i p v by (simp add: record_component_def writeToTape_ok)
  next
    case 3
    then show ?thesis
      using inv i p v cF64_wt
      by (auto simp: record_component_def intro!: runs_bind_pure [OF writeToTape_ok] writeToTape_ok intro: progress_wt progress_wt2)
  qed
qed

lemma triples_concat: "triples (concat (map (\<lambda>(x, lo, hi). [x, lo, hi]) xs)) = xs"
  by (induction xs) auto

lemma length_triples: "length parts = 3 * n \<Longrightarrow> length (triples parts) = n"
proof (induction parts arbitrary: n rule: triples.induct)
  case (1 a b c xs)
  then show ?case by (cases n) auto
qed auto

lemma triples_all: "list_all P parts \<Longrightarrow> list_all (\<lambda>(a, b, c). P a \<and> P b \<and> P c) (triples parts)"
  by (induction parts rule: triples.induct) auto

lemma part_f_wt: "wt env gw dc e Ity_I64 \<Longrightarrow> wt env gw dc (part_f fps e) Ity_F64"
  by (simp add: part_f_def wt_simps prim_types)

text \<open>Well-typed partial derivatives and value, given well-typed components of the \<open>n\<close> inputs.\<close>

definition rule_wt :: "IRTypeEnv \<Rightarrow> IRType \<Rightarrow> def_counts \<Rightarrow> bool \<Rightarrow> nat \<Rightarrow> (IRExpr list \<Rightarrow> IRExpr list) \<Rightarrow> (IRExpr list \<Rightarrow> IRExpr) \<Rightarrow> bool" where
  "rule_wt env gw dc rv n partials value \<longleftrightarrow>
     (\<forall>xs. list_all (\<lambda>x. wt env gw dc x Ity_F64) xs \<longrightarrow> length xs = n \<longrightarrow>
        list_all (\<lambda>p. wt env gw dc p Ity_F64) (partials xs) \<and> length (partials xs) = n \<and> (rv \<longrightarrow> wt env gw dc (value xs) Ity_F64))"

lemma bar_body_ok:
  assumes inv: "diff_inv pre gw env0 goff 2 \<sigma> dc" and n: "n \<in> {1, 2, 3}" "length parts = 3 * n"
    and parts: "list_all (\<lambda>e. wt (tyenv (sb_out \<sigma>)) gw dc e Ity_I64) parts"
    and rule: "rule_wt (tyenv (sb_out \<sigma>)) gw dc rv n partials value"
  shows "runs (diff_inv pre gw env0 goff 2) (bar_body rv partials value fps low i parts) \<sigma> dc {}
    (\<lambda>outs \<sigma>' dc'. length outs = 2 \<and> list_all (\<lambda>e. wt (tyenv (sb_out \<sigma>')) gw dc' e Ity_I64) outs)"
proof -
  let ?w = "wt (tyenv (sb_out \<sigma>)) gw dc" and ?fs = "map (\<lambda>t. part_f fps (fst t)) (triples parts)" and ?is = "map snd (triples parts)"
  have t: "list_all (\<lambda>(a, b, c). ?w a Ity_I64 \<and> ?w b Ity_I64 \<and> ?w c Ity_I64) (triples parts)" "length (triples parts) = n"
    using triples_all [OF parts] length_triples [OF n(2)] by auto
  have "list_all (\<lambda>i. wt2 gw (tyenv (sb_out \<sigma>)) dc i Ity_I64) ?is" "list_all (\<lambda>x. ?w x Ity_F64) ?fs"
    unfolding list.pred_map comp_def using t(1) by (auto elim!: list.pred_mono_strong simp: wt2_def part_f_wt)
  moreover have "wt2 gw (tyenv (sb_out \<sigma>)) dc (?is ! 0) Ity_I64"
    using calculation(1) t(2) n(1) by (auto simp: list_all_length)
  ultimately show ?thesis
    using inv rule t(2) n(1) unfolding bar_body_def Let_def
    by (auto simp: rule_wt_def wt2_def intro!: runs_return runs_bind_pure [OF record_component_ok])
qed

lemma componentwise_layers_ok:
  assumes inv: "diff_inv pre gw env0 goff 2 \<sigma> dc" and lay: "(fps, simd) \<in> SIMD_layouts"
    and V: "SIMD_vector_type (fps * simd) V" "SIMD_vector_type (fps * simd) ty"
    and ins: "list_all (\<lambda>(x, i). wt (tyenv (sb_out \<sigma>)) gw dc x V \<and> wt2 gw (tyenv (sb_out \<sigma>)) dc i V) inputs"
    and res: "apply_op op es = Inr e" "wt (tyenv (sb_out \<sigma>)) gw dc e ty"
    and body: "\<And>i parts \<sigma>' dc'. diff_inv pre gw env0 goff 2 \<sigma>' dc' \<Longrightarrow> progress \<sigma> dc \<sigma>' dc' {} \<Longrightarrow> length parts = 3 * length inputs \<Longrightarrow>
        list_all (\<lambda>e. wt (tyenv (sb_out \<sigma>')) gw dc' e Ity_I64) parts \<Longrightarrow>
        runs (diff_inv pre gw env0 goff 2) (body i parts) \<sigma>' dc' {}
          (\<lambda>outs \<sigma>'' dc''. length outs = 2 \<and> list_all (\<lambda>e. wt (tyenv (sb_out \<sigma>'')) gw dc'' e Ity_I64) outs)"
  shows "runs (diff_inv pre gw env0 goff 2) (componentwise_layers op es inputs fps simd body) \<sigma> dc {}
           (\<lambda>d \<sigma>' dc'. wt2 gw (tyenv (sb_out \<sigma>')) dc' d ty)"
proof -
  let ?I = "diff_inv pre gw env0 goff 2" and ?ins = "concat (map (\<lambda>(x, lo, hi). [x, lo, hi]) inputs)"
  have len: "length ?ins = 3 * length inputs" by (induction inputs) auto
  have inp: "list_all (\<lambda>e. \<exists>ty. wt (tyenv (sb_out \<sigma>)) gw dc e ty \<and> SIMD_vector_type (fps * simd) ty) ?ins"
    using ins V(1) by (fastforce simp: list_all_iff wt2_def)
  have comp: "runs ?I (applyComponentwisely ?ins 2 fps simd body) \<sigma> dc {}
      (\<lambda>outs \<sigma>' dc'. length outs = 2 \<and> list_all (\<lambda>e. wt (tyenv (sb_out \<sigma>')) gw dc' e (SIMD_inttype (fps * simd))) outs)"
  proof (rule runs_componentwise [OF inv lay inp])
    fix i parts \<sigma>' dc'
    assume p: "diff_inv pre gw env0 goff 2 \<sigma>' dc'" "progress \<sigma> dc \<sigma>' dc' {}" "length parts = length ?ins"
      "list_all (\<lambda>e. wt (tyenv (sb_out \<sigma>')) gw dc' e Ity_I64) parts"
    show "runs ?I (body i parts) \<sigma>' dc' {}
        (\<lambda>outs \<sigma>'' dc''. length outs = 2 \<and> list_all (\<lambda>e. wt (tyenv (sb_out \<sigma>'')) gw dc'' e Ity_I64) outs)"
      by (rule body [OF p(1,2) p(3) [unfolded len] p(4)])
  qed
  show ?thesis
    unfolding componentwise_layers_def
  proof (rule runs_bind_pure [OF comp])
    fix outs \<sigma>1 dc1
    assume 1: "?I \<sigma>1 dc1" "progress \<sigma> dc \<sigma>1 dc1 {}"
      "length outs = 2 \<and> list_all (\<lambda>e. wt (tyenv (sb_out \<sigma>1)) gw dc1 e (SIMD_inttype (fps * simd))) outs"
    have sz: "fps * simd \<in> {4, 8, 16, 32}" using lay by (auto simp: SIMD_layouts_def)
    have o01: "wt (tyenv (sb_out \<sigma>1)) gw dc1 (outs ! 0) (SIMD_inttype (fps * simd))" "wt (tyenv (sb_out \<sigma>1)) gw dc1 (outs ! 1) (SIMD_inttype (fps * simd))"
      using 1(3) by (auto simp: list_all_length)
    obtain lo hi where lh: "reinterpretType (tyenv (sb_out \<sigma>1)) (outs ! 0) ty = Inr lo" "wt (tyenv (sb_out \<sigma>1)) gw dc1 lo ty"
        "reinterpretType (tyenv (sb_out \<sigma>1)) (outs ! 1) ty = Inr hi" "wt (tyenv (sb_out \<sigma>1)) gw dc1 hi ty"
      using reinterpretType_wt [OF o01(1) V(2) sz] reinterpretType_wt [OF o01(2) V(2) sz] by blast
    have "typeOfIRExpr (tyenv (sb_out \<sigma>1)) e = Inr ty" using wt_type [OF progress_wt [OF 1(2) res(2)]] .
    then show "runs ?I (bindM (liftM (apply_op op es)) (\<lambda>result. reinterpret_layers result outs)) \<sigma>1 dc1 {}
        (\<lambda>d \<sigma>' dc'. wt2 gw (tyenv (sb_out \<sigma>')) dc' d ty)"
      unfolding runs_lift_bind [OF res(1)] reinterpret_layers_def
      using 1(1) lh
      by (auto simp: runs_typeM_bind runs_envM_bind wt2_def intro!: runs_return)
  qed
qed

section \<open>Operation rules\<close>

lemma wt_list_nth: "list_all (\<lambda>x. wt env gw dc x ty) xs \<Longrightarrow> i < length xs \<Longrightarrow> wt env gw dc (xs ! i) ty"
  by (simp add: list_all_length)

lemma arity_types:
  assumes "typeOfPrimop op = Inr (ty, t1, t2, t3, t4)" "has_arity op n"
  shows "n = 1 \<and> t1 \<noteq> Ity_INVALID \<and> t2 = Ity_INVALID \<and> t3 = Ity_INVALID \<and> t4 = Ity_INVALID
    \<or> n = 2 \<and> t1 \<noteq> Ity_INVALID \<and> t2 \<noteq> Ity_INVALID \<and> t3 = Ity_INVALID \<and> t4 = Ity_INVALID
    \<or> n = 3 \<and> t1 \<noteq> Ity_INVALID \<and> t2 \<noteq> Ity_INVALID \<and> t3 \<noteq> Ity_INVALID \<and> t4 = Ity_INVALID
    \<or> n = 4 \<and> t1 \<noteq> Ity_INVALID \<and> t2 \<noteq> Ity_INVALID \<and> t3 \<noteq> Ity_INVALID \<and> t4 \<noteq> Ity_INVALID
    \<or> n = 0"
proof -
  have sig: "[t1 \<noteq> Ity_INVALID, t2 \<noteq> Ity_INVALID, t3 \<noteq> Ity_INVALID, t4 \<noteq> Ity_INVALID] = replicate n True @ replicate (4 - n) False" (is "?l = ?r")
    using assms by (simp add: has_arity_def)
  have "length ?l = length ?r" by (simp only: sig)
  then have "n \<in> {0, 1, 2, 3, 4}" by auto
  then consider "n = 0" | "n = 1" | "n = 2" | "n = 3" | "n = 4" by blast
  then show ?thesis using sig by cases (simp_all add: replicate_small numeral_eq_Suc)
qed

lemma operand_numbers: "[Suc 0..<2] = [1]" "[Suc 0..<3] = [1, 2]" "[Suc 0..<4] = [1, 2, 3]" "[Suc 0..<5] = [1, 2, 3, 4]"
  by (simp_all add: upt_rec)

lemma arity:
  assumes "typeOfPrimop op = Inr (ty, t1, t2, t3, t4)"
  shows "has_arity op (Suc 0) \<longleftrightarrow> t1 \<noteq> Ity_INVALID \<and> t2 = Ity_INVALID \<and> t3 = Ity_INVALID \<and> t4 = Ity_INVALID"
    and "has_arity op 2 \<longleftrightarrow> t1 \<noteq> Ity_INVALID \<and> t2 \<noteq> Ity_INVALID \<and> t3 = Ity_INVALID \<and> t4 = Ity_INVALID"
    and "has_arity op 3 \<longleftrightarrow> t1 \<noteq> Ity_INVALID \<and> t2 \<noteq> Ity_INVALID \<and> t3 \<noteq> Ity_INVALID \<and> t4 = Ity_INVALID"
    and "has_arity op 4 \<longleftrightarrow> t1 \<noteq> Ity_INVALID \<and> t2 \<noteq> Ity_INVALID \<and> t3 \<noteq> Ity_INVALID \<and> t4 \<noteq> Ity_INVALID"
  using assms by (auto simp: has_arity_def replicate_small numeral_eq_Suc)

lemma layout: "(8, Suc 0) \<in> SIMD_layouts" "(4, Suc 0) \<in> SIMD_layouts" "SIMD_vector_type 8 Ity_F64" "SIMD_vector_type 4 Ity_F32"
  by (simp_all add: SIMD_layouts_def SIMD_vector_type_def)

lemma apply_op_wt:
  assumes "typeOfPrimop op = Inr (ty, t1, t2, t3, t4)" "has_arity op n" "0 < n"
    and "\<forall>i\<in>{1..n}. wt env gw dc (A i) ([t1, t2, t3, t4] ! (i - 1))"
  shows "\<exists>e. apply_op op (map A [1..<n + 1]) = Inr e \<and> wt env gw dc e ty"
proof -
  have A: "i \<le> n \<Longrightarrow> 1 \<le> i \<Longrightarrow> wt env gw dc (A i) ([t1, t2, t3, t4] ! (i - 1))" for i
    using assms(4) by simp
  show ?thesis
    using arity_types [OF assms(1,2)] assms(1,3) A [of 1] A [of 2] A [of 3] A [of 4]
    by (elim disjE) (simp_all add: operand_numbers wt_Unop wt_Binop wt_Triop wt_Qop)
qed

lemma layers_case_ok:
  assumes inv: "diff_inv pre gw env0 goff 2 \<sigma> dc" and ty: "typeOfPrimop op = Inr (ty, t1, t2, t3, t4)"
    and ops: "operands_ok (wt (tyenv (sb_out \<sigma>)) gw dc) (wt2 gw (tyenv (sb_out \<sigma>)) dc) [t1, t2, t3, t4] as is"
    and n: "has_arity op n" "0 < n"
    and lay: "(fps, simd) \<in> SIMD_layouts" "SIMD_vector_type (fps * simd) ty"
    and ins: "list_all (\<lambda>i. 1 \<le> i \<and> i \<le> n \<and> [t1, t2, t3, t4] ! (i - 1) = ty) ins"
    and body: "\<And>A \<sigma>' dc' i parts. (\<forall>i\<in>{1..n}. wt (tyenv (sb_out \<sigma>')) gw dc' (A i) ([t1, t2, t3, t4] ! (i - 1))) \<Longrightarrow>
        diff_inv pre gw env0 goff 2 \<sigma>' dc' \<Longrightarrow> length parts = 3 * length ins \<Longrightarrow>
        list_all (\<lambda>e. wt (tyenv (sb_out \<sigma>')) gw dc' e Ity_I64) parts \<Longrightarrow>
        runs (diff_inv pre gw env0 goff 2) (body A i parts) \<sigma>' dc' {}
          (\<lambda>outs \<sigma>'' dc''. length outs = 2 \<and> list_all (\<lambda>e. wt (tyenv (sb_out \<sigma>'')) gw dc'' e Ity_I64) outs)"
  shows "layers_op_ok pre gw env0 goff \<sigma> dc ty (op_case n ins as is (\<lambda>A I.
    componentwise_layers op (map A [1..<n + 1]) (map (\<lambda>i. (A i, I i)) ins) fps simd (body A)))"
proof (rule layers_op_case_ok [OF inv ops])
  have "{1..n} \<union> set ins = {1..n}" using ins(1) by (auto simp: list_all_iff)
  moreover have "\<forall>i\<in>{1..n}. 1 \<le> i \<and> i \<le> length [t1, t2, t3, t4] \<and> [t1, t2, t3, t4] ! (i - 1) \<noteq> Ity_INVALID"
    using arity_types [OF ty n(1)] n(2) by (elim disjE) (simp_all add: upto_split)
  ultimately show "\<forall>i\<in>{1..n} \<union> set ins. 1 \<le> i \<and> i \<le> length [t1, t2, t3, t4] \<and> [t1, t2, t3, t4] ! (i - 1) \<noteq> Ity_INVALID"
    by (simp only:)
next
  fix A I
  assume AI: "layers_operands (wt (tyenv (sb_out \<sigma>)) gw dc) (wt2 gw (tyenv (sb_out \<sigma>)) dc) [t1, t2, t3, t4] n ins A I"
  then have A: "\<forall>i\<in>{1..n}. wt (tyenv (sb_out \<sigma>)) gw dc (A i) ([t1, t2, t3, t4] ! (i - 1))"
    by (simp add: layers_operands_def)
  obtain e where e: "apply_op op (map A [1..<n + 1]) = Inr e" "wt (tyenv (sb_out \<sigma>)) gw dc e ty"
    using apply_op_wt [OF ty n A] by blast
  show "runs (diff_inv pre gw env0 goff 2)
      (componentwise_layers op (map A [1..<n + 1]) (map (\<lambda>i. (A i, I i)) ins) fps simd (body A)) \<sigma> dc {}
      (\<lambda>d \<sigma>' dc'. wt2 gw (tyenv (sb_out \<sigma>')) dc' d ty)"
  proof (rule componentwise_layers_ok [OF inv lay(1,2,2) _ e])
    show "list_all (\<lambda>(x, i). wt (tyenv (sb_out \<sigma>)) gw dc x ty \<and> wt2 gw (tyenv (sb_out \<sigma>)) dc i ty) (map (\<lambda>i. (A i, I i)) ins)"
    proof -
      have "wt (tyenv (sb_out \<sigma>)) gw dc (A i) ty \<and> wt2 gw (tyenv (sb_out \<sigma>)) dc (I i) ty" if i: "i \<in> set ins" for i
      proof -
        have "i \<in> {1..n}" "[t1, t2, t3, t4] ! (i - 1) = ty" using i ins(1) by (auto simp: list_all_iff)
        then show ?thesis using AI i unfolding layers_operands_def by metis
      qed
      then show ?thesis by (simp add: list_all_iff)
    qed
  next
    fix i parts \<sigma>' dc'
    assume p: "diff_inv pre gw env0 goff 2 \<sigma>' dc'" "progress \<sigma> dc \<sigma>' dc' {}" "length parts = 3 * length (map (\<lambda>i. (A i, I i)) ins)"
      "list_all (\<lambda>e. wt (tyenv (sb_out \<sigma>')) gw dc' e Ity_I64) parts"
    have "\<forall>i\<in>{1..n}. wt (tyenv (sb_out \<sigma>')) gw dc' (A i) ([t1, t2, t3, t4] ! (i - 1))"
      using A progress_wt [OF p(2)] by blast
    then show "runs (diff_inv pre gw env0 goff 2) (body A i parts) \<sigma>' dc' {}
        (\<lambda>outs \<sigma>'' dc''. length outs = 2 \<and> list_all (\<lambda>e. wt (tyenv (sb_out \<sigma>'')) gw dc'' e Ity_I64) outs)"
      using p(3) unfolding length_map by (intro body p(1,4))
  qed
qed

lemma bar_case_ok:
  assumes inv: "diff_inv pre gw env0 goff 2 \<sigma> dc" and ty: "typeOfPrimop op = Inr (ty, t1, t2, t3, t4)"
    and ops: "operands_ok (wt (tyenv (sb_out \<sigma>)) gw dc) (wt2 gw (tyenv (sb_out \<sigma>)) dc) [t1, t2, t3, t4] as is"
    and n: "has_arity op n" "0 < n"
    and lay: "(fps, simd) \<in> SIMD_layouts" "SIMD_vector_type (fps * simd) ty"
    and ins: "list_all (\<lambda>i. 1 \<le> i \<and> i \<le> n \<and> [t1, t2, t3, t4] ! (i - 1) = ty) ins" "length ins \<in> {1, 2, 3}"
    and rule: "\<And>env dc A. (\<forall>i\<in>{1..n}. wt env gw dc (A i) ([t1, t2, t3, t4] ! (i - 1))) \<Longrightarrow>
        rule_wt env gw dc rv (length ins) (partials A) (value A)"
  shows "layers_op_ok pre gw env0 goff \<sigma> dc ty (bar_case rv op n ins as is partials value fps simd low)"
  unfolding bar_case_def createBarCode_def
  by (rule layers_case_ok [OF inv ty ops n lay ins(1) bar_body_ok]) (use ins(2) rule in blast)+

text \<open>The partial derivatives and values of the rules are F64 expressions.\<close>

lemma rounding_wt: "wt env gw dc dg_rounding_mode Ity_I32"
  by (simp add: dg_rounding_mode_def wt_simps)

lemmas F64_wt = rounding_wt cF64_wt wt_list_nth F64_op_def F64_sqrt_def less_test_def wt_simps prim_types

lemma arith_rule_wt:
  assumes "op \<in> set (arith_ops L)" "n = length (arith_inputs L op)"
    and "op = sqrt_op L \<Longrightarrow> op \<notin> {add_op L, sub_op L, mul_op L, div_op L}"
  shows "rule_wt env gw dc rv n (arith_partials L op) (arith_value L op)"
  using assms by (auto simp: rule_wt_def arith_partials_def arith_value_def arith_ops_def arith_inputs_def Let_def F64_wt)

lemma minmax_rule_wt: "rule_wt env gw dc rv 2 (bar_minmax_partials m) (bar_minmax_value m)"
  by (auto simp: rule_wt_def bar_minmax_partials_def bar_minmax_value_def Let_def F64_wt)

lemma neg_rule_wt:
  "(rv \<Longrightarrow> op = Iop_NegF64) \<Longrightarrow> rule_wt env gw dc rv 1 (\<lambda>_. [cF64 F64_minus_one]) (\<lambda>xs. IRExpr_Unop op (xs ! 0))"
  by (auto simp: rule_wt_def F64_wt)

lemma abs_rule_wt: "rule_wt env gw dc rv 1 (bar_abs_partials (IRConst_F64i 0)) (\<lambda>xs. IRExpr_Unop Iop_AbsF64 (xs ! 0))"
  by (auto simp: rule_wt_def bar_abs_partials_def F64_wt)

lemma fma_rule_wt:
  "wt env gw dc r Ity_I32 \<Longrightarrow> (rv \<Longrightarrow> op = Iop_MAddF64 \<or> op = Iop_MSubF64) \<Longrightarrow>
   rule_wt env gw dc rv 3 (\<lambda>xs. [xs ! 1, xs ! 0, cF64 c]) (\<lambda>xs. IRExpr_Qop op r (xs ! 0) (xs ! 1) (xs ! 2))"
  by (auto simp: rule_wt_def F64_wt)

lemma const_rule_wt:
  "list_all (\<lambda>p. wt env gw dc p Ity_F64) ps \<Longrightarrow> length ps = n \<Longrightarrow> wt env gw dc v Ity_F64 \<Longrightarrow> rule_wt env gw dc rv n (\<lambda>_. ps) (\<lambda>_. v)"
  by (simp add: rule_wt_def)

lemma bitwise_layers_ok:
  assumes inv: "diff_inv pre gw env0 goff 2 \<sigma> dc" and lay: "(fps, simd) \<in> SIMD_layouts"
    and ops: "operands_ok (wt (tyenv (sb_out \<sigma>)) gw dc) (wt2 gw (tyenv (sb_out \<sigma>)) dc) [t1, t2, t3, t4] as is"
    and ts: "t1 = SIMD_inttype (fps * simd)" "t2 = t1"
  shows "layers_op_ok pre gw env0 goff \<sigma> dc t1 (op_case 2 [1, 2] as is (bitwise_layers prefix name fps simd))"
proof (rule layers_op_case_ok [OF inv ops])
  show "\<forall>i\<in>{1..2} \<union> set [1, 2]. 1 \<le> i \<and> i \<le> length [t1, t2, t3, t4] \<and> [t1, t2, t3, t4] ! (i - 1) \<noteq> Ity_INVALID"
    using ts by (auto simp: upto_split SIMD_inttype_def)
next
  fix A I
  assume "layers_operands (wt (tyenv (sb_out \<sigma>)) gw dc) (wt2 gw (tyenv (sb_out \<sigma>)) dc) [t1, t2, t3, t4] 2 [1, 2] A I"
  then have inp: "list_all (\<lambda>e. \<exists>ty. wt (tyenv (sb_out \<sigma>)) gw dc e ty \<and> SIMD_vector_type (fps * simd) ty)
      [A 1, fst (I 1), snd (I 1), A 2, fst (I 2), snd (I 2)]"
    using ts by (auto simp: layers_operands_def upto_split wt2_def SIMD_vector_type_def)
  let ?I = "diff_inv pre gw env0 goff 2"
  have call: "runs ?I (bitwise_call prefix name parts) \<sigma>1 dc1 {}
      (\<lambda>outs \<sigma>' dc'. length outs = 2 \<and> list_all (\<lambda>e. wt (tyenv (sb_out \<sigma>')) gw dc' e Ity_I64) outs)"
    if "?I \<sigma>1 dc1" "length parts = 6" "list_all (\<lambda>e. wt (tyenv (sb_out \<sigma>1)) gw dc1 e Ity_I64) parts" for \<sigma>1 dc1 parts
    unfolding bitwise_call_def
  proof (rule runs_helper_seq [OF that(1)])
    show "list_all (\<lambda>a. \<exists>t. t \<noteq> Ity_I1 \<and> wt (tyenv (sb_out \<sigma>1)) gw dc1 a t) parts"
      using that(3) by (auto simp: list_all_iff)
  qed (use that(2) in \<open>auto intro!: runs_two_fresh runs_helper_1\<close>)
  show "runs ?I (bitwise_layers prefix name fps simd A I) \<sigma> dc {} (\<lambda>d \<sigma>' dc'. wt2 gw (tyenv (sb_out \<sigma>')) dc' d t1)"
    unfolding bitwise_layers_def
  proof (rule runs_bind_pure [OF runs_componentwise [OF inv lay inp, where nouts = 2]])
    fix i parts \<sigma>1 dc1
    assume "?I \<sigma>1 dc1" "length parts = length [A 1, fst (I 1), snd (I 1), A 2, fst (I 2), snd (I 2)]"
      "list_all (\<lambda>e. wt (tyenv (sb_out \<sigma>1)) gw dc1 e Ity_I64) parts"
    then show "runs ?I (bitwise_call prefix name parts) \<sigma>1 dc1 {}
        (\<lambda>outs \<sigma>' dc'. length outs = 2 \<and> list_all (\<lambda>e. wt (tyenv (sb_out \<sigma>')) gw dc' e Ity_I64) outs)"
      by (intro call) simp_all
  next
    fix outs \<sigma>1 dc1
    assume "?I \<sigma>1 dc1" "length outs = 2 \<and> list_all (\<lambda>e. wt (tyenv (sb_out \<sigma>1)) gw dc1 e (SIMD_inttype (fps * simd))) outs"
    then show "runs ?I (returnM (outs ! 0, outs ! 1)) \<sigma>1 dc1 {} (\<lambda>d \<sigma>' dc'. wt2 gw (tyenv (sb_out \<sigma>')) dc' d t1)"
      using ts by (intro runs_return) (auto simp: wt2_def list_all_length)
  qed
qed

text \<open>
  The operations that the recording mode supports. The rule for \<^verbatim>\<open>AbsF32\<close> compares an F64 value with an F32
  constant. With \<^verbatim>\<open>--record-values\<close>, the rules for SIMD and F32 negation and for F32 fused multiply-add
  apply the operation itself to F64 components. With \<^verbatim>\<open>--typegrind\<close>, operations without a rule need a
  constant of ones of their result type.
\<close>

definition bar_good_op :: "Bar_Config \<Rightarrow> IROp \<Rightarrow> bool" where
  "bar_good_op cfg op \<longleftrightarrow>
     op \<noteq> Iop_AbsF32
     \<and> (record_values cfg \<longrightarrow> op \<notin> {Iop_NegF32, Iop_Neg64Fx2, Iop_Neg32Fx2, Iop_Neg32Fx4, Iop_MAddF32, Iop_MSubF32})
     \<and> (unhandled_ones cfg \<longrightarrow> (case typeOfPrimop op of Inl _ \<Rightarrow> True
          | Inr (ty, _) \<Rightarrow> ty \<notin> {Ity_INVALID, Ity_F16, Ity_D32, Ity_D64, Ity_D128, Ity_F128}))"

definition arith_case_typed :: "arith_layout \<Rightarrow> IROp \<Rightarrow> bool" where
  "arith_case_typed L op \<longleftrightarrow>
     has_arity op (arith_nargs L op) \<and> 0 < arith_nargs L op \<and> length (arith_inputs L op) \<in> {1, 2, 3}
     \<and> (op = sqrt_op L \<longrightarrow> op \<notin> {add_op L, sub_op L, mul_op L, div_op L})
     \<and> (case projr (typeOfPrimop op) of (ty, t1, t2, t3, t4) \<Rightarrow>
          SIMD_vector_type (fpsize L * simdsize L) ty
          \<and> list_all (\<lambda>i. 1 \<le> i \<and> i \<le> arith_nargs L op \<and> [t1, t2, t3, t4] ! (i - 1) = ty) (arith_inputs L op))"

lemma arith_cases_typed: "list_all (\<lambda>L. list_all (arith_case_typed L) (arith_ops L)) arith_layouts"
  by (simp add: arith_case_typed_def arith_layouts_def arith_ops_def has_arity_def prim_types arith_nargs_def arith_inputs_def
      sqrt_noroundingmode_def SIMD_vector_type_def SIMD_inttype_def replicate_small)

lemma bar_arith_ok:
  assumes inv: "diff_inv pre gw env0 goff 2 \<sigma> dc" and ty: "typeOfPrimop op = Inr (ty, t1, t2, t3, t4)"
    and ops: "operands_ok (wt (tyenv (sb_out \<sigma>)) gw dc) (wt2 gw (tyenv (sb_out \<sigma>)) dc) [t1, t2, t3, t4] as is"
    and L: "L \<in> set arith_layouts" "op \<in> set (arith_ops L)"
  shows "layers_op_ok pre gw env0 goff \<sigma> dc ty (bar_case rv op (arith_nargs L op) (arith_inputs L op) as is
     (\<lambda>_. arith_partials L op) (\<lambda>_. arith_value L op) (fpsize L) (simdsize L) (llo L))"
proof -
  have "arith_case_typed L op" using arith_cases_typed L by (simp add: list_all_iff)
  then have *: "has_arity op (arith_nargs L op)" "0 < arith_nargs L op" "SIMD_vector_type (fpsize L * simdsize L) ty"
    "list_all (\<lambda>i. 1 \<le> i \<and> i \<le> arith_nargs L op \<and> [t1, t2, t3, t4] ! (i - 1) = ty) (arith_inputs L op)"
    "length (arith_inputs L op) \<in> {1, 2, 3}" "op = sqrt_op L \<Longrightarrow> op \<notin> {add_op L, sub_op L, mul_op L, div_op L}"
    unfolding arith_case_typed_def ty sum.sel prod.case by blast+
  have "(fpsize L, simdsize L) \<in> SIMD_layouts" using arith_layouts_typed L(1) by (simp add: list_all_iff)
  then show ?thesis
    by (intro bar_case_ok [OF inv ty ops *(1,2) _ *(3-5)] arith_rule_wt [OF L(2) refl *(6)])
qed

text \<open>Operations that move data act on both layers.\<close>

lemma layers_moves_ok:
  assumes inv: "diff_inv pre gw env0 goff 2 \<sigma> dc" and ty: "typeOfPrimop op = Inr (ty, t1, t2, t3, t4)"
    and ops: "operands_ok (wt (tyenv (sb_out \<sigma>)) gw dc) (wt2 gw (tyenv (sb_out \<sigma>)) dc) [t1, t2, t3, t4] as is"
  shows "op \<in> set unary_move_ops \<Longrightarrow> layers_op_ok pre gw env0 goff \<sigma> dc ty
      (op_case 1 [1] as is (\<lambda>A I. returnM (map_layers (IRExpr_Unop op) (I 1))))"
    and "op \<in> set binary_move_ops \<Longrightarrow> layers_op_ok pre gw env0 goff \<sigma> dc ty
      (op_case 2 [1, 2] as is (\<lambda>A I. returnM (IRExpr_Binop op (fst (I 1)) (fst (I 2)), IRExpr_Binop op (snd (I 1)) (snd (I 2)))))"
    and "op = Iop_64x4toV256 \<Longrightarrow> layers_op_ok pre gw env0 goff \<sigma> dc ty
      (op_case 4 [1, 2, 3, 4] as is (\<lambda>A I.
          returnM (IRExpr_Qop Iop_64x4toV256 (fst (I 1)) (fst (I 2)) (fst (I 3)) (fst (I 4)),
                   IRExpr_Qop Iop_64x4toV256 (snd (I 1)) (snd (I 2)) (snd (I 3)) (snd (I 4)))))"
proof -
  note ret = layers_op_case_return_ok [OF inv ops]
  show "layers_op_ok pre gw env0 goff \<sigma> dc ty (op_case 1 [1] as is (\<lambda>A I. returnM (map_layers (IRExpr_Unop op) (I 1))))"
    if "op \<in> set unary_move_ops"
    using that move_ops_typed(1) has_arity_D(1) [OF ty] ty by (intro ret) (auto simp: list_all_iff layers_operands_def wt2_def map_layers_def wt_simps)
  show "layers_op_ok pre gw env0 goff \<sigma> dc ty
      (op_case 2 [1, 2] as is (\<lambda>A I. returnM (IRExpr_Binop op (fst (I 1)) (fst (I 2)), IRExpr_Binop op (snd (I 1)) (snd (I 2)))))"
    if "op \<in> set binary_move_ops"
    using that move_ops_typed(2) has_arity_D(2) [OF ty] ty by (intro ret) (auto simp: list_all_iff layers_operands_def wt2_def upto_split wt_simps)
  show "layers_op_ok pre gw env0 goff \<sigma> dc ty (op_case 4 [1, 2, 3, 4] as is (\<lambda>A I.
          returnM (IRExpr_Qop Iop_64x4toV256 (fst (I 1)) (fst (I 2)) (fst (I 3)) (fst (I 4)),
                   IRExpr_Qop Iop_64x4toV256 (snd (I 1)) (snd (I 2)) (snd (I 3)) (snd (I 4)))))" if "op = Iop_64x4toV256"
    using that ty by (intro ret) (auto simp: layers_operands_def upto_split wt2_def wt_simps prim_types)
qed

lemma bar_operation_ok:
  assumes inv: "diff_inv pre gw env0 goff 2 \<sigma> dc" and good: "bar_good_op cfg op"
    and ty: "typeOfPrimop op = Inr (ty, t1, t2, t3, t4)"
    and ops: "operands_ok (wt (tyenv (sb_out \<sigma>)) gw dc) (wt2 gw (tyenv (sb_out \<sigma>)) dc) [t1, t2, t3, t4] as is"
  shows "layers_op_ok pre gw env0 goff \<sigma> dc ty (dg_bar_operation cfg op as is)"
proof -
  let ?w = "wt (tyenv (sb_out \<sigma>)) gw dc" and ?ok = "layers_op_ok pre gw env0 goff \<sigma> dc ty" and ?rv = "record_values cfg"
  note ret = layers_op_case_return_ok [OF inv ops] and bc = bar_case_ok [OF inv ty ops]
  note simps = layers_operands_def upto_split wt2_def map_layers_def both_def wt_simps prim_types
  have arith: "?ok (bar_case ?rv op (arith_nargs L op) (arith_inputs L op) as is (\<lambda>_. arith_partials L op) (\<lambda>_. arith_value L op)
      (fpsize L) (simdsize L) (llo L))" if "find (\<lambda>L. op \<in> set (arith_ops L)) arith_layouts = Some L" for L
    using that by (intro bar_arith_ok [OF inv ty ops]) (auto simp: find_Some_iff)
  have neg: "?ok (bar_case ?rv op 1 [1] as is (\<lambda>_ _. [cF64 F64_minus_one]) (\<lambda>_ xs. IRExpr_Unop op (xs ! 0)) fps simd False)"
    if t: "map_of neg_table op = Some (fps, simd)" for fps simd
  proof -
    have "(fps, simd) \<in> SIMD_layouts" "ty = vector_type fps simd" "t1 = ty" "t2 = Ity_INVALID" "t3 = Ity_INVALID" "t4 = Ity_INVALID"
      using map_of_typed [OF neg_table_typed t] ty by (auto simp: Let_def)
    moreover have "?rv \<Longrightarrow> op = Iop_NegF64" using good t by (auto simp: bar_good_op_def neg_table_def split: if_splits)
    ultimately show ?thesis
      using ty vector_type_SIMD [of fps simd] by (intro bc) (auto simp: arity vector_type_def intro: neg_rule_wt [simplified])
  qed
  have abs: "?ok (bar_case ?rv op 1 [1] as is (\<lambda>_. bar_abs_partials (IRConst_F64i 0)) (\<lambda>_ xs. IRExpr_Unop op (xs ! 0)) 8 1 False)"
    if "op = Iop_AbsF64"
    using that ty by (intro bc) (auto simp: arity layout prim_types intro: abs_rule_wt [simplified])
  have minmax: "?ok (bar_case ?rv op 2 [1, 2] as is (\<lambda>_. bar_minmax_partials m) (\<lambda>_. bar_minmax_value m) fps simd low)"
    if "map_of minmax_table op = Some (m, fps, simd, low)" for m fps simd low
    using map_of_typed [OF minmax_table_typed that] ty
    by (intro bc) (auto simp: Let_def arity [unfolded numeral_2_eq_2] SIMD_vector_type_def SIMD_inttype_def numeral_2_eq_2 intro: minmax_rule_wt [unfolded numeral_2_eq_2])
  have fma: "?ok (bar_case ?rv op 4 [2, 3, 4] as is (\<lambda>_ xs. [xs ! 1, xs ! 0, cF64 (if is_add then F64_one else F64_minus_one)])
      (\<lambda>A xs. IRExpr_Qop op (A 1) (xs ! 0) (xs ! 1) (xs ! 2)) fps 1 False)"
    if t: "map_of fma_table op = Some (is_add, fps)" for is_add fps
  proof (rule bc)
    have *: "fps = 4 \<or> fps = 8" "ty = vector_type fps 1" "t1 = Ity_I32" "t2 = ty" "t3 = ty" "t4 = ty"
      using map_of_typed [OF fma_table_typed t] ty by (auto simp: Let_def)
    have rv: "?rv \<Longrightarrow> op = Iop_MAddF64 \<or> op = Iop_MSubF64" using good t by (auto simp: bar_good_op_def fma_table_def split: if_splits)
    show "has_arity op 4" "(fps, 1) \<in> SIMD_layouts" "SIMD_vector_type (fps * 1) ty"
      "list_all (\<lambda>i. 1 \<le> i \<and> i \<le> 4 \<and> [t1, t2, t3, t4] ! (i - 1) = ty) [2, 3, 4]"
      using * ty by (auto simp: arity vector_type_def layout SIMD_vector_type_def)
    show "rule_wt env gw dc ?rv (length [2, 3, 4]) (\<lambda>xs. [xs ! 1, xs ! 0, cF64 (if is_add then F64_one else F64_minus_one)])
        (\<lambda>xs. IRExpr_Qop op (A 1) (xs ! 0) (xs ! 1) (xs ! 2))"
      if "\<forall>i\<in>{1..4}. wt env gw dc (A i) ([t1, t2, t3, t4] ! (i - 1))" for env dc A
      using fma_rule_wt [OF _ rv, of env gw dc "A 1"] bspec [OF that, of 1] *(3) by (simp add: numeral_3_eq_3)
  qed simp_all
  have misc: "?ok (bar_case ?rv op 3 ins as is (\<lambda>A _. ps A) (\<lambda>A _. IRExpr_Triop op (A 1) (A 2) (A 3)) 8 1 False)"
    if h: "op \<in> {Iop_ScaleF64, Iop_Yl2xF64, Iop_Yl2xp1F64}" "ins = [2] \<or> ins = [2, 3]" "\<And>A. length (ps A) = length ins"
      "\<And>env dc A. wt env gw dc (A 1) Ity_I32 \<Longrightarrow> wt env gw dc (A 2) Ity_F64 \<Longrightarrow> wt env gw dc (A 3) Ity_F64 \<Longrightarrow>
         list_all (\<lambda>p. wt env gw dc p Ity_F64) (ps A)" for ins ps
  proof (rule bc)
    have *: "ty = Ity_F64" "t1 = Ity_I32" "t2 = Ity_F64" "t3 = Ity_F64" "t4 = Ity_INVALID"
      using h(1) ty by (auto simp: prim_types)
    show "has_arity op 3" "(8, 1) \<in> SIMD_layouts" "SIMD_vector_type (8 * 1) ty" "length ins \<in> {1, 2, 3}"
      "list_all (\<lambda>i. 1 \<le> i \<and> i \<le> 3 \<and> [t1, t2, t3, t4] ! (i - 1) = ty) ins"
      using * ty h(2) by (auto simp: arity layout)
    show "rule_wt env gw dc ?rv (length ins) (\<lambda>_. ps A) (\<lambda>_. IRExpr_Triop op (A 1) (A 2) (A 3))"
      if A: "\<forall>i\<in>{1..3}. wt env gw dc (A i) ([t1, t2, t3, t4] ! (i - 1))" for env dc A
      using bspec [OF A, of 1] bspec [OF A, of 2] bspec [OF A, of 3] * h(3) ty
      by (intro const_rule_wt h(4)) (auto simp: wt_simps)
  qed simp
  have scale: "?ok (bar_case ?rv op 3 [2] as is (\<lambda>A _. [IRExpr_Triop Iop_ScaleF64 (A 1) (cF64 F64_one) (A 3)])
      (\<lambda>A _. IRExpr_Triop op (A 1) (A 2) (A 3)) 8 1 False)" if "op = Iop_ScaleF64"
    using that by (intro misc) (auto simp: wt_simps prim_types cF64_wt)
  have yl2x: "?ok (bar_case ?rv op 3 [2, 3] as is (\<lambda>A _. bar_yl2x_partials op A (x A)) (\<lambda>A _. IRExpr_Triop op (A 1) (A 2) (A 3)) 8 1 False)"
    if "op \<in> {Iop_Yl2xF64, Iop_Yl2xp1F64}"
      "\<And>env dc A. wt env gw dc (A 1) Ity_I32 \<Longrightarrow> wt env gw dc (A 3) Ity_F64 \<Longrightarrow> wt env gw dc (x A) Ity_F64" for x
    using that by (intro misc) (auto simp: bar_yl2x_partials_def wt_simps prim_types cF64_wt)
  have yl2x1: "?ok (bar_case ?rv op 3 [2, 3] as is (\<lambda>A _. bar_yl2x_partials op A (A 3)) (\<lambda>A _. IRExpr_Triop op (A 1) (A 2) (A 3)) 8 1 False)"
    if "op = Iop_Yl2xF64" using that by (intro yl2x) auto
  have yl2xp1: "?ok (bar_case ?rv op 3 [2, 3] as is (\<lambda>A _. bar_yl2x_partials op A (IRExpr_Triop Iop_AddF64 (A 1) (A 3) (cF64 F64_one)))
      (\<lambda>A _. IRExpr_Triop op (A 1) (A 2) (A 3)) 8 1 False)"
    if "op = Iop_Yl2xp1F64" using that by (intro yl2x) (auto simp: wt_simps prim_types cF64_wt)
  have bitwise: "?ok (op_case 2 [1, 2] as is (bitwise_layers prefix name fps simd))"
    if "map_of bitwise_table op = Some (m, fps, simd)" for prefix name m fps simd
    using map_of_typed [OF bitwise_table_typed that] ty bitwise_layers_ok [OF inv _ ops, where fps = fps and simd = simd and name = name and prefix = prefix]
    by (auto simp: Let_def)
  have shift: "?ok (op_case 2 [1] as is (\<lambda>A I. returnM (map_layers (\<lambda>i. IRExpr_Binop op i (A 2)) (I 1))))" if "op \<in> set shift_ops"
    using that move_ops_typed(3) has_arity_D(2) [OF ty] ty
    by (intro ret; auto simp: list_all_iff layers_operands_def wt2_def map_layers_def upto_split wt_simps)
  have zero: "?ok (op_case n [] as is (\<lambda>A I. returnM (both e)))"
    if "has_arity op n" "n = 1 \<or> n = 2" "?w e (fst (projr (typeOfPrimop op)))" for n e
    using that has_arity_D [OF ty] ty by (intro ret) (auto simp: upto_split wt2_def both_def)
  have widen: "?ok (op_case 1 [1] as is (\<lambda>A I.
          returnM (map_layers (\<lambda>i. IRExpr_Unop Iop_ReinterpI64asF64 (widen32 (IRExpr_Unop Iop_ReinterpF32asI32 i))) (I 1))))" if "op = Iop_F32toF64"
    using that ty by (intro ret) (auto simp: simps widen32_def)
  have narrow: "?ok (op_case 2 [2] as is (\<lambda>A I. returnM (map_layers (\<lambda>i.
          IRExpr_Unop Iop_ReinterpI32asF32 (IRExpr_Unop Iop_64to32 (IRExpr_Unop Iop_ReinterpF64asI64 i))) (I 2))))" if "op = Iop_F64toF32"
    using that ty by (intro ret) (auto simp: simps)
  obtain z where z: "mkIRConst_zero Ity_F64 = Inr z" "?w z Ity_F64"
    using mkIRConst_zero_wt [of Ity_F64] by (metis IRType.distinct)
  have zeros: "op \<in> set zero_unary_ops \<Longrightarrow> ?ok (op_case 1 [] as is (\<lambda>A I. bindM (liftM (mkIRConst_zero Ity_F64)) (\<lambda>z. returnM (both z))))"
    "op \<in> set zero_binary64_ops \<Longrightarrow> ?ok (op_case 2 [] as is (\<lambda>A I. returnM (both (IRExpr_Unop Iop_ReinterpI64asF64 (IRExpr_Const (IRConst_U64 0))))))"
    "op \<in> set zero_binary32_ops \<Longrightarrow> ?ok (op_case 2 [] as is (\<lambda>A I. returnM (both (IRExpr_Unop Iop_ReinterpI32asF32 (IRExpr_Const (IRConst_U32 0))))))"
    using zero_ops_typed z by (auto simp: list_all_iff liftM_ok bindM_return wt_simps prim_types intro!: zero)
  have unhandled: "?ok (bar_unhandled cfg op)"
    using good ty mkIRConst_ones_wt [of ty "tyenv (sb_out \<sigma>)" gw dc] inv
    by (auto simp: bar_unhandled_def bar_good_op_def layers_op_ok_def liftM_ok bindM_return wt2_def both_def intro!: runs_return)
  have abs32: "op \<noteq> Iop_AbsF32" using good by (simp add: bar_good_op_def)
  show ?thesis
    unfolding dg_bar_operation_def Let_def
    by (intro layers_op_ok_branch;
        (rule unhandled | rule arith abs scale yl2x1 yl2xp1 widen narrow zeros shift layers_moves_ok [OF inv ty ops], assumption | use abs32 in \<open>simp only: minmax bitwise fma neg\<close>))
qed

lemma bar_F80_store_law:
  assumes inv: "diff_inv pre gw env0 goff 2 \<sigma> dc" and a: "wt (tyenv (sb_out \<sigma>)) gw dc addr gw" "gw \<noteq> Ity_I1"
    and d: "wt2 gw (tyenv (sb_out \<sigma>)) dc d Ity_I64"
  shows "runs (diff_inv pre gw env0 goff 2) (dg_bar_dirty_storeF80le addr d) \<sigma> dc {} (\<lambda>_ _ _. True)"
proof -
  have args: "list_all (\<lambda>a. \<exists>t. t \<noteq> Ity_I1 \<and> wt (tyenv (sb_out \<sigma>)) gw dc a t) [addr, e]" if "e \<in> {fst d, snd d}" for e
    using that wt_not_I1 [OF a] wt_not_I1 [of _ _ _ e Ity_I64] d by (auto simp: wt2_def)
  show ?thesis
    unfolding dg_bar_dirty_storeF80le_def
  proof (rule runs_helper_seq [OF inv _ args])
    fix \<sigma>' assume "diff_inv pre gw env0 goff 2 \<sigma>' dc" "tyenv (sb_out \<sigma>') = tyenv (sb_out \<sigma>)"
    then show "runs (diff_inv pre gw env0 goff 2) (emit_helper ''dg_bar_x86g_amd64g_dirtyhelper_storeF80le_Hi'' [addr, snd d] None) \<sigma>' dc {} (\<lambda>_ _ _. True)"
      using args [of "snd d"] by (intro runs_weaken [OF runs_helper]) simp_all
  qed simp_all
qed

lemma layers_pre_gw: "diff_inv (layers_pre cfg good gw env0 goff) gw env0 goff 2 \<sigma> dc \<Longrightarrow> gw \<noteq> Ity_I1"
  by (auto simp: diff_inv_def layers_pre_def)

lemma bar_ccall_ok:
  "diff_inv pre gw env0 goff 2 \<sigma> dc \<Longrightarrow> layers_op_ok pre gw env0 goff \<sigma> dc ty (dg_bar_ccall c retty cargs ds)"
  by (auto simp: layers_op_ok_def dg_bar_ccall_def intro!: runs_return)

section \<open>The contracts\<close>

interpretation bar_typed: shadow_handling "dg_bar_expressionhandling cfg" "layers_shadow_stmt cfg bar_helpers"
    "layers_pre cfg default_type gw env0 goff" gw env0 goff 2 "wt2 gw" "bar_good_op cfg" default_type
  for cfg gw env0 goff
  by unfold_locales
     (unfold dg_bar_expressionhandling_def ExpressionHandling.simps dg_bar_dirty_loadF80le_def,
      (rule wt2_extend layers_wrtmp_law layers_rdtmp_law layers_puti_laws layers_store_law layers_load_law layers_pure_laws
         bar_operation_ok [unfolded layers_op_ok_def] bar_ccall_ok [unfolded layers_op_ok_def], assumption+
       | rule default_type_const
       | (rule bar_F80_store_law load_layers_law, assumption, assumption, rule layers_pre_gw, assumption+)
       | (simp add: default_type_def layers_pre_def; fail))+)

lemma layers_load_grows: "grows 2 (dg_bar_load cfg addr ty)"
  unfolding dg_bar_load_def numeral_2_eq_2 by (intro grows_newTemp_bind grows_intro)

lemma writeToTape_grows: "grows 1 (dg_bar_writeToTape rv i j p q v)"
  unfolding dg_bar_writeToTape_def One_nat_def by (intro grows_newTemp_bind grows_intro)

lemma record_component_grows: "grows 2 (record_component rv is ps v)"
proof -
  have "grows 2 (bindM (dg_bar_writeToTape rv i j p q x) (\<lambda>a. dg_bar_writeToTape rv a k r s v))" for i j k p q r s x
    by (rule grows_mono [OF grows_bind_add [OF writeToTape_grows writeToTape_grows]]) simp
  then show ?thesis
    unfolding record_component_def
    by (auto split: list.split prod.split intro: grows_mono [OF writeToTape_grows] grows_simple)
qed

lemma bar_body_grows: "grows 2 (bar_body rv ps v fps low i parts)"
  unfolding bar_body_def Let_def by (intro grows_branch grows_simple grows_bind_last [OF record_component_grows])

lemma bitwise_call_grows: "grows 2 (bitwise_call prefix name parts)"
  unfolding bitwise_call_def numeral_2_eq_2 by (intro grows_seq grows_newTemp_bind grows_intro)

lemma reinterpret_layers_grows: "grows n (reinterpret_layers r outs)"
  unfolding reinterpret_layers_def by (intro grows_intro)

lemma bar_case_grows: "simd \<le> 8 \<Longrightarrow> grows 16 (bar_case rv op n ins as is ps v fps simd low)"
  unfolding bar_case_def createBarCode_def componentwise_layers_def
  by (intro grows_op_case grows_bind_last [OF grows_componentwise [OF bar_body_grows]] grows_bind reinterpret_layers_grows grows_simple) simp

lemma bitwise_layers_grows: "simd \<le> 8 \<Longrightarrow> grows 16 (bitwise_layers prefix name fps simd A I)"
  unfolding bitwise_layers_def
  by (intro grows_bind_last [OF grows_componentwise [OF bitwise_call_grows]] grows_simple) simp

lemma SIMD_layouts_le: "(fps, simd) \<in> SIMD_layouts \<Longrightarrow> simd \<le> 8"
  by (auto simp: SIMD_layouts_def)

lemma bar_operation_grows: "grows 16 (dg_bar_operation cfg op as is)"
proof -
  have le: "find (\<lambda>L. op \<in> set (arith_ops L)) arith_layouts = Some L \<Longrightarrow> simdsize L \<le> 8" for L
    by (drule find_typed [OF arith_layouts_typed]) (auto dest: SIMD_layouts_le)
  have le': "map_of neg_table op = Some (fps, simd) \<Longrightarrow> simd \<le> 8" "map_of minmax_table op = Some (m, fps, simd, low) \<Longrightarrow> simd \<le> 8"
    "map_of bitwise_table op = Some (name, fps, simd) \<Longrightarrow> simd \<le> 8" for m fps simd low name
    by (drule map_of_typed [OF neg_table_typed] map_of_typed [OF minmax_table_typed] map_of_typed [OF bitwise_table_typed];
        auto dest: SIMD_layouts_le)+
  show ?thesis
    unfolding dg_bar_operation_def bar_unhandled_def Let_def
    by (intro grows_branch; (rule bar_case_grows, (simp add: le le'; fail) | rule grows_op_case, rule bitwise_layers_grows, (simp add: le'; fail) | intro grows_intro))
qed

interpretation bar_bounded: bounded_handling "dg_bar_expressionhandling cfg" 16 for cfg
  by unfold_locales
     (auto simp: dg_bar_expressionhandling_def dg_bar_wrtmp_def dg_bar_rdtmp_def dg_bar_puti_def dg_bar_geti_def dg_bar_store_def
        dg_bar_dirty_storeF80le_def dg_bar_dirty_loadF80le_def load_layers_def dg_bar_constant_def dg_bar_default_def dg_bar_compare_def
        dg_bar_ite_def dg_bar_ccall_def bar_operation_grows
        intro!: grows_intro grows_mono [OF layers_load_grows] split: option.split)

interpretation bar_sane: sane_handling "dg_bar_expressionhandling cfg" "layers_shadow_stmt cfg bar_helpers"
    "layers_pre cfg default_type gw env0 goff" gw env0 goff 2 "wt2 gw" "bar_good_op cfg" default_type 16
  for cfg gw env0 goff ..

section \<open>Recording-mode instrumentation of a block\<close>

lemma bar_handle_eq: "dg_bar_handle_statement cfg = add_statement_modified (dg_bar_expressionhandling cfg)"
  by (simp add: dg_bar_handle_statement_def fun_eq_iff)

definition sample_bar_config :: Bar_Config where
  "sample_bar_config = \<lparr>build_32bit = False, shadow_mem_buffer = 65536, record_values = True, unhandled_ones = True\<rparr>"

lemma sample_bar_pre: "layers_pre sample_bar_config default_type Ity_I64 (tyenv sample_block) 928"
  "list_all (ok_stmt Ity_I64 (tyenv sample_block) 928 2 (bar_good_op sample_bar_config) default_type)
     (dropWhile (\<lambda>st. \<not> is_IMark st) (stmts sample_block))"
  "fits 2 16 sample_block"
  by (simp_all add: layers_pre_def default_type_def bar_good_op_def prim_types fits_def sample_block_def sample_bar_config_def IRTemp_INVALID_def)

text \<open>
  C7. Recording mode: if VEX's sanity checker accepts a flat superblock, then instrumenting the block succeeds and the checker accepts the
  instrumented block, for blocks that satisfy these conditions: no temporary and no result of a C call has a type for which there is no
  zero index (F16, D32, D128 or invalid); no operation has one of the ill-typed rules (\<open>bar_good_op\<close>: \<^verbatim>\<open>AbsF32\<close>, with \<^verbatim>\<open>--record-values\<close> also
  the F32 and SIMD negations and F32 fused multiply-adds) or, with \<^verbatim>\<open>--typegrind\<close>, a result for which there are no ones
  (F16, F128 or decimal); the word size of the guest is that of
  the build and the size of the guest state is not negative; from the first instruction mark on, no statement is a
  load-linked or store-conditional, the operands of operations and C calls are atoms, offsets of \<^verbatim>\<open>Put\<close> and bases of
  \<^verbatim>\<open>PutI\<close> are not negative, the bases of register arrays and of their shadows are at most the 10000 that VEX allows, no value of type I1 is loaded, dirty
  calls name their callee, the 80-bit load and store helpers are called with the signatures VEX gives them, and no temporary is used that only the statements before the
  first instruction mark (which are copied without a shadow) assign; and there is room for the temporaries that are added
  (\<open>fits\<close>).
\<close>

theorem bar_instrument_sane:
  assumes "sanityCheckIRSB sb True gw = Inr ()" "layers_pre cfg default_type gw (tyenv sb) gs_size"
    and "is_ok (defs_Stmts (tyenv sb) (\<lambda>_. 0) (dropWhile (\<lambda>st. \<not> is_IMark st) (stmts sb)))"
    and "list_all (ok_stmt gw (tyenv sb) gs_size 2 (bar_good_op cfg) default_type) (dropWhile (\<lambda>st. \<not> is_IMark st) (stmts sb))"
    and "fits 2 16 sb"
  shows "\<exists>sb'. instrument_block (dg_bar_handle_statement cfg) 2 gs_size sb = Inr sb' \<and> sanityCheckIRSB sb' False gw = Inr ()"
  unfolding bar_handle_eq by (rule bar_sane.instrument_block_sane [OF assms(2,1) refl assms(5,3,4)])

theorem bar_instrument_sane_witness:
  "\<exists>sb'. instrument_block (dg_bar_handle_statement sample_bar_config) 2 928 sample_block = Inr sb'
     \<and> sanityCheckIRSB sb' False Ity_I64 = Inr ()"
  by (rule bar_instrument_sane [OF sample_block_sane sample_bar_pre(1) sample_block_defs sample_bar_pre(2,3)])

text \<open>
  C10. Recording mode is transparent: if offsets into the guest state are not negative, then apart from the replacement of compare-and-swap, the instrumented block
  consists of the statements of the input block in their order, interleaved only with statements that assign
  temporaries above those of the input, write guest state above its end, store into one of the two halves of the transfer
  buffer or call one of the recording mode's helpers.
\<close>

theorem bar_instrument_transparent:
  assumes "instrument_block (dg_bar_handle_statement cfg) 2 gs_size sb = Inr sb'" "list_all nonneg_offsets (stmts sb)"
  shows "weaves (layers_shadow_stmt cfg bar_helpers (length (tyenv sb)) gs_size) (stmts sb) (stmts sb')"
  using bar_emit.instrument_block_weaves assms by (simp add: bar_handle_eq)

theorem bar_instrument_transparent_witness:
  "\<exists>sb'. instrument_block (dg_bar_handle_statement sample_bar_config) 2 928 sample_block = Inr sb'
     \<and> weaves (layers_shadow_stmt sample_bar_config bar_helpers 4 928) (stmts sample_block) (stmts sb')"
proof -
  obtain sb' where "instrument_block (dg_bar_handle_statement sample_bar_config) 2 928 sample_block = Inr sb'"
    using bar_sane.instrument_block_sane [OF sample_bar_pre(1) sample_block_sane refl sample_bar_pre(3) sample_block_defs sample_bar_pre(2)]
    by (auto simp: bar_handle_eq)
  moreover have "list_all nonneg_offsets (stmts sample_block)" "length (tyenv sample_block) = 4"
    by (simp_all add: sample_block_def)
  ultimately show ?thesis
    using bar_instrument_transparent [of sample_bar_config 928 sample_block sb'] by auto
qed

section \<open>Ill-typed rules\<close>

text \<open>
  \<open>ill_typed\<close>: an expression that VEX's type checker rejects in every block. \<open>emits P m\<close>: whenever the action \<open>m\<close> succeeds, it
  has added a statement that satisfies \<open>P\<close>.
\<close>

definition ill_typed :: "IRExpr \<Rightarrow> bool" where
  "ill_typed e \<longleftrightarrow> (\<forall>env gw dc ty. \<not> wt env gw dc e ty)"

definition ill_typed_call :: "IRStmt \<Rightarrow> bool" where
  "ill_typed_call st \<longleftrightarrow> (\<exists>d. st = IRStmt_Dirty d \<and> (\<exists>e\<in>set (args d). ill_typed e))"

definition emits :: "(IRStmt \<Rightarrow> bool) \<Rightarrow> 'a dgM \<Rightarrow> bool" where
  "emits P m \<longleftrightarrow> (\<forall>\<sigma> x \<sigma>'. tmp_offset \<sigma> \<le> length (tyenv (sb_out \<sigma>)) \<longrightarrow> m \<sigma> = Inr (x, \<sigma>') \<longrightarrow>
     (\<exists>sts. stmts (sb_out \<sigma>') = stmts (sb_out \<sigma>) @ sts \<and> (\<exists>st\<in>set sts. P st)))"

lemma emits_fail: "emits P (failM e)"
  by (simp add: emits_def failM_def)

lemma emits_emit: "P st \<Longrightarrow> emits P (emit st)"
  by (simp add: emits_def emit_def modifyM_def addStmtToIRSB_def)

lemma emits_first:
  assumes "emits P m" "appends S m" "\<And>x. appends S (f x)"
  shows "emits P (bindM m f)"
  unfolding emits_def
proof (intro allI impI)
  fix \<sigma> y \<sigma>2 assume 0: "tmp_offset \<sigma> \<le> length (tyenv (sb_out \<sigma>))" and "bindM m f \<sigma> = Inr (y, \<sigma>2)"
  then obtain x \<sigma>1 where 1: "m \<sigma> = Inr (x, \<sigma>1)" "f x \<sigma>1 = Inr (y, \<sigma>2)" by (auto simp: monad_inv)
  obtain sts st where "stmts (sb_out \<sigma>1) = stmts (sb_out \<sigma>) @ sts" "st \<in> set sts" "P st" using assms(1) 0 1(1) unfolding emits_def by blast
  moreover have "appended S \<sigma>1 \<sigma>2"
    using appendsD [OF assms(3) 1(2)] appended_room [OF appendsD [OF assms(2) 1(1) 0] 0] by blast
  then obtain sts2 where "stmts (sb_out \<sigma>2) = stmts (sb_out \<sigma>1) @ sts2" by (auto simp: appended_def)
  ultimately show "\<exists>sts. stmts (sb_out \<sigma>2) = stmts (sb_out \<sigma>) @ sts \<and> (\<exists>st\<in>set sts. P st)"
    by (intro exI [of _ "sts @ sts2"]) auto
qed

lemma emits_later:
  assumes "appends S m" "\<And>x. emits P (f x)"
  shows "emits P (bindM m f)"
  unfolding emits_def
proof (intro allI impI)
  fix \<sigma> y \<sigma>2 assume 0: "tmp_offset \<sigma> \<le> length (tyenv (sb_out \<sigma>))" and "bindM m f \<sigma> = Inr (y, \<sigma>2)"
  then obtain x \<sigma>1 where 1: "m \<sigma> = Inr (x, \<sigma>1)" "f x \<sigma>1 = Inr (y, \<sigma>2)" by (auto simp: monad_inv)
  have a: "appended S \<sigma> \<sigma>1" by (rule appendsD [OF assms(1) 1(1) 0])
  obtain sts2 st where "stmts (sb_out \<sigma>2) = stmts (sb_out \<sigma>1) @ sts2" "st \<in> set sts2" "P st"
    using assms(2) [of x] appended_room [OF a 0] 1(2) unfolding emits_def by blast
  moreover obtain sts where "stmts (sb_out \<sigma>1) = stmts (sb_out \<sigma>) @ sts" using a by (auto simp: appended_def)
  ultimately show "\<exists>sts. stmts (sb_out \<sigma>2) = stmts (sb_out \<sigma>) @ sts \<and> (\<exists>st\<in>set sts. P st)"
    by (intro exI [of _ "sts @ sts2"]) auto
qed

lemma ill_typed_Unop: "ill_typed e \<Longrightarrow> ill_typed (IRExpr_Unop op e)"
  by (auto simp: ill_typed_def wt_simps)

lemma writeToTape_emits:
  assumes "ill_typed p \<or> rv \<and> ill_typed val"
  shows "emits ill_typed_call (dg_bar_writeToTape rv i j p q val)"
proof -
  let ?S = "\<lambda>_ _ _. True"
  have helpers: "appends ?S (emit_helper name as g)" "appends ?S (emit_helper_1 t name as)" for name as g t
    by (simp_all add: emit_helper_eq appends_emit)
  have bad: "ill_typed e \<Longrightarrow> IRExpr_Unop Iop_ReinterpF64asI64 e \<in> set as \<Longrightarrow> emits ill_typed_call (emit_helper name as g)"
    "ill_typed e \<Longrightarrow> IRExpr_Unop Iop_ReinterpF64asI64 e \<in> set as \<Longrightarrow> emits ill_typed_call (emit_helper_1 t name as)" for e as name g t
    by (auto simp: emit_helper_eq ill_typed_call_def set_guard_def split: option.split intro!: emits_emit ill_typed_Unop bexI)
  show ?thesis
  proof (cases "ill_typed p")
    case True
    then show ?thesis unfolding dg_bar_writeToTape_def seqM_def
      by (intro emits_later [where S = ?S] appends_newTemp emits_first [where S = ?S] bad(2) helpers appends_bind appends_simple appends_branch)
        (auto intro: helpers appends_simple)
  next
    case False
    then have val: "emits ill_typed_call (bindM (if rv then emit_helper ''dg_bar_writeToTape_value_call''
        [IRExpr_Unop Iop_ReinterpF64asI64 val, IRExpr_RdTmp t] None else returnM ()) f)" if "\<And>x. appends ?S (f x)" for t and f :: "unit \<Rightarrow> layers dgM"
      using assms that by (auto intro!: emits_first [where S = ?S] bad(1) helpers)
    show ?thesis unfolding dg_bar_writeToTape_def seqM_def
      by (rule emits_later [OF appends_newTemp [of ?S]], rule emits_later [OF helpers(2)], rule val, rule appends_simple)
  qed
qed

lemma tape_appends: "appends (\<lambda>_ _ _. True) (dg_bar_writeToTape rv i j p q val)"
  unfolding dg_bar_writeToTape_def by (simp add: emit_helper_eq appends_intro appends_emit)

lemma record_component_emits:
  "(length is = 1 \<Longrightarrow> ill_typed p \<or> rv \<and> ill_typed val) \<Longrightarrow> emits ill_typed_call (record_component rv is [p] val)"
  "(length is = 3 \<Longrightarrow> rv \<and> ill_typed val) \<Longrightarrow> emits ill_typed_call (record_component rv is [p, q, r] val)"
  by (auto simp: record_component_def emits_fail split: list.split intro!: emits_later [OF tape_appends] writeToTape_emits)

lemma createBarCode_emits:
  assumes "\<And>xs is. length xs = length is \<Longrightarrow> emits ill_typed_call (record_component rv is (partials (map (part_f fps) xs)) (val (map (part_f fps) xs)))" "0 < simd"
  shows "emits ill_typed_call (createBarCode rv op es ins partials val fps simd low)"
proof -
  let ?S = "\<lambda>_ _ _. True"
  have rec: "appends ?S (record_component rv is ps v)" for "is" ps v
    unfolding record_component_def by (auto split: list.split intro!: appends_intro tape_appends)
  have body: "emits ill_typed_call (bar_body rv partials val fps low 0 parts)" for parts
    using assms(1) [of "map fst (triples parts)" "map snd (triples parts)"]
    by (auto simp: bar_body_def Let_def comp_def intro!: emits_first [where S = ?S] rec appends_intro)
  have appends: "appends ?S (bar_body rv partials val fps low i parts)" for i parts
    by (auto simp: bar_body_def Let_def intro!: appends_intro rec)
  have upt: "[0..<simd] = 0 # [1..<simd]" using assms(2) by (simp add: upt_rec)
  have comp: "emits ill_typed_call (bindM (envM g) (\<lambda>parts. bindM (bar_body rv partials val fps low 0 parts) (\<lambda>outs. returnM (h outs))))"
    for g and h :: "IRExpr list \<Rightarrow> IRExpr list"
    by (rule emits_later [OF appends_simple(6)], rule emits_first [OF body appends]) (rule appends_simple)
  show ?thesis
    unfolding createBarCode_def componentwise_layers_def applyComponentwisely_def reinterpret_layers_def upt mapM.simps
    by (rule emits_first [where S = ?S], rule emits_first [where S = ?S], rule emits_first [where S = ?S], rule comp)
      (auto intro!: appends_intro appends)
qed

lemma bar_case_emits:
  assumes "bar_case rv op nargs ins as is partials val fps simd low \<sigma> = Inr (Some r, \<sigma>')" "tmp_offset \<sigma> \<le> length (tyenv (sb_out \<sigma>))" "0 < simd"
    "\<And>A xs is. length xs = length is \<Longrightarrow>
       emits ill_typed_call (record_component rv is (partials A (map (part_f fps) xs)) (val A (map (part_f fps) xs)))"
  shows "\<exists>sts. stmts (sb_out \<sigma>') = stmts (sb_out \<sigma>) @ sts \<and> (\<exists>st\<in>set sts. ill_typed_call st)"
proof -
  obtain es inputs A where "createBarCode rv op es inputs (partials A) (val A) fps simd low \<sigma> = Inr (r, \<sigma>')"
    using assms(1) by (auto simp: bar_case_def op_case_def someM_def monad_inv split: if_splits)
  moreover have "emits ill_typed_call (createBarCode rv op es inputs (partials A) (val A) fps simd low)"
    by (rule createBarCode_emits) (rule assms | assumption)+
  ultimately show ?thesis using assms(2) unfolding emits_def by blast
qed

lemma ill_typed_values:
  "op \<in> {Iop_NegF32, Iop_Neg32Fx2, Iop_Neg32Fx4} \<Longrightarrow> ill_typed (IRExpr_Unop op (part_f 4 x))" "ill_typed (IRExpr_Unop Iop_Neg64Fx2 (part_f 8 x))"
  "op \<in> {Iop_MAddF32, Iop_MSubF32} \<Longrightarrow> ill_typed (IRExpr_Qop op r (part_f 4 x) (part_f 4 y) (part_f 4 z))"
  "ill_typed (IRExpr_ITE (less_test (part_f 4 x) (IRExpr_Const (IRConst_F32i 0))) y z)"
  by (auto simp: ill_typed_def less_test_def part_f_def wt_simps prim_types)

lemmas bar_rule_tables = dg_bar_operation_def arith_layouts_def arith_ops_def neg_table_def minmax_table_def fma_table_def Let_def

lemma abs32_rule: "dg_bar_operation cfg Iop_AbsF32 as is =
     bar_case (record_values cfg) Iop_AbsF32 1 [1] as is (\<lambda>_. bar_abs_partials (IRConst_F32i 0)) (\<lambda>_ xs. IRExpr_Unop Iop_AbsF32 (xs ! 0)) 4 1 False"
  by (simp add: bar_rule_tables)

lemma neg_rule: "map_of neg_table op = Some (fps, simd) \<Longrightarrow> find (\<lambda>L. op \<in> set (arith_ops L)) arith_layouts = None \<Longrightarrow> dg_bar_operation cfg op as is =
     bar_case (record_values cfg) op 1 [1] as is (\<lambda>_ _. [cF64 F64_minus_one]) (\<lambda>_ xs. IRExpr_Unop op (xs ! 0)) fps simd False"
  by (simp add: dg_bar_operation_def Let_def)

lemma fma32_rule: "op \<in> {Iop_MAddF32, Iop_MSubF32} \<Longrightarrow> dg_bar_operation cfg op as is =
     bar_case (record_values cfg) op 4 [2, 3, 4] as is (\<lambda>_ xs. [xs ! 1, xs ! 0, cF64 (if op = Iop_MAddF32 then F64_one else F64_minus_one)])
       (\<lambda>A xs. IRExpr_Qop op (A 1) (xs ! 0) (xs ! 1) (xs ! 2)) 4 1 False"
  by (elim insertE emptyE) (simp_all add: bar_rule_tables)

text \<open>
  C39. Where the recording mode's rules are ill-typed: whenever the rule for \<^verbatim>\<open>AbsF32\<close> succeeds, and whenever with
  \<^verbatim>\<open>--record-values\<close> the rule for \<^verbatim>\<open>NegF32\<close>, one of the SIMD negations or one of the F32 fused multiply-adds does,
  the statements that it has added contain a call with an argument that VEX's type checker rejects, whatever the types and
  definitions of the temporaries are.
\<close>

theorem bar_ill_typed_rules:
  assumes "op = Iop_AbsF32 \<or> record_values cfg \<and> op \<in> {Iop_NegF32, Iop_Neg32Fx2, Iop_Neg32Fx4, Iop_Neg64Fx2, Iop_MAddF32, Iop_MSubF32}"
    "dg_bar_operation cfg op as is \<sigma> = Inr (Some r, \<sigma>')" "tmp_offset \<sigma> \<le> length (tyenv (sb_out \<sigma>))"
  shows "\<exists>sts d e. stmts (sb_out \<sigma>') = stmts (sb_out \<sigma>) @ sts \<and> IRStmt_Dirty d \<in> set sts \<and> e \<in> set (args d)
    \<and> (\<forall>env gw dc ty. \<not> wt env gw dc e ty)"
proof -
  consider (abs) "op = Iop_AbsF32" | (neg) fps simd where "record_values cfg" "map_of neg_table op = Some (fps, simd)" "0 < simd"
      "find (\<lambda>L. op \<in> set (arith_ops L)) arith_layouts = None" "\<And>x. ill_typed (IRExpr_Unop op (part_f fps x))"
    | (fma) "record_values cfg" "op \<in> {Iop_MAddF32, Iop_MSubF32}"
    using assms(1) ill_typed_values(1) [of op] ill_typed_values(2) by (auto simp: neg_table_def arith_layouts_def arith_ops_def)
  then have "\<exists>sts. stmts (sb_out \<sigma>') = stmts (sb_out \<sigma>) @ sts \<and> (\<exists>st\<in>set sts. ill_typed_call st)"
  proof cases
    case abs
    show ?thesis
      by (rule bar_case_emits [OF assms(2) [unfolded abs abs32_rule] assms(3)])
        (auto simp: bar_abs_partials_def ill_typed_values(4) intro!: record_component_emits(1))
  next
    case neg
    show ?thesis
      by (rule bar_case_emits [OF assms(2) [unfolded neg_rule [OF neg(2,4)]] assms(3)])
        (use neg in \<open>auto intro!: record_component_emits(1)\<close>)
  next
    case fma
    show ?thesis
      by (rule bar_case_emits [OF assms(2) [unfolded fma32_rule [OF fma(2)]] assms(3)])
        (use fma ill_typed_values(3) in \<open>auto intro!: record_component_emits(2)\<close>)
  qed
  then show ?thesis by (auto simp: ill_typed_call_def ill_typed_def)
qed

text \<open>An operand of type F32 and the two layers of its index.\<close>

definition F32_operand :: DiffEnv where
  "F32_operand = \<lparr>tmp_offset = 1, gs_offset = 928,
     sb_out = \<lparr>tyenv = [Ity_F32, Ity_F32, Ity_F32], stmts = [], sb_next = IRExpr_Const (IRConst_U64 0), jumpkind = Ijk_Boring, offsIP = 184\<rparr>,
     cas_succeeded = IRTemp_INVALID\<rparr>"

theorem bar_ill_typed_rules_witness:
  "\<exists>r \<sigma>' d e. dg_bar_operation \<lparr>build_32bit = False, shadow_mem_buffer = 65536, record_values = False, unhandled_ones = False\<rparr> Iop_AbsF32
      [Some (IRExpr_RdTmp 0), None, None, None] [Some (IRExpr_RdTmp 1, IRExpr_RdTmp 2), None, None, None] F32_operand = Inr (Some r, \<sigma>')
    \<and> IRStmt_Dirty d \<in> set (stmts (sb_out \<sigma>')) \<and> e \<in> set (args d) \<and> (\<forall>env gw dc ty. \<not> wt env gw dc e ty)"
proof -
  let ?cfg = "\<lparr>build_32bit = False, shadow_mem_buffer = 65536, record_values = False, unhandled_ones = False\<rparr>"
  obtain r \<sigma>' where run: "dg_bar_operation ?cfg Iop_AbsF32 [Some (IRExpr_RdTmp 0), None, None, None] [Some (IRExpr_RdTmp 1, IRExpr_RdTmp 2), None, None, None] F32_operand = Inr (Some r, \<sigma>')"
    unfolding abs32_rule
    by (simp add: bar_case_def op_case_def someM_def createBarCode_def componentwise_layers_def applyComponentwisely_def component_inputs_def upt_rec
        getSIMDComponent_def SIMD_as_int_def SIMD_extract_def F32_operand_def typeOfIRTemp_def prim_types ensure_def bar_body_def record_component_def
        bar_abs_partials_def dg_bar_writeToTape_def newTemp_def newIRTemp_def emit_helper_eq emit_def addStmtToIRSB_def modifyM_def seqM_def
        component_outputs_def assembleSIMDVector_def SIMD_from_part_def SIMD_join_def sizeofIRType_def reinterpret_layers_def reinterpretType_def
        widen32_def typeM_def envM_def liftM_def bindM_def returnM_def Let_def)
  moreover have "tmp_offset F32_operand \<le> length (tyenv (sb_out F32_operand))" "stmts (sb_out F32_operand) = []" by (simp_all add: F32_operand_def)
  ultimately show ?thesis using bar_ill_typed_rules [OF disjI1 [OF refl] run] by auto
qed

end
