(* ===== verification/DG_Trick_Typing.thy ===== *)
theory DG_Trick_Typing
  imports DG_Trick DG_Bar_Typing
begin

text \<open>
  Instrumentation by the bit-trick finder keeps VEX's sanity checker satisfied: the rules of \<open>DG_Trick\<close> yield flags of the
  type of the result, so that its callbacks meet the contracts of \<open>DG_Common\<close>.
\<close>

text \<open>The types for which constants of ones exist.\<close>

definition flags_type :: "IRType \<Rightarrow> bool" where
  "flags_type ty \<longleftrightarrow> ty \<notin> {Ity_INVALID, Ity_F16, Ity_D32, Ity_D64, Ity_D128, Ity_F128}"

lemma flags_type_const: "flags_type (typeOfIRConst con)"
  by (cases con) (simp_all add: flags_type_def)

lemma flags_type_default: "flags_type ty \<Longrightarrow> default_type ty"
  by (auto simp: flags_type_def default_type_def)

section \<open>Flags\<close>

lemma not_active_wt: "list_all (\<lambda>(f, t). wt env gw dc f t) fs \<Longrightarrow> wt env gw dc (not_active fs) Ity_I1"
proof -
  assume fs: "list_all (\<lambda>(f, t). wt env gw dc f t) fs"
  have "wt env gw dc (foldl (\<lambda>e (f, t). IRExpr_Binop Iop_And1 e (isZero f t)) e fs) Ity_I1" if "wt env gw dc e Ity_I1" for e
    using fs that by (induction fs arbitrary: e) (auto simp: wt_simps prim_types isZero_wt)
  then show ?thesis unfolding not_active_def by (auto simp: wt_simps)
qed

lemma activity_flags_wt:
  assumes "wt env gw dc e Ity_I1" "flags_type ty"
  shows "\<exists>f. activity_flags e ty = Inr f \<and> wt env gw dc f ty"
proof -
  have "ty \<noteq> Ity_INVALID" "ty \<notin> {Ity_INVALID, Ity_F16, Ity_D32, Ity_D64, Ity_D128, Ity_F128}"
    using assms(2) by (auto simp: flags_type_def)
  then obtain z n where "mkIRConst_zero ty = Inr z" "wt env gw dc z ty" "mkIRConst_ones ty = Inr n" "wt env gw dc n ty"
    using mkIRConst_zero_wt [of ty env gw dc] mkIRConst_ones_wt [of ty env gw dc] by auto
  then show ?thesis using assms(1) by (simp add: activity_flags_def wt_simps)
qed

lemma non_discrete_ok:
  assumes inv: "diff_inv pre gw env0 goff 2 \<sigma> dc" and "wt (tyenv (sb_out \<sigma>)) gw dc e Ity_I1" "flags_type ty"
  shows "runs (diff_inv pre gw env0 goff 2) (non_discrete e ty) \<sigma> dc {} (\<lambda>d \<sigma>' dc'. wt2 gw (tyenv (sb_out \<sigma>')) dc' d ty)"
proof -
  have "ty \<noteq> Ity_INVALID" using assms(3) by (auto simp: flags_type_def)
  then show ?thesis
    unfolding non_discrete_def
    using activity_flags_wt [OF assms(2,3)] mkIRConst_zero_wt [of ty "tyenv (sb_out \<sigma>)" gw dc] inv
    by (auto simp: liftM_ok bindM_return wt2_def intro!: runs_return)
qed

lemma discrete_ok:
  assumes inv: "diff_inv pre gw env0 goff 2 \<sigma> dc" and "wt (tyenv (sb_out \<sigma>)) gw dc f ty" "flags_type ty"
  shows "runs (diff_inv pre gw env0 goff 2) (discrete f ty) \<sigma> dc {} (\<lambda>d \<sigma>' dc'. wt2 gw (tyenv (sb_out \<sigma>')) dc' d ty)"
proof -
  have "ty \<notin> {Ity_INVALID, Ity_F16, Ity_D32, Ity_D64, Ity_D128, Ity_F128}" using assms(3) by (auto simp: flags_type_def)
  then show ?thesis
    unfolding discrete_def
    using mkIRConst_ones_wt [of ty "tyenv (sb_out \<sigma>)" gw dc] inv assms(2)
    by (auto simp: liftM_ok bindM_return wt2_def intro!: runs_return)
qed

lemma trick_warn_ok:
  assumes inv: "diff_inv pre gw env0 goff 2 \<sigma> dc" and f: "wt2 gw (tyenv (sb_out \<sigma>)) dc f Ity_I64"
  shows "runs (diff_inv pre gw env0 goff 2) (dg_trick_warn4 f) \<sigma> dc {} (\<lambda>_ \<sigma>' dc'. dc' = dc \<and> tyenv (sb_out \<sigma>') = tyenv (sb_out \<sigma>))"
    and "runs (diff_inv pre gw env0 goff 2) (dg_trick_warn8 f) \<sigma> dc {} (\<lambda>_ \<sigma>' dc'. dc' = dc \<and> tyenv (sb_out \<sigma>') = tyenv (sb_out \<sigma>))"
proof -
  have c: "wt (tyenv (sb_out \<sigma>)) gw dc (IRExpr_Const (IRConst_U64 n)) Ity_I64" for n
    by (simp add: wt_simps)
  have "list_all (\<lambda>a. \<exists>t. t \<noteq> Ity_I1 \<and> wt (tyenv (sb_out \<sigma>)) gw dc a t) [fst f, snd f, IRExpr_Const (IRConst_U64 n)]" for n
    using f wt_not_I1 [of "tyenv (sb_out \<sigma>)" gw dc _ Ity_I64] c by (simp add: wt2_def)
  then show "runs (diff_inv pre gw env0 goff 2) (dg_trick_warn4 f) \<sigma> dc {} (\<lambda>_ \<sigma>' dc'. dc' = dc \<and> tyenv (sb_out \<sigma>') = tyenv (sb_out \<sigma>))"
    "runs (diff_inv pre gw env0 goff 2) (dg_trick_warn8 f) \<sigma> dc {} (\<lambda>_ \<sigma>' dc'. dc' = dc \<and> tyenv (sb_out \<sigma>') = tyenv (sb_out \<sigma>))"
    unfolding dg_trick_warn4_def dg_trick_warn8_def by (intro runs_helper [OF inv]; simp)+
qed

lemma trick_body_ok:
  assumes inv: "diff_inv pre gw env0 goff 2 \<sigma> dc" and n: "0 < n" "length parts = 3 * n"
    and parts: "list_all (\<lambda>e. wt (tyenv (sb_out \<sigma>)) gw dc e Ity_I64) parts"
  shows "runs (diff_inv pre gw env0 goff 2) (trick_body False fps low i parts) \<sigma> dc {}
    (\<lambda>outs \<sigma>' dc'. length outs = 2 \<and> list_all (\<lambda>e. wt (tyenv (sb_out \<sigma>')) gw dc' e Ity_I64) outs)"
proof -
  let ?I = "diff_inv pre gw env0 goff 2" and ?fs = "map snd (triples parts)"
  let ?warn = "if fps = 4 then dg_trick_warn4 else dg_trick_warn8"
  have len: "length (triples parts) = n" using length_triples [OF n(2)] .
  have fs: "list_all (\<lambda>f. wt2 gw (tyenv (sb_out \<sigma>)) dc f Ity_I64) ?fs"
    unfolding list.pred_map comp_def using triples_all [OF parts] by (auto elim!: list.pred_mono_strong simp: wt2_def)
  have low: "wt2 gw (tyenv (sb_out \<sigma>)) dc (?fs ! 0) Ity_I64"
    using fs len n(1) by (auto simp: list_all_length)
  have "runs ?I (mapM ?warn ?fs) \<sigma> dc {} (\<lambda>ys \<sigma>' dc'. length ys = length ?fs \<and> list_all (\<lambda>_. True) ys)"
  proof (rule runs_mapM [where I = ?I and P = "\<lambda>_ _ _. True", OF inv])
    fix f \<sigma>1 dc1 assume 1: "f \<in> set ?fs" "?I \<sigma>1 dc1" "progress \<sigma> dc \<sigma>1 dc1 {}"
    then have "wt2 gw (tyenv (sb_out \<sigma>1)) dc1 f Ity_I64" using fs progress_wt2 [OF 1(3)] by (auto simp: list_all_iff)
    then show "runs ?I (?warn f) \<sigma>1 dc1 {} (\<lambda>_ _ _. True)"
      by (auto intro!: runs_weaken [OF trick_warn_ok(1) [OF 1(2)]] runs_weaken [OF trick_warn_ok(2) [OF 1(2)]])
  qed simp
  moreover have "runs ?I (bindM (liftM (activity_flags (not_active (map (\<lambda>f. (fst f, Ity_I64)) ?fs)) Ity_I64)) (\<lambda>flagsIntLo_part.
        bindM (liftM (mkIRConst_zero Ity_I64)) (\<lambda>flagsIntHi_part. returnM [flagsIntLo_part, flagsIntHi_part]))) \<sigma>1 dc1 {}
      (\<lambda>outs \<sigma>' dc'. length outs = 2 \<and> list_all (\<lambda>e. wt (tyenv (sb_out \<sigma>')) gw dc' e Ity_I64) outs)"
    if 1: "?I \<sigma>1 dc1" "progress \<sigma> dc \<sigma>1 dc1 {}" for \<sigma>1 dc1
  proof -
    have "list_all (\<lambda>(f, t). wt (tyenv (sb_out \<sigma>1)) gw dc1 f t) (map (\<lambda>f. (fst f, Ity_I64)) ?fs)"
      using fs progress_wt [OF 1(2)] by (auto simp: list_all_iff wt2_def)
    then have "\<exists>f. activity_flags (not_active (map (\<lambda>f. (fst f, Ity_I64)) ?fs)) Ity_I64 = Inr f \<and> wt (tyenv (sb_out \<sigma>1)) gw dc1 f Ity_I64"
      by (intro activity_flags_wt not_active_wt) (simp_all add: flags_type_def)
    then show ?thesis
      using 1(1) mkIRConst_zero_wt [of Ity_I64 "tyenv (sb_out \<sigma>1)" gw dc1]
      by (auto simp: liftM_ok bindM_return simp del: map_map intro!: runs_return)
  qed
  ultimately show ?thesis
    using inv low unfolding trick_body_def Let_def
    by (auto simp: wt2_def simp del: map_map nth_map intro!: runs_return elim!: runs_bind_pure)
qed

section \<open>Operation rules\<close>

definition float_layout_typed :: "IROp \<Rightarrow> nat \<times> nat list \<times> nat \<times> nat \<times> bool \<Rightarrow> bool" where
  "float_layout_typed op = (\<lambda>(n, ins, fps, simd, low).
     has_arity op n \<and> 0 < n \<and> (fps, simd) \<in> SIMD_layouts \<and> ins \<noteq> []
     \<and> (case projr (typeOfPrimop op) of (ty, t1, t2, t3, t4) \<Rightarrow>
          SIMD_vector_type (fps * simd) ty \<and> list_all (\<lambda>i. 1 \<le> i \<and> i \<le> n \<and> [t1, t2, t3, t4] ! (i - 1) = ty) ins))"

lemma float_layout_ok: "float_layout op = Some x \<Longrightarrow> float_layout_typed op x"
proof -
  have arith: "float_layout_typed op (arith_nargs L op, arith_inputs L op, fpsize L, simdsize L, llo L)"
    if "find (\<lambda>L. op \<in> set (arith_ops L)) arith_layouts = Some L" for L
  proof -
    have "arith_case_typed L op" "(fpsize L, simdsize L) \<in> SIMD_layouts"
      using find_typed [OF arith_cases_typed that] find_typed [OF arith_layouts_typed that] by (auto simp: list_all_iff)
    then show ?thesis by (auto simp: float_layout_typed_def arith_case_typed_def)
  qed
  have neg: "float_layout_typed op (1, [1], fps, simd, False)" if "map_of neg_table op = Some (fps, simd)" for fps simd
    using map_of_typed [OF neg_table_typed that]
    by (auto simp: float_layout_typed_def Let_def arity vector_type_SIMD) (auto simp: vector_type_def split: if_splits)
  have minmax: "float_layout_typed op (2, [1, 2], fps, simd, low)" if "map_of minmax_table op = Some (m, fps, simd, low)" for m fps simd low
    using map_of_typed [OF minmax_table_typed that]
    by (auto simp: float_layout_typed_def Let_def arity SIMD_vector_type_def) (auto simp: SIMD_inttype_def split: if_splits)
  have fma: "float_layout_typed op (4, [2, 3, 4], fps, 1, False)" if "map_of fma_table op = Some (m, fps)" for m fps
    using map_of_typed [OF fma_table_typed that]
    by (auto simp: float_layout_typed_def Let_def arity layout vector_type_def)
  have misc: "op = Iop_AbsF64 \<Longrightarrow> float_layout_typed op (1, [1], 8, 1, False)" "op = Iop_AbsF32 \<Longrightarrow> float_layout_typed op (1, [1], 4, 1, False)"
    "op = Iop_ScaleF64 \<Longrightarrow> float_layout_typed op (3, [2], 8, 1, False)"
    "op = Iop_Yl2xF64 \<or> op = Iop_Yl2xp1F64 \<Longrightarrow> float_layout_typed op (3, [2, 3], 8, 1, False)"
    by (auto simp: float_layout_typed_def arity prim_types layout)
  assume "float_layout op = Some x"
  then show ?thesis
    using arith neg minmax fma misc unfolding float_layout_def by (auto split: option.splits prod.splits if_splits)
qed

lemma trick_float_ok:
  assumes inv: "diff_inv pre gw env0 goff 2 \<sigma> dc" and ty: "typeOfPrimop op = Inr (ty, t1, t2, t3, t4)"
    and ops: "operands_ok (wt (tyenv (sb_out \<sigma>)) gw dc) (wt2 gw (tyenv (sb_out \<sigma>)) dc) [t1, t2, t3, t4] as fs"
    and l: "float_layout op = Some (n, ins, fps, simd, low)"
  shows "layers_op_ok pre gw env0 goff \<sigma> dc ty (op_case n ins as fs (\<lambda>A F.
     createTrickCode op (map A [1..<n + 1]) (map (\<lambda>i. (A i, F i)) ins) False fps simd low))"
proof -
  have l: "has_arity op n" "0 < n" "(fps, simd) \<in> SIMD_layouts" "SIMD_vector_type (fps * simd) ty"
    "list_all (\<lambda>i. 1 \<le> i \<and> i \<le> n \<and> [t1, t2, t3, t4] ! (i - 1) = ty) ins" "0 < length ins"
    using float_layout_ok [OF l] unfolding float_layout_typed_def ty sum.sel prod.case by auto
  show ?thesis
    unfolding createTrickCode_def
    by (rule layers_case_ok [OF inv ty ops l(1-5)]) (rule trick_body_ok [OF _ l(6)])
qed

lemma trick_shift_ok:
  assumes inv: "diff_inv pre gw env0 goff 2 \<sigma> dc" and op: "op \<in> set shift_ops" and ty: "typeOfPrimop op = Inr (ty, t1, t2, t3, t4)"
    and ops: "operands_ok (wt (tyenv (sb_out \<sigma>)) gw dc) (wt2 gw (tyenv (sb_out \<sigma>)) dc) [t1, t2, t3, t4] as fs"
  shows "layers_op_ok pre gw env0 goff \<sigma> dc ty (op_case 2 [1] as fs (\<lambda>A F. trick_shift op A (F 1)))"
proof (rule layers_op_case_ok [OF inv ops])
  have "list_all (\<lambda>op. case projr (typeOfPrimop op) of (ty, t1, t2, _) \<Rightarrow> t1 = ty \<and> t2 = Ity_I8 \<and> flags_type ty) shift_ops"
    by (simp add: shift_ops_def prim_types flags_type_def)
  then have t: "t1 = ty" "t2 = Ity_I8" "flags_type ty" "t3 = Ity_INVALID" "t4 = Ity_INVALID"
    using op ty move_ops_typed(3) has_arity_D(2) [OF ty] by (auto simp: list_all_iff)
  then show "\<forall>i\<in>{1..2} \<union> set [1]. 1 \<le> i \<and> i \<le> length [t1, t2, t3, t4] \<and> [t1, t2, t3, t4] ! (i - 1) \<noteq> Ity_INVALID"
    by (auto simp: upto_split flags_type_def)
  fix A F
  assume "layers_operands (wt (tyenv (sb_out \<sigma>)) gw dc) (wt2 gw (tyenv (sb_out \<sigma>)) dc) [t1, t2, t3, t4] 2 [1] A F"
  then have w: "wt (tyenv (sb_out \<sigma>)) gw dc (A 1) ty" "wt (tyenv (sb_out \<sigma>)) gw dc (A 2) Ity_I8" "wt2 gw (tyenv (sb_out \<sigma>)) dc (F 1) ty"
    using t by (auto simp: layers_operands_def upto_split)
  have b: "wt (tyenv (sb_out \<sigma>)) gw dc e ty \<Longrightarrow> wt (tyenv (sb_out \<sigma>)) gw dc (IRExpr_Binop op e (A 2)) ty" for e
    using ty t w(2) by (auto simp: wt_simps flags_type_def)
  obtain n where "mkIRConst_ones ty = Inr n" "wt (tyenv (sb_out \<sigma>)) gw dc n ty"
    using mkIRConst_ones_wt [of ty "tyenv (sb_out \<sigma>)" gw dc] t(3) by (auto simp: flags_type_def)
  then show "runs (diff_inv pre gw env0 goff 2) (trick_shift op A (F 1)) \<sigma> dc {} (\<lambda>d \<sigma>' dc'. wt2 gw (tyenv (sb_out \<sigma>')) dc' d ty)"
    using inv w b wt_type [OF b [OF w(1)]]
    by (auto simp: trick_shift_def runs_typeM_bind liftM_ok bindM_return wt2_def wt_simps isZero_wt intro!: runs_return)
qed

text \<open>The operations that the bit-trick finder supports: flags of their result type exist.\<close>

definition trick_good_op :: "IROp \<Rightarrow> bool" where
  "trick_good_op op \<longleftrightarrow> (case typeOfPrimop op of Inl _ \<Rightarrow> True | Inr (ty, _) \<Rightarrow> flags_type ty)"

lemma trick_unhandled_ok:
  assumes inv: "diff_inv pre gw env0 goff 2 \<sigma> dc" and good: "trick_good_op op" and ty: "typeOfPrimop op = Inr (ty, t1, t2, t3, t4)"
    and ops: "operands_ok (wt (tyenv (sb_out \<sigma>)) gw dc) (wt2 gw (tyenv (sb_out \<sigma>)) dc) [t1, t2, t3, t4] as fs"
  shows "layers_op_ok pre gw env0 goff \<sigma> dc ty (trick_unhandled op fs)"
proof -
  let ?na = "not_active (concat (map (\<lambda>(f, type). case f of None \<Rightarrow> [] | Some f \<Rightarrow> [(fst f, type)]) (zip fs [t1, t2, t3, t4])))"
  have "list_all (\<lambda>(f, t). \<forall>d. f = Some d \<longrightarrow> wt (tyenv (sb_out \<sigma>)) gw dc (fst d) t) (zip fs [t1, t2, t3, t4])"
    using ops by (auto simp: operands_ok_def list_all_length wt2_def split: if_splits)
  then have "list_all (\<lambda>(f, t). wt (tyenv (sb_out \<sigma>)) gw dc f t)
      (concat (map (\<lambda>(f, type). case f of None \<Rightarrow> [] | Some f \<Rightarrow> [(fst f, type)]) (zip fs [t1, t2, t3, t4])))"
    by (induction "zip fs [t1, t2, t3, t4]" rule: list.induct) (auto simp: list_all_iff split: option.splits)
  then have na: "wt (tyenv (sb_out \<sigma>)) gw dc ?na Ity_I1" by (rule not_active_wt)
  have fty: "flags_type ty" using good ty by (simp add: trick_good_op_def)
  let ?lo = "if ty = Ity_I128 then bindE (activity_flags ?na Ity_I64) (\<lambda>i64. Inr (IRExpr_Binop Iop_64HLto128 i64 i64))
      else if ty = Ity_I1 then Inr (IRExpr_Unop Iop_Not1 ?na) else activity_flags ?na ty"
  have "\<exists>e. ?lo = Inr e \<and> wt (tyenv (sb_out \<sigma>)) gw dc e ty"
    using activity_flags_wt [OF na fty] activity_flags_wt [OF na, of Ity_I64] na by (auto simp: flags_type_def wt_simps prim_types)
  then obtain e where "?lo = Inr e" "wt (tyenv (sb_out \<sigma>)) gw dc e ty" by blast
  then show ?thesis
    unfolding layers_op_ok_def trick_unhandled_def ty Let_def
    using discrete_ok [OF inv _ fty, of e] by (simp add: liftM_ok bindM_return) (rule runs_weaken [OF runs_some], auto)
qed

lemma trick_operation_ok:
  assumes inv: "diff_inv pre gw env0 goff 2 \<sigma> dc" and good: "trick_good_op op" and ty: "typeOfPrimop op = Inr (ty, t1, t2, t3, t4)"
    and ops: "operands_ok (wt (tyenv (sb_out \<sigma>)) gw dc) (wt2 gw (tyenv (sb_out \<sigma>)) dc) [t1, t2, t3, t4] as fs"
  shows "layers_op_ok pre gw env0 goff \<sigma> dc ty (dg_trick_operation op as fs)"
proof -
  let ?w = "wt (tyenv (sb_out \<sigma>)) gw dc" and ?w2 = "wt2 gw (tyenv (sb_out \<sigma>)) dc" and ?ok = "layers_op_ok pre gw env0 goff \<sigma> dc ty"
  let ?I = "diff_inv pre gw env0 goff 2"
  note cas = layers_op_case_ok [OF inv ops]
  have bitwise: "?ok (op_case 2 [1, 2] as fs (bitwise_layers prefix name fps simd))"
    if "map_of bitwise_table op = Some (m, fps, simd)" for prefix name m fps simd
    using map_of_typed [OF bitwise_table_typed that] ty bitwise_layers_ok [OF inv _ ops, where fps = fps and simd = simd and name = name and prefix = prefix]
    by (auto simp: Let_def)
  have warned: "runs ?I (seqM m (non_discrete e ty)) \<sigma> dc {} (\<lambda>d \<sigma>' dc'. wt2 gw (tyenv (sb_out \<sigma>')) dc' d ty)"
    if "runs ?I m \<sigma> dc {} (\<lambda>_ \<sigma>' dc'. dc' = dc \<and> tyenv (sb_out \<sigma>') = tyenv (sb_out \<sigma>))" "?w e Ity_I1" "flags_type ty" for m e ty
    using that(2,3) by (intro runs_seq_pure [OF that(1)] non_discrete_ok) auto
  have map2: "?w2 (map_layers g f) ty" if "?w2 f t" "\<And>e. ?w e t \<Longrightarrow> ?w (g e) ty" for g f t ty
    using that by (simp add: wt2_def map_layers_def)
  have iz: "?w2 f t \<Longrightarrow> ?w (isZero (fst f) t) Ity_I1" for f t
    by (simp add: wt2_def isZero_wt)
  have widen: "?ok (op_case 1 [1] as fs (\<lambda>A F.
          seqM (dg_trick_warn4 (map_layers (\<lambda>f. IRExpr_Binop Iop_32HLto64 (IRExpr_Unop Iop_ReinterpF32asI32 f)
                                               (IRExpr_Const (IRConst_U32 0))) (F 1)))
               (non_discrete (isZero (fst (F 1)) Ity_F32) Ity_F64)))" if "op = Iop_F32toF64"
    using that ty
    by (intro cas) (auto simp: prim_types flags_type_def layers_operands_def wt_simps
        intro!: warned [OF trick_warn_ok(1) [OF inv]] iz map2)
  have narrow: "?ok (op_case 2 [2] as fs (\<lambda>A F.
          seqM (dg_trick_warn8 (map_layers (IRExpr_Unop Iop_ReinterpF64asI64) (F 2)))
               (non_discrete (isZero (fst (F 2)) Ity_F64) Ity_F32)))" if "op = Iop_F64toF32"
    using that ty
    by (intro cas) (auto simp: prim_types flags_type_def layers_operands_def upto_split wt_simps
        intro!: warned [OF trick_warn_ok(2) [OF inv]] iz map2)
  have present: "t1 \<noteq> Ity_INVALID \<Longrightarrow> \<exists>f. flags_of fs 1 = returnM f \<and> ?w2 f t1" "t2 \<noteq> Ity_INVALID \<Longrightarrow> \<exists>f. flags_of fs 2 = returnM f \<and> ?w2 f t2"
    using spec [OF ops [unfolded operands_ok_def, THEN conjunct2, THEN conjunct2], of 0]
      spec [OF ops [unfolded operands_ok_def, THEN conjunct2, THEN conjunct2], of 1]
    by (auto simp: flags_of_def derefM_def) blast+
  have zero1: "?ok (op_case 1 [] as fs (\<lambda>A F. bindM (flags_of fs 1) (\<lambda>f. non_discrete (isZero (fst f) Ity_I32) Ity_F64)))"
    if "op \<in> set zero_unary_ops"
  proof (rule cas)
    have t: "t1 = Ity_I32" "ty = Ity_F64" using that ty by (auto simp: zero_unary_ops_def prim_types)
    then show "\<forall>i\<in>{1..1} \<union> set []. 1 \<le> i \<and> i \<le> length [t1, t2, t3, t4] \<and> [t1, t2, t3, t4] ! (i - 1) \<noteq> Ity_INVALID" by simp
    show "runs ?I (bindM (flags_of fs 1) (\<lambda>f. non_discrete (isZero (fst f) Ity_I32) Ity_F64)) \<sigma> dc {} (\<lambda>d \<sigma>' dc'. wt2 gw (tyenv (sb_out \<sigma>')) dc' d ty)"
    proof -
      obtain f where f: "flags_of fs 1 = returnM f" "?w2 f Ity_I32" using present(1) t by auto
      show ?thesis unfolding f(1) bindM_return t(2) by (rule non_discrete_ok [OF inv iz [OF f(2)]]) (simp add: flags_type_def)
    qed
  qed
  have zero2: "?ok (op_case 2 [] as fs (\<lambda>A F. bindM (flags_of fs 2) (\<lambda>f. seqM (m f)
      (bindM (typeM (fst f)) (\<lambda>type. non_discrete (isZero (fst f) type) ty)))))"
    if "has_arity op 2" "flags_type ty"
      "\<And>f. ?w2 f t2 \<Longrightarrow> runs ?I (m f) \<sigma> dc {} (\<lambda>_ \<sigma>' dc'. dc' = dc \<and> tyenv (sb_out \<sigma>') = tyenv (sb_out \<sigma>))" for m
  proof (rule cas)
    have t: "t1 \<noteq> Ity_INVALID" "t2 \<noteq> Ity_INVALID" using that(1) has_arity_D(2) [OF ty] by auto
    then show "\<forall>i\<in>{1..2} \<union> set []. 1 \<le> i \<and> i \<le> length [t1, t2, t3, t4] \<and> [t1, t2, t3, t4] ! (i - 1) \<noteq> Ity_INVALID" by (auto simp: upto_split)
    obtain f where f: "flags_of fs 2 = returnM f" "?w2 f t2" using present(2) t by blast
    have "runs ?I (bindM (typeM (fst f)) (\<lambda>type. non_discrete (isZero (fst f) type) ty)) \<sigma>1 dc {} (\<lambda>d \<sigma>' dc'. wt2 gw (tyenv (sb_out \<sigma>')) dc' d ty)"
      if "?I \<sigma>1 dc" "tyenv (sb_out \<sigma>1) = tyenv (sb_out \<sigma>)" for \<sigma>1
      using that \<open>flags_type ty\<close> f(2) iz [OF f(2)] wt_type [of "tyenv (sb_out \<sigma>)" gw dc "fst f" t2]
      by (auto simp: runs_typeM_bind wt2_def intro!: non_discrete_ok [unfolded wt2_def])
    then show "runs ?I (bindM (flags_of fs 2) (\<lambda>f. seqM (m f) (bindM (typeM (fst f)) (\<lambda>type. non_discrete (isZero (fst f) type) ty)))) \<sigma> dc {}
        (\<lambda>d \<sigma>' dc'. wt2 gw (tyenv (sb_out \<sigma>')) dc' d ty)"
      unfolding f(1) bindM_return by (intro runs_seq_pure [OF that(3) [OF f(2)]]) auto
  qed
  have zero64: "?ok (op_case 2 [] as fs (\<lambda>A F. bindM (flags_of fs 2) (\<lambda>f.
          seqM (if op = Iop_RoundF64toInt then dg_trick_warn8 (map_layers (IRExpr_Unop Iop_ReinterpF64asI64) f) else returnM ())
               (bindM (typeM (fst f)) (\<lambda>type. non_discrete (isZero (fst f) type) Ity_F64)))))" if "op \<in> set zero_binary64_ops"
  proof -
    have t: "has_arity op 2" "ty = Ity_F64" "op = Iop_RoundF64toInt \<Longrightarrow> t2 = Ity_F64"
      using that zero_ops_typed(2) ty by (auto simp: list_all_iff prim_types)
    have m: "runs ?I (if op = Iop_RoundF64toInt then dg_trick_warn8 (map_layers (IRExpr_Unop Iop_ReinterpF64asI64) f) else returnM ()) \<sigma> dc {}
        (\<lambda>_ \<sigma>' dc'. dc' = dc \<and> tyenv (sb_out \<sigma>') = tyenv (sb_out \<sigma>))" if "?w2 f t2" for f
      using that t(3) by (auto simp: wt_simps prim_types intro!: trick_warn_ok(2) [OF inv] map2 runs_return inv)
    have "flags_type ty" using t(2) by (simp add: flags_type_def)
    from zero2 [OF t(1) this m] show ?thesis unfolding t(2) by assumption
  qed
  have zero32: "?ok (op_case 2 [] as fs (\<lambda>A F. bindM (flags_of fs 2) (\<lambda>f.
          bindM (typeM (fst f)) (\<lambda>type. non_discrete (isZero (fst f) type) Ity_F32))))" if "op \<in> set zero_binary32_ops"
  proof -
    have t: "has_arity op 2" "ty = Ity_F32" using that zero_ops_typed(3) ty by (auto simp: list_all_iff)
    have "runs ?I (returnM ()) \<sigma> dc {} (\<lambda>_ \<sigma>' dc'. dc' = dc \<and> tyenv (sb_out \<sigma>') = tyenv (sb_out \<sigma>))" using inv by (intro runs_return) auto
    then show ?thesis using zero2 [OF t(1), of "\<lambda>_. returnM ()"] t(2) by (simp add: flags_type_def seqM_def bindM_return)
  qed
  show ?thesis
    unfolding dg_trick_operation_def
    by (intro layers_op_ok_branch;
        (rule trick_unhandled_ok [OF inv good ty ops]
         | rule widen narrow zero1 zero64 zero32 trick_shift_ok [OF inv _ ty ops] layers_moves_ok [OF inv ty ops], assumption
         | (rule trick_float_ok [OF inv ty ops], simp; fail) | simp only: bitwise))
qed

section \<open>The contracts\<close>

lemma trick_ccall_ok:
  assumes inv: "diff_inv pre gw env0 goff 2 \<sigma> dc" and ty: "flags_type retty"
    and as: "list_all2 (\<lambda>a m. \<exists>t d. wt (tyenv (sb_out \<sigma>)) gw dc a t \<and> m = Some d \<and> wt2 gw (tyenv (sb_out \<sigma>)) dc d t) cargs ds"
  shows "layers_op_ok pre gw env0 goff \<sigma> dc retty (dg_trick_ccall c retty cargs ds)"
proof -
  let ?arg = "\<lambda>(a, m). bindM (typeM a) (\<lambda>argtype. bindM (derefM m) (\<lambda>f. returnM (fst f, argtype)))"
  have "\<exists>fs. mapM ?arg (zip cargs ds) \<sigma> = Inr (fs, \<sigma>) \<and> list_all (\<lambda>(f, t). wt (tyenv (sb_out \<sigma>)) gw dc f t) fs"
    using as
  proof (induction cargs ds rule: list_all2_induct)
    case (Cons a as m ms)
    then obtain t d fs where "wt (tyenv (sb_out \<sigma>)) gw dc a t" "m = Some d" "wt2 gw (tyenv (sb_out \<sigma>)) dc d t"
      "mapM ?arg (zip as ms) \<sigma> = Inr (fs, \<sigma>)" "list_all (\<lambda>(f, t). wt (tyenv (sb_out \<sigma>)) gw dc f t) fs" by blast
    moreover have "?arg (a, m) \<sigma> = Inr ((fst d, t), \<sigma>)"
      using calculation(2) wt_type [OF calculation(1)] by (simp add: typeM_def envM_def liftM_def derefM_def bindM_def returnM_def)
    ultimately show ?case
      unfolding zip_Cons_Cons mapM.simps by (subst bindM_def, simp add: bindM_def [of "mapM _ _"] returnM_def wt2_def)
  qed (simp add: returnM_def)
  then obtain fs where fs: "mapM ?arg (zip cargs ds) \<sigma> = Inr (fs, \<sigma>)" "list_all (\<lambda>(f, t). wt (tyenv (sb_out \<sigma>)) gw dc f t) fs" by blast
  obtain lo where "activity_flags (not_active fs) retty = Inr lo" "wt (tyenv (sb_out \<sigma>)) gw dc lo retty"
    using activity_flags_wt [OF not_active_wt [OF fs(2)] ty] by blast
  then have "runs (diff_inv pre gw env0 goff 2) (someM (discrete lo retty)) \<sigma> dc {}
      (\<lambda>r \<sigma>' dc'. \<forall>d. r = Some d \<longrightarrow> wt2 gw (tyenv (sb_out \<sigma>')) dc' d retty)"
    by (intro runs_weaken [OF runs_some [OF discrete_ok [OF inv _ ty]]]) auto
  moreover have "dg_trick_ccall c retty cargs ds \<sigma> = someM (discrete lo retty) \<sigma>"
    using fs(1) \<open>activity_flags (not_active fs) retty = Inr lo\<close> by (simp add: dg_trick_ccall_def bindM_def liftM_def)
  ultimately show ?thesis unfolding layers_op_ok_def runs_def by simp
qed

lemma trick_F80_store_law:
  assumes inv: "diff_inv pre gw env0 goff 2 \<sigma> dc" and a: "wt (tyenv (sb_out \<sigma>)) gw dc addr gw" "gw \<noteq> Ity_I1"
    and d: "wt2 gw (tyenv (sb_out \<sigma>)) dc d Ity_I64"
  shows "runs (diff_inv pre gw env0 goff 2) (dg_trick_dirty_storeF80le addr d) \<sigma> dc {} (\<lambda>_ _ _. True)"
  unfolding dg_trick_dirty_storeF80le_def
  using wt_not_I1 [OF a] wt_not_I1 [of "tyenv (sb_out \<sigma>)" gw dc _ Ity_I64] d
  by (intro runs_weaken [OF runs_helper [OF inv]]) (simp_all add: wt2_def)

interpretation trick_typed: shadow_handling "dg_trick_expressionhandling cfg" "layers_shadow_stmt cfg trick_helpers"
    "layers_pre cfg flags_type gw env0 goff" gw env0 goff 2 "wt2 gw" trick_good_op flags_type
  for cfg gw env0 goff
  by unfold_locales
     (unfold dg_trick_expressionhandling_def ExpressionHandling.simps dg_trick_dirty_loadF80le_def,
      (rule wt2_extend layers_wrtmp_law layers_rdtmp_law layers_puti_laws layers_store_law layers_load_law layers_pure_laws(1,3,4)
         trick_operation_ok [unfolded layers_op_ok_def] trick_ccall_ok [unfolded layers_op_ok_def], assumption+
       | rule flags_type_const
       | (rule layers_pure_laws(2), assumption, erule flags_type_default)
       | (rule trick_F80_store_law load_layers_law, assumption, assumption, rule layers_pre_gw, assumption+)
       | (simp add: flags_type_def layers_pre_def; fail))+)

lemma flags_grows: "grows n (non_discrete e ty)" "grows n (discrete e ty)" "grows n (flags_of fs i)"
    "grows n (dg_trick_warn4 f)" "grows n (dg_trick_warn8 f)"
  unfolding non_discrete_def discrete_def flags_of_def dg_trick_warn4_def dg_trick_warn8_def by (intro grows_intro)+

lemma trick_body_grows: "grows 0 (trick_body d fps low i parts)"
proof -
  have "grows (length fs * 0) (mapM (if fps = 4 then dg_trick_warn4 else dg_trick_warn8) fs)" for fs
    by (rule grows_mapM) (simp add: flags_grows)
  then show ?thesis unfolding trick_body_def Let_def by (intro grows_intro) simp_all
qed

lemma createTrickCode_grows: "grows 0 (createTrickCode op es ins d fps simd low)"
  unfolding createTrickCode_def componentwise_layers_def
  by (intro grows_bind [OF grows_componentwise [OF trick_body_grows]] grows_bind reinterpret_layers_grows grows_simple) simp

lemma trick_operation_grows: "grows 16 (dg_trick_operation op as fs)"
proof -
  have bw: "grows 16 (op_case 2 [1, 2] as fs (bitwise_layers prefix name fps simd))" if "map_of bitwise_table op = Some (m, fps, simd)" for prefix name m fps simd
  proof -
    have "simd \<le> 8" using map_of_typed [OF bitwise_table_typed that] by (auto dest: SIMD_layouts_le)
    then show ?thesis by (intro grows_op_case bitwise_layers_grows)
  qed
  have un: "grows 16 (trick_unhandled op fs)"
    unfolding trick_unhandled_def Let_def by (intro grows_intro flags_grows)
  show ?thesis
    unfolding dg_trick_operation_def trick_shift_def
    by (intro grows_branch; (rule un | (rule bw, simp) |
        (intro grows_op_case grows_bind grows_seq grows_mono [OF createTrickCode_grows] flags_grows grows_branch grows_simple le0)))
qed

lemma trick_ccall_grows: "grows n (dg_trick_ccall c retty cargs ds)"
proof -
  have "grows (length xs * 0) (mapM (\<lambda>(a, m). bindM (typeM a) (\<lambda>argtype. bindM (derefM m) (\<lambda>f. returnM (fst f, argtype)))) xs)"
    for xs :: "(IRExpr \<times> layers option) list"
    by (rule grows_mapM) (intro grows_intro)
  then show ?thesis unfolding dg_trick_ccall_def by (intro grows_bind grows_someM flags_grows grows_simple) simp
qed

interpretation trick_bounded: bounded_handling "dg_trick_expressionhandling cfg" 16 for cfg
  by unfold_locales
     (auto simp: dg_trick_expressionhandling_def dg_bar_wrtmp_def dg_bar_rdtmp_def dg_bar_puti_def dg_bar_geti_def dg_bar_store_def
        dg_trick_dirty_storeF80le_def dg_trick_dirty_loadF80le_def load_layers_def dg_bar_constant_def dg_bar_default_def dg_bar_compare_def
        dg_bar_ite_def trick_operation_grows trick_ccall_grows
        intro!: grows_intro grows_mono [OF layers_load_grows] split: option.split)

interpretation trick_sane: sane_handling "dg_trick_expressionhandling cfg" "layers_shadow_stmt cfg trick_helpers"
    "layers_pre cfg flags_type gw env0 goff" gw env0 goff 2 "wt2 gw" trick_good_op flags_type 16
  for cfg gw env0 goff ..

section \<open>Instrumentation of a block by the bit-trick finder\<close>

lemma trick_handle_eq: "dg_trick_handle_statement cfg = add_statement_modified (dg_trick_expressionhandling cfg)"
  by (simp add: dg_trick_handle_statement_def fun_eq_iff)

lemma sample_trick_pre: "layers_pre sample_config flags_type Ity_I64 (tyenv sample_block) 928"
  "list_all (ok_stmt Ity_I64 (tyenv sample_block) 928 2 trick_good_op flags_type) (dropWhile (\<lambda>st. \<not> is_IMark st) (stmts sample_block))"
  "fits 2 16 sample_block"
  by (simp_all add: layers_pre_def flags_type_def trick_good_op_def prim_types fits_def sample_block_def sample_config_def IRTemp_INVALID_def)

text \<open>
  C9. Bit-trick finder: if VEX's sanity checker accepts a flat superblock, then instrumenting the block succeeds and the checker accepts the
  instrumented block, for blocks that satisfy these conditions: no temporary, no result of a C call and no result of an operation has a
  type for which the tool cannot build a constant of ones (F16, F128, decimal or invalid); the word size of the guest is that of
  the build and the size of the guest state is not negative; from the first instruction mark on, no statement is a
  load-linked or store-conditional, the operands of operations and C calls are atoms, offsets of \<^verbatim>\<open>Put\<close> and bases of
  \<^verbatim>\<open>PutI\<close> are not negative, the bases of register arrays and of their shadows are at most the 10000 that VEX allows, no value of type I1 is loaded, dirty
  calls name their callee, the 80-bit load and store helpers are called with the signatures VEX gives them, and no temporary is used that only the statements before the
  first instruction mark (which are copied without a shadow) assign; and there is room for the temporaries that are added
  (\<open>fits\<close>). Operations without a rule are included.
\<close>

theorem trick_instrument_sane:
  assumes "sanityCheckIRSB sb True gw = Inr ()" "layers_pre cfg flags_type gw (tyenv sb) gs_size"
    and "is_ok (defs_Stmts (tyenv sb) (\<lambda>_. 0) (dropWhile (\<lambda>st. \<not> is_IMark st) (stmts sb)))"
    and "list_all (ok_stmt gw (tyenv sb) gs_size 2 trick_good_op flags_type) (dropWhile (\<lambda>st. \<not> is_IMark st) (stmts sb))"
    and "fits 2 16 sb"
  shows "\<exists>sb'. instrument_block (dg_trick_handle_statement cfg) 2 gs_size sb = Inr sb' \<and> sanityCheckIRSB sb' False gw = Inr ()"
  unfolding trick_handle_eq by (rule trick_sane.instrument_block_sane [OF assms(2,1) refl assms(5,3,4)])

theorem trick_instrument_sane_witness:
  "\<exists>sb'. instrument_block (dg_trick_handle_statement sample_config) 2 928 sample_block = Inr sb'
     \<and> sanityCheckIRSB sb' False Ity_I64 = Inr ()"
  by (rule trick_instrument_sane [OF sample_block_sane sample_trick_pre(1) sample_block_defs sample_trick_pre(2,3)])

text \<open>
  C11. The bit-trick finder is transparent: if offsets into the guest state are not negative, then apart from the replacement of compare-and-swap, the instrumented block
  consists of the statements of the input block in their order, interleaved only with statements that assign
  temporaries above those of the input, write guest state above its end, store into the transfer buffer or
  call one of the finder's helpers.
\<close>

theorem trick_instrument_transparent:
  assumes "instrument_block (dg_trick_handle_statement cfg) 2 gs_size sb = Inr sb'" "list_all nonneg_offsets (stmts sb)"
  shows "weaves (layers_shadow_stmt cfg trick_helpers (length (tyenv sb)) gs_size) (stmts sb) (stmts sb')"
  using trick_emit.instrument_block_weaves assms by (simp add: trick_handle_eq)

theorem trick_instrument_transparent_witness:
  "\<exists>sb'. instrument_block (dg_trick_handle_statement sample_config) 2 928 sample_block = Inr sb'
     \<and> weaves (layers_shadow_stmt sample_config trick_helpers 4 928) (stmts sample_block) (stmts sb')"
proof -
  obtain sb' where "instrument_block (dg_trick_handle_statement sample_config) 2 928 sample_block = Inr sb'"
    using trick_sane.instrument_block_sane [OF sample_trick_pre(1) sample_block_sane refl sample_trick_pre(3) sample_block_defs sample_trick_pre(2)]
    by (auto simp: trick_handle_eq)
  moreover have "list_all nonneg_offsets (stmts sample_block)" "length (tyenv sample_block) = 4"
    by (simp_all add: sample_block_def)
  ultimately show ?thesis
    using trick_instrument_transparent [of sample_config 928 sample_block sb'] by auto
qed

end
