(* ===== verification/DG_Derivatives.thy ===== *)
theory DG_Derivatives
  imports DG_Dot DG_Bar Complex_Main
begin

text \<open>
  What the operation rules compute, for scalar binary64 arithmetic: in exact real arithmetic, the expression that
  forward mode makes for the dot value of an expression is its derivative, and so straight-line code that has been instrumented carries
  derivatives along; the blocks that the calls added by the rules of recording mode write to the tape make up the same dot value.

  \<open>rval\<close> gives the real number that an expression denotes, without rounding, as the comments to \<^verbatim>\<open>IROp\<close> in
  \<^verbatim>\<open>VEX/pub/libvex_ir.h\<close> describe the operations; the bits of a number, as an integer, stand for the number. The value of the bits of a constant is the parameter
  \<open>c\<close>, of which \<open>exact_constants\<close> requires what the constants that appear in the rules stand for; other expressions have no
  specified value. Rounding, infinities and NaNs are outside of this theory.
\<close>

section \<open>Real values of expressions\<close>

text \<open>The places that hold numbers: temporaries, and the eight bytes at an offset of the guest state.\<close>

datatype loc = Tmp IRTemp | Reg int

fun shadow_loc :: "IRTemp \<Rightarrow> int \<Rightarrow> loc \<Rightarrow> loc" where
  "shadow_loc n g (Tmp t) = Tmp (t + n)"
| "shadow_loc n g (Reg off) = Reg (off + g)"

fun rval :: "(64 word \<Rightarrow> real) \<Rightarrow> (loc \<Rightarrow> real) \<Rightarrow> IRExpr \<Rightarrow> real" where
  "rval c v (IRExpr_RdTmp t) = v (Tmp t)"
| "rval c v (IRExpr_Get off ty) = v (Reg off)"
| "rval c v (IRExpr_Const (IRConst_F64 w)) = c w"
| "rval c v (IRExpr_Const (IRConst_F64i w)) = c w"
| "rval c v (IRExpr_Unop op a) =
     (if op = Iop_NegF64 then - rval c v a else if op = Iop_AbsF64 then \<bar>rval c v a\<bar>
      else if op = Iop_ReinterpF64asI64 \<or> op = Iop_ReinterpI64asF64 then rval c v a else undefined)"
| "rval c v (IRExpr_Binop op rm a) = (if op = Iop_SqrtF64 then sqrt (rval c v a) else undefined)"
| "rval c v (IRExpr_Triop op rm a b) =
     (if op = Iop_AddF64 then rval c v a + rval c v b
      else if op = Iop_SubF64 then rval c v a - rval c v b
      else if op = Iop_MulF64 then rval c v a * rval c v b
      else if op = Iop_DivF64 then rval c v a / rval c v b
      else if op = Iop_Yl2xF64 then rval c v a * log 2 (rval c v b)
      else if op = Iop_Yl2xp1F64 then rval c v a * log 2 (rval c v b + 1)
      else undefined)"
| "rval c v (IRExpr_Qop op rm a b d) =
     (if op = Iop_MAddF64 then rval c v a * rval c v b + rval c v d
      else if op = Iop_MSubF64 then rval c v a * rval c v b - rval c v d
      else undefined)"
| "rval c v (IRExpr_ITE (IRExpr_Unop op (IRExpr_Binop cmp x y)) a b) =
     (if op = Iop_32to1 \<and> cmp = Iop_CmpF64 then (if rval c v x < rval c v y then rval c v a else rval c v b) else undefined)"
| "rval c v _ = undefined"

definition exact_constants :: "(64 word \<Rightarrow> real) \<Rightarrow> bool" where
  "exact_constants c \<longleftrightarrow> c F64_zero = 0 \<and> c F64_one = 1 \<and> c F64_minus_one = - 1 \<and> c F64_two = 2 \<and> c F64_half = 1 / 2 \<and> c F64_ln2 = ln 2"

lemma exact_constantsD:
  "exact_constants c \<Longrightarrow> c F64_zero = 0" "exact_constants c \<Longrightarrow> c F64_one = 1" "exact_constants c \<Longrightarrow> c F64_minus_one = - 1"
  "exact_constants c \<Longrightarrow> c F64_two = 2" "exact_constants c \<Longrightarrow> c F64_half = 1 / 2" "exact_constants c \<Longrightarrow> c F64_ln2 = ln 2"
  by (simp_all add: exact_constants_def)

section \<open>Forward-mode rules\<close>

lemmas dot_rule_defs = dg_dot_operation_def dot_arith_def arith_layouts_def arith_ops_def op_case_def someM_def Let_def
  neg_table_def minmax_table_def fma_table_def sqrt_noroundingmode_def liftM_def returnM_def bindM_def upt_rec

lemma dot_rules:
  "dg_dot_operation Iop_NegF64 [Some a, None, None, None] [Some da, None, None, None] \<sigma> = Inr (Some (IRExpr_Unop Iop_NegF64 da), \<sigma>)"
  "dg_dot_operation Iop_AbsF64 [Some a, None, None, None] [Some da, None, None, None] \<sigma> =
     Inr (Some (dot_abs Iop_CmpF64 (IRConst_F64i 0) Iop_NegF64 a da), \<sigma>)"
  "dg_dot_operation Iop_SqrtF64 [Some rm, Some a, None, None] [m, Some da, None, None] \<sigma> =
     Inr (Some (IRExpr_Triop Iop_DivF64 rm da (IRExpr_Triop Iop_MulF64 rm (cF64 F64_two) (IRExpr_Binop Iop_SqrtF64 rm a))), \<sigma>)"
  "dg_dot_operation Iop_AddF64 [Some rm, Some a, Some b, None] [m, Some da, Some db, None] \<sigma> = Inr (Some (IRExpr_Triop Iop_AddF64 rm da db), \<sigma>)"
  "dg_dot_operation Iop_SubF64 [Some rm, Some a, Some b, None] [m, Some da, Some db, None] \<sigma> = Inr (Some (IRExpr_Triop Iop_SubF64 rm da db), \<sigma>)"
  "dg_dot_operation Iop_MulF64 [Some rm, Some a, Some b, None] [m, Some da, Some db, None] \<sigma> =
     Inr (Some (IRExpr_Triop Iop_AddF64 rm (IRExpr_Triop Iop_MulF64 rm da b) (IRExpr_Triop Iop_MulF64 rm db a)), \<sigma>)"
  "dg_dot_operation Iop_DivF64 [Some rm, Some a, Some b, None] [m, Some da, Some db, None] \<sigma> =
     Inr (Some (IRExpr_Triop Iop_DivF64 rm (IRExpr_Triop Iop_SubF64 rm (IRExpr_Triop Iop_MulF64 rm da b) (IRExpr_Triop Iop_MulF64 rm a db))
       (IRExpr_Triop Iop_MulF64 rm b b)), \<sigma>)"
  by (simp_all add: dot_rule_defs dot_mul_def dot_div_def dot_sqrt_def mkIRConst_fptwo_def cF64_def)

lemma dot_rules_log:
  "dg_dot_operation Iop_Yl2xF64 [Some rm, Some a, Some b, None] [m, Some da, Some db, None] \<sigma> =
     Inr (Some (dot_yl2x Iop_Yl2xF64 (\<lambda>i. [rm, a, b] ! (i - 1)) (\<lambda>i. [rm, da, db] ! (i - 1)) b), \<sigma>)"
  "dg_dot_operation Iop_Yl2xp1F64 [Some rm, Some a, Some b, None] [m, Some da, Some db, None] \<sigma> =
     Inr (Some (dot_yl2x Iop_Yl2xp1F64 (\<lambda>i. [rm, a, b] ! (i - 1)) (\<lambda>i. [rm, da, db] ! (i - 1)) (IRExpr_Triop Iop_AddF64 rm b (cF64 F64_one))), \<sigma>)"
  by (simp_all add: dot_rule_defs dot_yl2x_def cF64_def)

lemma dot_rules_fma:
  "dg_dot_operation Iop_MAddF64 [Some rm, Some a, Some b, Some d] [m, Some da, Some db, Some dd] \<sigma> =
     Inr (Some (dot_fma True 8 (\<lambda>i. [rm, a, b, d] ! (i - 1)) (\<lambda>i. [rm, da, db, dd] ! (i - 1))), \<sigma>)"
  "dg_dot_operation Iop_MSubF64 [Some rm, Some a, Some b, Some d] [m, Some da, Some db, Some dd] \<sigma> =
     Inr (Some (dot_fma False 8 (\<lambda>i. [rm, a, b, d] ! (i - 1)) (\<lambda>i. [rm, da, db, dd] ! (i - 1))), \<sigma>)"
  by (simp_all add: dot_rule_defs dot_fma_def)

section \<open>Derivatives\<close>

text \<open>
  \<open>smooth c v T e\<close>: the expression \<open>e\<close> consists of the operations above and reads numbers from the places
  \<open>T\<close>, and with the values \<open>v\<close> every operation is differentiable where it is applied.
\<close>

fun smooth :: "(64 word \<Rightarrow> real) \<Rightarrow> (loc \<Rightarrow> real) \<Rightarrow> loc set \<Rightarrow> IRExpr \<Rightarrow> bool" where
  "smooth c v T (IRExpr_RdTmp t) \<longleftrightarrow> Tmp t \<in> T"
| "smooth c v T (IRExpr_Get off ty) \<longleftrightarrow> ty = Ity_F64 \<and> Reg off \<in> T"
| "smooth c v T (IRExpr_Const (IRConst_F64 w)) \<longleftrightarrow> True"
| "smooth c v T (IRExpr_Const (IRConst_F64i w)) \<longleftrightarrow> True"
| "smooth c v T (IRExpr_Unop op a) \<longleftrightarrow> smooth c v T a \<and> (op = Iop_NegF64 \<or> op = Iop_AbsF64 \<and> rval c v a \<noteq> 0)"
| "smooth c v T (IRExpr_Binop op rm a) \<longleftrightarrow> isIRAtom rm \<and> smooth c v T a \<and> op = Iop_SqrtF64 \<and> 0 < rval c v a"
| "smooth c v T (IRExpr_Triop op rm a b) \<longleftrightarrow> isIRAtom rm \<and> smooth c v T a \<and> smooth c v T b
     \<and> (op \<in> {Iop_AddF64, Iop_SubF64, Iop_MulF64} \<or> op = Iop_DivF64 \<and> rval c v b \<noteq> 0
        \<or> op = Iop_Yl2xF64 \<and> 0 < rval c v b \<or> op = Iop_Yl2xp1F64 \<and> - 1 < rval c v b)"
| "smooth c v T (IRExpr_Qop op rm a b d) \<longleftrightarrow> isIRAtom rm \<and> smooth c v T a \<and> smooth c v T b \<and> smooth c v T d
     \<and> op \<in> {Iop_MAddF64, Iop_MSubF64}"
| "smooth c v T _ \<longleftrightarrow> False"

text \<open>The values of the places as functions of a parameter, and shadows that hold derivatives at \<open>x\<close>.\<close>

definition seeded :: "(real \<Rightarrow> loc \<Rightarrow> real) \<Rightarrow> real \<Rightarrow> (loc \<Rightarrow> loc) \<Rightarrow> loc set \<Rightarrow> bool" where
  "seeded \<rho> x sh T \<longleftrightarrow> (\<forall>l\<in>T. ((\<lambda>y. \<rho> y l) has_real_derivative \<rho> x (sh l)) (at x))"

lemma seededD: "seeded \<rho> x sh T \<Longrightarrow> l \<in> T \<Longrightarrow> ((\<lambda>y. \<rho> y l) has_real_derivative \<rho> x (sh l)) (at x)"
  by (simp add: seeded_def)

lemma DERIV_abs_nonzero:
  assumes "(f has_real_derivative d) (at x)" "f x \<noteq> 0"
  shows "((\<lambda>y. \<bar>f y\<bar>) has_real_derivative (if f x < 0 then - d else d)) (at x)"
proof -
  have "(f \<longlongrightarrow> f x) (nhds x)"
    using DERIV_isCont [OF assms(1)] by (simp add: isCont_def tendsto_at_iff_tendsto_nhds)
  show ?thesis
  proof (cases "f x < 0")
    case True
    then have "eventually (\<lambda>y. f y < 0) (nhds x)" using order_tendstoD(2) [OF \<open>(f \<longlongrightarrow> f x) (nhds x)\<close>] by simp
    then have "eventually (\<lambda>y. \<bar>f y\<bar> = - f y) (nhds x)" by eventually_elim simp
    then show ?thesis using DERIV_minus [OF assms(1)] True by (simp add: DERIV_cong_ev)
  next
    case False
    then have "0 < f x" using assms(2) by simp
    then have "eventually (\<lambda>y. 0 < f y) (nhds x)" using order_tendstoD(1) [OF \<open>(f \<longlongrightarrow> f x) (nhds x)\<close>] by simp
    then have "eventually (\<lambda>y. \<bar>f y\<bar> = f y) (nhds x)" by eventually_elim simp
    then show ?thesis using assms(1) False by (simp add: DERIV_cong_ev)
  qed
qed

lemma dot_atom: "isIRAtom rm \<Longrightarrow> \<exists>m. dg_modify_expression (dg_dot_expressionhandling cfg) rm \<sigma> = Inr (m, \<sigma>)"
  by (cases rm) (simp_all add: dg_dot_expressionhandling_def dg_dot_rdtmp_def dg_dot_constant_def someM_def bindM_def getM_def returnM_def)

text \<open>Each operation: if the shadows of the operands are the derivatives of their values, so is the result of the rule.\<close>

lemma deriv_ops:
  assumes "((\<lambda>y. rval c (\<rho> y) a) has_real_derivative rval c (\<rho> x) da) (at x)" "exact_constants c"
  shows "((\<lambda>y. rval c (\<rho> y) (IRExpr_Unop Iop_NegF64 a)) has_real_derivative rval c (\<rho> x) (IRExpr_Unop Iop_NegF64 da)) (at x)"
    "rval c (\<rho> x) a \<noteq> 0 \<Longrightarrow> ((\<lambda>y. rval c (\<rho> y) (IRExpr_Unop Iop_AbsF64 a)) has_real_derivative
        rval c (\<rho> x) (dot_abs Iop_CmpF64 (IRConst_F64i 0) Iop_NegF64 a da)) (at x)"
    "0 < rval c (\<rho> x) a \<Longrightarrow> ((\<lambda>y. rval c (\<rho> y) (IRExpr_Binop Iop_SqrtF64 rm a)) has_real_derivative
        rval c (\<rho> x) (IRExpr_Triop Iop_DivF64 rm da (IRExpr_Triop Iop_MulF64 rm (cF64 F64_two) (IRExpr_Binop Iop_SqrtF64 rm a)))) (at x)"
proof -
  show "((\<lambda>y. rval c (\<rho> y) (IRExpr_Unop Iop_NegF64 a)) has_real_derivative rval c (\<rho> x) (IRExpr_Unop Iop_NegF64 da)) (at x)"
    using DERIV_minus [OF assms(1)] by simp
  show "((\<lambda>y. rval c (\<rho> y) (IRExpr_Unop Iop_AbsF64 a)) has_real_derivative
      rval c (\<rho> x) (dot_abs Iop_CmpF64 (IRConst_F64i 0) Iop_NegF64 a da)) (at x)" if "rval c (\<rho> x) a \<noteq> 0"
    using DERIV_abs_nonzero [OF assms(1) that] assms(2) by (auto simp: dot_abs_def exact_constants_def F64_zero_def)
  show "((\<lambda>y. rval c (\<rho> y) (IRExpr_Binop Iop_SqrtF64 rm a)) has_real_derivative
      rval c (\<rho> x) (IRExpr_Triop Iop_DivF64 rm da (IRExpr_Triop Iop_MulF64 rm (cF64 F64_two) (IRExpr_Binop Iop_SqrtF64 rm a)))) (at x)"
    if "0 < rval c (\<rho> x) a"
    using assms(2) that by (auto intro!: derivative_eq_intros assms(1) simp: cF64_def exact_constants_def field_simps)
qed

lemma deriv_ops2:
  assumes A: "((\<lambda>y. rval c (\<rho> y) a) has_real_derivative rval c (\<rho> x) da) (at x)"
    and B: "((\<lambda>y. rval c (\<rho> y) b) has_real_derivative rval c (\<rho> x) db) (at x)"
    and c: "exact_constants c"
  shows "((\<lambda>y. rval c (\<rho> y) (IRExpr_Triop Iop_AddF64 rm a b)) has_real_derivative rval c (\<rho> x) (IRExpr_Triop Iop_AddF64 rm da db)) (at x)"
    "((\<lambda>y. rval c (\<rho> y) (IRExpr_Triop Iop_SubF64 rm a b)) has_real_derivative rval c (\<rho> x) (IRExpr_Triop Iop_SubF64 rm da db)) (at x)"
    "((\<lambda>y. rval c (\<rho> y) (IRExpr_Triop Iop_MulF64 rm a b)) has_real_derivative
       rval c (\<rho> x) (IRExpr_Triop Iop_AddF64 rm (IRExpr_Triop Iop_MulF64 rm da b) (IRExpr_Triop Iop_MulF64 rm db a))) (at x)"
    "rval c (\<rho> x) b \<noteq> 0 \<Longrightarrow> ((\<lambda>y. rval c (\<rho> y) (IRExpr_Triop Iop_DivF64 rm a b)) has_real_derivative
       rval c (\<rho> x) (IRExpr_Triop Iop_DivF64 rm (IRExpr_Triop Iop_SubF64 rm (IRExpr_Triop Iop_MulF64 rm da b) (IRExpr_Triop Iop_MulF64 rm a db))
       (IRExpr_Triop Iop_MulF64 rm b b))) (at x)"
    "0 < rval c (\<rho> x) b \<Longrightarrow> ((\<lambda>y. rval c (\<rho> y) (IRExpr_Triop Iop_Yl2xF64 rm a b)) has_real_derivative
       rval c (\<rho> x) (dot_yl2x Iop_Yl2xF64 (\<lambda>i. [rm, a, b] ! (i - 1)) (\<lambda>i. [rm, da, db] ! (i - 1)) b)) (at x)"
    "- 1 < rval c (\<rho> x) b \<Longrightarrow> ((\<lambda>y. rval c (\<rho> y) (IRExpr_Triop Iop_Yl2xp1F64 rm a b)) has_real_derivative
       rval c (\<rho> x) (dot_yl2x Iop_Yl2xp1F64 (\<lambda>i. [rm, a, b] ! (i - 1)) (\<lambda>i. [rm, da, db] ! (i - 1)) (IRExpr_Triop Iop_AddF64 rm b (cF64 F64_one)))) (at x)"
proof -
  show "((\<lambda>y. rval c (\<rho> y) (IRExpr_Triop Iop_AddF64 rm a b)) has_real_derivative rval c (\<rho> x) (IRExpr_Triop Iop_AddF64 rm da db)) (at x)"
    using DERIV_add [OF A B] by simp
  show "((\<lambda>y. rval c (\<rho> y) (IRExpr_Triop Iop_SubF64 rm a b)) has_real_derivative rval c (\<rho> x) (IRExpr_Triop Iop_SubF64 rm da db)) (at x)"
    using DERIV_diff [OF A B] by simp
  show "((\<lambda>y. rval c (\<rho> y) (IRExpr_Triop Iop_MulF64 rm a b)) has_real_derivative
       rval c (\<rho> x) (IRExpr_Triop Iop_AddF64 rm (IRExpr_Triop Iop_MulF64 rm da b) (IRExpr_Triop Iop_MulF64 rm db a))) (at x)"
    using DERIV_mult [OF A B] by (simp add: add.commute)
  show "((\<lambda>y. rval c (\<rho> y) (IRExpr_Triop Iop_DivF64 rm a b)) has_real_derivative
       rval c (\<rho> x) (IRExpr_Triop Iop_DivF64 rm (IRExpr_Triop Iop_SubF64 rm (IRExpr_Triop Iop_MulF64 rm da b) (IRExpr_Triop Iop_MulF64 rm a db))
       (IRExpr_Triop Iop_MulF64 rm b b))) (at x)" if "rval c (\<rho> x) b \<noteq> 0"
    using DERIV_divide [OF A B that] by simp
  have log_deriv: "((\<lambda>y. log 2 (f y)) has_real_derivative d / (ln 2 * f x)) (at x)" if "(f has_real_derivative d) (at x)" "0 < f x" for f d
    using that by (auto intro!: derivative_eq_intros simp: log_def field_simps)
  show "((\<lambda>y. rval c (\<rho> y) (IRExpr_Triop Iop_Yl2xF64 rm a b)) has_real_derivative
       rval c (\<rho> x) (dot_yl2x Iop_Yl2xF64 (\<lambda>i. [rm, a, b] ! (i - 1)) (\<lambda>i. [rm, da, db] ! (i - 1)) b)) (at x)" if "0 < rval c (\<rho> x) b"
    using DERIV_mult [OF A log_deriv [OF B that]] c by (simp add: dot_yl2x_def cF64_def exact_constants_def mult.commute add.commute)
  have one: "((\<lambda>y. rval c (\<rho> y) b + 1) has_real_derivative rval c (\<rho> x) db) (at x)"
    using DERIV_add [OF B DERIV_const [of 1]] by simp
  show "((\<lambda>y. rval c (\<rho> y) (IRExpr_Triop Iop_Yl2xp1F64 rm a b)) has_real_derivative
       rval c (\<rho> x) (dot_yl2x Iop_Yl2xp1F64 (\<lambda>i. [rm, a, b] ! (i - 1)) (\<lambda>i. [rm, da, db] ! (i - 1)) (IRExpr_Triop Iop_AddF64 rm b (cF64 F64_one)))) (at x)"
    if "- 1 < rval c (\<rho> x) b"
  proof -
    have "0 < rval c (\<rho> x) b + 1" using that by simp
    from DERIV_mult [OF A log_deriv [OF one this]] show ?thesis
      using c by (simp add: dot_yl2x_def cF64_def exact_constants_def mult.commute add.commute)
  qed
qed

lemma deriv_ops3:
  assumes A: "((\<lambda>y. rval c (\<rho> y) a) has_real_derivative rval c (\<rho> x) da) (at x)"
    and B: "((\<lambda>y. rval c (\<rho> y) b) has_real_derivative rval c (\<rho> x) db) (at x)"
    and D: "((\<lambda>y. rval c (\<rho> y) d) has_real_derivative rval c (\<rho> x) dd) (at x)"
  shows "((\<lambda>y. rval c (\<rho> y) (IRExpr_Qop Iop_MAddF64 rm a b d)) has_real_derivative
      rval c (\<rho> x) (dot_fma True 8 (\<lambda>i. [rm, a, b, d] ! (i - 1)) (\<lambda>i. [rm, da, db, dd] ! (i - 1)))) (at x)"
    "((\<lambda>y. rval c (\<rho> y) (IRExpr_Qop Iop_MSubF64 rm a b d)) has_real_derivative
      rval c (\<rho> x) (dot_fma False 8 (\<lambda>i. [rm, a, b, d] ! (i - 1)) (\<lambda>i. [rm, da, db, dd] ! (i - 1)))) (at x)"
  using DERIV_add [OF DERIV_mult [OF A B] D] DERIV_diff [OF DERIV_mult [OF A B] D]
  by (simp_all add: dot_fma_def mult.commute add.commute)

text \<open>The places of the guest state that an expression written at an offset covers.\<close>

fun put_places :: "int \<Rightarrow> IRExpr \<Rightarrow> loc set" where
  "put_places off (IRExpr_Const (IRConst_U128 _)) = {Reg off, Reg (off + 8)}"
| "put_places off (IRExpr_Const (IRConst_V128 _)) = {Reg off, Reg (off + 8)}"
| "put_places off (IRExpr_Const (IRConst_V256 _)) = {Reg off, Reg (off + 8), Reg (off + 16), Reg (off + 24)}"
| "put_places off _ = {Reg off}"

lemma one_place: "(\<And>con. e \<noteq> IRExpr_Const con) \<Longrightarrow> put_places off e = {Reg off}"
  by (cases "(off, e)" rule: put_places.cases) auto

text \<open>The dot value of an expression is its derivative, and it is a number.\<close>

lemma dot_expression:
  assumes "seeded \<rho> x (shadow_loc (tmp_offset \<sigma>) (gs_offset \<sigma>)) T" "exact_constants c"
  shows "smooth c (\<rho> x) T e \<Longrightarrow> \<exists>e'. dg_modify_expression (dg_dot_expressionhandling cfg) e \<sigma> = Inr (Some e', \<sigma>)
    \<and> ((\<lambda>y. rval c (\<rho> y) e) has_real_derivative rval c (\<rho> x) e') (at x) \<and> (\<forall>off. put_places off e' = {Reg off})"
proof (induction e)
  case (IRExpr_RdTmp t)
  then show ?case using seededD [OF assms(1), of "Tmp t"]
    by (simp add: dg_dot_expressionhandling_def dg_dot_rdtmp_def someM_def bindM_def getM_def returnM_def)
next
  case (IRExpr_Get off ty)
  then show ?case using seededD [OF assms(1), of "Reg off"]
    by (simp add: dg_dot_expressionhandling_def dg_dot_geti_def someM_def bindM_def getM_def returnM_def)
next
  case (IRExpr_Const con)
  then show ?case using assms(2)
    by (cases con) (simp_all add: dg_dot_expressionhandling_def dg_dot_constant_def someM_def bindM_def returnM_def exact_constants_def F64_zero_def)
next
  case (IRExpr_Unop op a)
  then obtain da where a: "dg_modify_expression (dg_dot_expressionhandling cfg) a \<sigma> = Inr (Some da, \<sigma>)"
    "((\<lambda>y. rval c (\<rho> y) a) has_real_derivative rval c (\<rho> x) da) (at x)" by auto
  show ?case using IRExpr_Unop.prems a(1) dot_rules deriv_ops(1,2) [OF a(2) assms(2)]
    by (auto simp: dg_dot_expressionhandling_def dot_abs_def dot_yl2x_def intro!: one_place)
next
  case (IRExpr_Binop op rm a)
  then obtain m da where a: "dg_modify_expression (dg_dot_expressionhandling cfg) rm \<sigma> = Inr (m, \<sigma>)"
    "dg_modify_expression (dg_dot_expressionhandling cfg) a \<sigma> = Inr (Some da, \<sigma>)"
    "((\<lambda>y. rval c (\<rho> y) a) has_real_derivative rval c (\<rho> x) da) (at x)" using dot_atom by fastforce
  show ?case using IRExpr_Binop.prems a(1,2) dot_rules deriv_ops(3) [OF a(3) assms(2)]
    by (auto simp: dg_dot_expressionhandling_def dot_abs_def dot_yl2x_def intro!: one_place)
next
  case (IRExpr_Triop op rm a b)
  then obtain m da db where a: "dg_modify_expression (dg_dot_expressionhandling cfg) rm \<sigma> = Inr (m, \<sigma>)"
    "dg_modify_expression (dg_dot_expressionhandling cfg) a \<sigma> = Inr (Some da, \<sigma>)" "dg_modify_expression (dg_dot_expressionhandling cfg) b \<sigma> = Inr (Some db, \<sigma>)"
    "((\<lambda>y. rval c (\<rho> y) a) has_real_derivative rval c (\<rho> x) da) (at x)" "((\<lambda>y. rval c (\<rho> y) b) has_real_derivative rval c (\<rho> x) db) (at x)"
    using dot_atom by fastforce
  show ?case using IRExpr_Triop.prems a(1-3) dot_rules dot_rules_log deriv_ops2 [OF a(4,5) assms(2)]
    by (auto simp: dg_dot_expressionhandling_def dot_abs_def dot_yl2x_def intro!: one_place)
next
  case (IRExpr_Qop op rm a b d)
  then obtain m da db dd where a: "dg_modify_expression (dg_dot_expressionhandling cfg) rm \<sigma> = Inr (m, \<sigma>)"
    "dg_modify_expression (dg_dot_expressionhandling cfg) a \<sigma> = Inr (Some da, \<sigma>)" "dg_modify_expression (dg_dot_expressionhandling cfg) b \<sigma> = Inr (Some db, \<sigma>)"
    "dg_modify_expression (dg_dot_expressionhandling cfg) d \<sigma> = Inr (Some dd, \<sigma>)"
    "((\<lambda>y. rval c (\<rho> y) a) has_real_derivative rval c (\<rho> x) da) (at x)" "((\<lambda>y. rval c (\<rho> y) b) has_real_derivative rval c (\<rho> x) db) (at x)"
    "((\<lambda>y. rval c (\<rho> y) d) has_real_derivative rval c (\<rho> x) dd) (at x)"
    using dot_atom by fastforce
  show ?case using IRExpr_Qop.prems a(1-4) dot_rules_fma deriv_ops3 [OF a(5-7)]
    by (auto simp: dg_dot_expressionhandling_def dot_fma_def intro!: one_place)
qed simp_all

section \<open>Straight-line blocks\<close>

text \<open>
  Running a block that consists of assignments, of writes to the guest state and of statements without effect on numbers.
  \<open>straight\<close> says that a block is of this kind, with the values \<open>v\<close> at its start: numbers are read from
  \<open>T\<close> and smooth there, temporaries are below \<open>n\<close>, and offsets into the guest state of \<open>g\<close> bytes are
  multiples of eight, so that different places do not overlap. A constant that is no number, such as an address, may be written to
  the guest state; the places that it covers, up to four for a constant of 32 bytes, then no longer hold numbers.
\<close>

fun exec :: "(64 word \<Rightarrow> real) \<Rightarrow> IRStmt \<Rightarrow> (loc \<Rightarrow> real) \<Rightarrow> loc \<Rightarrow> real" where
  "exec c (IRStmt_WrTmp t e) v = v(Tmp t := rval c v e)"
| "exec c (IRStmt_Put off e) v = (\<lambda>l. if l \<in> put_places off e then rval c v e else v l)"
| "exec c _ v = v"

definition run :: "(64 word \<Rightarrow> real) \<Rightarrow> IRStmt list \<Rightarrow> (loc \<Rightarrow> real) \<Rightarrow> loc \<Rightarrow> real" where
  "run c sts v = fold (exec c) sts v"

fun valid_loc :: "IRTemp \<Rightarrow> int \<Rightarrow> loc \<Rightarrow> bool" where
  "valid_loc n g (Tmp t) \<longleftrightarrow> t < n"
| "valid_loc n g (Reg off) \<longleftrightarrow> 0 \<le> off \<and> off + 8 \<le> g \<and> 8 dvd off"

fun no_number :: "IRExpr \<Rightarrow> bool" where
  "no_number (IRExpr_Const (IRConst_F64 _)) = False"
| "no_number (IRExpr_Const (IRConst_F64i _)) = False"
| "no_number (IRExpr_Const _) = True"
| "no_number _ = False"

fun straight :: "(64 word \<Rightarrow> real) \<Rightarrow> (loc \<Rightarrow> real) \<Rightarrow> IRTemp \<Rightarrow> int \<Rightarrow> loc set \<Rightarrow> IRStmt list \<Rightarrow> bool" where
  "straight c v n g T [] \<longleftrightarrow> True"
| "straight c v n g T (IRStmt_WrTmp t e # sts) \<longleftrightarrow>
     t < n \<and> smooth c v T e \<and> straight c (exec c (IRStmt_WrTmp t e) v) n g (insert (Tmp t) T) sts"
| "straight c v n g T (IRStmt_Put off e # sts) \<longleftrightarrow> (\<forall>l\<in>put_places off e. valid_loc n g l)
     \<and> (if no_number e then straight c (exec c (IRStmt_Put off e) v) n g (T - put_places off e) sts
        else smooth c v T e \<and> straight c (exec c (IRStmt_Put off e) v) n g (insert (Reg off) T) sts)"
| "straight c v n g T (IRStmt_IMark _ _ _ # sts) \<longleftrightarrow> straight c v n g T sts"
| "straight c v n g T (IRStmt_AbiHint _ _ _ # sts) \<longleftrightarrow> straight c v n g T sts"
| "straight c v n g T (IRStmt_NoOp # sts) \<longleftrightarrow> straight c v n g T sts"
| "straight c v n g T _ \<longleftrightarrow> False"

text \<open>The places that hold numbers after the block.\<close>

fun numbers_after :: "loc set \<Rightarrow> IRStmt list \<Rightarrow> loc set" where
  "numbers_after T [] = T"
| "numbers_after T (IRStmt_WrTmp t e # sts) = numbers_after (insert (Tmp t) T) sts"
| "numbers_after T (IRStmt_Put off e # sts) =
     numbers_after (if no_number e then T - put_places off e else insert (Reg off) T) sts"
| "numbers_after T (_ # sts) = numbers_after T sts"

lemma rval_cong: "smooth c v T e \<Longrightarrow> \<forall>l\<in>T. u l = u' l \<Longrightarrow> rval c u e = rval c u' e"
  by (induction c v T e rule: smooth.induct) auto

lemma smooth_cong: "smooth c v T e \<Longrightarrow> \<forall>l\<in>T. v l = v' l \<Longrightarrow> smooth c v' T e \<and> rval c v e = rval c v' e"
  by (induction c v T e rule: smooth.induct) auto

text \<open>
  One statement: forward mode adds statements that, followed by the statement itself, keep the derivatives in the
  shadows. \<open>\<eta>\<close> is the original run, \<open>\<rho>\<close> the instrumented one.
\<close>

definition tracks :: "IRTemp \<Rightarrow> int \<Rightarrow> loc set \<Rightarrow> real \<Rightarrow> (real \<Rightarrow> loc \<Rightarrow> real) \<Rightarrow> (real \<Rightarrow> loc \<Rightarrow> real) \<Rightarrow> bool" where
  "tracks n g T x \<eta> \<rho> \<longleftrightarrow> (\<forall>l\<in>T. valid_loc n g l) \<and> seeded \<rho> x (shadow_loc n g) T \<and> (\<forall>y l. valid_loc n g l \<longrightarrow> \<rho> y l = \<eta> y l)"

lemma shadow_loc_valid [simp]:
  "valid_loc n g l \<Longrightarrow> valid_loc n g l' \<Longrightarrow> shadow_loc n g l \<noteq> l'"
  "valid_loc n g l \<Longrightarrow> valid_loc n g l' \<Longrightarrow> shadow_loc n g l = shadow_loc n g l' \<longleftrightarrow> l = l'"
  by (cases l; cases l'; simp)+

lemma tracks_set:
  assumes "tracks n g T x \<eta> \<rho>" "valid_loc n g l" "T' \<subseteq> insert l T" "l \<in> T' \<Longrightarrow> (a has_real_derivative d x) (at x)"
  shows "tracks n g T' x (\<lambda>y. (\<eta> y)(l := a y)) (\<lambda>y. (\<rho> y)(shadow_loc n g l := d y, l := a y))"
proof -
  let ?\<rho> = "\<lambda>y. (\<rho> y)(shadow_loc n g l := d y, l := a y)"
  have T: "valid_loc n g k" if "k \<in> T'" for k using that assms(1-3) by (auto simp: tracks_def)
  have "((\<lambda>y. ?\<rho> y k) has_real_derivative ?\<rho> x (shadow_loc n g k)) (at x)" if k: "k \<in> T'" for k
  proof (cases "k = l")
    case True
    then show ?thesis using assms(2,4) k by simp
  next
    case False
    then have "k \<in> T" using k assms(3) by auto
    moreover have "shadow_loc n g l \<noteq> k" "shadow_loc n g k \<noteq> l" "shadow_loc n g k \<noteq> shadow_loc n g l"
      using T [OF k] assms(2) False by simp_all
    ultimately show ?thesis using assms(1) False by (auto simp: tracks_def seeded_def)
  qed
  moreover have "?\<rho> y k = ((\<eta> y)(l := a y)) k" if "valid_loc n g k" for y k
    using assms(1) shadow_loc_valid(1) [OF assms(2) that] that by (simp add: tracks_def)
  ultimately show ?thesis using T by (simp add: tracks_def seeded_def)
qed

lemma tracks_forget:
  assumes "tracks n g T x \<eta> \<rho>" "\<forall>l\<in>P. valid_loc n g l"
  shows "tracks n g (T - P) x (\<lambda>y l. if l \<in> P then a else \<eta> y l)
    (\<lambda>y l. if l \<in> P then a else if l \<in> shadow_loc n g ` P then d y else \<rho> y l)"
proof -
  have "shadow_loc n g l \<notin> shadow_loc n g ` P \<and> shadow_loc n g l \<notin> P \<and> l \<notin> shadow_loc n g ` P" if "valid_loc n g l" "l \<notin> P" for l
    using assms(2) that shadow_loc_valid by fastforce
  moreover have "l \<notin> shadow_loc n g ` P" if "valid_loc n g l" for l
    using assms(2) that shadow_loc_valid(1) by fastforce
  ultimately show ?thesis using assms(1) by (auto simp: tracks_def seeded_def)
qed

lemma tracks_cong: "tracks n g T x \<eta> \<rho> \<Longrightarrow> smooth c (\<eta> x) T e \<Longrightarrow> rval c (\<rho> y) e = rval c (\<eta> y) e \<and> smooth c (\<rho> x) T e"
  using rval_cong [of c "\<eta> x" T e] smooth_cong [of c "\<eta> x" T e "\<rho> x"] by (simp add: tracks_def)

text \<open>What the instrumentation of the two kinds of writes emits.\<close>

definition add_stmts :: "IRStmt list \<Rightarrow> DiffEnv \<Rightarrow> DiffEnv" where
  "add_stmts sts \<sigma> = \<sigma>\<lparr>sb_out := (sb_out \<sigma>)\<lparr>stmts := stmts (sb_out \<sigma>) @ sts\<rparr>, cas_succeeded := IRTemp_INVALID\<rparr>"

lemmas instrument_defs = instrument_stmt_def dg_dot_handle_statement_def dg_original_statement_def
  dg_modify_expression_or_default_def emit_def add_stmts_def addStmtToIRSB_def
  dg_dot_wrtmp_def dg_dot_puti_def seqM_def bindM_def modifyM_def getM_def returnM_def

lemma eh_dot [simp]: "wrtmp (dg_dot_expressionhandling cfg) = dg_dot_wrtmp" "puti (dg_dot_expressionhandling cfg) = dg_dot_puti"
  by (simp_all add: dg_dot_expressionhandling_def)

lemma instrument_write:
  assumes "dg_modify_expression (dg_dot_expressionhandling cfg) e (add_stmts [] \<sigma>) = Inr (Some e', add_stmts [] \<sigma>)"
  shows "instrument_stmt (dg_dot_handle_statement cfg) (IRStmt_WrTmp t e) \<sigma> =
      Inr ((), add_stmts [IRStmt_WrTmp (t + tmp_offset \<sigma>) e', IRStmt_WrTmp t e] \<sigma>)"
    "instrument_stmt (dg_dot_handle_statement cfg) (IRStmt_Put off e) \<sigma> =
      Inr ((), add_stmts [IRStmt_Put (off + gs_offset \<sigma>) e', IRStmt_Put off e] \<sigma>)"
  using assms by (simp_all add: instrument_defs)

lemma instrument_skip:
  "st \<in> {IRStmt_IMark a l d, IRStmt_AbiHint b m nia, IRStmt_NoOp} \<Longrightarrow>
    instrument_stmt (dg_dot_handle_statement cfg) st \<sigma> = Inr ((), add_stmts [st] \<sigma>)"
  by (auto simp: instrument_defs)

lemma add_stmts_offsets [simp]: "tmp_offset (add_stmts sts \<sigma>) = tmp_offset \<sigma>" "gs_offset (add_stmts sts \<sigma>) = gs_offset \<sigma>"
  "stmts (sb_out (add_stmts sts \<sigma>)) = stmts (sb_out \<sigma>) @ sts"
  by (simp_all add: add_stmts_def)

lemma dot_no_number: "no_number e \<Longrightarrow> \<exists>e'. dg_modify_expression (dg_dot_expressionhandling cfg) e \<sigma> = Inr (Some e', \<sigma>)
    \<and> put_places (off + g) e' = shadow_loc n g ` put_places off e \<and> (\<forall>v. rval c v e' = undefined)"
  by (cases e rule: no_number.cases)
     (simp_all add: dg_dot_expressionhandling_def dg_dot_constant_def someM_def bindM_def returnM_def ac_simps)

lemma tracks_write:
  assumes "tracks n g T x \<eta> \<rho>" "exact_constants c" "smooth c (\<eta> x) T e" "tmp_offset \<sigma> = n" "gs_offset \<sigma> = g" "valid_loc n g l"
  shows "\<exists>e'. dg_modify_expression (dg_dot_expressionhandling cfg) e (add_stmts [] \<sigma>) = Inr (Some e', add_stmts [] \<sigma>) \<and> (\<forall>off. put_places off e' = {Reg off})
    \<and> tracks n g (insert l T) x (\<lambda>y. (\<eta> y)(l := rval c (\<eta> y) e))
        (\<lambda>y. (\<rho> y)(shadow_loc n g l := rval c (\<rho> y) e', l := rval c ((\<rho> y)(shadow_loc n g l := rval c (\<rho> y) e')) e))"
proof -
  have seed: "seeded \<rho> x (shadow_loc (tmp_offset (add_stmts [] \<sigma>)) (gs_offset (add_stmts [] \<sigma>))) T"
    using assms(1,4,5) by (simp add: tracks_def)
  have cong: "rval c (\<rho> y) e = rval c (\<eta> y) e" "smooth c (\<rho> x) T e" for y using tracks_cong [OF assms(1,3)] by auto
  obtain e' where e': "dg_modify_expression (dg_dot_expressionhandling cfg) e (add_stmts [] \<sigma>) = Inr (Some e', add_stmts [] \<sigma>)"
    "((\<lambda>y. rval c (\<rho> y) e) has_real_derivative rval c (\<rho> x) e') (at x)" "\<forall>off. put_places off e' = {Reg off}"
    using dot_expression [OF seed assms(2) cong(2)] by blast
  have "shadow_loc n g l \<notin> T" using assms(1) shadow_loc_valid(1) [OF assms(6)] by (auto simp: tracks_def)
  then have "rval c ((\<rho> y)(shadow_loc n g l := d)) e = rval c (\<rho> y) e" for y d
    by (intro rval_cong [OF assms(3)]) auto
  then show ?thesis
    using e' tracks_set [OF assms(1,6) subset_refl, of "\<lambda>y. rval c (\<eta> y) e" "\<lambda>y. rval c (\<rho> y) e'"] by (auto simp: cong)
qed

lemma straight_step:
  assumes "straight c (\<eta> x) n g T (st # sts)" "tracks n g T x \<eta> \<rho>" "exact_constants c" "tmp_offset \<sigma> = n" "gs_offset \<sigma> = g"
  shows "\<exists>out T'. instrument_stmt (dg_dot_handle_statement cfg) st \<sigma> = Inr ((), add_stmts out \<sigma>)
    \<and> tracks n g T' x (\<lambda>y. exec c st (\<eta> y)) (\<lambda>y. run c out (\<rho> y))
    \<and> straight c (exec c st (\<eta> x)) n g T' sts \<and> numbers_after T (st # sts) = numbers_after T' sts"
proof (cases st)
  case (IRStmt_WrTmp t e)
  then obtain e' where e': "dg_modify_expression (dg_dot_expressionhandling cfg) e (add_stmts [] \<sigma>) = Inr (Some e', add_stmts [] \<sigma>)"
    "tracks n g (insert (Tmp t) T) x (\<lambda>y. (\<eta> y)(Tmp t := rval c (\<eta> y) e))
      (\<lambda>y. (\<rho> y)(Tmp (t + n) := rval c (\<rho> y) e', Tmp t := rval c ((\<rho> y)(Tmp (t + n) := rval c (\<rho> y) e')) e))"
    using assms tracks_write [OF assms(2,3) _ assms(4,5), where e = e and l = "Tmp t" and cfg = cfg] by auto
  show ?thesis
    using instrument_write(1) [OF e'(1), of t] e'(2) assms(1,4) IRStmt_WrTmp
    by (intro exI conjI) (auto simp: run_def)
next
  case (IRStmt_Put off e)
  show ?thesis
  proof (cases "no_number e")
    case True
    then obtain e' where e': "dg_modify_expression (dg_dot_expressionhandling cfg) e (add_stmts [] \<sigma>) = Inr (Some e', add_stmts [] \<sigma>)"
      "put_places (off + g) e' = shadow_loc n g ` put_places off e" "\<And>v. rval c v e' = undefined"
      using dot_no_number [of e cfg "add_stmts [] \<sigma>" off g n c] by blast
    have undef: "rval c v e = undefined" for v using True by (cases e rule: no_number.cases) simp_all
    show ?thesis
      using instrument_write(2) [OF e'(1), of off] e'(2) assms(1,5) IRStmt_Put True
        tracks_forget [OF assms(2), of "put_places off e" undefined "\<lambda>_. undefined"]
      by (intro exI [of _ "[IRStmt_Put (off + gs_offset \<sigma>) e', IRStmt_Put off e]"] exI [of _ "T - put_places off e"]) (auto simp: run_def undef e'(3) cong: if_cong)
  next
    case False
    then have one: "put_places off e = {Reg off}" using assms(1) IRStmt_Put by (cases e rule: no_number.cases) auto
    from False obtain e' where e': "dg_modify_expression (dg_dot_expressionhandling cfg) e (add_stmts [] \<sigma>) = Inr (Some e', add_stmts [] \<sigma>)"
      "tracks n g (insert (Reg off) T) x (\<lambda>y. (\<eta> y)(Reg off := rval c (\<eta> y) e))
        (\<lambda>y. (\<rho> y)(Reg (off + g) := rval c (\<rho> y) e', Reg off := rval c ((\<rho> y)(Reg (off + g) := rval c (\<rho> y) e')) e))"
      "\<And>off. put_places off e' = {Reg off}"
      using assms IRStmt_Put tracks_write [OF assms(2,3) _ assms(4,5), where e = e and l = "Reg off" and cfg = cfg] by (auto simp: one)
    show ?thesis
      using instrument_write(2) [OF e'(1), of off] e'(2) assms(1,5) IRStmt_Put False
      by (intro exI conjI) (auto simp: run_def one e'(3) fun_upd_def)
  qed
qed (use assms in \<open>auto simp: instrument_skip run_def intro!: exI [of _ "[st]"] exI [of _ T]\<close>)

lemma straight_instrumented:
  "\<lbrakk>straight c (\<eta> x) n g T sts; tracks n g T x \<eta> \<rho>; exact_constants c; tmp_offset \<sigma> = n; gs_offset \<sigma> = g\<rbrakk> \<Longrightarrow>
    \<exists>out \<sigma>'. iterM (instrument_stmt (dg_dot_handle_statement cfg)) sts \<sigma> = Inr ((), \<sigma>') \<and> stmts (sb_out \<sigma>') = stmts (sb_out \<sigma>) @ out
      \<and> tracks n g (numbers_after T sts) x (\<lambda>y. run c sts (\<eta> y)) (\<lambda>y. run c out (\<rho> y))"
proof (induction sts arbitrary: T \<eta> \<rho> \<sigma>)
  case Nil
  then show ?case by (auto simp: run_def returnM_def intro!: exI [of _ "[]"])
next
  case (Cons st sts)
  from straight_step [OF Cons.prems] obtain o1 T' where
    st: "instrument_stmt (dg_dot_handle_statement cfg) st \<sigma> = Inr ((), add_stmts o1 \<sigma>)"
      "tracks n g T' x (\<lambda>y. exec c st (\<eta> y)) (\<lambda>y. run c o1 (\<rho> y))" "straight c (exec c st (\<eta> x)) n g T' sts"
      "numbers_after T (st # sts) = numbers_after T' sts" by blast
  obtain o2 \<sigma>' where "iterM (instrument_stmt (dg_dot_handle_statement cfg)) sts (add_stmts o1 \<sigma>) = Inr ((), \<sigma>')"
      "stmts (sb_out \<sigma>') = stmts (sb_out \<sigma>) @ o1 @ o2"
      "tracks n g (numbers_after T' sts) x (\<lambda>y. run c sts (exec c st (\<eta> y))) (\<lambda>y. run c o2 (run c o1 (\<rho> y)))"
    using Cons.IH [OF st(3,2), of "add_stmts o1 \<sigma>"] Cons.prems(3-5) by auto
  with st show ?case by (intro exI [of _ "o1 @ o2"] exI [of _ \<sigma>']) (simp add: seqM_def bindM_def run_def)
qed

text \<open>
  C1. Forward mode computes derivatives: take a straight-line block of binary64 operations that starts with an instruction mark, and
  let the numbers it starts with depend on a parameter, with their derivatives in the shadow temporaries and the shadow guest state.
  Instrumenting the block succeeds; the instrumented block computes the numbers of the original block, and it leaves the
  derivative of each number in the shadow of its place. The operations are negation, absolute value, square root, the four
  arithmetic operations, fused multiply-add and -subtract and the two logarithms of x87, each applied where it is differentiable,
  in exact arithmetic.
\<close>

theorem dot_block_derivative:
  assumes "stmts sb = IRStmt_IMark a len delta # sts" "exact_constants c" "\<forall>l\<in>T. valid_loc (length (tyenv sb)) gs_size l"
    "\<forall>l\<in>T. ((\<lambda>y. \<rho> y l) has_real_derivative \<rho> x (shadow_loc (length (tyenv sb)) gs_size l)) (at x)"
    "straight c (\<rho> x) (length (tyenv sb)) gs_size T sts"
  shows "\<exists>sb'. instrument_block (dg_dot_handle_statement cfg) 1 gs_size sb = Inr sb'
    \<and> (\<forall>y l. valid_loc (length (tyenv sb)) gs_size l \<longrightarrow> run c (stmts sb') (\<rho> y) l = run c (stmts sb) (\<rho> y) l)
    \<and> (\<forall>l\<in>numbers_after T (stmts sb). ((\<lambda>y. run c (stmts sb) (\<rho> y) l) has_real_derivative
          run c (stmts sb') (\<rho> x) (shadow_loc (length (tyenv sb)) gs_size l)) (at x))"
proof -
  define n where "n = length (tyenv sb)"
  have tr: "tracks n gs_size T x \<rho> \<rho>" using assms(3,4) by (simp add: tracks_def seeded_def n_def)
  define \<sigma> where "\<sigma> = \<lparr>tmp_offset = n, gs_offset = gs_size,
    sb_out = (deepCopyIRSBExceptStmts sb)\<lparr>tyenv := add_shadow_temps (tyenv sb) (tyenv sb)\<rparr>, cas_succeeded = IRTemp_INVALID\<rparr>"
  have st: "straight c (\<rho> x) n gs_size T (stmts sb)" using assms(1,5) by (simp add: n_def)
  obtain out \<sigma>' where out: "iterM (instrument_stmt (dg_dot_handle_statement cfg)) (stmts sb) \<sigma> = Inr ((), \<sigma>')"
      "stmts (sb_out \<sigma>') = out"
      "tracks n gs_size (numbers_after T (stmts sb)) x (\<lambda>y. run c (stmts sb) (\<rho> y)) (\<lambda>y. run c out (\<rho> y))"
    using straight_instrumented [OF st tr assms(2), of \<sigma> cfg] by (auto simp: \<sigma>_def deepCopyIRSBExceptStmts_def)
  have "instrument_block (dg_dot_handle_statement cfg) 1 gs_size sb = Inr (sb_out \<sigma>')"
    using out(1) assms(1) by (simp add: instrument_block_def Let_def \<sigma>_def deepCopyIRSBExceptStmts_def bindE_def n_def)
  moreover from out(3) have "((\<lambda>y. run c (stmts sb) (\<rho> y) l) has_real_derivative run c out (\<rho> x) (shadow_loc n gs_size l)) (at x)"
    if "l \<in> numbers_after T (stmts sb)" for l
    using that by (auto simp: tracks_def seeded_def)
  ultimately show ?thesis using out(2,3) by (auto simp: n_def tracks_def)
qed

definition exact_values :: "64 word \<Rightarrow> real" where
  "exact_values w = (if w = F64_one then 1 else if w = F64_minus_one then - 1 else if w = F64_two then 2
     else if w = F64_half then 1 / 2 else if w = F64_ln2 then ln 2 else 0)"

definition square_block :: IRSB where
  "square_block =
    \<lparr>tyenv = [Ity_F64, Ity_F64],
     stmts = [IRStmt_IMark 4096 4 0,
              IRStmt_WrTmp 0 (IRExpr_Get 224 Ity_F64),
              IRStmt_WrTmp 1 (IRExpr_Triop Iop_MulF64 (IRExpr_Const (IRConst_U32 0)) (IRExpr_RdTmp 0) (IRExpr_RdTmp 0)),
              IRStmt_Put 224 (IRExpr_RdTmp 1),
              IRStmt_Put 184 (IRExpr_Const (IRConst_U64 4100))],
     sb_next = IRExpr_Const (IRConst_U64 4100), jumpkind = Ijk_Boring, offsIP = 184\<rparr>"

lemma exact_values_ok: "exact_constants exact_values"
  by (simp add: exact_constants_def exact_values_def F64_zero_def F64_one_def F64_minus_one_def F64_two_def F64_half_def F64_ln2_def)

theorem dot_block_derivative_witness:
  "\<exists>sb'. instrument_block (dg_dot_handle_statement \<lparr>build_32bit = False, shadow_mem_buffer = 65536\<rparr>) 1 928 square_block = Inr sb'
    \<and> ((\<lambda>y. run exact_values (stmts square_block) ((\<lambda>l. if l = Reg 1152 then 1 else y)) (Reg 224)) has_real_derivative
        run exact_values (stmts sb') (\<lambda>l. if l = Reg 1152 then 1 else 3) (Reg 1152)) (at 3)
    \<and> run exact_values (stmts square_block) (\<lambda>l. if l = Reg 1152 then 1 else 3) (Reg 224) = 9"
proof -
  let ?\<rho> = "\<lambda>(y::real) l. if l = Reg 1152 then 1 else y"
  have n: "length (tyenv square_block) = 2" and sts: "stmts square_block = IRStmt_IMark 4096 4 0 # tl (stmts square_block)"
    by (simp_all add: square_block_def)
  have valid: "\<forall>l\<in>{Reg 224}. valid_loc 2 928 l" by simp
  have seed: "\<forall>l\<in>{Reg 224}. ((\<lambda>y. ?\<rho> y l) has_real_derivative ?\<rho> 3 (shadow_loc 2 928 l)) (at 3)" by simp
  have straight: "straight exact_values (?\<rho> 3) 2 928 {Reg 224} (tl (stmts square_block))" by (simp add: square_block_def)
  from dot_block_derivative [OF sts exact_values_ok, unfolded n, OF valid seed straight]
  obtain sb' where "instrument_block (dg_dot_handle_statement \<lparr>build_32bit = False, shadow_mem_buffer = 65536\<rparr>) 1 928 square_block = Inr sb'"
    "\<forall>l\<in>numbers_after {Reg 224} (stmts square_block). ((\<lambda>y. run exact_values (stmts square_block) (?\<rho> y) l) has_real_derivative
          run exact_values (stmts sb') (?\<rho> 3) (shadow_loc 2 928 l)) (at 3)" by blast
  moreover have "Reg 224 \<in> numbers_after {Reg 224} (stmts square_block)"
    "run exact_values (stmts square_block) (?\<rho> 3) (Reg 224) = 9" by (simp_all add: square_block_def run_def)
  ultimately show ?thesis by (intro exI [of _ sb'] conjI) (auto dest!: bspec)
qed

section \<open>Partial derivatives on the tape\<close>

text \<open>
  The calls with which instrumented code adds blocks to the tape: the temporary that receives the new index, the
  two layers of each of the two indices, and the two partial derivatives. \<open>tape_dot\<close> runs through them with a function \<open>\<delta>\<close>
  that gives the dot value of a variable from the expressions for the layers of its index: the new variable gets the sum of the
  partial derivatives, each multiplied with the dot value of its operand.
\<close>

fun tape_entry :: "IRStmt \<Rightarrow> (IRTemp \<times> layers \<times> layers \<times> IRExpr \<times> IRExpr) option" where
  "tape_entry (IRStmt_Dirty d) =
     (case (cee d, args d) of
        (Some c, [i1Lo, i1Hi, i2Lo, i2Hi, diff1, diff2]) \<Rightarrow>
          if cee_name c = Some ''dg_bar_writeToTape_call'' then Some (tmp d, (i1Lo, i1Hi), (i2Lo, i2Hi), diff1, diff2) else None
      | _ \<Rightarrow> None)"
| "tape_entry _ = None"

definition tape_entries :: "IRStmt list \<Rightarrow> (IRTemp \<times> layers \<times> layers \<times> IRExpr \<times> IRExpr) list" where
  "tape_entries sts = List.map_filter tape_entry sts"

definition result_index :: "IRTemp \<Rightarrow> layers" where
  "result_index t = (widen32 (IRExpr_Unop Iop_64to32 (IRExpr_RdTmp t)), widen32 (IRExpr_Unop Iop_64HIto32 (IRExpr_RdTmp t)))"

fun tape_dot :: "(64 word \<Rightarrow> real) \<Rightarrow> (loc \<Rightarrow> real) \<Rightarrow> (layers \<Rightarrow> real) \<Rightarrow> (IRTemp \<times> layers \<times> layers \<times> IRExpr \<times> IRExpr) list \<Rightarrow> layers \<Rightarrow> real" where
  "tape_dot c v \<delta> [] = \<delta>"
| "tape_dot c v \<delta> ((t, i1, i2, diff1, diff2) # es) =
     tape_dot c v (\<delta>(result_index t := rval c v diff1 * \<delta> i1 + rval c v diff2 * \<delta> i2)) es"

lemma tape_entries_append: "tape_entries (xs @ ys) = tape_entries xs @ tape_entries ys"
  by (simp add: tape_entries_def List.map_filter_def)

abbreviation as_I64 :: "layers \<Rightarrow> layers" where
  "as_I64 \<equiv> map_layers (IRExpr_Unop Iop_ReinterpF64asI64)"

abbreviation as_F64 :: "layers \<Rightarrow> layers" where
  "as_F64 \<equiv> map_layers (IRExpr_Unop Iop_ReinterpI64asF64)"

lemma writeToTape_run:
  "\<exists>sts \<sigma>'. dg_bar_writeToTape rv i j p q val \<sigma> = Inr (result_index (length (tyenv (sb_out \<sigma>))), \<sigma>')
    \<and> stmts (sb_out \<sigma>') = stmts (sb_out \<sigma>) @ sts
    \<and> tape_entries sts = [(length (tyenv (sb_out \<sigma>)), i, j, IRExpr_Unop Iop_ReinterpF64asI64 p, IRExpr_Unop Iop_ReinterpF64asI64 q)]"
  by (simp add: dg_bar_writeToTape_def newTemp_def newIRTemp_def emit_helper_eq emit_def addStmtToIRSB_def seqM_def bindM_def modifyM_def
      returnM_def result_index_def tape_entries_def List.map_filter_def set_guard_def Let_def)

text \<open>
  \<open>records c v \<delta> x m \<sigma>\<close>: the code \<open>m\<close> adds blocks to the tape that make \<open>x\<close> the dot value of the variable
  whose index it returns.
\<close>

definition records :: "(64 word \<Rightarrow> real) \<Rightarrow> (loc \<Rightarrow> real) \<Rightarrow> (layers \<Rightarrow> real) \<Rightarrow> real \<Rightarrow> layers dgM \<Rightarrow> DiffEnv \<Rightarrow> bool" where
  "records c v \<delta> x m \<sigma> \<longleftrightarrow> (\<exists>t sts \<sigma>'. m \<sigma> = Inr (result_index t, \<sigma>') \<and> stmts (sb_out \<sigma>') = stmts (sb_out \<sigma>) @ sts
     \<and> tape_dot c v \<delta> (tape_entries sts) (result_index t) = x)"

lemma as_I64_fresh [simp]: "as_I64 i \<noteq> result_index t" "no_index \<noteq> result_index t"
  by (simp_all add: map_layers_def result_index_def widen32_def no_index_def both_def)

lemma record_component_run:
  assumes "exact_constants c" "\<delta> no_index = 0"
  shows "records c v \<delta> (rval c v p * \<delta> i) (record_component rv [i] [p] val) \<sigma>"
    "records c v \<delta> (rval c v p * \<delta> i + rval c v q * \<delta> j) (record_component rv [i, j] [p, q] val) \<sigma>"
    "i3 = as_I64 k \<Longrightarrow> records c v \<delta> (rval c v p * \<delta> i + rval c v q * \<delta> j + rval c v r * \<delta> i3) (record_component rv [i, j, i3] [p, q, r] val) \<sigma>"
proof -
  show "records c v \<delta> (rval c v p * \<delta> i) (record_component rv [i] [p] val) \<sigma>"
    using writeToTape_run [of rv i no_index p "cF64 F64_zero" val \<sigma>] assms
    by (fastforce simp: records_def record_component_def cF64_def exact_constantsD)
  show "records c v \<delta> (rval c v p * \<delta> i + rval c v q * \<delta> j) (record_component rv [i, j] [p, q] val) \<sigma>"
    using writeToTape_run [of rv i j p q val \<sigma>] by (fastforce simp: records_def record_component_def)
  assume i3: "i3 = as_I64 k"
  let ?t = "length (tyenv (sb_out \<sigma>))"
  obtain sts \<sigma>1 where first: "dg_bar_writeToTape rv i j p q (cF64 F64_zero) \<sigma> = Inr (result_index ?t, \<sigma>1)"
    "stmts (sb_out \<sigma>1) = stmts (sb_out \<sigma>) @ sts"
    "tape_entries sts = [(?t, i, j, IRExpr_Unop Iop_ReinterpF64asI64 p, IRExpr_Unop Iop_ReinterpF64asI64 q)]"
    using writeToTape_run [of rv i j p q "cF64 F64_zero" \<sigma>] by blast
  obtain sts2 \<sigma>2 where "dg_bar_writeToTape rv (result_index ?t) i3 (cF64 F64_one) r val \<sigma>1 = Inr (result_index (length (tyenv (sb_out \<sigma>1))), \<sigma>2)"
    "stmts (sb_out \<sigma>2) = stmts (sb_out \<sigma>1) @ sts2"
    "tape_entries sts2 = [(length (tyenv (sb_out \<sigma>1)), result_index ?t, i3, IRExpr_Unop Iop_ReinterpF64asI64 (cF64 F64_one), IRExpr_Unop Iop_ReinterpF64asI64 r)]"
    using writeToTape_run [of rv "result_index ?t" i3 "cF64 F64_one" r val \<sigma>1] by blast
  with first show "records c v \<delta> (rval c v p * \<delta> i + rval c v q * \<delta> j + rval c v r * \<delta> i3) (record_component rv [i, j, i3] [p, q, r] val) \<sigma>"
    unfolding records_def using assms(1) i3
    by (intro exI [of _ "length (tyenv (sb_out \<sigma>1))"] exI [of _ "sts @ sts2"] exI [of _ \<sigma>2])
      (simp add: record_component_def bindM_def tape_entries_append cF64_def exact_constantsD)
qed

text \<open>Operands and layers of type F64: \<^verbatim>\<open>createBarCode\<close> records the one component that they have.\<close>

definition F64_inputs :: "IRTypeEnv \<Rightarrow> (IRExpr \<times> layers) list \<Rightarrow> bool" where
  "F64_inputs env inputs \<longleftrightarrow> (\<forall>e\<in>set (concat (map (\<lambda>(x, lo, hi). [x, lo, hi]) inputs)). typeOfIRExpr env e = Inr Ity_F64)"

lemma component_F64:
  "\<forall>e\<in>set es. typeOfIRExpr env e = Inr Ity_F64 \<Longrightarrow> component_inputs 8 1 0 es env = Inr (map (IRExpr_Unop Iop_ReinterpF64asI64) es)"
  unfolding component_inputs_def
  by (induction es) (simp_all add: getSIMDComponent_def SIMD_as_int_def SIMD_extract_def prim_types ensure_def Let_def)

lemma triples_inputs:
  "triples (map f (concat (map (\<lambda>(x, lo, hi). [x, lo, hi]) inputs))) = map (\<lambda>(x, lo, hi). (f x, f lo, f hi)) inputs"
  by (induction inputs) auto

lemma createBarCode_F64:
  assumes "F64_inputs (tyenv (sb_out \<sigma>)) inputs" "apply_op op operands = Inr res" "\<And>env. typeOfIRExpr env res = Inr Ity_F64"
    "records c v \<delta> x (record_component rv (map (\<lambda>p. as_I64 (snd p)) inputs) (partials floats) (val floats)) \<sigma>"
    "floats = map (\<lambda>p. IRExpr_Unop Iop_ReinterpI64asF64 (IRExpr_Unop Iop_ReinterpF64asI64 (fst p))) inputs"
  shows "\<exists>t sts \<sigma>'. createBarCode rv op operands inputs partials val 8 1 False \<sigma> = Inr (as_F64 (result_index t), \<sigma>')
    \<and> stmts (sb_out \<sigma>') = stmts (sb_out \<sigma>) @ sts \<and> tape_dot c v \<delta> (tape_entries sts) (result_index t) = x"
proof -
  obtain t sts \<sigma>' where rec: "record_component rv (map (\<lambda>p. as_I64 (snd p)) inputs) (partials floats) (val floats) \<sigma> = Inr (result_index t, \<sigma>')"
    "stmts (sb_out \<sigma>') = stmts (sb_out \<sigma>) @ sts" "tape_dot c v \<delta> (tape_entries sts) (result_index t) = x"
    using assms(4) by (auto simp: records_def)
  let ?ins = "concat (map (\<lambda>(x, lo, hi). [x, lo, hi]) inputs)"
  have parts: "component_inputs 8 (Suc 0) 0 ?ins (tyenv (sb_out \<sigma>)) = Inr (map (IRExpr_Unop Iop_ReinterpF64asI64) ?ins)"
    by (rule component_F64 [unfolded One_nat_def]) (use assms(1) in \<open>simp add: F64_inputs_def\<close>)
  have body: "bar_body rv partials val 8 False 0 (map (IRExpr_Unop Iop_ReinterpF64asI64) ?ins) \<sigma> = Inr ([fst (result_index t), snd (result_index t)], \<sigma>')"
    using rec(1) unfolding assms(5)
    by (simp add: bar_body_def triples_inputs part_f_def comp_def case_prod_beta map_layers_def bindM_def returnM_def Let_def)
  have "createBarCode rv op operands inputs partials val 8 1 False \<sigma> = Inr (as_F64 (result_index t), \<sigma>')"
    using body assms(2,3)
    by (simp add: createBarCode_def componentwise_layers_def applyComponentwisely_def envM_def parts liftM_def component_outputs_def bindM_def returnM_def
        assembleSIMDVector_def SIMD_from_part_def SIMD_join_def ensure_def upt_rec result_index_def widen32_def prim_types
        reinterpret_layers_def typeM_def reinterpretType_def sizeofIRType_def map_layers_def Let_def)
  with rec(2,3) show ?thesis by blast
qed

definition F64_layout :: arith_layout where
  "F64_layout = hd arith_layouts"

lemma F64_layout_found:
  "op \<in> {Iop_AddF64, Iop_SubF64, Iop_MulF64, Iop_DivF64, Iop_SqrtF64} \<Longrightarrow> find (\<lambda>L. op \<in> set (arith_ops L)) arith_layouts = Some F64_layout"
  by (auto simp: F64_layout_def arith_layouts_def arith_ops_def)

lemma F64_layout_facts:
  "op \<in> {Iop_AddF64, Iop_SubF64, Iop_MulF64, Iop_DivF64} \<Longrightarrow> arith_inputs F64_layout op = [2, 3]"
  "arith_inputs F64_layout Iop_SqrtF64 = [2]" "fpsize F64_layout = 8" "simdsize F64_layout = 1" "\<not> llo F64_layout"
  by (auto simp: F64_layout_def arith_layouts_def arith_inputs_def sqrt_noroundingmode_def)

lemma bar_arith: "find (\<lambda>L. op \<in> set (arith_ops L)) arith_layouts = Some L \<Longrightarrow>
    dg_bar_operation cfg op as is = bar_case (record_values cfg) op (arith_nargs L op) (arith_inputs L op) as is (\<lambda>_. arith_partials L op)
      (\<lambda>_. arith_value L op) (fpsize L) (simdsize L) (llo L)"
  by (simp add: dg_bar_operation_def Let_def)

lemmas bar_rule_defs = dg_bar_operation_def bar_case_def op_case_def Let_def upt_rec

lemma bar_rules_arith:
  "op \<in> {Iop_AddF64, Iop_SubF64, Iop_MulF64, Iop_DivF64} \<Longrightarrow>
    dg_bar_operation cfg op [Some rm, Some a, Some b, None] [m, Some ia, Some ib, None] =
      someM (createBarCode (record_values cfg) op [rm, a, b] [(a, ia), (b, ib)] (arith_partials F64_layout op) (arith_value F64_layout op) 8 1 False)"
  "dg_bar_operation cfg Iop_SqrtF64 [Some rm, Some a, None, None] [m, Some ia, None, None] =
     someM (createBarCode (record_values cfg) Iop_SqrtF64 [rm, a] [(a, ia)] (arith_partials F64_layout Iop_SqrtF64) (arith_value F64_layout Iop_SqrtF64) 8 1 False)"
proof -
  show "dg_bar_operation cfg op [Some rm, Some a, Some b, None] [m, Some ia, Some ib, None] =
      someM (createBarCode (record_values cfg) op [rm, a, b] [(a, ia), (b, ib)] (arith_partials F64_layout op) (arith_value F64_layout op) 8 1 False)"
    if "op \<in> {Iop_AddF64, Iop_SubF64, Iop_MulF64, Iop_DivF64}"
    using F64_layout_facts(1) [of op] that
    by (subst bar_arith [OF F64_layout_found]) (auto simp: bar_case_def op_case_def arith_nargs_def upt_rec F64_layout_facts(3-5))
  show "dg_bar_operation cfg Iop_SqrtF64 [Some rm, Some a, None, None] [m, Some ia, None, None] =
     someM (createBarCode (record_values cfg) Iop_SqrtF64 [rm, a] [(a, ia)] (arith_partials F64_layout Iop_SqrtF64) (arith_value F64_layout Iop_SqrtF64) 8 1 False)"
    by (subst bar_arith [OF F64_layout_found]) (simp_all add: bar_case_def op_case_def arith_nargs_def upt_rec F64_layout_facts(2-5))
qed

lemma bar_rules:
  "dg_bar_operation cfg Iop_NegF64 [Some a, None, None, None] [Some ia, None, None, None] =
     someM (createBarCode (record_values cfg) Iop_NegF64 [a] [(a, ia)] (\<lambda>_. [cF64 F64_minus_one]) (\<lambda>xs. IRExpr_Unop Iop_NegF64 (xs ! 0)) 8 1 False)"
  "dg_bar_operation cfg Iop_AbsF64 [Some a, None, None, None] [Some ia, None, None, None] =
     someM (createBarCode (record_values cfg) Iop_AbsF64 [a] [(a, ia)] (bar_abs_partials (IRConst_F64i 0)) (\<lambda>xs. IRExpr_Unop Iop_AbsF64 (xs ! 0)) 8 1 False)"
  "dg_bar_operation cfg Iop_Yl2xF64 [Some rm, Some a, Some b, None] [m, Some ia, Some ib, None] =
     someM (createBarCode (record_values cfg) Iop_Yl2xF64 [rm, a, b] [(a, ia), (b, ib)]
       (\<lambda>_. bar_yl2x_partials Iop_Yl2xF64 (\<lambda>i. the ([Some rm, Some a, Some b, None] ! (i - 1))) b) (\<lambda>_. IRExpr_Triop Iop_Yl2xF64 rm a b) 8 1 False)"
  "dg_bar_operation cfg Iop_Yl2xp1F64 [Some rm, Some a, Some b, None] [m, Some ia, Some ib, None] =
     someM (createBarCode (record_values cfg) Iop_Yl2xp1F64 [rm, a, b] [(a, ia), (b, ib)]
       (\<lambda>_. bar_yl2x_partials Iop_Yl2xp1F64 (\<lambda>i. the ([Some rm, Some a, Some b, None] ! (i - 1))) (IRExpr_Triop Iop_AddF64 rm b (cF64 F64_one)))
       (\<lambda>_. IRExpr_Triop Iop_Yl2xp1F64 rm a b) 8 1 False)"
  by (simp_all add: bar_rule_defs arith_layouts_def arith_ops_def neg_table_def minmax_table_def fma_table_def numeral_2_eq_2 numeral_3_eq_3)

lemma bar_rules_fma:
  "dg_bar_operation cfg Iop_MAddF64 [Some rm, Some a, Some b, Some d] [m, Some ia, Some ib, Some ic] =
     someM (createBarCode (record_values cfg) Iop_MAddF64 [rm, a, b, d] [(a, ia), (b, ib), (d, ic)]
       (\<lambda>xs. [xs ! 1, xs ! 0, cF64 F64_one]) (\<lambda>xs. IRExpr_Qop Iop_MAddF64 rm (xs ! 0) (xs ! 1) (xs ! 2)) 8 1 False)"
  "dg_bar_operation cfg Iop_MSubF64 [Some rm, Some a, Some b, Some d] [m, Some ia, Some ib, Some ic] =
     someM (createBarCode (record_values cfg) Iop_MSubF64 [rm, a, b, d] [(a, ia), (b, ib), (d, ic)]
       (\<lambda>xs. [xs ! 1, xs ! 0, cF64 F64_minus_one]) (\<lambda>xs. IRExpr_Qop Iop_MSubF64 rm (xs ! 0) (xs ! 1) (xs ! 2)) 8 1 False)"
  by (simp_all add: bar_rule_defs arith_layouts_def arith_ops_def neg_table_def minmax_table_def fma_table_def)

text \<open>
  \<open>agrees c v \<delta> cfg op as ds is \<sigma>\<close>: for the operands \<open>as\<close>, forward mode with the dot values \<open>ds\<close> and
  recording mode with the indices \<open>is\<close> both succeed, the latter with a new variable, whose dot value according to the
  blocks that the added statements write to the tape is the dot value that the former computes.
\<close>

definition agrees ::
    "(64 word \<Rightarrow> real) \<Rightarrow> (loc \<Rightarrow> real) \<Rightarrow> (layers \<Rightarrow> real) \<Rightarrow> Bar_Config \<Rightarrow> IROp \<Rightarrow> IRExpr option list \<Rightarrow> IRExpr option list \<Rightarrow> layers option list \<Rightarrow> DiffEnv \<Rightarrow> bool" where
  "agrees c v \<delta> cfg op as ds is \<sigma> \<longleftrightarrow> (\<exists>e t sts \<sigma>'. dg_dot_operation op as ds \<sigma> = Inr (Some e, \<sigma>)
     \<and> dg_bar_operation cfg op as is \<sigma> = Inr (Some (as_F64 (result_index t)), \<sigma>')
     \<and> stmts (sb_out \<sigma>') = stmts (sb_out \<sigma>) @ sts \<and> tape_dot c v \<delta> (tape_entries sts) (result_index t) = rval c v e)"

lemma agreesI:
  assumes "dg_bar_operation cfg op as is = someM (createBarCode (record_values cfg) op operands inputs partials val 8 1 False)"
    "dg_dot_operation op as ds \<sigma> = Inr (Some e, \<sigma>)" "F64_inputs (tyenv (sb_out \<sigma>)) inputs"
    "apply_op op operands = Inr res" "\<And>env. typeOfIRExpr env res = Inr Ity_F64"
    "floats = map (\<lambda>p. IRExpr_Unop Iop_ReinterpI64asF64 (IRExpr_Unop Iop_ReinterpF64asI64 (fst p))) inputs"
    "records c v \<delta> (rval c v e) (record_component (record_values cfg) (map (\<lambda>p. as_I64 (snd p)) inputs) (partials floats) (val floats)) \<sigma>"
  shows "agrees c v \<delta> cfg op as ds is \<sigma>"
proof -
  obtain t sts \<sigma>' where "createBarCode (record_values cfg) op operands inputs partials val 8 1 False \<sigma> = Inr (as_F64 (result_index t), \<sigma>')"
    "stmts (sb_out \<sigma>') = stmts (sb_out \<sigma>) @ sts" "tape_dot c v \<delta> (tape_entries sts) (result_index t) = rval c v e"
    using createBarCode_F64 [where partials = partials and val = val, OF assms(3-5,7,6)] by blast
  then show ?thesis unfolding agrees_def assms(1) using assms(2) by (intro exI [of _ e] exI [of _ t] exI [of _ sts] exI [of _ \<sigma>']) (simp add: someM_def bindM_def returnM_def)
qed

lemmas partials_defs = arith_partials_def bar_abs_partials_def bar_yl2x_partials_def F64_layout_def arith_layouts_def
  dot_abs_def dot_yl2x_def dot_fma_def less_test_def F64_op_def F64_sqrt_def cF64_def exact_constantsD F64_zero_def [symmetric]

lemma F64_inputs_Cons: "F64_inputs env ((x, lo, hi) # inputs) \<longleftrightarrow>
    typeOfIRExpr env x = Inr Ity_F64 \<and> typeOfIRExpr env lo = Inr Ity_F64 \<and> typeOfIRExpr env hi = Inr Ity_F64 \<and> F64_inputs env inputs"
  "F64_inputs env []"
  by (simp_all add: F64_inputs_def)

text \<open>The rules for one, two and three operands; the floats that the partial derivatives see are the reinterpreted operands.\<close>

abbreviation reinterpreted :: "IRExpr \<Rightarrow> IRExpr" where
  "reinterpreted x \<equiv> IRExpr_Unop Iop_ReinterpI64asF64 (IRExpr_Unop Iop_ReinterpF64asI64 x)"

lemma agrees_rules:
  assumes "exact_constants c" "\<delta> no_index = 0" "dg_dot_operation op as ds \<sigma> = Inr (Some e, \<sigma>)"
    "apply_op op operands = Inr res" "\<And>env. typeOfIRExpr env res = Inr Ity_F64"
  shows "dg_bar_operation cfg op as is = someM (createBarCode (record_values cfg) op operands [(a, ia)] partials val 8 1 False) \<Longrightarrow>
      F64_inputs (tyenv (sb_out \<sigma>)) [(a, ia)] \<Longrightarrow> partials [reinterpreted a] = [p] \<Longrightarrow>
      rval c v e = rval c v p * \<delta> (as_I64 ia) \<Longrightarrow> agrees c v \<delta> cfg op as ds is \<sigma>"
    "dg_bar_operation cfg op as is = someM (createBarCode (record_values cfg) op operands [(a, ia), (b, ib)] partials val 8 1 False) \<Longrightarrow>
      F64_inputs (tyenv (sb_out \<sigma>)) [(a, ia), (b, ib)] \<Longrightarrow> partials [reinterpreted a, reinterpreted b] = [p, q] \<Longrightarrow>
      rval c v e = rval c v p * \<delta> (as_I64 ia) + rval c v q * \<delta> (as_I64 ib) \<Longrightarrow> agrees c v \<delta> cfg op as ds is \<sigma>"
    "dg_bar_operation cfg op as is = someM (createBarCode (record_values cfg) op operands [(a, ia), (b, ib), (d, ic)] partials val 8 1 False) \<Longrightarrow>
      F64_inputs (tyenv (sb_out \<sigma>)) [(a, ia), (b, ib), (d, ic)] \<Longrightarrow> partials [reinterpreted a, reinterpreted b, reinterpreted d] = [p, q, r] \<Longrightarrow>
      rval c v e = rval c v p * \<delta> (as_I64 ia) + rval c v q * \<delta> (as_I64 ib) + rval c v r * \<delta> (as_I64 ic) \<Longrightarrow> agrees c v \<delta> cfg op as ds is \<sigma>"
proof -
  note rec = record_component_run [where c = c and \<delta> = \<delta> and v = v]
  show "agrees c v \<delta> cfg op as ds is \<sigma>"
    if "dg_bar_operation cfg op as is = someM (createBarCode (record_values cfg) op operands [(a, ia)] partials val 8 1 False)"
      "F64_inputs (tyenv (sb_out \<sigma>)) [(a, ia)]" "partials [reinterpreted a] = [p]" "rval c v e = rval c v p * \<delta> (as_I64 ia)"
    by (rule agreesI [OF that(1) assms(3) that(2) assms(4,5) refl]) (simp add: that(3,4) rec(1) [OF assms(1,2)])
  show "agrees c v \<delta> cfg op as ds is \<sigma>"
    if "dg_bar_operation cfg op as is = someM (createBarCode (record_values cfg) op operands [(a, ia), (b, ib)] partials val 8 1 False)"
      "F64_inputs (tyenv (sb_out \<sigma>)) [(a, ia), (b, ib)]" "partials [reinterpreted a, reinterpreted b] = [p, q]"
      "rval c v e = rval c v p * \<delta> (as_I64 ia) + rval c v q * \<delta> (as_I64 ib)"
    by (rule agreesI [OF that(1) assms(3) that(2) assms(4,5) refl]) (simp add: that(3,4) rec(2) [OF assms(1,2)])
  show "agrees c v \<delta> cfg op as ds is \<sigma>"
    if "dg_bar_operation cfg op as is = someM (createBarCode (record_values cfg) op operands [(a, ia), (b, ib), (d, ic)] partials val 8 1 False)"
      "F64_inputs (tyenv (sb_out \<sigma>)) [(a, ia), (b, ib), (d, ic)]" "partials [reinterpreted a, reinterpreted b, reinterpreted d] = [p, q, r]"
      "rval c v e = rval c v p * \<delta> (as_I64 ia) + rval c v q * \<delta> (as_I64 ib) + rval c v r * \<delta> (as_I64 ic)"
    by (rule agreesI [OF that(1) assms(3) that(2) assms(4,5) refl]) (simp add: that(3,4) rec(3) [OF assms(1,2) refl])
qed

text \<open>
  C8. Recording mode and forward mode agree, in exact real arithmetic: take operands and layers of indices of type F64, for
  negation, absolute value, square root, the four arithmetic operations, the two logarithms of x87 and fused multiply-add and
  -subtract. The recording-mode rule adds statements whose calls write blocks to the tape, and returns the layers of the index
  that the last of them assigns. If the blocks are read with the dot values of the operands' indices (zero for the index
  zero), each block giving the sum of its partial derivatives times the dot values of its operands, the dot value of the new index is
  the one that the forward-mode rule computes.
\<close>

theorem partials_agree_with_dot:
  assumes "exact_constants c" "\<delta> no_index = 0" "F64_inputs (tyenv (sb_out \<sigma>)) [(a, ia), (b, ib), (d, ic)]"
    "\<delta> (as_I64 ia) = rval c v da" "\<delta> (as_I64 ib) = rval c v db" "\<delta> (as_I64 ic) = rval c v dd"
  shows "(op \<in> {Iop_NegF64, Iop_AbsF64} \<longrightarrow>
        agrees c v \<delta> cfg op [Some a, None, None, None] [Some da, None, None, None] [Some ia, None, None, None] \<sigma>)
    \<and> (op = Iop_SqrtF64 \<longrightarrow> agrees c v \<delta> cfg op [Some rm, Some a, None, None] [m, Some da, None, None] [m', Some ia, None, None] \<sigma>)
    \<and> (op \<in> {Iop_AddF64, Iop_SubF64, Iop_MulF64, Iop_DivF64, Iop_Yl2xF64, Iop_Yl2xp1F64} \<longrightarrow>
        agrees c v \<delta> cfg op [Some rm, Some a, Some b, None] [m, Some da, Some db, None] [m', Some ia, Some ib, None] \<sigma>)
    \<and> (op \<in> {Iop_MAddF64, Iop_MSubF64} \<longrightarrow>
        agrees c v \<delta> cfg op [Some rm, Some a, Some b, Some d] [m, Some da, Some db, Some dd] [m', Some ia, Some ib, Some ic] \<sigma>)"
proof -
  have ins: "F64_inputs (tyenv (sb_out \<sigma>)) [(a, ia)]" "F64_inputs (tyenv (sb_out \<sigma>)) [(a, ia), (b, ib)]"
    using assms(3) by (cases ia; cases ib; cases ic; simp add: F64_inputs_Cons)+
  note rules = agrees_rules [where \<delta> = \<delta> and c = c and v = v, OF assms(1,2)]
  note facts = prim_types partials_defs assms(4-6) exact_constantsD [OF assms(1)]
  have neg: "agrees c v \<delta> cfg Iop_NegF64 [Some a, None, None, None] [Some da, None, None, None] [Some ia, None, None, None] \<sigma>"
    by (rule rules(1) [OF dot_rules(1) _ _ bar_rules(1) ins(1)]) (simp add: facts)+
  have abs: "agrees c v \<delta> cfg Iop_AbsF64 [Some a, None, None, None] [Some da, None, None, None] [Some ia, None, None, None] \<sigma>"
    by (rule rules(1) [OF dot_rules(2) _ _ bar_rules(2) ins(1)]) (simp add: facts)+
  have sqrt: "agrees c v \<delta> cfg Iop_SqrtF64 [Some rm, Some a, None, None] [m, Some da, None, None] [m', Some ia, None, None] \<sigma>"
    by (rule rules(1) [OF dot_rules(3) _ _ bar_rules_arith(2) ins(1)]) (simp add: facts)+
  have two: "agrees c v \<delta> cfg op [Some rm, Some a, Some b, None] [m, Some da, Some db, None] [m', Some ia, Some ib, None] \<sigma>"
    if "op \<in> {Iop_AddF64, Iop_SubF64, Iop_MulF64, Iop_DivF64, Iop_Yl2xF64, Iop_Yl2xp1F64}"
  proof -
    have "agrees c v \<delta> cfg Iop_AddF64 [Some rm, Some a, Some b, None] [m, Some da, Some db, None] [m', Some ia, Some ib, None] \<sigma>"
      by (rule rules(2) [OF dot_rules(4) _ _ bar_rules_arith(1) ins(2)]) (simp add: facts)+
    moreover have "agrees c v \<delta> cfg Iop_SubF64 [Some rm, Some a, Some b, None] [m, Some da, Some db, None] [m', Some ia, Some ib, None] \<sigma>"
      by (rule rules(2) [OF dot_rules(5) _ _ bar_rules_arith(1) ins(2)]) (simp add: facts)+
    moreover have "agrees c v \<delta> cfg Iop_MulF64 [Some rm, Some a, Some b, None] [m, Some da, Some db, None] [m', Some ia, Some ib, None] \<sigma>"
      by (rule rules(2) [OF dot_rules(6) _ _ bar_rules_arith(1) ins(2)]) (simp add: facts)+
    moreover have "agrees c v \<delta> cfg Iop_DivF64 [Some rm, Some a, Some b, None] [m, Some da, Some db, None] [m', Some ia, Some ib, None] \<sigma>"
      by (rule rules(2) [OF dot_rules(7) _ _ bar_rules_arith(1) ins(2)]) (simp add: facts diff_divide_distrib Let_def)+
    moreover have "agrees c v \<delta> cfg Iop_Yl2xF64 [Some rm, Some a, Some b, None] [m, Some da, Some db, None] [m', Some ia, Some ib, None] \<sigma>"
      by (rule rules(2) [OF dot_rules_log(1) _ _ bar_rules(3) ins(2)]) (simp add: facts)+
    moreover have "agrees c v \<delta> cfg Iop_Yl2xp1F64 [Some rm, Some a, Some b, None] [m, Some da, Some db, None] [m', Some ia, Some ib, None] \<sigma>"
      by (rule rules(2) [OF dot_rules_log(2) _ _ bar_rules(4) ins(2)]) (simp add: facts)+
    ultimately show ?thesis using that by auto
  qed
  have "agrees c v \<delta> cfg Iop_MAddF64 [Some rm, Some a, Some b, Some d] [m, Some da, Some db, Some dd] [m', Some ia, Some ib, Some ic] \<sigma>"
    by (rule rules(3) [OF dot_rules_fma(1) _ _ bar_rules_fma(1) assms(3)]) (simp add: facts)+
  moreover have "agrees c v \<delta> cfg Iop_MSubF64 [Some rm, Some a, Some b, Some d] [m, Some da, Some db, Some dd] [m', Some ia, Some ib, Some ic] \<sigma>"
    by (rule rules(3) [OF dot_rules_fma(2) _ _ bar_rules_fma(2) assms(3)]) (simp add: facts)+
  ultimately show ?thesis using neg abs sqrt two by blast
qed

text \<open>Three operands with two layers each, in a block to which nothing has been added yet.\<close>

definition three_operands :: DiffEnv where
  "three_operands = \<lparr>tmp_offset = 3, gs_offset = 928, sb_out = square_block\<lparr>tyenv := replicate 9 Ity_F64, stmts := []\<rparr>, cas_succeeded = IRTemp_INVALID\<rparr>"

theorem partials_agree_with_dot_witness:
  "agrees exact_values (\<lambda>_. 7) (\<lambda>i. if i = no_index then 0 else 1) \<lparr>build_32bit = False, shadow_mem_buffer = 65536, record_values = True, unhandled_ones = False\<rparr>
     Iop_DivF64 [Some (IRExpr_Const (IRConst_U32 0)), Some (IRExpr_RdTmp 0), Some (IRExpr_RdTmp 1), None]
     [None, Some (cF64 F64_one), Some (cF64 F64_one), None]
     [None, Some (IRExpr_RdTmp 3, IRExpr_RdTmp 6), Some (IRExpr_RdTmp 4, IRExpr_RdTmp 7), None] three_operands"
proof -
  let ?\<delta> = "\<lambda>i. if i = no_index then 0 else (1 :: real)"
  have zero: "?\<delta> no_index = 0" by simp
  have types: "F64_inputs (tyenv (sb_out three_operands)) [(IRExpr_RdTmp 0, IRExpr_RdTmp 3, IRExpr_RdTmp 6),
      (IRExpr_RdTmp 1, IRExpr_RdTmp 4, IRExpr_RdTmp 7), (IRExpr_RdTmp 2, IRExpr_RdTmp 5, IRExpr_RdTmp 8)]"
    by (simp add: three_operands_def F64_inputs_Cons typeOfIRTemp_def)
  have dot: "?\<delta> (as_I64 (IRExpr_RdTmp i, IRExpr_RdTmp j)) = rval exact_values (\<lambda>_. 7) (cF64 F64_one)" for i j
    by (simp add: map_layers_def no_index_def both_def cF64_def exact_constantsD [OF exact_values_ok])
  show ?thesis
    using partials_agree_with_dot [where \<delta> = ?\<delta> and v = "\<lambda>_. 7" and op = Iop_DivF64, OF exact_values_ok zero types dot dot dot] by blast
qed

end
