(* ===== verification/FP_Bits.thy ===== *)
theory FP_Bits
  imports DG_Prelude
begin

text \<open>
  The IEEE 754 numbers that the C sources obtain by reinterpreting integers
  (\<^verbatim>\<open>*(float*)&x\<close>, \<^verbatim>\<open>*(double*)&x\<close>). A number is the word that encodes it: 32 bits
  for binary32, 64 bits for binary64. \<open>fp_value\<close> is its value in units of half the smallest subnormal
  number, so that it is an integer; infinity gets the next value of the pattern, which lies above
  all finite numbers. NaNs are recognised by \<open>fp_nan\<close> and compare with nothing.
\<close>

definition sign_mask :: "'a::len word" where
  "sign_mask = push_bit (LENGTH('a) - 1) 1"

definition abs_mask :: "'a::len word" where
  "abs_mask = sign_mask - 1"

definition fp_sign :: "'a::len word \<Rightarrow> bool" where
  "fp_sign x = bit x (LENGTH('a) - 1)"

definition magnitude :: "'a::len word \<Rightarrow> nat" where
  "magnitude x = unat (take_bit (LENGTH('a) - 1) x)"

text \<open>The number of mantissa bits: 23 for \<^verbatim>\<open>float\<close>, 52 for \<^verbatim>\<open>double\<close>.\<close>

definition mant_bits :: "'a::len itself \<Rightarrow> nat" where
  "mant_bits _ = (if LENGTH('a) = 32 then 23 else 52)"

definition mag_value :: "nat \<Rightarrow> nat \<Rightarrow> nat" where
  "mag_value m n = (let e = n div 2 ^ m; f = n mod 2 ^ m in if e = 0 then 2 * f else (2 ^ m + f) * 2 ^ e)"

definition fp_value :: "'a::len word \<Rightarrow> int" where
  "fp_value x = (let v = int (mag_value (mant_bits TYPE('a)) (magnitude x)) in if fp_sign x then - v else v)"

definition fp_nan :: "'a::len word \<Rightarrow> bool" where
  "fp_nan x \<longleftrightarrow> magnitude x > (2 ^ (LENGTH('a) - 1 - mant_bits TYPE('a)) - 1) * 2 ^ mant_bits TYPE('a)"

definition fp_less :: "'a::len word \<Rightarrow> 'a word \<Rightarrow> bool" where
  "fp_less x y \<longleftrightarrow> \<not> fp_nan x \<and> \<not> fp_nan y \<and> fp_value x < fp_value y"

definition fp_leq :: "'a::len word \<Rightarrow> 'a word \<Rightarrow> bool" where
  "fp_leq x y \<longleftrightarrow> \<not> fp_nan x \<and> \<not> fp_nan y \<and> fp_value x \<le> fp_value y"

definition fp_neg :: "'a::len word \<Rightarrow> 'a word" where
  "fp_neg x = x XOR sign_mask"

section \<open>Masks\<close>

lemma bit_sign_mask: "bit (sign_mask :: 'a::len word) n \<longleftrightarrow> n = LENGTH('a) - 1"
  by (auto simp: sign_mask_def bit_simps)

lemma abs_mask_mask: "(abs_mask :: 'a::len word) = mask (LENGTH('a) - 1)"
  by (simp add: abs_mask_def sign_mask_def mask_eq_exp_minus_1 push_bit_eq_mult)

lemma bit_abs_mask: "bit (abs_mask :: 'a::len word) n \<longleftrightarrow> n < LENGTH('a) - 1"
  by (auto simp: abs_mask_mask bit_simps)

lemmas fp_masks = bit_sign_mask bit_abs_mask

lemma sign_mask_not_0 [simp]: "(sign_mask :: 'a::len word) \<noteq> 0"
  using bit_sign_mask [of "LENGTH('a) - 1", where 'a = 'a] by fastforce

lemma abs_not_sign [simp]: "(abs_mask :: 'a::len word) \<noteq> sign_mask"
  using bit_sign_mask [of "LENGTH('a) - 1", where 'a = 'a] bit_abs_mask [of "LENGTH('a) - 1", where 'a = 'a] by fastforce

lemma abs_not_ones [simp]: "(abs_mask :: 'a::len word) \<noteq> - 1"
proof
  assume "(abs_mask :: 'a word) = - 1"
  then have "bit (abs_mask :: 'a word) (LENGTH('a) - 1) \<longleftrightarrow> bit (- 1 :: 'a word) (LENGTH('a) - 1)" by simp
  then show False by (simp add: bit_abs_mask)
qed

lemma magnitude_masks:
  "magnitude (fp_neg x) = magnitude x" "magnitude (x AND abs_mask) = magnitude x"
  "magnitude (x OR sign_mask) = magnitude x"
proof -
  have "take_bit (LENGTH('a) - 1) (fp_neg x) = take_bit (LENGTH('a) - 1) x"
    by (rule bit_word_eqI) (auto simp: fp_neg_def fp_masks bit_simps)
  moreover have "take_bit (LENGTH('a) - 1) (x AND abs_mask) = take_bit (LENGTH('a) - 1) x"
    by (rule bit_word_eqI) (auto simp: fp_masks bit_simps)
  moreover have "take_bit (LENGTH('a) - 1) (x OR sign_mask) = take_bit (LENGTH('a) - 1) x"
    by (rule bit_word_eqI) (auto simp: fp_masks bit_simps)
  ultimately show "magnitude (fp_neg x) = magnitude x" "magnitude (x AND abs_mask) = magnitude x"
    "magnitude (x OR sign_mask) = magnitude x"
    by (simp_all add: magnitude_def)
qed

lemma sign_masks:
  "fp_sign (fp_neg x) \<longleftrightarrow> \<not> fp_sign x" "\<not> fp_sign (x AND abs_mask)" "fp_sign (x OR sign_mask)"
  by (auto simp: fp_sign_def fp_neg_def fp_masks bit_simps)

text \<open>The three sign manipulations on values: negation, absolute value, negative absolute value.\<close>

lemma fp_value_neg [simp]: "fp_value (fp_neg x) = - fp_value x"
  by (simp add: fp_value_def magnitude_masks sign_masks Let_def)

lemma fp_value_abs [simp]: "fp_value (x AND abs_mask) = \<bar>fp_value x\<bar>"
  by (simp add: fp_value_def magnitude_masks sign_masks Let_def)

lemma fp_value_nabs [simp]: "fp_value (x OR sign_mask) = - \<bar>fp_value x\<bar>"
  by (simp add: fp_value_def magnitude_masks sign_masks Let_def)

lemma fp_nan_masks [simp]: "fp_nan (fp_neg x) = fp_nan x" "fp_nan (x AND abs_mask) = fp_nan x" "fp_nan (x OR sign_mask) = fp_nan x"
  by (simp_all add: fp_nan_def magnitude_masks)

lemma fp_neg_neg [simp]: "fp_neg (fp_neg x) = x"
  by (simp add: fp_neg_def xor.assoc)

lemma fp_zero [simp]: "fp_value (0 :: 'a::len word) = 0" "\<not> fp_nan (0 :: 'a word)"
  by (simp_all add: fp_value_def fp_nan_def magnitude_def mag_value_def)

lemma fp_neg_0 [simp]: "fp_neg 0 = sign_mask"
  by (simp add: fp_neg_def)

section \<open>The encoding is monotone\<close>

lemma mag_value_less:
  assumes "n < n'" shows "mag_value m n < mag_value m n'"
proof -
  let ?e = "n div 2 ^ m" and ?f = "n mod 2 ^ m" and ?e' = "n' div 2 ^ m" and ?f' = "n' mod 2 ^ m"
  have f: "?f < 2 ^ m" "?f' < 2 ^ m" by simp_all
  have n: "n = ?e * 2 ^ m + ?f" "n' = ?e' * 2 ^ m + ?f'" by (simp_all add: div_mult_mod_eq)
  have le: "?e \<le> ?e'" using assms by (simp add: div_le_mono)
  show ?thesis
  proof (cases "?e = ?e'")
    case True
    then have "?f < ?f'" using assms n by (metis add_less_cancel_left)
    then show ?thesis using True by (simp add: mag_value_def Let_def)
  next
    case False
    then have e: "?e < ?e'" using le by simp
    have "mag_value m n < 2 ^ m * 2 ^ Suc ?e"
    proof (cases "?e = 0")
      case False
      have "(2 ^ m + ?f) * 2 ^ ?e < (2 ^ m + 2 ^ m) * 2 ^ ?e"
        using f(1) by (intro mult_strict_right_mono) auto
      then show ?thesis using False by (simp add: mag_value_def Let_def algebra_simps)
    qed (use f(1) in \<open>simp add: mag_value_def Let_def\<close>)
    also have "\<dots> \<le> 2 ^ m * 2 ^ ?e'"
      using e by (intro mult_le_mono power_increasing) auto
    also have "\<dots> \<le> mag_value m n'"
      using e by (simp add: mag_value_def Let_def)
    finally show ?thesis .
  qed
qed

lemma mag_value_less_iff: "mag_value m n < mag_value m n' \<longleftrightarrow> n < n'"
  by (metis mag_value_less linorder_neqE_nat order_less_asym order_less_irrefl)

lemma mag_value_eq_iff: "mag_value m n = mag_value m n' \<longleftrightarrow> n = n'"
  by (metis mag_value_less_iff linorder_neqE_nat order_less_irrefl)

text \<open>Comparison by sign and magnitude, the way it is evaluated.\<close>

definition fp_key :: "'a::len word \<Rightarrow> int" where
  "fp_key x = (if fp_sign x then - int (magnitude x) else int (magnitude x))"

lemma mag_value_0 [simp]: "mag_value m 0 = 0"
  by (simp add: mag_value_def)

lemma fp_value_less_iff: "fp_value x < fp_value y \<longleftrightarrow> fp_key x < fp_key y"
  for x y :: "'a::len word"
  using mag_value_less_iff [of "mant_bits TYPE('a)" "magnitude x" "magnitude y"]
    mag_value_less_iff [of "mant_bits TYPE('a)" "magnitude y" "magnitude x"]
    mag_value_eq_iff [of "mant_bits TYPE('a)" "magnitude x" 0] mag_value_eq_iff [of "mant_bits TYPE('a)" "magnitude y" 0]
  by (auto simp: fp_value_def fp_key_def Let_def)

lemma fp_less_code [code]: "fp_less x y \<longleftrightarrow> \<not> fp_nan x \<and> \<not> fp_nan y \<and> fp_key x < fp_key y"
  by (simp add: fp_less_def fp_value_less_iff)

lemma fp_leq_code [code]: "fp_leq x y \<longleftrightarrow> \<not> fp_nan x \<and> \<not> fp_nan y \<and> fp_key x \<le> fp_key y"
  by (simp add: fp_leq_def fp_value_less_iff not_less [symmetric])

lemma fp_less_irrefl [simp]: "\<not> fp_less x x"
  by (simp add: fp_less_def)

lemma fp_less_zero: "fp_less x 0 \<longleftrightarrow> \<not> fp_nan x \<and> fp_value x < 0" "fp_less 0 x \<longleftrightarrow> \<not> fp_nan x \<and> 0 < fp_value x"
  by (auto simp: fp_less_def)

section \<open>If-else chains\<close>

text \<open>
  The handlers of bitwise operations are chains of two macros, each of which handles its case or falls through, and a
  last branch.
\<close>

definition or_else :: "'b option \<Rightarrow> 'b option \<Rightarrow> 'b \<Rightarrow> 'b" where
  "or_else p q d = (case p of Some r \<Rightarrow> r | None \<Rightarrow> (case q of Some r \<Rightarrow> r | None \<Rightarrow> d))"

lemma or_else_simps [simp]: "or_else (Some r) q d = r" "or_else None (Some r) d = r" "or_else None None d = d"
  by (simp_all add: or_else_def)

end
