(* ===== verification/Dot_Bitwise.thy ===== *)
theory Dot_Bitwise
  imports FP_Bits
begin

text \<open>
  Forward-mode handling of bitwise logic (\<^verbatim>\<open>derivgrind/dot/dg_dot_bitwise.c\<close>) and of minimum
  and maximum (\<^verbatim>\<open>derivgrind/dot/dg_dot_minmax.c\<close>). Compilers implement absolute value,
  negative absolute value and negation of floating-point numbers by bitwise operations with a
  constant operand; the handlers recognise the constants and return the dot value of the result.

  A macro \<^verbatim>\<open>DG_HANDLE_...\<close> of the source is an if-else chain that returns or falls through;
  here it is an option, \<open>None\<close> for falling through. A dot value is a word that encodes a number.
\<close>

section \<open>The handlers\<close>

definition DG_HANDLE_AND :: "'a::len word \<Rightarrow> 'a word \<Rightarrow> 'a word \<Rightarrow> 'a word option" where
  "DG_HANDLE_AND x y yd =
     (if x = abs_mask then Some (if fp_less y 0 then fp_neg yd else yd)
      else if x = - 1 then Some yd
      else None)"

definition DG_HANDLE_OR :: "'a::len word \<Rightarrow> 'a word \<Rightarrow> 'a word \<Rightarrow> 'a word \<Rightarrow> 'a word option" where
  "DG_HANDLE_OR x xd y yd =
     (if x = sign_mask \<and> xd = 0 then Some (if fp_less 0 y then fp_neg yd else yd)
      else if x = 0 \<and> xd = 0 then Some yd
      else None)"

definition DG_HANDLE_XOR :: "'a::len word \<Rightarrow> 'a word \<Rightarrow> 'a word \<Rightarrow> 'a word option" where
  "DG_HANDLE_XOR x xd yd = (if x = sign_mask \<and> xd = 0 then Some (fp_neg yd) else None)"

definition DG_HANDLE_HALVES ::
    "(UInt \<Rightarrow> UInt \<Rightarrow> UInt \<Rightarrow> UInt \<Rightarrow> UInt) \<Rightarrow> ULong \<Rightarrow> ULong \<Rightarrow> ULong \<Rightarrow> ULong \<Rightarrow> ULong" where
  "DG_HANDLE_HALVES fun32 x xd y yd =
     join32 (fun32 (lo32 x) (lo32 xd) (lo32 y) (lo32 yd)) (fun32 (hi32 x) (hi32 xd) (hi32 y) (hi32 yd))"

definition dg_dot_bitwise_and32 :: "UInt \<Rightarrow> UInt \<Rightarrow> UInt \<Rightarrow> UInt \<Rightarrow> UInt" where
  "dg_dot_bitwise_and32 x xd y yd = or_else (DG_HANDLE_AND x y yd) (DG_HANDLE_AND y x xd) 0"

definition dg_dot_bitwise_and64 :: "ULong \<Rightarrow> ULong \<Rightarrow> ULong \<Rightarrow> ULong \<Rightarrow> ULong" where
  "dg_dot_bitwise_and64 x xd y yd =
     or_else (DG_HANDLE_AND x y yd) (DG_HANDLE_AND y x xd) (DG_HANDLE_HALVES dg_dot_bitwise_and32 x xd y yd)"

definition dg_dot_bitwise_or32 :: "UInt \<Rightarrow> UInt \<Rightarrow> UInt \<Rightarrow> UInt \<Rightarrow> UInt" where
  "dg_dot_bitwise_or32 x xd y yd = or_else (DG_HANDLE_OR x xd y yd) (DG_HANDLE_OR y yd x xd) 0"

definition dg_dot_bitwise_or64 :: "ULong \<Rightarrow> ULong \<Rightarrow> ULong \<Rightarrow> ULong \<Rightarrow> ULong" where
  "dg_dot_bitwise_or64 x xd y yd =
     or_else (DG_HANDLE_OR x xd y yd) (DG_HANDLE_OR y yd x xd) (DG_HANDLE_HALVES dg_dot_bitwise_or32 x xd y yd)"

definition dg_dot_bitwise_xor32 :: "UInt \<Rightarrow> UInt \<Rightarrow> UInt \<Rightarrow> UInt \<Rightarrow> UInt" where
  "dg_dot_bitwise_xor32 x xd y yd = or_else (DG_HANDLE_XOR x xd yd) (DG_HANDLE_XOR y yd xd) 0"

definition dg_dot_bitwise_xor64 :: "ULong \<Rightarrow> ULong \<Rightarrow> ULong \<Rightarrow> ULong \<Rightarrow> ULong" where
  "dg_dot_bitwise_xor64 x xd y yd =
     or_else (DG_HANDLE_XOR x xd yd) (DG_HANDLE_XOR y yd xd) (DG_HANDLE_HALVES dg_dot_bitwise_xor32 x xd y yd)"

definition dg_dot_arithmetic_min32 :: "ULong \<Rightarrow> ULong \<Rightarrow> ULong \<Rightarrow> ULong \<Rightarrow> ULong" where
  "dg_dot_arithmetic_min32 x xd y yd = (if fp_less (lo32 x) (lo32 y) then xd else yd)"

definition dg_dot_arithmetic_min64 :: "ULong \<Rightarrow> ULong \<Rightarrow> ULong \<Rightarrow> ULong \<Rightarrow> ULong" where
  "dg_dot_arithmetic_min64 x xd y yd = (if fp_less x y then xd else yd)"

definition dg_dot_arithmetic_max32 :: "ULong \<Rightarrow> ULong \<Rightarrow> ULong \<Rightarrow> ULong \<Rightarrow> ULong" where
  "dg_dot_arithmetic_max32 x xd y yd = (if fp_less (lo32 y) (lo32 x) then xd else yd)"

definition dg_dot_arithmetic_max64 :: "ULong \<Rightarrow> ULong \<Rightarrow> ULong \<Rightarrow> ULong \<Rightarrow> ULong" where
  "dg_dot_arithmetic_max64 x xd y yd = (if fp_less y x then xd else yd)"

section \<open>Derivatives of the sign manipulations\<close>

text \<open>
  \<open>scaled s r v\<close>: the dot value \<open>r\<close> of the result is \<open>s\<close> times the dot value \<open>v\<close> of the operand, where
  the factor \<open>s\<close> is 1 or -1.
\<close>

definition scaled :: "int \<Rightarrow> 'a::len word \<Rightarrow> 'a word \<Rightarrow> bool" where
  "scaled s r v \<longleftrightarrow> fp_value r = s * fp_value v \<and> (fp_nan r \<longleftrightarrow> fp_nan v)"

text \<open>
  The derivative of a sign manipulation \<open>f\<close> with value function \<open>F\<close> on the integers: at a nonzero
  operand, \<open>F\<close> is multiplication by a constant sign in a neighbourhood, and the dot value is scaled by
  this sign; zero is a kink, where either one-sided derivative will do.
\<close>

definition sign_derivative :: "(int \<Rightarrow> int) \<Rightarrow> 'a::len word \<Rightarrow> 'a word \<Rightarrow> 'a word \<Rightarrow> bool" where
  "sign_derivative F y r yd \<longleftrightarrow>
     (\<exists>s\<in>{1, - 1}. scaled s r yd \<and> F (fp_value y) = s * fp_value y \<and> (fp_value y \<noteq> 0 \<longrightarrow> (\<forall>v. sgn v = sgn (fp_value y) \<longrightarrow> F v = s * v)))"

lemma scaled_neg: "scaled (- 1) (fp_neg v) v" and scaled_id: "scaled 1 v v"
  by (simp_all add: scaled_def)

lemma HANDLE_AND_abs:
  assumes "\<not> fp_nan y"
  shows "\<exists>r. DG_HANDLE_AND abs_mask y yd = Some r \<and> sign_derivative abs y r yd"
proof (cases "fp_value y < 0")
  case True
  then have "\<forall>v. sgn v = sgn (fp_value y) \<longrightarrow> \<bar>v\<bar> = - 1 * v" by (auto simp: sgn_if split: if_splits)
  then show ?thesis
    using True assms scaled_neg [of yd]
    by (auto simp: DG_HANDLE_AND_def fp_less_zero sign_derivative_def)
next
  case False
  then have "fp_value y \<noteq> 0 \<longrightarrow> (\<forall>v. sgn v = sgn (fp_value y) \<longrightarrow> \<bar>v\<bar> = 1 * v)" by (auto simp: sgn_if split: if_splits)
  then show ?thesis
    using False assms scaled_id [of yd]
    by (auto simp: DG_HANDLE_AND_def fp_less_zero sign_derivative_def)
qed

lemma HANDLE_OR_nabs:
  assumes "\<not> fp_nan y"
  shows "\<exists>r. DG_HANDLE_OR sign_mask 0 y yd = Some r \<and> sign_derivative (\<lambda>v. - \<bar>v\<bar>) y r yd"
proof (cases "0 < fp_value y")
  case True
  then have "\<forall>v. sgn v = sgn (fp_value y) \<longrightarrow> - \<bar>v\<bar> = - 1 * v" by (auto simp: sgn_if split: if_splits)
  then show ?thesis
    using True assms scaled_neg [of yd]
    by (auto simp: DG_HANDLE_OR_def fp_less_zero sign_derivative_def)
next
  case False
  then have "fp_value y \<noteq> 0 \<longrightarrow> (\<forall>v. sgn v = sgn (fp_value y) \<longrightarrow> - \<bar>v\<bar> = 1 * v)" by (auto simp: sgn_if split: if_splits)
  then show ?thesis
    using False assms scaled_id [of yd]
    by (auto simp: DG_HANDLE_OR_def fp_less_zero sign_derivative_def)
qed

lemma HANDLE_XOR_neg: "\<exists>r. DG_HANDLE_XOR sign_mask 0 yd = Some r \<and> sign_derivative uminus y r yd"
  using scaled_neg [of yd] by (auto simp: DG_HANDLE_XOR_def sign_derivative_def)

lemma fp_xor_sign: "y XOR sign_mask = fp_neg y" "sign_mask XOR y = fp_neg y"
  by (simp_all add: fp_neg_def xor.commute)

lemma commuted_masks: "abs_mask AND y = y AND abs_mask" "sign_mask OR y = y OR sign_mask"
  by (simp_all add: and.commute or.commute)

section \<open>The constants are recognised on either side\<close>

text \<open>
  C25. Absolute value by bitwise and, binary64: with the constant 0b01...1 as one operand and a number
  that is not a NaN as the other, on either side, the bitwise operation computes the absolute value of the other operand, and the handler returns the
  derivative of the absolute value applied to the other operand's dot value.
\<close>

theorem dot_and64_is_abs:
  assumes "\<not> fp_nan y" "y \<noteq> abs_mask" "y \<noteq> - 1"
  shows "fp_value (abs_mask AND y) = \<bar>fp_value y\<bar>
    \<and> sign_derivative abs y (dg_dot_bitwise_and64 abs_mask xd y yd) yd
    \<and> sign_derivative abs y (dg_dot_bitwise_and64 y yd abs_mask xd) yd"
proof -
  obtain r where r: "DG_HANDLE_AND abs_mask y yd = Some r" "sign_derivative abs y r yd"
    using HANDLE_AND_abs [OF assms(1)] by blast
  have "DG_HANDLE_AND y abs_mask xd = None" using assms by (simp add: DG_HANDLE_AND_def)
  then show ?thesis
    using r by (simp add: dg_dot_bitwise_and64_def commuted_masks)
qed

theorem dot_and64_is_abs_witness:
  "\<not> fp_nan (0xC008000000000000 :: ULong)
   \<and> fp_value (abs_mask AND 0xC008000000000000 :: ULong) = \<bar>fp_value (0xC008000000000000 :: ULong)\<bar>
   \<and> sign_derivative abs 0xC008000000000000 (dg_dot_bitwise_and64 abs_mask 0 0xC008000000000000 0x3FF0000000000000) 0x3FF0000000000000"
proof -
  have "\<not> fp_nan (0xC008000000000000 :: ULong)" by (simp add: fp_nan_def magnitude_def mant_bits_def)
  moreover have "(0xC008000000000000 :: ULong) \<noteq> abs_mask" "(0xC008000000000000 :: ULong) \<noteq> - 1"
    by (simp_all add: abs_mask_def sign_mask_def)
  ultimately show ?thesis
    using dot_and64_is_abs [of "0xC008000000000000" 0 "0x3FF0000000000000"] by blast
qed

text \<open>
  C26. Negative absolute value by bitwise or, binary64: with the constant 0b10...0, whose dot value is
  zero, as either operand and a number that is not a NaN as the other, the operation computes the negative absolute
  value of the other operand and the handler returns its derivative; a zero with dot value zero is excluded as other operand.
\<close>

theorem dot_or64_is_nabs:
  assumes "\<not> fp_nan y" "\<not> (yd = 0 \<and> (y = sign_mask \<or> y = 0))"
  shows "fp_value (sign_mask OR y) = - \<bar>fp_value y\<bar>
    \<and> sign_derivative (\<lambda>v. - \<bar>v\<bar>) y (dg_dot_bitwise_or64 sign_mask 0 y yd) yd
    \<and> sign_derivative (\<lambda>v. - \<bar>v\<bar>) y (dg_dot_bitwise_or64 y yd sign_mask 0) yd"
proof -
  obtain r where r: "DG_HANDLE_OR sign_mask 0 y yd = Some r" "sign_derivative (\<lambda>v. - \<bar>v\<bar>) y r yd"
    using HANDLE_OR_nabs [OF assms(1)] by blast
  have "DG_HANDLE_OR y yd sign_mask 0 = None" using assms by (auto simp: DG_HANDLE_OR_def)
  then show ?thesis
    using r by (simp add: dg_dot_bitwise_or64_def commuted_masks)
qed

theorem dot_or64_is_nabs_witness:
  "fp_value (sign_mask OR 0x4008000000000000 :: ULong) = - \<bar>fp_value (0x4008000000000000 :: ULong)\<bar>
   \<and> sign_derivative (\<lambda>v. - \<bar>v\<bar>) 0x4008000000000000 (dg_dot_bitwise_or64 sign_mask 0 0x4008000000000000 0x3FF0000000000000) 0x3FF0000000000000"
proof -
  have "\<not> fp_nan (0x4008000000000000 :: ULong)" by (simp add: fp_nan_def magnitude_def mant_bits_def)
  then show ?thesis
    using dot_or64_is_nabs [of "0x4008000000000000" "0x3FF0000000000000"] by simp
qed

text \<open>
  C27. Negation by bitwise exclusive or, binary64: with the constant 0b10...0, whose dot value is zero,
  as first operand, or as second operand if the first is not this constant itself, the operation
  negates the other operand and the handler negates its dot value.
\<close>

theorem dot_xor64_is_neg:
  assumes "\<not> (y = sign_mask \<and> yd = 0)"
  shows "fp_value (sign_mask XOR y) = - fp_value y
    \<and> sign_derivative uminus y (dg_dot_bitwise_xor64 sign_mask 0 y yd) yd
    \<and> sign_derivative uminus y (dg_dot_bitwise_xor64 y yd sign_mask 0) yd"
proof -
  obtain r where r: "DG_HANDLE_XOR sign_mask 0 yd = Some r" "sign_derivative uminus y r yd"
    using HANDLE_XOR_neg by blast
  have "DG_HANDLE_XOR y yd 0 = None" using assms by (auto simp: DG_HANDLE_XOR_def)
  then show ?thesis
    using r by (simp add: dg_dot_bitwise_xor64_def fp_xor_sign)
qed

theorem dot_xor64_is_neg_witness:
  "fp_value (sign_mask XOR 0x4008000000000000 :: ULong) = - fp_value (0x4008000000000000 :: ULong)
   \<and> sign_derivative uminus 0x4008000000000000 (dg_dot_bitwise_xor64 0x4008000000000000 0x3FF0000000000000 sign_mask 0) 0x3FF0000000000000"
  using dot_xor64_is_neg [of "0x4008000000000000" "0x3FF0000000000000"] by simp

section \<open>Two binary32 numbers in one word\<close>

text \<open>
  A 64-bit word that is none of the 64-bit constants is treated as two binary32 numbers. \<open>lane32\<close>
  reads one of them.
\<close>

definition lane32 :: "bool \<Rightarrow> ULong \<Rightarrow> UInt" where
  "lane32 high x = (if high then hi32 x else lo32 x)"

lemma lane32_join: "lane32 high (join32 a b) = (if high then b else a)"
  by (simp add: lane32_def)

lemma lane32_halves:
  "lane32 high (DG_HANDLE_HALVES f x xd y yd) = f (lane32 high x) (lane32 high xd) (lane32 high y) (lane32 high yd)"
  by (simp add: DG_HANDLE_HALVES_def lane32_def)

text \<open>
  C28. Lanes: if no operand is one of the 64-bit constants that the handlers recognise, then in each 32-bit lane in which the first operand is the
  corresponding 32-bit constant and the second is not a NaN, the handlers give the derivative of the absolute value (and, magnitude
  mask), the negative absolute value (or, sign mask) or the negation (exclusive or, sign mask) of the second operand; for or and
  exclusive or provided that the dot value of the constant's lane is zero, which the handlers check. Lanes without such a
  constant are not covered.
\<close>

theorem dot_bitwise_lanes:
  assumes "x \<notin> {abs_mask, - 1, sign_mask, 0}" "y \<notin> {abs_mask, - 1, sign_mask, 0}" "\<not> fp_nan (lane32 high y)"
  shows "(lane32 high x = abs_mask \<longrightarrow>
            sign_derivative abs (lane32 high y) (lane32 high (dg_dot_bitwise_and64 x xd y yd)) (lane32 high yd))
    \<and> (lane32 high x = sign_mask \<and> lane32 high xd = 0 \<longrightarrow>
            sign_derivative (\<lambda>v. - \<bar>v\<bar>) (lane32 high y) (lane32 high (dg_dot_bitwise_or64 x xd y yd)) (lane32 high yd))
    \<and> (lane32 high x = sign_mask \<and> lane32 high xd = 0 \<longrightarrow>
            sign_derivative uminus (lane32 high y) (lane32 high (dg_dot_bitwise_xor64 x xd y yd)) (lane32 high yd))"
proof (intro conjI impI; (elim conjE)?)
  have none: "DG_HANDLE_AND x y yd = None" "DG_HANDLE_AND y x xd = None" "DG_HANDLE_OR x xd y yd = None" "DG_HANDLE_OR y yd x xd = None"
    "DG_HANDLE_XOR x xd yd = None" "DG_HANDLE_XOR y yd xd = None"
    using assms(1,2) by (auto simp: DG_HANDLE_AND_def DG_HANDLE_OR_def DG_HANDLE_XOR_def)
  show "sign_derivative abs (lane32 high y) (lane32 high (dg_dot_bitwise_and64 x xd y yd)) (lane32 high yd)"
    if "lane32 high x = abs_mask"
    using HANDLE_AND_abs [OF assms(3), of "lane32 high yd"] none that
    by (auto simp: dg_dot_bitwise_and64_def dg_dot_bitwise_and32_def lane32_halves)
  show "sign_derivative (\<lambda>v. - \<bar>v\<bar>) (lane32 high y) (lane32 high (dg_dot_bitwise_or64 x xd y yd)) (lane32 high yd)"
    if "lane32 high x = sign_mask" "lane32 high xd = 0"
    using HANDLE_OR_nabs [OF assms(3), of "lane32 high yd"] none that
    by (auto simp: dg_dot_bitwise_or64_def dg_dot_bitwise_or32_def lane32_halves)
  show "sign_derivative uminus (lane32 high y) (lane32 high (dg_dot_bitwise_xor64 x xd y yd)) (lane32 high yd)"
    if "lane32 high x = sign_mask" "lane32 high xd = 0"
    using HANDLE_XOR_neg [of "lane32 high yd" "lane32 high y"] none that
    by (auto simp: dg_dot_bitwise_xor64_def dg_dot_bitwise_xor32_def lane32_halves)
qed

theorem dot_bitwise_lanes_witness:
  "sign_derivative abs (0xC0400000 :: UInt) (lo32 (dg_dot_bitwise_and64 0x123456787FFFFFFF 0 0xC0400000 0x3F800000)) 0x3F800000"
proof -
  have l: "lo32 0x123456787FFFFFFF = abs_mask" "lo32 0xC0400000 = 0xC0400000" "lo32 0x3F800000 = 0x3F800000"
    by (simp_all add: lo32_def abs_mask_def sign_mask_def)
  have "\<not> fp_nan (0xC0400000 :: UInt)" by (simp add: fp_nan_def magnitude_def mant_bits_def)
  moreover have "(0x123456787FFFFFFF :: ULong) \<notin> {abs_mask, - 1, sign_mask, 0}" "(0xC0400000 :: ULong) \<notin> {abs_mask, - 1, sign_mask, 0}"
    by (simp_all add: abs_mask_def sign_mask_def)
  ultimately show ?thesis
    using dot_bitwise_lanes [of "0x123456787FFFFFFF" "0xC0400000" False 0 "0x3F800000"] by (simp add: lane32_def l)
qed

section \<open>Minimum and maximum\<close>

text \<open>
  C29. Minimum and maximum, binary64: without NaNs, the handlers return the dot value of an operand
  whose value is the minimum, respectively the maximum, of both values.
\<close>

theorem dot_minmax64_selects:
  assumes "\<not> fp_nan x" "\<not> fp_nan y"
  shows "(\<exists>(v, d)\<in>{(x, xd), (y, yd)}. fp_value v = min (fp_value x) (fp_value y) \<and> dg_dot_arithmetic_min64 x xd y yd = d)
    \<and> (\<exists>(v, d)\<in>{(x, xd), (y, yd)}. fp_value v = max (fp_value x) (fp_value y) \<and> dg_dot_arithmetic_max64 x xd y yd = d)"
  using assms by (auto simp: dg_dot_arithmetic_min64_def dg_dot_arithmetic_max64_def fp_less_def)

theorem dot_minmax64_selects_witness:
  "\<exists>(v, d)\<in>{(0x4008000000000000, 1), (0x3FF0000000000000 :: ULong, 2 :: ULong)}.
      fp_value v = min (fp_value (0x4008000000000000 :: ULong)) (fp_value (0x3FF0000000000000 :: ULong))
      \<and> dg_dot_arithmetic_min64 0x4008000000000000 1 0x3FF0000000000000 2 = d"
proof -
  have "\<not> fp_nan (0x4008000000000000 :: ULong)" "\<not> fp_nan (0x3FF0000000000000 :: ULong)"
    by (simp_all add: fp_nan_def magnitude_def mant_bits_def)
  then show ?thesis by (rule dot_minmax64_selects [THEN conjunct1])
qed

end
