(* ===== verification/Bar_Tape.thy ===== *)
theory Bar_Tape
  imports DG_Prelude
begin

text \<open>
  The tape of the recording mode (\<^verbatim>\<open>derivgrind/bar/dg_bar_tape.c\<close>). A tape is a sequence of
  blocks of four 64-bit words: the indices of two operands and the bits of two partial derivatives.
  The position of a block on the tape is the index of its result. The code keeps the current part
  of the tape in a buffer of \<^verbatim>\<open>BUFSIZE\<close> blocks, writes the buffer to the tape file whenever it is
  full, and the rest at the end; results of operations are optionally kept in a second buffer and file
  in the same way.

  The record \<open>tape_state\<close> holds the static variables of the file, the contents of the open files, the
  array \<^verbatim>\<open>dg_disable\<close> and the messages shown to the user; \<open>tape_config\<close> holds the options, which do not
  change after start-up. \<open>VG_(write)\<close>, whose result the code ignores, is taken to write everything.
  Fresh memory, whose contents are unspecified, is the field \<open>fresh_memory\<close> of the configuration.

  The refinement shows that the tape file is the list of recorded blocks, in order, for every number of
  operations below the range of the 64-bit index.
\<close>

section \<open>State\<close>

definition BUFSIZE :: ULong where
  "BUFSIZE = 1000000"

datatype tape_message =
    StopIndexReached ULong
  | UnwrappedResultUsed ULong

datatype tape_error = Cannot_open string

record tape_config =
  typegrind :: bool
  bar_record_values :: bool
  tape_in_ram :: bool
  recording_stop_indices :: "ULong list option"
  fresh_memory :: "ULong list"

record tape_state =
  nextindex :: ULong
  buffer_tape :: "ULong list"
  buffer_values :: "ULong list"
  fd_tape :: "ULong list"
  fd_values :: "ULong list"
  fp_inputs :: string
  fp_outputs :: string
  dg_disable :: "nat \<Rightarrow> 64 word"
  messages :: "tape_message list"
  overrun :: bool

section \<open>Operations\<close>

text \<open>
  Accesses to the words of a buffer below \<open>n\<close>. An access outside of the buffer, which in C corrupts or reads other memory, is kept
  in the field \<open>overrun\<close> of the state; in the lists of the model it has no other effect.
\<close>

definition access :: "nat \<Rightarrow> ULong list \<Rightarrow> tape_state \<Rightarrow> tape_state" where
  "access n buffer s = s\<lparr>overrun := overrun s \<or> length buffer < n\<rparr>"

text \<open>
  The loop over the 0-terminated array \<^verbatim>\<open>recording_stop_indices\<close>; the end of the list is the
  terminator, and a zero entry ends the loop as well.
\<close>

fun stop_messages :: "ULong \<Rightarrow> ULong list \<Rightarrow> tape_message list" where
  "stop_messages n [] = []"
| "stop_messages n (stop_index # rest) =
     (if stop_index = 0 then []
      else (if n = stop_index then [StopIndexReached n] else []) @ stop_messages n rest)"

definition tapeAddStatement_noActivityAnalysis ::
    "tape_config \<Rightarrow> nat \<Rightarrow> ULong \<Rightarrow> ULong \<Rightarrow> ULong \<Rightarrow> ULong \<Rightarrow> tape_state \<Rightarrow> ULong \<times> tape_state" where
  "tapeAddStatement_noActivityAnalysis cfg tid index1 index2 diff1 diff2 s =
     (if dg_disable s tid \<noteq> 0 then (if typegrind cfg then 0xffffffffffffffff else 0, s)
      else
        (let pos = unat (nextindex s mod BUFSIZE);
             s = access (4 * pos + 4) (buffer_tape s) s;
             s = s\<lparr>buffer_tape := (buffer_tape s)[4 * pos := index1, 4 * pos + 1 := index2, 4 * pos + 2 := diff1, 4 * pos + 3 := diff2]\<rparr>;
             s = (case recording_stop_indices cfg of
                    None \<Rightarrow> s
                  | Some xs \<Rightarrow> s\<lparr>messages := messages s @ stop_messages (nextindex s) xs\<rparr>);
             s = s\<lparr>nextindex := nextindex s + 1\<rparr>;
             s = (if nextindex s mod BUFSIZE = 0 then
                    (if tape_in_ram cfg then s\<lparr>buffer_tape := fresh_memory cfg\<rparr>
                     else (access (4 * unat BUFSIZE) (buffer_tape s) s)\<lparr>fd_tape := fd_tape s @ take (4 * unat BUFSIZE) (buffer_tape s)\<rparr>)
                  else s);
             s = (if index1 = 0xffffffffffffffff \<or> index2 = 0xffffffffffffffff then
                    s\<lparr>messages := messages s @ [UnwrappedResultUsed (nextindex s - 1)]\<rparr>
                  else s)
         in (if typegrind cfg then 0 else nextindex s - 1, s)))"

definition tapeAddStatement ::
    "tape_config \<Rightarrow> nat \<Rightarrow> ULong \<Rightarrow> ULong \<Rightarrow> ULong \<Rightarrow> ULong \<Rightarrow> tape_state \<Rightarrow> ULong \<times> tape_state" where
  "tapeAddStatement cfg tid index1 index2 diff1 diff2 s =
     (if index1 = 0 \<and> index2 = 0 \<and> \<not> typegrind cfg then (0, s)
      else tapeAddStatement_noActivityAnalysis cfg tid index1 index2 diff1 diff2 s)"

definition valuesAddStatement :: "ULong \<Rightarrow> tape_state \<Rightarrow> tape_state" where
  "valuesAddStatement value s =
     (let pos = unat ((nextindex s - 1) mod BUFSIZE);
          s = access (pos + 1) (buffer_values s) s;
          s = s\<lparr>buffer_values := (buffer_values s)[pos := value]\<rparr>
      in if nextindex s mod BUFSIZE = 0 then (access (unat BUFSIZE) (buffer_values s) s)\<lparr>fd_values := fd_values s @ take (unat BUFSIZE) (buffer_values s)\<rparr>
         else s)"

text \<open>
  Opening the four files; the parameter \<open>can_open\<close> says which paths \<^verbatim>\<open>VG_(fd_open)\<close> and
  \<^verbatim>\<open>VG_(fopen)\<close> can open, and a failure ends in a failing assertion.
\<close>

definition dg_bar_tape_initialize ::
    "tape_config \<Rightarrow> (string \<Rightarrow> bool) \<Rightarrow> string \<Rightarrow> tape_state \<Rightarrow> tape_error + tape_state" where
  "dg_bar_tape_initialize cfg can_open path s =
     bindE (ensure (can_open (path @ ''/dg-tape'')) (Cannot_open (path @ ''/dg-tape''))) (\<lambda>_.
     bindE (ensure (bar_record_values cfg \<longrightarrow> can_open (path @ ''/dg-values'')) (Cannot_open (path @ ''/dg-values''))) (\<lambda>_.
     bindE (ensure (can_open (path @ ''/dg-input-indices'')) (Cannot_open (path @ ''/dg-input-indices''))) (\<lambda>_.
     bindE (ensure (can_open (path @ ''/dg-output-indices'')) (Cannot_open (path @ ''/dg-output-indices''))) (\<lambda>_.
     Inr (s\<lparr>fd_tape := [],
            fd_values := if bar_record_values cfg then [] else fd_values s,
            fp_inputs := [], fp_outputs := [],
            buffer_tape := replicate (4 * unat BUFSIZE) 0,
            buffer_values := if bar_record_values cfg then replicate (unat BUFSIZE) 0 else buffer_values s\<rparr>)))))"

text \<open>The conversion \<^verbatim>\<open>%llu\<close> of \<^verbatim>\<open>VG_(fprintf)\<close>.\<close>

definition digit :: "nat \<Rightarrow> char" where
  "digit d = char_of (48 + d)"

fun decimal :: "nat \<Rightarrow> string" where
  "decimal n = (if n < 10 then [digit n] else decimal (n div 10) @ [digit (n mod 10)])"

declare decimal.simps [simp del]

definition dg_bar_tape_write_input_index :: "ULong \<Rightarrow> tape_state \<Rightarrow> tape_state" where
  "dg_bar_tape_write_input_index i s = s\<lparr>fp_inputs := fp_inputs s @ decimal (unat i) @ [CHR 0x0A]\<rparr>"

definition dg_bar_tape_write_output_index :: "ULong \<Rightarrow> tape_state \<Rightarrow> tape_state" where
  "dg_bar_tape_write_output_index i s = s\<lparr>fp_outputs := fp_outputs s @ decimal (unat i) @ [CHR 0x0A]\<rparr>"

definition dg_bar_tape_finalize :: "tape_config \<Rightarrow> tape_state \<Rightarrow> tape_state" where
  "dg_bar_tape_finalize cfg s =
     (let pos = unat (nextindex s mod BUFSIZE);
          s = (if pos > 0 then
                 (let s = (access (pos * 4) (buffer_tape s) s)\<lparr>fd_tape := fd_tape s @ take (pos * 4) (buffer_tape s)\<rparr>
                  in if bar_record_values cfg then (access pos (buffer_values s) s)\<lparr>fd_values := fd_values s @ take pos (buffer_values s)\<rparr> else s)
               else s)
      in s\<lparr>buffer_tape := [], buffer_values := if bar_record_values cfg then [] else buffer_values s\<rparr>)"

text \<open>The values of the static variables before \<^verbatim>\<open>dg_bar_tape_initialize\<close>.\<close>

definition tape_static :: tape_state where
  "tape_static = \<lparr>nextindex = 1, buffer_tape = [], buffer_values = [], fd_tape = [], fd_values = [],
     fp_inputs = [], fp_outputs = [], dg_disable = (\<lambda>_. 0), messages = [], overrun = False\<rparr>"

text \<open>
  The dirty helpers through which instrumented code records an operation
  (\<^verbatim>\<open>derivgrind/bar/dg_bar.c\<close>): the index of an operand is spread over the lower four bytes of its
  two shadow layers.
\<close>

definition dg_bar_writeToTape_call ::
    "tape_config \<Rightarrow> nat \<Rightarrow> ULong \<Rightarrow> ULong \<Rightarrow> ULong \<Rightarrow> ULong \<Rightarrow> ULong \<Rightarrow> ULong \<Rightarrow> tape_state \<Rightarrow> ULong \<times> tape_state" where
  "dg_bar_writeToTape_call cfg tid index1Lo index1Hi index2Lo index2Hi diff1 diff2 s =
     tapeAddStatement cfg tid (join32 (lo32 index1Lo) (lo32 index1Hi)) (join32 (lo32 index2Lo) (lo32 index2Hi)) diff1 diff2 s"

definition dg_bar_writeToTape_value_call :: "ULong \<Rightarrow> ULong \<Rightarrow> tape_state \<Rightarrow> tape_state" where
  "dg_bar_writeToTape_value_call value index s = (if index \<noteq> 0 then valuesAddStatement value s else s)"

text \<open>
  Recording one operation together with its value, as the client requests for new indices do
  (\<^verbatim>\<open>derivgrind/dg_main.c\<close>) and, with activity analysis, the two dirty helpers above.
\<close>

definition new_index ::
    "tape_config \<Rightarrow> nat \<Rightarrow> bool \<Rightarrow> ULong \<Rightarrow> ULong \<Rightarrow> ULong \<Rightarrow> ULong \<Rightarrow> ULong \<Rightarrow> tape_state \<Rightarrow> ULong \<times> tape_state" where
  "new_index cfg tid noActivityAnalysis index1 index2 diff1 diff2 value s =
     (let (newindex, s) =
        (if noActivityAnalysis then tapeAddStatement_noActivityAnalysis cfg tid index1 index2 diff1 diff2 s
         else tapeAddStatement cfg tid index1 index2 diff1 diff2 s)
      in (newindex, if bar_record_values cfg \<and> newindex \<noteq> 0 then valuesAddStatement value s else s))"

section \<open>Buffered output\<close>

text \<open>
  Both buffers follow one discipline: \<open>n\<close> items of \<open>k\<close> words each have been put out; those of the
  current round are in the buffer, and the earlier ones in the file.
\<close>

definition buffered :: "nat \<Rightarrow> nat \<Rightarrow> nat \<Rightarrow> ULong list \<Rightarrow> ULong list \<Rightarrow> ULong list \<Rightarrow> bool" where
  "buffered k m n file buf ws \<longleftrightarrow> length buf = k * m \<and> file @ take (k * (n mod m)) buf = ws"

lemma buffer_room:
  assumes "0 < m"
  shows "k * (n mod m) + k \<le> k * (m :: nat)"
proof -
  have "n mod m + 1 \<le> m" using assms by (simp add: Suc_leI)
  then have "k * (n mod m + 1) \<le> k * m" by (rule mult_le_mono2)
  then show ?thesis by (simp add: algebra_simps)
qed

lemma buffered_put:
  assumes "buffered k m n file buf ws" "0 < m" "length w = k"
  shows "buffered k m (Suc n) (if Suc n mod m = 0 then file @ take (k * m) (put_words (k * (n mod m)) w buf) else file)
      (put_words (k * (n mod m)) w buf) (ws @ w)"
proof -
  let ?b = "put_words (k * (n mod m)) w buf"
  have room: "k * (n mod m) + length w \<le> length buf"
    using assms buffer_room [of m k n] by (simp add: buffered_def)
  have len: "length ?b = k * m" using room assms(1) by (simp add: put_words_length buffered_def)
  have part: "file @ take (k * (n mod m) + k) ?b = ws @ w"
    using put_words_take [OF room] assms(1,3) by (simp add: buffered_def)
  show ?thesis
  proof (cases "Suc (n mod m) = m")
    case True
    then have "Suc n mod m = 0" "k * (n mod m) + k = k * m"
      using mult_Suc_right [of k "n mod m"] by (simp_all add: mod_Suc)
    then show ?thesis using part len by (simp add: buffered_def)
  next
    case False
    then have "Suc n mod m = Suc (n mod m)" by (simp add: mod_Suc)
    then show ?thesis using part len by (simp add: buffered_def add.commute)
  qed
qed

lemma buffered_flush: "buffered k m n file buf ws \<Longrightarrow> file @ take (k * (n mod m)) buf = ws"
  by (simp add: buffered_def)

section \<open>The abstract tape\<close>

text \<open>
  An abstract recording is the list of all recorded blocks with the values of their results. The block
  at position 0 is a dummy: index 0 means that a variable does not depend on any input.
\<close>

type_synonym tape_block = "ULong \<times> ULong \<times> ULong \<times> ULong"
type_synonym recording = "(tape_block \<times> ULong) list"

definition block_words :: "tape_block \<Rightarrow> ULong list" where
  "block_words b = (case b of (i1, i2, d1, d2) \<Rightarrow> [i1, i2, d1, d2])"

definition tape_words :: "recording \<Rightarrow> ULong list" where
  "tape_words xs = concat (map (block_words \<circ> fst) xs)"

definition empty_recording :: recording where
  "empty_recording = [((0, 0, 0, 0), 0)]"

definition spec_new_index :: "bool \<Rightarrow> ULong \<Rightarrow> ULong \<Rightarrow> ULong \<Rightarrow> ULong \<Rightarrow> ULong \<Rightarrow> recording \<Rightarrow> ULong \<times> recording" where
  "spec_new_index noActivityAnalysis i1 i2 d1 d2 v xs =
     (if \<not> noActivityAnalysis \<and> i1 = 0 \<and> i2 = 0 then (0, xs)
      else (of_nat (length xs), xs @ [((i1, i2, d1, d2), v)]))"

text \<open>
  \<open>represents cfg tid xs s\<close>: thread \<open>tid\<close> may record, and the buffers and files of \<open>s\<close> together hold the
  recording \<open>xs\<close>.
\<close>

definition represents :: "tape_config \<Rightarrow> nat \<Rightarrow> recording \<Rightarrow> tape_state \<Rightarrow> bool" where
  "represents cfg tid xs s \<longleftrightarrow>
     \<not> typegrind cfg \<and> \<not> tape_in_ram cfg \<and> 0 < length xs \<and> length xs < 2 ^ 64 \<and> nextindex s = of_nat (length xs) \<and> dg_disable s tid = 0
     \<and> buffered 4 (unat BUFSIZE) (length xs) (fd_tape s) (buffer_tape s) (tape_words xs)
     \<and> (bar_record_values cfg \<longrightarrow> buffered 1 (unat BUFSIZE) (length xs) (fd_values s) (buffer_values s) (map snd xs))"

lemma BUFSIZE_pos: "0 < unat BUFSIZE"
  by (simp add: BUFSIZE_def)

lemma unat_index: "n < 2 ^ 64 \<Longrightarrow> unat (of_nat n :: ULong) = n"
  by (simp add: unsigned_of_nat take_bit_nat_eq_self)

lemma buffer_position:
  assumes "n < 2 ^ 64"
  shows "unat ((of_nat n :: ULong) mod BUFSIZE) = n mod unat BUFSIZE"
  using assms by (simp add: unat_mod_distrib unat_index)

lemma buffer_full:
  assumes "n < 2 ^ 64"
  shows "(of_nat n :: ULong) mod BUFSIZE = 0 \<longleftrightarrow> n mod unat BUFSIZE = 0"
  by (metis assms buffer_position unat_eq_zero)

lemma tape_words_snoc: "tape_words (xs @ [((i1, i2, d1, d2), v)]) = tape_words xs @ [i1, i2, d1, d2]"
  by (simp add: tape_words_def block_words_def)

lemma tape_words_length: "length (tape_words xs) = 4 * length xs"
  by (induction xs) (auto simp: tape_words_def block_words_def split: prod.split)

lemma tape_words_nth: "i < length xs \<Longrightarrow> take 4 (drop (4 * i) (tape_words xs)) = block_words (fst (xs ! i))"
proof (induction xs arbitrary: i)
  case (Cons x xs)
  have "length (block_words (fst x)) = 4" by (simp add: block_words_def split: prod.split)
  then show ?case using Cons by (cases i) (simp_all add: tape_words_def)
qed simp

text \<open>The fields of the state after one block has been added by an enabled thread.\<close>

definition block_put :: "ULong \<Rightarrow> ULong \<Rightarrow> ULong \<Rightarrow> ULong \<Rightarrow> tape_state \<Rightarrow> ULong list" where
  "block_put i1 i2 d1 d2 s =
     (let p = 4 * unat (nextindex s mod BUFSIZE) in (buffer_tape s)[p := i1, p + 1 := i2, p + 2 := d1, p + 3 := d2])"

lemma add_fields:
  fixes cfg :: tape_config and i1 i2 d1 d2 :: ULong
  assumes "dg_disable s tid = 0"
  defines "r \<equiv> tapeAddStatement_noActivityAnalysis cfg tid i1 i2 d1 d2 s"
  shows "fst r = (if typegrind cfg then 0 else nextindex s)"
    "nextindex (snd r) = nextindex s + 1"
    "buffer_tape (snd r) = (if (nextindex s + 1) mod BUFSIZE = 0 \<and> tape_in_ram cfg then fresh_memory cfg else block_put i1 i2 d1 d2 s)"
    "fd_tape (snd r) = (if (nextindex s + 1) mod BUFSIZE = 0 \<and> \<not> tape_in_ram cfg
        then fd_tape s @ take (4 * unat BUFSIZE) (block_put i1 i2 d1 d2 s) else fd_tape s)"
    "buffer_values (snd r) = buffer_values s" "fd_values (snd r) = fd_values s" "dg_disable (snd r) = dg_disable s"
    "fp_inputs (snd r) = fp_inputs s" "fp_outputs (snd r) = fp_outputs s"
    "overrun (snd r) \<longleftrightarrow> overrun s \<or> length (buffer_tape s) < 4 * unat (nextindex s mod BUFSIZE) + 4
      \<or> (nextindex s + 1) mod BUFSIZE = 0 \<and> \<not> tape_in_ram cfg \<and> length (buffer_tape s) < 4 * unat BUFSIZE"
  using assms(1)
  by (auto simp: r_def tapeAddStatement_noActivityAnalysis_def block_put_def access_def Let_def split: option.split)

lemma add_block:
  assumes "\<not> typegrind cfg" "\<not> tape_in_ram cfg" "dg_disable s tid = 0" "nextindex s = of_nat n" "Suc n < 2 ^ 64"
    "buffered 4 (unat BUFSIZE) n (fd_tape s) (buffer_tape s) ws"
  obtains s' where
    "tapeAddStatement_noActivityAnalysis cfg tid i1 i2 d1 d2 s = (of_nat n, s')"
    "nextindex s' = of_nat (Suc n)" "dg_disable s' = dg_disable s"
    "buffered 4 (unat BUFSIZE) (Suc n) (fd_tape s') (buffer_tape s') (ws @ [i1, i2, d1, d2])"
    "buffer_values s' = buffer_values s" "fd_values s' = fd_values s"
    "fp_inputs s' = fp_inputs s" "fp_outputs s' = fp_outputs s"
proof -
  define s' where "s' = snd (tapeAddStatement_noActivityAnalysis cfg tid i1 i2 d1 d2 s)"
  note fields = add_fields [OF assms(3), of cfg i1 i2 d1 d2, folded s'_def]
  have pos: "unat (nextindex s mod BUFSIZE) = n mod unat BUFSIZE"
    using assms(4,5) by (simp add: buffer_position)
  have full: "(nextindex s + 1) mod BUFSIZE = 0 \<longleftrightarrow> Suc n mod unat BUFSIZE = 0"
    using buffer_full [OF assms(5)] assms(4) by (simp add: add.commute)
  have "4 * (n mod unat BUFSIZE) + 3 < length (buffer_tape s)"
    using assms(6) buffer_room [OF BUFSIZE_pos, of 4 n] by (simp add: buffered_def)
  from put_words_4 [OF this] have put: "block_put i1 i2 d1 d2 s = put_words (4 * (n mod unat BUFSIZE)) [i1, i2, d1, d2] (buffer_tape s)"
    by (simp add: block_put_def pos Let_def)
  show thesis
  proof (rule that)
    show "tapeAddStatement_noActivityAnalysis cfg tid i1 i2 d1 d2 s = (of_nat n, s')"
      using fields(1) assms(1,4) by (simp add: s'_def prod_eq_iff)
    show "buffered 4 (unat BUFSIZE) (Suc n) (fd_tape s') (buffer_tape s') (ws @ [i1, i2, d1, d2])"
      using buffered_put [OF assms(6) BUFSIZE_pos, of "[i1, i2, d1, d2]"] assms(2) by (simp add: fields put full split: if_splits)
  qed (use fields assms(4) in \<open>simp_all add: add.commute\<close>)
qed

lemma values_block:
  assumes "nextindex s = of_nat (Suc n)" "Suc n < 2 ^ 64" "buffered 1 (unat BUFSIZE) n (fd_values s) (buffer_values s) vs"
  shows "buffered 1 (unat BUFSIZE) (Suc n) (fd_values (valuesAddStatement v s)) (buffer_values (valuesAddStatement v s)) (vs @ [v])"
    "nextindex (valuesAddStatement v s) = nextindex s" "dg_disable (valuesAddStatement v s) = dg_disable s"
    "fd_tape (valuesAddStatement v s) = fd_tape s" "buffer_tape (valuesAddStatement v s) = buffer_tape s"
    "fp_inputs (valuesAddStatement v s) = fp_inputs s" "fp_outputs (valuesAddStatement v s) = fp_outputs s"
proof -
  have pos: "unat ((nextindex s - 1) mod BUFSIZE) = n mod unat BUFSIZE"
    using assms(1,2) by (simp add: buffer_position)
  have full: "nextindex s mod BUFSIZE = 0 \<longleftrightarrow> Suc n mod unat BUFSIZE = 0"
    using buffer_full [OF assms(2)] assms(1) by simp
  have "n mod unat BUFSIZE < length (buffer_values s)"
    using assms(3) BUFSIZE_pos by (simp add: buffered_def)
  then have "(buffer_values s)[n mod unat BUFSIZE := v] = put_words (n mod unat BUFSIZE) [v] (buffer_values s)"
    by (rule put_words_1)
  then show "buffered 1 (unat BUFSIZE) (Suc n) (fd_values (valuesAddStatement v s)) (buffer_values (valuesAddStatement v s)) (vs @ [v])"
    using buffered_put [OF assms(3) BUFSIZE_pos, of "[v]"] by (simp add: valuesAddStatement_def access_def Let_def pos full split: if_splits)
qed (simp_all add: valuesAddStatement_def access_def Let_def)

section \<open>The interface of the tape\<close>

text \<open>An operation to be recorded: whether activity analysis is skipped, two indices, two partial derivatives, the value.\<close>

type_synonym tape_op = "bool \<times> ULong \<times> ULong \<times> ULong \<times> ULong \<times> ULong"

definition spec_op :: "tape_op \<Rightarrow> recording \<Rightarrow> ULong \<times> recording" where
  "spec_op op xs = (case op of (na, i1, i2, d1, d2, v) \<Rightarrow> spec_new_index na i1 i2 d1 d2 v xs)"

definition record_op :: "tape_config \<Rightarrow> nat \<Rightarrow> tape_op \<Rightarrow> tape_state \<Rightarrow> ULong \<times> tape_state" where
  "record_op cfg tid op s = (case op of (na, i1, i2, d1, d2, v) \<Rightarrow> new_index cfg tid na i1 i2 d1 d2 v s)"

fun run_ops :: "('op \<Rightarrow> 's \<Rightarrow> ULong \<times> 's) \<Rightarrow> 'op list \<Rightarrow> 's \<Rightarrow> ULong list \<times> 's" where
  "run_ops f [] s = ([], s)"
| "run_ops f (op # ops) s = (let (i, s) = f op s; (is, s) = run_ops f ops s in (i # is, s))"

lemma spec_op_length: "length (snd (spec_op op xs)) \<le> Suc (length xs)"
  by (cases op) (simp add: spec_op_def spec_new_index_def)

text \<open>
  What the users of the tape rely on: a recorder keeps a representation of the abstract recording, up to
  a number \<open>limit\<close> of blocks, and its contents can be read off.
\<close>

locale tape_recorder =
  fixes add :: "tape_op \<Rightarrow> 's \<Rightarrow> ULong \<times> 's"
    and contents :: "'s \<Rightarrow> ULong list"
    and rep :: "recording \<Rightarrow> 's \<Rightarrow> bool"
    and limit :: nat
  assumes add_simulates:
      "rep xs s \<Longrightarrow> length xs < limit \<Longrightarrow> \<exists>s'. add op s = (fst (spec_op op xs), s') \<and> rep (snd (spec_op op xs)) s'"
    and contents_rep: "rep xs s \<Longrightarrow> contents s = tape_words xs"
begin

lemma run_simulates:
  "rep xs s \<Longrightarrow> length xs + length ops \<le> limit \<Longrightarrow>
     \<exists>s'. run_ops add ops s = (fst (run_ops spec_op ops xs), s') \<and> rep (snd (run_ops spec_op ops xs)) s'"
proof (induction ops arbitrary: xs s)
  case (Cons op ops)
  obtain s1 where s1: "add op s = (fst (spec_op op xs), s1)" "rep (snd (spec_op op xs)) s1"
    using add_simulates [of xs s op] Cons.prems by auto
  have "length (snd (spec_op op xs)) + length ops \<le> limit"
    using spec_op_length [of op xs] Cons.prems(2) by simp
  from Cons.IH [OF s1(2) this] show ?case
    using s1(1) by (auto simp: case_prod_beta)
qed simp

lemma run_contents:
  assumes "rep xs s" "length xs + length ops \<le> limit"
  shows "contents (snd (run_ops add ops s)) = tape_words (snd (run_ops spec_op ops xs))"
    "fst (run_ops add ops s) = fst (run_ops spec_op ops xs)"
  using run_simulates [OF assms] contents_rep by auto

end

lemma represents_new_index:
  assumes "represents cfg tid xs s" "length xs < 2 ^ 64 - 1"
  shows "\<exists>s'. record_op cfg tid op s = (fst (spec_op op xs), s') \<and> represents cfg tid (snd (spec_op op xs)) s'"
proof -
  obtain na i1 i2 d1 d2 v where op: "op = (na, i1, i2, d1, d2, v)" by (cases op)
  note rep = assms(1) [unfolded represents_def]
  show ?thesis
  proof (cases "\<not> na \<and> i1 = 0 \<and> i2 = 0")
    case True
    then show ?thesis
      using assms(1) rep by (simp add: op record_op_def spec_op_def new_index_def spec_new_index_def tapeAddStatement_def)
  next
    case False
    have "Suc (length xs) < 2 ^ 64" using assms(2) by simp
    then obtain s' where s': "tapeAddStatement_noActivityAnalysis cfg tid i1 i2 d1 d2 s = (of_nat (length xs), s')"
      "nextindex s' = of_nat (Suc (length xs))" "dg_disable s' = dg_disable s"
      "buffered 4 (unat BUFSIZE) (Suc (length xs)) (fd_tape s') (buffer_tape s') (tape_words xs @ [i1, i2, d1, d2])"
      "buffer_values s' = buffer_values s" "fd_values s' = fd_values s"
      using add_block [of cfg s tid "length xs" "tape_words xs" i1 i2 d1 d2] rep by metis
    have nz: "(of_nat (length xs) :: ULong) \<noteq> 0"
      using rep unat_index [of "length xs"] by auto
    then show ?thesis
      using False s' rep values_block [of s' "length xs" "map snd xs" v] \<open>Suc (length xs) < 2 ^ 64\<close>
      by (auto simp: op record_op_def spec_op_def new_index_def spec_new_index_def tapeAddStatement_def represents_def
          tape_words_snoc)
  qed
qed


lemma finalize_files:
  assumes "represents cfg tid xs s"
  shows "fd_tape (dg_bar_tape_finalize cfg s) = tape_words xs"
    "bar_record_values cfg \<Longrightarrow> fd_values (dg_bar_tape_finalize cfg s) = map snd xs"
proof -
  note rep = assms [unfolded represents_def]
  have pos: "unat (nextindex s mod BUFSIZE) = length xs mod unat BUFSIZE"
    using rep by (simp add: buffer_position)
  have tape: "fd_tape s @ take (4 * (length xs mod unat BUFSIZE)) (buffer_tape s) = tape_words xs"
    using rep by (simp add: buffered_def)
  then show "fd_tape (dg_bar_tape_finalize cfg s) = tape_words xs"
    by (cases "length xs mod unat BUFSIZE = 0") (simp_all add: dg_bar_tape_finalize_def access_def Let_def pos mult.commute)
  assume "bar_record_values cfg"
  then have "fd_values s @ take (length xs mod unat BUFSIZE) (buffer_values s) = map snd xs"
    using rep by (simp add: buffered_def)
  then show "fd_values (dg_bar_tape_finalize cfg s) = map snd xs"
    using \<open>bar_record_values cfg\<close>
    by (cases "length xs mod unat BUFSIZE = 0") (simp_all add: dg_bar_tape_finalize_def access_def Let_def pos)
qed

lemma represents_initial:
  assumes "dg_bar_tape_initialize cfg can_open path tape_static = Inr s" "\<not> typegrind cfg" "\<not> tape_in_ram cfg"
  shows "represents cfg tid empty_recording s"
proof -
  have size: "1 mod unat BUFSIZE = 1" "1 \<le> unat BUFSIZE" by (simp_all add: BUFSIZE_def)
  have four: "replicate 4 (0 :: ULong) = [0, 0, 0, 0]" by (simp add: numeral_eq_Suc)
  have "buffered 4 (unat BUFSIZE) 1 [] (replicate (4 * unat BUFSIZE) 0) [0, 0, 0, 0]"
    "buffered 1 (unat BUFSIZE) 1 [] (replicate (unat BUFSIZE) 0) [0]"
    using size by (simp_all add: buffered_def four [symmetric] min_def)
  then show ?thesis
    using assms
    by (auto simp: dg_bar_tape_initialize_def monad_inv represents_def empty_recording_def tape_static_def tape_words_def block_words_def)
qed

interpretation tape: tape_recorder "record_op cfg tid" "\<lambda>s. fd_tape (dg_bar_tape_finalize cfg s)" "represents cfg tid" "2 ^ 64 - 1"
  for cfg :: tape_config and tid :: nat
  by unfold_locales (simp_all add: represents_new_index finalize_files del: One_nat_def)

section \<open>Indices are positions on the tape\<close>

text \<open>
  A result is assigned either index 0, if no operand depends on an input, or an index at which its block
  and its value are found in the final recording.
\<close>

definition assigned :: "recording \<Rightarrow> tape_op \<Rightarrow> ULong \<Rightarrow> bool" where
  "assigned xs op i = (case op of (na, i1, i2, d1, d2, v) \<Rightarrow>
     if \<not> na \<and> i1 = 0 \<and> i2 = 0 then i = 0
     else 0 < unat i \<and> unat i < length xs \<and> xs ! unat i = ((i1, i2, d1, d2), v))"

lemma assigned_mono: "assigned xs op i \<Longrightarrow> assigned (xs @ ys) op i"
  by (cases op) (auto simp: assigned_def nth_append split: if_splits)

lemma run_spec_extends: "\<exists>ys. snd (run_ops spec_op ops xs) = xs @ ys \<and> length ys \<le> length ops"
proof (induction ops arbitrary: xs)
  case (Cons op ops)
  have "\<exists>zs. snd (spec_op op xs) = xs @ zs \<and> length zs \<le> 1"
    by (cases op) (auto simp: spec_op_def spec_new_index_def)
  then obtain zs where zs: "snd (spec_op op xs) = xs @ zs" "length zs \<le> 1" by blast
  obtain ys where "snd (run_ops spec_op ops (xs @ zs)) = (xs @ zs) @ ys" "length ys \<le> length ops"
    using Cons.IH by blast
  then show ?case using zs by (intro exI [of _ "zs @ ys"]) (simp add: case_prod_beta)
qed simp

lemma spec_op_assigned:
  assumes "0 < length xs" "length xs < 2 ^ 64"
  shows "assigned (snd (spec_op op xs)) op (fst (spec_op op xs))"
    "fst (spec_op op xs) \<noteq> 0 \<Longrightarrow> unat (fst (spec_op op xs)) = length xs \<and> length (snd (spec_op op xs)) = Suc (length xs)"
    "length (snd (spec_op op xs)) \<in> {length xs, Suc (length xs)}"
proof -
  obtain na i1 i2 d1 d2 v where op: "op = (na, i1, i2, d1, d2, v)" by (cases op)
  have spec: "spec_op op xs = (if \<not> na \<and> i1 = 0 \<and> i2 = 0 then (0, xs) else (of_nat (length xs), xs @ [((i1, i2, d1, d2), v)]))"
    by (simp add: op spec_op_def spec_new_index_def)
  show "assigned (snd (spec_op op xs)) op (fst (spec_op op xs))"
    unfolding spec using assms(1) unat_index [OF assms(2)] by (simp add: op assigned_def)
  show "fst (spec_op op xs) \<noteq> 0 \<Longrightarrow> unat (fst (spec_op op xs)) = length xs \<and> length (snd (spec_op op xs)) = Suc (length xs)"
    unfolding spec using unat_index [OF assms(2)] by (simp split: if_splits)
  show "length (snd (spec_op op xs)) \<in> {length xs, Suc (length xs)}"
    unfolding spec by simp
qed

lemma run_spec_blocks:
  assumes "0 < length xs" "length xs + length ops \<le> 2 ^ 64"
  shows "length (snd (run_ops spec_op ops xs)) = length xs + length (filter (\<lambda>i. i \<noteq> 0) (fst (run_ops spec_op ops xs)))"
  using assms
proof (induction ops arbitrary: xs)
  case (Cons op ops)
  have n: "length xs < 2 ^ 64" using Cons.prems by simp
  have "fst (spec_op op xs) = 0 \<Longrightarrow> length (snd (spec_op op xs)) = length xs"
    using Cons.prems(1) unat_index [OF n] by (cases op) (auto simp: spec_op_def spec_new_index_def split: if_splits)
  moreover have "length (snd (spec_op op xs)) + length ops \<le> 2 ^ 64" "0 < length (snd (spec_op op xs))"
    using spec_op_assigned(3) [OF Cons.prems(1) n, of op] Cons.prems by auto
  ultimately show ?case
    using Cons.IH [of "snd (spec_op op xs)"] spec_op_assigned(2) [OF Cons.prems(1) n, of op] by (simp add: case_prod_beta)
qed simp

lemma run_spec_assigned:
  assumes "0 < length xs" "length xs + length ops \<le> 2 ^ 64"
  shows "list_all2 (assigned (snd (run_ops spec_op ops xs))) ops (fst (run_ops spec_op ops xs))
    \<and> sorted_wrt (<) (filter (\<lambda>n. n \<noteq> 0) (map unat (fst (run_ops spec_op ops xs))))
    \<and> (\<forall>i \<in> set (fst (run_ops spec_op ops xs)). i = 0 \<or> length xs \<le> unat i)"
  using assms
proof (induction ops arbitrary: xs)
  case (Cons op ops)
  let ?ys = "snd (spec_op op xs)"
  have n: "length xs < 2 ^ 64" using Cons.prems by simp
  note first = spec_op_assigned [OF Cons.prems(1) n, of op]
  have "0 < length ?ys" "length ?ys + length ops \<le> 2 ^ 64" using first(3) Cons.prems by auto
  note rest = Cons.IH [OF this]
  obtain zs where "snd (run_ops spec_op ops ?ys) = ?ys @ zs" using run_spec_extends by blast
  then have "assigned (snd (run_ops spec_op ops ?ys)) op (fst (spec_op op xs))"
    using first(1) by (simp add: assigned_mono)
  moreover have "length xs \<le> length ?ys" using first(3) by auto
  moreover have "unat (fst (spec_op op xs)) < unat i"
    if "0 < unat (fst (spec_op op xs))" "0 < unat i" "i \<in> set (fst (run_ops spec_op ops ?ys))" for i
  proof -
    have "unat (fst (spec_op op xs)) = length xs" "length ?ys = Suc (length xs)" using first(2) that(1) by fastforce+
    moreover have "length ?ys \<le> unat i" using rest that(2,3) by auto
    ultimately show ?thesis by simp
  qed
  ultimately show ?case
    using rest first(2)
    by (cases "fst (spec_op op xs) = 0") (auto simp: case_prod_beta intro: order_trans)
qed simp

text \<open>
  C3. Refinement, for recording to files (without \<^verbatim>\<open>--typegrind=yes\<close>, which assigns no indices, and without
  \<^verbatim>\<open>--tape-in-ram=yes\<close>, which discards full buffers): recording any sequence of operations by an enabled thread, fewer than the
  range of the 64-bit index, and closing the tape leaves a tape file that is the list of the recorded blocks in order, starting with the
  dummy block, and a file of values that is parallel to it; the assigned indices are those of the
  abstract recording.
\<close>

theorem tape_files_refine:
  assumes "dg_bar_tape_initialize cfg can_open path tape_static = Inr s" "\<not> typegrind cfg" "\<not> tape_in_ram cfg"
    "length ops < 2 ^ 64 - 1"
  shows "(let (is, s') = run_ops (record_op cfg tid) ops s; (js, xs) = run_ops spec_op ops empty_recording
    in is = js \<and> fd_tape (dg_bar_tape_finalize cfg s') = tape_words xs
       \<and> (bar_record_values cfg \<longrightarrow> fd_values (dg_bar_tape_finalize cfg s') = map snd xs))"
proof -
  have "length empty_recording + length ops \<le> 2 ^ 64 - 1" using assms(4) by (simp add: empty_recording_def)
  from tape.run_simulates [OF represents_initial [OF assms(1-3), of tid] this]
  show ?thesis by (auto simp: case_prod_beta finalize_files)
qed

theorem tape_files_refine_witness:
  "\<exists>s. dg_bar_tape_initialize \<lparr>typegrind = False, bar_record_values = True, tape_in_ram = False,
           recording_stop_indices = None, fresh_memory = []\<rparr> (\<lambda>_. True) ''dir'' tape_static = Inr s
     \<and> (let (is, s') = run_ops (record_op \<lparr>typegrind = False, bar_record_values = True, tape_in_ram = False,
           recording_stop_indices = None, fresh_memory = []\<rparr> 1) [(True, 0, 0, 0, 0, 7), (False, 0, 0, 5, 5, 8), (False, 1, 0, 3, 4, 9)] s
        in is = [1, 0, 2]
         \<and> fd_tape (dg_bar_tape_finalize \<lparr>typegrind = False, bar_record_values = True, tape_in_ram = False,
             recording_stop_indices = None, fresh_memory = []\<rparr> s') = [0, 0, 0, 0, 0, 0, 0, 0, 1, 0, 3, 4])"
proof -
  define cfg where "cfg = \<lparr>typegrind = False, bar_record_values = True, tape_in_ram = False,
    recording_stop_indices = None, fresh_memory = []\<rparr>"
  obtain s where s: "dg_bar_tape_initialize cfg (\<lambda>_. True) ''dir'' tape_static = Inr s"
    by (simp add: dg_bar_tape_initialize_def)
  have "run_ops spec_op [(True, 0, 0, 0, 0, 7), (False, 0, 0, 5, 5, 8), (False, 1, 0, 3, 4, 9)] empty_recording =
      ([1, 0, 2], [((0, 0, 0, 0), 0), ((0, 0, 0, 0), 7), ((1, 0, 3, 4), 9)])"
    by (simp add: spec_op_def spec_new_index_def empty_recording_def)
  then show ?thesis
    using s tape_files_refine [OF s, of "[(True, 0, 0, 0, 0, 7), (False, 0, 0, 5, 5, 8), (False, 1, 0, 3, 4, 9)]" 1]
    by (auto simp: cfg_def [symmetric] tape_words_def block_words_def) (simp_all add: cfg_def)
qed

text \<open>
  C19. An index is a position, for recording to files without \<^verbatim>\<open>--typegrind=yes\<close> and without \<^verbatim>\<open>--tape-in-ram=yes\<close>
  and for fewer operations than the range of the 64-bit index: every operation is assigned 0 if it is subject to activity analysis and
  none of its operands is active, and otherwise an index at which the closed tape file holds the four
  words of its block; nonzero indices increase in the order of recording.
\<close>

theorem tape_index_is_position:
  assumes "dg_bar_tape_initialize cfg can_open path tape_static = Inr s" "\<not> typegrind cfg" "\<not> tape_in_ram cfg"
    "length ops < 2 ^ 64 - 1" "run_ops (record_op cfg tid) ops s = (is, s')" "k < length ops"
    "ops ! k = (na, i1, i2, d1, d2, v)"
  shows "(if \<not> na \<and> i1 = 0 \<and> i2 = 0 then is ! k = 0
          else is ! k \<noteq> 0 \<and> take 4 (drop (4 * unat (is ! k)) (fd_tape (dg_bar_tape_finalize cfg s'))) = [i1, i2, d1, d2])
    \<and> sorted_wrt (<) (filter (\<lambda>n. n \<noteq> 0) (map unat is))"
proof -
  define js xs where "js = fst (run_ops spec_op ops empty_recording)" and "xs = snd (run_ops spec_op ops empty_recording)"
  have "length empty_recording + length ops \<le> 2 ^ 64 - 1" using assms(4) by (simp add: empty_recording_def)
  from tape.run_contents [OF represents_initial [OF assms(1-3), of tid] this]
  have run: "is = js" "fd_tape (dg_bar_tape_finalize cfg s') = tape_words xs"
    using assms(5) by (simp_all add: js_def xs_def)
  have "list_all2 (assigned xs) ops js \<and> sorted_wrt (<) (filter (\<lambda>n. n \<noteq> 0) (map unat js))"
    using run_spec_assigned [of empty_recording ops] assms(4) by (simp add: js_def xs_def empty_recording_def)
  then have "assigned xs (na, i1, i2, d1, d2, v) (js ! k)" "sorted_wrt (<) (filter (\<lambda>n. n \<noteq> 0) (map unat js))"
    using assms(6,7) by (auto dest: list_all2_nthD)
  then show ?thesis
    unfolding run using tape_words_nth [of "unat (js ! k)" xs]
    by (auto simp: assigned_def block_words_def split: if_splits)
qed

theorem tape_index_is_position_witness:
  "\<exists>s s'. dg_bar_tape_initialize \<lparr>typegrind = False, bar_record_values = False, tape_in_ram = False,
           recording_stop_indices = None, fresh_memory = []\<rparr> (\<lambda>_. True) ''dir'' tape_static = Inr s
     \<and> run_ops (record_op \<lparr>typegrind = False, bar_record_values = False, tape_in_ram = False,
           recording_stop_indices = None, fresh_memory = []\<rparr> 1) [(True, 0, 0, 0, 0, 7), (False, 1, 0, 3, 4, 9)] s = ([1, 2], s')
     \<and> take 4 (drop (4 * unat (2 :: ULong)) (fd_tape (dg_bar_tape_finalize \<lparr>typegrind = False, bar_record_values = False, tape_in_ram = False,
             recording_stop_indices = None, fresh_memory = []\<rparr> s'))) = [1, 0, 3, 4]"
proof -
  define cfg where "cfg = \<lparr>typegrind = False, bar_record_values = False, tape_in_ram = False,
    recording_stop_indices = None, fresh_memory = []\<rparr>"
  let ?ops = "[(True, 0, 0, 0, 0, 7), (False, 1, 0, 3, 4, 9)] :: tape_op list"
  obtain s where s: "dg_bar_tape_initialize cfg (\<lambda>_. True) ''dir'' tape_static = Inr s"
    by (simp add: dg_bar_tape_initialize_def)
  have cfg: "\<not> typegrind cfg" "\<not> tape_in_ram cfg" by (simp_all add: cfg_def)
  have "fst (run_ops spec_op ?ops empty_recording) = [1, 2]"
    by (simp add: spec_op_def spec_new_index_def empty_recording_def)
  then obtain s' where r: "run_ops (record_op cfg 1) ?ops s = ([1, 2], s')"
    using tape.run_simulates [OF represents_initial [OF s cfg, of 1], of ?ops] by (auto simp: empty_recording_def)
  have "take 4 (drop (4 * unat ([1, 2 :: ULong] ! 1)) (fd_tape (dg_bar_tape_finalize cfg s'))) = [1, 0, 3, 4]"
    using tape_index_is_position [OF s cfg _ r, of 1 False 1 0 3 4 9] by simp
  then have "take 4 (drop (4 * unat (2 :: ULong)) (fd_tape (dg_bar_tape_finalize cfg s'))) = [1, 0, 3, 4]" by simp
  with s r show ?thesis unfolding cfg_def by blast
qed

section \<open>Accesses stay within the buffers\<close>

text \<open>
  The operations on the tape as a transition relation, for any thread and any option, after any number
  of steps, so that the index may wrap around as well.
\<close>

inductive tape_step :: "tape_config \<Rightarrow> tape_state \<Rightarrow> tape_state \<Rightarrow> bool" for cfg where
  add: "tape_step cfg s (snd (tapeAddStatement cfg tid i1 i2 d1 d2 s))"
| add_noActivityAnalysis: "tape_step cfg s (snd (tapeAddStatement_noActivityAnalysis cfg tid i1 i2 d1 d2 s))"
| add_value: "bar_record_values cfg \<Longrightarrow> tape_step cfg s (valuesAddStatement v s)"
| input_index: "tape_step cfg s (dg_bar_tape_write_input_index i s)"
| output_index: "tape_step cfg s (dg_bar_tape_write_output_index i s)"
| set_disable: "tape_step cfg s (s\<lparr>dg_disable := (dg_disable s)(tid := n)\<rparr>)"

definition tape_inv :: "tape_config \<Rightarrow> tape_state \<Rightarrow> bool" where
  "tape_inv cfg s \<longleftrightarrow> length (buffer_tape s) = 4 * unat BUFSIZE \<and> (bar_record_values cfg \<longrightarrow> length (buffer_values s) = unat BUFSIZE)
     \<and> 4 * unat BUFSIZE dvd length (fd_tape s) \<and> \<not> overrun s"

lemma position_less: "unat (i mod BUFSIZE) < unat BUFSIZE"
  using BUFSIZE_pos by (simp add: unat_mod_distrib)

lemma position_room: "4 * unat (i mod BUFSIZE) + 4 \<le> 4 * unat BUFSIZE"
  using position_less [of i] by simp

lemma block_put_length: "length (block_put i1 i2 d1 d2 s) = length (buffer_tape s)"
  by (simp add: block_put_def Let_def)

lemma tape_inv_add:
  assumes "tape_inv cfg s" "tape_in_ram cfg \<longrightarrow> length (fresh_memory cfg) = 4 * unat BUFSIZE"
  shows "tape_inv cfg (snd (tapeAddStatement_noActivityAnalysis cfg tid i1 i2 d1 d2 s))"
proof (cases "dg_disable s tid = 0")
  case True
  then show ?thesis using assms position_room [of "nextindex s"] by (simp add: tape_inv_def add_fields block_put_length)
next
  case False
  then show ?thesis using assms by (simp add: tapeAddStatement_noActivityAnalysis_def)
qed

lemma tape_inv_value: "bar_record_values cfg \<Longrightarrow> tape_inv cfg s \<Longrightarrow> tape_inv cfg (valuesAddStatement v s)"
  using position_less [of "nextindex s - 1"] by (simp add: tape_inv_def valuesAddStatement_def access_def Let_def)

lemma tape_inv_finalize: "tape_inv cfg s \<Longrightarrow> \<not> overrun (dg_bar_tape_finalize cfg s)"
  using position_less [of "nextindex s"] by (simp add: tape_inv_def dg_bar_tape_finalize_def access_def Let_def)

lemma tape_inv_initial: "dg_bar_tape_initialize cfg can_open path s0 = Inr s \<Longrightarrow> \<not> overrun s0 \<Longrightarrow> tape_inv cfg s"
  by (auto simp: dg_bar_tape_initialize_def monad_inv tape_inv_def)

lemma tape_inv_step:
  assumes "tape_step cfg s s'" "tape_inv cfg s" "tape_in_ram cfg \<longrightarrow> length (fresh_memory cfg) = 4 * unat BUFSIZE"
  shows "tape_inv cfg s'"
  using assms(1)
proof cases
  case add
  then show ?thesis using assms(2) tape_inv_add [OF assms(2,3)] by (simp add: tapeAddStatement_def)
next
  case add_noActivityAnalysis
  then show ?thesis using tape_inv_add [OF assms(2,3)] by simp
next
  case add_value
  then show ?thesis using assms(2) by (simp add: tape_inv_value)
qed (use assms(2) in \<open>simp_all add: tape_inv_def dg_bar_tape_write_input_index_def dg_bar_tape_write_output_index_def\<close>)

text \<open>
  C12. Memory safety: no sequence of operations on the initialised tape, by any threads and with any options, accesses a word outside
  of the tape buffer or the values buffer, neither when it adds a block or a value nor when it writes a buffer to its file nor
  when the tape is closed; and until then the tape file consists of whole buffers. This includes recordings so long that the
  64-bit index wraps around. If the tape is kept in memory, the newly allocated buffers are assumed to have the size that is requested.
\<close>

theorem tape_accesses_in_bounds:
  assumes "dg_bar_tape_initialize cfg can_open path tape_static = Inr s" "tape_in_ram cfg \<longrightarrow> length (fresh_memory cfg) = 4 * unat BUFSIZE"
    "(tape_step cfg)\<^sup>*\<^sup>* s s'"
  shows "\<not> overrun s' \<and> \<not> overrun (dg_bar_tape_finalize cfg s') \<and> 4 * unat BUFSIZE dvd length (fd_tape s')"
proof -
  have "tape_inv cfg s" by (rule tape_inv_initial [OF assms(1)]) (simp add: tape_static_def)
  with assms(3) have "tape_inv cfg s'"
    by (induction rule: rtranclp_induct) (auto intro: tape_inv_step [OF _ _ assms(2)])
  then show ?thesis using tape_inv_finalize by (simp add: tape_inv_def)
qed

theorem tape_accesses_in_bounds_witness:
  "\<exists>s. dg_bar_tape_initialize \<lparr>typegrind = True, bar_record_values = True, tape_in_ram = False,
           recording_stop_indices = None, fresh_memory = []\<rparr> (\<lambda>_. True) ''dir'' tape_static = Inr s
     \<and> \<not> overrun (dg_bar_tape_finalize \<lparr>typegrind = True, bar_record_values = True, tape_in_ram = False,
           recording_stop_indices = None, fresh_memory = []\<rparr> (valuesAddStatement 5 s))"
proof -
  define cfg where "cfg = \<lparr>typegrind = True, bar_record_values = True, tape_in_ram = False,
    recording_stop_indices = None, fresh_memory = []\<rparr>"
  obtain s where s: "dg_bar_tape_initialize cfg (\<lambda>_. True) ''dir'' tape_static = Inr s"
    by (simp add: dg_bar_tape_initialize_def)
  have "(tape_step cfg)\<^sup>*\<^sup>* s (valuesAddStatement 5 s)"
    by (rule r_into_rtranclp, rule tape_step.add_value) (simp add: cfg_def)
  from tape_accesses_in_bounds [OF s _ this] have "\<not> overrun (dg_bar_tape_finalize cfg (valuesAddStatement 5 s))"
    by (simp add: cfg_def)
  then show ?thesis using s by (auto simp: cfg_def)
qed

section \<open>Disabled threads\<close>

text \<open>
  A thread for which recording is disabled leaves the tape as it is, and its results are assigned
  index 0, or the index of an unwrapped result under \<^verbatim>\<open>--typegrind=yes\<close>. If values are recorded as well,
  the latter counts as a nonzero index, and the value replaces that of the most recent block.
\<close>

theorem tape_disabled:
  assumes "dg_disable s tid \<noteq> 0"
  shows "new_index cfg tid True i1 i2 d1 d2 v s =
      (if typegrind cfg then (- 1, if bar_record_values cfg then valuesAddStatement v s else s) else (0, s))
    \<and> buffer_values (valuesAddStatement v s) = (buffer_values s)[unat ((nextindex s - 1) mod BUFSIZE) := v]"
  using assms by (simp add: new_index_def tapeAddStatement_noActivityAnalysis_def valuesAddStatement_def access_def Let_def)

theorem tape_disabled_witness:
  "new_index \<lparr>typegrind = False, bar_record_values = True, tape_in_ram = False, recording_stop_indices = None, fresh_memory = []\<rparr>
     2 True 1 1 5 5 6 (tape_static\<lparr>dg_disable := (\<lambda>_. 1)\<rparr>) = (0, tape_static\<lparr>dg_disable := (\<lambda>_. 1)\<rparr>)"
  using tape_disabled [of "tape_static\<lparr>dg_disable := (\<lambda>_. 1)\<rparr>" 2
      "\<lparr>typegrind = False, bar_record_values = True, tape_in_ram = False, recording_stop_indices = None, fresh_memory = []\<rparr>" 1 1 5 5 6]
  by simp

end
