(* ===== verification/Tape_Eval.thy ===== *)
theory Tape_Eval
  imports Bar_Tape
begin

text \<open>
  Evaluation of a recorded tape (\<^verbatim>\<open>derivgrind/eval/dg_bar_tape_eval.hpp\<close>,
  \<^verbatim>\<open>derivgrind/eval/tape-evaluation.cpp\<close>, \<^verbatim>\<open>derivgrind/eval/tape-evaluation-utils.hpp\<close>).

  The tape is loaded in chunks of \<^verbatim>\<open>bufsize\<close> blocks and visited forwards or backwards; the handlers of the
  iteration propagate dot values or bar values, or count blocks. Indices and sizes are natural numbers
  (they are bounded by the size of a file); the first block of a chunk, where intermediate results of the
  unsigned arithmetic may wrap around and back, is computed in the integers. Derivatives range over a type
  with addition and multiplication, the parameter \<open>dbl\<close> reads them from their bits; the theorems take it to be
  a commutative ring, that is, they are about exact arithmetic and leave rounding aside.
\<close>

section \<open>Iteration over the tape\<close>

text \<open>\<open>loadfun\<close> of \<^verbatim>\<open>tape-evaluation.cpp\<close>: \<open>count\<close> blocks starting with block \<open>i\<close>.\<close>

definition loadfun :: "ULong list \<Rightarrow> nat \<Rightarrow> nat \<Rightarrow> ULong list" where
  "loadfun tapefile i count = take (count * 4) (drop (i * 4) tapefile)"

type_synonym 's block_handler = "nat \<Rightarrow> ULong \<Rightarrow> ULong \<Rightarrow> ULong \<Rightarrow> ULong \<Rightarrow> 's \<Rightarrow> 's"

definition iterate_block :: "'s block_handler \<Rightarrow> (nat \<Rightarrow> nat) \<Rightarrow> ULong list \<Rightarrow> nat \<Rightarrow> 's \<Rightarrow> 's" where
  "iterate_block f index_of tape_buf b =
     f (index_of b) (tape_buf ! (4 * b)) (tape_buf ! (4 * b + 1)) (tape_buf ! (4 * b + 2)) (tape_buf ! (4 * b + 3))"

text \<open>The chunk size is positive; the source divides by it, and with 0 the definitions below would not be those of the source.\<close>

definition iterate_chunk :: "nat \<Rightarrow> (nat \<Rightarrow> nat \<Rightarrow> ULong list) \<Rightarrow> bool \<Rightarrow> nat \<Rightarrow> nat \<Rightarrow> 's block_handler \<Rightarrow> nat \<Rightarrow> 's \<Rightarrow> 's" where
  "iterate_chunk bufsize load forward begin' number_of_blocks_in_subtape f chunk =
     (let number_of_chunks_in_subtape = number_of_blocks_in_subtape div bufsize + 1;
          chunk_count = (if chunk = number_of_chunks_in_subtape - 1
                         then number_of_blocks_in_subtape - (number_of_chunks_in_subtape - 1) * bufsize else bufsize);
          chunk_begin = (if forward then begin' + chunk * bufsize
                         else nat (int begin' - int (chunk * bufsize) - int chunk_count + 1));
          tape_buf = load chunk_begin chunk_count
      in fold (iterate_block f (\<lambda>b. if forward then begin' + chunk * bufsize + b
                                   else nat (int begin' - int (chunk * bufsize) - int chunk_count + int b + 1)) tape_buf)
           (if forward then [0..<chunk_count] else rev [0..<chunk_count]))"

definition iterate_impl :: "nat \<Rightarrow> (nat \<Rightarrow> nat \<Rightarrow> ULong list) \<Rightarrow> bool \<Rightarrow> nat \<Rightarrow> nat \<Rightarrow> 's block_handler \<Rightarrow> 's \<Rightarrow> 's" where
  "iterate_impl bufsize load forward begin' end' f =
     (let number_of_blocks_in_subtape = (if forward then end' - begin' + 1 else begin' - end' + 1)
      in fold (iterate_chunk bufsize load forward begin' number_of_blocks_in_subtape f)
           [0..<number_of_blocks_in_subtape div bufsize + 1])"

definition iterate :: "nat \<Rightarrow> (nat \<Rightarrow> nat \<Rightarrow> ULong list) \<Rightarrow> nat \<Rightarrow> nat \<Rightarrow> 's block_handler \<Rightarrow> 's \<Rightarrow> 's" where
  "iterate bufsize load begin' end' f =
     (if end' \<ge> begin' then iterate_impl bufsize load True begin' end' f
      else iterate_impl bufsize load False begin' end' f)"

section \<open>Evaluations\<close>

definition valid_index :: "ULong \<Rightarrow> bool" where
  "valid_index i \<longleftrightarrow> i \<noteq> 0 \<and> i < 0x8000000000000000"

definition backward_handler :: "(ULong \<Rightarrow> 'a::{zero,plus,times}) \<Rightarrow> 'a list block_handler" where
  "backward_handler dbl index index1 index2 diff1 diff2 v =
     (if v ! index \<noteq> 0 then
        (let v = (if valid_index index1 then v[unat index1 := v ! unat index1 + v ! index * dbl diff1] else v)
         in if valid_index index2 then v[unat index2 := v ! unat index2 + v ! index * dbl diff2] else v)
      else v)"

definition evaluateBackward ::
    "(ULong \<Rightarrow> 'a::{zero,plus,times}) \<Rightarrow> nat \<Rightarrow> (nat \<Rightarrow> nat \<Rightarrow> ULong list) \<Rightarrow> nat \<Rightarrow> 'a list \<Rightarrow> 'a list" where
  "evaluateBackward dbl bufsize load number_of_blocks = iterate bufsize load (number_of_blocks - 1) 0 (backward_handler dbl)"

definition forward_handler :: "(ULong \<Rightarrow> 'a::{zero,plus,times}) \<Rightarrow> 'a list block_handler" where
  "forward_handler dbl index index1 index2 diff1 diff2 v =
     (let v = (if valid_index index1 \<and> v ! unat index1 \<noteq> 0 then v[index := v ! index + v ! unat index1 * dbl diff1] else v)
      in if valid_index index2 \<and> v ! unat index2 \<noteq> 0 then v[index := v ! index + v ! unat index2 * dbl diff2] else v)"

definition evaluateForward ::
    "(ULong \<Rightarrow> 'a::{zero,plus,times}) \<Rightarrow> nat \<Rightarrow> (nat \<Rightarrow> nat \<Rightarrow> ULong list) \<Rightarrow> nat \<Rightarrow> 'a list \<Rightarrow> 'a list" where
  "evaluateForward dbl bufsize load number_of_blocks = iterate bufsize load 0 (number_of_blocks - 1) (forward_handler dbl)"

definition stats_handler :: "(nat \<times> nat \<times> nat) block_handler" where
  "stats_handler index index1 index2 diff1 diff2 counts =
     (case counts of (nZero, nOne, nTwo) \<Rightarrow>
        if index1 = 0 \<and> index2 = 0 then (nZero + 1, nOne, nTwo)
        else if index1 \<noteq> 0 \<and> index2 \<noteq> 0 then (nZero, nOne, nTwo + 1)
        else (nZero, nOne + 1, nTwo))"

definition stats :: "nat \<Rightarrow> (nat \<Rightarrow> nat \<Rightarrow> ULong list) \<Rightarrow> nat \<Rightarrow> nat \<times> nat \<times> nat" where
  "stats bufsize load number_of_blocks = iterate bufsize load 0 (number_of_blocks - 1) stats_handler (0, 0, 0)"

section \<open>Iteration visits every block once, in order\<close>

definition visit :: "'s block_handler \<Rightarrow> (nat \<Rightarrow> tape_block) \<Rightarrow> nat \<Rightarrow> 's \<Rightarrow> 's" where
  "visit f blocks i = (case blocks i of (i1, i2, d1, d2) \<Rightarrow> f i i1 i2 d1 d2)"

definition chunk_size :: "nat \<Rightarrow> nat \<Rightarrow> nat \<Rightarrow> nat" where
  "chunk_size m n c = (if c = n div m then n - n div m * m else m)"

lemma chunk_bound: "c \<le> n div m \<Longrightarrow> c * m + chunk_size m n c \<le> (n :: nat)"
proof -
  assume "c \<le> n div m"
  then consider "c = n div m" | "Suc c \<le> n div m" by linarith
  then show ?thesis
  proof cases
    case 1
    then show ?thesis using div_times_less_eq_dividend [of n m] by (simp add: chunk_size_def)
  next
    case 2
    then have "Suc c * m \<le> n" using div_times_less_eq_dividend [of n m] mult_le_mono1 [of "Suc c" "n div m" m] by linarith
    then show ?thesis using 2 by (simp add: chunk_size_def)
  qed
qed

lemma fold_chunks_prefix:
  "k \<le> n div m \<Longrightarrow> fold (\<lambda>c. fold g [c * m..<c * m + chunk_size m n c]) [0..<k] = fold g [0..<k * m]"
proof (induction k)
  case (Suc k)
  have "[0..<Suc k * m] = [0..<k * m] @ [k * m..<k * m + m]"
    using upt_add_eq_append [of 0 "k * m" m] by (simp add: add.commute)
  then show ?case using Suc by (simp add: chunk_size_def)
qed simp

lemma fold_chunks:
  "fold (\<lambda>c. fold g [c * m..<c * m + chunk_size m n c]) [0..<n div m + 1] = fold g [0..<n]"
proof -
  have "n div m * m \<le> n" by (rule div_times_less_eq_dividend)
  then have "[0..<n] = [0..<n div m * m] @ [n div m * m..<n]" using upt_add_eq_append [of 0 "n div m * m" "n - n div m * m"] by simp
  then show ?thesis
    using fold_chunks_prefix [of "n div m" n m g] \<open>n div m * m \<le> n\<close> by (simp add: chunk_size_def)
qed

lemma fold_cong_on: "(\<And>x. x \<in> set xs \<Longrightarrow> f x = g x) \<Longrightarrow> fold f xs = fold g xs"
  by (induction xs) simp_all

lemma fold_upt_shift: "fold f [a..<a + n] = fold (\<lambda>j. f (a + j)) [0..<n]"
proof -
  have "map (\<lambda>j. a + j) [0..<n] = [a..<a + n]" by (rule nth_equalityI) auto
  then show ?thesis using fold_map [of f "\<lambda>j. a + j" "[0..<n]"] by (simp add: comp_def)
qed

lemma fold_rev_upt: "fold f (rev [0..<n]) = fold (\<lambda>j. f (n - 1 - j)) [0..<n]"
proof -
  have "rev [0..<n] = map (\<lambda>j. n - 1 - j) [0..<n]" by (rule nth_equalityI) (auto simp: rev_nth)
  then show ?thesis by (simp add: fold_map comp_def)
qed

lemma iterate_chunk_simps:
  "iterate_chunk m load True a N f c =
     fold (iterate_block f (\<lambda>b. a + c * m + b) (load (a + c * m) (chunk_size m N c))) [0..<chunk_size m N c]"
  "iterate_chunk m load False a N f c =
     fold (iterate_block f (\<lambda>b. nat (int a - int (c * m) - int (chunk_size m N c) + int b + 1))
         (load (nat (int a - int (c * m) - int (chunk_size m N c) + 1)) (chunk_size m N c))) (rev [0..<chunk_size m N c])"
  by (simp_all add: iterate_chunk_def chunk_size_def Let_def)

text \<open>What the iteration relies on: a loader delivers the words of consecutive blocks.\<close>

locale tape_loader =
  fixes load :: "nat \<Rightarrow> nat \<Rightarrow> ULong list" and blocks :: "nat \<Rightarrow> tape_block" and n :: nat
  assumes load_word: "i + count \<le> n \<Longrightarrow> b < count \<Longrightarrow> r < 4 \<Longrightarrow> load i count ! (4 * b + r) = block_words (blocks (i + b)) ! r"
begin

lemma iterate_block_visit:
  assumes "i + count \<le> n" "b < count" "index_of b = i + b"
  shows "iterate_block f index_of (load i count) b = visit f blocks (i + b)"
  using load_word [OF assms(1,2), of 0] load_word [OF assms(1,2), of 1] load_word [OF assms(1,2), of 2] load_word [OF assms(1,2), of 3]
  by (simp add: iterate_block_def visit_def block_words_def assms(3) split: prod.split)

lemma iterate_chunk_forward:
  assumes "c \<le> N div m" "a + N \<le> n"
  shows "iterate_chunk m load True a N f c = fold (\<lambda>j. visit f blocks (a + j)) [c * m..<c * m + chunk_size m N c]"
proof -
  have "a + c * m + chunk_size m N c \<le> n" using chunk_bound [OF assms(1)] assms(2) by linarith
  then show ?thesis
    unfolding fold_upt_shift [of _ "c * m"] iterate_chunk_simps
    by (intro fold_cong_on) (simp add: iterate_block_visit add.assoc [symmetric])
qed

lemma iterate_chunk_backward:
  assumes "c \<le> N div m" "N \<le> a + 1" "a < n"
  shows "iterate_chunk m load False a N f c = fold (\<lambda>j. visit f blocks (a - j)) [c * m..<c * m + chunk_size m N c]"
proof -
  let ?k = "chunk_size m N c"
  have le: "c * m + ?k \<le> a + 1" using chunk_bound [OF assms(1)] assms(2) by linarith
  define i where "i = nat (int a - int (c * m) - int ?k + 1)"
  have i: "int i = int a - int (c * m) - int ?k + 1" using le unfolding i_def by linarith
  have "iterate_block f (\<lambda>b. nat (int a - int (c * m) - int ?k + int b + 1)) (load i ?k) (?k - 1 - j) = visit f blocks (a - (c * m + j))"
    if "j < ?k" for j
  proof -
    have "i + (?k - 1 - j) = a - (c * m + j)" using i le that by linarith
    moreover have "nat (int a - int (c * m) - int ?k + int (?k - 1 - j) + 1) = i + (?k - 1 - j)" using i by linarith
    moreover have "i + ?k \<le> n" using i assms(3) by linarith
    ultimately show ?thesis using iterate_block_visit [of i ?k "?k - 1 - j" "\<lambda>b. nat (int a - int (c * m) - int ?k + int b + 1)" f] that by simp
  qed
  then show ?thesis
    unfolding fold_upt_shift [of _ "c * m"] iterate_chunk_simps fold_rev_upt i_def [symmetric]
    by (intro fold_cong_on) simp
qed

lemma iterate_visits:
  assumes "a < n" "b < n"
  shows "iterate m load a b f =
    (if a \<le> b then fold (\<lambda>j. visit f blocks (a + j)) [0..<b - a + 1] else fold (\<lambda>j. visit f blocks (a - j)) [0..<a - b + 1])"
proof (cases "a \<le> b")
  case True
  have "iterate m load a b f = fold (\<lambda>c. fold (\<lambda>j. visit f blocks (a + j)) [c * m..<c * m + chunk_size m (b - a + 1) c]) [0..<(b - a + 1) div m + 1]"
    unfolding iterate_def iterate_impl_def Let_def
    using True assms by (simp only: if_True) (rule fold_cong_on, rule iterate_chunk_forward, auto)
  then show ?thesis using True by (simp only: fold_chunks if_True)
next
  case False
  have "iterate m load a b f = fold (\<lambda>c. fold (\<lambda>j. visit f blocks (a - j)) [c * m..<c * m + chunk_size m (a - b + 1) c]) [0..<(a - b + 1) div m + 1]"
    unfolding iterate_def iterate_impl_def Let_def
    using False assms by (simp only: if_False) (rule fold_cong_on, rule iterate_chunk_backward, auto)
  then show ?thesis using False by (simp only: fold_chunks if_False)
qed

lemma evaluate_visits:
  assumes "0 < n"
  shows "evaluateForward dbl m load n = fold (visit (forward_handler dbl) blocks) [0..<n]"
    "evaluateBackward dbl m load n = fold (visit (backward_handler dbl) blocks) (rev [0..<n])"
    "stats m load n = fold (visit stats_handler blocks) [0..<n] (0, 0, 0)"
proof -
  have n: "n - 1 < n" "n - 1 - 0 + 1 = n" "0 \<le> n - 1" using assms by auto
  show "evaluateForward dbl m load n = fold (visit (forward_handler dbl) blocks) [0..<n]"
    using iterate_visits [OF assms n(1), of m] by (simp only: evaluateForward_def n if_True add_0)
  show "stats m load n = fold (visit stats_handler blocks) [0..<n] (0, 0, 0)"
    using iterate_visits [OF assms n(1), of m stats_handler] by (simp only: stats_def n if_True add_0)
  have "iterate m load (n - 1) 0 (backward_handler dbl) = fold (\<lambda>j. visit (backward_handler dbl) blocks (n - 1 - j)) [0..<n]"
  proof (cases "n = 1")
    case True
    then show ?thesis using iterate_visits [OF n(1) assms, of m "backward_handler dbl"] by simp
  next
    case False
    then show ?thesis using iterate_visits [OF n(1) assms, of m "backward_handler dbl"] n(2) assms by simp
  qed
  then show "evaluateBackward dbl m load n = fold (visit (backward_handler dbl) blocks) (rev [0..<n])"
    unfolding evaluateBackward_def fold_rev_upt .
qed

end

text \<open>The blocks of a tape file, and the loader of \<^verbatim>\<open>tape-evaluation.cpp\<close> on it.\<close>

definition file_block :: "ULong list \<Rightarrow> nat \<Rightarrow> tape_block" where
  "file_block tapefile i = (tapefile ! (4 * i), tapefile ! (4 * i + 1), tapefile ! (4 * i + 2), tapefile ! (4 * i + 3))"

definition number_of_blocks :: "ULong list \<Rightarrow> nat" where
  "number_of_blocks tapefile = 8 * length tapefile div 32"

lemma loadfun_word:
  assumes "i + count \<le> number_of_blocks tapefile" "b < count" "r < 4"
  shows "loadfun tapefile i count ! (4 * b + r) = block_words (file_block tapefile (i + b)) ! r"
proof -
  have "4 * (i + count) \<le> length tapefile" using assms(1) by (simp add: number_of_blocks_def)
  then have "loadfun tapefile i count ! (4 * b + r) = tapefile ! (4 * (i + b) + r)"
    using assms(2,3) by (simp add: loadfun_def mult.commute add.assoc distrib_right)
  then show ?thesis
    using assms(3) by (auto simp: lt_4_cases file_block_def block_words_def)
qed

interpretation tapefile: tape_loader "loadfun tapefile" "file_block tapefile" "number_of_blocks tapefile"
  for tapefile :: "ULong list"
  by unfold_locales (rule loadfun_word)

section \<open>Forward and backward evaluation are adjoint\<close>

definition inner :: "'a::comm_ring_1 list \<Rightarrow> 'a list \<Rightarrow> 'a" where
  "inner v w = (\<Sum>i<length v. v ! i * w ! i)"

definition add_at :: "'a::comm_ring_1 list \<Rightarrow> nat \<Rightarrow> 'a \<Rightarrow> 'a list" where
  "add_at v i x = v[i := v ! i + x]"

definition part :: "(ULong \<Rightarrow> 'a::comm_ring_1) \<Rightarrow> 'a list \<Rightarrow> ULong \<Rightarrow> ULong \<Rightarrow> 'a" where
  "part dbl v i d = (if valid_index i then v ! unat i * dbl d else 0)"

definition add_part :: "ULong \<Rightarrow> 'a::comm_ring_1 \<Rightarrow> 'a list \<Rightarrow> 'a list" where
  "add_part i x v = (if valid_index i then add_at v (unat i) x else v)"

lemma length_add_at [simp]: "length (add_at v i x) = length v"
  by (simp add: add_at_def)

lemma length_add_part [simp]: "length (add_part i x v) = length v"
  by (simp add: add_part_def)

lemma add_at_0 [simp]: "add_at v i 0 = v"
  by (simp add: add_at_def)

lemma nth_add_at: "j < length v \<Longrightarrow> add_at v i x ! j = (if i = j then v ! j + x else v ! j)"
  by (simp add: add_at_def nth_list_update)

lemma inner_commute: "length v = length w \<Longrightarrow> inner v w = inner w v"
  by (simp add: inner_def mult.commute)

lemma inner_add_at: "i < length v \<Longrightarrow> inner (add_at v i x) w = inner v w + x * w ! i"
proof -
  assume i: "i < length v"
  have "inner (add_at v i x) w = (\<Sum>j<length v. v ! j * w ! j + (if j = i then x * w ! i else 0))"
    unfolding inner_def by (intro sum.cong) (auto simp: nth_add_at distrib_right)
  then show ?thesis using i by (simp add: inner_def sum.distrib)
qed

lemma forward_handler_parts:
  assumes "k < length v" "valid_index i1 \<longrightarrow> unat i1 \<noteq> k" "valid_index i2 \<longrightarrow> unat i2 \<noteq> k"
  shows "forward_handler dbl k i1 i2 d1 d2 v = add_at v k (part dbl v i1 d1 + part dbl v i2 d2)"
  using assms by (auto simp: forward_handler_def part_def add_at_def Let_def add.assoc nth_list_update)

lemma backward_handler_parts:
  assumes "k < length w" "valid_index i1 \<longrightarrow> unat i1 \<noteq> k"
  shows "backward_handler dbl k i1 i2 d1 d2 w = add_part i2 (w ! k * dbl d2) (add_part i1 (w ! k * dbl d1) w)"
  using assms by (simp add: backward_handler_def add_part_def add_at_def Let_def)

text \<open>A block at position \<open>k\<close> of a tape of \<open>n\<close> blocks refers to other blocks of the tape.\<close>

definition block_ok :: "nat \<Rightarrow> nat \<Rightarrow> tape_block \<Rightarrow> bool" where
  "block_ok n k b = (case b of (i1, i2, d1, d2) \<Rightarrow>
     (valid_index i1 \<longrightarrow> unat i1 < n \<and> unat i1 \<noteq> k) \<and> (valid_index i2 \<longrightarrow> unat i2 < n \<and> unat i2 \<noteq> k))"

lemma inner_add_part: "(valid_index i \<longrightarrow> unat i < length w) \<Longrightarrow> inner (add_part i (x * dbl d) w) v = inner w v + x * part dbl v i d"
  by (simp add: add_part_def part_def inner_add_at mult.assoc mult.left_commute)

lemma visit_adjoint:
  assumes "block_ok (length v) k (blocks k)" "k < length v" "length w = length v"
  shows "inner w (visit (forward_handler dbl) blocks k v) = inner (visit (backward_handler dbl) blocks k w) v"
    "length (visit (forward_handler dbl) blocks k v) = length v" "length (visit (backward_handler dbl) blocks k w) = length v"
proof -
  obtain i1 i2 d1 d2 where b: "blocks k = (i1, i2, d1, d2)" by (cases "blocks k")
  have ok: "valid_index i1 \<longrightarrow> unat i1 < length v \<and> unat i1 \<noteq> k" "valid_index i2 \<longrightarrow> unat i2 < length v \<and> unat i2 \<noteq> k"
    using assms(1) by (simp_all add: block_ok_def b)
  have fw: "visit (forward_handler dbl) blocks k v = add_at v k (part dbl v i1 d1 + part dbl v i2 d2)"
    using ok assms(2) by (simp add: visit_def b forward_handler_parts)
  have bw: "visit (backward_handler dbl) blocks k w = add_part i2 (w ! k * dbl d2) (add_part i1 (w ! k * dbl d1) w)"
    using ok assms(2,3) by (simp add: visit_def b backward_handler_parts)
  show "length (visit (forward_handler dbl) blocks k v) = length v" "length (visit (backward_handler dbl) blocks k w) = length v"
    using fw bw assms(3) by simp_all
  show "inner w (visit (forward_handler dbl) blocks k v) = inner (visit (backward_handler dbl) blocks k w) v"
    using ok assms(2,3) unfolding fw bw
    by (simp add: inner_commute [of w] inner_add_at inner_add_part) (simp add: algebra_simps)
qed

lemma fold_adjoint:
  assumes "\<And>k. k \<in> set ks \<Longrightarrow> k < n \<and> block_ok n k (blocks k)" "length v = n" "length w = n"
  shows "inner w (fold (visit (forward_handler dbl) blocks) ks v) = inner (fold (visit (backward_handler dbl) blocks) (rev ks) w) v"
  using assms
proof (induction ks arbitrary: v)
  case (Cons k ks)
  have step: "length (visit (backward_handler dbl) blocks k w) = n" if "length w = n" "k < n \<and> block_ok n k (blocks k)" for k w
    using visit_adjoint(3) [of w k blocks w dbl] that by simp
  have "length (fold (visit (backward_handler dbl) blocks) (rev ks) w) = n"
    by (rule fold_invariant [where P = "\<lambda>w. length w = n" and Q = "\<lambda>k. k < n \<and> block_ok n k (blocks k)"])
      (use Cons.prems step in auto)
  then show ?case
    using Cons visit_adjoint [of v k blocks "fold (visit (backward_handler dbl) blocks) (rev ks) w" dbl] by simp
qed simp

section \<open>Forward evaluation solves the tangent equations\<close>

text \<open>A recorded block refers to earlier blocks only.\<close>

definition earlier :: "nat \<Rightarrow> tape_block \<Rightarrow> bool" where
  "earlier k b = (case b of (i1, i2, d1, d2) \<Rightarrow> (valid_index i1 \<longrightarrow> unat i1 < k) \<and> (valid_index i2 \<longrightarrow> unat i2 < k))"

definition tangent :: "(ULong \<Rightarrow> 'a::comm_ring_1) \<Rightarrow> (nat \<Rightarrow> tape_block) \<Rightarrow> 'a list \<Rightarrow> 'a list \<Rightarrow> nat \<Rightarrow> bool" where
  "tangent dbl blocks v u k = (case blocks k of (i1, i2, d1, d2) \<Rightarrow> u ! k = v ! k + part dbl u i1 d1 + part dbl u i2 d2)"

lemma earlier_ok: "earlier k b \<Longrightarrow> k < n \<Longrightarrow> block_ok n k b"
  by (auto simp: earlier_def block_ok_def split: prod.splits)

lemma visit_forward:
  assumes "earlier k (blocks k)" "k < length v"
  shows "visit (forward_handler dbl) blocks k v =
    (case blocks k of (i1, i2, d1, d2) \<Rightarrow> add_at v k (part dbl v i1 d1 + part dbl v i2 d2))"
  using assms by (auto simp: visit_def earlier_def forward_handler_parts split: prod.split)

lemma part_add_at_later:
  assumes "valid_index i \<longrightarrow> unat i < k" "k < length v"
  shows "part dbl (add_at v k x) i d = part dbl v i d"
  using assms by (auto simp: part_def nth_add_at)

lemma forward_prefix:
  fixes dbl :: "ULong \<Rightarrow> 'a::comm_ring_1"
  assumes "\<And>k. k < n \<Longrightarrow> earlier k (blocks k)" "length v = n" "m \<le> n"
  defines "u \<equiv> fold (visit (forward_handler dbl) blocks) [0..<m] v"
  shows "length u = n \<and> (\<forall>k<m. tangent dbl blocks v u k) \<and> (\<forall>k<n. m \<le> k \<longrightarrow> u ! k = v ! k)"
  using assms(3) unfolding u_def
proof (induction m)
  case (Suc m)
  let ?u = "fold (visit (forward_handler dbl) blocks) [0..<m] v"
  obtain i1 i2 d1 d2 where b: "blocks m = (i1, i2, d1, d2)" by (cases "blocks m")
  have IH: "length ?u = n" "\<And>k. k < m \<Longrightarrow> tangent dbl blocks v ?u k" "\<And>k. k < n \<Longrightarrow> m \<le> k \<Longrightarrow> ?u ! k = v ! k" and m: "m < n"
    using Suc by auto
  have step: "fold (visit (forward_handler dbl) blocks) [0..<Suc m] v = add_at ?u m (part dbl ?u i1 d1 + part dbl ?u i2 d2)"
    using visit_forward [of m blocks ?u dbl, OF assms(1) [OF m]] IH(1) m by (simp add: b)
  have keep: "part dbl (add_at ?u m x) i d = part dbl ?u i d" if "valid_index i \<longrightarrow> unat i < m" for x i d
    by (rule part_add_at_later) (use that IH(1) m in simp_all)
  have "tangent dbl blocks v (add_at ?u m x) k" if "k < m" for k x
    using IH(2) [OF that] assms(1) [of k] that m IH(1)
    by (auto simp: tangent_def earlier_def nth_add_at keep split: prod.splits)
  moreover have "tangent dbl blocks v (add_at ?u m (part dbl ?u i1 d1 + part dbl ?u i2 d2)) m"
    using assms(1) [OF m] m IH by (simp add: tangent_def b earlier_def nth_add_at keep add.assoc)
  ultimately show ?case
    unfolding step using IH m by (auto simp: less_Suc_eq nth_add_at)
qed (simp add: assms(2))

section \<open>Properties\<close>

text \<open>
  C15. Equivalence of the chunked iteration with a plain traversal: for every (positive) chunk size, the handler is
  called exactly once for every block from the first to the last index, in ascending or descending
  order, with the index and the four words of that block.
\<close>

theorem iterate_in_order:
  assumes "a < number_of_blocks tapefile" "b < number_of_blocks tapefile"
  shows "iterate bufsize (loadfun tapefile) a b f =
    fold (visit f (file_block tapefile)) (if a \<le> b then [a..<b + 1] else rev [b..<a + 1])"
proof (cases "a \<le> b")
  case True
  then show ?thesis
    using tapefile.iterate_visits [OF assms, of bufsize f] fold_upt_shift [of "visit f (file_block tapefile)" a "b - a + 1"] by simp
next
  case False
  then have "rev [b..<a + 1] = map (\<lambda>j. a - j) [0..<a - b + 1]"
    by (intro nth_equalityI) (auto simp: rev_nth simp del: upt_Suc)
  then show ?thesis
    using False tapefile.iterate_visits [OF assms, of bufsize f] by (simp add: fold_map comp_def del: upt_Suc)
qed

theorem iterate_in_order_witness:
  "iterate 2 (loadfun [0, 0, 0, 0, 0, 0, 5, 6, 1, 0, 7, 8]) 2 0 (\<lambda>i i1 i2 d1 d2 s. s @ [(i, i1, i2, d1, d2)]) [] =
     [(2, 1, 0, 7, 8), (1, 0, 0, 5, 6), (0, 0, 0, 0, 0)]"
  using iterate_in_order [of 2 "[0, 0, 0, 0, 0, 0, 5, 6, 1, 0, 7, 8]" 0 2 "\<lambda>i i1 i2 d1 d2 s. s @ [(i, i1, i2, d1, d2)]"]
  by (simp add: number_of_blocks_def visit_def file_block_def upt_rec)

text \<open>
  C14. Forward evaluation: if every block refers to earlier blocks only, the computed dot value of every
  block is its seed plus the dot values of its operands times the recorded partial derivatives.
\<close>

theorem evaluateForward_tangent:
  fixes dbl :: "ULong \<Rightarrow> 'a::comm_ring_1"
  assumes "\<forall>k<number_of_blocks tapefile. earlier k (file_block tapefile k)" "length v = number_of_blocks tapefile" "k < number_of_blocks tapefile"
  shows "tangent dbl (file_block tapefile) v (evaluateForward dbl bufsize (loadfun tapefile) (number_of_blocks tapefile) v) k"
proof -
  have "0 < number_of_blocks tapefile" using assms(3) by simp
  then show ?thesis
    using forward_prefix [of "number_of_blocks tapefile" "file_block tapefile" v "number_of_blocks tapefile" dbl] assms
    by (simp add: tapefile.evaluate_visits)
qed

theorem evaluateForward_tangent_witness:
  "tangent uint (file_block [0, 0, 0, 0, 0, 0, 5, 6, 1, 1, 7, 8]) [0, 2, 0 :: int]
     (evaluateForward uint 100 (loadfun [0, 0, 0, 0, 0, 0, 5, 6, 1, 1, 7, 8]) 3 [0, 2, 0]) 2"
proof -
  have n: "number_of_blocks [0, 0, 0, 0, 0, 0, 5, 6, 1, 1, 7, 8] = 3" by (simp add: number_of_blocks_def)
  have "k < 3 \<Longrightarrow> k = 0 \<or> k = 1 \<or> k = (2 :: nat)" for k by arith
  then have "\<forall>k<3. earlier k (file_block [0, 0, 0, 0, 0, 0, 5, 6, 1, 1, 7, 8] k)"
    by (force simp: earlier_def file_block_def valid_index_def)
  then show ?thesis
    using evaluateForward_tangent [of "[0, 0, 0, 0, 0, 0, 5, 6, 1, 1, 7, 8]" "[0, 2, 0]" 2 uint 100] by (simp add: n)
qed

section \<open>Index files\<close>

text \<open>
  \<^verbatim>\<open>readFromTextFile<ull>\<close>: formatted input of numbers until the end of the file. White space is skipped,
  then digits are read; reaching the end of the file, also right after a digit, ends the loop without
  storing a number. \<open>None\<close> stands for a text that is not a sequence of decimal 64-bit numbers, on which
  the stream fails without reaching its end.
\<close>

definition is_space :: "char \<Rightarrow> bool" where
  "is_space c \<longleftrightarrow> of_char c \<in> {9, 10, 11, 12, 13, 32 :: nat}"

definition is_digit :: "char \<Rightarrow> bool" where
  "is_digit c \<longleftrightarrow> 48 \<le> (of_char c :: nat) \<and> (of_char c :: nat) \<le> 57"

definition digits_value :: "string \<Rightarrow> nat" where
  "digits_value ds = fold (\<lambda>c n. 10 * n + (of_char c - 48)) ds 0"

function readFromTextFile :: "string \<Rightarrow> ULong list option" where
  "readFromTextFile cs =
     (let cs1 = dropWhile is_space cs; ds = takeWhile is_digit cs1; rest = dropWhile is_digit cs1 in
      if cs1 = [] then Some []
      else if ds = [] then None
      else if rest = [] then Some []
      else if digits_value ds \<ge> 2 ^ 64 then None
      else map_option (\<lambda>xs. of_nat (digits_value ds) # xs) (readFromTextFile rest))"
  by auto
termination
proof (relation "measure length", goal_cases)
  case (2 cs cs1 ds rest)
  then have "length ds + length rest = length cs1"
    by (metis length_append takeWhile_dropWhile_id)
  moreover have "length cs1 \<le> length cs" using 2 by (simp add: length_dropWhile_le)
  moreover have "0 < length ds" using 2 by simp
  ultimately show ?case unfolding in_measure by linarith
qed simp

declare readFromTextFile.simps [simp del]

lemma of_char_digit: "d < 10 \<Longrightarrow> (of_char (digit d) :: nat) = 48 + d"
  by (simp add: digit_def)

lemma is_digit_digit: "d < 10 \<Longrightarrow> is_digit (digit d)"
  by (simp add: is_digit_def of_char_digit)

lemma decimal_digits: "list_all is_digit (decimal n) \<and> decimal n \<noteq> []"
proof (induction n rule: decimal.induct)
  case (1 n)
  then show ?case
    by (subst (1 2) decimal.simps) (auto simp: is_digit_digit)
qed

lemma decimal_value: "digits_value (decimal n) = n"
proof (induction n rule: decimal.induct)
  case (1 n)
  then show ?case
    by (subst decimal.simps) (auto simp: digits_value_def of_char_digit)
qed

lemma not_space_digit: "is_digit c \<Longrightarrow> \<not> is_space c"
  by (auto simp: is_digit_def is_space_def)

lemma read_line:
  "readFromTextFile (decimal (unat i) @ CHR 0x0A # rest) = map_option (\<lambda>xs. i # xs) (readFromTextFile (CHR 0x0A # rest))"
proof -
  obtain c cs where d: "decimal (unat i) = c # cs" "is_digit c" "list_all is_digit cs"
    using decimal_digits [of "unat i"] by (cases "decimal (unat i)") auto
  have nd: "\<not> is_digit CHR 0x0A" by (simp add: is_digit_def)
  have tw: "takeWhile is_digit (decimal (unat i) @ CHR 0x0A # rest) = decimal (unat i)"
    "dropWhile is_digit (decimal (unat i) @ CHR 0x0A # rest) = CHR 0x0A # rest"
    using decimal_digits [of "unat i"] nd by (simp_all add: takeWhile_append list_all_iff dropWhile_append)
  have ds: "dropWhile is_space (decimal (unat i) @ CHR 0x0A # rest) = decimal (unat i) @ CHR 0x0A # rest"
    using d not_space_digit by simp
  have "digits_value (decimal (unat i)) < 2 ^ 64" using unsigned_less [of i] by (simp add: decimal_value)
  then show ?thesis
    by (subst readFromTextFile.simps) (simp add: ds tw Let_def decimal_value decimal_digits)
qed

lemma read_newline: "readFromTextFile (CHR 0x0A # rest) = readFromTextFile rest"
proof -
  have "is_space CHR 0x0A" by (simp add: is_space_def)
  then show ?thesis by (subst (1 2) readFromTextFile.simps) simp
qed

text \<open>
  C38. Index files round-trip: the text written by a sequence of calls for input indices, and likewise for
  output indices, is read back as the same sequence of indices.
\<close>

theorem index_files_roundtrip:
  "readFromTextFile (fp_inputs (fold dg_bar_tape_write_input_index is (s\<lparr>fp_inputs := []\<rparr>))) = Some is
   \<and> readFromTextFile (fp_outputs (fold dg_bar_tape_write_output_index is (s\<lparr>fp_outputs := []\<rparr>))) = Some is"
proof -
  have written: "fp_inputs (fold dg_bar_tape_write_input_index is s) = fp_inputs s @ concat (map (\<lambda>i. decimal (unat i) @ [CHR 0x0A]) is)"
    "fp_outputs (fold dg_bar_tape_write_output_index is s) = fp_outputs s @ concat (map (\<lambda>i. decimal (unat i) @ [CHR 0x0A]) is)" for s
    by (induction "is" arbitrary: s) (simp_all add: dg_bar_tape_write_input_index_def dg_bar_tape_write_output_index_def)
  have "readFromTextFile (concat (map (\<lambda>i. decimal (unat i) @ [CHR 0x0A]) is)) = Some is"
  proof (induction "is")
    case Nil
    then show ?case by (subst readFromTextFile.simps) simp
  next
    case (Cons i "is")
    then show ?case by (simp add: read_line read_newline)
  qed
  then show ?thesis by (simp add: written)
qed

section \<open>Seeds and results\<close>

text \<open>
  Seeding the derivative vector and reading results from it, with indices and numbers as read from the
  text files; a size mismatch ends the program.
\<close>

datatype eval_error = Size_mismatch

definition seedGradientVector :: "ULong list \<Rightarrow> 'a::plus list \<Rightarrow> 'a list \<Rightarrow> eval_error + 'a list" where
  "seedGradientVector indices gradients v =
     (if length indices \<noteq> length gradients then Inl Size_mismatch
      else Inr (fold (\<lambda>i v. v[unat (indices ! i) := v ! unat (indices ! i) + gradients ! i]) [0..<length indices] v))"

definition readGradientVector :: "ULong list \<Rightarrow> 'a list \<Rightarrow> 'a list" where
  "readGradientVector indices v = map (\<lambda>i. v ! unat i) indices"

text \<open>\<^verbatim>\<open>tape-evaluation\<close> without options: from output bar values to input bar values.\<close>

definition tape_evaluation ::
    "(ULong \<Rightarrow> 'a::{zero,plus,times}) \<Rightarrow> ULong list \<Rightarrow> ULong list \<Rightarrow> ULong list \<Rightarrow> 'a list \<Rightarrow> eval_error + 'a list" where
  "tape_evaluation dbl tapefile inputs outputs output_bars =
     bindE (seedGradientVector outputs output_bars (replicate (number_of_blocks tapefile) 0)) (\<lambda>v.
     Inr (readGradientVector inputs (evaluateBackward dbl 100 (loadfun tapefile) (number_of_blocks tapefile) v)))"

text \<open>\<^verbatim>\<open>tape-evaluation --forward\<close>: from input dot values to output dot values.\<close>

definition tape_evaluation_forward ::
    "(ULong \<Rightarrow> 'a::{zero,plus,times}) \<Rightarrow> ULong list \<Rightarrow> ULong list \<Rightarrow> ULong list \<Rightarrow> 'a list \<Rightarrow> eval_error + 'a list" where
  "tape_evaluation_forward dbl tapefile inputs outputs input_dots =
     bindE (seedGradientVector inputs input_dots (replicate (number_of_blocks tapefile) 0)) (\<lambda>v.
     Inr (readGradientVector outputs (evaluateForward dbl 100 (loadfun tapefile) (number_of_blocks tapefile) v)))"

lemma seed_inner:
  fixes v :: "'a::comm_ring_1 list"
  assumes "\<forall>i\<in>set is. unat i < length v" "length is = length gs" "length w = length v"
  shows "\<exists>u. seedGradientVector is gs v = Inr u \<and> length u = length v
    \<and> inner u w = inner v w + (\<Sum>j<length is. gs ! j * readGradientVector is w ! j)"
proof -
  define f where "f = (\<lambda>i (v :: 'a list). v[unat (is ! i) := v ! unat (is ! i) + gs ! i])"
  have "length (fold f [0..<m] v) = length v
      \<and> inner (fold f [0..<m] v) w = inner v w + (\<Sum>j<m. gs ! j * readGradientVector is w ! j)" if "m \<le> length is" for m
    using that
  proof (induction m)
    case (Suc m)
    let ?v = "fold f [0..<m] v"
    have "f m ?v = add_at ?v (unat (is ! m)) (gs ! m)" by (simp add: f_def add_at_def)
    moreover have "unat (is ! m) < length ?v" using Suc assms(1) by simp
    ultimately show ?case using Suc by (simp add: inner_add_at readGradientVector_def)
  qed simp
  then show ?thesis using assms(2) by (simp add: seedGradientVector_def f_def)
qed

lemma inner_zero: "length w = n \<Longrightarrow> inner (replicate n 0) w = 0"
  by (simp add: inner_def)

lemma evaluate_length:
  "length (fold (visit (forward_handler dbl) blocks) ks v) = length v"
  "length (fold (visit (backward_handler dbl) blocks) ks v) = length v"
  by (induction ks arbitrary: v)
    (simp_all add: visit_def forward_handler_def backward_handler_def Let_def split: prod.split)

lemma evaluation_transposes:
  fixes dbl :: "ULong \<Rightarrow> 'a::comm_ring_1"
  assumes "\<forall>k<number_of_blocks tapefile. earlier k (file_block tapefile k)" "0 < number_of_blocks tapefile"
    "\<forall>i\<in>set inputs \<union> set outputs. unat i < number_of_blocks tapefile" "length dots = length inputs" "length bars = length outputs"
  shows "\<exists>input_bars output_dots.
      tape_evaluation dbl tapefile inputs outputs bars = Inr input_bars
    \<and> tape_evaluation_forward dbl tapefile inputs outputs dots = Inr output_dots
    \<and> (\<Sum>j<length outputs. bars ! j * output_dots ! j) = (\<Sum>j<length inputs. dots ! j * input_bars ! j)"
proof -
  let ?n = "number_of_blocks tapefile"
  let ?fw = "evaluateForward dbl 100 (loadfun tapefile) ?n" and ?bw = "evaluateBackward dbl 100 (loadfun tapefile) ?n"
  have len: "length (?fw v) = length v" "length (?bw v) = length v" for v
    by (simp_all add: tapefile.evaluate_visits [OF assms(2)] evaluate_length)
  have ins: "\<forall>i\<in>set inputs. unat i < length (replicate ?n (0 :: 'a))" "\<forall>i\<in>set outputs. unat i < length (replicate ?n (0 :: 'a))"
    using assms(3) by auto
  obtain v where v: "seedGradientVector inputs dots (replicate ?n 0) = Inr v" "length v = ?n"
    using seed_inner [OF ins(1) assms(4) [symmetric] refl] by auto
  obtain w where w: "seedGradientVector outputs bars (replicate ?n 0) = Inr w" "length w = ?n"
    using seed_inner [OF ins(2) assms(5) [symmetric] refl] by auto
  have iv: "inner v (?bw w) = (\<Sum>j<length inputs. dots ! j * readGradientVector inputs (?bw w) ! j)"
    using seed_inner [OF ins(1) assms(4) [symmetric], of "?bw w"] v w len by (simp add: inner_zero)
  have iw: "inner w (?fw v) = (\<Sum>j<length outputs. bars ! j * readGradientVector outputs (?fw v) ! j)"
    using seed_inner [OF ins(2) assms(5) [symmetric], of "?fw v"] v w len by (simp add: inner_zero)
  have "inner w (?fw v) = inner (?bw w) v"
    unfolding tapefile.evaluate_visits [OF assms(2)]
    by (rule fold_adjoint [where n = ?n]) (use assms(1) v w earlier_ok in auto)
  then show ?thesis
    using iv iw v w len inner_commute [of v "?bw w"] by (simp add: tape_evaluation_def tape_evaluation_forward_def)
qed

section \<open>Recorded tapes\<close>

text \<open>
  A program that takes the indices of operands from earlier results, or 0 for an inactive operand: \<open>known\<close>
  collects the indices assigned so far.
\<close>

fun operands_from :: "ULong set \<Rightarrow> tape_op list \<Rightarrow> ULong list \<Rightarrow> bool" where
  "operands_from known [] is \<longleftrightarrow> True"
| "operands_from known (op # ops) [] \<longleftrightarrow> False"
| "operands_from known ((na, i1, i2, d1, d2, v) # ops) (i # is) \<longleftrightarrow>
     i1 \<in> insert 0 known \<and> i2 \<in> insert 0 known \<and> operands_from (insert i known) ops is"

definition earlier_blocks :: "recording \<Rightarrow> bool" where
  "earlier_blocks xs \<longleftrightarrow> (\<forall>k<length xs. earlier k (fst (xs ! k)))"

lemma spec_op_earlier:
  fixes na :: bool and d1 d2 v :: ULong
  assumes "earlier_blocks xs" "\<forall>i\<in>known. unat i < length xs" "0 < length xs" "length xs < 2 ^ 64"
    "i1 \<in> insert 0 known" "i2 \<in> insert 0 known"
  defines "r \<equiv> spec_op (na, i1, i2, d1, d2, v) xs"
  shows "earlier_blocks (snd r)" "\<forall>i\<in>insert (fst r) known. unat i < length (snd r)" "length xs \<le> length (snd r)"
proof -
  have "valid_index i1 \<longrightarrow> unat i1 < length xs" "valid_index i2 \<longrightarrow> unat i2 < length xs"
    using assms(2,5,6) by (auto simp: valid_index_def)
  then show "earlier_blocks (snd r)"
    using assms(1) by (auto simp: r_def spec_op_def spec_new_index_def earlier_blocks_def nth_append earlier_def less_Suc_eq)
  show "\<forall>i\<in>insert (fst r) known. unat i < length (snd r)" "length xs \<le> length (snd r)"
    using assms(2,3) unat_index [OF assms(4)] by (auto simp: r_def spec_op_def spec_new_index_def less_Suc_eq)
qed

lemma run_spec_earlier:
  assumes "earlier_blocks xs" "\<forall>i\<in>known. unat i < length xs" "0 < length xs" "length xs + length ops \<le> 2 ^ 64"
    "operands_from known ops (fst (run_ops spec_op ops xs))"
  shows "earlier_blocks (snd (run_ops spec_op ops xs))
    \<and> (\<forall>i\<in>known \<union> set (fst (run_ops spec_op ops xs)). unat i < length (snd (run_ops spec_op ops xs)))"
  using assms
proof (induction ops arbitrary: xs known)
  case (Cons op ops)
  obtain na i1 i2 d1 d2 v where op: "op = (na, i1, i2, d1, d2, v)" by (cases op)
  let ?r = "spec_op op xs"
  have ops: "i1 \<in> insert 0 known" "i2 \<in> insert 0 known" "operands_from (insert (fst ?r) known) ops (fst (run_ops spec_op ops (snd ?r)))"
    using Cons.prems(5) by (simp_all add: op case_prod_beta)
  have "length xs < 2 ^ 64" using Cons.prems(4) by simp
  note step = spec_op_earlier [OF Cons.prems(1-3) this ops(1,2), of na d1 d2 v, folded op]
  have "0 < length (snd ?r)" "length (snd ?r) + length ops \<le> 2 ^ 64"
    using step(3) Cons.prems(3,4) spec_op_length [of op xs] by auto
  from Cons.IH [OF step(1,2) this ops(3)] show ?case by (simp add: case_prod_beta)
qed simp

lemma recorded_file:
  "number_of_blocks (tape_words xs) = length xs"
  "k < length xs \<Longrightarrow> file_block (tape_words xs) k = fst (xs ! k)"
proof -
  show "number_of_blocks (tape_words xs) = length xs" by (simp add: number_of_blocks_def tape_words_length)
  assume k: "k < length xs"
  have "tape_words xs ! (4 * k + r) = block_words (fst (xs ! k)) ! r" if "r < 4" for r
    using tape_words_nth [OF k] k that tape_words_length [of xs] nth_take [OF that, of "drop (4 * k) (tape_words xs)"] by simp
  from this [of 0] this [of 1] this [of 2] this [of 3] show "file_block (tape_words xs) k = fst (xs ! k)"
    by (cases "fst (xs ! k)") (simp add: file_block_def block_words_def)
qed

end
