(* ===== verification/VG_Strings.thy ===== *)
theory VG_Strings
  imports DG_Prelude "HOL-Library.Sublist"
begin

text \<open>
  The string functions of Valgrind's own C library (\<^verbatim>\<open>coregrind/m_libcbase.c\<close>) that Derivgrind uses to read its
  command line and the commands of the debugger, and the command look-up of the gdb server
  (\<^verbatim>\<open>coregrind/m_gdbserver/m_gdbserver.c\<close>).

  A pointer into a C string is the list of the characters before the terminator, so that advancing the
  pointer is \<open>tl\<close> and the end of the string reads as \<open>CHR 0x00\<close>. Functions with an \<^verbatim>\<open>endptr\<close> or
  \<^verbatim>\<open>saveptr\<close> argument return the new pointer beside their result. Machine arithmetic wraps around.
\<close>

section \<open>Characters and numbers\<close>

definition deref :: "string \<Rightarrow> char" where
  "deref s = (case s of [] \<Rightarrow> CHR 0x00 | c # _ \<Rightarrow> c)"

definition isspace :: "char \<Rightarrow> bool" where
  "isspace c \<longleftrightarrow> c = CHR '' '' \<or> c = CHR 0x0A \<or> c = CHR 0x09 \<or> c = CHR 0x0C \<or> c = CHR 0x0B \<or> c = CHR 0x0D"

definition is_dec_digit :: "char \<Rightarrow> ULong option" where
  "is_dec_digit c = (let k = of_char c :: nat in if 48 \<le> k \<and> k \<le> 57 then Some (of_nat (k - 48)) else None)"

definition is_hex_digit :: "char \<Rightarrow> ULong option" where
  "is_hex_digit c = (let k = of_char c :: nat in
     if 48 \<le> k \<and> k \<le> 57 then Some (of_nat (k - 48))
     else if 65 \<le> k \<and> k \<le> 70 then Some (of_nat (k - 65) + 10)
     else if 97 \<le> k \<and> k \<le> 102 then Some (of_nat (k - 97) + 10)
     else None)"

text \<open>The loop shared by the conversions: \<open>b\<close> is the base and \<open>dig\<close> the test for a digit.\<close>

fun digit_loop :: "ULong \<Rightarrow> (char \<Rightarrow> ULong option) \<Rightarrow> bool \<Rightarrow> ULong \<Rightarrow> string \<Rightarrow> bool \<times> ULong \<times> string" where
  "digit_loop b dig converted n [] = (converted, n, [])"
| "digit_loop b dig converted n (c # str) =
     (case dig c of Some d \<Rightarrow> digit_loop b dig True (b * n + d) str | None \<Rightarrow> (converted, n, c # str))"

definition strtoll10 :: "string \<Rightarrow> ULong \<times> string" where
  "strtoll10 str0 =
     (let str = dropWhile isspace str0;
          neg = (deref str = CHR ''-'');
          str = (if deref str = CHR ''-'' then tl str else if deref str = CHR ''+'' then tl str else str);
          (converted, n, str) = digit_loop 10 is_dec_digit False 0 str
      in (if neg then - n else n, if converted then str else str0))"

definition strtoull10 :: "string \<Rightarrow> ULong \<times> string" where
  "strtoull10 str0 =
     (let str = dropWhile isspace str0;
          str = (if deref str = CHR ''+'' then tl str else str);
          (converted, n, str) = digit_loop 10 is_dec_digit False 0 str
      in (n, if converted then str else str0))"

definition skip_0x :: "string \<Rightarrow> string" where
  "skip_0x str =
     (if deref str = CHR ''0'' \<and> (deref (tl str) = CHR ''x'' \<or> deref (tl str) = CHR ''X'') \<and> is_hex_digit (deref (tl (tl str))) \<noteq> None
      then tl (tl str) else str)"

definition strtoll16 :: "string \<Rightarrow> ULong \<times> string" where
  "strtoll16 str0 =
     (let str = dropWhile isspace str0;
          neg = (deref str = CHR ''-'');
          str = (if deref str = CHR ''-'' then tl str else if deref str = CHR ''+'' then tl str else str);
          (converted, n, str) = digit_loop 16 is_hex_digit False 0 (skip_0x str)
      in (if neg then - n else n, if converted then str else str0))"

definition strtoull16 :: "string \<Rightarrow> ULong \<times> string" where
  "strtoull16 str0 =
     (let str = dropWhile isspace str0;
          str = (if deref str = CHR ''+'' then tl str else str);
          (converted, n, str) = digit_loop 16 is_hex_digit False 0 (skip_0x str)
      in (n, if converted then str else str0))"

text \<open>
  Decimal fractions. The type \<open>'d\<close> with its arithmetic stands for \<^verbatim>\<open>double\<close>, and \<open>dbl\<close> converts a \<^verbatim>\<open>Long\<close>.
\<close>

fun int_loop :: "(ULong \<Rightarrow> 'd::{plus,times,numeral}) \<Rightarrow> 'd \<Rightarrow> string \<Rightarrow> 'd \<times> string" where
  "int_loop dbl n [] = (n, [])"
| "int_loop dbl n (c # str) =
     (case is_dec_digit c of Some d \<Rightarrow> int_loop dbl (10 * n + dbl d) str | None \<Rightarrow> (n, c # str))"

fun frac_loop :: "(ULong \<Rightarrow> 'd::{plus,times,inverse,numeral}) \<Rightarrow> 'd \<Rightarrow> 'd \<Rightarrow> string \<Rightarrow> 'd \<times> string" where
  "frac_loop dbl x frac [] = (frac, [])"
| "frac_loop dbl x frac (c # str) =
     (case is_dec_digit c of Some d \<Rightarrow> frac_loop dbl (x / 10) (frac + x * dbl d) str | None \<Rightarrow> (frac, c # str))"

definition strtod :: "(ULong \<Rightarrow> 'd::{plus,times,inverse,uminus,numeral}) \<Rightarrow> string \<Rightarrow> 'd \<times> string" where
  "strtod dbl str =
     (let str = dropWhile isspace str;
          neg = (deref str = CHR ''-'');
          str = (if deref str = CHR ''-'' then tl str else if deref str = CHR ''+'' then tl str else str);
          (n, str) = int_loop dbl (dbl 0) str;
          (frac, str) = (if deref str = CHR ''.'' then frac_loop dbl (1 / 10) (dbl 0) (tl str) else (dbl 0, str));
          n = n + frac
      in (if neg then - n else n, str))"

text \<open>Addresses: \<open>None\<close> stands for the result \<^verbatim>\<open>False\<close>.\<close>

definition isHex :: "char \<Rightarrow> bool" where
  "isHex c = (let k = of_char c :: nat in 48 \<le> k \<and> k \<le> 57 \<or> 97 \<le> k \<and> k \<le> 102 \<or> 65 \<le> k \<and> k \<le> 70)"

definition fromHex :: "char \<Rightarrow> UInt" where
  "fromHex c = (let k = of_char c :: nat in
     if 48 \<le> k \<and> k \<le> 57 then of_nat k - 48
     else if 97 \<le> k \<and> k \<le> 102 then 10 + of_nat k - 97
     else if 65 \<le> k \<and> k \<le> 70 then 10 + of_nat k - 65
     else 0)"

fun addr_loop :: "nat \<Rightarrow> ULong \<Rightarrow> string \<Rightarrow> (nat \<times> ULong \<times> string) option" where
  "addr_loop used result [] = Some (used, result, [])"
| "addr_loop used result (c # pc) =
     (if isHex c then
        (let result = push_bit 4 result OR ucast (fromHex c); used = used + 1
         in if used > 16 then None else addr_loop used result pc)
      else Some (used, result, c # pc))"

definition parse_Addr :: "string \<Rightarrow> (ULong \<times> string) option" where
  "parse_Addr pc =
     (if deref pc \<noteq> CHR ''0'' then None
      else if deref (tl pc) \<noteq> CHR ''x'' then None
      else Option.bind (addr_loop 0 0 (tl (tl pc)))
             (\<lambda>(used, result, pc). if used = 0 then None else Some (result, pc)))"

section \<open>Strings\<close>

fun strspn :: "string \<Rightarrow> string \<Rightarrow> nat" where
  "strspn [] accpt = 0"
| "strspn (c # s) accpt = (if c \<in> set accpt then 1 + strspn s accpt else 0)"

fun strpbrk :: "string \<Rightarrow> string \<Rightarrow> string option" where
  "strpbrk [] accpt = None"
| "strpbrk (c # s) accpt = (if c \<in> set accpt then Some (c # s) else strpbrk s accpt)"

fun strcmp :: "string \<Rightarrow> string \<Rightarrow> int" where
  "strcmp [] [] = 0"
| "strcmp [] (c # s2) = (if (0 :: nat) < of_char c then - 1 else 0)"
| "strcmp (c # s1) [] = (if (0 :: nat) < of_char c then 1 else 0)"
| "strcmp (c # s1) (d # s2) =
     (if (of_char c :: nat) < of_char d then - 1 else if (of_char d :: nat) < of_char c then 1
      else if (of_char c :: nat) = 0 then 0 else strcmp s1 s2)"

fun strncmp :: "string \<Rightarrow> string \<Rightarrow> nat \<Rightarrow> int" where
  "strncmp s1 s2 0 = 0"
| "strncmp s1 s2 (Suc n) =
     (if (of_char (deref s1) :: nat) < of_char (deref s2) then - 1 else if (of_char (deref s2) :: nat) < of_char (deref s1) then 1
      else if deref s1 = CHR 0x00 then 0 else strncmp (tl s1) (tl s2) n)"

text \<open>
  The token is the part of the string before the delimiter that is overwritten by a terminator. The second
  component of the result is \<^verbatim>\<open>*saveptr\<close>, from which the next call, with \<^verbatim>\<open>s == NULL\<close>, continues.
\<close>

definition strtok_r :: "string \<Rightarrow> string \<Rightarrow> string option \<times> string" where
  "strtok_r s delim =
     (let s = drop (strspn s delim) s
      in if s = [] then (None, s)
         else case strpbrk s delim of
           None \<Rightarrow> (Some s, drop (length s) s)
         | Some t \<Rightarrow> (Some (take (length s - length t) s), tl t))"

lemma strspn_le: "strspn s accpt \<le> length s"
  by (induction s) auto

lemma strpbrk_split: "strpbrk s accpt = Some t \<Longrightarrow> \<exists>u c r. s = u @ t \<and> t = c # r \<and> c \<in> set accpt \<and> set u \<inter> set accpt = {}"
proof (induction s)
  case (Cons c s)
  show ?case
  proof (cases "c \<in> set accpt")
    case True
    then show ?thesis using Cons.prems by (intro exI [of _ "[]"]) auto
  next
    case False
    then obtain u d r where "s = u @ t" "t = d # r" "d \<in> set accpt" "set u \<inter> set accpt = {}" using Cons by auto
    then show ?thesis using False by (intro exI [of _ "c # u"]) auto
  qed
qed simp

lemma strpbrk_None: "strpbrk s accpt = None \<longleftrightarrow> set s \<inter> set accpt = {}"
  by (induction s) auto

lemma strtok_shorter:
  assumes "strtok_r s delim = (Some t, s')"
  shows "length s' < length s"
proof -
  define r where "r = drop (strspn s delim) s"
  have r: "r \<noteq> []" "length r \<le> length s" using assms by (auto simp: strtok_r_def r_def Let_def)
  show ?thesis
  proof (cases "strpbrk r delim")
    case None
    then show ?thesis using assms r by (auto simp: strtok_r_def r_def Let_def)
  next
    case (Some u)
    then have "s' = tl u" "length u \<le> length r" "u \<noteq> []"
      using assms r strpbrk_split [OF Some] by (auto simp: strtok_r_def r_def [symmetric] Let_def)
    then show ?thesis using r(2) by (cases u) auto
  qed
qed

text \<open>
  The tokens that a first call of \<^verbatim>\<open>strtok_r\<close> and the following calls return, until the result is
  \<^verbatim>\<open>NULL\<close>: the loops of the callers run over this list.
\<close>

function strtok_all :: "string \<Rightarrow> string \<Rightarrow> string list" where
  "strtok_all delim s = (case strtok_r s delim of (None, _) \<Rightarrow> [] | (Some t, s') \<Rightarrow> t # strtok_all delim s')"
  by pat_completeness auto

termination
  by (relation "measure (\<lambda>(delim, s). length s)") (auto dest: strtok_shorter [OF sym])

declare strtok_all.simps [simp del]

section \<open>Keywords\<close>

datatype kwd_report_error = kwd_report_none | kwd_report_all | kwd_report_duplicated_matches

record keyword_state =
  kpos :: int
  pass1needed :: int
  partial_match :: int
  full_match :: int
  printed :: "string list"

text \<open>The body of the loop over the keywords, in the given pass.\<close>

definition keyword_step :: "nat \<Rightarrow> string \<Rightarrow> string \<Rightarrow> keyword_state \<Rightarrow> keyword_state" where
  "keyword_step pass iw kw k =
     (let il = length iw; kwl = length kw; k = k\<lparr>kpos := kpos k + 1\<rparr>
      in if il > kwl then k
         else if il = kwl then
           (if strcmp kw iw = 0 then
              (let k = (if pass = 1 then k\<lparr>printed := printed k @ ['' '' @ kw]\<rparr> else k);
                   k = (if full_match k \<noteq> - 1 then k\<lparr>pass1needed := pass1needed k + 1\<rparr> else k)
               in k\<lparr>full_match := kpos k\<rparr>)
            else k)
         else
           (if strncmp iw kw il = 0 then
              (let k = (if pass = 1 then k\<lparr>printed := printed k @ ['' '' @ kw]\<rparr> else k);
                   k = (if partial_match k \<noteq> - 1 then k\<lparr>pass1needed := pass1needed k + 1\<rparr> else k)
               in k\<lparr>partial_match := kpos k\<rparr>)
            else k))"

text \<open>One pass: the result, or \<open>None\<close> when the loop over the passes continues.\<close>

definition keyword_pass ::
    "nat \<Rightarrow> string \<Rightarrow> string \<Rightarrow> kwd_report_error \<Rightarrow> keyword_state \<Rightarrow> int option \<times> keyword_state" where
  "keyword_pass pass keywords iw report k =
     (let k = (if pass = 1 then k\<lparr>printed := printed k @ [(if iw = [] then ''<empty string>'' else iw) @ '' can match'']\<rparr> else k);
          k = fold (keyword_step pass iw) (strtok_all '' '' keywords) k
      in if pass1needed k = 0 then
           (if full_match k \<noteq> - 1 then (Some (full_match k), k)
            else (Some (partial_match k),
                  if report = kwd_report_all \<and> partial_match k = - 1
                  then k\<lparr>printed := printed k @ [iw @ '' does not match any of '' @ keywords]\<rparr> else k))
         else if pass = 1 \<or> report = kwd_report_none then
           (Some (if partial_match k \<noteq> - 1 \<or> full_match k \<noteq> - 1 then - 2 else - 1),
            if report \<noteq> kwd_report_none then k\<lparr>printed := printed k @ [[CHR 0x0A]]\<rparr> else k)
         else (None, k))"

text \<open>\<open>None\<close> is the assertion at the end of the function.\<close>

definition keyword_id :: "string \<Rightarrow> string option \<Rightarrow> kwd_report_error \<Rightarrow> (int \<times> string list) option" where
  "keyword_id keywords input_word report =
     (let k = \<lparr>kpos = - 1, pass1needed = 0, partial_match = (if input_word = None then 0 else - 1), full_match = - 1, printed = []\<rparr>;
          iw = (case input_word of None \<Rightarrow> [] | Some w \<Rightarrow> w)
      in case keyword_pass 0 keywords iw report k of
           (Some r, k) \<Rightarrow> Some (r, printed k)
         | (None, k) \<Rightarrow>
             (case keyword_pass 1 keywords iw report k of
                (Some r, k) \<Rightarrow> Some (r, printed k)
              | (None, k) \<Rightarrow> None))"

section \<open>Tokens\<close>

text \<open>The reference: the fields between delimiters, of which the tokens are the nonempty ones.\<close>

fun split_fields :: "char set \<Rightarrow> string \<Rightarrow> string list" where
  "split_fields D [] = [[]]"
| "split_fields D (c # s) = (if c \<in> D then [] # split_fields D s else case split_fields D s of [] \<Rightarrow> [[c]] | t # ts \<Rightarrow> (c # t) # ts)"

lemma fields_ne [simp]: "split_fields D s \<noteq> []"
  by (induction s) (auto split: list.split)

lemma fields_skip: "filter (\<lambda>t. t \<noteq> []) (split_fields (set delim) (drop (strspn s delim) s)) = filter (\<lambda>t. t \<noteq> []) (split_fields (set delim) s)"
  by (induction s) auto

lemma fields_prefix: "set u \<inter> D = {} \<Longrightarrow> split_fields D (u @ s) = (u @ hd (split_fields D s)) # tl (split_fields D s)"
  by (induction u) (auto split: list.split)

lemma fields_append: "set u \<inter> D = {} \<Longrightarrow> c \<in> D \<Longrightarrow> split_fields D (u @ c # s) = u # split_fields D s"
  by (simp add: fields_prefix)

lemma fields_single: "set u \<inter> D = {} \<Longrightarrow> split_fields D u = [u]"
  using fields_prefix [of u D "[]"] by simp

lemma strspn_stop: "drop (strspn s accpt) s = c # r \<Longrightarrow> c \<notin> set accpt"
  by (induction s) (auto split: if_splits)

lemma strtok_all_fields: "strtok_all delim s = filter (\<lambda>t. t \<noteq> []) (split_fields (set delim) s)"
proof (induction "length s" arbitrary: s rule: less_induct)
  case less
  define r where "r = drop (strspn s delim) s"
  have same: "filter (\<lambda>t. t \<noteq> []) (split_fields (set delim) s) = filter (\<lambda>t. t \<noteq> []) (split_fields (set delim) r)"
    unfolding r_def by (rule fields_skip [symmetric])
  show ?case
  proof (cases "r = []")
    case True
    then have "strtok_r s delim = (None, [])" by (simp add: strtok_r_def r_def [symmetric] Let_def)
    then show ?thesis using same True by (simp add: strtok_all.simps)
  next
    case False
    show ?thesis
    proof (cases "strpbrk r delim")
      case None
      then have "strtok_r s delim = (Some r, [])" using False by (simp add: strtok_r_def r_def [symmetric] Let_def)
      moreover have "strtok_all delim [] = []" by (subst strtok_all.simps) (simp add: strtok_r_def)
      moreover have "split_fields (set delim) r = [r]" using None by (simp add: fields_single strpbrk_None)
      ultimately show ?thesis using same False by (subst strtok_all.simps) simp
    next
      case (Some t)
      then obtain u c v where u: "r = u @ t" "t = c # v" "c \<in> set delim" "set u \<inter> set delim = {}" using strpbrk_split by blast
      have tok: "strtok_r s delim = (Some u, v)" using Some False u by (simp add: strtok_r_def r_def [symmetric] Let_def)
      have "u \<noteq> []" using strspn_stop [of s delim] u by (cases u) (auto simp: r_def)
      moreover have "strtok_all delim v = filter (\<lambda>t. t \<noteq> []) (split_fields (set delim) v)"
        by (rule less) (rule strtok_shorter [OF tok])
      moreover have "split_fields (set delim) r = u # split_fields (set delim) v" using u by (simp add: fields_append)
      ultimately show ?thesis using same tok by (subst strtok_all.simps) simp
    qed
  qed
qed

lemma fields_count: "2 * length (filter (\<lambda>t. t \<noteq> []) (split_fields D s)) \<le> length s + (if hd (split_fields D s) = [] then 0 else 1)"
proof (induction s)
  case (Cons c s)
  obtain t ts where "split_fields D s = t # ts" by (metis fields_ne list.exhaust)
  then show ?case using Cons by (auto split: if_splits)
qed simp

lemma tokens_bound: "2 * length (strtok_all delim s) \<le> length s + 1"
  using fields_count [of "set delim" s] by (auto simp: strtok_all_fields split: if_splits)

section \<open>Looking up a keyword\<close>

lemma of_char_0: "(of_char c :: nat) = 0 \<longleftrightarrow> c = CHR 0x00"
  by (cases c) (auto simp: of_char_def horner_sum_simps split: if_splits)

lemma of_char_eq: "(of_char c :: nat) = of_char d \<longleftrightarrow> c = d"
  by (metis char_of_char)

lemma strcmp_eq: "CHR 0x00 \<notin> set a \<Longrightarrow> CHR 0x00 \<notin> set b \<Longrightarrow> strcmp a b = 0 \<longleftrightarrow> a = b"
  by (induction a b rule: strcmp.induct) (auto simp: of_char_0 of_char_eq not_less_iff_gr_or_eq)

lemma strncmp_prefix: "CHR 0x00 \<notin> set a \<Longrightarrow> CHR 0x00 \<notin> set b \<Longrightarrow> strncmp a b (length a) = 0 \<longleftrightarrow> prefix a b"
proof (induction a arbitrary: b)
  case (Cons c a)
  then show ?case
    by (cases b) (auto simp: deref_def of_char_0 of_char_eq not_less_iff_gr_or_eq)
qed simp

definition last_match :: "nat list \<Rightarrow> int" where
  "last_match is = (if is = [] then - 1 else int (last is))"

definition positions :: "('a \<Rightarrow> bool) \<Rightarrow> 'a list \<Rightarrow> nat list" where
  "positions Q xs = filter (\<lambda>i. Q (xs ! i)) [0..<length xs]"

lemma positions_snoc: "positions Q (xs @ [x]) = positions Q xs @ (if Q x then [length xs] else [])"
  by (auto simp: positions_def nth_append intro!: filter_cong)

lemma keyword_step_fields:
  assumes "CHR 0x00 \<notin> set w" "CHR 0x00 \<notin> set kw"
  shows "kpos (keyword_step pass w kw k) = kpos k + 1"
    "full_match (keyword_step pass w kw k) = (if kw = w then kpos k + 1 else full_match k)"
    "partial_match (keyword_step pass w kw k) = (if strict_prefix w kw then kpos k + 1 else partial_match k)"
    "pass1needed (keyword_step pass w kw k) =
       pass1needed k + (if kw = w \<and> full_match k \<noteq> - 1 \<or> strict_prefix w kw \<and> partial_match k \<noteq> - 1 then 1 else 0)"
proof -
  have cmp: "strcmp w w = 0" "strcmp kw w = 0 \<longleftrightarrow> kw = w" "strncmp w kw (length w) = 0 \<longleftrightarrow> prefix w kw"
    using strcmp_eq [OF assms(1,1)] strcmp_eq [OF assms(2,1)] strncmp_prefix [OF assms] by blast+
  have pre: "strict_prefix w kw \<longleftrightarrow> prefix w kw \<and> length w < length kw"
    by (metis prefix_length_less prefix_order.dual_order.strict_iff_order less_irrefl prefix_order.le_neq_trans)
  show "kpos (keyword_step pass w kw k) = kpos k + 1"
    "full_match (keyword_step pass w kw k) = (if kw = w then kpos k + 1 else full_match k)"
    "partial_match (keyword_step pass w kw k) = (if strict_prefix w kw then kpos k + 1 else partial_match k)"
    "pass1needed (keyword_step pass w kw k) =
       pass1needed k + (if kw = w \<and> full_match k \<noteq> - 1 \<or> strict_prefix w kw \<and> partial_match k \<noteq> - 1 then 1 else 0)"
    using prefix_length_le [of w kw] by (auto simp: keyword_step_def Let_def cmp pre)
qed

lemma keyword_fold:
  assumes "CHR 0x00 \<notin> set w" "\<forall>kw\<in>set kws. CHR 0x00 \<notin> set kw" "kpos k = - 1" "pass1needed k = 0" "partial_match k = - 1" "full_match k = - 1"
  defines "F \<equiv> positions (\<lambda>kw. kw = w) kws" and "Q \<equiv> positions (strict_prefix w) kws"
  shows "kpos (fold (keyword_step pass w) kws k) = int (length kws) - 1
    \<and> full_match (fold (keyword_step pass w) kws k) = last_match F
    \<and> partial_match (fold (keyword_step pass w) kws k) = last_match Q
    \<and> pass1needed (fold (keyword_step pass w) kws k) = int (length F - 1) + int (length Q - 1)"
  using assms(2) unfolding F_def Q_def
proof (induction kws rule: rev_induct)
  case Nil
  then show ?case using assms(3-6) by (simp add: positions_def last_match_def)
next
  case (snoc kw kws)
  let ?k = "fold (keyword_step pass w) kws k"
  have IH: "kpos ?k = int (length kws) - 1" "full_match ?k = last_match (positions (\<lambda>kw. kw = w) kws)"
    "partial_match ?k = last_match (positions (strict_prefix w) kws)"
    "pass1needed ?k = int (length (positions (\<lambda>kw. kw = w) kws) - 1) + int (length (positions (strict_prefix w) kws) - 1)"
    using snoc by auto
  have nul: "CHR 0x00 \<notin> set kw" using snoc.prems by simp
  have ne: "last_match is \<noteq> - 1 \<longleftrightarrow> is \<noteq> []" for "is" by (simp add: last_match_def)
  have snoc_match: "last_match (is @ [n]) = int n" "is \<noteq> [] \<Longrightarrow> int (length is - 1) + 1 = int (length is)"
    for "is" n by (cases "is"; simp add: last_match_def)+
  show ?case
    using IH snoc_match(2) [of "positions (\<lambda>kw. kw = w) kws"] snoc_match(2) [of "positions (strict_prefix w) kws"]
    by (auto simp: keyword_step_fields [OF assms(1) nul] positions_snoc ne snoc_match(1))
qed

lemma keyword_fold_needed: "pass1needed k \<le> pass1needed (fold (keyword_step pass w) kws k)"
proof (induction kws arbitrary: k)
  case (Cons kw kws)
  have "pass1needed k \<le> pass1needed (keyword_step pass w kw k)" by (simp add: keyword_step_def Let_def)
  then show ?case using Cons [of "keyword_step pass w kw k"] by simp
qed simp

lemma keyword_fold_matched:
  "partial_match k \<noteq> - 1 \<or> full_match k \<noteq> - 1 \<Longrightarrow> - 1 \<le> kpos k \<Longrightarrow>
     partial_match (fold (keyword_step pass w) kws k) \<noteq> - 1 \<or> full_match (fold (keyword_step pass w) kws k) \<noteq> - 1"
proof (induction kws arbitrary: k)
  case (Cons kw kws)
  have "partial_match (keyword_step pass w kw k) \<noteq> - 1 \<or> full_match (keyword_step pass w kw k) \<noteq> - 1" "- 1 \<le> kpos (keyword_step pass w kw k)"
    using Cons.prems by (auto simp: keyword_step_def Let_def)
  then show ?case using Cons.IH by simp
qed simp

lemma keyword_id_result:
  assumes "CHR 0x00 \<notin> set keywords" "CHR 0x00 \<notin> set w"
  shows "map_option fst (keyword_id keywords (Some w) report) =
    (let kws = filter (\<lambda>t. t \<noteq> []) (split_fields {CHR '' ''} keywords);
         full = positions (\<lambda>kw. kw = w) kws; part = positions (strict_prefix w) kws
     in Some (if length full \<le> 1 \<and> length part \<le> 1 then last_match (if full \<noteq> [] then full else part) else - 2))"
proof -
  define kws where "kws = filter (\<lambda>t. t \<noteq> []) (split_fields {CHR '' ''} keywords)"
  define k where "k = \<lparr>kpos = - 1, pass1needed = 0, partial_match = - 1, full_match = - 1, printed = []\<rparr>"
  define full part where "full = positions (\<lambda>kw. kw = w) kws" and "part = positions (strict_prefix w) kws"
  have kws: "strtok_all '' '' keywords = kws" by (simp add: strtok_all_fields kws_def)
  have "\<forall>t\<in>set (split_fields D s). set t \<subseteq> set s" for D s
  proof (induction s)
    case (Cons c s)
    obtain t ts where "split_fields D s = t # ts" by (metis fields_ne list.exhaust)
    then show ?case using Cons by auto
  qed simp
  then have "\<forall>kw\<in>set kws. CHR 0x00 \<notin> set kw" using assms(1) by (fastforce simp: kws_def)
  then have run: "kpos (fold (keyword_step 0 w) kws k) = int (length kws) - 1"
    "full_match (fold (keyword_step 0 w) kws k) = last_match full" "partial_match (fold (keyword_step 0 w) kws k) = last_match part"
    "pass1needed (fold (keyword_step 0 w) kws k) = int (length full - 1) + int (length part - 1)"
    using keyword_fold [OF assms(2), of kws k 0] by (auto simp: full_def part_def k_def)
  have ne: "last_match is \<noteq> - 1 \<longleftrightarrow> is \<noteq> []" for "is" by (simp add: last_match_def)
  have "map_option fst (keyword_id keywords (Some w) report) =
      Some (if length full \<le> 1 \<and> length part \<le> 1 then last_match (if full \<noteq> [] then full else part) else - 2)"
  proof (cases "length full \<le> 1 \<and> length part \<le> 1")
    case True
    then have "pass1needed (fold (keyword_step 0 w) kws k) = 0" using run by simp
    then show ?thesis using True run by (simp add: keyword_id_def k_def [symmetric] keyword_pass_def Let_def kws ne)
  next
    case False
    define k' where "k' = fold (keyword_step 0 w) kws k"
    have k': "0 < pass1needed k'" "partial_match k' \<noteq> - 1 \<or> full_match k' \<noteq> - 1" "- 1 \<le> kpos k'"
      using False run by (auto simp: k'_def ne)
    define k1 where "k1 = k'\<lparr>printed := printed k' @ [(if w = [] then ''<empty string>'' else w) @ '' can match'']\<rparr>"
    have k1: "0 < pass1needed (fold (keyword_step 1 w) kws k1)"
      "partial_match (fold (keyword_step 1 w) kws k1) \<noteq> - 1 \<or> full_match (fold (keyword_step 1 w) kws k1) \<noteq> - 1"
      using keyword_fold_needed [of k1 1 w kws] keyword_fold_matched [of k1 1 w kws] k' by (auto simp: k1_def)
    show ?thesis using k' k1 unfolding if_not_P [OF False]
      by (simp add: keyword_id_def k_def [symmetric] keyword_pass_def Let_def kws k'_def [symmetric] k1_def [symmetric])
  qed
  then show ?thesis unfolding Let_def kws_def [symmetric] full_def [symmetric] part_def [symmetric] .
qed

text \<open>Nothing is printed when a keyword is found.\<close>

lemma keyword_step_quiet: "printed (fold (keyword_step 0 w) kws k) = printed k"
proof (induction kws arbitrary: k)
  case (Cons kw kws)
  have "printed (keyword_step 0 w kw k) = printed k" by (simp add: keyword_step_def Let_def)
  then show ?case using Cons by simp
qed simp

lemma keyword_id_quiet:
  assumes "map_option fst (keyword_id keywords (Some w) kwd_report_duplicated_matches) = Some key" "0 \<le> key"
  shows "keyword_id keywords (Some w) kwd_report_duplicated_matches = Some (key, [])"
proof -
  define k where "k = \<lparr>kpos = - 1, pass1needed = 0, partial_match = - 1, full_match = - 1, printed = []\<rparr>"
  define k' where "k' = fold (keyword_step 0 w) (strtok_all '' '' keywords) k"
  have quiet: "printed k' = []" by (simp add: k'_def keyword_step_quiet k_def)
  define k1 where "k1 = k'\<lparr>printed := printed k' @ [(if w = [] then ''<empty string>'' else w) @ '' can match'']\<rparr>"
  have second: "fst (keyword_pass 1 keywords w kwd_report_duplicated_matches k') \<in> {Some (- 1), Some (- 2)}" if "0 < pass1needed k'"
    using that keyword_fold_needed [of k1 1 w "strtok_all '' '' keywords"]
    by (simp add: keyword_pass_def Let_def k1_def [symmetric]) (simp add: k1_def)
  have "0 \<le> pass1needed k'" using keyword_fold_needed [of k 0 w] by (simp add: k'_def k_def)
  then show ?thesis
    using assms quiet second
    by (cases "pass1needed k' = 0") (auto simp: keyword_id_def k_def [symmetric] keyword_pass_def [of 0] Let_def k'_def [symmetric] split: prod.splits option.splits)
qed

text \<open>
  C37. Looking up a word among keywords: the result is the position of the keyword that equals the word or, if there is
  none, of the keyword that starts with it; it is -1 if no keyword starts with the word, and -2 if more than one
  keyword equals it or more than one properly extends it. In particular the function always returns.
\<close>

theorem keyword_id_spec:
  assumes "CHR 0x00 \<notin> set keywords" "CHR 0x00 \<notin> set w"
  shows "map_option fst (keyword_id keywords (Some w) report) =
    (let kws = filter (\<lambda>t. t \<noteq> []) (split_fields {CHR '' ''} keywords);
         full = positions (\<lambda>kw. kw = w) kws; part = positions (strict_prefix w) kws
     in Some (if length full \<le> 1 \<and> length part \<le> 1 then last_match (if full \<noteq> [] then full else part) else - 2))"
  by (rule keyword_id_result [OF assms])

theorem keyword_id_spec_witness:
  "map_option fst (keyword_id ''hell hello hells is'' (Some ''i'') kwd_report_all) = Some 3
   \<and> map_option fst (keyword_id ''hell hello hells is'' (Some ''hell'') kwd_report_all) = Some (- 2)"
proof -
  have kws: "filter (\<lambda>t. t \<noteq> []) (split_fields {CHR '' ''} ''hell hello hells is'') = [''hell'', ''hello'', ''hells'', ''is'']" by simp
  have upto: "[0..<length [''hell'', ''hello'', ''hells'', ''is'']] = [0, 1, 2, 3]" by (simp add: upt_rec)
  show ?thesis
    using keyword_id_spec [of "''hell hello hells is''" "''i''" kwd_report_all] keyword_id_spec [of "''hell hello hells is''" "''hell''" kwd_report_all]
    unfolding kws Let_def positions_def upto by (simp add: last_match_def strict_prefix_def)
qed

end
