(* ===== verification/DG_Options.thy ===== *)
theory DG_Options
  imports VG_Strings Bar_Tape
begin

text \<open>
  The command line (\<^verbatim>\<open>dg_process_cmd_line_option\<close> of \<^verbatim>\<open>derivgrind/dg_main.c\<close> with the recogniser macros of
  \<^verbatim>\<open>include/pub_tool_options.h\<close>) and the parser for the list of indices at which recording stops
  (\<^verbatim>\<open>dg_post_clo_init\<close>). The record \<open>options\<close> extends the options of the tape by the other static variables
  that options set.
\<close>

section \<open>Recognisers\<close>

record options = tape_config +
  warn_about_unwrapped_expressions :: bool
  diffquotdebug :: bool
  diffquotdebug_directory :: "string option"
  mode :: char
  recording_directory :: "string option"
  recording_stop_indices_str :: "string option"
  bittrick_warnlevel :: "string option"

datatype option_error = Bad_option string

definition VG_STREQ :: "string \<Rightarrow> string \<Rightarrow> bool" where
  "VG_STREQ s1 s2 \<longleftrightarrow> strcmp s1 s2 = 0"

definition VG_STREQN :: "nat \<Rightarrow> string \<Rightarrow> string \<Rightarrow> bool" where
  "VG_STREQN n s1 s2 \<longleftrightarrow> strncmp s1 s2 n = 0"

text \<open>
  The modes of option parsing: early, at start-up, dynamically and for listing options. The recognisers apply in the mode of the start-up
  only. What \<^verbatim>\<open>VG_(check_clom)\<close> prints and that it marks the option as recognised for the core is left out.
\<close>

datatype Clo_Mode = cloE | cloP | cloD | cloH

definition check_clom :: "Clo_Mode \<Rightarrow> Clo_Mode set \<Rightarrow> bool \<Rightarrow> bool" where
  "check_clom clo modes recognised \<longleftrightarrow> recognised \<and> clo \<in> modes"

text \<open>
  The value that is assigned to the variable, or \<open>None\<close> if the argument is not this option or the mode \<open>clo\<close> does not match. A bad Boolean value
  ends the start-up.
\<close>

definition VG_BOOL_CLO :: "Clo_Mode \<Rightarrow> string \<Rightarrow> string \<Rightarrow> option_error + bool option" where
  "VG_BOOL_CLO clo arg opt =
     (if check_clom clo {cloP} (VG_STREQN (length opt + 1) arg (opt @ ''='')) then
        (let val = drop (length opt + 1) arg
         in if VG_STREQ val ''yes'' then Inr (Some True)
            else if VG_STREQ val ''no'' then Inr (Some False)
            else Inl (Bad_option arg))
      else Inr None)"

definition VG_STR_CLO :: "Clo_Mode \<Rightarrow> string \<Rightarrow> string \<Rightarrow> string option" where
  "VG_STR_CLO clo arg opt =
     (if check_clom clo {cloP} (VG_STREQN (length opt + 1) arg (opt @ ''='')) then Some (drop (length opt + 1) arg) else None)"

text \<open>A chain of recognisers: the first that applies sets its variable.\<close>

definition bool_clo ::
    "Clo_Mode \<Rightarrow> string \<Rightarrow> string \<Rightarrow> (bool \<Rightarrow> options \<Rightarrow> options) \<Rightarrow> options \<Rightarrow> option_error + (bool \<times> options) \<Rightarrow> option_error + (bool \<times> options)" where
  "bool_clo clo arg opt set_var opts otherwise =
     bindE (VG_BOOL_CLO clo arg opt) (\<lambda>r. case r of Some b \<Rightarrow> Inr (True, set_var b opts) | None \<Rightarrow> otherwise)"

definition str_clo ::
    "Clo_Mode \<Rightarrow> string \<Rightarrow> string \<Rightarrow> (string \<Rightarrow> options \<Rightarrow> options) \<Rightarrow> options \<Rightarrow> option_error + (bool \<times> options) \<Rightarrow> option_error + (bool \<times> options)" where
  "str_clo clo arg opt set_var opts otherwise =
     (case VG_STR_CLO clo arg opt of Some v \<Rightarrow> Inr (True, set_var v opts) | None \<Rightarrow> otherwise)"

definition dg_process_cmd_line_option :: "Clo_Mode \<Rightarrow> string \<Rightarrow> options \<Rightarrow> option_error + (bool \<times> options)" where
  "dg_process_cmd_line_option clo arg opts =
     bool_clo clo arg ''--warn-unwrapped'' (\<lambda>b opts. opts\<lparr>warn_about_unwrapped_expressions := b\<rparr>) opts (
     str_clo clo arg ''--diffquotdebug'' (\<lambda>v opts. opts\<lparr>diffquotdebug_directory := Some v, diffquotdebug := True\<rparr>) opts (
     str_clo clo arg ''--record'' (\<lambda>v opts. opts\<lparr>recording_directory := Some v, mode := CHR ''b''\<rparr>) opts (
     str_clo clo arg ''--trick'' (\<lambda>v opts. opts\<lparr>bittrick_warnlevel := Some v, mode := CHR ''t''\<rparr>) opts (
     bool_clo clo arg ''--typegrind'' (\<lambda>b opts. opts\<lparr>typegrind := b\<rparr>) opts (
     bool_clo clo arg ''--record-values'' (\<lambda>b opts. opts\<lparr>bar_record_values := b\<rparr>) opts (
     str_clo clo arg ''--record-stop'' (\<lambda>v opts. opts\<lparr>recording_stop_indices_str := Some v\<rparr>) opts (
     bool_clo clo arg ''--tape-in-ram'' (\<lambda>b opts. opts\<lparr>tape_in_ram := b\<rparr>) opts (
     Inr (False, opts)))))))))"

text \<open>The static variables before the command line is read; \<open>fresh\<close> is what a new tape buffer contains.\<close>

definition default_options :: "ULong list \<Rightarrow> options" where
  "default_options fresh = \<lparr>typegrind = False, bar_record_values = False, tape_in_ram = False, recording_stop_indices = None,
     fresh_memory = fresh, warn_about_unwrapped_expressions = False, diffquotdebug = False, diffquotdebug_directory = None,
     mode = CHR ''d'', recording_directory = None, recording_stop_indices_str = None, bittrick_warnlevel = None\<rparr>"

text \<open>An option is recognised by its name and the equals sign after it.\<close>

lemma strncmp_option: "CHR 0x00 \<notin> set a \<Longrightarrow> strncmp b a (length a) = 0 \<longleftrightarrow> prefix a b"
proof (induction a arbitrary: b)
  case (Cons c a)
  then show ?case by (cases b) (auto simp: deref_def of_char_0 of_char_eq not_less_iff_gr_or_eq)
qed simp

lemma option_prefix: "CHR 0x00 \<notin> set opt \<Longrightarrow> VG_STREQN (length opt + 1) arg (opt @ ''='') \<longleftrightarrow> prefix (opt @ ''='') arg"
  using strncmp_option [of "opt @ ''=''" arg] by (simp add: VG_STREQN_def)

lemma clo_rules:
  assumes "CHR 0x00 \<notin> set opt"
  shows "str_clo cloP arg opt f o1 m = (if prefix (opt @ ''='') arg then Inr (True, f (drop (length opt + 1) arg) o1) else m)"
    "\<not> prefix (opt @ ''='') arg \<Longrightarrow> bool_clo cloP arg opt g o1 m = m"
    "bool_clo cloP (opt @ ''=yes'') opt g o1 m = Inr (True, g True o1)"
  using assms option_prefix [OF assms, of arg] option_prefix [OF assms, of "opt @ ''=yes''"]
  by (simp_all add: check_clom_def str_clo_def VG_STR_CLO_def bool_clo_def VG_BOOL_CLO_def VG_STREQ_def)

section \<open>The list of stopping indices\<close>

text \<open>
  The loop writes into an array that has been allocated before, at increasing positions; \<open>None\<close> is a write
  outside of it, and \<open>garbage\<close> is what the allocated memory contains.
\<close>

fun write_indices :: "string list \<Rightarrow> nat \<Rightarrow> ULong list \<Rightarrow> (nat \<times> ULong list) option" where
  "write_indices [] i indices = Some (i, indices)"
| "write_indices (indexstr # rest) i indices =
     (if i < length indices then write_indices rest (i + 1) (indices[i := fst (strtoull10 indexstr)]) else None)"

text \<open>The size of the array is computed as an \<^verbatim>\<open>Int\<close>, here without overflow: the string is shorter than \<open>2 ^ 32 - 4\<close> characters.\<close>

definition parse_stop_indices :: "(nat \<Rightarrow> ULong) \<Rightarrow> string \<Rightarrow> ULong list option" where
  "parse_stop_indices garbage str =
     (let maxsize = length str div 2 + 2; indices = map garbage [0..<maxsize]
      in Option.bind (write_indices (strtok_all '','' str) 0 indices)
           (\<lambda>(i, indices). if i < length indices then Some (indices[i := 0]) else None))"

lemma write_indices_ok:
  assumes "i + length ts \<le> length indices"
  shows "\<exists>indices'. write_indices ts i indices = Some (i + length ts, indices') \<and> length indices' = length indices
    \<and> take (i + length ts) indices' = take i indices @ map (fst \<circ> strtoull10) ts"
  using assms
proof (induction ts arbitrary: i indices)
  case (Cons t ts)
  then have i: "i < length indices" by simp
  obtain indices' where "write_indices ts (i + 1) (indices[i := fst (strtoull10 t)]) = Some (i + 1 + length ts, indices')"
    "length indices' = length indices" "take (i + 1 + length ts) indices' = take (i + 1) (indices[i := fst (strtoull10 t)]) @ map (fst \<circ> strtoull10) ts"
    using Cons.IH [of "i + 1" "indices[i := fst (strtoull10 t)]"] Cons.prems by auto
  then show ?case using i by (auto simp: take_Suc_conv_app_nth)
qed simp

lemma parse_stop_indices_ok:
  "\<exists>rest. parse_stop_indices garbage str = Some (map (fst \<circ> strtoull10) (strtok_all '','' str) @ 0 # rest)"
proof -
  let ?ts = "strtok_all '','' str" and ?n = "length (strtok_all '','' str)"
  define indices where "indices = map garbage [0..<length str div 2 + 2]"
  have room: "?n < length indices" using tokens_bound [of "'',''" str] by (simp add: indices_def)
  obtain indices' where w: "write_indices ?ts 0 indices = Some (?n, indices')" "length indices' = length indices"
    "take ?n indices' = map (fst \<circ> strtoull10) ?ts"
    using write_indices_ok [of 0 ?ts indices] room by auto
  then have "indices'[?n := 0] = map (fst \<circ> strtoull10) ?ts @ 0 # drop (Suc ?n) indices'"
    using room by (simp add: upd_conv_take_nth_drop)
  then show ?thesis unfolding parse_stop_indices_def Let_def indices_def [symmetric] using w room by simp
qed

text \<open>What the loop over the stopping indices in the tape does with such an array.\<close>

lemma stop_messages_terminated:
  "0 \<notin> set ns \<Longrightarrow> stop_messages n (ns @ 0 # rest) = replicate (count_list ns n) (StopIndexReached n)"
  by (induction ns) (auto simp: replicate_append_same [symmetric])

section \<open>Decimal numbers\<close>

lemma digit_loop_snoc:
  "digit_loop b dig c n s = (c', n', []) \<Longrightarrow> dig x = Some d \<Longrightarrow> digit_loop b dig c n (s @ [x]) = (True, b * n' + d, [])"
  by (induction s arbitrary: c n) (auto split: option.splits)

lemma is_dec_digit_digit: "d < 10 \<Longrightarrow> is_dec_digit (digit d) = Some (of_nat d)"
  by (simp add: is_dec_digit_def digit_def Let_def)

lemma digit_loop_decimal: "digit_loop 10 is_dec_digit False 0 (decimal n) = (True, of_nat n, [])"
proof (induction n rule: decimal.induct)
  case (1 n)
  show ?case
  proof (cases "n < 10")
    case True
    then show ?thesis by (subst decimal.simps) (simp add: is_dec_digit_digit)
  next
    case False
    have "of_nat n = (of_nat (10 * (n div 10) + n mod 10) :: ULong)" by simp
    also have "\<dots> = 10 * of_nat (n div 10) + of_nat (n mod 10)" unfolding of_nat_add of_nat_mult by simp
    finally have "10 * of_nat (n div 10) + of_nat (n mod 10) = (of_nat n :: ULong)" by (rule sym)
    then show ?thesis
      using False 1 digit_loop_snoc [OF 1 [OF False] is_dec_digit_digit [of "n mod 10"]] by (subst decimal.simps) simp
  qed
qed

lemma decimal_first: "\<exists>d cs. d < 10 \<and> decimal n = digit d # cs"
proof (induction n rule: decimal.induct)
  case (1 n)
  then show ?case by (cases "n < 10") (subst decimal.simps, force)+
qed

lemma decimal_chars: "c \<in> set (decimal n) \<Longrightarrow> is_dec_digit c \<noteq> None"
proof (induction n rule: decimal.induct)
  case (1 n)
  then show ?case by (subst (asm) (2) decimal.simps) (auto simp: is_dec_digit_digit split: if_splits)
qed

lemma strtoull10_decimal: "strtoull10 (decimal (unat i)) = (i, [])"
proof -
  obtain d cs where d: "d < 10" "decimal (unat i) = digit d # cs" using decimal_first by blast
  have "(of_char (digit d) :: nat) = 48 + d" using d(1) by (simp add: digit_def)
  then have "\<not> isspace (digit d)" "digit d \<noteq> CHR ''+''" by (auto simp: isspace_def)
  then show ?thesis using digit_loop_decimal [of "unat i"] by (simp add: strtoull10_def d(2) deref_def)
qed

fun comma_list :: "ULong list \<Rightarrow> string" where
  "comma_list [] = []"
| "comma_list [i] = decimal (unat i)"
| "comma_list (i # is) = decimal (unat i) @ CHR '','' # comma_list is"

lemma decimal_no_comma: "set (decimal n) \<inter> {CHR '',''} = {}"
  using decimal_chars [of "CHR '',''" n] by (auto simp: is_dec_digit_def)

lemma tokens_comma_list: "strtok_all '','' (comma_list is) = map (\<lambda>i. decimal (unat i)) is"
proof -
  have ne: "decimal n \<noteq> []" for n using decimal_first [of n] by auto
  then have "filter (\<lambda>t. t \<noteq> []) (split_fields {CHR '',''} (comma_list is)) = map (\<lambda>i. decimal (unat i)) is"
    by (induction "is" rule: comma_list.induct) (simp_all add: fields_append fields_single decimal_no_comma)
  then show ?thesis by (simp add: strtok_all_fields)
qed

lemma stop_indices_reported:
  assumes "0 \<notin> set is"
  shows "\<exists>indices. parse_stop_indices garbage (comma_list is) = Some indices
    \<and> (\<forall>n. stop_messages n indices = replicate (count_list is n) (StopIndexReached n))"
proof -
  have "map (fst \<circ> strtoull10) (strtok_all '','' (comma_list is)) = is"
    by (simp add: tokens_comma_list strtoull10_decimal comp_def)
  then obtain rest where "parse_stop_indices garbage (comma_list is) = Some (is @ 0 # rest)"
    using parse_stop_indices_ok [of garbage "comma_list is"] by auto
  then show ?thesis using stop_messages_terminated [OF assms] by blast
qed

section \<open>Properties\<close>

text \<open>
  C36. The option \<^verbatim>\<open>--record-stop\<close>: for every string, the parser stays within the array whose size it
  computed from the length of the string, and leaves the values of the tokens in it, followed by the terminating zero; for a
  comma-separated list of nonzero 64-bit numbers, recording an operation then reports exactly the listed indices.
\<close>

theorem record_stop_indices:
  "(\<exists>rest. parse_stop_indices garbage str = Some (map (fst \<circ> strtoull10) (strtok_all '','' str) @ 0 # rest))
   \<and> (0 \<notin> set is \<longrightarrow> (\<exists>indices. parse_stop_indices garbage (comma_list is) = Some indices
        \<and> stop_messages n indices = replicate (count_list is n) (StopIndexReached n)))"
  using parse_stop_indices_ok [of garbage str] stop_indices_reported [of "is" garbage] by auto

theorem record_stop_indices_witness:
  "\<exists>indices. parse_stop_indices (\<lambda>_. 77) (comma_list [5, 12]) = Some indices \<and> stop_messages 12 indices = [StopIndexReached 12]"
  using record_stop_indices [of "\<lambda>_. 77" "[]" "[5, 12]" 12] by simp

end
