(* ===== verification/DG_DiffQuot.thy ===== *)
theory DG_DiffQuot
  imports DG_Prelude
begin

text \<open>
  Difference quotient debugging in forward mode (\<^verbatim>\<open>derivgrind/dot/dg_dot_diffquotdebug.c\<close>): values and dot values of
  results are collected in two buffers of \<^verbatim>\<open>BUFSIZE\<close> words each, which are written to two files whenever
  they are full and at the end. The state holds the static variables and the contents of the files; an access outside
  of a buffer is the error \<open>Buffer_overrun\<close>. As for the tape, \<^verbatim>\<open>VG_(write)\<close> is taken to write everything.
\<close>

definition DQD_BUFSIZE :: nat where
  "DQD_BUFSIZE = 1000000"

datatype dqd_error = Cannot_open_dqd string | Buffer_overrun

record dqd_state =
  dg_dot_nextindex :: ULong
  dg_dot_buffer_val :: "ULong list"
  dg_dot_buffer_dot :: "ULong list"
  dg_dot_fd_val :: "ULong list"
  dg_dot_fd_dot :: "ULong list"

definition dqd_static :: dqd_state where
  "dqd_static = \<lparr>dg_dot_nextindex = 0, dg_dot_buffer_val = [], dg_dot_buffer_dot = [], dg_dot_fd_val = [], dg_dot_fd_dot = []\<rparr>"

definition dg_dot_diffquotdebug_initialize :: "(string \<Rightarrow> bool) \<Rightarrow> string \<Rightarrow> dqd_state \<Rightarrow> dqd_error + dqd_state" where
  "dg_dot_diffquotdebug_initialize can_open path s =
     bindE (ensure (can_open (path @ ''/dg-dqd-val'')) (Cannot_open_dqd (path @ ''/dg-dqd-val''))) (\<lambda>_.
     bindE (ensure (can_open (path @ ''/dg-dqd-dot'')) (Cannot_open_dqd (path @ ''/dg-dqd-dot''))) (\<lambda>_.
     Inr (s\<lparr>dg_dot_fd_val := [], dg_dot_fd_dot := [],
            dg_dot_buffer_val := replicate DQD_BUFSIZE 0, dg_dot_buffer_dot := replicate DQD_BUFSIZE 0\<rparr>)))"

definition dg_dot_diffquotdebug_finalize :: "dqd_state \<Rightarrow> dqd_state" where
  "dg_dot_diffquotdebug_finalize s =
     (let pos = unat (dg_dot_nextindex s mod of_nat DQD_BUFSIZE);
          s = (if pos > 0 then
                 s\<lparr>dg_dot_fd_val := dg_dot_fd_val s @ take pos (dg_dot_buffer_val s),
                   dg_dot_fd_dot := dg_dot_fd_dot s @ take pos (dg_dot_buffer_dot s)\<rparr>
               else s)
      in s\<lparr>dg_dot_buffer_val := [], dg_dot_buffer_dot := []\<rparr>)"

text \<open>The dirty helper; \<open>disabled\<close> is \<^verbatim>\<open>dg_disable[tid] != 0\<close>.\<close>

definition dg_add_diffquotdebug_helper :: "bool \<Rightarrow> ULong \<Rightarrow> ULong \<Rightarrow> dqd_state \<Rightarrow> dqd_error + dqd_state" where
  "dg_add_diffquotdebug_helper disabled value dotvalue s =
     (if disabled then Inr s
      else
        (let i = unat (dg_dot_nextindex s)
         in bindE (ensure (i < length (dg_dot_buffer_val s) \<and> i < length (dg_dot_buffer_dot s)) Buffer_overrun) (\<lambda>_.
            let s = s\<lparr>dg_dot_buffer_val := (dg_dot_buffer_val s)[i := value], dg_dot_buffer_dot := (dg_dot_buffer_dot s)[i := dotvalue],
                      dg_dot_nextindex := dg_dot_nextindex s + 1\<rparr>
            in Inr (if dg_dot_nextindex s mod of_nat DQD_BUFSIZE = 0
                    then s\<lparr>dg_dot_fd_val := dg_dot_fd_val s @ dg_dot_buffer_val s, dg_dot_fd_dot := dg_dot_fd_dot s @ dg_dot_buffer_dot s\<rparr>
                    else s))))"

fun dqd_run :: "(ULong \<times> ULong) list \<Rightarrow> dqd_state \<Rightarrow> dqd_error + dqd_state" where
  "dqd_run [] s = Inr s"
| "dqd_run ((v, d) # vs) s = bindE (dg_add_diffquotdebug_helper False v d s) (dqd_run vs)"

section \<open>Up to the size of the buffers\<close>

text \<open>After \<open>n \<le> DQD_BUFSIZE\<close> entries, the buffers start with them, and the files hold full buffers only.\<close>

definition dqd_holds :: "(ULong \<times> ULong) list \<Rightarrow> dqd_state \<Rightarrow> bool" where
  "dqd_holds vs s \<longleftrightarrow> length vs \<le> DQD_BUFSIZE \<and> dg_dot_nextindex s = of_nat (length vs)
     \<and> length (dg_dot_buffer_val s) = DQD_BUFSIZE \<and> length (dg_dot_buffer_dot s) = DQD_BUFSIZE
     \<and> take (length vs) (dg_dot_buffer_val s) = map fst vs \<and> take (length vs) (dg_dot_buffer_dot s) = map snd vs
     \<and> dg_dot_fd_val s = (if length vs = DQD_BUFSIZE then map fst vs else [])
     \<and> dg_dot_fd_dot s = (if length vs = DQD_BUFSIZE then map snd vs else [])"

lemma dqd_bufsize: "0 < DQD_BUFSIZE" "DQD_BUFSIZE < 2 ^ 64"
  by (simp_all add: DQD_BUFSIZE_def)

lemma unat_entry: "n \<le> DQD_BUFSIZE \<Longrightarrow> unat (of_nat n :: ULong) = n"
  using dqd_bufsize by (simp add: unsigned_of_nat take_bit_nat_eq_self)

lemma dqd_full: "n \<le> DQD_BUFSIZE \<Longrightarrow> unat ((of_nat n :: ULong) mod of_nat DQD_BUFSIZE) = n mod DQD_BUFSIZE"
  by (simp add: unat_mod_distrib unat_entry)

lemma dqd_add:
  assumes "dqd_holds vs s"
  shows "if length vs < DQD_BUFSIZE then \<exists>s'. dg_add_diffquotdebug_helper False v d s = Inr s' \<and> dqd_holds (vs @ [(v, d)]) s'
    else dg_add_diffquotdebug_helper False v d s = Inl Buffer_overrun"
proof (cases "length vs < DQD_BUFSIZE")
  case True
  let ?i = "length vs"
  have i: "unat (dg_dot_nextindex s) = ?i" using assms by (simp add: dqd_holds_def unat_entry)
  have nx: "dg_dot_nextindex s + 1 = of_nat (Suc ?i)" using assms by (simp add: dqd_holds_def)
  have wrap: "(dg_dot_nextindex s + 1) mod of_nat DQD_BUFSIZE = 0 \<longleftrightarrow> Suc ?i = DQD_BUFSIZE"
    unfolding nx using dqd_full [of "Suc ?i"] True dqd_bufsize
    by (metis Suc_leI mod_less mod_self nat.distinct(1) le_neq_implies_less unat_eq_zero)
  have takes: "take (Suc ?i) (b[?i := x]) = take ?i b @ [x]" if "length b = DQD_BUFSIZE" for b and x :: ULong
    using that True by (simp add: take_Suc_conv_app_nth)
  have whole: "b[?i := x] = take ?i b @ [x]" if "length b = DQD_BUFSIZE" "Suc ?i = DQD_BUFSIZE" for b and x :: ULong
    using takes [of b x] that by simp
  show ?thesis using True assms i nx wrap
    by (auto simp: dg_add_diffquotdebug_helper_def dqd_holds_def takes whole Let_def)
next
  case False
  then show ?thesis using assms by (simp add: dg_add_diffquotdebug_helper_def dqd_holds_def unat_entry)
qed

lemma dqd_run_holds:
  "dqd_holds us s \<Longrightarrow> if length us + length vs \<le> DQD_BUFSIZE then \<exists>s'. dqd_run vs s = Inr s' \<and> dqd_holds (us @ vs) s'
     else dqd_run vs s = Inl Buffer_overrun"
proof (induction vs arbitrary: us s)
  case Nil
  then show ?case by (simp add: dqd_holds_def)
next
  case (Cons x vs)
  obtain v d where x: "x = (v, d)" by fastforce
  show ?case
  proof (cases "length us < DQD_BUFSIZE")
    case True
    then obtain s' where s': "dg_add_diffquotdebug_helper False v d s = Inr s'" "dqd_holds (us @ [(v, d)]) s'"
      using dqd_add [OF Cons.prems, of v d] by auto
    show ?thesis using Cons.IH [OF s'(2)] s'(1) by (auto simp: x)
  next
    case False
    then show ?thesis using dqd_add [OF Cons.prems, of v d] by (simp add: x)
  qed
qed

lemma dqd_holds_finalize:
  assumes "dqd_holds vs s"
  shows "dg_dot_fd_val (dg_dot_diffquotdebug_finalize s) = map fst vs \<and> dg_dot_fd_dot (dg_dot_diffquotdebug_finalize s) = map snd vs"
proof -
  have "unat (dg_dot_nextindex s mod of_nat DQD_BUFSIZE) = length vs mod DQD_BUFSIZE"
    using assms dqd_full [of "length vs"] by (simp add: dqd_holds_def)
  then show ?thesis using assms by (cases "length vs = DQD_BUFSIZE") (auto simp: dqd_holds_def dg_dot_diffquotdebug_finalize_def Let_def)
qed

text \<open>
  C40. Difference quotient debugging records faithfully up to one million entries: the closed files hold the values
  and the dot values in order. The index into the buffers is not reduced, though, so that the next entry
  is written outside of the buffers.
\<close>

theorem diffquotdebug_overrun:
  assumes "dg_dot_diffquotdebug_initialize can_open path dqd_static = Inr s"
  shows "if length vs \<le> DQD_BUFSIZE
    then \<exists>s'. dqd_run vs s = Inr s' \<and> dg_dot_fd_val (dg_dot_diffquotdebug_finalize s') = map fst vs
      \<and> dg_dot_fd_dot (dg_dot_diffquotdebug_finalize s') = map snd vs
    else dqd_run vs s = Inl Buffer_overrun"
proof -
  have "dqd_holds [] s"
    using assms dqd_bufsize by (auto simp: dg_dot_diffquotdebug_initialize_def monad_inv dqd_holds_def dqd_static_def)
  from dqd_run_holds [OF this, of vs] show ?thesis by (auto dest: dqd_holds_finalize split: if_splits)
qed

theorem diffquotdebug_overrun_witness:
  "\<exists>s. dg_dot_diffquotdebug_initialize (\<lambda>_. True) ''dir'' dqd_static = Inr s
     \<and> (\<exists>s'. dqd_run [(5, 6), (7, 8)] s = Inr s' \<and> dg_dot_fd_dot (dg_dot_diffquotdebug_finalize s') = [6, 8])
     \<and> dqd_run (replicate 1000001 (5, 6)) s = Inl Buffer_overrun"
proof -
  obtain s where s: "dg_dot_diffquotdebug_initialize (\<lambda>_. True) ''dir'' dqd_static = Inr s"
    by (simp add: dg_dot_diffquotdebug_initialize_def)
  have "\<exists>s'. dqd_run [(5, 6), (7, 8)] s = Inr s' \<and> dg_dot_fd_dot (dg_dot_diffquotdebug_finalize s') = [6, 8]"
    using diffquotdebug_overrun [OF s, of "[(5, 6), (7, 8)]"] by (auto simp: DQD_BUFSIZE_def)
  moreover have "\<not> length (replicate 1000001 (5 :: ULong, 6 :: ULong)) \<le> DQD_BUFSIZE" unfolding length_replicate DQD_BUFSIZE_def by simp
  then have "dqd_run (replicate 1000001 (5, 6)) s = Inl Buffer_overrun"
    using diffquotdebug_overrun [OF s, of "replicate 1000001 (5, 6)"] by (simp only: if_False)
  ultimately show ?thesis using s by blast
qed

end
