(* ===== verification/Bar_Bitwise.thy ===== *)
theory Bar_Bitwise
  imports FP_Bits Bar_Tape
begin

text \<open>
  Recording-mode handling of bitwise logic (\<^verbatim>\<open>derivgrind/bar/dg_bar_bitwise.c\<close>). As in forward mode, the
  handlers recognise operations that change the sign bit of a floating-point number. If the sign
  changes, they record a block with partial derivative -1 on the tape, otherwise the index of the operand is
  kept. The result goes through a static variable of type \<^verbatim>\<open>V128\<close>, four 32-bit words of which the first
  and the third hold the index.
\<close>

section \<open>Shared state\<close>

record V128 =
  w32_0 :: UInt
  w32_1 :: UInt
  w32_2 :: UInt
  w32_3 :: UInt

type_synonym bitwise_state = "V128 \<times> tape_state"

definition dg_bar_bitwise_get_lower :: "V128 \<Rightarrow> ULong" where
  "dg_bar_bitwise_get_lower out = join32 (w32_0 out) (w32_1 out)"

definition dg_bar_bitwise_get_higher :: "V128 \<Rightarrow> ULong" where
  "dg_bar_bitwise_get_higher out = join32 (w32_2 out) (w32_3 out)"

text \<open>Assignments to \<^verbatim>\<open>w32[0]\<close> and \<^verbatim>\<open>w32[2]\<close>, and to both \<^verbatim>\<open>w64\<close>.\<close>

definition set_w32 :: "UInt \<Rightarrow> UInt \<Rightarrow> V128 \<Rightarrow> V128" where
  "set_w32 a b out = out\<lparr>w32_0 := a, w32_2 := b\<rparr>"

definition V128_of :: "ULong \<Rightarrow> ULong \<Rightarrow> V128" where
  "V128_of a b = \<lparr>w32_0 = lo32 a, w32_1 = hi32 a, w32_2 = lo32 b, w32_3 = hi32 b\<rparr>"

definition assemble64x2to64 :: "ULong \<Rightarrow> ULong \<Rightarrow> ULong" where
  "assemble64x2to64 iLo iHi = join32 (lo32 iLo) (lo32 iHi)"

text \<open>
  Conversion of a binary32 number to binary64, on the bits: \<open>top_bit\<close> is the position of the leading one of the
  fraction of a denormal number.
\<close>

fun top_bit :: "nat \<Rightarrow> UInt \<Rightarrow> nat" where
  "top_bit 0 m = 0"
| "top_bit (Suc k) m = (if bit m (Suc k) then Suc k else top_bit k m)"

definition double_of_float :: "UInt \<Rightarrow> ULong" where
  "double_of_float x =
     (let sign = push_bit 63 (ucast (drop_bit 31 x) :: ULong);
          e = drop_bit 23 x AND 0xFF;
          m = x AND 0x7FFFFF
      in if e = 0xFF then sign OR 0x7FF0000000000000 OR (if m = 0 then 0 else push_bit 29 (ucast m) OR 0x0008000000000000)
         else if e = 0 then
           (if m = 0 then sign
            else (let k = top_bit 22 m
                  in sign OR push_bit 52 (of_nat (k + 874)) OR push_bit (52 - k) (ucast (take_bit k m))))
         else sign OR push_bit 52 (ucast e + 896) OR push_bit 29 (ucast m))"

section \<open>The handlers\<close>

text \<open>
  The macros are if-else chains that end in storing a result or fall through, \<open>None\<close>. They are used at two
  widths; \<open>conv\<close> converts the number to double. The recording of a negation is the same in all of them.
\<close>

definition F64_neg_one :: ULong where
  "F64_neg_one = 0xBFF0000000000000"

definition record_negation ::
    "tape_config \<Rightarrow> nat \<Rightarrow> ('a::len word \<Rightarrow> ULong) \<Rightarrow> 'a word \<Rightarrow> 'a word \<Rightarrow> 'a word \<Rightarrow> bitwise_state \<Rightarrow> bitwise_state" where
  "record_negation cfg tid conv y yiLo yiHi s =
     (let yi = assemble64x2to64 (ucast yiLo) (ucast yiHi);
          (minus_yi, t) = tapeAddStatement cfg tid yi 0 F64_neg_one 0 (snd s);
          t = (if bar_record_values cfg \<and> minus_yi \<noteq> 0 then valuesAddStatement (conv (fp_neg y)) t else t)
      in (set_w32 (lo32 minus_yi) (hi32 minus_yi) (fst s), t))"

definition DG_HANDLE_AND_bar ::
    "tape_config \<Rightarrow> nat \<Rightarrow> ('a::len word \<Rightarrow> ULong) \<Rightarrow> 'a word \<Rightarrow> 'a word \<Rightarrow> 'a word \<Rightarrow> 'a word \<Rightarrow> bitwise_state \<Rightarrow> bitwise_state option" where
  "DG_HANDLE_AND_bar cfg tid conv x y yiLo yiHi s =
     (if x = abs_mask then
        Some (if fp_leq 0 y then (set_w32 (ucast yiLo) (ucast yiHi) (fst s), snd s)
              else record_negation cfg tid conv y yiLo yiHi s)
      else if x = - 1 then Some (set_w32 (ucast yiLo) (ucast yiHi) (fst s), snd s)
      else None)"

definition DG_HANDLE_OR_bar ::
    "tape_config \<Rightarrow> nat \<Rightarrow> ('a::len word \<Rightarrow> ULong) \<Rightarrow> 'a word \<Rightarrow> 'a word \<Rightarrow> 'a word \<Rightarrow> 'a word \<Rightarrow> 'a word \<Rightarrow> 'a word
      \<Rightarrow> bitwise_state \<Rightarrow> bitwise_state option" where
  "DG_HANDLE_OR_bar cfg tid conv x xiLo xiHi y yiLo yiHi s =
     (if x = sign_mask \<and> (ucast xiLo :: UInt) = 0 \<and> (ucast xiHi :: UInt) = 0 then
        Some (if fp_leq y 0 then (set_w32 (ucast yiLo) (ucast yiHi) (fst s), snd s)
              else record_negation cfg tid conv y yiLo yiHi s)
      else if x = 0 \<and> (ucast xiLo :: UInt) = 0 \<and> (ucast xiHi :: UInt) = 0 then
        Some (set_w32 (ucast yiLo) (ucast yiHi) (fst s), snd s)
      else None)"

text \<open>\<^verbatim>\<open>*(inttype*)&(out->w32[0]) = 0\<close> clears one or two words, depending on the width.\<close>

definition clear_out :: "nat \<Rightarrow> V128 \<Rightarrow> V128" where
  "clear_out width out = (if width = 64 then V128_of 0 0 else set_w32 0 0 out)"

definition DG_HANDLE_XOR_bar ::
    "char \<Rightarrow> tape_config \<Rightarrow> nat \<Rightarrow> ('a::len word \<Rightarrow> ULong) \<Rightarrow> 'a word \<Rightarrow> 'a word \<Rightarrow> 'a word \<Rightarrow> 'a word \<Rightarrow> 'a word \<Rightarrow> 'a word
      \<Rightarrow> bitwise_state \<Rightarrow> bitwise_state option" where
  "DG_HANDLE_XOR_bar mode cfg tid conv x xiLo xiHi y yiLo yiHi s =
     (if x = sign_mask \<and> (ucast xiLo :: UInt) = 0 \<and> (ucast xiHi :: UInt) = 0 then Some (record_negation cfg tid conv y yiLo yiHi s)
      else if mode = CHR ''t'' \<and> x = y \<and> xiLo = yiLo \<and> xiHi = yiHi then Some (clear_out LENGTH('a) (fst s), snd s)
      else None)"

text \<open>The last branches of the 32-bit handlers.\<close>

definition unrecognised32 :: "char \<Rightarrow> tape_config \<Rightarrow> UInt \<Rightarrow> UInt \<Rightarrow> bitwise_state \<Rightarrow> bitwise_state" where
  "unrecognised32 mode cfg xiLo yiLo s =
     (if mode = CHR ''t'' then (V128_of (ucast (xiLo OR yiLo)) (- 1), snd s)
      else if typegrind cfg then (V128_of (- 1) (- 1), snd s) else (V128_of 0 0, snd s))"

type_synonym 'w bitwise_handler = "'w \<Rightarrow> 'w \<Rightarrow> 'w \<Rightarrow> 'w \<Rightarrow> 'w \<Rightarrow> 'w \<Rightarrow> bitwise_state \<Rightarrow> bitwise_state"

definition DG_HANDLE_HALVES_bar :: "UInt bitwise_handler \<Rightarrow> ULong bitwise_handler" where
  "DG_HANDLE_HALVES_bar fun32 x xiLo xiHi y yiLo yiHi s =
     (let s = fun32 (hi32 x) (hi32 xiLo) (hi32 xiHi) (hi32 y) (hi32 yiLo) (hi32 yiHi) s;
          out_tmp = fst s;
          s = fun32 (lo32 x) (lo32 xiLo) (lo32 xiHi) (lo32 y) (lo32 yiLo) (lo32 yiHi) s
      in ((fst s)\<lparr>w32_1 := w32_0 out_tmp, w32_3 := w32_2 out_tmp\<rparr>, snd s))"

definition dg_bar_bitwise_and32 :: "char \<Rightarrow> tape_config \<Rightarrow> nat \<Rightarrow> UInt bitwise_handler" where
  "dg_bar_bitwise_and32 mode cfg tid x xiLo xiHi y yiLo yiHi s =
     or_else (DG_HANDLE_AND_bar cfg tid double_of_float x y yiLo yiHi s) (DG_HANDLE_AND_bar cfg tid double_of_float y x xiLo xiHi s)
       (unrecognised32 mode cfg xiLo yiLo s)"

definition dg_bar_bitwise_and64 :: "char \<Rightarrow> tape_config \<Rightarrow> nat \<Rightarrow> ULong bitwise_handler" where
  "dg_bar_bitwise_and64 mode cfg tid x xiLo xiHi y yiLo yiHi s =
     or_else (DG_HANDLE_AND_bar cfg tid id x y yiLo yiHi s) (DG_HANDLE_AND_bar cfg tid id y x xiLo xiHi s)
       (DG_HANDLE_HALVES_bar (dg_bar_bitwise_and32 mode cfg tid) x xiLo xiHi y yiLo yiHi s)"

definition dg_bar_bitwise_or32 :: "char \<Rightarrow> tape_config \<Rightarrow> nat \<Rightarrow> UInt bitwise_handler" where
  "dg_bar_bitwise_or32 mode cfg tid x xiLo xiHi y yiLo yiHi s =
     or_else (DG_HANDLE_OR_bar cfg tid double_of_float x xiLo xiHi y yiLo yiHi s)
       (DG_HANDLE_OR_bar cfg tid double_of_float y yiLo yiHi x xiLo xiHi s) (unrecognised32 mode cfg xiLo yiLo s)"

definition dg_bar_bitwise_or64 :: "char \<Rightarrow> tape_config \<Rightarrow> nat \<Rightarrow> ULong bitwise_handler" where
  "dg_bar_bitwise_or64 mode cfg tid x xiLo xiHi y yiLo yiHi s =
     or_else (DG_HANDLE_OR_bar cfg tid id x xiLo xiHi y yiLo yiHi s) (DG_HANDLE_OR_bar cfg tid id y yiLo yiHi x xiLo xiHi s)
       (DG_HANDLE_HALVES_bar (dg_bar_bitwise_or32 mode cfg tid) x xiLo xiHi y yiLo yiHi s)"

definition dg_bar_bitwise_xor32 :: "char \<Rightarrow> tape_config \<Rightarrow> nat \<Rightarrow> UInt bitwise_handler" where
  "dg_bar_bitwise_xor32 mode cfg tid x xiLo xiHi y yiLo yiHi s =
     or_else (DG_HANDLE_XOR_bar mode cfg tid double_of_float x xiLo xiHi y yiLo yiHi s)
       (DG_HANDLE_XOR_bar mode cfg tid double_of_float y yiLo yiHi x xiLo xiHi s) (unrecognised32 mode cfg xiLo yiLo s)"

definition dg_bar_bitwise_xor64 :: "char \<Rightarrow> tape_config \<Rightarrow> nat \<Rightarrow> ULong bitwise_handler" where
  "dg_bar_bitwise_xor64 mode cfg tid x xiLo xiHi y yiLo yiHi s =
     or_else (DG_HANDLE_XOR_bar mode cfg tid id x xiLo xiHi y yiLo yiHi s) (DG_HANDLE_XOR_bar mode cfg tid id y yiLo yiHi x xiLo xiHi s)
       (DG_HANDLE_HALVES_bar (dg_bar_bitwise_xor32 mode cfg tid) x xiLo xiHi y yiLo yiHi s)"

section \<open>Properties\<close>

text \<open>
  The index that instrumented code assembles from a result, and the two possible outcomes: the operand's index
  is kept, or a negation is recorded like any other operation.
\<close>

definition out_index :: "V128 \<Rightarrow> ULong" where
  "out_index out = assemble64x2to64 (dg_bar_bitwise_get_lower out) (dg_bar_bitwise_get_higher out)"

definition sign_recorded :: "tape_config \<Rightarrow> nat \<Rightarrow> bool \<Rightarrow> ULong \<Rightarrow> ULong \<Rightarrow> bitwise_state \<Rightarrow> bitwise_state \<Rightarrow> bool" where
  "sign_recorded cfg tid negated value i s s' \<longleftrightarrow>
     (if negated then (out_index (fst s'), snd s') = new_index cfg tid False i 0 F64_neg_one 0 value (snd s)
      else out_index (fst s') = i \<and> snd s' = snd s)"

lemma out_index_set [simp]: "out_index (set_w32 a b out) = join32 a b"
  by (simp add: out_index_def assemble64x2to64_def dg_bar_bitwise_get_lower_def dg_bar_bitwise_get_higher_def set_w32_def)

lemma lo32_ucast: "lo32 (ucast w) = ucast w"
  by (rule bit_word_eqI) (auto simp: lo32_def bit_simps)

lemma negation_recorded:
  "sign_recorded cfg tid True (conv (fp_neg y)) (assemble64x2to64 (ucast yiLo) (ucast yiHi)) s (record_negation cfg tid conv y yiLo yiHi s)"
  by (simp add: sign_recorded_def record_negation_def new_index_def Let_def case_prod_beta)

lemma index_kept:
  "sign_recorded cfg tid False v (assemble64x2to64 (ucast yiLo) (ucast yiHi)) s (set_w32 (ucast yiLo) (ucast yiHi) (fst s), snd s)"
  by (simp add: sign_recorded_def assemble64x2to64_def lo32_ucast)

lemma fp_leq_zero: "\<not> fp_nan y \<Longrightarrow> fp_leq 0 y \<longleftrightarrow> 0 \<le> fp_value y" "\<not> fp_nan y \<Longrightarrow> fp_leq y 0 \<longleftrightarrow> fp_value y \<le> 0"
  by (simp_all add: fp_leq_def)

lemma HANDLE_AND_bar_abs:
  assumes "\<not> fp_nan y"
  shows "\<exists>s'. DG_HANDLE_AND_bar cfg tid conv abs_mask y yiLo yiHi s = Some s'
    \<and> sign_recorded cfg tid (fp_value y < 0) (conv (fp_neg y)) (assemble64x2to64 (ucast yiLo) (ucast yiHi)) s s'"
  using negation_recorded [of cfg tid conv y yiLo yiHi s] index_kept [of cfg tid "conv (fp_neg y)" yiLo yiHi s]
  by (cases "fp_value y < 0") (simp_all add: DG_HANDLE_AND_bar_def fp_leq_zero assms)

lemma HANDLE_OR_bar_nabs:
  assumes "\<not> fp_nan y"
  shows "\<exists>s'. DG_HANDLE_OR_bar cfg tid conv sign_mask 0 0 y yiLo yiHi s = Some s'
    \<and> sign_recorded cfg tid (0 < fp_value y) (conv (fp_neg y)) (assemble64x2to64 (ucast yiLo) (ucast yiHi)) s s'"
  using negation_recorded [of cfg tid conv y yiLo yiHi s] index_kept [of cfg tid "conv (fp_neg y)" yiLo yiHi s]
  by (cases "0 < fp_value y") (simp_all add: DG_HANDLE_OR_bar_def fp_leq_zero assms)

lemma HANDLE_XOR_bar_neg:
  "\<exists>s'. DG_HANDLE_XOR_bar mode cfg tid conv sign_mask 0 0 y yiLo yiHi s = Some s'
    \<and> sign_recorded cfg tid True (conv (fp_neg y)) (assemble64x2to64 (ucast yiLo) (ucast yiHi)) s s'"
  using negation_recorded [of cfg tid conv y yiLo yiHi s] by (simp add: DG_HANDLE_XOR_bar_def)

text \<open>
  C30. Recording of sign manipulations, binary64: with the sign or magnitude mask as first operand and a number that is not a NaN as second
  operand, bitwise and, or and exclusive or compute its absolute value, negative absolute value and negation. For and, the handler
  keeps the index of the operand if it is not negative and otherwise adds an operation with partial derivative -1 and the negated value to
  the tape, subject to activity analysis; for or, provided the mask has index 0, it keeps the index if the number is not positive and otherwise adds the
  same; for exclusive or, provided the mask has index 0, it always adds it, also for zeros.
\<close>

theorem bar_bitwise64_records:
  assumes "\<not> fp_nan y"
  shows "fp_value (abs_mask AND y) = \<bar>fp_value y\<bar>
    \<and> sign_recorded cfg tid (fp_value y < 0) (fp_neg y) (assemble64x2to64 yiLo yiHi) s
        (dg_bar_bitwise_and64 mode cfg tid abs_mask xiLo xiHi y yiLo yiHi s)
    \<and> fp_value (sign_mask OR y) = - \<bar>fp_value y\<bar>
    \<and> sign_recorded cfg tid (0 < fp_value y) (fp_neg y) (assemble64x2to64 yiLo yiHi) s
        (dg_bar_bitwise_or64 mode cfg tid sign_mask 0 0 y yiLo yiHi s)
    \<and> fp_value (sign_mask XOR y) = - fp_value y
    \<and> sign_recorded cfg tid True (fp_neg y) (assemble64x2to64 yiLo yiHi) s
        (dg_bar_bitwise_xor64 mode cfg tid sign_mask 0 0 y yiLo yiHi s)"
proof -
  have "abs_mask AND y = y AND abs_mask" "sign_mask OR y = y OR sign_mask" "sign_mask XOR y = fp_neg y"
    by (simp_all add: and.commute or.commute xor.commute fp_neg_def)
  then show ?thesis
    using HANDLE_AND_bar_abs [OF assms, of cfg tid id yiLo yiHi s] HANDLE_OR_bar_nabs [OF assms, of cfg tid id yiLo yiHi s]
      HANDLE_XOR_bar_neg [of mode cfg tid id y yiLo yiHi s]
    by (auto simp: dg_bar_bitwise_and64_def dg_bar_bitwise_or64_def dg_bar_bitwise_xor64_def)
qed

theorem bar_bitwise64_records_witness:
  "sign_recorded \<lparr>typegrind = False, bar_record_values = True, tape_in_ram = False, recording_stop_indices = None, fresh_memory = []\<rparr> 1
     True 0x4008000000000000 5 (V128_of 0 0, tape_static)
     (dg_bar_bitwise_xor64 CHR ''b'' \<lparr>typegrind = False, bar_record_values = True, tape_in_ram = False, recording_stop_indices = None, fresh_memory = []\<rparr> 1
       sign_mask 0 0 0xC008000000000000 5 0 (V128_of 0 0, tape_static))"
proof -
  have y: "\<not> fp_nan (0xC008000000000000 :: ULong)" by (simp add: fp_nan_def magnitude_def mant_bits_def)
  have "fp_neg (0xC008000000000000 :: ULong) = 0x4008000000000000" by (simp add: fp_neg_def sign_mask_def)
  moreover have "assemble64x2to64 5 0 = 5" by (simp add: assemble64x2to64_def join32_def lo32_def)
  ultimately show ?thesis
    using bar_bitwise64_records [OF y, of "\<lparr>typegrind = False, bar_record_values = True, tape_in_ram = False, recording_stop_indices = None, fresh_memory = []\<rparr>" 1 5 0
        "(V128_of 0 0, tape_static)" "CHR ''b''" 0 0] by simp
qed

text \<open>
  C31. Two binary32 numbers in one word: if the first operand is none of the 64-bit constants and holds the 32-bit magnitude mask in
  both lanes, and the lanes of the second operand are not NaNs, each lane's result has the index of the operand's lane unless that is negative, in which case a
  negation is recorded, first for the upper and then for the lower lane.
\<close>

theorem bar_and64_lanes:
  assumes "\<not> fp_nan (lo32 y)" "\<not> fp_nan (hi32 y)" "y \<noteq> abs_mask" "y \<noteq> - 1"
  shows "let r = dg_bar_bitwise_and64 mode cfg tid 0x7FFFFFFF7FFFFFFF xiLo xiHi y yiLo yiHi s;
             lower = dg_bar_bitwise_get_lower (fst r); higher = dg_bar_bitwise_get_higher (fst r)
    in \<exists>out1 t1 out2.
         sign_recorded cfg tid (fp_value (hi32 y) < 0) (double_of_float (fp_neg (hi32 y))) (join32 (hi32 yiLo) (hi32 yiHi)) s (out1, t1)
       \<and> sign_recorded cfg tid (fp_value (lo32 y) < 0) (double_of_float (fp_neg (lo32 y))) (join32 (lo32 yiLo) (lo32 yiHi)) (out1, t1) (out2, snd r)
       \<and> join32 (hi32 lower) (hi32 higher) = out_index out1 \<and> join32 (lo32 lower) (lo32 higher) = out_index out2"
proof -
  define x :: ULong where "x = 0x7FFFFFFF7FFFFFFF"
  have x: "lo32 x = abs_mask" "hi32 x = abs_mask" "x \<noteq> abs_mask" "x \<noteq> - 1"
    by (simp_all add: x_def lo32_def hi32_def abs_mask_def sign_mask_def drop_bit_eq_div)
  obtain s1 where s1: "DG_HANDLE_AND_bar cfg tid double_of_float abs_mask (hi32 y) (hi32 yiLo) (hi32 yiHi) s = Some s1"
    "sign_recorded cfg tid (fp_value (hi32 y) < 0) (double_of_float (fp_neg (hi32 y))) (join32 (hi32 yiLo) (hi32 yiHi)) s s1"
    using HANDLE_AND_bar_abs [OF assms(2), of cfg tid double_of_float "hi32 yiLo" "hi32 yiHi" s] by (auto simp: assemble64x2to64_def lo32_ucast)
  obtain s2 where s2: "DG_HANDLE_AND_bar cfg tid double_of_float abs_mask (lo32 y) (lo32 yiLo) (lo32 yiHi) s1 = Some s2"
    "sign_recorded cfg tid (fp_value (lo32 y) < 0) (double_of_float (fp_neg (lo32 y))) (join32 (lo32 yiLo) (lo32 yiHi)) s1 s2"
    using HANDLE_AND_bar_abs [OF assms(1), of cfg tid double_of_float "lo32 yiLo" "lo32 yiHi" s1] by (auto simp: assemble64x2to64_def lo32_ucast)
  have r: "dg_bar_bitwise_and64 mode cfg tid x xiLo xiHi y yiLo yiHi s =
      ((fst s2)\<lparr>w32_1 := w32_0 (fst s1), w32_3 := w32_2 (fst s1)\<rparr>, snd s2)"
    using s1(1) s2(1) x assms(3,4)
    by (simp add: dg_bar_bitwise_and64_def DG_HANDLE_AND_bar_def [of _ _ id] DG_HANDLE_HALVES_bar_def dg_bar_bitwise_and32_def Let_def)
  show ?thesis
    unfolding x_def [symmetric] r Let_def
    by (rule exI [of _ "fst s1"], rule exI [of _ "snd s1"], rule exI [of _ "fst s2"])
      (use s1(2) s2(2) in \<open>simp add: out_index_def assemble64x2to64_def dg_bar_bitwise_get_lower_def dg_bar_bitwise_get_higher_def\<close>)
qed

theorem bar_and64_lanes_witness:
  "let cfg = \<lparr>typegrind = False, bar_record_values = True, tape_in_ram = False, recording_stop_indices = None, fresh_memory = []\<rparr>;
       r = dg_bar_bitwise_and64 CHR ''b'' cfg 1 0x7FFFFFFF7FFFFFFF 0 0 0x40400000C0400000 5 0 (V128_of 0 0, tape_static);
       lower = dg_bar_bitwise_get_lower (fst r); higher = dg_bar_bitwise_get_higher (fst r)
   in \<exists>out1 t1 out2. sign_recorded cfg 1 True (double_of_float (fp_neg 0xC0400000)) 5 (out1, t1) (out2, snd r)
       \<and> join32 (lo32 lower) (lo32 higher) = out_index out2"
proof -
  have y: "lo32 0x40400000C0400000 = 0xC0400000" "hi32 0x40400000C0400000 = 0x40400000" "lo32 5 = 5"
    by (simp_all add: lo32_def hi32_def drop_bit_eq_div)
  have nan: "\<not> fp_nan (0xC0400000 :: UInt)" "\<not> fp_nan (0x40400000 :: UInt)"
    by (simp_all add: fp_nan_def magnitude_def mant_bits_def)
  have neg: "fp_value (0xC0400000 :: UInt) < 0"
    using fp_value_less_iff [of "0xC0400000 :: UInt" 0] by (simp add: fp_key_def fp_sign_def magnitude_def)
  have j: "join32 5 0 = 5" by (simp add: join32_def)
  have m: "(0x40400000C0400000 :: ULong) \<noteq> abs_mask" "(0x40400000C0400000 :: ULong) \<noteq> - 1"
    by (simp_all add: abs_mask_def sign_mask_def)
  show ?thesis
    using bar_and64_lanes [of "0x40400000C0400000" "CHR ''b''"
        "\<lparr>typegrind = False, bar_record_values = True, tape_in_ram = False, recording_stop_indices = None, fresh_memory = []\<rparr>" 1 0 0 5 0 "(V128_of 0 0, tape_static)"]
    unfolding y Let_def by (simp add: nan neg m j) blast
qed

end
