(* ===== verification/X87_Convert.thy ===== *)
theory X87_Convert
  imports DG_Prelude
begin

text \<open>
  Conversion between binary64 and the 80-bit extended format of the x87 unit:
  \<^verbatim>\<open>VEX/priv/guest_generic_x87.c\<close>. The helpers that load and store 80-bit floats use it, both
  VEX's for the values and Derivgrind's for the shadows. Numbers are little-endian byte arrays, here
  lists of 8 and 10 bytes. The failing assertion of \<^verbatim>\<open>convert_f80le_to_f64le\<close> is \<open>None\<close>.
\<close>

section \<open>Bit arrays\<close>

definition read_bit_array :: "UChar list \<Rightarrow> nat \<Rightarrow> UChar" where
  "read_bit_array arr n = drop_bit (n mod 8) (arr ! (n div 8)) AND 1"

definition write_bit_array :: "UChar list \<Rightarrow> nat \<Rightarrow> UChar \<Rightarrow> UChar list" where
  "write_bit_array arr n b =
     (let c = arr ! (n div 8);
          c = c AND NOT (push_bit (n mod 8) 1);
          c = c OR push_bit (n mod 8) (b AND 1)
      in arr[n div 8 := c])"

section \<open>From 64 to 80 bits\<close>

definition f64_sign :: "UChar list \<Rightarrow> UChar" where
  "f64_sign f64 = drop_bit 7 (f64 ! 7) AND 1"

definition f64_bexp :: "UChar list \<Rightarrow> int" where
  "f64_bexp f64 =
     uint ((push_bit 4 (ucast (f64 ! 7)) OR (drop_bit 4 (ucast (f64 ! 6)) AND 0x0F)) AND 0x7FF :: UInt)"

definition f64_mantissaIsZero :: "UChar list \<Rightarrow> bool" where
  "f64_mantissaIsZero f64 \<longleftrightarrow>
     f64 ! 6 AND 0x0F = 0 \<and> f64 ! 5 = 0 \<and> f64 ! 4 = 0 \<and> f64 ! 3 = 0 \<and> f64 ! 2 = 0 \<and> f64 ! 1 = 0 \<and> f64 ! 0 = 0"

text \<open>The loop that counts leading zeroes: \<open>i\<close> runs from 51 down to 0.\<close>

fun leading_zeroes :: "UChar list \<Rightarrow> nat \<Rightarrow> nat \<Rightarrow> nat" where
  "leading_zeroes f64 0 shift = shift"
| "leading_zeroes f64 (Suc i) shift =
     (if read_bit_array f64 i \<noteq> 0 then shift else leading_zeroes f64 i (shift + 1))"

text \<open>The loop that copies bits \<open>i\<close>, \<open>i - 1\<close>, ..., 0 to the positions \<open>j\<close>, \<open>j - 1\<close>, ....\<close>

fun copy_bits :: "UChar list \<Rightarrow> nat \<Rightarrow> nat \<Rightarrow> UChar list \<Rightarrow> UChar list" where
  "copy_bits f64 0 j f80 = f80"
| "copy_bits f64 (Suc i) j f80 = copy_bits f64 i (j - 1) (write_bit_array f80 j (read_bit_array f64 i))"

definition exp_bytes :: "UChar \<Rightarrow> int \<Rightarrow> UChar list" where
  "exp_bytes sign bexp =
     [word_of_int (take_bit 8 bexp), push_bit 7 sign OR word_of_int (take_bit 8 (drop_bit 8 bexp))]"

text \<open>The bytes of a normalised mantissa: the 52 bits move up by 11, below the explicit leading 1.\<close>

definition f80_byte :: "UChar \<Rightarrow> UChar \<Rightarrow> UChar" where
  "f80_byte a b = (push_bit 3 a AND 0xF8) OR (drop_bit 5 b AND 7)"

definition f80_top_byte :: "UChar \<Rightarrow> UChar \<Rightarrow> UChar" where
  "f80_top_byte a b = push_bit 7 1 OR (push_bit 3 a AND 0x78) OR (drop_bit 5 b AND 7)"

definition convert_f64le_to_f80le :: "UChar list \<Rightarrow> UChar list" where
  "convert_f64le_to_f80le f64 =
     (let sign = f64_sign f64;
          bexp = f64_bexp f64;
          mantissaIsZero = (if bexp = 0 \<or> bexp = 0x7FF then f64_mantissaIsZero f64 else False)
      in
      if bexp = 0 then
        (let f80 = replicate 9 0 @ [push_bit 7 sign] in
         if mantissaIsZero then f80
         else
           (let shift = leading_zeroes f64 52 0;
                f80 = copy_bits f64 (52 - shift) 63 f80;
                bexp = bexp - int shift;
                bexp = bexp + (16383 - 1023)
            in take 8 f80 @ exp_bytes sign bexp))
      else if bexp = 0x7FF then
        (if mantissaIsZero then [0, 0, 0, 0, 0, 0, 0, 0x80, 0xFF, push_bit 7 sign OR 0x7F]
         else if f64 ! 6 AND 8 \<noteq> 0 then [0, 0, 0, 0, 0, 0, 0, 0xC0, 0xFF, push_bit 7 sign OR 0x7F]
         else [0xFF, 0xFF, 0xFF, 0xFF, 0xFF, 0xFF, 0xFF, 0xBF, 0xFF, push_bit 7 sign OR 0x7F])
      else
        [0,
         push_bit 3 (f64 ! 0) AND 0xF8,
         f80_byte (f64 ! 1) (f64 ! 0),
         f80_byte (f64 ! 2) (f64 ! 1),
         f80_byte (f64 ! 3) (f64 ! 2),
         f80_byte (f64 ! 4) (f64 ! 3),
         f80_byte (f64 ! 5) (f64 ! 4),
         f80_top_byte (f64 ! 6) (f64 ! 5)]
        @ exp_bytes sign (bexp + (16383 - 1023)))"

section \<open>From 80 to 64 bits\<close>

definition f80_sign :: "UChar list \<Rightarrow> UChar" where
  "f80_sign f80 = drop_bit 7 (f80 ! 9) AND 1"

definition f80_bexp :: "UChar list \<Rightarrow> int" where
  "f80_bexp f80 = uint ((push_bit 8 (ucast (f80 ! 9)) OR ucast (f80 ! 8)) AND 0x7FFF :: UInt)"

definition f80_isInf :: "UChar list \<Rightarrow> bool" where
  "f80_isInf f80 \<longleftrightarrow>
     f80 ! 7 AND 0x7F = 0 \<and> f80 ! 6 = 0 \<and> f80 ! 5 = 0 \<and> f80 ! 4 = 0 \<and> f80 ! 3 = 0 \<and> f80 ! 2 = 0
     \<and> f80 ! 1 = 0 \<and> f80 ! 0 = 0"

definition wierd_NaN :: "UChar list" where
  "wierd_NaN = [0, 0, 0, 0, 0, 0, 0xF8, push_bit 7 1 OR 0x7F]"

text \<open>The loop that makes a denormal number: \<open>i\<close> runs from 63 down to 0.\<close>

fun copy_denormal :: "UChar list \<Rightarrow> int \<Rightarrow> nat \<Rightarrow> UChar list \<Rightarrow> UChar list option" where
  "copy_denormal f80 bexp 0 f64 = Some f64"
| "copy_denormal f80 bexp (Suc i) f64 =
     (let j = int i - 12 + bexp in
      if j < 0 then Some f64
      else if \<not> (0 \<le> j \<and> j < 52) then None
      else copy_denormal f80 bexp i (write_bit_array f64 (nat j) (read_bit_array f80 i)))"

definition do_rounding :: "UChar list \<Rightarrow> UChar list" where
  "do_rounding f64 =
     (if f64 ! 0 \<noteq> 0xFF then f64[0 := f64 ! 0 + 1]
      else if f64 ! 0 = 0xFF \<and> f64 ! 1 \<noteq> 0xFF then f64[0 := 0, 1 := f64 ! 1 + 1]
      else if f64 ! 0 = 0xFF \<and> f64 ! 1 = 0xFF \<and> f64 ! 2 \<noteq> 0xFF then f64[0 := 0, 1 := 0, 2 := f64 ! 2 + 1]
      else f64)"

text \<open>The bytes of the mantissa, of exponent and mantissa, and of sign and exponent.\<close>

definition f64_byte :: "UChar \<Rightarrow> UChar \<Rightarrow> UChar" where
  "f64_byte a b = drop_bit 3 a OR push_bit 5 b"

definition f64_byte6 :: "int \<Rightarrow> UChar \<Rightarrow> UChar" where
  "f64_byte6 bexp a = (push_bit 4 (word_of_int bexp) AND 0xF0) OR (drop_bit 3 a AND 0x0F)"

definition f64_byte7 :: "UChar \<Rightarrow> int \<Rightarrow> UChar" where
  "f64_byte7 sign bexp = push_bit 7 sign OR (word_of_int (drop_bit 4 bexp) AND 0x7F)"

definition convert_f80le_to_f64le :: "UChar list \<Rightarrow> UChar list option" where
  "convert_f80le_to_f64le f80 =
     (let sign = f80_sign f80;
          bexp = f80_bexp f80
      in
      if bexp = 0 then Some [0, 0, 0, 0, 0, 0, 0, push_bit 7 sign]
      else if bexp = 0x7FFF then
        (if f80_isInf f80 then
           (if f80 ! 7 AND 0x80 = 0 then Some wierd_NaN
            else Some [0, 0, 0, 0, 0, 0, 0xF0, push_bit 7 sign OR 0x7F])
         else if f80 ! 7 AND 0x40 \<noteq> 0 then Some [0, 0, 0, 0, 0, 0, 0xF8, push_bit 7 sign OR 0x7F]
         else Some [0xFF, 0xFF, 0xFF, 0xFF, 0xFF, 0xFF, 0xF7, push_bit 7 sign OR 0x7F])
      else if f80 ! 7 AND 0x80 = 0 then Some wierd_NaN
      else
        (let bexp = bexp - (16383 - 1023) in
         if bexp \<ge> 0x7FF then Some [0, 0, 0, 0, 0, 0, 0xF0, push_bit 7 sign OR 0x7F]
         else if bexp \<le> 0 then
           (let f64 = [0, 0, 0, 0, 0, 0, 0, push_bit 7 sign] in
            if bexp < - 52 then Some f64
            else
              (case copy_denormal f80 bexp 64 f64 of
                 None \<Rightarrow> None
               | Some f64 \<Rightarrow>
                   if read_bit_array f80 (nat (10 + 1 - bexp)) = 1 then Some (do_rounding f64) else Some f64))
         else
           (let f64 = [f64_byte (f80 ! 1) (f80 ! 2), f64_byte (f80 ! 2) (f80 ! 3), f64_byte (f80 ! 3) (f80 ! 4),
                       f64_byte (f80 ! 4) (f80 ! 5), f64_byte (f80 ! 5) (f80 ! 6), f64_byte (f80 ! 6) (f80 ! 7),
                       f64_byte6 bexp (f80 ! 7), f64_byte7 sign bexp]
            in if f80 ! 1 AND 4 \<noteq> 0 then
                 (if f80 ! 1 AND 0xF = 4 \<and> f80 ! 0 = 0 then Some f64 else Some (do_rounding f64))
               else Some f64)))"

section \<open>Bit arrays as functions of the position\<close>

definition bit_at :: "UChar list \<Rightarrow> nat \<Rightarrow> bool" where
  "bit_at arr n = bit (arr ! (n div 8)) (n mod 8)"

lemma read_bit_at: "read_bit_array arr n = of_bool (bit_at arr n)"
  by (rule bit_word_eqI) (auto simp: read_bit_array_def bit_at_def bit_simps)

lemma write_length [simp]: "length (write_bit_array arr n b) = length arr"
  by (simp add: write_bit_array_def)

lemma bit_at_write:
  assumes "n div 8 < length arr"
  shows "bit_at (write_bit_array arr n (of_bool b)) k = (if k = n then b else bit_at arr k)"
proof (cases "k div 8 = n div 8")
  case True
  then have "k = n \<longleftrightarrow> k mod 8 = n mod 8" by (metis div_mult_mod_eq)
  moreover have "k mod 8 < 8" by simp
  ultimately show ?thesis
    using assms True by (auto simp: write_bit_array_def bit_at_def bit_simps Let_def)
next
  case False
  then show ?thesis using assms by (auto simp: write_bit_array_def bit_at_def Let_def)
qed

lemma bytes_eqI:
  assumes "length a = length b" "\<And>k. k < 8 * length b \<Longrightarrow> bit_at a k = bit_at b k"
  shows "a = b"
proof (rule nth_equalityI [OF assms(1)])
  fix i assume i: "i < length a"
  show "a ! i = b ! i"
  proof (rule bit_word_eqI)
    fix n assume "n < LENGTH(8)"
    then have n: "n < 8" by simp
    then have "(8 * i + n) div 8 = i" "(8 * i + n) mod 8 = n" "8 * i + n < 8 * length b"
      using i assms(1) by simp_all
    then show "bit (a ! i) n = bit (b ! i) n"
      using assms(2) [of "8 * i + n"] by (simp add: bit_at_def)
  qed
qed

lemma f64_sign_bit: "f64_sign f64 = of_bool (bit_at f64 63)"
  by (rule bit_word_eqI) (auto simp: f64_sign_def bit_at_def bit_simps)

lemma bit_masks [bit_simps]:
  "bit (0x07 :: 'a::len word) n \<longleftrightarrow> n < 3 \<and> n < LENGTH('a)"
  "bit (0x0F :: 'a word) n \<longleftrightarrow> n < 4 \<and> n < LENGTH('a)"
  "bit (0x7F :: 'a word) n \<longleftrightarrow> n < 7 \<and> n < LENGTH('a)"
  "bit (0x7FF :: 'a word) n \<longleftrightarrow> n < 11 \<and> n < LENGTH('a)"
  "bit (0x7FFF :: 'a word) n \<longleftrightarrow> n < 15 \<and> n < LENGTH('a)"
proof -
  have m: "(0x07 :: 'a word) = mask 3" "(0x0F :: 'a word) = mask 4" "(0x7F :: 'a word) = mask 7" "(0x7FF :: 'a word) = mask 11" "(0x7FFF :: 'a word) = mask 15"
    by (simp_all add: mask_eq_exp_minus_1)
  show "bit (0x07 :: 'a::len word) n \<longleftrightarrow> n < 3 \<and> n < LENGTH('a)" "bit (0x0F :: 'a word) n \<longleftrightarrow> n < 4 \<and> n < LENGTH('a)"
    "bit (0x7F :: 'a word) n \<longleftrightarrow> n < 7 \<and> n < LENGTH('a)"
    "bit (0x7FF :: 'a word) n \<longleftrightarrow> n < 11 \<and> n < LENGTH('a)" "bit (0x7FFF :: 'a word) n \<longleftrightarrow> n < 15 \<and> n < LENGTH('a)"
    unfolding m by (auto simp: bit_mask_iff simp del: mask_numeral)
qed

lemma bit_int_masks [bit_simps]:
  "bit (0x0F :: int) n \<longleftrightarrow> n < 4" "bit (0x7FF :: int) n \<longleftrightarrow> n < 11" "bit (0x7FFF :: int) n \<longleftrightarrow> n < 15"
proof -
  have m: "(0x0F :: int) = mask 4" "(0x7FF :: int) = mask 11" "(0x7FFF :: int) = mask 15"
    by (simp_all add: mask_eq_exp_minus_1)
  show "bit (0x0F :: int) n \<longleftrightarrow> n < 4" "bit (0x7FF :: int) n \<longleftrightarrow> n < 11" "bit (0x7FFF :: int) n \<longleftrightarrow> n < 15"
    unfolding m by (auto simp: bit_mask_iff simp del: mask_numeral)
qed

lemma f64_bexp_bit: "bit (f64_bexp f64) n \<longleftrightarrow> n < 11 \<and> bit_at f64 (52 + n)"
proof (cases "n < 4")
  case True
  then have "(52 + n) div 8 = 6" "(52 + n) mod 8 = 4 + n" by presburger+
  then show ?thesis using True by (auto simp: f64_bexp_def bit_at_def bit_simps)
next
  case False
  then show ?thesis
  proof (cases "n < 11")
    case True
    then have "(52 + n) div 8 = 7" "(52 + n) mod 8 = n - 4" using False by (simp_all add: div_nat_eqI mod_nat_eqI)
    then show ?thesis using False True by (auto simp: f64_bexp_def bit_at_def bit_simps dest: bit_imp_le_length)
  qed (auto simp: f64_bexp_def bit_simps)
qed

lemma f64_bexp_range: "0 \<le> f64_bexp f64" "f64_bexp f64 < 2048"
proof -
  show "0 \<le> f64_bexp f64" by (simp add: f64_bexp_def)
  have "take_bit 11 (f64_bexp f64) = f64_bexp f64"
    by (rule bit_eqI) (auto simp: f64_bexp_bit bit_simps)
  then show "f64_bexp f64 < 2048" using take_bit_int_less_exp [of 11 "f64_bexp f64"] by simp
qed

lemma exp_bytes_at:
  assumes "length xs = 8" "0 \<le> B" "B < 32768"
  shows "f80_bexp (xs @ exp_bytes (of_bool s) B) = B" "f80_sign (xs @ exp_bytes (of_bool s) B) = of_bool s"
proof -
  have nth: "(xs @ exp_bytes (of_bool s) B) ! 8 = word_of_int (take_bit 8 B)"
    "(xs @ exp_bytes (of_bool s) B) ! 9 = push_bit 7 (of_bool s) OR word_of_int (take_bit 8 (drop_bit 8 B))"
    using assms(1) by (simp_all add: exp_bytes_def nth_append)
  have B: "take_bit 15 B = B" using assms by (simp add: take_bit_int_eq_self)
  have b: "bit B n \<Longrightarrow> n < 15" for n using B by (metis bit_take_bit_iff)
  have "bit (f80_bexp (xs @ exp_bytes (of_bool s) B)) n = bit B n" for n
  proof (cases "n < 15")
    case True
    then show ?thesis by (cases "n < 8") (auto simp: f80_bexp_def nth bit_simps)
  qed (auto simp: f80_bexp_def bit_simps dest: b)
  then show "f80_bexp (xs @ exp_bytes (of_bool s) B) = B" by (rule bit_eqI)
  show "f80_sign (xs @ exp_bytes (of_bool s) B) = of_bool s"
    by (rule bit_word_eqI) (auto simp: f80_sign_def nth bit_simps dest: b)
qed


lemma bit_consts [bit_simps]:
  "bit (0xF8 :: UChar) n \<longleftrightarrow> 3 \<le> n \<and> n < 8" "bit (0x78 :: UChar) n \<longleftrightarrow> 3 \<le> n \<and> n < 7" "bit (0xF0 :: UChar) n \<longleftrightarrow> 4 \<le> n \<and> n < 8"
proof -
  have m: "(0xF8 :: UChar) = push_bit 3 (mask 5)" "(0x78 :: UChar) = push_bit 3 (mask 4)" "(0xF0 :: UChar) = push_bit 4 (mask 4)"
    by (simp_all add: mask_eq_exp_minus_1)
  show "bit (0xF8 :: UChar) n \<longleftrightarrow> 3 \<le> n \<and> n < 8" "bit (0x78 :: UChar) n \<longleftrightarrow> 3 \<le> n \<and> n < 7" "bit (0xF0 :: UChar) n \<longleftrightarrow> 4 \<le> n \<and> n < 8"
    unfolding m by (auto simp: bit_simps bit_mask_iff simp del: mask_numeral push_bit_numeral)
qed

lemma bit_0x80 [bit_simps]: "bit (0x80 :: UChar) n \<longleftrightarrow> n = 7"
proof -
  have m: "(0x80 :: UChar) = 2 ^ 7" by simp
  show ?thesis unfolding m by (auto simp: bit_exp_iff simp del: power_numeral)
qed

lemma byte_bits: "n < LENGTH(8) \<Longrightarrow> n = 0 \<or> n = 1 \<or> n = 2 \<or> n = 3 \<or> n = 4 \<or> n = 5 \<or> n = 6 \<or> n = 7"
  by simp arith

text \<open>The bytes survive the two conversions.\<close>

lemma f64_bytes:
  "f64_byte (f80_byte a x) (f80_byte c a) = a" "f64_byte (f80_byte a x) (f80_top_byte c a) = a"
  "f64_byte (push_bit 3 a AND 0xF8) (f80_byte c a) = a"
  unfolding f64_byte_def f80_byte_def f80_top_byte_def
  by (rule bit_word_eqI, drule byte_bits, elim disjE; simp add: bit_simps)+

lemma f64_high_bytes:
  assumes "length f64 = 8"
  shows "f64_byte6 (f64_bexp f64) (f80_top_byte (f64 ! 6) x) = f64 ! 6" "f64_byte7 (f64_sign f64) (f64_bexp f64) = f64 ! 7"
  unfolding f64_byte6_def f64_byte7_def f80_top_byte_def
  by (rule bit_word_eqI, drule byte_bits, elim disjE; simp add: bit_simps f64_bexp_bit f64_sign_bit bit_at_def)+

lemma low_bits_clear: "(push_bit 3 a AND 0xF8) AND 4 = (0 :: UChar)"
  by (rule bit_word_eqI, drule byte_bits, elim disjE; simp add: bit_simps)

lemma integer_bit: "f80_top_byte a b AND 0x80 \<noteq> 0"
proof
  assume "f80_top_byte a b AND 0x80 = 0"
  then have "bit (f80_top_byte a b AND 0x80) 7 = bit (0 :: UChar) 7" by simp
  then show False by (simp add: f80_top_byte_def bit_simps)
qed

lemma bytes8: "length xs = 8 \<Longrightarrow> [xs ! 0, xs ! 1, xs ! 2, xs ! 3, xs ! 4, xs ! 5, xs ! 6, xs ! 7] = xs"
  by (rule nth_equalityI) (auto simp: less_Suc_eq numeral_eq_Suc)

lemma roundtrip_normal:
  assumes len: "length f64 = 8" and e: "f64_bexp f64 \<noteq> 0" "f64_bexp f64 \<noteq> 0x7FF"
  shows "convert_f80le_to_f64le (convert_f64le_to_f80le f64) = Some f64"
proof -
  let ?f80 = "convert_f64le_to_f80le f64" and ?B = "f64_bexp f64 + 15360"
  define m where "m = [0, push_bit 3 (f64 ! 0) AND 0xF8, f80_byte (f64 ! 1) (f64 ! 0), f80_byte (f64 ! 2) (f64 ! 1),
    f80_byte (f64 ! 3) (f64 ! 2), f80_byte (f64 ! 4) (f64 ! 3), f80_byte (f64 ! 5) (f64 ! 4), f80_top_byte (f64 ! 6) (f64 ! 5)]"
  have f80: "?f80 = m @ exp_bytes (f64_sign f64) ?B"
    unfolding convert_f64le_to_f80le_def Let_def m_def using e by (simp only: if_False simp_thms) simp
  have r: "0 \<le> f64_bexp f64" "f64_bexp f64 < 2048" by (rule f64_bexp_range)+
  have lm: "length m = 8" by (simp add: m_def)
  have fields: "f80_bexp ?f80 = ?B" "f80_sign ?f80 = f64_sign f64"
    using exp_bytes_at [OF lm, of ?B "bit_at f64 63"] r by (simp_all add: f80 f64_sign_bit)
  have nth: "?f80 ! i = m ! i" if "i < 8" for i
    using that lm by (simp add: f80 nth_append)
  have "?f80 ! 7 AND 0x80 \<noteq> 0" "?f80 ! 1 AND 4 = 0"
    using nth [of 7] nth [of 1] integer_bit low_bits_clear by (simp_all add: m_def)
  then have "convert_f80le_to_f64le ?f80 = Some
      [f64_byte (m ! 1) (m ! 2), f64_byte (m ! 2) (m ! 3), f64_byte (m ! 3) (m ! 4), f64_byte (m ! 4) (m ! 5),
       f64_byte (m ! 5) (m ! 6), f64_byte (m ! 6) (m ! 7), f64_byte6 (f64_bexp f64) (m ! 7), f64_byte7 (f64_sign f64) (f64_bexp f64)]"
    unfolding convert_f80le_to_f64le_def Let_def fields using r e nth by simp
  also have "\<dots> = Some [f64 ! 0, f64 ! 1, f64 ! 2, f64 ! 3, f64 ! 4, f64 ! 5, f64 ! 6, f64 ! 7]"
    by (simp add: m_def f64_bytes f64_high_bytes [OF len])
  finally show ?thesis by (simp only: bytes8 [OF len])
qed

lemma leading_zeroes_bits:
  assumes "\<exists>i<n. bit_at f64 i"
  shows "\<exists>s<n. leading_zeroes f64 n k = k + s \<and> bit_at f64 (n - 1 - s) \<and> (\<forall>i. n - 1 - s < i \<and> i < n \<longrightarrow> \<not> bit_at f64 i)"
  using assms
proof (induction n arbitrary: k)
  case (Suc n)
  show ?case
  proof (cases "bit_at f64 n")
    case True
    then show ?thesis by (intro exI [of _ 0]) (auto simp: read_bit_at)
  next
    case False
    then have "\<exists>i<n. bit_at f64 i" using Suc.prems less_antisym by blast
    then obtain s where "s < n" "leading_zeroes f64 n (k + 1) = k + 1 + s" "bit_at f64 (n - 1 - s)"
        "\<forall>i. n - 1 - s < i \<and> i < n \<longrightarrow> \<not> bit_at f64 i"
      using Suc.IH [of "k + 1"] by blast
    then show ?thesis
      using False by (intro exI [of _ "Suc s"]) (auto simp: read_bit_at less_Suc_eq)
  qed
qed simp

lemma copy_bits_at:
  "n \<le> Suc j \<Longrightarrow> j div 8 < length f80 \<Longrightarrow> length (copy_bits f64 n j f80) = length f80
     \<and> bit_at (copy_bits f64 n j f80) k = (if k \<le> j \<and> j < k + n then bit_at f64 (n - 1 - (j - k)) else bit_at f80 k)"
proof (induction n arbitrary: j f80)
  case (Suc i)
  let ?f = "write_bit_array f80 j (read_bit_array f64 i)"
  have w: "bit_at ?f k = (if k = j then bit_at f64 i else bit_at f80 k)"
    using bit_at_write [of j f80 "bit_at f64 i" k] Suc.prems by (simp add: read_bit_at)
  show ?case
  proof (cases i)
    case 0
    then show ?thesis using w by auto
  next
    case (Suc i')
    then have "i \<le> Suc (j - 1)" "(j - 1) div 8 < length ?f"
      using Suc.prems by (auto intro: le_less_trans [OF div_le_mono])
    from Suc.IH [OF this] w Suc Suc.prems show ?thesis by auto
  qed
qed auto

lemma copy_denormal_at:
  "n \<le> 64 \<Longrightarrow> length f64 = 8 \<Longrightarrow> \<exists>r. copy_denormal f80 (- int d) n f64 = Some r \<and> length r = 8
     \<and> (\<forall>k. bit_at r k = (if k + 12 + d < n then bit_at f80 (k + 12 + d) else bit_at f64 k))"
proof (induction n arbitrary: f64)
  case (Suc i)
  show ?case
  proof (cases "i < 12 + d")
    case True
    then show ?thesis using Suc.prems by auto
  next
    case False
    let ?j = "i - 12 - d"
    let ?f = "write_bit_array f64 ?j (read_bit_array f80 i)"
    have j: "int i - 12 + - int d = int ?j" "?j < 52" using False Suc.prems by auto
    have w: "bit_at ?f k = (if k = ?j then bit_at f80 i else bit_at f64 k)" for k
      using bit_at_write [of ?j f64 "bit_at f80 i" k] Suc.prems j(2) by (simp add: read_bit_at)
    obtain r where r: "copy_denormal f80 (- int d) i ?f = Some r" "length r = 8"
        "\<forall>k. bit_at r k = (if k + 12 + d < i then bit_at f80 (k + 12 + d) else bit_at ?f k)"
      using Suc.IH [of ?f] Suc.prems by (elim meta_impE) (simp, simp, blast)
    have "bit_at r k = (if k + 12 + d < Suc i then bit_at f80 (k + 12 + d) else bit_at f64 k)" for k
      using r(3) [rule_format, of k] w [of k] False by (cases "k + 12 + d = i") auto
    moreover have "copy_denormal f80 (- int d) (Suc i) f64 = Some r"
      unfolding copy_denormal.simps Let_def j(1) using j(2) r(1) by simp
    ultimately show ?thesis using r(2) by blast
  qed
qed simp

lemma less_6_iff: "(b :: nat) < 6 \<longleftrightarrow> b = 0 \<or> b = 1 \<or> b = 2 \<or> b = 3 \<or> b = 4 \<or> b = 5"
  by arith

lemma all_less_6: "(\<forall>b<6. P b) \<longleftrightarrow> P (5 :: nat) \<and> P 4 \<and> P 3 \<and> P 2 \<and> P 1 \<and> P 0"
  unfolding less_6_iff by blast

lemma less_7_iff: "(b :: nat) < 7 \<longleftrightarrow> b < 6 \<or> b = 6"
  by arith

lemma mantissaIsZero_bits:
  assumes "length f64 = 8"
  shows "f64_mantissaIsZero f64 \<longleftrightarrow> (\<forall>i<52. \<not> bit_at f64 i)"
proof -
  have pos: "bit_at f64 (8 * b + i) = bit (f64 ! b) i" if "i < 8" for b i
    using that by (simp add: bit_at_def)
  have byte: "f64 ! b = 0 \<longleftrightarrow> (\<forall>i<8. \<not> bit_at f64 (8 * b + i))" for b
    by (auto simp: pos bit_eq_iff)
  have nib: "f64 ! 6 AND 0x0F = 0 \<longleftrightarrow> (\<forall>i<4. \<not> bit_at f64 (48 + i))"
    using pos [of _ 6] less_trans [of _ 4 8] by (fastforce simp: bit_eq_iff bit_simps)
  have "(\<forall>i<52. \<not> bit_at f64 i) \<longleftrightarrow> (\<forall>i<4. \<not> bit_at f64 (48 + i)) \<and> (\<forall>b<6. \<forall>i<8. \<not> bit_at f64 (8 * b + i))"
  proof (intro iffI conjI allI impI)
    fix i :: nat
    assume a: "(\<forall>i<4. \<not> bit_at f64 (48 + i)) \<and> (\<forall>b<6. \<forall>i<8. \<not> bit_at f64 (8 * b + i))" "i < 52"
    show "\<not> bit_at f64 i"
    proof (cases "i < 48")
      case True
      then have "i div 8 < 6" by simp
      then show ?thesis using a(1) mod_less_divisor [of 8 i] mult_div_mod_eq [of 8 i] by (metis zero_less_numeral)
    next
      case False
      then have "48 + (i - 48) = i" "i - 48 < 4" using a(2) by simp_all
      then show ?thesis using conjunct1 [OF a(1), rule_format, of "i - 48"] by simp
    qed
  qed auto
  moreover have "(\<forall>b<6. \<forall>i<8. \<not> bit_at f64 (8 * b + i)) \<longleftrightarrow> f64 ! 5 = 0 \<and> f64 ! 4 = 0 \<and> f64 ! 3 = 0 \<and> f64 ! 2 = 0 \<and> f64 ! 1 = 0 \<and> f64 ! 0 = 0"
    by (simp only: byte [symmetric] all_less_6)
  ultimately show ?thesis
    by (auto simp: f64_mantissaIsZero_def nib)
qed


lemma f64_bexp_zero:
  assumes "f64_bexp f64 = 0" "52 \<le> k" "k < 63"
  shows "\<not> bit_at f64 k"
proof -
  have "\<not> bit (f64_bexp f64) (k - 52)" using assms(1) by simp
  then show ?thesis using assms(2,3) by (simp add: f64_bexp_bit)
qed

lemma bit_at_sign_only:
  "k < 64 \<Longrightarrow> bit_at [0, 0, 0, 0, 0, 0, 0, push_bit 7 (of_bool s)] k \<longleftrightarrow> k = 63 \<and> s"
proof -
  assume "k < 64"
  then have "k div 8 < 8" by simp
  then consider "k div 8 = 7" | "k div 8 < 7" by linarith
  then show ?thesis
  proof cases
    case 1
    then have "k = 63 \<longleftrightarrow> k mod 8 = 7" by presburger
    then show ?thesis using 1 by (auto simp: bit_at_def bit_simps)
  next
    case 2
    then have "[0, 0, 0, 0, 0, 0, 0, push_bit 7 (of_bool s)] ! (k div 8) = (0 :: UChar)"
      using 2 by (auto simp: less_7_iff less_6_iff)
    moreover have "k \<noteq> 63" using 2 by auto
    ultimately show ?thesis by (simp add: bit_at_def)
  qed
qed

lemma roundtrip_zero:
  assumes len: "length f64 = 8" and e: "f64_bexp f64 = 0" and m: "f64_mantissaIsZero f64"
  shows "convert_f80le_to_f64le (convert_f64le_to_f80le f64) = Some f64"
proof -
  let ?z = "[0, 0, 0, 0, 0, 0, 0, push_bit 7 (f64_sign f64)]"
  have f80: "convert_f64le_to_f80le f64 = replicate 8 0 @ exp_bytes (f64_sign f64) 0"
    using e m by (simp add: convert_f64le_to_f80le_def exp_bytes_def numeral_eq_Suc)
  then have "convert_f80le_to_f64le (convert_f64le_to_f80le f64) = Some ?z"
    using exp_bytes_at [of "replicate 8 0" 0 "bit_at f64 63"]
    by (simp add: convert_f80le_to_f64le_def f64_sign_bit)
  moreover have "?z = f64"
  proof (rule bytes_eqI)
    show "length ?z = length f64" using len by simp
    fix k assume "k < 8 * length f64"
    then show "bit_at ?z k = bit_at f64 k"
      using bit_at_sign_only [of k "bit_at f64 63"] f64_bexp_zero [OF e, of k] m len
      by (cases "k < 52"; cases "k = 63") (auto simp: f64_sign_bit mantissaIsZero_bits)
  qed
  ultimately show ?thesis by simp
qed

lemma exp_bytes_special: "[0xFF, push_bit 7 s OR 0x7F] = exp_bytes s 0x7FFF"
  by (simp add: exp_bytes_def)

lemma inf_bytes:
  assumes "f64_bexp f64 = 0x7FF"
  shows "f64 ! 7 = push_bit 7 (f64_sign f64) OR 0x7F" "f64 ! 6 = 0xF0 OR (f64 ! 6 AND 0x0F)"
proof -
  have b: "bit_at f64 (52 + n)" if "n < 11" for n
  proof -
    have "bit (f64_bexp f64) n" using assms that by (simp add: bit_simps)
    then show ?thesis by (simp add: f64_bexp_bit)
  qed
  have "bit (f64 ! 6) 4" "bit (f64 ! 6) 5" "bit (f64 ! 6) 6" "bit (f64 ! 6) 7" "bit (f64 ! 7) 0" "bit (f64 ! 7) 1"
    "bit (f64 ! 7) 2" "bit (f64 ! 7) 3" "bit (f64 ! 7) 4" "bit (f64 ! 7) 5" "bit (f64 ! 7) 6"
    using b [of 0] b [of 1] b [of 2] b [of 3] b [of 4] b [of 5] b [of 6] b [of 7] b [of 8] b [of 9] b [of 10]
    by (simp_all add: bit_at_def)
  then show "f64 ! 7 = push_bit 7 (f64_sign f64) OR 0x7F" "f64 ! 6 = 0xF0 OR (f64 ! 6 AND 0x0F)"
    by (rule_tac bit_word_eqI, drule_tac byte_bits, elim disjE; simp add: bit_simps f64_sign_bit bit_at_def)+
qed

lemma roundtrip_special:
  assumes len: "length f64 = 8" and e: "f64_bexp f64 = 0x7FF"
  shows "convert_f80le_to_f64le (convert_f64le_to_f80le f64) = Some
     (if f64_mantissaIsZero f64 then f64
      else if bit_at f64 51 then [0, 0, 0, 0, 0, 0, 0xF8, push_bit 7 (f64_sign f64) OR 0x7F]
      else [0xFF, 0xFF, 0xFF, 0xFF, 0xFF, 0xFF, 0xF7, push_bit 7 (f64_sign f64) OR 0x7F])"
proof -
  let ?x = "exp_bytes (f64_sign f64) 0x7FFF"
  have fields: "f80_bexp (xs @ ?x) = 0x7FFF" "f80_sign (xs @ ?x) = f64_sign f64" if "length xs = 8" for xs
    using exp_bytes_at [OF that, of "0x7FFF" "bit_at f64 63"] by (simp_all add: f64_sign_bit)
  have quiet: "f64 ! 6 AND 8 \<noteq> 0 \<longleftrightarrow> bit_at f64 51"
  proof -
    have "f64 ! 6 AND push_bit 3 1 \<noteq> 0 \<longleftrightarrow> bit (f64 ! 6) 3" by (simp only: bit_iff_and_push_bit_not_eq_0)
    then show ?thesis by (simp add: bit_at_def)
  qed
  have special: "convert_f80le_to_f64le (xs @ ?x) = Some
      (if f80_isInf (xs @ ?x) then (if xs ! 7 AND 0x80 = 0 then wierd_NaN else [0, 0, 0, 0, 0, 0, 0xF0, push_bit 7 (f64_sign f64) OR 0x7F])
       else if xs ! 7 AND 0x40 \<noteq> 0 then [0, 0, 0, 0, 0, 0, 0xF8, push_bit 7 (f64_sign f64) OR 0x7F]
       else [0xFF, 0xFF, 0xFF, 0xFF, 0xFF, 0xFF, 0xF7, push_bit 7 (f64_sign f64) OR 0x7F])" if "length xs = 8" for xs
    using that fields [OF that] by (simp add: convert_f80le_to_f64le_def nth_append)
  have conv: "convert_f80le_to_f64le ([0, 0, 0, 0, 0, 0, 0, 0x80] @ ?x) = Some [0, 0, 0, 0, 0, 0, 0xF0, push_bit 7 (f64_sign f64) OR 0x7F]"
    "convert_f80le_to_f64le ([0, 0, 0, 0, 0, 0, 0, 0xC0] @ ?x) = Some [0, 0, 0, 0, 0, 0, 0xF8, push_bit 7 (f64_sign f64) OR 0x7F]"
    "convert_f80le_to_f64le ([0xFF, 0xFF, 0xFF, 0xFF, 0xFF, 0xFF, 0xFF, 0xBF] @ ?x)
       = Some [0xFF, 0xFF, 0xFF, 0xFF, 0xFF, 0xFF, 0xF7, push_bit 7 (f64_sign f64) OR 0x7F]"
    by (simp_all add: special f80_isInf_def nth_append del: append_Cons)
  have f80: "convert_f64le_to_f80le f64 = (if f64_mantissaIsZero f64 then [0, 0, 0, 0, 0, 0, 0, 0x80]
      else if bit_at f64 51 then [0, 0, 0, 0, 0, 0, 0, 0xC0] else [0xFF, 0xFF, 0xFF, 0xFF, 0xFF, 0xFF, 0xFF, 0xBF]) @ ?x"
    unfolding exp_bytes_special [symmetric] convert_f64le_to_f80le_def using e quiet by (simp add: Let_def)
  have "[0, 0, 0, 0, 0, 0, 0xF0, push_bit 7 (f64_sign f64) OR 0x7F] = f64" if "f64_mantissaIsZero f64"
    using that inf_bytes [OF e] bytes8 [OF len] by (simp add: f64_mantissaIsZero_def)
  then show ?thesis by (simp add: f80 conv del: append_Cons)
qed


lemma bit_at_replicate: "k < 72 \<Longrightarrow> \<not> bit_at (replicate 9 0 @ xs) k"
  using less_mult_imp_div_less [of k 9 8] by (simp add: bit_at_def nth_append)

lemma bit_at_append: "k < 8 * length xs \<Longrightarrow> bit_at (xs @ ys) k = bit_at xs k"
  by (simp add: bit_at_def nth_append less_mult_imp_div_less mult.commute)

lemma bit_at_take: "k < 64 \<Longrightarrow> bit_at (take 8 xs) k = bit_at xs k"
  by (simp add: bit_at_def)

text \<open>A denormal number becomes a normalised 80-bit number: its leading one moves to bit 63.\<close>

lemma denormal_f80:
  assumes len: "length f64 = 8" and e: "f64_bexp f64 = 0" and nz: "\<not> f64_mantissaIsZero f64"
  shows "\<exists>s m. s < 52 \<and> convert_f64le_to_f80le f64 = m @ exp_bytes (f64_sign f64) (15360 - int s) \<and> length m = 8
     \<and> bit_at f64 (51 - s) \<and> (\<forall>i. 51 - s < i \<and> i < 52 \<longrightarrow> \<not> bit_at f64 i)
     \<and> (\<forall>k<64. bit_at m k = (12 + s \<le> k \<and> bit_at f64 (k - 12 - s)))"
proof -
  obtain s where s: "s < 52" "leading_zeroes f64 52 0 = s" "bit_at f64 (51 - s)" "\<forall>i. 51 - s < i \<and> i < 52 \<longrightarrow> \<not> bit_at f64 i"
    using leading_zeroes_bits [of 52 f64 0] nz mantissaIsZero_bits [OF len] by auto
  let ?z = "replicate 9 0 @ [push_bit 7 (f64_sign f64)]"
  let ?m = "take 8 (copy_bits f64 (52 - s) 63 ?z)"
  have c: "length (copy_bits f64 (52 - s) 63 ?z) = 10"
      "bit_at (copy_bits f64 (52 - s) 63 ?z) k = (if k \<le> 63 \<and> 63 < k + (52 - s) then bit_at f64 (52 - s - 1 - (63 - k)) else bit_at ?z k)" for k
    using copy_bits_at [of "52 - s" 63 ?z f64 k] by simp_all
  have "bit_at ?m k = (12 + s \<le> k \<and> bit_at f64 (k - 12 - s))" if k: "k < 64" for k
  proof (cases "12 + s \<le> k")
    case True
    then have "63 < k + (52 - s)" "52 - s - 1 - (63 - k) = k - 12 - s" using k s(1) by auto
    then show ?thesis using True k by (simp add: bit_at_take c(2))
  next
    case False
    then have "\<not> 63 < k + (52 - s)" using s(1) by auto
    then show ?thesis using False k by (simp add: bit_at_take c(2) bit_at_replicate)
  qed
  moreover have "convert_f64le_to_f80le f64 = ?m @ exp_bytes (f64_sign f64) (15360 - int s)"
    using e nz s(2) by (simp add: convert_f64le_to_f80le_def Let_def)
  moreover have "length ?m = 8" using c(1) by simp
  ultimately show ?thesis using s by blast
qed

lemma roundtrip_denormal:
  assumes len: "length f64 = 8" and e: "f64_bexp f64 = 0" and nz: "\<not> f64_mantissaIsZero f64"
  shows "convert_f80le_to_f64le (convert_f64le_to_f80le f64) = Some f64"
proof -
  let ?f80 = "convert_f64le_to_f80le f64" and ?z = "[0, 0, 0, 0, 0, 0, 0, push_bit 7 (f64_sign f64)]"
  obtain s m where s: "s < 52" and f80: "?f80 = m @ exp_bytes (f64_sign f64) (15360 - int s)" and lm: "length m = 8"
      and lead: "bit_at f64 (51 - s)" "\<forall>i. 51 - s < i \<and> i < 52 \<longrightarrow> \<not> bit_at f64 i"
      and m: "\<forall>k<64. bit_at m k = (12 + s \<le> k \<and> bit_at f64 (k - 12 - s))"
    using denormal_f80 [OF assms] by blast
  have fields: "f80_bexp ?f80 = 15360 - int s" "f80_sign ?f80 = f64_sign f64"
    using exp_bytes_at [OF lm, of "15360 - int s" "bit_at f64 63"] s by (simp_all add: f80 f64_sign_bit)
  have bits: "bit_at ?f80 k = (12 + s \<le> k \<and> bit_at f64 (k - 12 - s))" if "k < 64" for k
    using that m lm by (simp add: f80 bit_at_append)
  have "bit (?f80 ! 7) 7" using bits [of 63] s lead(1) by (simp add: bit_at_def)
  then have top: "?f80 ! 7 AND 0x80 \<noteq> 0"
    using bit_iff_and_push_bit_not_eq_0 [of "?f80 ! 7" 7] by simp
  have low: "read_bit_array ?f80 (11 + s) = 0" using bits [of "11 + s"] s by (simp add: read_bit_at)
  obtain r where r: "copy_denormal ?f80 (- int s) 64 ?z = Some r" "length r = 8"
      "\<forall>k. bit_at r k = (if k + 12 + s < 64 then bit_at ?f80 (k + 12 + s) else bit_at ?z k)"
    using copy_denormal_at [of 64 ?z ?f80 s] by auto
  have "r = f64"
  proof (rule bytes_eqI)
    show "length r = length f64" using r(2) len by simp
    fix k assume "k < 8 * length f64"
    then have k: "k < 64" using len by simp
    show "bit_at r k = bit_at f64 k"
    proof (cases "k + 12 + s < 64")
      case True
      then show ?thesis using r(3) bits [of "k + 12 + s"] by simp
    next
      case False
      then have "bit_at r k \<longleftrightarrow> k = 63 \<and> bit_at f64 63"
        using r(3) bit_at_sign_only [OF k, of "bit_at f64 63"] by (simp add: f64_sign_bit)
      then show ?thesis
        using False k s lead(2) f64_bexp_zero [OF e, of k] by (cases "k < 52"; cases "k = 63") auto
    qed
  qed
  moreover have "nat (11 + int s) = 11 + s" by simp
  ultimately show ?thesis
    using fields top s r(1) low by (simp add: convert_f80le_to_f64le_def Let_def)
qed

lemma f64_f80_back:
  assumes "length f64 = 8"
  shows "convert_f80le_to_f64le (convert_f64le_to_f80le f64) = Some
     (if f64_bexp f64 = 0x7FF \<and> \<not> f64_mantissaIsZero f64 then
        (if bit_at f64 51 then [0, 0, 0, 0, 0, 0, 0xF8, push_bit 7 (f64_sign f64) OR 0x7F]
         else [0xFF, 0xFF, 0xFF, 0xFF, 0xFF, 0xFF, 0xF7, push_bit 7 (f64_sign f64) OR 0x7F])
      else f64)"
proof -
  consider "f64_bexp f64 = 0" "f64_mantissaIsZero f64" | "f64_bexp f64 = 0" "\<not> f64_mantissaIsZero f64" | "f64_bexp f64 = 0x7FF"
    | "f64_bexp f64 \<noteq> 0" "f64_bexp f64 \<noteq> 0x7FF" by blast
  then show ?thesis
    by cases (simp_all add: roundtrip_zero [OF assms] roundtrip_denormal [OF assms] roundtrip_special [OF assms] roundtrip_normal [OF assms])
qed

lemma f80_back:
  "length f64 = 8 \<Longrightarrow> \<exists>r. convert_f80le_to_f64le (convert_f64le_to_f80le f64) = Some r
     \<and> (f64_bexp f64 = 0x7FF \<and> \<not> f64_mantissaIsZero f64 \<or> r = f64)"
  by (simp add: f64_f80_back)

lemma copy_bits_length [simp]: "length (copy_bits f64 n j f80) = length f80"
  by (induction f64 n j f80 rule: copy_bits.induct) simp_all

lemma f80_length: "length f64 = 8 \<Longrightarrow> length (convert_f64le_to_f80le f64) = 10"
  by (simp add: convert_f64le_to_f80le_def Let_def exp_bytes_def)

section \<open>Properties\<close>

text \<open>
  C18. Storing a binary64 number in the 80-bit format and loading it again yields the same number:
  zeros, denormal and normal numbers and infinities keep all their bits; a NaN keeps its sign and
  whether it is quiet, and its payload becomes canonical.
\<close>

theorem f64_f80_roundtrip:
  assumes "length f64 = 8"
  shows "convert_f80le_to_f64le (convert_f64le_to_f80le f64) = Some
     (if f64_bexp f64 = 0x7FF \<and> \<not> f64_mantissaIsZero f64 then
        (if bit_at f64 51 then [0, 0, 0, 0, 0, 0, 0xF8, push_bit 7 (f64_sign f64) OR 0x7F]
         else [0xFF, 0xFF, 0xFF, 0xFF, 0xFF, 0xFF, 0xF7, push_bit 7 (f64_sign f64) OR 0x7F])
      else f64)"
  by (rule f64_f80_back [OF assms])

theorem f64_f80_roundtrip_witness:
  "convert_f80le_to_f64le (convert_f64le_to_f80le [1, 0, 0, 0, 0, 0, 0, 0]) = Some [1, 0, 0, 0, 0, 0, 0, 0]"
  using f64_f80_roundtrip [of "[1, 0, 0, 0, 0, 0, 0, 0]"] by (simp add: f64_bexp_def)

definition eight_bytes :: "UChar list option \<Rightarrow> bool" where
  "eight_bytes m \<longleftrightarrow> (\<exists>f64. m = Some f64 \<and> length f64 = 8)"

lemma eight_bytes_rules:
  "length x = 8 \<Longrightarrow> eight_bytes (Some x)"
  "(b \<Longrightarrow> eight_bytes m) \<Longrightarrow> (\<not> b \<Longrightarrow> eight_bytes n) \<Longrightarrow> eight_bytes (if b then m else n)"
  "eight_bytes m \<Longrightarrow> (\<And>x. length x = 8 \<Longrightarrow> eight_bytes (f x)) \<Longrightarrow> eight_bytes (case m of None \<Rightarrow> None | Some x \<Rightarrow> f x)"
  by (auto simp: eight_bytes_def)

lemma eight_bytes_denormal: "b \<le> 0 \<Longrightarrow> length z = 8 \<Longrightarrow> eight_bytes (copy_denormal f80 b 64 z)"
  using copy_denormal_at [of 64 z f80 "nat (- b)"] by (auto simp: eight_bytes_def)

lemma f80_to_f64_eight: "eight_bytes (convert_f80le_to_f64le f80)"
  unfolding convert_f80le_to_f64le_def Let_def
  by (intro eight_bytes_rules eight_bytes_denormal) (simp_all add: wierd_NaN_def do_rounding_def)

text \<open>
  The conversion from 80 bits never fails its assertion and always yields eight bytes, for
  arbitrary ten bytes of input.
\<close>

theorem f80_to_f64_total: "\<exists>f64. convert_f80le_to_f64le f80 = Some f64 \<and> length f64 = 8"
  using f80_to_f64_eight [of f80] by (simp add: eight_bytes_def)

end
