(* ===== verification/Shadow_Mem.thy ===== *)
theory Shadow_Mem
  imports X87_Convert
begin

text \<open>
  Shadow memory (\<^verbatim>\<open>derivgrind/dot/dg_dot_shadow.cpp\<close>, \<^verbatim>\<open>derivgrind/bar/dg_bar_shadow.cpp\<close>): one byte of
  shadow (forward mode), or one byte in each of two layers (recording and bit-trick finding modes), for every
  byte of memory. The bytes live in leaves, which the class template \<^verbatim>\<open>ShadowMap\<close> of the separate library
  \<^verbatim>\<open>externals/flexible-shadow\<close> finds and creates.

  The library is the parameter \<open>ShadowMap\<close>: its four member functions that the code calls, acting on the state
  of the map and on the heap of leaves. The locale \<open>flexible_shadow\<close> states what the code relies on: leaves cover runs
  of consecutive addresses, a leaf handed out for writing is private to its addresses, and handing it out
  does not change any shadow byte. The locale \<open>byte_memory\<close> is what the accesses promise to the rest of the
  tool: they implement a plain function from addresses to bytes, for any size and alignment, also across
  leaves and at the end of the address space.
\<close>

section \<open>Sizes\<close>

text \<open>
  Sizes are of type \<^verbatim>\<open>int\<close>, here a word of 32 bits. In comparisons and differences with an address they are sign-extended to 64 bits, and
  the difference that is passed on is truncated again. As long as a leaf is smaller than \<open>2 ^ 31\<close> bytes, the effect is that of the
  unsigned number in the 32 bits: a negative size makes the accesses go on until the size has wrapped around.
\<close>

type_synonym C_int = "32 word"

lemma uint_scast: "uint (scast (sz :: 32 word) :: 64 word) = (if uint sz < 2 ^ 31 then uint sz else uint sz - 2 ^ 32 + 2 ^ 64)"
proof -
  have u: "0 \<le> uint sz" "uint sz < 2 ^ 32" using uint_bounded [of sz] by simp_all
  have b: "bit (uint sz) 31 \<longleftrightarrow> 2 ^ 31 \<le> uint sz"
  proof (cases "uint sz < 2 ^ 31")
    case True
    then have "uint sz div 2 ^ 31 = 0" using u by (intro div_pos_pos_trivial)
    then show ?thesis using True by (simp add: bit_iff_odd)
  next
    case False
    then have "uint sz div 2 ^ 31 = 1" using u by (intro int_div_pos_eq [where r = "uint sz - 2 ^ 31"]) simp_all
    then show ?thesis using False by (simp add: bit_iff_odd)
  qed
  have t: "take_bit 32 (uint sz) = uint sz" using u by (simp add: take_bit_int_eq_self)
  have "sint sz = take_bit 32 (uint sz) - 2 ^ 32 * of_bool (bit (uint sz) 31)"
    by (simp add: sint_uint signed_take_bit_eq_take_bit_minus)
  then have "sint sz = (if uint sz < 2 ^ 31 then uint sz else uint sz - 2 ^ 32)" unfolding t b by simp
  moreover have "uint (scast sz :: 64 word) = sint sz mod 2 ^ 64"
    by (simp only: scast_eq uint_word_of_int len_num1 len_bit0 mult_1_right) simp
  moreover have "(uint sz - 2 ^ 32) mod 2 ^ 64 = uint sz - 2 ^ 32 + 2 ^ 64" if "2 ^ 31 \<le> uint sz"
  proof -
    have "(uint sz - 2 ^ 32) mod 2 ^ 64 = (uint sz - 2 ^ 32 + 2 ^ 64) mod 2 ^ 64" by (rule mod_add_self2 [symmetric])
    also have "\<dots> = uint sz - 2 ^ 32 + 2 ^ 64" by (rule mod_pos_pos_trivial) (use u in simp_all)
    finally show ?thesis .
  qed
  ultimately show ?thesis using u by (auto simp: mod_pos_pos_trivial)
qed

lemma int_size:
  fixes sz :: "32 word" and c :: "64 word"
  assumes "unat c < 2 ^ 31"
  shows "scast sz \<le> c \<longleftrightarrow> unat sz \<le> unat c"
    "unat sz \<le> unat c \<Longrightarrow> unat (scast sz :: 64 word) = unat sz"
    "unat c \<le> unat sz \<Longrightarrow> unat (ucast (scast sz - c) :: 32 word) = unat sz - unat c"
proof -
  have c: "uint c < 2 ^ 31" using assms by (metis uint_nat of_nat_less_iff of_nat_power of_nat_numeral)
  have u: "0 \<le> uint sz" "uint sz < 2 ^ 32" using uint_bounded [of sz] by simp_all
  have n: "unat sz \<le> unat c \<longleftrightarrow> uint sz \<le> uint c" by (simp only: uint_nat of_nat_le_iff)
  show "scast sz \<le> c \<longleftrightarrow> unat sz \<le> unat c"
    unfolding n word_le_def uint_scast using c u by auto
  show "unat sz \<le> unat c \<Longrightarrow> unat (scast sz :: 64 word) = unat sz"
  proof -
    assume "unat sz \<le> unat c"
    then have "uint (scast sz :: 64 word) = uint sz" unfolding n uint_scast using c by simp
    then show "unat (scast sz :: 64 word) = unat sz" by (simp only: unat_eq_nat_uint)
  qed
  assume "unat c \<le> unat sz"
  then have le: "uint c \<le> uint sz" by (simp only: uint_nat of_nat_le_iff)
  have "uint (scast sz - c) = (uint (scast sz :: 64 word) - uint c) mod 2 ^ 64" by (simp add: uint_word_ariths)
  then have "uint (scast sz - c) mod 2 ^ 32 = (uint (scast sz :: 64 word) - uint c) mod 2 ^ 32"
    by (simp add: mod_mod_cancel)
  also have "\<dots> = (uint sz - uint c) mod 2 ^ 32"
  proof (cases "uint sz < 2 ^ 31")
    case False
    have "uint sz - 2 ^ 32 + 2 ^ 64 - uint c = uint sz - uint c + (2 ^ 32 - 1) * 2 ^ 32" by simp
    then show ?thesis unfolding uint_scast using False by (simp only: if_False mod_mult_self1)
  qed (simp only: uint_scast if_True)
  also have "\<dots> = uint sz - uint c" by (rule mod_pos_pos_trivial) (use u le uint_ge_0 [of c] in linarith)+
  finally have "uint (scast sz - c) mod 2 ^ 32 = uint sz - uint c" .
  then have "uint (ucast (scast sz - c) :: 32 word) = uint sz - uint c" by (simp only: unsigned_ucast_eq take_bit_eq_mod len_num1 len_bit0 mult_1_right) simp
  then show "unat (ucast (scast sz - c) :: 32 word) = unat sz - unat c" by (simp only: unat_eq_nat_uint nat_diff_distrib' uint_ge_0)
qed

section \<open>The library\<close>

type_synonym Addr = "64 word"

record ('m, 'p, 'leaf) ShadowMap =
  leaf_for_read :: "'m \<Rightarrow> Addr \<Rightarrow> 'p"
  leaf_for_write :: "'m \<Rightarrow> ('p \<Rightarrow> 'leaf) \<Rightarrow> Addr \<Rightarrow> 'p \<times> 'm \<times> ('p \<Rightarrow> 'leaf)"
  contiguousElements :: "Addr \<Rightarrow> Addr"
  index :: "Addr \<Rightarrow> ULong"

type_synonym ('m, 'p, 'leaf) shadow = "'m \<times> ('p \<Rightarrow> 'leaf)"

section \<open>Forward mode: one layer\<close>

text \<open>
  Bytes are copied leaf by leaf. \<open>None\<close> stands for a recursion that does not end; the get operation returns the
  bytes that are stored at \<^verbatim>\<open>real_address\<close>, the set operation takes the bytes from there on, at least as many as it copies.
\<close>

record ShadowLeafDot =
  data :: "UChar list"

definition put_data :: "nat \<Rightarrow> UChar list \<Rightarrow> ShadowLeafDot \<Rightarrow> ShadowLeafDot" where
  "put_data i real leaf = leaf\<lparr>data := put_words i real (data leaf)\<rparr>"

partial_function (option) dg_dot_shadowGet ::
    "('m, 'p, ShadowLeafDot) ShadowMap \<Rightarrow> ('m, 'p, ShadowLeafDot) shadow \<Rightarrow> Addr \<Rightarrow> C_int \<Rightarrow> UChar list option" where
  "dg_dot_shadowGet sm s sm_address sz =
     (let leaf = leaf_for_read sm (fst s) sm_address;
          contiguousSize = contiguousElements sm sm_address;
          i = unat (index sm sm_address)
      in if contiguousSize \<ge> scast sz then Some (take (unat (scast sz :: 64 word)) (drop i (data (snd s leaf))))
         else Option.bind (dg_dot_shadowGet sm s (sm_address + contiguousSize) (ucast (scast sz - contiguousSize)))
                (\<lambda>rest. Some (take (unat contiguousSize) (drop i (data (snd s leaf))) @ rest)))"

partial_function (option) dg_dot_shadowSet ::
    "('m, 'p, ShadowLeafDot) ShadowMap \<Rightarrow> ('m, 'p, ShadowLeafDot) shadow \<Rightarrow> Addr \<Rightarrow> UChar list \<Rightarrow> C_int \<Rightarrow> ('m, 'p, ShadowLeafDot) shadow option" where
  "dg_dot_shadowSet sm s sm_address real sz =
     (let (leaf, m, leaves) = leaf_for_write sm (fst s) (snd s) sm_address;
          contiguousSize = contiguousElements sm sm_address;
          i = unat (index sm sm_address)
      in if contiguousSize \<ge> scast sz then
           Some (m, leaves(leaf := put_data i (take (unat (scast sz :: 64 word)) real) (leaves leaf)))
         else dg_dot_shadowSet sm (m, leaves(leaf := put_data i (take (unat contiguousSize) real) (leaves leaf)))
                (sm_address + contiguousSize) (drop (unat contiguousSize) real) (ucast (scast sz - contiguousSize)))"

section \<open>Recording mode: two layers\<close>

record ShadowLeafBar =
  data_Lo :: "UChar list"
  data_Hi :: "UChar list"

text \<open>A null pointer, \<open>None\<close> or \<open>False\<close>, skips its layer.\<close>

partial_function (option) dg_bar_shadowGet ::
    "('m, 'p, ShadowLeafBar) ShadowMap \<Rightarrow> ('m, 'p, ShadowLeafBar) shadow \<Rightarrow> Addr \<Rightarrow> bool \<Rightarrow> bool \<Rightarrow> C_int
      \<Rightarrow> (UChar list \<times> UChar list) option" where
  "dg_bar_shadowGet sm s sm_address real_Lo real_Hi sz =
     (let leaf = leaf_for_read sm (fst s) sm_address;
          contiguousSize = contiguousElements sm sm_address;
          i = unat (index sm sm_address)
      in if contiguousSize \<ge> scast sz then
           Some (if real_Lo then take (unat (scast sz :: 64 word)) (drop i (data_Lo (snd s leaf))) else [],
                 if real_Hi then take (unat (scast sz :: 64 word)) (drop i (data_Hi (snd s leaf))) else [])
         else Option.bind (dg_bar_shadowGet sm s (sm_address + contiguousSize) real_Lo real_Hi (ucast (scast sz - contiguousSize)))
                (\<lambda>(rest_Lo, rest_Hi). Some
                   (if real_Lo then take (unat contiguousSize) (drop i (data_Lo (snd s leaf))) @ rest_Lo else [],
                    if real_Hi then take (unat contiguousSize) (drop i (data_Hi (snd s leaf))) @ rest_Hi else [])))"

definition put_layer :: "nat \<Rightarrow> UChar list option \<Rightarrow> UChar list \<Rightarrow> UChar list" where
  "put_layer i real b = (case real of None \<Rightarrow> b | Some ws \<Rightarrow> put_words i ws b)"

definition put_leaf :: "nat \<Rightarrow> UChar list option \<Rightarrow> UChar list option \<Rightarrow> ShadowLeafBar \<Rightarrow> ShadowLeafBar" where
  "put_leaf i real_Lo real_Hi leaf =
     \<lparr>data_Lo = put_layer i real_Lo (data_Lo leaf), data_Hi = put_layer i real_Hi (data_Hi leaf)\<rparr>"

partial_function (option) dg_bar_shadowSet ::
    "('m, 'p, ShadowLeafBar) ShadowMap \<Rightarrow> ('m, 'p, ShadowLeafBar) shadow \<Rightarrow> Addr \<Rightarrow> UChar list option \<Rightarrow> UChar list option \<Rightarrow> C_int
      \<Rightarrow> ('m, 'p, ShadowLeafBar) shadow option" where
  "dg_bar_shadowSet sm s sm_address real_Lo real_Hi sz =
     (let (leaf, m, leaves) = leaf_for_write sm (fst s) (snd s) sm_address;
          contiguousSize = contiguousElements sm sm_address;
          i = unat (index sm sm_address);
          n = unat (min (scast sz) contiguousSize);
          leaves = leaves(leaf := put_leaf i (map_option (take n) real_Lo) (map_option (take n) real_Hi) (leaves leaf))
      in if contiguousSize \<ge> scast sz then Some (m, leaves)
         else dg_bar_shadowSet sm (m, leaves) (sm_address + contiguousSize)
                (map_option (drop (unat contiguousSize)) real_Lo) (map_option (drop (unat contiguousSize)) real_Hi)
                (ucast (scast sz - contiguousSize)))"

section \<open>Plain byte memories\<close>

definition read_bytes :: "(Addr \<Rightarrow> UChar) \<Rightarrow> Addr \<Rightarrow> nat \<Rightarrow> UChar list" where
  "read_bytes f a n = map (\<lambda>i. f (a + of_nat i)) [0..<n]"

definition write_bytes :: "(Addr \<Rightarrow> UChar) \<Rightarrow> Addr \<Rightarrow> UChar list \<Rightarrow> (Addr \<Rightarrow> UChar)" where
  "write_bytes f a bs = (\<lambda>b. if unat (b - a) < length bs then bs ! unat (b - a) else f b)"

lemma length_read_bytes [simp]: "length (read_bytes f a n) = n"
  by (simp add: read_bytes_def)

lemma read_bytes_append: "read_bytes f a (m + n) = read_bytes f a m @ read_bytes f (a + of_nat m) n"
proof -
  have "[m..<m + n] = map (\<lambda>i. i + m) [0..<n]" by (simp add: map_add_upt add.commute)
  then have "[0..<m + n] = [0..<m] @ map (\<lambda>i. i + m) [0..<n]" using upt_add_eq_append [of 0 m n] by simp
  then show ?thesis by (simp add: read_bytes_def comp_def add.assoc add.commute [of "of_nat m"])
qed

lemma unat_addr: "unat (x :: Addr) < 2 ^ 64"
  using unsigned_less [of x] by simp

lemma unat_minus_of_nat:
  fixes x :: Addr
  assumes "k \<le> 2 ^ 64"
  shows "unat (x - of_nat k) = (if k \<le> unat x then unat x - k else unat x + 2 ^ 64 - k)"
proof (cases "k = 2 ^ 64")
  case True
  have "unat x < 2 ^ 64" by (rule unat_addr)
  then have "\<not> k \<le> unat x" using True by linarith
  moreover have "(of_nat k :: Addr) = 0" using True by simp
  ultimately have "unat (x - of_nat k) = unat x" "\<not> k \<le> unat x" by (simp_all only: diff_zero not_False_eq_True)
  then show ?thesis using True by (simp only: if_False add_diff_cancel_right')
next
  case False
  then have "unat (of_nat k :: Addr) = k" using assms by (simp add: unsigned_of_nat take_bit_nat_eq_self)
  then show ?thesis by (simp add: unat_sub_if_size word_size)
qed

lemma write_bytes_append:
  assumes "length bs + length cs \<le> 2 ^ 64"
  shows "write_bytes (write_bytes f a bs) (a + of_nat (length bs)) cs = write_bytes f a (bs @ cs)"
proof
  fix b
  have "b - (a + of_nat (length bs)) = (b - a) - of_nat (length bs)" by simp
  moreover have "length bs \<le> 2 ^ 64" using assms by simp
  ultimately have "unat (b - (a + of_nat (length bs))) =
      (if length bs \<le> unat (b - a) then unat (b - a) - length bs else unat (b - a) + 2 ^ 64 - length bs)"
    by (simp only: unat_minus_of_nat)
  then show "write_bytes (write_bytes f a bs) (a + of_nat (length bs)) cs b = write_bytes f a (bs @ cs) b"
    using assms by (auto simp: write_bytes_def nth_append split: if_splits)
qed

lemma write_bytes_Nil [simp]: "write_bytes f a [] = f"
  by (simp add: write_bytes_def)

lemma read_write_bytes:
  assumes "length bs \<le> 2 ^ 64"
  shows "read_bytes (write_bytes f a bs) a (length bs) = bs"
proof (rule nth_equalityI)
  fix i
  assume "i < length (read_bytes (write_bytes f a bs) a (length bs))"
  then have i: "i < length bs" by simp
  then have "unat (of_nat i :: Addr) = i" using assms by (simp add: unsigned_of_nat take_bit_nat_eq_self)
  then show "read_bytes (write_bytes f a bs) a (length bs) ! i = bs ! i" using i by (simp add: read_bytes_def write_bytes_def)
qed simp

lemma read_bytes_elsewhere:
  "(\<And>i. i < n \<Longrightarrow> length bs \<le> unat (b + of_nat i - a)) \<Longrightarrow> read_bytes (write_bytes f a bs) b n = read_bytes f b n"
  by (simp add: read_bytes_def write_bytes_def linorder_not_less [symmetric])

text \<open>The contract of a byte memory: \<open>mem\<close> reads it as a function, and \<open>ok\<close> is its invariant.\<close>

locale byte_memory =
  fixes get :: "'s \<Rightarrow> Addr \<Rightarrow> nat \<Rightarrow> UChar list option"
    and set :: "'s \<Rightarrow> Addr \<Rightarrow> UChar list \<Rightarrow> 's option"
    and mem :: "'s \<Rightarrow> Addr \<Rightarrow> UChar"
    and ok :: "'s \<Rightarrow> bool"
  assumes get_reads: "ok s \<Longrightarrow> n < 2 ^ 32 \<Longrightarrow> get s a n = Some (read_bytes (mem s) a n)"
    and set_writes: "ok s \<Longrightarrow> length bs < 2 ^ 32 \<Longrightarrow> \<exists>s'. set s a bs = Some s' \<and> ok s' \<and> mem s' = write_bytes (mem s) a bs"
begin

lemma get_after_set:
  assumes "ok s" "length bs < 2 ^ 32" "set s a bs = Some s'"
  shows "get s' a (length bs) = Some bs"
proof -
  have s': "ok s'" "mem s' = write_bytes (mem s) a bs" using set_writes [OF assms(1,2), of a] assms(3) by auto
  have "read_bytes (mem s') a (length bs) = bs" unfolding s' using assms(2) by (intro read_write_bytes) simp
  then show ?thesis using get_reads [OF s'(1) assms(2)] by simp
qed

lemma get_elsewhere:
  assumes "ok s" "length bs < 2 ^ 32" "set s a bs = Some s'" "n < 2 ^ 32" "\<And>i. i < n \<Longrightarrow> length bs \<le> unat (b + of_nat i - a)"
  shows "get s' b n = get s b n"
proof -
  have s': "ok s'" "mem s' = write_bytes (mem s) a bs" using set_writes [OF assms(1,2), of a] assms(3) by auto
  have "read_bytes (mem s') b n = read_bytes (mem s) b n" unfolding s'(2) by (rule read_bytes_elsewhere, rule assms(5))
  then show ?thesis using get_reads [OF s'(1) assms(4)] get_reads [OF assms(1,4)] by simp
qed

end

section \<open>What the accesses rely on\<close>

text \<open>
  A layer of the shadow as a function of the address; \<open>layer_ok\<close> says that every leaf that is found has the
  right size.
\<close>

definition layer_ok :: "('m, 'p, 'leaf) ShadowMap \<Rightarrow> nat \<Rightarrow> ('leaf \<Rightarrow> UChar list) \<Rightarrow> ('m, 'p, 'leaf) shadow \<Rightarrow> bool" where
  "layer_ok sm leaf_size lay s \<longleftrightarrow> (\<forall>a. length (lay (snd s (leaf_for_read sm (fst s) a))) = leaf_size)"

definition layer_mem :: "('m, 'p, 'leaf) ShadowMap \<Rightarrow> ('leaf \<Rightarrow> UChar list) \<Rightarrow> ('m, 'p, 'leaf) shadow \<Rightarrow> Addr \<Rightarrow> UChar" where
  "layer_mem sm lay s a = lay (snd s (leaf_for_read sm (fst s) a)) ! unat (index sm a)"

definition layers_ok :: "('m, 'p, ShadowLeafBar) ShadowMap \<Rightarrow> nat \<Rightarrow> ('m, 'p, ShadowLeafBar) shadow \<Rightarrow> bool" where
  "layers_ok sm leaf_size s \<longleftrightarrow> layer_ok sm leaf_size data_Lo s \<and> layer_ok sm leaf_size data_Hi s"

definition layer_written ::
    "('m, 'p, 'leaf) ShadowMap \<Rightarrow> ('m, 'p, 'leaf) shadow \<Rightarrow> ('leaf \<Rightarrow> UChar list) \<Rightarrow> Addr \<Rightarrow> UChar list option \<Rightarrow> Addr \<Rightarrow> UChar" where
  "layer_written sm s lay a real =
     (case real of None \<Rightarrow> layer_mem sm lay s | Some bs \<Rightarrow> write_bytes (layer_mem sm lay s) a bs)"

text \<open>
  \<open>leaf_size\<close> is the number of bytes per leaf and layer. The laws: a leaf covers the contiguous elements after an
  address (\<open>covers\<close>), has room for them (\<open>room\<close>) and is smaller than \<open>2 ^ 31\<close> bytes, as the layouts
  \<^verbatim>\<open>SHADOW_LAYERS_32\<close> and \<^verbatim>\<open>SHADOW_LAYERS_64\<close> make it (\<open>small_leaf\<close>); a leaf for writing is what is read from then on
  (\<open>write_found\<close>), its bytes belong to one address each (\<open>write_private\<close>), and every address still has
  the leaf contents it had (\<open>write_keeps\<close>).
\<close>

locale flexible_shadow =
  fixes sm :: "('m, 'p, 'leaf) ShadowMap" and leaf_size :: nat
  assumes small_leaf: "leaf_size < 2 ^ 31"
    and contiguous_pos: "0 < contiguousElements sm a"
    and covers: "i < unat (contiguousElements sm a) \<Longrightarrow>
      leaf_for_read sm m (a + of_nat i) = leaf_for_read sm m a \<and> unat (index sm (a + of_nat i)) = unat (index sm a) + i"
    and room: "unat (index sm a) + unat (contiguousElements sm a) \<le> leaf_size"
    and write_found: "leaf_for_write sm m h a = (p, m', h') \<Longrightarrow> leaf_for_read sm m' a = p"
    and write_private: "leaf_for_write sm m h a = (p, m', h') \<Longrightarrow> leaf_for_read sm m' b = p \<Longrightarrow> leaf_for_read sm m' c = p \<Longrightarrow>
      index sm b = index sm c \<Longrightarrow> b = c"
    and write_keeps: "leaf_for_write sm m h a = (p, m', h') \<Longrightarrow> h' (leaf_for_read sm m' b) = h (leaf_for_read sm m b)"
begin

lemma contiguous_small: "unat (contiguousElements sm a) < 2 ^ 31"
  using room [of a] small_leaf by linarith

lemmas sizes = int_size [OF contiguous_small]

text \<open>The bytes of one leaf that follow an address.\<close>

lemma piece_read:
  assumes "layer_ok sm leaf_size lay s" "k \<le> unat (contiguousElements sm a)"
  shows "take k (drop (unat (index sm a)) (lay (snd s (leaf_for_read sm (fst s) a)))) = read_bytes (layer_mem sm lay s) a k"
proof (rule nth_equalityI)
  have len: "length (lay (snd s (leaf_for_read sm (fst s) a))) = leaf_size" using assms(1) by (simp add: layer_ok_def)
  then show "length (take k (drop (unat (index sm a)) (lay (snd s (leaf_for_read sm (fst s) a))))) = length (read_bytes (layer_mem sm lay s) a k)"
    using room [of a] assms(2) by simp
  fix i
  assume "i < length (take k (drop (unat (index sm a)) (lay (snd s (leaf_for_read sm (fst s) a)))))"
  then have i: "i < k" by simp
  then have "i < unat (contiguousElements sm a)" using assms(2) by simp
  from covers [OF this, of "fst s"] show "take k (drop (unat (index sm a)) (lay (snd s (leaf_for_read sm (fst s) a)))) ! i = read_bytes (layer_mem sm lay s) a k ! i"
    using i len room [of a] assms(2) by (simp add: read_bytes_def layer_mem_def)
qed

text \<open>Writing such bytes, in a layer where \<open>upd\<close> puts \<open>bs\<close>, and in a layer that \<open>upd\<close> leaves alone.\<close>

lemma piece_keep:
  assumes "leaf_for_write sm m h a = (p, m', h')" "lay (upd (h' p)) = lay (h' p)" "layer_ok sm leaf_size lay (m, h)"
  shows "layer_mem sm lay (m', h'(p := upd (h' p))) = layer_mem sm lay (m, h)" "layer_ok sm leaf_size lay (m', h'(p := upd (h' p)))"
proof -
  have same: "lay ((h'(p := upd (h' p))) (leaf_for_read sm m' b)) = lay (h (leaf_for_read sm m b))" for b
    using write_keeps [OF assms(1), of b] assms(2) by (cases "leaf_for_read sm m' b = p") auto
  then show "layer_mem sm lay (m', h'(p := upd (h' p))) = layer_mem sm lay (m, h)" by (simp add: layer_mem_def fun_eq_iff)
  show "layer_ok sm leaf_size lay (m', h'(p := upd (h' p)))" using same assms(3) by (simp add: layer_ok_def)
qed

lemma piece_write:
  assumes "leaf_for_write sm m h a = (p, m', h')" "lay (upd (h' p)) = put_words (unat (index sm a)) bs (lay (h' p))"
    "layer_ok sm leaf_size lay (m, h)" "length bs \<le> unat (contiguousElements sm a)"
  shows "layer_mem sm lay (m', h'(p := upd (h' p))) = write_bytes (layer_mem sm lay (m, h)) a bs"
    "layer_ok sm leaf_size lay (m', h'(p := upd (h' p)))"
proof -
  let ?i = "unat (index sm a)"
  have found: "leaf_for_read sm m' a = p" by (rule write_found [OF assms(1)])
  have old: "lay (h' (leaf_for_read sm m' b)) = lay (h (leaf_for_read sm m b))" for b
    using write_keeps [OF assms(1), of b] by simp
  have size: "length (lay (h' (leaf_for_read sm m' b))) = leaf_size" for b using old assms(3) by (simp add: layer_ok_def)
  have size_p: "length (lay (h' p)) = leaf_size" using size [of a] found by simp
  have fits: "?i + length bs \<le> leaf_size" using room [of a] assms(4) by simp
  have put: "put_words ?i bs (lay (h' p)) ! unat (index sm b) =
      (if unat (b - a) < length bs then bs ! unat (b - a) else lay (h' p) ! unat (index sm b))"
    if "leaf_for_read sm m' b = p" for b
  proof -
    have in_leaf: "unat (index sm b) < leaf_size"
      using room [of b] contiguous_pos [of b] by (simp add: word_less_nat_alt)
    have off: "leaf_for_read sm m' (a + of_nat j) = p" "unat (index sm (a + of_nat j)) = ?i + j" if "j < length bs" for j
      using covers [of j a m'] that assms(4) found by simp_all
    show ?thesis
    proof (cases "?i \<le> unat (index sm b) \<and> unat (index sm b) < ?i + length bs")
      case True
      define j where "j = unat (index sm b) - ?i"
      have j: "j < length bs" "unat (index sm b) = ?i + j" using True by (auto simp: j_def)
      have "index sm (a + of_nat j) = index sm b"
        by (rule word_unat_eq_iff [THEN iffD2]) (simp add: off(2) [OF j(1)] j(2))
      then have "b = a + of_nat j" using write_private [OF assms(1) off(1) [OF j(1)] \<open>leaf_for_read sm m' b = p\<close>] by simp
      moreover have "j < 2 ^ 64"
        using j(1) assms(4) unat_addr [of "contiguousElements sm a"] by simp
      ultimately have "unat (b - a) = j" by (simp add: unsigned_of_nat take_bit_nat_eq_self)
      then show ?thesis using j fits size_p in_leaf by (simp add: put_words_nth)
    next
      case False
      then have "\<not> unat (b - a) < length bs"
        using off(2) [of "unat (b - a)"] by auto
      then show ?thesis using False fits size_p in_leaf put_words_nth [of ?i bs "lay (h' p)" "unat (index sm b)"] by auto
    qed
  qed
  have outside: "\<not> unat (b - a) < length bs" if "leaf_for_read sm m' b \<noteq> p" for b
    using covers [of "unat (b - a)" a m'] that found assms(4) by auto
  show "layer_mem sm lay (m', h'(p := upd (h' p))) = write_bytes (layer_mem sm lay (m, h)) a bs"
    using assms(2) put outside old by (auto simp: layer_mem_def write_bytes_def fun_eq_iff)
  show "layer_ok sm leaf_size lay (m', h'(p := upd (h' p)))"
    using assms(2) size size_p fits by (auto simp: layer_ok_def put_words_length)
qed

end

section \<open>The accesses implement byte memories\<close>

locale dot_shadow = flexible_shadow sm leaf_size
  for sm :: "('m, 'p, ShadowLeafDot) ShadowMap" and leaf_size
begin

lemma shadowGet_reads:
  "layer_ok sm leaf_size data s \<Longrightarrow> dg_dot_shadowGet sm s a sz = Some (read_bytes (layer_mem sm data s) a (unat sz))"
proof (induction "unat sz" arbitrary: sz a rule: less_induct)
  case less
  let ?n = "unat sz"
  let ?c = "unat (contiguousElements sm a)"
  have piece: "k \<le> ?c \<Longrightarrow> take k (drop (unat (index sm a)) (data (snd s (leaf_for_read sm (fst s) a)))) = read_bytes (layer_mem sm data s) a k" for k
    using piece_read [OF less.prems, of k a] by simp
  show ?case
  proof (cases "?n \<le> ?c")
    case True
    then show ?thesis by (subst dg_dot_shadowGet.simps) (simp add: piece sizes Let_def)
  next
    case False
    have "0 < ?c" using contiguous_pos [of a] by (simp add: word_less_nat_alt)
    have rest: "unat (ucast (scast sz - contiguousElements sm a) :: 32 word) = ?n - ?c" using False sizes(3) [of a sz] by simp
    have "dg_dot_shadowGet sm s (a + contiguousElements sm a) (ucast (scast sz - contiguousElements sm a))
        = Some (read_bytes (layer_mem sm data s) (a + contiguousElements sm a) (?n - ?c))"
      using less.hyps [of "ucast (scast sz - contiguousElements sm a)"] less.prems False \<open>0 < ?c\<close> unfolding rest by simp
    then show ?thesis
      using False read_bytes_append [of "layer_mem sm data s" a ?c "?n - ?c"]
      by (subst dg_dot_shadowGet.simps) (simp add: piece sizes Let_def)
  qed
qed

lemma shadowSet_writes:
  "layer_ok sm leaf_size data s \<Longrightarrow> unat sz \<le> length bs \<Longrightarrow>
    \<exists>s'. dg_dot_shadowSet sm s a bs sz = Some s' \<and> layer_ok sm leaf_size data s'
      \<and> layer_mem sm data s' = write_bytes (layer_mem sm data s) a (take (unat sz) bs)"
proof (induction "unat sz" arbitrary: s a bs sz rule: less_induct)
  case less
  let ?n = "unat sz" and ?c = "unat (contiguousElements sm a)" and ?i = "unat (index sm a)"
  obtain p m h where w: "leaf_for_write sm (fst s) (snd s) a = (p, m, h)" by (cases "leaf_for_write sm (fst s) (snd s) a")
  have ok: "layer_ok sm leaf_size data (fst s, snd s)" using less.prems(1) by simp
  have piece: "layer_mem sm data (m, h(p := put_data ?i cs (h p))) = write_bytes (layer_mem sm data s) a cs"
    "layer_ok sm leaf_size data (m, h(p := put_data ?i cs (h p)))" if "length cs \<le> ?c" for cs
    using piece_write [OF w, of data "put_data ?i cs" cs] ok that by (simp_all add: put_data_def)
  show ?case
  proof (cases "?n \<le> ?c")
    case True
    then have "length (take ?n bs) \<le> ?c" by simp
    from piece [OF this] show ?thesis using True by (subst dg_dot_shadowSet.simps) (simp add: w sizes Let_def)
  next
    case False
    have "0 < ?c" using contiguous_pos [of a] by (simp add: word_less_nat_alt)
    have take: "length (take ?c bs) = ?c" using False less.prems(2) by simp
    let ?s = "(m, h(p := put_data ?i (take ?c bs) (h p)))" and ?sz = "ucast (scast sz - contiguousElements sm a) :: 32 word"
    have rest: "unat ?sz = ?n - ?c" using False sizes(3) [of a sz] by simp
    obtain s' where s': "dg_dot_shadowSet sm ?s (a + contiguousElements sm a) (drop ?c bs) ?sz = Some s'" "layer_ok sm leaf_size data s'"
      "layer_mem sm data s' = write_bytes (layer_mem sm data ?s) (a + contiguousElements sm a) (take (?n - ?c) (drop ?c bs))"
      using less.hyps [of ?sz ?s "drop ?c bs" "a + contiguousElements sm a", OF _ piece(2)] less.prems(2) take False \<open>0 < ?c\<close>
      unfolding rest by fastforce
    have split: "take ?c bs @ take (?n - ?c) (drop ?c bs) = take ?n bs"
      using take_add [of ?c "?n - ?c" bs] False by simp
    have "?n < 2 ^ 32" using unsigned_less [of sz] by simp
    then have "layer_mem sm data s' = write_bytes (layer_mem sm data s) a (take ?n bs)"
      using write_bytes_append [of "take ?c bs" "take (?n - ?c) (drop ?c bs)" "layer_mem sm data s" a, unfolded split] s'(3)
        piece(1) [of "take ?c bs"] take False less.prems(2) by simp
    then show ?thesis using s'(1,2) False by (subst dg_dot_shadowSet.simps) (simp add: w sizes Let_def)
  qed
qed

text \<open>For sizes that are given by a number.\<close>

lemma get_number: "layer_ok sm leaf_size data s \<Longrightarrow> n < 2 ^ 32 \<Longrightarrow> dg_dot_shadowGet sm s a (of_nat n) = Some (read_bytes (layer_mem sm data s) a n)"
  using shadowGet_reads [of s a "of_nat n"] by (simp add: unsigned_of_nat take_bit_nat_eq_self)

lemma set_number: "layer_ok sm leaf_size data s \<Longrightarrow> length bs < 2 ^ 32 \<Longrightarrow>
    \<exists>s'. dg_dot_shadowSet sm s a bs (of_nat (length bs)) = Some s' \<and> layer_ok sm leaf_size data s' \<and> layer_mem sm data s' = write_bytes (layer_mem sm data s) a bs"
  using shadowSet_writes [of s "of_nat (length bs)" bs a] by (simp add: unsigned_of_nat take_bit_nat_eq_self)

end

sublocale dot_shadow \<subseteq> dot: byte_memory "\<lambda>s a n. dg_dot_shadowGet sm s a (of_nat n)" "\<lambda>s a bs. dg_dot_shadowSet sm s a bs (of_nat (length bs))"
    "layer_mem sm data" "layer_ok sm leaf_size data"
  by unfold_locales (use get_number set_number in blast)+

locale bar_shadow = flexible_shadow sm leaf_size
  for sm :: "('m, 'p, ShadowLeafBar) ShadowMap" and leaf_size
begin

lemma shadowGet_reads:
  "layers_ok sm leaf_size s \<Longrightarrow> dg_bar_shadowGet sm s a lo hi sz =
     Some (if lo then read_bytes (layer_mem sm data_Lo s) a (unat sz) else [], if hi then read_bytes (layer_mem sm data_Hi s) a (unat sz) else [])"
proof (induction "unat sz" arbitrary: sz a rule: less_induct)
  case less
  let ?n = "unat sz" and ?c = "unat (contiguousElements sm a)"
  have piece: "k \<le> ?c \<Longrightarrow> take k (drop (unat (index sm a)) (data_Lo (snd s (leaf_for_read sm (fst s) a)))) = read_bytes (layer_mem sm data_Lo s) a k"
    "k \<le> ?c \<Longrightarrow> take k (drop (unat (index sm a)) (data_Hi (snd s (leaf_for_read sm (fst s) a)))) = read_bytes (layer_mem sm data_Hi s) a k" for k
    using piece_read [of _ s k a] less.prems by (simp_all add: layers_ok_def)
  show ?case
  proof (cases "?n \<le> ?c")
    case True
    then show ?thesis by (subst dg_bar_shadowGet.simps) (simp add: piece sizes Let_def)
  next
    case False
    have "0 < ?c" using contiguous_pos [of a] by (simp add: word_less_nat_alt)
    have rest: "unat (ucast (scast sz - contiguousElements sm a) :: 32 word) = ?n - ?c" using False sizes(3) [of a sz] by simp
    have "dg_bar_shadowGet sm s (a + contiguousElements sm a) lo hi (ucast (scast sz - contiguousElements sm a)) =
        Some (if lo then read_bytes (layer_mem sm data_Lo s) (a + contiguousElements sm a) (?n - ?c) else [],
              if hi then read_bytes (layer_mem sm data_Hi s) (a + contiguousElements sm a) (?n - ?c) else [])"
      using less.hyps [of "ucast (scast sz - contiguousElements sm a)"] less.prems False \<open>0 < ?c\<close> unfolding rest by simp
    then show ?thesis
      using False read_bytes_append [of "layer_mem sm data_Lo s" a ?c "?n - ?c"] read_bytes_append [of "layer_mem sm data_Hi s" a ?c "?n - ?c"]
      by (subst dg_bar_shadowGet.simps) (simp add: piece sizes Let_def)
  qed
qed

lemma layer_piece:
  assumes "leaf_for_write sm m h a = (p, m', h')" "lay (upd (h' p)) = put_layer (unat (index sm a)) real (lay (h' p))"
    "layer_ok sm leaf_size lay (m, h)" "\<And>bs. real = Some bs \<Longrightarrow> length bs \<le> unat (contiguousElements sm a)"
  shows "layer_mem sm lay (m', h'(p := upd (h' p))) = layer_written sm (m, h) lay a real" "layer_ok sm leaf_size lay (m', h'(p := upd (h' p)))"
  using assms piece_keep [OF assms(1), of lay upd] piece_write [OF assms(1), of lay upd]
  by (cases real; simp add: put_layer_def layer_written_def)+

lemma layer_written_append:
  assumes "layer_mem sm lay s1 = layer_written sm s lay a (map_option (take k) real)" "\<And>bs. real = Some bs \<Longrightarrow> k < length bs \<and> length bs \<le> 2 ^ 64"
    "layer_mem sm lay s2 = layer_written sm s1 lay (a + of_nat k) (map_option (drop k) real)"
  shows "layer_mem sm lay s2 = layer_written sm s lay a real"
  using assms write_bytes_append [of "take k (the real)" "drop k (the real)" "layer_mem sm lay s" a]
  by (cases real) (auto simp: layer_written_def)

lemma shadowSet_writes:
  assumes "layers_ok sm leaf_size s" "\<And>bs. lo = Some bs \<Longrightarrow> length bs = unat sz" "\<And>bs. hi = Some bs \<Longrightarrow> length bs = unat sz"
  shows "\<exists>s'. dg_bar_shadowSet sm s a lo hi sz = Some s' \<and> layers_ok sm leaf_size s'
    \<and> layer_mem sm data_Lo s' = layer_written sm s data_Lo a lo \<and> layer_mem sm data_Hi s' = layer_written sm s data_Hi a hi"
  using assms
proof (induction "unat sz" arbitrary: s a lo hi sz rule: less_induct)
  case less
  let ?n = "unat sz" and ?c = "unat (contiguousElements sm a)" and ?i = "unat (index sm a)"
  define n where "n = min ?n ?c"
  have n_eq: "unat (min (scast sz) (contiguousElements sm a)) = n"
    using sizes(1,2) [of sz a] by (auto simp: n_def min_def)
  have bound: "?n < 2 ^ 32" using unsigned_less [of sz] by simp
  obtain p m h where w: "leaf_for_write sm (fst s) (snd s) a = (p, m, h)" by (cases "leaf_for_write sm (fst s) (snd s) a")
  define s1 where "s1 = (m, h(p := put_leaf ?i (map_option (take n) lo) (map_option (take n) hi) (h p)))"
  have ok: "layer_ok sm leaf_size data_Lo (fst s, snd s)" "layer_ok sm leaf_size data_Hi (fst s, snd s)" using less.prems(1) by (simp_all add: layers_ok_def)
  have s1: "layer_mem sm data_Lo s1 = layer_written sm s data_Lo a (map_option (take n) lo)" "layer_ok sm leaf_size data_Lo s1"
      "layer_mem sm data_Hi s1 = layer_written sm s data_Hi a (map_option (take n) hi)" "layer_ok sm leaf_size data_Hi s1"
  proof -
    define upd where "upd = put_leaf ?i (map_option (take n) lo) (map_option (take n) hi)"
    have upd: "data_Lo (upd (h p)) = put_layer ?i (map_option (take n) lo) (data_Lo (h p))"
      "data_Hi (upd (h p)) = put_layer ?i (map_option (take n) hi) (data_Hi (h p))" by (simp_all add: upd_def put_leaf_def)
    have len: "\<And>bs. map_option (take n) real = Some bs \<Longrightarrow> length bs \<le> ?c" for real :: "UChar list option"
      by (auto simp: n_def)
    have "s1 = (m, h(p := upd (h p)))" by (simp add: s1_def upd_def)
    then show "layer_mem sm data_Lo s1 = layer_written sm s data_Lo a (map_option (take n) lo)" "layer_ok sm leaf_size data_Lo s1"
      "layer_mem sm data_Hi s1 = layer_written sm s data_Hi a (map_option (take n) hi)" "layer_ok sm leaf_size data_Hi s1"
      using layer_piece [OF w, of data_Lo upd, OF upd(1) ok(1) len] layer_piece [OF w, of data_Hi upd, OF upd(2) ok(2) len] by simp_all
  qed
  let ?sz = "ucast (scast sz - contiguousElements sm a) :: 32 word"
  have unfold: "dg_bar_shadowSet sm s a lo hi sz = (if ?n \<le> ?c then Some s1
      else dg_bar_shadowSet sm s1 (a + contiguousElements sm a) (map_option (drop ?c) lo) (map_option (drop ?c) hi) ?sz)"
    by (subst dg_bar_shadowSet.simps) (simp only: w Let_def n_eq sizes(1) s1_def prod.case)
  show ?case
  proof (cases "?n \<le> ?c")
    case True
    then have "map_option (take n) lo = lo" "map_option (take n) hi = hi"
      using less.prems(2,3) by (cases lo; cases hi; simp add: n_def)+
    then show ?thesis using unfold True s1 by (simp add: layers_ok_def)
  next
    case False
    have "0 < ?c" using contiguous_pos [of a] by (simp add: word_less_nat_alt)
    have rest: "unat ?sz = ?n - ?c" using False sizes(3) [of a sz] by simp
    have n: "n = ?c" using False by (simp add: n_def)
    have "\<exists>s2. dg_bar_shadowSet sm s1 (a + contiguousElements sm a) (map_option (drop ?c) lo) (map_option (drop ?c) hi) ?sz = Some s2
      \<and> layers_ok sm leaf_size s2 \<and> layer_mem sm data_Lo s2 = layer_written sm s1 data_Lo (a + contiguousElements sm a) (map_option (drop ?c) lo)
      \<and> layer_mem sm data_Hi s2 = layer_written sm s1 data_Hi (a + contiguousElements sm a) (map_option (drop ?c) hi)"
      by (rule less.hyps) (use False \<open>0 < ?c\<close> less.prems s1 rest in \<open>auto simp: layers_ok_def\<close>)
    then obtain s2 where s2: "dg_bar_shadowSet sm s1 (a + contiguousElements sm a) (map_option (drop ?c) lo) (map_option (drop ?c) hi) ?sz = Some s2"
      "layers_ok sm leaf_size s2" "layer_mem sm data_Lo s2 = layer_written sm s1 data_Lo (a + contiguousElements sm a) (map_option (drop ?c) lo)"
      "layer_mem sm data_Hi s2 = layer_written sm s1 data_Hi (a + contiguousElements sm a) (map_option (drop ?c) hi)" by blast
    have "layer_mem sm data_Lo s2 = layer_written sm s data_Lo a lo"
      by (rule layer_written_append [of data_Lo s1 s a ?c]) (use s1(1) n s2(3) bound less.prems(2) False in auto)
    moreover have "layer_mem sm data_Hi s2 = layer_written sm s data_Hi a hi"
      by (rule layer_written_append [of data_Hi s1 s a ?c]) (use s1(3) n s2(4) bound less.prems(3) False in auto)
    ultimately show ?thesis using unfold False s2(1,2) by simp
  qed
qed

lemma unat_length: "length bs < 2 ^ 32 \<Longrightarrow> unat (of_nat (length bs) :: 32 word) = length bs"
  by (simp add: unsigned_of_nat take_bit_nat_eq_self)

lemma set_Lo:
  assumes "layers_ok sm leaf_size s" "length bs < 2 ^ 32"
  shows "\<exists>s'. dg_bar_shadowSet sm s a (Some bs) None (of_nat (length bs)) = Some s' \<and> layers_ok sm leaf_size s'
    \<and> layer_mem sm data_Lo s' = write_bytes (layer_mem sm data_Lo s) a bs \<and> layer_mem sm data_Hi s' = layer_mem sm data_Hi s"
proof -
  have "\<exists>s'. dg_bar_shadowSet sm s a (Some bs) None (of_nat (length bs)) = Some s' \<and> layers_ok sm leaf_size s'
    \<and> layer_mem sm data_Lo s' = layer_written sm s data_Lo a (Some bs) \<and> layer_mem sm data_Hi s' = layer_written sm s data_Hi a None"
    by (rule shadowSet_writes [OF assms(1)]) (use unat_length [OF assms(2)] in auto)
  then show ?thesis unfolding layer_written_def option.case .
qed

lemma set_Hi:
  assumes "layers_ok sm leaf_size s" "length bs < 2 ^ 32"
  shows "\<exists>s'. dg_bar_shadowSet sm s a None (Some bs) (of_nat (length bs)) = Some s' \<and> layers_ok sm leaf_size s'
    \<and> layer_mem sm data_Lo s' = layer_mem sm data_Lo s \<and> layer_mem sm data_Hi s' = write_bytes (layer_mem sm data_Hi s) a bs"
proof -
  have "\<exists>s'. dg_bar_shadowSet sm s a None (Some bs) (of_nat (length bs)) = Some s' \<and> layers_ok sm leaf_size s'
    \<and> layer_mem sm data_Lo s' = layer_written sm s data_Lo a None \<and> layer_mem sm data_Hi s' = layer_written sm s data_Hi a (Some bs)"
    by (rule shadowSet_writes [OF assms(1)]) (use unat_length [OF assms(2)] in auto)
  then show ?thesis unfolding layer_written_def option.case .
qed

end

sublocale bar_shadow \<subseteq> lo: byte_memory "\<lambda>s a n. map_option fst (dg_bar_shadowGet sm s a True False (of_nat n))"
    "\<lambda>s a bs. dg_bar_shadowSet sm s a (Some bs) None (of_nat (length bs))" "layer_mem sm data_Lo" "layers_ok sm leaf_size"
  by unfold_locales (simp add: shadowGet_reads unsigned_of_nat take_bit_nat_eq_self, use set_Lo in blast)

sublocale bar_shadow \<subseteq> hi: byte_memory "\<lambda>s a n. map_option snd (dg_bar_shadowGet sm s a False True (of_nat n))"
    "\<lambda>s a bs. dg_bar_shadowSet sm s a None (Some bs) (of_nat (length bs))" "layer_mem sm data_Hi" "layers_ok sm leaf_size"
  by unfold_locales (simp add: shadowGet_reads unsigned_of_nat take_bit_nat_eq_self, use set_Hi in blast)

end
