(* ===== verification/Shadow_Helpers.thy ===== *)
theory Shadow_Helpers
  imports Shadow_Mem Bar_Tape
begin

text \<open>
  The functions that instrumented code calls to access shadow memory: the dirty helpers of
  \<^verbatim>\<open>derivgrind/dot/dg_dot.c\<close> and \<^verbatim>\<open>derivgrind/bar/dg_bar.c\<close>. Data is exchanged through a buffer
  (\<^verbatim>\<open>dg_dot_shadow_mem_buffer\<close>, \<^verbatim>\<open>dg_bar_shadow_mem_buffer\<close>) or, for the 80-bit numbers of the x87, through
  a 64-bit argument or result. A map with leaves of \<open>2 ^ 18\<close> bytes, the leaf size of the 64-bit build, shows
  that the requirements on the shadow map can be met.
\<close>

section \<open>A concrete shadow map\<close>

definition leaf_bytes :: Addr where
  "leaf_bytes = 2 ^ 18"

definition paged :: "(Addr set, Addr option, 'leaf) ShadowMap" where
  "paged = \<lparr>leaf_for_read = (\<lambda>m a. if a div leaf_bytes \<in> m then Some (a div leaf_bytes) else None),
     leaf_for_write = (\<lambda>m h a. (Some (a div leaf_bytes), insert (a div leaf_bytes) m,
        if a div leaf_bytes \<in> m then h else h(Some (a div leaf_bytes) := h None))),
     contiguousElements = (\<lambda>a. leaf_bytes - a mod leaf_bytes),
     index = (\<lambda>a. a mod leaf_bytes)\<rparr>"

lemma leaf_bytes_facts: "0 < unat leaf_bytes" "unat leaf_bytes dvd 2 ^ 64"
  by (simp_all add: leaf_bytes_def)

lemma unat_contiguous_paged: "unat (leaf_bytes - a mod leaf_bytes) = unat leaf_bytes - unat a mod unat leaf_bytes"
proof -
  have "a mod leaf_bytes \<le> leaf_bytes"
    unfolding word_le_nat_alt unat_mod_distrib using leaf_bytes_facts(1) by simp
  then show ?thesis by (simp add: unat_sub unat_mod_distrib)
qed

lemma paged_offset:
  fixes a :: Addr
  assumes "i < unat leaf_bytes - unat a mod unat leaf_bytes"
  shows "unat (a + of_nat i) = unat a + i"
proof -
  obtain k where k: "2 ^ 64 = unat leaf_bytes * k" using leaf_bytes_facts(2) by blast
  let ?q = "unat a div unat leaf_bytes" and ?r = "unat a mod unat leaf_bytes"
  have a: "unat a = unat leaf_bytes * ?q + ?r" by simp
  have "unat leaf_bytes * ?q < unat leaf_bytes * k" using unat_addr [of a] k by (metis a le_add1 order_le_less_trans)
  then have "?q + 1 \<le> k" by simp
  then have "unat leaf_bytes * (?q + 1) \<le> 2 ^ 64" unfolding k by (rule mult_le_mono2)
  then have "unat a + i < 2 ^ 64" unfolding distrib_left mult_1_right using a assms by linarith
  moreover from this have "unat (of_nat i :: Addr) = i" by (simp add: unsigned_of_nat take_bit_nat_eq_self)
  ultimately show ?thesis by (simp add: unat_word_ariths)
qed

lemma paged_same_leaf:
  fixes a :: Addr
  assumes "i < unat leaf_bytes - unat a mod unat leaf_bytes"
  shows "(a + of_nat i) div leaf_bytes = a div leaf_bytes" "unat ((a + of_nat i) mod leaf_bytes) = unat a mod unat leaf_bytes + i"
proof -
  let ?q = "unat a div unat leaf_bytes" and ?r = "unat a mod unat leaf_bytes"
  have "unat a + i = unat leaf_bytes * ?q + (?r + i)" by simp
  moreover have "?r + i < unat leaf_bytes" using assms by simp
  ultimately have "(unat a + i) div unat leaf_bytes = ?q" "(unat a + i) mod unat leaf_bytes = ?r + i"
    by (metis div_nat_eqI mod_mult_self4 mod_less div_mult_self4 add.right_neutral div_less leaf_bytes_facts(1) less_not_refl)+
  then show "(a + of_nat i) div leaf_bytes = a div leaf_bytes" "unat ((a + of_nat i) mod leaf_bytes) = unat a mod unat leaf_bytes + i"
    using paged_offset [OF assms] by (simp_all add: word_unat_eq_iff unat_div_distrib unat_mod_distrib)
qed

lemma paged_flexible: "flexible_shadow paged (unat leaf_bytes)"
proof
  fix a b c p m m' h h' and i :: nat
  show "unat leaf_bytes < 2 ^ 31" by (simp add: leaf_bytes_def)
  show "0 < contiguousElements paged a"
    using leaf_bytes_facts(1) by (simp add: paged_def word_less_nat_alt unat_contiguous_paged)
  show "i < unat (contiguousElements paged a) \<Longrightarrow>
      leaf_for_read paged m (a + of_nat i) = leaf_for_read paged m a \<and> unat (index paged (a + of_nat i)) = unat (index paged a) + i"
    using paged_same_leaf [of i a] by (simp add: paged_def unat_contiguous_paged unat_mod_distrib)
  show "unat (index paged a) + unat (contiguousElements paged a) \<le> unat leaf_bytes"
    using leaf_bytes_facts(1) by (simp add: paged_def unat_mod_distrib unat_contiguous_paged less_imp_le)
  assume w: "leaf_for_write paged m h a = (p, m', h')"
  then show "leaf_for_read paged m' a = p" by (auto simp: paged_def)
  show "h' (leaf_for_read paged m' b) = h (leaf_for_read paged m b)"
    using w by (auto simp: paged_def split: if_splits)
  assume bc: "leaf_for_read paged m' b = p" "leaf_for_read paged m' c = p" "index paged b = index paged c"
  have "p = Some (a div leaf_bytes)" using w by (simp add: paged_def)
  then have same: "x div leaf_bytes = a div leaf_bytes" if "leaf_for_read paged m' x = p" for x
    using that by (simp add: paged_def split: if_splits)
  have "b = b div leaf_bytes * leaf_bytes + b mod leaf_bytes" by (rule word_mod_div_equality [symmetric])
  also have "\<dots> = c div leaf_bytes * leaf_bytes + c mod leaf_bytes"
    using bc(3) unfolding same [OF bc(1)] same [OF bc(2)] by (simp add: paged_def)
  finally show "b = c" unfolding word_mod_div_equality .
qed

interpretation paged_dot: dot_shadow paged "unat leaf_bytes"
  by (rule dot_shadow.intro, rule paged_flexible)

interpretation paged_bar: bar_shadow paged "unat leaf_bytes"
  by (rule bar_shadow.intro, rule paged_flexible)

text \<open>The shadow after initialisation: no leaf but the distinguished one, which is zero.\<close>

definition paged_dot_init :: "(Addr set, Addr option, ShadowLeafDot) shadow" where
  "paged_dot_init = ({}, \<lambda>_. \<lparr>data = replicate (unat leaf_bytes) 0\<rparr>)"

definition paged_bar_init :: "(Addr set, Addr option, ShadowLeafBar) shadow" where
  "paged_bar_init = ({}, \<lambda>_. \<lparr>data_Lo = replicate (unat leaf_bytes) 0, data_Hi = replicate (unat leaf_bytes) 0\<rparr>)"

lemma paged_init_ok: "layer_ok paged (unat leaf_bytes) data paged_dot_init" "layers_ok paged (unat leaf_bytes) paged_bar_init"
  by (simp_all add: layer_ok_def layers_ok_def paged_dot_init_def paged_bar_init_def)

section \<open>Dirty helpers\<close>

text \<open>The bytes of a \<^verbatim>\<open>ULong\<close> in memory, in little-endian order.\<close>

definition word_bytes :: "ULong \<Rightarrow> UChar list" where
  "word_bytes x = map (\<lambda>i. ucast (drop_bit (8 * i) x)) [0..<8]"

definition bytes_word :: "UChar list \<Rightarrow> ULong" where
  "bytes_word bs = foldr (\<lambda>b w. push_bit 8 w OR ucast b) bs 0"

text \<open>
  The size is a \<^verbatim>\<open>ULong\<close> that is truncated to the \<^verbatim>\<open>int\<close> of the accesses. In forward mode, \<open>None\<close> as a result of loading
  also stands for a failed assertion of the conversion.
\<close>

definition dg_dot_x86g_amd64g_dirtyhelper_store ::
    "('m, 'p, ShadowLeafDot) ShadowMap \<Rightarrow> UChar list \<Rightarrow> Addr \<Rightarrow> ULong \<Rightarrow> ('m, 'p, ShadowLeafDot) shadow \<Rightarrow> ('m, 'p, ShadowLeafDot) shadow option" where
  "dg_dot_x86g_amd64g_dirtyhelper_store sm buffer addr sz s = dg_dot_shadowSet sm s addr buffer (ucast sz)"

definition dg_dot_x86g_amd64g_dirtyhelper_load ::
    "('m, 'p, ShadowLeafDot) ShadowMap \<Rightarrow> UChar list \<Rightarrow> Addr \<Rightarrow> ULong \<Rightarrow> ('m, 'p, ShadowLeafDot) shadow \<Rightarrow> UChar list option" where
  "dg_dot_x86g_amd64g_dirtyhelper_load sm buffer addr sz s = map_option (\<lambda>bs. put_words 0 bs buffer) (dg_dot_shadowGet sm s addr (ucast sz))"

definition dg_dot_x86g_amd64g_dirtyhelper_storeF80le ::
    "('m, 'p, ShadowLeafDot) ShadowMap \<Rightarrow> Addr \<Rightarrow> ULong \<Rightarrow> ('m, 'p, ShadowLeafDot) shadow \<Rightarrow> ('m, 'p, ShadowLeafDot) shadow option" where
  "dg_dot_x86g_amd64g_dirtyhelper_storeF80le sm addrU f64 s =
     dg_dot_shadowSet sm s addrU (convert_f64le_to_f80le (word_bytes f64)) 10"

definition dg_dot_x86g_amd64g_dirtyhelper_loadF80le ::
    "('m, 'p, ShadowLeafDot) ShadowMap \<Rightarrow> Addr \<Rightarrow> ('m, 'p, ShadowLeafDot) shadow \<Rightarrow> ULong option" where
  "dg_dot_x86g_amd64g_dirtyhelper_loadF80le sm addrU s =
     Option.bind (dg_dot_shadowGet sm s addrU 10) (\<lambda>f80. map_option bytes_word (convert_f80le_to_f64le f80))"

text \<open>Recording mode; \<open>stack\<close> is the content of the local variable before its lower four bytes are overwritten.\<close>

definition dg_bar_x86g_amd64g_dirtyhelper_store ::
    "('m, 'p, ShadowLeafBar) ShadowMap \<Rightarrow> UChar list \<times> UChar list \<Rightarrow> Addr \<Rightarrow> ULong \<Rightarrow> ('m, 'p, ShadowLeafBar) shadow \<Rightarrow> ('m, 'p, ShadowLeafBar) shadow option" where
  "dg_bar_x86g_amd64g_dirtyhelper_store sm buffer addr sz s =
     (let size = ucast sz :: C_int
      in dg_bar_shadowSet sm s addr (Some (take (unat size) (fst buffer))) (Some (take (unat size) (snd buffer))) size)"

definition dg_bar_x86g_amd64g_dirtyhelper_load ::
    "('m, 'p, ShadowLeafBar) ShadowMap \<Rightarrow> UChar list \<times> UChar list \<Rightarrow> Addr \<Rightarrow> ULong \<Rightarrow> ('m, 'p, ShadowLeafBar) shadow \<Rightarrow> (UChar list \<times> UChar list) option" where
  "dg_bar_x86g_amd64g_dirtyhelper_load sm buffer addr sz s =
     map_option (\<lambda>(lo, hi). (put_words 0 lo (fst buffer), put_words 0 hi (snd buffer))) (dg_bar_shadowGet sm s addr True True (ucast sz))"

definition dg_bar_x86g_amd64g_dirtyhelper_storeF80le_Lo ::
    "('m, 'p, ShadowLeafBar) ShadowMap \<Rightarrow> Addr \<Rightarrow> ULong \<Rightarrow> ('m, 'p, ShadowLeafBar) shadow \<Rightarrow> ('m, 'p, ShadowLeafBar) shadow option" where
  "dg_bar_x86g_amd64g_dirtyhelper_storeF80le_Lo sm addrU i64 s = dg_bar_shadowSet sm s addrU (Some (take 4 (word_bytes i64))) None 4"

definition dg_bar_x86g_amd64g_dirtyhelper_storeF80le_Hi ::
    "('m, 'p, ShadowLeafBar) ShadowMap \<Rightarrow> Addr \<Rightarrow> ULong \<Rightarrow> ('m, 'p, ShadowLeafBar) shadow \<Rightarrow> ('m, 'p, ShadowLeafBar) shadow option" where
  "dg_bar_x86g_amd64g_dirtyhelper_storeF80le_Hi sm addrU i64 s = dg_bar_shadowSet sm s addrU None (Some (take 4 (word_bytes i64))) 4"

definition dg_bar_x86g_amd64g_dirtyhelper_loadF80le_Lo ::
    "('m, 'p, ShadowLeafBar) ShadowMap \<Rightarrow> ULong \<Rightarrow> Addr \<Rightarrow> ('m, 'p, ShadowLeafBar) shadow \<Rightarrow> ULong option" where
  "dg_bar_x86g_amd64g_dirtyhelper_loadF80le_Lo sm stack addrU s =
     map_option (\<lambda>(lo, hi). bytes_word (put_words 0 lo (word_bytes stack))) (dg_bar_shadowGet sm s addrU True True 4)"

definition dg_bar_x86g_amd64g_dirtyhelper_loadF80le_Hi ::
    "('m, 'p, ShadowLeafBar) ShadowMap \<Rightarrow> ULong \<Rightarrow> Addr \<Rightarrow> ('m, 'p, ShadowLeafBar) shadow \<Rightarrow> ULong option" where
  "dg_bar_x86g_amd64g_dirtyhelper_loadF80le_Hi sm stack addrU s =
     map_option (\<lambda>(lo, hi). bytes_word (put_words 0 hi (word_bytes stack))) (dg_bar_shadowGet sm s addrU True True 4)"

section \<open>Bytes of words\<close>

lemma length_word_bytes [simp]: "length (word_bytes x) = 8"
  by (simp add: word_bytes_def)

lemma bit_byte: "m < 8 \<Longrightarrow> bit (ucast (drop_bit k (x :: ULong)) :: UChar) m = bit x (k + m)"
  by (simp add: bit_simps)

lemma word_bytes_nth: "i < 8 \<Longrightarrow> word_bytes x ! i = ucast (drop_bit (8 * i) x)"
  unfolding word_bytes_def by (simp only: nth_map length_upt diff_zero nth_upt add_0)

lemma bit_at_word_bytes: "n < 64 \<Longrightarrow> bit_at (word_bytes x) n = bit x n"
proof -
  assume n: "n < 64"
  then have "n div 8 < 8" by presburger
  then have "word_bytes x ! (n div 8) = ucast (drop_bit (8 * (n div 8)) x)" by (rule word_bytes_nth)
  then have "bit_at (word_bytes x) n \<longleftrightarrow> bit x (8 * (n div 8) + n mod 8)"
    unfolding bit_at_def by (simp only: bit_byte mod_less_divisor zero_less_numeral)
  then show ?thesis unfolding mult_div_mod_eq .
qed

lemma bit_bytes_word: "bit (bytes_word bs) n \<longleftrightarrow> n < 64 \<and> n < 8 * length bs \<and> bit_at bs n"
proof (induction bs arbitrary: n)
  case (Cons b bs)
  have w: "bytes_word (b # bs) = push_bit 8 (bytes_word bs) OR ucast b" by (simp add: bytes_word_def)
  show ?case
  proof (cases "n < 8")
    case True
    then show ?thesis using Cons by (auto simp: w bit_simps bit_at_def)
  next
    case False
    have b8: "\<not> bit b n" using False bit_imp_le_length [of b n] by auto
    obtain m where n: "n = m + 8" using False by (metis le_add_diff_inverse2 not_less)
    have "bit (bytes_word (b # bs)) n \<longleftrightarrow> n < 64 \<and> bit (bytes_word bs) m"
      using b8 by (simp add: w n bit_or_iff bit_push_bit_iff bit_unsigned_iff)
    moreover have "n div 8 = Suc (m div 8)" by (simp add: n)
    then have "bit_at (b # bs) n = bit_at bs m" by (simp add: bit_at_def n)
    ultimately show ?thesis using Cons.IH [of m] by (auto simp: n)
  qed
qed (simp add: bytes_word_def)

lemma bytes_word_word_bytes [simp]: "bytes_word (word_bytes x) = x"
proof (rule bit_word_eqI)
  fix n
  assume "n < LENGTH(64)"
  then show "bit (bytes_word (word_bytes x)) n = bit x n" by (simp add: bit_bytes_word bit_at_word_bytes)
qed

lemma lo32_bytes:
  "lo32 (bytes_word (put_words 0 (take 4 (word_bytes x)) (word_bytes stack))) = lo32 x"
proof (rule bit_word_eqI)
  fix n
  assume "n < LENGTH(32)"
  then have n: "n < 32" by simp
  then have "n div 8 < 4" by presburger
  then have "bit_at (put_words 0 (take 4 (word_bytes x)) (word_bytes stack)) n = bit_at (word_bytes x) n"
    by (simp add: bit_at_def put_words_nth)
  then show "bit (lo32 (bytes_word (put_words 0 (take 4 (word_bytes x)) (word_bytes stack)))) n = bit (lo32 x) n"
    using n by (simp add: bit_lo32 bit_bytes_word put_words_length bit_at_word_bytes)
qed

section \<open>Properties\<close>

text \<open>
  C16. Forward-mode shadow memory behaves as a plain array of bytes, for accesses of every size that an \<^verbatim>\<open>int\<close> holds
  (a negative one counts modulo \<open>2 ^ 32\<close>), also across leaves and around the end of the address space: a store
  succeeds, what has been stored is read back, and every read of bytes outside the stored range gives what it gave before.
\<close>

theorem dot_shadow_get_set:
  assumes "dot_shadow sm leaf_size" "layer_ok sm leaf_size data s" "length bs = unat sz"
  shows "\<exists>s'. dg_dot_shadowSet sm s a bs sz = Some s' \<and> layer_ok sm leaf_size data s'
    \<and> dg_dot_shadowGet sm s' a sz = Some bs
    \<and> (\<forall>b n. (\<forall>i<unat n. length bs \<le> unat (b + of_nat i - a)) \<longrightarrow> dg_dot_shadowGet sm s' b n = dg_dot_shadowGet sm s b n)"
proof -
  have "length bs < 2 ^ 32" using assms(3) unsigned_less [of sz] by simp
  then have len: "length bs \<le> 2 ^ 64" by simp
  obtain s' where s': "dg_dot_shadowSet sm s a bs sz = Some s'" "layer_ok sm leaf_size data s'"
    "layer_mem sm data s' = write_bytes (layer_mem sm data s) a bs"
    using dot_shadow.shadowSet_writes [OF assms(1,2), of sz bs a] assms(3) by auto
  note get = dot_shadow.shadowGet_reads [OF assms(1)]
  have "dg_dot_shadowGet sm s' a sz = Some bs"
    using get [OF s'(2), of a sz] read_write_bytes [OF len] by (simp only: s'(3) assms(3) [symmetric])
  moreover have "dg_dot_shadowGet sm s' b n = dg_dot_shadowGet sm s b n" if "\<forall>i<unat n. length bs \<le> unat (b + of_nat i - a)" for b n
    using get [OF s'(2), of b n] get [OF assms(2), of b n] read_bytes_elsewhere [of "unat n" bs b a] that by (simp add: s'(3))
  ultimately show ?thesis using s'(1,2) by blast
qed

theorem dot_shadow_get_set_witness:
  "\<exists>s'. dg_dot_shadowSet paged paged_dot_init 0x3FFFE [1, 2, 3, 4] 4 = Some s' \<and> dg_dot_shadowGet paged s' 0x3FFFE 4 = Some [1, 2, 3, 4]"
proof -
  have "length [1, 2, 3, 4 :: UChar] = unat (4 :: C_int)" by simp
  from dot_shadow_get_set [OF paged_dot.dot_shadow_axioms paged_init_ok(1) this, of "0x3FFFE"] show ?thesis by blast
qed

text \<open>
  C17. Recording-mode shadow memory behaves as two independent arrays of bytes, for accesses of every size that an
  \<^verbatim>\<open>int\<close> holds: a store into one layer, into both or into none succeeds and is read back; in both layers, every read of
  bytes outside the stored range gives what it gave before; and a layer whose pointer is null reads the same everywhere.
\<close>

theorem bar_shadow_get_set:
  assumes "bar_shadow sm leaf_size" "layers_ok sm leaf_size s" "\<forall>bs. lo = Some bs \<longrightarrow> length bs = unat sz" "\<forall>bs. hi = Some bs \<longrightarrow> length bs = unat sz"
  shows "\<exists>s'. dg_bar_shadowSet sm s a lo hi sz = Some s' \<and> layers_ok sm leaf_size s'
    \<and> dg_bar_shadowGet sm s' a (lo \<noteq> None) (hi \<noteq> None) sz = Some (case lo of None \<Rightarrow> [] | Some bs \<Rightarrow> bs, case hi of None \<Rightarrow> [] | Some bs \<Rightarrow> bs)
    \<and> (\<forall>b n real_Lo real_Hi. (\<forall>i<unat n. unat sz \<le> unat (b + of_nat i - a)) \<longrightarrow>
         dg_bar_shadowGet sm s' b real_Lo real_Hi n = dg_bar_shadowGet sm s b real_Lo real_Hi n)
    \<and> (lo = None \<longrightarrow> (\<forall>b n. dg_bar_shadowGet sm s' b True False n = dg_bar_shadowGet sm s b True False n))
    \<and> (hi = None \<longrightarrow> (\<forall>b n. dg_bar_shadowGet sm s' b False True n = dg_bar_shadowGet sm s b False True n))"
proof -
  have "unat sz < 2 ^ 32" using unsigned_less [of sz] by simp
  then have len: "unat sz \<le> 2 ^ 64" by simp
  obtain s' where s': "dg_bar_shadowSet sm s a lo hi sz = Some s'" "layers_ok sm leaf_size s'"
    "layer_mem sm data_Lo s' = layer_written sm s data_Lo a lo" "layer_mem sm data_Hi s' = layer_written sm s data_Hi a hi"
    using bar_shadow.shadowSet_writes [OF assms(1,2), of lo sz hi a] assms(3,4) by auto
  note get = bar_shadow.shadowGet_reads [OF assms(1)]
  have same: "read_bytes (layer_written sm s lay a (Some bs)) a (unat sz) = bs" if "length bs = unat sz" for lay bs
    using read_write_bytes [of bs] that len by (simp add: layer_written_def)
  have frame: "read_bytes (layer_written sm s lay a real) b n = read_bytes (layer_mem sm lay s) b n"
    if "\<forall>bs. real = Some bs \<longrightarrow> length bs = unat sz" "\<forall>i<n. unat sz \<le> unat (b + of_nat i - a)" for lay real b n
    using that read_bytes_elsewhere [of n _ b a] by (cases real) (simp_all add: layer_written_def)
  have null: "layer_written sm s lay a None = layer_mem sm lay s" for lay by (simp add: layer_written_def)
  have "dg_bar_shadowGet sm s' a (lo \<noteq> None) (hi \<noteq> None) sz = Some (case lo of None \<Rightarrow> [] | Some bs \<Rightarrow> bs, case hi of None \<Rightarrow> [] | Some bs \<Rightarrow> bs)"
    using get [OF s'(2), of a "lo \<noteq> None" "hi \<noteq> None" sz] assms(3,4) by (cases lo; cases hi) (simp_all add: s'(3,4) same)
  moreover have "dg_bar_shadowGet sm s' b x y n = dg_bar_shadowGet sm s b x y n" if "\<forall>i<unat n. unat sz \<le> unat (b + of_nat i - a)" for b n x y
    using get [OF s'(2), of b x y n] get [OF assms(2), of b x y n] frame [OF assms(3) that] frame [OF assms(4) that] by (simp add: s'(3,4))
  moreover have "lo = None \<Longrightarrow> dg_bar_shadowGet sm s' b True False n = dg_bar_shadowGet sm s b True False n" for b n
    using get [OF s'(2), of b True False n] get [OF assms(2), of b True False n] by (simp add: s'(3) null)
  moreover have "hi = None \<Longrightarrow> dg_bar_shadowGet sm s' b False True n = dg_bar_shadowGet sm s b False True n" for b n
    using get [OF s'(2), of b False True n] get [OF assms(2), of b False True n] by (simp add: s'(4) null)
  ultimately show ?thesis using s'(1,2) by blast
qed

theorem bar_shadow_get_set_witness:
  "\<exists>s'. dg_bar_shadowSet paged paged_bar_init 0x3FFFE (Some [1, 2, 3, 4]) None 4 = Some s'
     \<and> dg_bar_shadowGet paged s' 0x3FFFE True False 4 = Some ([1, 2, 3, 4], [])
     \<and> dg_bar_shadowGet paged s' 0x40000 False True 2 = dg_bar_shadowGet paged paged_bar_init 0x40000 False True 2"
proof -
  let ?lo = "Some [1, 2, 3, 4 :: UChar]"
  have "\<forall>bs. ?lo = Some bs \<longrightarrow> length bs = unat (4 :: C_int)" "\<forall>bs. None = Some bs \<longrightarrow> length (bs :: UChar list) = unat (4 :: C_int)" by simp_all
  from bar_shadow_get_set [OF paged_bar.bar_shadow_axioms paged_init_ok(2) this, of "0x3FFFE"] show ?thesis by auto
qed

text \<open>What the conversions make of a binary64 number: a NaN keeps its sign and whether it is quiet, with a canonical payload.\<close>

definition through_f80 :: "ULong \<Rightarrow> ULong" where
  "through_f80 f64 =
     (if f64_bexp (word_bytes f64) = 0x7FF \<and> \<not> f64_mantissaIsZero (word_bytes f64) then
        (f64 AND 0x8000000000000000) OR (if bit f64 51 then 0x7FF8000000000000 else 0x7FF7FFFFFFFFFFFF)
      else f64)"

lemma bytes_word_special:
  "bytes_word [0, 0, 0, 0, 0, 0, 0xF8, push_bit 7 (of_bool s) OR 0x7F] = (if s then 0xFFF8000000000000 else 0x7FF8000000000000)"
  "bytes_word [0xFF, 0xFF, 0xFF, 0xFF, 0xFF, 0xFF, 0xF7, push_bit 7 (of_bool s) OR 0x7F] = (if s then 0xFFF7FFFFFFFFFFFF else 0x7FF7FFFFFFFFFFFF)"
  by (cases s; simp add: bytes_word_def)+

lemma sign_mask: "x AND 0x8000000000000000 = (if bit x 63 then 0x8000000000000000 else (0 :: ULong))"
proof (rule bit_word_eqI)
  fix n
  assume "n < LENGTH(64)"
  have "(0x8000000000000000 :: ULong) = push_bit 63 1" by simp
  then have "bit (0x8000000000000000 :: ULong) n \<longleftrightarrow> n = 63" by (simp only: bit_push_bit_iff bit_1_iff) auto
  then show "bit (x AND 0x8000000000000000) n = bit (if bit x 63 then 0x8000000000000000 else (0 :: ULong)) n"
    by (auto simp: bit_and_iff)
qed

lemma f80_back_word: "map_option bytes_word (convert_f80le_to_f64le (convert_f64le_to_f80le (word_bytes f64))) = Some (through_f80 f64)"
  by (simp add: f64_f80_back through_f80_def f64_sign_bit bytes_word_special sign_mask bit_at_word_bytes)

text \<open>
  C23. Dot values of 80-bit numbers: storing the dot value of a binary64 number with the helper for x87 stores
  and loading it with the helper for x87 loads yields the same bits, unless it is a NaN; the result for a NaN is a NaN with the same
  sign that is quiet if and only if the stored one is, the payload of which is the canonical one.
\<close>

theorem dot_F80_shadow_roundtrip:
  assumes "dot_shadow sm leaf_size" "layer_ok sm leaf_size data s"
  shows "\<exists>s'. dg_dot_x86g_amd64g_dirtyhelper_storeF80le sm addr f64 s = Some s'
    \<and> dg_dot_x86g_amd64g_dirtyhelper_loadF80le sm addr s' = Some
        (if f64_bexp (word_bytes f64) = 0x7FF \<and> \<not> f64_mantissaIsZero (word_bytes f64) then
           (f64 AND 0x8000000000000000) OR (if bit f64 51 then 0x7FF8000000000000 else 0x7FF7FFFFFFFFFFFF)
         else f64)"
proof -
  let ?f80 = "convert_f64le_to_f80le (word_bytes f64)"
  have len: "length ?f80 = 10" by (rule f80_length) simp
  obtain s' where s': "dg_dot_shadowSet sm s addr ?f80 10 = Some s'" "layer_ok sm leaf_size data s'"
    "layer_mem sm data s' = write_bytes (layer_mem sm data s) addr ?f80"
    using dot_shadow.shadowSet_writes [OF assms, of 10 ?f80 addr] len by auto
  have "dg_dot_shadowGet sm s' addr 10 = Some ?f80"
    using dot_shadow.shadowGet_reads [OF assms(1) s'(2), of addr 10] read_write_bytes [of ?f80] len by (simp add: s'(3))
  then show ?thesis unfolding through_f80_def [symmetric]
    using s'(1) f80_back_word [of f64]
    by (auto simp: dg_dot_x86g_amd64g_dirtyhelper_storeF80le_def dg_dot_x86g_amd64g_dirtyhelper_loadF80le_def)
qed

theorem dot_F80_shadow_roundtrip_witness:
  "\<exists>s'. dg_dot_x86g_amd64g_dirtyhelper_storeF80le paged 0x3FFFC 0xFFF0000000000001 paged_dot_init = Some s'
     \<and> dg_dot_x86g_amd64g_dirtyhelper_loadF80le paged 0x3FFFC s' = Some 0xFFF7FFFFFFFFFFFF"
proof -
  have "f64_bexp (word_bytes 0xFFF0000000000001) = 0x7FF" "\<not> f64_mantissaIsZero (word_bytes 0xFFF0000000000001)"
    by (simp_all add: f64_bexp_def f64_mantissaIsZero_def word_bytes_nth)
  then show ?thesis
    using dot_F80_shadow_roundtrip [OF paged_dot.dot_shadow_axioms paged_init_ok(1), of "0x3FFFC" "0xFFF0000000000001"] by simp
qed

text \<open>
  C24. Indices of 80-bit numbers: after the two layers of an index have been stored with the helpers for x87
  stores, the helpers for x87 loads return words from which recording assembles the same index, whatever the
  upper halves of their local variables contain.
\<close>

theorem bar_F80_index_roundtrip:
  assumes "bar_shadow sm leaf_size" "layers_ok sm leaf_size s"
  shows "\<exists>s1 s2 lo hi. dg_bar_x86g_amd64g_dirtyhelper_storeF80le_Lo sm addr indexLo s = Some s1
    \<and> dg_bar_x86g_amd64g_dirtyhelper_storeF80le_Hi sm addr indexHi s1 = Some s2
    \<and> dg_bar_x86g_amd64g_dirtyhelper_loadF80le_Lo sm stack1 addr s2 = Some lo
    \<and> dg_bar_x86g_amd64g_dirtyhelper_loadF80le_Hi sm stack2 addr s2 = Some hi
    \<and> dg_bar_writeToTape_call cfg tid lo hi i2Lo i2Hi d1 d2 t = dg_bar_writeToTape_call cfg tid indexLo indexHi i2Lo i2Hi d1 d2 t"
proof -
  let ?lo = "take 4 (word_bytes indexLo)" and ?hi = "take 4 (word_bytes indexHi)"
  have len: "length ?lo = 4" "length ?hi = 4" by simp_all
  obtain s1 where s1: "dg_bar_shadowSet sm s addr (Some ?lo) None 4 = Some s1" "layers_ok sm leaf_size s1"
    "layer_mem sm data_Lo s1 = write_bytes (layer_mem sm data_Lo s) addr ?lo"
    using bar_shadow.set_Lo [OF assms, of ?lo addr] len by auto
  obtain s2 where s2: "dg_bar_shadowSet sm s1 addr None (Some ?hi) 4 = Some s2" "layers_ok sm leaf_size s2"
    "layer_mem sm data_Lo s2 = layer_mem sm data_Lo s1" "layer_mem sm data_Hi s2 = write_bytes (layer_mem sm data_Hi s1) addr ?hi"
    using bar_shadow.set_Hi [OF assms(1) s1(2), of ?hi addr] len by auto
  have "dg_bar_shadowGet sm s2 addr True True 4 = Some (?lo, ?hi)"
    using bar_shadow.shadowGet_reads [OF assms(1) s2(2), of addr True True 4] read_write_bytes [of ?lo] read_write_bytes [of ?hi] len
    by (simp add: s1(3) s2(3,4))
  with s1(1) s2(1) show ?thesis
    by (intro exI [of _ s1] exI [of _ s2] exI [of _ "bytes_word (put_words 0 ?lo (word_bytes stack1))"]
        exI [of _ "bytes_word (put_words 0 ?hi (word_bytes stack2))"])
      (simp add: lo32_bytes dg_bar_x86g_amd64g_dirtyhelper_storeF80le_Lo_def dg_bar_x86g_amd64g_dirtyhelper_storeF80le_Hi_def
        dg_bar_x86g_amd64g_dirtyhelper_loadF80le_Lo_def dg_bar_x86g_amd64g_dirtyhelper_loadF80le_Hi_def dg_bar_writeToTape_call_def)
qed

theorem bar_F80_index_roundtrip_witness:
  "\<exists>s1 s2 lo hi. dg_bar_x86g_amd64g_dirtyhelper_storeF80le_Lo paged 0x3FFFE 7 paged_bar_init = Some s1
    \<and> dg_bar_x86g_amd64g_dirtyhelper_storeF80le_Hi paged 0x3FFFE 0 s1 = Some s2
    \<and> dg_bar_x86g_amd64g_dirtyhelper_loadF80le_Lo paged (- 1) 0x3FFFE s2 = Some lo
    \<and> dg_bar_x86g_amd64g_dirtyhelper_loadF80le_Hi paged 3 0x3FFFE s2 = Some hi"
  using bar_F80_index_roundtrip [OF paged_bar.bar_shadow_axioms paged_init_ok(2), of "0x3FFFE" 7 0 "- 1" 3] by blast

end
