(* ===== verification/Trick_Runtime.thy ===== *)
theory Trick_Runtime
  imports Bar_Bitwise Shadow_Helpers
begin

text \<open>
  The functions that instrumented code calls in bit-trick-finding mode (\<^verbatim>\<open>derivgrind/trick/dg_trick_bitwise.c\<close> and the
  dirty helpers of \<^verbatim>\<open>derivgrind/trick/dg_trick.c\<close>). The two shadow layers hold, for every bit, whether
  it depends on an input (activity) and whether it comes from an operation that is no real arithmetic
  (discreteness). A warning is issued when active discrete data is used as a floating-point operand; the
  list of warnings is part of the state, and \<open>disabled\<close> is \<^verbatim>\<open>dg_disable[tid] != 0\<close>.
\<close>

section \<open>Warnings\<close>

record trick_state =
  dg_trick_bitwise_out :: V128
  warnings :: "(ULong \<times> ULong) list"

definition dg_trick_warn_dirtyhelper :: "bool \<Rightarrow> ULong \<Rightarrow> ULong \<Rightarrow> nat \<Rightarrow> trick_state \<Rightarrow> trick_state" where
  "dg_trick_warn_dirtyhelper disabled fLo fHi sz s =
     (let mask = (if sz = 4 then 0x00000000ffffffff else 0xffffffffffffffff)
      in if \<not> disabled \<and> fLo AND fHi AND mask \<noteq> 0 then s\<lparr>warnings := warnings s @ [(fLo, fHi)]\<rparr> else s)"

definition dg_trick_bitwise_get_lower :: "trick_state \<Rightarrow> ULong" where
  "dg_trick_bitwise_get_lower s = join32 (w32_0 (dg_trick_bitwise_out s)) (w32_1 (dg_trick_bitwise_out s))"

definition dg_trick_bitwise_get_higher :: "trick_state \<Rightarrow> ULong" where
  "dg_trick_bitwise_get_higher s = join32 (w32_2 (dg_trick_bitwise_out s)) (w32_3 (dg_trick_bitwise_out s))"

section \<open>Bitwise logic\<close>

text \<open>The common body of the macros, at both widths, and the three tests for a constant operand.\<close>

definition use_operand :: "bool \<Rightarrow> 'a::len word \<Rightarrow> 'a word \<Rightarrow> trick_state \<Rightarrow> trick_state" where
  "use_operand disabled yiLo yiHi s =
     (dg_trick_warn_dirtyhelper disabled (ucast yiLo) (ucast yiHi) (LENGTH('a) div 8) s)\<lparr>dg_trick_bitwise_out := V128_of (ucast yiLo) 0\<rparr>"

definition DG_HANDLE_AND_trick :: "bool \<Rightarrow> 'a::len word \<Rightarrow> 'a word \<Rightarrow> 'a word \<Rightarrow> trick_state \<Rightarrow> trick_state option" where
  "DG_HANDLE_AND_trick disabled x yiLo yiHi s =
     (if x = abs_mask \<or> x = - 1 then Some (use_operand disabled yiLo yiHi s) else None)"

definition DG_HANDLE_OR_trick :: "bool \<Rightarrow> 'a::len word \<Rightarrow> 'a word \<Rightarrow> 'a word \<Rightarrow> 'a word \<Rightarrow> trick_state \<Rightarrow> trick_state option" where
  "DG_HANDLE_OR_trick disabled x xiLo yiLo yiHi s =
     (if x = sign_mask \<and> (ucast xiLo :: UInt) = 0 \<or> x = 0 \<and> (ucast xiLo :: UInt) = 0
      then Some (use_operand disabled yiLo yiHi s) else None)"

definition DG_HANDLE_XOR_trick :: "bool \<Rightarrow> 'a::len word \<Rightarrow> 'a word \<Rightarrow> 'a word \<Rightarrow> 'a word \<Rightarrow> trick_state \<Rightarrow> trick_state option" where
  "DG_HANDLE_XOR_trick disabled x xiLo yiLo yiHi s =
     (if x = sign_mask \<and> (ucast xiLo :: UInt) = 0 then Some (use_operand disabled yiLo yiHi s) else None)"

definition discrete32 :: "UInt \<Rightarrow> UInt \<Rightarrow> trick_state \<Rightarrow> trick_state" where
  "discrete32 xiLo yiLo s = s\<lparr>dg_trick_bitwise_out := V128_of (if xiLo \<noteq> 0 \<or> yiLo \<noteq> 0 then - 1 else 0) (- 1)\<rparr>"

type_synonym 'w trick_handler = "'w \<Rightarrow> 'w \<Rightarrow> 'w \<Rightarrow> 'w \<Rightarrow> 'w \<Rightarrow> 'w \<Rightarrow> trick_state \<Rightarrow> trick_state"

definition DG_HANDLE_HALVES_trick :: "UInt trick_handler \<Rightarrow> ULong trick_handler" where
  "DG_HANDLE_HALVES_trick fun32 x xiLo xiHi y yiLo yiHi s =
     (let s = fun32 (hi32 x) (hi32 xiLo) (hi32 xiHi) (hi32 y) (hi32 yiLo) (hi32 yiHi) s;
          out_tmp = dg_trick_bitwise_out s;
          s = fun32 (lo32 x) (lo32 xiLo) (lo32 xiHi) (lo32 y) (lo32 yiLo) (lo32 yiHi) s
      in s\<lparr>dg_trick_bitwise_out := (dg_trick_bitwise_out s)\<lparr>w32_1 := w32_0 out_tmp, w32_3 := w32_2 out_tmp\<rparr>\<rparr>)"

definition dg_trick_bitwise_and32 :: "bool \<Rightarrow> UInt trick_handler" where
  "dg_trick_bitwise_and32 disabled x xiLo xiHi y yiLo yiHi s =
     or_else (DG_HANDLE_AND_trick disabled x yiLo yiHi s) (DG_HANDLE_AND_trick disabled y xiLo xiHi s) (discrete32 xiLo yiLo s)"

definition dg_trick_bitwise_and64 :: "bool \<Rightarrow> ULong trick_handler" where
  "dg_trick_bitwise_and64 disabled x xiLo xiHi y yiLo yiHi s =
     or_else (DG_HANDLE_AND_trick disabled x yiLo yiHi s) (DG_HANDLE_AND_trick disabled y xiLo xiHi s)
       (DG_HANDLE_HALVES_trick (dg_trick_bitwise_and32 disabled) x xiLo xiHi y yiLo yiHi s)"

definition dg_trick_bitwise_or32 :: "bool \<Rightarrow> UInt trick_handler" where
  "dg_trick_bitwise_or32 disabled x xiLo xiHi y yiLo yiHi s =
     or_else (DG_HANDLE_OR_trick disabled x xiLo yiLo yiHi s) (DG_HANDLE_OR_trick disabled y yiLo xiLo xiHi s) (discrete32 xiLo yiLo s)"

definition dg_trick_bitwise_or64 :: "bool \<Rightarrow> ULong trick_handler" where
  "dg_trick_bitwise_or64 disabled x xiLo xiHi y yiLo yiHi s =
     or_else (DG_HANDLE_OR_trick disabled x xiLo yiLo yiHi s) (DG_HANDLE_OR_trick disabled y yiLo xiLo xiHi s)
       (DG_HANDLE_HALVES_trick (dg_trick_bitwise_or32 disabled) x xiLo xiHi y yiLo yiHi s)"

definition dg_trick_bitwise_xor32 :: "bool \<Rightarrow> UInt trick_handler" where
  "dg_trick_bitwise_xor32 disabled x xiLo xiHi y yiLo yiHi s =
     or_else (DG_HANDLE_XOR_trick disabled x xiLo yiLo yiHi s) (DG_HANDLE_XOR_trick disabled y yiLo xiLo xiHi s) (discrete32 xiLo yiLo s)"

definition dg_trick_bitwise_xor64 :: "bool \<Rightarrow> ULong trick_handler" where
  "dg_trick_bitwise_xor64 disabled x xiLo xiHi y yiLo yiHi s =
     or_else (DG_HANDLE_XOR_trick disabled x xiLo yiLo yiHi s) (DG_HANDLE_XOR_trick disabled y yiLo xiLo xiHi s)
       (DG_HANDLE_HALVES_trick (dg_trick_bitwise_xor32 disabled) x xiLo xiHi y yiLo yiHi s)"

section \<open>Numbers of 80 bits\<close>

definition dg_trick_x86g_amd64g_dirtyhelper_storeF80le ::
    "bool \<Rightarrow> ('m, 'p, ShadowLeafBar) ShadowMap \<Rightarrow> Addr \<Rightarrow> ULong \<Rightarrow> ULong \<Rightarrow> ('m, 'p, ShadowLeafBar) shadow \<Rightarrow> trick_state
      \<Rightarrow> (('m, 'p, ShadowLeafBar) shadow \<times> trick_state) option" where
  "dg_trick_x86g_amd64g_dirtyhelper_storeF80le disabled sm addrU a64Lo a64Hi s t =
     (if a64Lo = 0 then
        map_option (\<lambda>s. (s, t)) (dg_bar_shadowSet sm s addrU (Some (replicate 10 0)) (Some (replicate 10 0)) 10)
      else
        (let t = (if a64Hi \<noteq> 0 then dg_trick_warn_dirtyhelper disabled a64Lo a64Hi 8 t else t)
         in map_option (\<lambda>s. (s, t)) (dg_bar_shadowSet sm s addrU (Some (replicate 10 0xff)) (Some (replicate 10 0)) 10)))"

text \<open>
  The two words of a local array after ten bytes have been copied into it; the other six bytes, \<open>stack\<close>, are
  whatever the stack contains.
\<close>

definition local_words :: "UChar list \<Rightarrow> UChar list \<Rightarrow> ULong \<times> ULong" where
  "local_words bs stack = (bytes_word (take 8 bs), bytes_word (drop 8 bs @ stack))"

definition any_of_80 :: "ULong \<times> ULong \<Rightarrow> bool" where
  "any_of_80 a = (case a of (a0, a1) \<Rightarrow> a0 \<noteq> 0 \<or> a1 mod 0x10000 \<noteq> 0)"

definition dg_trick_x86g_amd64g_dirtyhelper_loadF80le_Lo ::
    "('m, 'p, ShadowLeafBar) ShadowMap \<Rightarrow> UChar list \<Rightarrow> Addr \<Rightarrow> ('m, 'p, ShadowLeafBar) shadow \<Rightarrow> ULong option" where
  "dg_trick_x86g_amd64g_dirtyhelper_loadF80le_Lo sm stack addrU s =
     map_option (\<lambda>(lo, hi). if any_of_80 (local_words lo stack) then 0xffffffffffffff else 0) (dg_bar_shadowGet sm s addrU True True 10)"

definition dg_trick_x86g_amd64g_dirtyhelper_loadF80le_Hi ::
    "bool \<Rightarrow> ('m, 'p, ShadowLeafBar) ShadowMap \<Rightarrow> UChar list \<Rightarrow> Addr \<Rightarrow> ('m, 'p, ShadowLeafBar) shadow \<Rightarrow> trick_state \<Rightarrow> (ULong \<times> trick_state) option" where
  "dg_trick_x86g_amd64g_dirtyhelper_loadF80le_Hi disabled sm stack addrU s t =
     map_option (\<lambda>(lo, hi).
       (0, if any_of_80 (local_words lo stack) \<and> any_of_80 (local_words hi stack)
           then dg_trick_warn_dirtyhelper disabled (fst (local_words lo stack)) (fst (local_words hi stack)) 8 t else t))
       (dg_bar_shadowGet sm s addrU True True 10)"

section \<open>Properties\<close>

lemma V128_of_words:
  "dg_trick_bitwise_get_lower (s\<lparr>dg_trick_bitwise_out := V128_of a b\<rparr>) = a"
  "dg_trick_bitwise_get_higher (s\<lparr>dg_trick_bitwise_out := V128_of a b\<rparr>) = b"
  by (simp_all add: dg_trick_bitwise_get_lower_def dg_trick_bitwise_get_higher_def V128_of_def)

text \<open>
  C32. A recognised constant, binary64: with one of the sign or identity masks as first operand, inactive where
  that matters, each handler passes on the activity bits of the other operand and clears its discreteness, and
  it warns exactly if recording is enabled for the thread and some bit of that operand is both active and discrete.
\<close>

theorem trick_bitwise64_constant:
  assumes "f \<in> {dg_trick_bitwise_and64 disabled abs_mask xiLo xiHi, dg_trick_bitwise_and64 disabled (- 1) xiLo xiHi,
      dg_trick_bitwise_or64 disabled sign_mask 0 xiHi, dg_trick_bitwise_or64 disabled 0 0 xiHi, dg_trick_bitwise_xor64 disabled sign_mask 0 xiHi}"
  shows "dg_trick_bitwise_get_lower (f y yiLo yiHi s) = yiLo \<and> dg_trick_bitwise_get_higher (f y yiLo yiHi s) = 0
    \<and> warnings (f y yiLo yiHi s) = warnings s @ (if \<not> disabled \<and> yiLo AND yiHi \<noteq> 0 then [(yiLo, yiHi)] else [])"
proof -
  have "f y yiLo yiHi s = use_operand disabled yiLo yiHi s"
    using assms by (auto simp: dg_trick_bitwise_and64_def dg_trick_bitwise_or64_def dg_trick_bitwise_xor64_def
        DG_HANDLE_AND_trick_def DG_HANDLE_OR_trick_def DG_HANDLE_XOR_trick_def)
  moreover have "(0xffffffffffffffff :: ULong) = - 1" by simp
  ultimately show ?thesis
    by (simp add: use_operand_def V128_of_words dg_trick_warn_dirtyhelper_def Let_def and.assoc)
qed

theorem trick_bitwise64_constant_witness:
  "warnings (dg_trick_bitwise_xor64 False sign_mask 0 0 0x4008000000000000 6 2 \<lparr>dg_trick_bitwise_out = V128_of 0 0, warnings = []\<rparr>) = [(6, 2)]"
  using trick_bitwise64_constant [of "dg_trick_bitwise_xor64 False sign_mask 0 0" False 0 0 "0x4008000000000000" 6 2
      "\<lparr>dg_trick_bitwise_out = V128_of 0 0, warnings = []\<rparr>"] by simp

text \<open>The flags of a lane that no handler recognises.\<close>

definition lane_activity :: "UInt \<Rightarrow> UInt \<Rightarrow> UInt" where
  "lane_activity xi yi = (if xi = 0 \<and> yi = 0 then 0 else - 1)"

lemma halves_ones [simp]: "lo32 (- 1) = - 1" "hi32 (- 1) = - 1"
  by (rule bit_word_eqI, simp add: bit_lo32 bit_hi32)+

lemma join32_ones [simp]: "join32 (- 1) (- 1) = - 1"
  by (rule bit_word_eqI) (auto simp: bit_join32)

lemma discrete_halves:
  assumes "\<And>a b c d e g s. f a b c d e g s = discrete32 b e s"
  shows "dg_trick_bitwise_get_lower (DG_HANDLE_HALVES_trick f x xiLo xiHi y yiLo yiHi s) =
      join32 (lane_activity (lo32 xiLo) (lo32 yiLo)) (lane_activity (hi32 xiLo) (hi32 yiLo))"
    "dg_trick_bitwise_get_higher (DG_HANDLE_HALVES_trick f x xiLo xiHi y yiLo yiHi s) = - 1"
    "warnings (DG_HANDLE_HALVES_trick f x xiLo xiHi y yiLo yiHi s) = warnings s"
  by (simp_all add: DG_HANDLE_HALVES_trick_def assms discrete32_def Let_def dg_trick_bitwise_get_lower_def dg_trick_bitwise_get_higher_def
      V128_of_def lane_activity_def)

text \<open>
  C33. An unrecognised operation makes discrete data, and activity is infectious: if no lane of either operand and
  no operand as a whole is a sign or identity mask, every result bit is discrete, the bits of a 32-bit lane are
  all active if some bit of that lane of an operand is active and none is otherwise, and nothing is reported.
\<close>

theorem trick_bitwise64_discrete:
  assumes "{x, y} \<inter> {abs_mask, - 1, sign_mask, 0} = {}" "{lo32 x, hi32 x, lo32 y, hi32 y} \<inter> {abs_mask, - 1, sign_mask, 0} = {}"
    "f \<in> {dg_trick_bitwise_and64 disabled, dg_trick_bitwise_or64 disabled, dg_trick_bitwise_xor64 disabled}"
  shows "dg_trick_bitwise_get_lower (f x xiLo xiHi y yiLo yiHi s) =
      join32 (lane_activity (lo32 xiLo) (lo32 yiLo)) (lane_activity (hi32 xiLo) (hi32 yiLo))
    \<and> dg_trick_bitwise_get_higher (f x xiLo xiHi y yiLo yiHi s) = - 1 \<and> warnings (f x xiLo xiHi y yiLo yiHi s) = warnings s"
proof -
  have none: "DG_HANDLE_AND_trick disabled v a b s = None" "DG_HANDLE_OR_trick disabled v a b c s = None" "DG_HANDLE_XOR_trick disabled v a b c s = None"
    if "v \<notin> {abs_mask, - 1, sign_mask, 0}" for v :: "'w::len word" and a b c s
    using that by (auto simp: DG_HANDLE_AND_trick_def DG_HANDLE_OR_trick_def DG_HANDLE_XOR_trick_def)
  have lane: "g a b c d e h t = discrete32 b e t" if "g \<in> {dg_trick_bitwise_and32 disabled, dg_trick_bitwise_or32 disabled, dg_trick_bitwise_xor32 disabled}"
    "a \<in> {lo32 x, hi32 x}" "d \<in> {lo32 y, hi32 y}" for g a b c d e h t
    using that assms(2) by (auto simp: dg_trick_bitwise_and32_def dg_trick_bitwise_or32_def dg_trick_bitwise_xor32_def none)
  have "\<exists>g \<in> {dg_trick_bitwise_and32 disabled, dg_trick_bitwise_or32 disabled, dg_trick_bitwise_xor32 disabled}.
      f x xiLo xiHi y yiLo yiHi s = DG_HANDLE_HALVES_trick g x xiLo xiHi y yiLo yiHi s"
    using assms(1,3) by (auto simp: dg_trick_bitwise_and64_def dg_trick_bitwise_or64_def dg_trick_bitwise_xor64_def none)
  then obtain g where g: "g \<in> {dg_trick_bitwise_and32 disabled, dg_trick_bitwise_or32 disabled, dg_trick_bitwise_xor32 disabled}"
    "f x xiLo xiHi y yiLo yiHi s = DG_HANDLE_HALVES_trick g x xiLo xiHi y yiLo yiHi s" by blast
  have "DG_HANDLE_HALVES_trick g x xiLo xiHi y yiLo yiHi s = DG_HANDLE_HALVES_trick (\<lambda>a b c d e h. discrete32 b e) x xiLo xiHi y yiLo yiHi s"
    by (simp add: DG_HANDLE_HALVES_trick_def lane [OF g(1)])
  then show ?thesis
    using g(2) discrete_halves [of "\<lambda>a b c d e h. discrete32 b e"] by simp
qed

theorem trick_bitwise64_discrete_witness:
  "dg_trick_bitwise_get_lower (dg_trick_bitwise_and64 False 0x1111111122222222 0 0 0x3333333344444444 1 0
     \<lparr>dg_trick_bitwise_out = V128_of 0 0, warnings = []\<rparr>) = 0xFFFFFFFF"
proof -
  have h: "lo32 0x1111111122222222 = 0x22222222" "hi32 0x1111111122222222 = 0x11111111"
    "lo32 0x3333333344444444 = 0x44444444" "hi32 0x3333333344444444 = 0x33333333" "lo32 1 = 1" "hi32 1 = 0"
    by (simp_all add: lo32_def hi32_def drop_bit_eq_div)
  have "(- 1 :: UInt) = 0xFFFFFFFF" by simp
  then have j: "join32 (- 1) 0 = 0xFFFFFFFF" by (simp only: join32_def) simp
  show ?thesis
    using trick_bitwise64_discrete [of "0x1111111122222222" "0x3333333344444444" "dg_trick_bitwise_and64 False" False 0 0 1 0
        "\<lparr>dg_trick_bitwise_out = V128_of 0 0, warnings = []\<rparr>"]
    by (simp add: h j abs_mask_def sign_mask_def lane_activity_def)
qed

lemma any_of_80_replicate: "any_of_80 (local_words (replicate 10 b) stack) \<longleftrightarrow> b \<noteq> 0" if "b \<in> {0, 0xff}"
proof -
  have ten: "take 8 (replicate 10 b) = replicate 8 b" "drop 8 (replicate 10 b) = replicate 2 b" by simp_all
  show ?thesis
  proof (cases "b = 0")
    case True
    have "bytes_word (replicate 8 0) = 0"
      by (rule bit_word_eqI) (simp add: bit_bytes_word bit_at_def)
    moreover have "take_bit 16 (bytes_word (replicate 2 0 @ stack)) = 0"
    proof (rule bit_word_eqI)
      fix n :: nat
      have "n < 16 \<Longrightarrow> n div 8 < 2" by presburger
      then show "bit (take_bit 16 (bytes_word (replicate 2 0 @ stack))) n = bit 0 n"
        by (auto simp: bit_take_bit_iff bit_bytes_word bit_at_def nth_append)
    qed
    ultimately show ?thesis by (simp add: any_of_80_def local_words_def ten True take_bit_eq_mod)
  next
    case False
    then have "bit (bytes_word (replicate 8 b)) 0"
      using that by (simp add: bit_bytes_word bit_at_def)
    then have "bytes_word (replicate 8 b) \<noteq> 0" by auto
    then show ?thesis using False by (simp add: any_of_80_def local_words_def ten)
  qed
qed

text \<open>
  C34. Activity survives a store and a load of an 80-bit number: after the store helper, the load helper for
  the activity layer returns zero if and only if no activity bit was set, the discreteness layer is clear, and
  loading it does not warn. The result has 56 bits set, not 64.
\<close>

theorem trick_F80_activity:
  assumes "bar_shadow sm leaf_size" "layers_ok sm leaf_size s" "length stack = 6"
  shows "\<exists>s' t'. dg_trick_x86g_amd64g_dirtyhelper_storeF80le disabled sm addr a64Lo a64Hi s t = Some (s', t')
    \<and> dg_trick_x86g_amd64g_dirtyhelper_loadF80le_Lo sm stack addr s' = Some (if a64Lo = 0 then 0 else mask 56)
    \<and> dg_trick_x86g_amd64g_dirtyhelper_loadF80le_Hi disabled sm stack addr s' t' = Some (0, t')"
proof -
  define b :: UChar where "b = (if a64Lo = 0 then 0 else 0xff)"
  obtain s' where s': "dg_bar_shadowSet sm s addr (Some (replicate 10 b)) (Some (replicate 10 0)) 10 = Some s'"
    "layers_ok sm leaf_size s'" "layer_mem sm data_Lo s' = write_bytes (layer_mem sm data_Lo s) addr (replicate 10 b)"
    "layer_mem sm data_Hi s' = write_bytes (layer_mem sm data_Hi s) addr (replicate 10 0)"
    using bar_shadow.shadowSet_writes [OF assms(1,2), of "Some (replicate 10 b)" 10 "Some (replicate 10 0)" addr]
    by (auto simp: layer_written_def)
  have get: "dg_bar_shadowGet sm s' addr True True 10 = Some (replicate 10 b, replicate 10 0)"
    using bar_shadow.shadowGet_reads [OF assms(1) s'(2), of addr True True 10] read_write_bytes [of "replicate 10 b"] read_write_bytes [of "replicate 10 (0 :: UChar)"]
    by (simp add: s'(3,4))
  have "b \<in> {0, 0xff}" "(0 :: UChar) \<in> {0, 0xff}" by (simp_all add: b_def)
  note any = this [THEN any_of_80_replicate]
  have store: "\<exists>t'. dg_trick_x86g_amd64g_dirtyhelper_storeF80le disabled sm addr a64Lo a64Hi s t = Some (s', t')"
    using s'(1) by (cases s') (simp add: dg_trick_x86g_amd64g_dirtyhelper_storeF80le_def b_def Let_def split: if_splits)
  have "dg_trick_x86g_amd64g_dirtyhelper_loadF80le_Lo sm stack addr s' = Some (if a64Lo = 0 then 0 else mask 56)"
    by (simp add: dg_trick_x86g_amd64g_dirtyhelper_loadF80le_Lo_def get any(1)) (simp add: b_def mask_eq_exp_minus_1)
  moreover have "dg_trick_x86g_amd64g_dirtyhelper_loadF80le_Hi disabled sm stack addr s' t' = Some (0, t')" for t'
    by (simp add: dg_trick_x86g_amd64g_dirtyhelper_loadF80le_Hi_def get any(2))
  ultimately show ?thesis using store by blast
qed

theorem trick_F80_activity_witness:
  "\<exists>s' t'. dg_trick_x86g_amd64g_dirtyhelper_storeF80le False paged 0x3FFFC 4 4 paged_bar_init \<lparr>dg_trick_bitwise_out = V128_of 0 0, warnings = []\<rparr> = Some (s', t')
    \<and> dg_trick_x86g_amd64g_dirtyhelper_loadF80le_Lo paged [9, 9, 9, 9, 9, 9] 0x3FFFC s' = Some (mask 56)"
proof -
  have "length [9, 9, 9, 9, 9, 9 :: UChar] = 6" by simp
  from trick_F80_activity [OF paged_bar.bar_shadow_axioms paged_init_ok(2) this, of False "0x3FFFC" 4 4 "\<lparr>dg_trick_bitwise_out = V128_of 0 0, warnings = []\<rparr>"]
  show ?thesis by auto
qed

end
