(* ===== verification/DG_Session.thy ===== *)
theory DG_Session
  imports DG_Options DG_DiffQuot Trick_Runtime
begin

text \<open>
  A run of Derivgrind outside of instrumented code (\<^verbatim>\<open>derivgrind/dg_main.c\<close>): start-up after the command line has been
  read, the client requests of the program under test, the monitor commands of the debugger, and the end of
  the run. The record \<open>session\<close> holds the state of all modes, the memory of the client program and what has been shown
  to the user; the functions are written in the state-and-error monad of the prelude.

  The record \<open>environment\<close> holds what is not part of the sources: the shadow maps and their state after construction,
  which files can be opened, the machine's floating-point numbers (\<open>'d\<close>, with the bits of a number and the
  conversion to \<^verbatim>\<open>float\<close>), and what newly allocated memory contains.
\<close>

section \<open>State\<close>

record ('m, 'p, 'n, 'q, 'd) environment =
  sm_dot :: "('m, 'p, ShadowLeafDot) ShadowMap"
  sm_bar :: "('n, 'q, ShadowLeafBar) ShadowMap"
  new_dot :: "('m, 'p, ShadowLeafDot) shadow"
  new_bar :: "('n, 'q, ShadowLeafBar) shadow"
  can_open :: "string \<Rightarrow> bool"
  of_Long :: "ULong \<Rightarrow> 'd"
  double_bits :: "'d \<Rightarrow> ULong"
  float_of_double :: "ULong \<Rightarrow> UInt"
  garbage :: "nat \<Rightarrow> ULong"

datatype session_error =
    Assertion_failed string
  | Does_not_return
  | Null_pointer
  | Not_a_string
  | Tape_error tape_error
  | Dqd_error dqd_error

datatype message =
    Printed string
  | Dot_double ULong
  | Dot_float UInt
  | Index_printed ULong
  | Previous_index ULong
  | Flags_printed Addr UChar UChar

record ('m, 'p, 'n, 'q) session =
  opts :: options
  shadow_dot :: "('m, 'p, ShadowLeafDot) shadow"
  shadow_bar :: "('n, 'q, ShadowLeafBar) shadow"
  memory :: "Addr \<Rightarrow> UChar"
  tape :: tape_state
  dqd :: dqd_state
  console :: "message list"

type_synonym ('m, 'p, 'n, 'q, 'a) sessionM = "(('m, 'p, 'n, 'q) session, session_error, 'a) stE"

definition print :: "message \<Rightarrow> ('m, 'p, 'n, 'q, unit) sessionM" where
  "print msg = modifyM (\<lambda>s. s\<lparr>console := console s @ [msg]\<rparr>)"

definition returns :: "'a option \<Rightarrow> ('m, 'p, 'n, 'q, 'a) sessionM" where
  "returns r = (case r of None \<Rightarrow> failM Does_not_return | Some x \<Rightarrow> returnM x)"

text \<open>The tape sees the options without the fields that only concern other parts.\<close>

definition cfg :: "('m, 'p, 'n, 'q) session \<Rightarrow> tape_config" where
  "cfg s = tape_config.truncate (opts s)"

definition on_tape :: "(tape_config \<Rightarrow> tape_state \<Rightarrow> 'a \<times> tape_state) \<Rightarrow> ('m, 'p, 'n, 'q, 'a) sessionM" where
  "on_tape f = bindM getM (\<lambda>s. let (r, t) = f (cfg s) (tape s) in seqM (modifyM (\<lambda>s. s\<lparr>tape := t\<rparr>)) (returnM r))"

section \<open>Access to memory and shadow memory\<close>

definition read_client :: "Addr \<Rightarrow> nat \<Rightarrow> ('m, 'p, 'n, 'q, UChar list) sessionM" where
  "read_client a n = bindM getM (\<lambda>s. returnM (read_bytes (memory s) a n))"

definition write_client :: "Addr \<Rightarrow> UChar list \<Rightarrow> ('m, 'p, 'n, 'q, unit) sessionM" where
  "write_client a bs = modifyM (\<lambda>s. s\<lparr>memory := write_bytes (memory s) a bs\<rparr>)"

definition read_ULong :: "Addr \<Rightarrow> ('m, 'p, 'n, 'q, ULong) sessionM" where
  "read_ULong a = bindM (read_client a 8) (\<lambda>bs. returnM (bytes_word bs))"

definition dot_get :: "('m, 'p, 'n, 'q, 'd) environment \<Rightarrow> Addr \<Rightarrow> C_int \<Rightarrow> ('m, 'p, 'n, 'q, UChar list) sessionM" where
  "dot_get env a sz = bindM getM (\<lambda>s. returns (dg_dot_shadowGet (sm_dot env) (shadow_dot s) a sz))"

definition dot_set :: "('m, 'p, 'n, 'q, 'd) environment \<Rightarrow> Addr \<Rightarrow> UChar list \<Rightarrow> C_int \<Rightarrow> ('m, 'p, 'n, 'q, unit) sessionM" where
  "dot_set env a bs sz = bindM getM (\<lambda>s. bindM (returns (dg_dot_shadowSet (sm_dot env) (shadow_dot s) a bs sz))
     (\<lambda>sh. modifyM (\<lambda>s. s\<lparr>shadow_dot := sh\<rparr>)))"

definition bar_get :: "('m, 'p, 'n, 'q, 'd) environment \<Rightarrow> Addr \<Rightarrow> bool \<Rightarrow> bool \<Rightarrow> C_int \<Rightarrow> ('m, 'p, 'n, 'q, UChar list \<times> UChar list) sessionM" where
  "bar_get env a lo hi sz = bindM getM (\<lambda>s. returns (dg_bar_shadowGet (sm_bar env) (shadow_bar s) a lo hi sz))"

definition bar_set :: "('m, 'p, 'n, 'q, 'd) environment \<Rightarrow> Addr \<Rightarrow> UChar list option \<Rightarrow> UChar list option \<Rightarrow> C_int \<Rightarrow> ('m, 'p, 'n, 'q, unit) sessionM" where
  "bar_set env a lo hi sz = bindM getM (\<lambda>s. bindM (returns (dg_bar_shadowSet (sm_bar env) (shadow_bar s) a lo hi sz))
     (\<lambda>sh. modifyM (\<lambda>s. s\<lparr>shadow_bar := sh\<rparr>)))"

text \<open>
  The client's side of a layer: a null pointer stands for a layer that is not accessed. The two buffers of a request are taken not to
  overlap, and not to run across the end of the address space.
\<close>

definition read_layer :: "Addr \<Rightarrow> C_int \<Rightarrow> ('m, 'p, 'n, 'q, UChar list option) sessionM" where
  "read_layer p sz = (if p = 0 then returnM None else bindM (read_client p (unat sz)) (\<lambda>bs. returnM (Some bs)))"

definition write_layer :: "Addr \<Rightarrow> UChar list \<Rightarrow> ('m, 'p, 'n, 'q, unit) sessionM" where
  "write_layer p bs = (if p = 0 then returnM () else write_client p bs)"

section \<open>Monitor commands\<close>

definition commands :: string where
  "commands = ''help get set fget fset lget lset index mark fmark lmark flagsget''"

definition in_mode :: "char \<Rightarrow> string \<Rightarrow> ('m, 'p, 'n, 'q, bool) sessionM \<Rightarrow> ('m, 'p, 'n, 'q, bool) sessionM" where
  "in_mode c complaint m = bindM getM (\<lambda>s. if mode (opts s) \<noteq> c then seqM (print (Printed complaint)) (returnM False) else m)"

text \<open>
  The first argument of a command as an address. A missing argument is a null pointer, which
  \<^verbatim>\<open>VG_(parse_Addr)\<close> reads; \<open>k\<close> continues with the address and the rest of the command.
\<close>

definition with_address :: "string \<Rightarrow> string \<Rightarrow> (Addr \<Rightarrow> string \<Rightarrow> ('m, 'p, 'n, 'q, bool) sessionM) \<Rightarrow> ('m, 'p, 'n, 'q, bool) sessionM" where
  "with_address saveptr usage k =
     (case strtok_r saveptr '' '' of
        (None, _) \<Rightarrow> failM Null_pointer
      | (Some address_str, saveptr) \<Rightarrow>
          (case parse_Addr address_str of
             None \<Rightarrow> seqM (print (Printed usage)) (returnM False)
           | Some (address, _) \<Rightarrow> k address saveptr))"

definition argument :: "string \<Rightarrow> ('m, 'p, 'n, 'q, string) sessionM" where
  "argument saveptr = (case strtok_r saveptr '' '' of (None, _) \<Rightarrow> failM Null_pointer | (Some t, _) \<Rightarrow> returnM t)"

definition to_double :: "UChar list \<Rightarrow> ('m, 'p, 'n, 'q, ULong) sessionM" where
  "to_double f80 = (case convert_f80le_to_f64le f80 of
     None \<Rightarrow> failM (Assertion_failed ''convert_f80le_to_f64le'') | Some f64 \<Rightarrow> returnM (bytes_word f64))"

definition monitor_get :: "('m, 'p, 'n, 'q, 'd) environment \<Rightarrow> int \<Rightarrow> string \<Rightarrow> ('m, 'p, 'n, 'q, bool) sessionM" where
  "monitor_get env key saveptr =
     in_mode CHR ''d'' ''Only available in forward mode.'' (with_address saveptr ''Usage: get  <addr>'' (\<lambda>address _.
       let sz = (if key = 1 then 8 else if key = 3 then 4 else 10)
       in bindM (dot_get env address sz) (\<lambda>shadow.
          seqM (print (Printed ''dot value: ''))
            (if key = 1 then seqM (print (Dot_double (bytes_word shadow))) (returnM True)
             else if key = 3 then seqM (print (Dot_float (ucast (bytes_word shadow)))) (returnM True)
             else bindM (to_double shadow) (\<lambda>tmp. seqM (print (Dot_double tmp)) (returnM True))))))"

definition monitor_set ::
    "('m, 'p, 'n, 'q, 'd::{plus,times,inverse,uminus,numeral}) environment \<Rightarrow> int \<Rightarrow> string \<Rightarrow> ('m, 'p, 'n, 'q, bool) sessionM" where
  "monitor_set env key saveptr =
     in_mode CHR ''d'' ''Only available in forward mode.'' (with_address saveptr ''Usage: set  <addr> <shadow value>'' (\<lambda>address saveptr.
       bindM (argument saveptr) (\<lambda>derivative_str.
         let d = double_bits env (fst (strtod (of_Long env) derivative_str));
             bytes = (if key = 2 then word_bytes d
                      else if key = 4 then take 4 (word_bytes (ucast (float_of_double env d)))
                      else take 10 (convert_f64le_to_f80le (word_bytes d)))
         in seqM (dot_set env address bytes (if key = 2 then 8 else if key = 4 then 4 else 10)) (returnM True))))"

definition monitor_index :: "('m, 'p, 'n, 'q, 'd) environment \<Rightarrow> nat \<Rightarrow> int \<Rightarrow> string \<Rightarrow> ('m, 'p, 'n, 'q, bool) sessionM" where
  "monitor_index env tid key saveptr =
     in_mode CHR ''b'' ''Only available in recording mode.'' (with_address saveptr ''Usage: index <addr> '' (\<lambda>address _.
       bindM (bar_get env address True True 4) (\<lambda>(lo, hi).
         let idx = bytes_word (lo @ hi)
         in if key = 7 then seqM (print (Index_printed idx)) (returnM True)
            else
              bindM (if key = 8 then read_ULong address
                     else if key = 9 then bindM (read_client address 4) (\<lambda>bs. returnM (double_of_float (ucast (bytes_word bs))))
                     else bindM (read_client address 10) to_double) (\<lambda>value.
              seqM (if idx \<noteq> 0 then print (Previous_index idx) else returnM ())
              (bindM (on_tape (\<lambda>c. tapeAddStatement_noActivityAnalysis c tid 0 0 0 0)) (\<lambda>setIndex.
               seqM (on_tape (\<lambda>c t. ((), if bar_record_values c \<and> setIndex \<noteq> 0 then valuesAddStatement value t else t)))
               (seqM (bar_set env address (Some (take 4 (word_bytes setIndex))) (Some (drop 4 (word_bytes setIndex))) 4)
               (seqM (print (Index_printed setIndex)) (returnM True)))))))))"

fun print_flags :: "('m, 'p, 'n, 'q, 'd) environment \<Rightarrow> Addr \<Rightarrow> nat \<Rightarrow> ('m, 'p, 'n, 'q, unit) sessionM" where
  "print_flags env address 0 = returnM ()"
| "print_flags env address (Suc n) =
     bindM (bar_get env address True True 1) (\<lambda>(aflag, dflag).
     seqM (print (Flags_printed address (hd aflag) (hd dflag))) (print_flags env (address + 1) n))"

definition monitor_flagsget :: "('m, 'p, 'n, 'q, 'd) environment \<Rightarrow> string \<Rightarrow> ('m, 'p, 'n, 'q, bool) sessionM" where
  "monitor_flagsget env saveptr =
     in_mode CHR ''t'' ''Only available in bit-trick-finding mode.'' (with_address saveptr ''Usage: flagsget <addr> <size>'' (\<lambda>address saveptr.
       bindM (argument saveptr) (\<lambda>size_str. seqM (print_flags env address (unat (fst (strtoll10 size_str)))) (returnM True))))"

definition dg_handle_gdb_monitor_command ::
    "('m, 'p, 'n, 'q, 'd::{plus,times,inverse,uminus,numeral}) environment \<Rightarrow> nat \<Rightarrow> string \<Rightarrow> ('m, 'p, 'n, 'q, bool) sessionM" where
  "dg_handle_gdb_monitor_command env tid req =
     (let (wcmd, saveptr) = strtok_r req '' ''
      in case keyword_id commands wcmd kwd_report_duplicated_matches of
           None \<Rightarrow> failM (Assertion_failed ''keyword_id'')
         | Some (key, out) \<Rightarrow>
             seqM (iterM (\<lambda>t. print (Printed t)) out)
               (if key = - 2 then returnM True
                else if key = - 1 then returnM False
                else if key = 0 then seqM (print (Printed ''monitor commands'')) (returnM True)
                else if key = 1 \<or> key = 3 \<or> key = 5 then monitor_get env key saveptr
                else if key = 2 \<or> key = 4 \<or> key = 6 then monitor_set env key saveptr
                else if key = 7 \<or> key = 8 \<or> key = 9 \<or> key = 10 then monitor_index env tid key saveptr
                else if key = 11 then monitor_flagsget env saveptr
                else seqM (print (Printed ''Error in dg_handle_gdb_monitor_command.'')) (returnM False)))"

section \<open>Client requests\<close>

text \<open>The codes of the requests: the tool's base for \<open>'D'\<close>, \<open>'G'\<close>, and the order of the enumeration.\<close>

definition VG_USERREQ__GDB_MONITOR_COMMAND :: ULong where
  "VG_USERREQ__GDB_MONITOR_COMMAND = 0x1202"

definition VG_USERREQ__GET_DOTVALUE :: ULong where
  "VG_USERREQ__GET_DOTVALUE = 0x44470000"

definition VG_USERREQ__SET_DOTVALUE :: ULong where
  "VG_USERREQ__SET_DOTVALUE = 0x44470001"

definition VG_USERREQ__DISABLE :: ULong where
  "VG_USERREQ__DISABLE = 0x44470002"

definition VG_USERREQ__GET_INDEX :: ULong where
  "VG_USERREQ__GET_INDEX = 0x44470003"

definition VG_USERREQ__SET_INDEX :: ULong where
  "VG_USERREQ__SET_INDEX = 0x44470004"

definition VG_USERREQ__NEW_INDEX :: ULong where
  "VG_USERREQ__NEW_INDEX = 0x44470005"

definition VG_USERREQ__NEW_INDEX_NOACTIVITYANALYSIS :: ULong where
  "VG_USERREQ__NEW_INDEX_NOACTIVITYANALYSIS = 0x44470006"

definition VG_USERREQ__INDEX_TO_FILE :: ULong where
  "VG_USERREQ__INDEX_TO_FILE = 0x44470007"

definition VG_USERREQ__GET_MODE :: ULong where
  "VG_USERREQ__GET_MODE = 0x44470008"

definition VG_USERREQ__GET_FLAGS :: ULong where
  "VG_USERREQ__GET_FLAGS = 0x44470009"

definition VG_USERREQ__SET_FLAGS :: ULong where
  "VG_USERREQ__SET_FLAGS = 0x4447000A"

lemmas request_codes = VG_USERREQ__GDB_MONITOR_COMMAND_def VG_USERREQ__GET_DOTVALUE_def VG_USERREQ__SET_DOTVALUE_def
  VG_USERREQ__DISABLE_def VG_USERREQ__GET_INDEX_def VG_USERREQ__SET_INDEX_def VG_USERREQ__NEW_INDEX_def
  VG_USERREQ__NEW_INDEX_NOACTIVITYANALYSIS_def VG_USERREQ__INDEX_TO_FILE_def VG_USERREQ__GET_MODE_def
  VG_USERREQ__GET_FLAGS_def VG_USERREQ__SET_FLAGS_def

text \<open>
  The answer to a request: \<open>handled\<close> is the result of the function, \<open>None\<close> if it ends without a return
  statement, and \<open>ret\<close> is what has been stored in \<^verbatim>\<open>*ret\<close>, \<open>None\<close> if nothing has.
\<close>

record reply =
  handled :: "bool option"
  ret :: "ULong option"

abbreviation answer :: "ULong \<Rightarrow> ('m, 'p, 'n, 'q, reply) sessionM" where
  "answer r \<equiv> returnM \<lparr>handled = Some True, ret = Some r\<rparr>"

abbreviation no_answer :: "('m, 'p, 'n, 'q, reply) sessionM" where
  "no_answer \<equiv> returnM \<lparr>handled = Some True, ret = None\<rparr>"

text \<open>The string at an address of the client; \<open>None\<close> if there is no terminator in the whole address space.\<close>

fun c_string :: "(Addr \<Rightarrow> UChar) \<Rightarrow> nat \<Rightarrow> Addr \<Rightarrow> string option" where
  "c_string mem 0 a = None"
| "c_string mem (Suc n) a = (if mem a = 0 then Some [] else map_option ((#) (char_of (unat (mem a)))) (c_string mem n (a + 1)))"

definition when_mode :: "char \<Rightarrow> ('m, 'p, 'n, 'q, reply) sessionM \<Rightarrow> ('m, 'p, 'n, 'q, reply) sessionM" where
  "when_mode c m = bindM getM (\<lambda>s. if mode (opts s) \<noteq> c then no_answer else m)"

definition request_NEW_INDEX :: "nat \<Rightarrow> bool \<Rightarrow> Addr \<Rightarrow> ('m, 'p, 'n, 'q, reply) sessionM" where
  "request_NEW_INDEX tid noActivityAnalysis tbi =
     bindM (read_ULong tbi) (\<lambda>index1addr. bindM (read_ULong (tbi + 8)) (\<lambda>index2addr.
     bindM (read_ULong (tbi + 16)) (\<lambda>diff1addr. bindM (read_ULong (tbi + 24)) (\<lambda>diff2addr.
     bindM (read_ULong (tbi + 32)) (\<lambda>newindexaddr. bindM (read_ULong (tbi + 40)) (\<lambda>valueaddr.
     bindM (read_ULong index1addr) (\<lambda>i1. bindM (read_ULong index2addr) (\<lambda>i2.
     bindM (read_ULong diff1addr) (\<lambda>d1. bindM (read_ULong diff2addr) (\<lambda>d2.
     bindM (on_tape (\<lambda>c. if noActivityAnalysis then tapeAddStatement_noActivityAnalysis c tid i1 i2 d1 d2
                         else tapeAddStatement c tid i1 i2 d1 d2)) (\<lambda>i.
     seqM (write_client newindexaddr (word_bytes i))
     (bindM (read_ULong newindexaddr) (\<lambda>newindex. bindM (read_ULong valueaddr) (\<lambda>value.
      seqM (on_tape (\<lambda>c t. ((), if bar_record_values c \<and> newindex \<noteq> 0 then valuesAddStatement value t else t)))
      (answer 1)))))))))))))))"

definition dg_handle_client_request ::
    "('m, 'p, 'n, 'q, 'd::{plus,times,inverse,uminus,numeral}) environment \<Rightarrow> nat \<Rightarrow> (nat \<Rightarrow> ULong) \<Rightarrow> ('m, 'p, 'n, 'q, reply) sessionM" where
  "dg_handle_client_request env tid arg =
     (if arg 0 = VG_USERREQ__GDB_MONITOR_COMMAND then
        bindM getM (\<lambda>s. case c_string (memory s) (2 ^ 64) (arg 1) of
          None \<Rightarrow> failM Not_a_string
        | Some req \<Rightarrow> bindM (dg_handle_gdb_monitor_command env tid req)
            (\<lambda>h. returnM \<lparr>handled = Some h, ret = Some (if h then 1 else 0)\<rparr>))
      else if arg 0 = VG_USERREQ__GET_DOTVALUE then
        when_mode CHR ''d'' (bindM (dot_get env (arg 1) (ucast (arg 3))) (\<lambda>bs. seqM (write_client (arg 2) bs) (answer 1)))
      else if arg 0 = VG_USERREQ__SET_DOTVALUE then
        when_mode CHR ''d'' (bindM (read_client (arg 2) (unat (ucast (arg 3) :: C_int))) (\<lambda>bs. seqM (dot_set env (arg 1) bs (ucast (arg 3))) (answer 1)))
      else if arg 0 = VG_USERREQ__DISABLE then
        bindM (on_tape (\<lambda>_ t. (dg_disable t tid, t\<lparr>dg_disable := (dg_disable t)(tid := dg_disable t tid + (arg 1 - arg 2))\<rparr>))) answer
      else if arg 0 = VG_USERREQ__GET_INDEX then
        when_mode CHR ''b'' (bindM (bar_get env (arg 1) (arg 2 \<noteq> 0) (arg 2 + 4 \<noteq> 0) 4) (\<lambda>(lo, hi).
          seqM (write_layer (arg 2) lo) (seqM (write_layer (arg 2 + 4) hi) (answer 1))))
      else if arg 0 = VG_USERREQ__SET_INDEX then
        when_mode CHR ''b'' (bindM (read_layer (arg 2) 4) (\<lambda>lo. bindM (read_layer (arg 2 + 4) 4) (\<lambda>hi.
          seqM (bar_set env (arg 1) lo hi 4) (answer 1))))
      else if arg 0 = VG_USERREQ__NEW_INDEX \<or> arg 0 = VG_USERREQ__NEW_INDEX_NOACTIVITYANALYSIS then
        when_mode CHR ''b'' (request_NEW_INDEX tid (arg 0 \<noteq> VG_USERREQ__NEW_INDEX) (arg 1))
      else if arg 0 = VG_USERREQ__INDEX_TO_FILE then
        when_mode CHR ''b''
          (if arg 1 = 0 then bindM (read_ULong (arg 2)) (\<lambda>i. seqM (on_tape (\<lambda>_ t. ((), dg_bar_tape_write_input_index i t))) no_answer)
           else if arg 1 = 1 then bindM (read_ULong (arg 2)) (\<lambda>i. seqM (on_tape (\<lambda>_ t. ((), dg_bar_tape_write_output_index i t))) no_answer)
           else seqM (print (Printed ''Bad output file specification.'')) (failM (Assertion_failed ''INDEX_TO_FILE'')))
      else if arg 0 = VG_USERREQ__GET_FLAGS then
        when_mode CHR ''t'' (bindM (bar_get env (arg 1) (arg 2 \<noteq> 0) (arg 3 \<noteq> 0) (ucast (arg 4))) (\<lambda>(lo, hi).
          seqM (write_layer (arg 2) lo) (seqM (write_layer (arg 3) hi) (returnM \<lparr>handled = None, ret = None\<rparr>))))
      else if arg 0 = VG_USERREQ__SET_FLAGS then
        when_mode CHR ''t'' (bindM (read_layer (arg 2) (ucast (arg 4))) (\<lambda>lo. bindM (read_layer (arg 3) (ucast (arg 4))) (\<lambda>hi.
          seqM (bar_set env (arg 1) lo hi (ucast (arg 4))) (returnM \<lparr>handled = None, ret = None\<rparr>))))
      else if arg 0 = VG_USERREQ__GET_MODE then bindM getM (\<lambda>s. answer (of_char (mode (opts s))))
      else seqM (print (Printed ''Unhandled user request.'')) no_answer)"

section \<open>Start and end of a run\<close>

definition dg_dot_initialize :: "('m, 'p, 'n, 'q, 'd) environment \<Rightarrow> ('m, 'p, 'n, 'q, unit) sessionM" where
  "dg_dot_initialize env =
     seqM (modifyM (\<lambda>s. s\<lparr>shadow_dot := new_dot env\<rparr>))
     (bindM getM (\<lambda>s. if diffquotdebug (opts s) then
        (case diffquotdebug_directory (opts s) of
           None \<Rightarrow> failM Null_pointer
         | Some dir \<Rightarrow> (case dg_dot_diffquotdebug_initialize (can_open env) dir (dqd s) of
             Inl e \<Rightarrow> failM (Dqd_error e) | Inr d \<Rightarrow> modifyM (\<lambda>s. s\<lparr>dqd := d\<rparr>)))
      else returnM ()))"

definition dg_bar_initialize :: "('m, 'p, 'n, 'q, 'd) environment \<Rightarrow> ('m, 'p, 'n, 'q, unit) sessionM" where
  "dg_bar_initialize env = modifyM (\<lambda>s. s\<lparr>shadow_bar := new_bar env\<rparr>)"

definition dg_trick_initialize :: "('m, 'p, 'n, 'q, 'd) environment \<Rightarrow> ('m, 'p, 'n, 'q, unit) sessionM" where
  "dg_trick_initialize env = modifyM (\<lambda>s. s\<lparr>shadow_bar := new_bar env\<rparr>)"

definition require :: "bool \<Rightarrow> string \<Rightarrow> ('m, 'p, 'n, 'q, unit) sessionM" where
  "require b complaint = (if b then returnM () else seqM (print (Printed complaint)) (failM (Assertion_failed complaint)))"

definition dg_post_clo_init :: "('m, 'p, 'n, 'q, 'd) environment \<Rightarrow> ('m, 'p, 'n, 'q, unit) sessionM" where
  "dg_post_clo_init env =
     bindM getM (\<lambda>s. let opts = opts s in
     seqM (require (\<not> (typegrind opts \<and> mode opts \<noteq> CHR ''b'')) ''Option --typegrind=yes can only be used in recording mode (--record=path).'')
     (seqM (require (\<not> (bar_record_values opts \<and> mode opts \<noteq> CHR ''b'')) ''Option --record-values=yes can only be used in recording mode (--record=path).'')
     (seqM (require (\<not> (recording_stop_indices_str opts \<noteq> None \<and> mode opts \<noteq> CHR ''b'')) ''Option --record-stop can only be used in recording mode (--record=path).'')
     (seqM (case recording_stop_indices_str opts of
              None \<Rightarrow> returnM ()
            | Some str \<Rightarrow> (case parse_stop_indices (garbage env) str of
                None \<Rightarrow> failM (Assertion_failed ''heap corruption'')
              | Some indices \<Rightarrow> modifyM (\<lambda>s. s\<lparr>opts := (session.opts s)\<lparr>recording_stop_indices := Some indices\<rparr>\<rparr>)))
     (seqM (modifyM (\<lambda>s. s\<lparr>tape := (tape s)\<lparr>dg_disable := (\<lambda>_. 0)\<rparr>\<rparr>))
     (if mode opts = CHR ''d'' then dg_dot_initialize env
      else if mode opts = CHR ''b'' then
        seqM (dg_bar_initialize env)
        (bindM getM (\<lambda>s. case recording_directory opts of
           None \<Rightarrow> failM Null_pointer
         | Some dir \<Rightarrow> (case dg_bar_tape_initialize (cfg s) (can_open env) dir (tape s) of
             Inl e \<Rightarrow> failM (Tape_error e) | Inr t \<Rightarrow> modifyM (\<lambda>s. s\<lparr>tape := t\<rparr>))))
      else if mode opts = CHR ''t'' then dg_trick_initialize env
      else returnM ()))))))"

definition dg_fini :: "('m, 'p, 'n, 'q, unit) sessionM" where
  "dg_fini = bindM getM (\<lambda>s.
     if mode (opts s) = CHR ''d'' then
       (if diffquotdebug (opts s) then modifyM (\<lambda>s. s\<lparr>dqd := dg_dot_diffquotdebug_finalize (dqd s)\<rparr>) else returnM ())
     else if mode (opts s) = CHR ''b'' then modifyM (\<lambda>s. s\<lparr>tape := dg_bar_tape_finalize (cfg s) (tape s)\<rparr>)
     else returnM ())"

text \<open>The command line: an option that is not recognised, here or by the core, ends the start-up.\<close>

fun process_args :: "string list \<Rightarrow> options \<Rightarrow> option_error + options" where
  "process_args [] o1 = Inr o1"
| "process_args (arg # args) o1 =
     bindE (dg_process_cmd_line_option cloP arg o1) (\<lambda>(recognised, o2). if recognised then process_args args o2 else Inl (Bad_option arg))"

definition start :: "('m, 'p, 'n, 'q, 'd) environment \<Rightarrow> ULong list \<Rightarrow> string list \<Rightarrow> (Addr \<Rightarrow> UChar) \<Rightarrow> session_error + ('m, 'p, 'n, 'q) session" where
  "start env fresh args mem =
     (case process_args args (default_options fresh) of
        Inl (Bad_option arg) \<Rightarrow> Inl (Assertion_failed arg)
      | Inr o1 \<Rightarrow> bindE (dg_post_clo_init env \<lparr>opts = o1, shadow_dot = new_dot env, shadow_bar = new_bar env, memory = mem,
          tape = tape_static, dqd = dqd_static, console = []\<rparr>) (\<lambda>(_, s). Inr s))"

end
