(* ===== verification/DG_Session_Props.thy ===== *)
theory DG_Session_Props
  imports DG_Session Complex_Main
begin

text \<open>
  Properties of whole runs: an invariant of the state that every client request, every access of instrumented code and the
  client program itself preserve, and that every request comes back, with an error exactly for certain wrong requests. The locale
  \<open>session_env\<close> states what is required of the shadow maps.
\<close>

section \<open>How computations end\<close>

text \<open>
  \<open>ends Q e m s\<close>: run in state \<open>s\<close>, the computation \<open>m\<close> ends with the error \<open>e\<close>, or, if \<open>e\<close> is \<open>None\<close>, successfully and
  in a state that satisfies \<open>Q\<close>. \<open>ends_with\<close> says this for all states that satisfy \<open>Q\<close>.
\<close>

definition ends :: "('s \<Rightarrow> bool) \<Rightarrow> session_error option \<Rightarrow> ('s, session_error, 'a) stE \<Rightarrow> 's \<Rightarrow> bool" where
  "ends Q e m s = (case m s of Inl e' \<Rightarrow> e = Some e' | Inr (_, s') \<Rightarrow> e = None \<and> Q s')"

definition ends_with :: "('s \<Rightarrow> bool) \<Rightarrow> session_error option \<Rightarrow> ('s, session_error, 'a) stE \<Rightarrow> bool" where
  "ends_with Q e m \<longleftrightarrow> (\<forall>s. Q s \<longrightarrow> ends Q e m s)"

abbreviation preserves :: "('s \<Rightarrow> bool) \<Rightarrow> ('s, session_error, 'a) stE \<Rightarrow> bool" where
  "preserves Q \<equiv> ends_with Q None"

named_theorems preserves_intro
  \<open>rules that reduce the preservation of an invariant by a computation to that of its parts\<close>

lemma preserves_return [preserves_intro]: "preserves Q (returnM x)"
  by (simp add: ends_with_def ends_def returnM_def)

lemma ends_fail: "ends_with Q (Some e) (failM e)"
  by (simp add: ends_with_def ends_def failM_def)

lemma ends_bind: "ends Q e (bindM m f) s \<longleftrightarrow> (case m s of Inl e' \<Rightarrow> e = Some e' | Inr (x, s') \<Rightarrow> ends Q e (f x) s')"
  by (auto simp: ends_def bindM_def split: sum.split)

lemma preserves_bind:
  assumes "preserves Q m" "\<And>x. ends_with Q e (f x)"
  shows "ends_with Q e (bindM m f)"
  unfolding ends_with_def
proof (intro allI impI)
  fix s
  assume "Q s"
  then have "ends Q None m s" using assms(1) by (simp add: ends_with_def)
  then show "ends Q e (bindM m f) s"
    unfolding ends_bind using assms(2) by (auto simp: ends_def [of Q None m] ends_with_def split: sum.splits prod.splits)
qed

lemma preserves_seq [preserves_intro]: "preserves Q m \<Longrightarrow> ends_with Q e n \<Longrightarrow> ends_with Q e (seqM m n)"
  unfolding seqM_def by (rule preserves_bind)

lemma preserves_if: "preserves Q m \<Longrightarrow> preserves Q n \<Longrightarrow> preserves Q (if b then m else n)"
  by simp

lemma preserves_pair: "(\<And>x y. preserves Q (f x y)) \<Longrightarrow> preserves Q (case z of (x, y) \<Rightarrow> f x y)"
  by (cases z) simp

lemma preserves_get: "(\<And>x. Q x \<Longrightarrow> ends Q e (f x) x) \<Longrightarrow> ends_with Q e (bindM getM f)"
  by (simp add: ends_with_def ends_def bindM_def getM_def)

lemma preserves_get_all: "(\<And>x. preserves Q (f x)) \<Longrightarrow> preserves Q (bindM getM f)"
  by (rule preserves_get) (simp add: ends_with_def)

lemma preserves_modify: "(\<And>s. Q s \<Longrightarrow> Q (g s)) \<Longrightarrow> preserves Q (modifyM g)"
  by (simp add: ends_with_def ends_def modifyM_def)

lemma preserves_iter [preserves_intro]: "(\<And>x. preserves Q (f x)) \<Longrightarrow> preserves Q (iterM f xs)"
  by (induction xs) (auto intro: preserves_return preserves_seq)

section \<open>The invariant\<close>

text \<open>
  The shadow memories are well formed, the buffers of the tape have their full size in recording mode, the mode is one of the
  three, and the options that only make sense in recording mode are set only there. The options themselves, \<open>o1\<close>, do not change.
\<close>

definition options_ok :: "options \<Rightarrow> bool" where
  "options_ok o1 \<longleftrightarrow> mode o1 \<in> {CHR ''d'', CHR ''b'', CHR ''t''}
     \<and> (typegrind o1 \<or> bar_record_values o1 \<or> recording_stop_indices o1 \<noteq> None \<longrightarrow> mode o1 = CHR ''b'')
     \<and> length (fresh_memory o1) = 4 * unat BUFSIZE"

definition session_inv ::
    "('m, 'p, 'n, 'q, 'd) environment \<Rightarrow> nat \<Rightarrow> nat \<Rightarrow> options \<Rightarrow> ('m, 'p, 'n, 'q) session \<Rightarrow> bool" where
  "session_inv env ld lb o1 s \<longleftrightarrow> opts s = o1 \<and> options_ok o1
     \<and> layer_ok (sm_dot env) ld data (shadow_dot s) \<and> layers_ok (sm_bar env) lb (shadow_bar s)
     \<and> (mode o1 = CHR ''b'' \<longrightarrow> tape_inv (tape_config.truncate o1) (tape s))"

text \<open>
  The errors that requests can end with: a monitor command reads a null pointer if its address is missing, or if the address
  can be parsed and the argument after it is missing; a command string may have no end; and the number of an
  index file may be wrong.
\<close>

definition argument_error :: "string \<Rightarrow> session_error option" where
  "argument_error saveptr = (case strtok_r saveptr '' '' of (None, _) \<Rightarrow> Some Null_pointer | (Some _, _) \<Rightarrow> None)"

definition address_error :: "string \<Rightarrow> (string \<Rightarrow> session_error option) \<Rightarrow> session_error option" where
  "address_error saveptr E =
     (case strtok_r saveptr '' '' of
        (None, _) \<Rightarrow> Some Null_pointer
      | (Some address_str, saveptr) \<Rightarrow> (case parse_Addr address_str of None \<Rightarrow> None | Some _ \<Rightarrow> E saveptr))"

definition monitor_error :: "char \<Rightarrow> string \<Rightarrow> session_error option" where
  "monitor_error md req =
     (let (wcmd, saveptr) = strtok_r req '' ''; key = map_option fst (keyword_id commands wcmd kwd_report_duplicated_matches)
      in if md = CHR ''d'' \<and> key \<in> Some ` {1, 3, 5} \<or> md = CHR ''b'' \<and> key \<in> Some ` {7, 8, 9, 10} then address_error saveptr (\<lambda>_. None)
         else if md = CHR ''d'' \<and> key \<in> Some ` {2, 4, 6} \<or> md = CHR ''t'' \<and> key = Some 11 then address_error saveptr argument_error
         else None)"

definition request_error :: "char \<Rightarrow> (Addr \<Rightarrow> UChar) \<Rightarrow> (nat \<Rightarrow> ULong) \<Rightarrow> session_error option" where
  "request_error md mem arg =
     (if arg 0 = VG_USERREQ__GDB_MONITOR_COMMAND then
        (case c_string mem (2 ^ 64) (arg 1) of None \<Rightarrow> Some Not_a_string | Some req \<Rightarrow> monitor_error md req)
      else if arg 0 = VG_USERREQ__INDEX_TO_FILE \<and> md = CHR ''b'' \<and> arg 1 \<notin> {0, 1} then Some (Assertion_failed ''INDEX_TO_FILE'')
      else None)"

text \<open>
  A run as a transition relation: client requests of any thread, stores of instrumented code to shadow memory in
  each mode, recording of operations, and arbitrary changes of the client's memory by the client itself.
\<close>

inductive session_step :: "('m, 'p, 'n, 'q, 'd::{plus,times,inverse,uminus,numeral}) environment \<Rightarrow> ('m, 'p, 'n, 'q) session \<Rightarrow> ('m, 'p, 'n, 'q) session \<Rightarrow> bool"
  for env where
  request: "dg_handle_client_request env tid arg s = Inr (r, s') \<Longrightarrow> session_step env s s'"
| dot_store: "mode (opts s) = CHR ''d'' \<Longrightarrow> length buffer = 32 \<Longrightarrow> n \<le> 32 \<Longrightarrow>
    dg_dot_x86g_amd64g_dirtyhelper_store (sm_dot env) buffer a n (shadow_dot s) = Some sh \<Longrightarrow> session_step env s (s\<lparr>shadow_dot := sh\<rparr>)"
| dot_storeF80le: "mode (opts s) = CHR ''d'' \<Longrightarrow>
    dg_dot_x86g_amd64g_dirtyhelper_storeF80le (sm_dot env) a x (shadow_dot s) = Some sh \<Longrightarrow> session_step env s (s\<lparr>shadow_dot := sh\<rparr>)"
| bar_store: "mode (opts s) \<noteq> CHR ''d'' \<Longrightarrow> length lo = 32 \<Longrightarrow> length hi = 32 \<Longrightarrow> n \<le> 32 \<Longrightarrow>
    dg_bar_x86g_amd64g_dirtyhelper_store (sm_bar env) (lo, hi) a n (shadow_bar s) = Some sh \<Longrightarrow> session_step env s (s\<lparr>shadow_bar := sh\<rparr>)"
| bar_storeF80le: "mode (opts s) = CHR ''b'' \<Longrightarrow>
    dg_bar_x86g_amd64g_dirtyhelper_storeF80le_Lo (sm_bar env) a x (shadow_bar s) = Some sh1 \<Longrightarrow>
    dg_bar_x86g_amd64g_dirtyhelper_storeF80le_Hi (sm_bar env) a y sh1 = Some sh2 \<Longrightarrow> session_step env s (s\<lparr>shadow_bar := sh2\<rparr>)"
| trick_storeF80le: "mode (opts s) = CHR ''t'' \<Longrightarrow>
    dg_trick_x86g_amd64g_dirtyhelper_storeF80le disabled (sm_bar env) a x y (shadow_bar s) w = Some (sh, w') \<Longrightarrow> session_step env s (s\<lparr>shadow_bar := sh\<rparr>)"
| recording: "mode (opts s) = CHR ''b'' \<Longrightarrow> tape_step (cfg s) (tape s) t \<Longrightarrow> session_step env s (s\<lparr>tape := t\<rparr>)"
| client: "session_step env s (s\<lparr>memory := m\<rparr>)"

lemma inv_print [preserves_intro]: "preserves (session_inv env ld lb o1) (print msg)"
  unfolding print_def by (rule preserves_modify) (simp add: session_inv_def cfg_def)

lemma inv_write_client [preserves_intro]: "preserves (session_inv env ld lb o1) (write_client a bs)"
  unfolding write_client_def by (rule preserves_modify) (simp add: session_inv_def cfg_def)

lemma inv_on_tape:
  assumes "\<And>c t. tape_inv c t \<Longrightarrow> (tape_in_ram c \<longrightarrow> length (fresh_memory c) = 4 * unat BUFSIZE) \<Longrightarrow> tape_inv c (snd (f c t))"
  shows "preserves (session_inv env ld lb o1) (on_tape f)"
proof -
  have "session_inv env ld lb o1 (s\<lparr>tape := t\<rparr>)" if "session_inv env ld lb o1 s" "f (cfg s) (tape s) = (r, t)" for s r t
    using that assms [of "cfg s" "tape s"] by (auto simp: session_inv_def cfg_def options_ok_def tape_config.defs)
  then show ?thesis
    by (auto simp: ends_with_def ends_def on_tape_def bindM_def getM_def seqM_def modifyM_def returnM_def split: prod.split)
qed

lemma inv_tapeAddStatement [preserves_intro]:
  "preserves (session_inv env ld lb o1) (on_tape (\<lambda>c. tapeAddStatement_noActivityAnalysis c tid i1 i2 d1 d2))"
  "preserves (session_inv env ld lb o1) (on_tape (\<lambda>c. if na then tapeAddStatement_noActivityAnalysis c tid i1 i2 d1 d2 else tapeAddStatement c tid i1 i2 d1 d2))"
  by (rule inv_on_tape, simp add: tape_inv_add tapeAddStatement_def)+

lemma inv_valuesAddStatement [preserves_intro]:
  "preserves (session_inv env ld lb o1) (on_tape (\<lambda>c t. ((), if bar_record_values c \<and> P1 then valuesAddStatement v t else t)))"
  by (rule inv_on_tape) (simp add: tape_inv_value)

lemma inv_index_files [preserves_intro]:
  "preserves (session_inv env ld lb o1) (on_tape (\<lambda>_ t. ((), dg_bar_tape_write_input_index i t)))"
  "preserves (session_inv env ld lb o1) (on_tape (\<lambda>_ t. ((), dg_bar_tape_write_output_index i t)))"
  by (rule inv_on_tape, simp add: tape_inv_def dg_bar_tape_write_input_index_def dg_bar_tape_write_output_index_def)+

lemma inv_disable [preserves_intro]:
  "preserves (session_inv env ld lb o1) (on_tape (\<lambda>_ t. (r t, t\<lparr>dg_disable := g t\<rparr>)))"
  by (rule inv_on_tape) (simp add: tape_inv_def)

lemma inv_write_layer [preserves_intro]: "preserves (session_inv env ld lb o1) (write_layer p bs)"
  unfolding write_layer_def by (intro preserves_if preserves_intro)

lemma inv_read_client [preserves_intro]: "preserves Q (read_client a n)" "preserves Q (read_ULong a)"
  unfolding read_ULong_def read_client_def
  by (intro preserves_bind preserves_get_all preserves_return)+

text \<open>What the command line leaves in the options, before the checks of \<^verbatim>\<open>dg_post_clo_init\<close>.\<close>

definition options_mode :: "options \<Rightarrow> bool" where
  "options_mode o1 \<longleftrightarrow> mode o1 \<in> {CHR ''d'', CHR ''b'', CHR ''t''} \<and> recording_stop_indices o1 = None
     \<and> length (fresh_memory o1) = 4 * unat BUFSIZE"

lemma option_mode:
  assumes "dg_process_cmd_line_option clo arg o1 = Inr (r, o2)" "options_mode o1"
  shows "options_mode o2"
proof -
  have bool: "options_mode o2" if "bool_clo clo arg opt f o1 m = Inr (r, o2)" "\<And>b. options_mode (f b o1)" "m = Inr (r, o2) \<Longrightarrow> options_mode o2"
    for opt f m using that by (auto simp: bool_clo_def monad_inv split: option.splits)
  have str: "options_mode o2" if "str_clo clo arg opt f o1 m = Inr (r, o2)" "\<And>b. options_mode (f b o1)" "m = Inr (r, o2) \<Longrightarrow> options_mode o2"
    for opt f m using that by (auto simp: str_clo_def split: option.splits)
  show ?thesis
    using assms unfolding dg_process_cmd_line_option_def
    by (elim bool str) (simp_all add: options_mode_def)
qed

lemma process_args_mode: "process_args args o1 = Inr o2 \<Longrightarrow> options_mode o1 \<Longrightarrow> options_mode o2"
  by (induction args arbitrary: o1) (auto simp: monad_inv dest: option_mode split: if_splits)

text \<open>The state after a successful \<^verbatim>\<open>dg_post_clo_init\<close>.\<close>

lemma require_Inr [monad_inv]: "require b c s = Inr (u, t) \<longleftrightarrow> b \<and> t = s"
  by (auto simp: require_def monad_inv)

lemma post_clo_init_result:
  assumes "dg_post_clo_init env s0 = Inr (u, s)"
  shows "(typegrind (opts s0) \<or> bar_record_values (opts s0) \<or> recording_stop_indices_str (opts s0) \<noteq> None \<longrightarrow> mode (opts s0) = CHR ''b'')
    \<and> opts s = (opts s0)\<lparr>recording_stop_indices := (case recording_stop_indices_str (opts s0) of None \<Rightarrow> recording_stop_indices (opts s0)
        | Some str \<Rightarrow> parse_stop_indices (garbage env) str)\<rparr>
    \<and> shadow_dot s = (if mode (opts s0) = CHR ''d'' then new_dot env else shadow_dot s0)
    \<and> shadow_bar s = (if mode (opts s0) \<in> {CHR ''b'', CHR ''t''} then new_bar env else shadow_bar s0)
    \<and> (mode (opts s0) = CHR ''b'' \<longrightarrow> (\<exists>dir. recording_directory (opts s0) = Some dir
        \<and> dg_bar_tape_initialize (tape_config.truncate (opts s)) (can_open env) dir ((tape s0)\<lparr>dg_disable := (\<lambda>_. 0)\<rparr>) = Inr (tape s)))"
  using assms
  by (auto simp: dg_post_clo_init_def dg_dot_initialize_def dg_bar_initialize_def dg_trick_initialize_def cfg_def monad_inv Let_def
      split: option.splits sum.splits if_splits)

lemma preserves_read:
  assumes "\<And>bs. length bs = n \<Longrightarrow> preserves Q (f bs)"
  shows "preserves Q (bindM (read_client a n) f)"
proof -
  have "preserves Q (bindM getM (\<lambda>s. f (read_bytes (memory s) a n)))" by (rule preserves_get_all, rule assms) simp
  then show ?thesis unfolding read_client_def bindM_assoc bindM_return .
qed

lemma inv_to_double [preserves_intro]: "preserves Q (to_double f80)"
  using f80_to_f64_eight [of f80] unfolding to_double_def by (auto simp: preserves_return eight_bytes_def)

lemma ends_argument:
  "(\<And>t. preserves Q (f t)) \<Longrightarrow> ends_with Q (argument_error saveptr) (bindM (argument saveptr) f)"
  unfolding argument_def argument_error_def
  by (auto simp: ends_with_def ends_def failM_def returnM_def bindM_def split: prod.split option.split)

lemma ends_in_mode:
  assumes "ends_with (session_inv env ld lb o1) e m"
  shows "ends_with (session_inv env ld lb o1) (if mode o1 = c then e else None) (in_mode c t m)"
  unfolding in_mode_def
proof (rule preserves_get)
  fix s
  assume s: "session_inv env ld lb o1 s"
  have "preserves (session_inv env ld lb o1) (seqM (print (Printed t)) (returnM False))" by (intro preserves_intro)
  with s assms show "ends (session_inv env ld lb o1) (if mode o1 = c then e else None)
      (if mode (opts s) \<noteq> c then seqM (print (Printed t)) (returnM False) else m) s"
    by (simp add: ends_with_def session_inv_def)
qed

lemma ends_with_address:
  assumes "\<And>a r. ends_with (session_inv env ld lb o1) (E r) (k a r)"
  shows "ends_with (session_inv env ld lb o1) (address_error saveptr E) (with_address saveptr usage k)"
  unfolding with_address_def address_error_def
  by (auto split: prod.split option.split intro!: ends_fail assms preserves_intro)

lemma inv_when_mode [preserves_intro]: "preserves (session_inv env ld lb o1) m \<Longrightarrow> preserves (session_inv env ld lb o1) (when_mode c m)"
  unfolding when_mode_def by (rule preserves_get_all) (simp add: preserves_return)

lemma inv_new_index [preserves_intro]: "preserves (session_inv env ld lb o1) (request_NEW_INDEX tid na tbi)"
  unfolding request_NEW_INDEX_def by (intro preserves_bind preserves_intro)

locale session_env =
  fixes env :: "('m, 'p, 'n, 'q, 'd::{plus,times,inverse,uminus,numeral}) environment" and ld lb :: nat
  assumes dot_map: "dot_shadow (sm_dot env) ld"
    and bar_map: "bar_shadow (sm_bar env) lb"
    and new_dot_ok: "layer_ok (sm_dot env) ld data (new_dot env)"
    and new_bar_ok: "layers_ok (sm_bar env) lb (new_bar env)"
begin

lemma inv_dot_get [preserves_intro]: "preserves (session_inv env ld lb o1) (dot_get env a sz)"
  unfolding dot_get_def
  by (rule preserves_get) (simp add: ends_def returns_def returnM_def dot_shadow.shadowGet_reads [OF dot_map] session_inv_def)

lemma inv_dot_set:
  assumes "unat sz \<le> length bs"
  shows "preserves (session_inv env ld lb o1) (dot_set env a bs sz)"
  unfolding dot_set_def
proof (rule preserves_get)
  fix s
  assume s: "session_inv env ld lb o1 s"
  then obtain sh where "dg_dot_shadowSet (sm_dot env) (shadow_dot s) a bs sz = Some sh" "layer_ok (sm_dot env) ld data sh"
    using dot_shadow.shadowSet_writes [OF dot_map _ assms] by (fastforce simp: session_inv_def)
  then show "ends (session_inv env ld lb o1) None (bindM (returns (dg_dot_shadowSet (sm_dot env) (shadow_dot s) a bs sz)) (\<lambda>sh. modifyM (\<lambda>s. s\<lparr>shadow_dot := sh\<rparr>))) s"
    using s by (simp add: ends_def returns_def modifyM_def session_inv_def)
qed

lemma inv_bar_get [preserves_intro]: "preserves (session_inv env ld lb o1) (bar_get env a lo hi sz)"
  unfolding bar_get_def
  by (rule preserves_get) (simp add: ends_def returns_def returnM_def bar_shadow.shadowGet_reads [OF bar_map] session_inv_def)

lemma inv_bar_set:
  assumes "\<And>bs. lo = Some bs \<Longrightarrow> length bs = unat sz" "\<And>bs. hi = Some bs \<Longrightarrow> length bs = unat sz"
  shows "preserves (session_inv env ld lb o1) (bar_set env a lo hi sz)"
  unfolding bar_set_def
proof (rule preserves_get)
  fix s
  assume s: "session_inv env ld lb o1 s"
  then have "layers_ok (sm_bar env) lb (shadow_bar s)" by (simp add: session_inv_def)
  from bar_shadow.shadowSet_writes [OF bar_map this, of lo sz hi a] assms
  obtain sh where "dg_bar_shadowSet (sm_bar env) (shadow_bar s) a lo hi sz = Some sh" "layers_ok (sm_bar env) lb sh" by blast
  then show "ends (session_inv env ld lb o1) None (bindM (returns (dg_bar_shadowSet (sm_bar env) (shadow_bar s) a lo hi sz)) (\<lambda>sh. modifyM (\<lambda>s. s\<lparr>shadow_bar := sh\<rparr>))) s"
    using s by (simp add: ends_def returns_def modifyM_def session_inv_def)
qed

lemma ends_monitor_get:
  "ends_with (session_inv env ld lb o1) (if mode o1 = CHR ''d'' then address_error saveptr (\<lambda>_. None) else None) (monitor_get env key saveptr)"
  unfolding monitor_get_def Let_def
  by (intro ends_in_mode ends_with_address preserves_bind inv_dot_get) (simp add: preserves_intro preserves_bind)

lemma ends_monitor_set:
  "ends_with (session_inv env ld lb o1) (if mode o1 = CHR ''d'' then address_error saveptr argument_error else None) (monitor_set env key saveptr)"
  unfolding monitor_set_def Let_def
  by (intro ends_in_mode ends_with_address ends_argument preserves_seq inv_dot_set preserves_return) (simp add: f80_length)

lemma ends_monitor_index:
  "ends_with (session_inv env ld lb o1) (if mode o1 = CHR ''b'' then address_error saveptr (\<lambda>_. None) else None) (monitor_index env tid key saveptr)"
  unfolding monitor_index_def Let_def
  by (intro ends_in_mode ends_with_address preserves_bind inv_bar_get)
    (auto intro!: preserves_intro preserves_bind inv_bar_set split: prod.split)

lemma inv_print_flags [preserves_intro]: "preserves (session_inv env ld lb o1) (print_flags env a n)"
  by (induction n arbitrary: a) (auto intro!: preserves_intro preserves_bind split: prod.split)

lemma ends_monitor_flagsget:
  "ends_with (session_inv env ld lb o1) (if mode o1 = CHR ''t'' then address_error saveptr argument_error else None) (monitor_flagsget env saveptr)"
  unfolding monitor_flagsget_def Let_def by (intro ends_in_mode ends_with_address ends_argument preserves_intro)

lemma keyword_id_total: "\<exists>key out. keyword_id keywords w report = Some (key, out)"
proof -
  have "\<exists>y k'. keyword_pass 1 keywords iw report k = (Some y, k')" for iw k by (simp add: keyword_pass_def Let_def)
  then show ?thesis unfolding keyword_id_def Let_def by (simp split: prod.split option.split) (metis option.distinct(1) prod.inject)
qed

lemma ends_monitor: "ends_with (session_inv env ld lb o1) (monitor_error (mode o1) req) (dg_handle_gdb_monitor_command env tid req)"
proof -
  obtain wcmd saveptr key out where key: "strtok_r req '' '' = (wcmd, saveptr)" "keyword_id commands wcmd kwd_report_duplicated_matches = Some (key, out)"
    by (metis keyword_id_total surj_pair)
  have "ends_with (session_inv env ld lb o1) (monitor_error (mode o1) req)
      (if key = 1 \<or> key = 3 \<or> key = 5 then monitor_get env key saveptr
       else if key = 2 \<or> key = 4 \<or> key = 6 then monitor_set env key saveptr
       else if key = 7 \<or> key = 8 \<or> key = 9 \<or> key = 10 then monitor_index env tid key saveptr
       else if key = 11 then monitor_flagsget env saveptr
       else seqM (print (Printed ''Error in dg_handle_gdb_monitor_command.'')) (returnM False))"
    using ends_monitor_get [of o1 saveptr key] ends_monitor_set [of o1 saveptr key] ends_monitor_index [of o1 saveptr tid key]
      ends_monitor_flagsget [of o1 saveptr]
    by (auto simp: monitor_error_def key preserves_intro split: if_splits)
  then have "ends_with (session_inv env ld lb o1) (monitor_error (mode o1) req)
      (if key = - 2 then returnM True else if key = - 1 then returnM False
       else if key = 0 then seqM (print (Printed ''monitor commands'')) (returnM True)
       else if key = 1 \<or> key = 3 \<or> key = 5 then monitor_get env key saveptr
       else if key = 2 \<or> key = 4 \<or> key = 6 then monitor_set env key saveptr
       else if key = 7 \<or> key = 8 \<or> key = 9 \<or> key = 10 then monitor_index env tid key saveptr
       else if key = 11 then monitor_flagsget env saveptr
       else seqM (print (Printed ''Error in dg_handle_gdb_monitor_command.'')) (returnM False))"
    by (simp add: preserves_intro) (simp add: monitor_error_def key preserves_intro)
  from preserves_seq [OF preserves_iter [OF inv_print] this] show ?thesis
    unfolding dg_handle_gdb_monitor_command_def by (simp only: key Let_def prod.case option.case)
qed

lemma preserves_read_layer:
  assumes "\<And>real. (\<And>bs. real = Some bs \<Longrightarrow> length bs = unat sz) \<Longrightarrow> preserves Q (f real)"
  shows "preserves Q (bindM (read_layer p sz) f)"
proof (cases "p = 0")
  case True
  then show ?thesis using assms [of None] by (simp add: read_layer_def)
next
  case False
  have "preserves Q (bindM (read_client p (unat sz)) (\<lambda>bs. f (Some bs)))" by (rule preserves_read, rule assms) simp
  then show ?thesis using False by (simp add: read_layer_def bindM_assoc)
qed

lemma ends_index_to_file:
  assumes "preserves (session_inv env ld lb o1) m"
  shows "ends_with (session_inv env ld lb o1) (if mode o1 = CHR ''b'' \<and> \<not> b then Some e else None)
    (when_mode CHR ''b'' (if b then m else seqM (print msg) (failM e)))"
  unfolding when_mode_def
proof (rule preserves_get)
  fix s
  assume s: "session_inv env ld lb o1 s"
  have fail: "ends_with (session_inv env ld lb o1) (Some e) (seqM (print msg) (failM e) :: ('m, 'p, 'n, 'q, reply) sessionM)" by (intro preserves_intro ends_fail)
  have mode: "opts s = o1" using s by (simp add: session_inv_def)
  have "ends (session_inv env ld lb o1) None m s" "ends (session_inv env ld lb o1) (Some e) (seqM (print msg) (failM e) :: ('m, 'p, 'n, 'q, reply) sessionM) s"
    "ends (session_inv env ld lb o1) None (no_answer) s"
    using s assms fail preserves_return [of "session_inv env ld lb o1" "\<lparr>handled = Some True, ret = None\<rparr>"] unfolding ends_with_def by blast+
  then show "ends (session_inv env ld lb o1) (if mode o1 = CHR ''b'' \<and> \<not> b then Some e else None)
      (if mode (opts s) \<noteq> CHR ''b'' then no_answer else if b then m else seqM (print msg) (failM e)) s"
    by (simp add: mode)
qed

lemma ends_request:
  assumes s: "session_inv env ld lb o1 s"
  shows "ends (session_inv env ld lb o1) (request_error (mode o1) (memory s) arg) (dg_handle_client_request env tid arg) s"
proof -
  let ?Q = "session_inv env ld lb o1"
  consider (command) "arg 0 = VG_USERREQ__GDB_MONITOR_COMMAND" | (index_file) "arg 0 = VG_USERREQ__INDEX_TO_FILE"
    | (other) "arg 0 \<noteq> VG_USERREQ__GDB_MONITOR_COMMAND" "arg 0 \<noteq> VG_USERREQ__INDEX_TO_FILE" by blast
  then show ?thesis
  proof cases
    case command
    have "ends_with ?Q (monitor_error (mode o1) req)
        (bindM (dg_handle_gdb_monitor_command env tid req) (\<lambda>h. returnM \<lparr>handled = Some h, ret = Some (if h then 1 else 0)\<rparr>))" for req
      using ends_monitor [of o1 req tid]
      by (fastforce simp: ends_with_def ends_def bindM_def returnM_def split: sum.splits prod.splits)
    then show ?thesis using s command
      by (simp add: dg_handle_client_request_def request_error_def ends_bind getM_def ends_with_def ends_def [of _ _ "failM _"] failM_def split: option.split)
  next
    case index_file
    let ?m = "if arg 1 = 0 then bindM (read_ULong (arg 2)) (\<lambda>i. seqM (on_tape (\<lambda>_ t. ((), dg_bar_tape_write_input_index i t))) no_answer)
      else bindM (read_ULong (arg 2)) (\<lambda>i. seqM (on_tape (\<lambda>_ t. ((), dg_bar_tape_write_output_index i t))) no_answer)"
    have "preserves ?Q ?m" by (intro preserves_if preserves_bind preserves_intro)
    from ends_index_to_file [OF this, of "arg 1 = 0 \<or> arg 1 = 1" "Assertion_failed ''INDEX_TO_FILE''" "Printed ''Bad output file specification.''"]
    show ?thesis using s index_file
      by (cases "arg 1 = 0"; cases "arg 1 = 1"; simp add: dg_handle_client_request_def request_error_def request_codes ends_with_def)
  next
    case other
    have "preserves ?Q (when_mode CHR ''d'' (bindM (read_client (arg 2) (unat (ucast (arg 3) :: C_int))) (\<lambda>bs. seqM (dot_set env (arg 1) bs (ucast (arg 3))) (answer 1))))"
      by (intro inv_when_mode preserves_read preserves_seq inv_dot_set preserves_return) simp
    moreover have "preserves ?Q (when_mode CHR ''b'' (bindM (read_layer (arg 2) 4) (\<lambda>lo. bindM (read_layer (arg 2 + 4) 4) (\<lambda>hi. seqM (bar_set env (arg 1) lo hi 4) (answer 1)))))"
      by (intro inv_when_mode preserves_read_layer preserves_seq inv_bar_set preserves_return) simp_all
    moreover have "preserves ?Q (when_mode CHR ''t'' (bindM (read_layer (arg 2) (ucast (arg 4))) (\<lambda>lo. bindM (read_layer (arg 3) (ucast (arg 4))) (\<lambda>hi.
          seqM (bar_set env (arg 1) lo hi (ucast (arg 4))) (returnM \<lparr>handled = None, ret = None\<rparr>)))))"
      by (intro inv_when_mode preserves_read_layer preserves_seq inv_bar_set preserves_return) simp_all
    moreover have "preserves ?Q (bindM getM (\<lambda>s. answer (of_char (mode (opts s)))))"
      by (intro preserves_get_all preserves_intro)
    ultimately have "preserves ?Q (dg_handle_client_request env tid arg)"
      unfolding dg_handle_client_request_def if_not_P [OF other(1)] if_not_P [OF other(2)]
      by (intro preserves_if) (assumption | intro preserves_intro preserves_bind preserves_pair preserves_if)+
    then show ?thesis using s other by (simp add: request_error_def ends_with_def)
  qed
qed

lemma inv_start:
  assumes "start env fresh args mem = Inr s" "length fresh = 4 * unat BUFSIZE"
  shows "session_inv env ld lb (opts s) s"
proof -
  obtain o1 where o1: "process_args args (default_options fresh) = Inr o1"
    using assms(1) by (auto simp: start_def split: sum.splits option_error.splits)
  have mode: "options_mode o1" using process_args_mode [OF o1] by (simp add: default_options_def options_mode_def assms(2))
  obtain u where init: "dg_post_clo_init env \<lparr>opts = o1, shadow_dot = new_dot env, shadow_bar = new_bar env, memory = mem,
      tape = tape_static, dqd = dqd_static, console = []\<rparr> = Inr (u, s)"
    using assms(1) by (auto simp: start_def o1 monad_inv)
  have "tape_inv c t" if "dg_bar_tape_initialize c op dir (tape_static\<lparr>dg_disable := d\<rparr>) = Inr t" for c op dir d t
    using tape_inv_initial [OF that] by (simp add: tape_static_def)
  then show ?thesis
    using post_clo_init_result [OF init] mode new_dot_ok new_bar_ok
    by (auto simp: session_inv_def options_ok_def options_mode_def)
qed

lemma unat_small: "n \<le> 32 \<Longrightarrow> unat (ucast (n :: ULong) :: C_int) \<le> 32"
proof -
  have "unat (ucast n :: C_int) \<le> unat n" by (simp only: unsigned_ucast_eq) (rule take_bit_nat_less_eq_self)
  then show "n \<le> 32 \<Longrightarrow> unat (ucast n :: C_int) \<le> 32" by (simp add: word_le_nat_alt)
qed

lemma inv_step:
  assumes "session_step env s s'" "session_inv env ld lb o1 s"
  shows "session_inv env ld lb o1 s'"
  using assms(1)
proof cases
  case (request tid arg r)
  then show ?thesis using ends_request [OF assms(2), of arg tid] by (simp add: ends_def)
next
  case (dot_store buffer n a sh)
  then show ?thesis
    using dot_shadow.shadowSet_writes [OF dot_map, of "shadow_dot s" "ucast n" buffer a] assms(2)
    by (auto simp: session_inv_def dg_dot_x86g_amd64g_dirtyhelper_store_def unat_small)
next
  case (dot_storeF80le a x sh)
  then show ?thesis
    using dot_shadow.shadowSet_writes [OF dot_map, of "shadow_dot s" 10 "convert_f64le_to_f80le (word_bytes x)" a] assms(2)
    by (auto simp: session_inv_def dg_dot_x86g_amd64g_dirtyhelper_storeF80le_def f80_length)
next
  case (bar_store lo hi n a sh)
  then show ?thesis
    using bar_shadow.shadowSet_writes [OF bar_map, of "shadow_bar s" "Some (take (unat (ucast n :: C_int)) lo)" "ucast n" "Some (take (unat (ucast n :: C_int)) hi)" a] assms(2)
    by (auto simp: session_inv_def dg_bar_x86g_amd64g_dirtyhelper_store_def unat_small Let_def)
next
  case (bar_storeF80le a x sh1 y sh2)
  then show ?thesis
    using bar_shadow.set_Lo [OF bar_map, of "shadow_bar s" "take 4 (word_bytes x)" a] bar_shadow.set_Hi [OF bar_map, of sh1 "take 4 (word_bytes y)" a] assms(2)
    by (auto simp: session_inv_def dg_bar_x86g_amd64g_dirtyhelper_storeF80le_Lo_def dg_bar_x86g_amd64g_dirtyhelper_storeF80le_Hi_def)
next
  case (trick_storeF80le disabled a x y w sh w')
  have stored: "\<exists>sh. dg_bar_shadowSet (sm_bar env) (shadow_bar s) a (Some (replicate 10 c)) (Some (replicate 10 0)) 10 = Some sh \<and> layers_ok (sm_bar env) lb sh" for c
    using bar_shadow.shadowSet_writes [OF bar_map, of "shadow_bar s" "Some (replicate 10 c)" 10 "Some (replicate 10 0)" a] assms(2)
    by (auto simp: session_inv_def)
  from stored [of 0] stored [of "0xff"] trick_storeF80le show ?thesis
    using assms(2) by (auto simp: session_inv_def dg_trick_x86g_amd64g_dirtyhelper_storeF80le_def Let_def split: if_splits)
next
  case (recording t)
  then show ?thesis
    using tape_inv_step [of "cfg s" "tape s" t] assms(2) by (auto simp: session_inv_def cfg_def options_ok_def tape_config.defs)
next
  case (client m)
  then show ?thesis using assms(2) by (simp add: session_inv_def)
qed

lemma inv_reachable:
  assumes "start env fresh args mem = Inr s0" "length fresh = 4 * unat BUFSIZE" "(session_step env)\<^sup>*\<^sup>* s0 s"
  shows "session_inv env ld lb (opts s0) s"
  using assms(3)
proof (induction rule: rtranclp_induct)
  case base
  show ?case by (rule inv_start [OF assms(1,2)])
qed (rule inv_step)

end

section \<open>A concrete environment\<close>

text \<open>
  The environment of the witnesses: the paged shadow maps and, in place of the machine's floating-point numbers, real
  numbers of which the integral part is kept.
\<close>

definition paged_env :: "(Addr set, Addr option, Addr set, Addr option, real) environment" where
  "paged_env = \<lparr>sm_dot = paged, sm_bar = paged, new_dot = paged_dot_init, new_bar = paged_bar_init, can_open = (\<lambda>_. True),
     of_Long = (\<lambda>x. real (unat x)), double_bits = (\<lambda>x. word_of_int \<lfloor>x\<rfloor>), float_of_double = ucast, garbage = (\<lambda>_. 7)\<rparr>"

interpretation paged_session: session_env paged_env "unat leaf_bytes" "unat leaf_bytes"
  by (rule session_env.intro) (simp_all add: paged_env_def paged_dot.dot_shadow_axioms paged_bar.bar_shadow_axioms paged_init_ok)

definition no_memory :: "Addr \<Rightarrow> UChar" where
  "no_memory = (\<lambda>_. 0)"

lemma paged_start_dot:
  "start paged_env (replicate (4 * unat BUFSIZE) 0) [] mem = Inr \<lparr>opts = default_options (replicate (4 * unat BUFSIZE) 0),
     shadow_dot = paged_dot_init, shadow_bar = paged_bar_init, memory = mem, tape = tape_static, dqd = dqd_static, console = []\<rparr>"
  by (simp add: start_def default_options_def dg_post_clo_init_def require_def dg_dot_initialize_def Let_def getM_def bindM_def seqM_def
      returnM_def modifyM_def paged_env_def tape_static_def)

section \<open>Properties\<close>

text \<open>
  C4. The invariant of a run: in every state that is reached from a successful start, with any command line, by client requests of
  any thread with any arguments, stores of instrumented code, recorded operations and changes of the client's memory,
  the shadow memories are well formed, in recording mode the buffers of the tape have their full size and have never been
  accessed beyond it, the mode is one of the three, \<^verbatim>\<open>--typegrind\<close>, \<^verbatim>\<open>--record-values\<close> and the stop
  indices are set only in recording mode, and the options are those of the start.
\<close>

theorem session_invariant:
  assumes "session_env env ld lb" "length fresh = 4 * unat BUFSIZE" "start env fresh args mem = Inr s0" "(session_step env)\<^sup>*\<^sup>* s0 s"
  shows "session_inv env ld lb (opts s0) s"
  by (rule session_env.inv_reachable [OF assms(1,3,2,4)])

theorem session_invariant_witness:
  "\<exists>s0. start paged_env (replicate (4 * unat BUFSIZE) 0) [] no_memory = Inr s0
     \<and> session_inv paged_env (unat leaf_bytes) (unat leaf_bytes) (opts s0) (s0\<lparr>memory := (\<lambda>_. 3)\<rparr>)"
proof -
  obtain s0 where s0: "start paged_env (replicate (4 * unat BUFSIZE) 0) [] no_memory = Inr s0" using paged_start_dot by blast
  have "(session_step paged_env)\<^sup>*\<^sup>* s0 (s0\<lparr>memory := (\<lambda>_. 3)\<rparr>)" by (rule r_into_rtranclp) (rule session_step.client)
  from session_invariant [OF paged_session.session_env_axioms length_replicate s0 this] show ?thesis using s0 by blast
qed

text \<open>
  C13. Requests come back: in every reachable state, every client request, monitor commands included, ends. It ends with an error in
  exactly these cases: the string of a monitor command has no end; the command needs an address that is missing, or
  an argument that is missing after an address that can be parsed (a null pointer is read); an index
  is to be written in recording mode to a file that is neither the input nor the output file (an assertion fails). In
  particular no access to shadow memory loops, and no conversion of an 80-bit number fails.
\<close>

theorem requests_return:
  assumes "session_env env ld lb" "length fresh = 4 * unat BUFSIZE" "start env fresh args mem = Inr s0" "(session_step env)\<^sup>*\<^sup>* s0 s"
  shows "case request_error (mode (opts s0)) (memory s) arg of
      None \<Rightarrow> \<exists>r s'. dg_handle_client_request env tid arg s = Inr (r, s')
    | Some e \<Rightarrow> dg_handle_client_request env tid arg s = Inl e"
  using session_env.ends_request [OF assms(1) session_env.inv_reachable [OF assms(1,3,2,4)], of arg tid]
  by (auto simp: ends_def split: sum.splits option.splits)

theorem requests_return_witness:
  "\<exists>s0. start paged_env (replicate (4 * unat BUFSIZE) 0) [] no_memory = Inr s0
     \<and> (\<exists>r s'. dg_handle_client_request paged_env 1 (\<lambda>_. VG_USERREQ__GET_DOTVALUE) s0 = Inr (r, s'))"
proof -
  obtain s0 where s0: "start paged_env (replicate (4 * unat BUFSIZE) 0) [] no_memory = Inr s0" using paged_start_dot by blast
  have "request_error (mode (opts s0)) (memory s0) (\<lambda>_. VG_USERREQ__GET_DOTVALUE) = None" by (simp add: request_error_def request_codes)
  with requests_return [OF paged_session.session_env_axioms length_replicate s0 rtranclp.rtrancl_refl, where tid = 1 and arg = "\<lambda>_. VG_USERREQ__GET_DOTVALUE"] s0
  show ?thesis by simp
qed

end
