(* ===== verification/DG_Requests.thy ===== *)
theory DG_Requests
  imports DG_Session_Props
begin

text \<open>
  What single client requests and monitor commands compute, and sequences of them: rewrite rules that run the
  monadic code of a session, and the properties that a program under test or a user of the debugger relies on.
\<close>

section \<open>Running the code of a session\<close>

lemma run_return: "bindM (returnM x) f s = f x s"
  by (simp add: bindM_def returnM_def)

lemma run_get: "bindM getM f s = f s s"
  by (simp add: bindM_def getM_def)

lemma run_modify: "bindM (modifyM g) f s = f () (g s)"
  by (simp add: bindM_def modifyM_def)

lemma run_bind: "bindM (bindM m f) g s = bindM m (\<lambda>x. bindM (f x) g) s"
  by (simp add: bindM_assoc)

lemmas run_simps = run_return run_get run_modify run_bind seqM_def

lemma read_run: "bindM (read_client a n) f s = f (read_bytes (memory s) a n) s" "bindM (read_ULong a) g s = g (bytes_word (read_bytes (memory s) a 8)) s"
  by (simp_all add: read_client_def read_ULong_def run_simps)

lemma write_run: "bindM (write_client a bs) f s = f () (s\<lparr>memory := write_bytes (memory s) a bs\<rparr>)"
  by (simp add: write_client_def run_simps)

lemma print_run: "bindM (print msg) f s = f () (s\<lparr>console := console s @ [msg]\<rparr>)"
  by (simp add: print_def run_simps)

lemma tape_run: "bindM (on_tape f) g s = (case f (cfg s) (tape s) of (r, t) \<Rightarrow> g r (s\<lparr>tape := t\<rparr>))"
  by (simp add: on_tape_def run_simps split: prod.split)

lemma mode_run: "mode (opts s) = c \<Longrightarrow> when_mode c m s = m s" "mode (opts s) = c \<Longrightarrow> in_mode c t m' s = m' s"
  by (simp_all add: when_mode_def in_mode_def run_simps)

lemmas session_run = run_simps read_run write_run print_run tape_run mode_run

text \<open>The argument array of a request.\<close>

definition args :: "ULong list \<Rightarrow> nat \<Rightarrow> ULong" where
  "args xs i = (if i < length xs then xs ! i else 0)"

context session_env
begin

lemma dot_get_run: "layer_ok (sm_dot env) ld data (shadow_dot s) \<Longrightarrow>
    bindM (dot_get env a sz) f s = f (read_bytes (layer_mem (sm_dot env) data (shadow_dot s)) a (unat sz)) s"
  by (simp add: dot_get_def run_simps returns_def dot_shadow.shadowGet_reads [OF dot_map])

lemma dot_set_run:
  assumes "layer_ok (sm_dot env) ld data (shadow_dot s)" "length bs = unat sz"
  shows "\<exists>sh. layer_ok (sm_dot env) ld data sh \<and> layer_mem (sm_dot env) data sh = write_bytes (layer_mem (sm_dot env) data (shadow_dot s)) a bs
    \<and> dot_set env a bs sz s = Inr ((), s\<lparr>shadow_dot := sh\<rparr>)"
proof -
  obtain sh where "dg_dot_shadowSet (sm_dot env) (shadow_dot s) a bs sz = Some sh" "layer_ok (sm_dot env) ld data sh"
    "layer_mem (sm_dot env) data sh = write_bytes (layer_mem (sm_dot env) data (shadow_dot s)) a bs"
    using dot_shadow.shadowSet_writes [OF dot_map assms(1), of sz bs a] assms(2) by auto
  then show ?thesis by (intro exI [of _ sh]) (simp add: dot_set_def run_simps returns_def modifyM_def)
qed

lemma dotvalue_roundtrip:
  assumes "session_inv env ld lb o1 s" "mode o1 = CHR ''d''"
  shows "\<exists>s1 s2. dg_handle_client_request env tid (args [VG_USERREQ__SET_DOTVALUE, addr, daddr, n]) s = Inr (\<lparr>handled = Some True, ret = Some 1\<rparr>, s1)
    \<and> dg_handle_client_request env tid' (args [VG_USERREQ__GET_DOTVALUE, addr, daddr', n]) s1 = Inr (\<lparr>handled = Some True, ret = Some 1\<rparr>, s2)
    \<and> memory s2 = write_bytes (memory s) daddr' (read_bytes (memory s) daddr (unat (ucast n :: C_int)))"
proof -
  let ?bs = "read_bytes (memory s) daddr (unat (ucast n :: C_int))"
  have "unat (ucast n :: C_int) < 2 ^ LENGTH(32)" by (rule unsigned_less)
  then have len: "length ?bs \<le> 2 ^ 64" by simp
  obtain sh where sh: "layer_ok (sm_dot env) ld data sh" "layer_mem (sm_dot env) data sh = write_bytes (layer_mem (sm_dot env) data (shadow_dot s)) addr ?bs"
    "dot_set env addr ?bs (ucast n) s = Inr ((), s\<lparr>shadow_dot := sh\<rparr>)"
    using dot_set_run [of s ?bs "ucast n" addr] assms by (auto simp: session_inv_def)
  have o1: "mode (opts s) = CHR ''d''" using assms by (simp add: session_inv_def)
  have "read_bytes (layer_mem (sm_dot env) data sh) addr (unat (ucast n :: C_int)) = ?bs"
    using read_write_bytes [OF len] by (simp add: sh(2))
  then show ?thesis
    using o1 sh(1) by (simp add: dg_handle_client_request_def request_codes args_def session_run sh(3) dot_get_run returnM_def)
qed


end

section \<open>Disabled threads\<close>

lemma read_back: "bytes_word (read_bytes (write_bytes m a (word_bytes x)) a 8) = x"
  using read_write_bytes [of "word_bytes x" m a] by simp

lemma new_index_disabled:
  assumes "dg_disable (tape s) tid \<noteq> 0" "mode (opts s) = CHR ''b''" "\<not> typegrind (opts s)"
    "arg 0 \<in> {VG_USERREQ__NEW_INDEX, VG_USERREQ__NEW_INDEX_NOACTIVITYANALYSIS}"
  shows "\<exists>m. dg_handle_client_request env tid arg s = Inr (\<lparr>handled = Some True, ret = Some 1\<rparr>, s\<lparr>memory := m\<rparr>)
    \<and> m = write_bytes (memory s) (bytes_word (read_bytes (memory s) (arg 1 + 32) 8)) (word_bytes 0)"
proof -
  have "tapeAddStatement_noActivityAnalysis (cfg s) tid i1 i2 d1 d2 (tape s) = (0, tape s)"
    "tapeAddStatement (cfg s) tid i1 i2 d1 d2 (tape s) = (0, tape s)" for i1 i2 d1 d2
    using assms by (simp_all add: tapeAddStatement_noActivityAnalysis_def tapeAddStatement_def cfg_def tape_config.defs)
  then have none: "(if na then tapeAddStatement_noActivityAnalysis (cfg s) tid i1 i2 d1 d2 else tapeAddStatement (cfg s) tid i1 i2 d1 d2) (tape s) = (0, tape s)"
    for na i1 i2 d1 d2 by simp
  have run: "request_NEW_INDEX tid na tbi s = Inr (\<lparr>handled = Some True, ret = Some 1\<rparr>,
      s\<lparr>memory := write_bytes (memory s) (bytes_word (read_bytes (memory s) (tbi + 32) 8)) (word_bytes 0)\<rparr>)" for na tbi
    by (simp add: request_NEW_INDEX_def session_run none read_back returnM_def)
  show ?thesis using assms(2,4) by (auto simp: dg_handle_client_request_def request_codes mode_run run)
qed

fun run_requests :: "('m, 'p, 'n, 'q, 'd::{plus,times,inverse,uminus,numeral}) environment \<Rightarrow> nat \<Rightarrow> (nat \<Rightarrow> ULong) list \<Rightarrow> ('m, 'p, 'n, 'q, reply list) sessionM" where
  "run_requests env tid [] = returnM []"
| "run_requests env tid (arg # rest) = bindM (dg_handle_client_request env tid arg) (\<lambda>r. bindM (run_requests env tid rest) (\<lambda>rs. returnM (r # rs)))"

lemma new_indices_disabled:
  assumes "dg_disable (tape s) tid \<noteq> 0" "mode (opts s) = CHR ''b''" "\<not> typegrind (opts s)"
    "\<forall>arg\<in>set reqs. arg 0 \<in> {VG_USERREQ__NEW_INDEX, VG_USERREQ__NEW_INDEX_NOACTIVITYANALYSIS}"
  shows "\<exists>rs m. run_requests env tid reqs s = Inr (rs, s\<lparr>memory := m\<rparr>)"
  using assms
proof (induction reqs arbitrary: s)
  case Nil
  show ?case by (intro exI [of _ "[]"] exI [of _ "memory s"]) (simp add: returnM_def)
next
  case (Cons arg reqs)
  then obtain m where "dg_handle_client_request env tid arg s = Inr (\<lparr>handled = Some True, ret = Some 1\<rparr>, s\<lparr>memory := m\<rparr>)"
    using new_index_disabled [of s tid arg env] by auto
  moreover obtain rs m' where "run_requests env tid reqs (s\<lparr>memory := m\<rparr>) = Inr (rs, s\<lparr>memory := m'\<rparr>)"
    using Cons.IH [of "s\<lparr>memory := m\<rparr>"] Cons.prems by auto
  ultimately show ?case by (auto simp: returnM_def)
qed

lemma disable_run:
  "dg_handle_client_request env tid (args [VG_USERREQ__DISABLE, p, q]) s = Inr (\<lparr>handled = Some True, ret = Some (dg_disable (tape s) tid)\<rparr>,
     s\<lparr>tape := (tape s)\<lparr>dg_disable := (dg_disable (tape s))(tid := dg_disable (tape s) tid + (p - q))\<rparr>\<rparr>)"
  by (simp add: dg_handle_client_request_def request_codes args_def session_run returnM_def)

lemma run_requests_append:
  "run_requests env tid (xs @ ys) s = bindM (run_requests env tid xs) (\<lambda>rs. bindM (run_requests env tid ys) (\<lambda>rs'. returnM (rs @ rs'))) s"
  by (induction xs arbitrary: s) (simp_all add: bindM_def returnM_def split: sum.split)

lemma disable_bracket_run:
  assumes "mode (opts s) = CHR ''b''" "\<not> typegrind (opts s)" "dg_disable (tape s) tid + 1 \<noteq> 0"
    "\<forall>arg\<in>set reqs. arg 0 \<in> {VG_USERREQ__NEW_INDEX, VG_USERREQ__NEW_INDEX_NOACTIVITYANALYSIS}"
  shows "\<exists>rs m. run_requests env tid (args [VG_USERREQ__DISABLE, 1, 0] # reqs @ [args [VG_USERREQ__DISABLE, 0, 1]]) s = Inr (rs, s\<lparr>memory := m\<rparr>)
     \<and> ret (hd rs) = Some (dg_disable (tape s) tid) \<and> ret (last rs) = Some (dg_disable (tape s) tid + 1)"
proof -
  define s1 where "s1 = s\<lparr>tape := (tape s)\<lparr>dg_disable := (dg_disable (tape s))(tid := dg_disable (tape s) tid + 1)\<rparr>\<rparr>"
  have "dg_disable (tape s1) tid \<noteq> 0" "mode (opts s1) = CHR ''b''" "\<not> typegrind (opts s1)"
    using assms(1-3) by (simp_all add: s1_def)
  from new_indices_disabled [OF this assms(4), of env] obtain rs m where rs: "run_requests env tid reqs s1 = Inr (rs, s1\<lparr>memory := m\<rparr>)" by blast
  have "s1\<lparr>memory := m, tape := (tape s1)\<lparr>dg_disable := (dg_disable (tape s1))(tid := dg_disable (tape s1) tid - 1)\<rparr>\<rparr> = s\<lparr>memory := m\<rparr>"
    by (simp add: s1_def fun_upd_idem)
  then have "run_requests env tid (reqs @ [args [VG_USERREQ__DISABLE, 0, 1]]) s1 =
      Inr (rs @ [\<lparr>handled = Some True, ret = Some (dg_disable (tape s) tid + 1)\<rparr>], s\<lparr>memory := m\<rparr>)"
    using rs by (simp add: run_requests_append run_bind disable_run) (simp add: returnM_def s1_def)
  then show ?thesis by (auto simp: disable_run s1_def [symmetric] returnM_def)
qed


section \<open>Monitor commands\<close>

text \<open>A word of a command.\<close>

definition word_ok :: "string \<Rightarrow> bool" where
  "word_ok w \<longleftrightarrow> w \<noteq> [] \<and> CHR '' '' \<notin> set w"

lemma strspn_word: "word_ok w \<Longrightarrow> strspn (w @ r) '' '' = 0"
  by (cases w) (auto simp: word_ok_def)

lemma strpbrk_word: "CHR '' '' \<notin> set w \<Longrightarrow> strpbrk (w @ r) '' '' = strpbrk r '' ''"
  by (induction w) auto

lemma strtok_word: "word_ok w \<Longrightarrow> strtok_r (w @ CHR '' '' # r) '' '' = (Some w, r)" "word_ok w \<Longrightarrow> strtok_r w '' '' = (Some w, [])"
  using strspn_word [of w "[]"] strpbrk_word [of w "[]"]
  by (auto simp: strtok_r_def strspn_word strpbrk_word word_ok_def)

lemma strtok_end: "strtok_r [] '' '' = (None, [])"
  by (simp add: strtok_r_def)

lemma command_words: "strtok_all '' '' commands =
    [''help'', ''get'', ''set'', ''fget'', ''fset'', ''lget'', ''lset'', ''index'', ''mark'', ''fmark'', ''lmark'', ''flagsget'']"
  by (simp add: strtok_all_fields commands_def)

lemma keyword_command:
  assumes "CHR 0x00 \<notin> set w"
  defines "kws \<equiv> [''help'', ''get'', ''set'', ''fget'', ''fset'', ''lget'', ''lset'', ''index'', ''mark'', ''fmark'', ''lmark'', ''flagsget'']"
  assumes "positions (\<lambda>kw. kw = w) kws = [i]" "length (positions (strict_prefix w) kws) \<le> 1"
  shows "keyword_id commands (Some w) kwd_report_duplicated_matches = Some (int i, [])"
proof -
  have "filter (\<lambda>t. t \<noteq> []) (split_fields {CHR '' ''} commands) = kws"
    using command_words by (simp add: kws_def strtok_all_fields)
  moreover have "CHR 0x00 \<notin> set commands" by (simp add: commands_def)
  ultimately have "map_option fst (keyword_id commands (Some w) kwd_report_duplicated_matches) = Some (int i)"
    using keyword_id_result [OF _ assms(1), of commands] assms(3,4) by (simp add: Let_def last_match_def)
  then show ?thesis by (rule keyword_id_quiet) simp
qed

lemma keyword_get: "keyword_id commands (Some ''get'') kwd_report_duplicated_matches = Some (1, [])"
  using keyword_command [of "''get''" 1] by (simp add: positions_def upt_rec strict_prefix_def)

lemma keyword_set: "keyword_id commands (Some ''set'') kwd_report_duplicated_matches = Some (2, [])"
  using keyword_command [of "''set''" 2] by (simp add: positions_def upt_rec strict_prefix_def)

lemma monitor_get_run:
  assumes "strtok_r req '' '' = (Some ''get'', saveptr)"
  shows "dg_handle_gdb_monitor_command env tid req s = monitor_get env 1 saveptr s"
  using assms by (simp add: dg_handle_gdb_monitor_command_def keyword_get run_simps)

lemma monitor_set_run:
  assumes "strtok_r req '' '' = (Some ''set'', saveptr)"
  shows "dg_handle_gdb_monitor_command env tid req s = monitor_set env 2 saveptr s"
  using assms by (simp add: dg_handle_gdb_monitor_command_def keyword_set run_simps)

context session_env
begin

lemma monitor_roundtrip:
  assumes "session_inv env ld lb o1 s" "mode o1 = CHR ''d''" "word_ok a_str" "parse_Addr a_str = Some (a, r)" "word_ok v_str"
  shows "\<exists>s1 s2. dg_handle_gdb_monitor_command env tid (''set '' @ a_str @ CHR '' '' # v_str) s = Inr (True, s1)
    \<and> dg_handle_gdb_monitor_command env tid (''get '' @ a_str) s1 = Inr (True, s2)
    \<and> console s2 = console s @ [Printed ''dot value: '', Dot_double (double_bits env (fst (strtod (of_Long env) v_str)))]"
proof -
  let ?d = "double_bits env (fst (strtod (of_Long env) v_str))"
  obtain sh where sh: "layer_ok (sm_dot env) ld data sh" "layer_mem (sm_dot env) data sh = write_bytes (layer_mem (sm_dot env) data (shadow_dot s)) a (word_bytes ?d)"
    "dot_set env a (word_bytes ?d) 8 s = Inr ((), s\<lparr>shadow_dot := sh\<rparr>)"
    using dot_set_run [of s "word_bytes ?d" 8 a] assms(1) by (auto simp: session_inv_def)
  have o1: "mode (opts s) = CHR ''d''" using assms(1,2) by (simp add: session_inv_def)
  have w: "word_ok ''get''" "word_ok ''set''" by (simp_all add: word_ok_def)
  have set: "strtok_r (''set '' @ a_str @ CHR '' '' # v_str) '' '' = (Some ''set'', a_str @ CHR '' '' # v_str)"
    and get: "strtok_r (''get '' @ a_str) '' '' = (Some ''get'', a_str)"
    using strtok_word(1) [OF w(2)] strtok_word(1) [OF w(1)] by simp_all
  have "dg_handle_gdb_monitor_command env tid (''set '' @ a_str @ CHR '' '' # v_str) s = Inr (True, s\<lparr>shadow_dot := sh\<rparr>)"
    unfolding monitor_set_run [OF set] monitor_set_def
    using o1 sh(3) by (simp add: session_run with_address_def strtok_word [OF assms(3)] assms(4) argument_def strtok_word [OF assms(5)] returnM_def)
  moreover have "bytes_word (read_bytes (layer_mem (sm_dot env) data sh) a 8) = ?d" by (simp add: sh(2) read_back)
  then have "dg_handle_gdb_monitor_command env tid (''get '' @ a_str) (s\<lparr>shadow_dot := sh\<rparr>) =
      Inr (True, s\<lparr>shadow_dot := sh, console := console s @ [Printed ''dot value: '', Dot_double ?d]\<rparr>)"
    unfolding monitor_get_run [OF get] monitor_get_def
    using o1 sh(1) by (simp add: session_run with_address_def strtok_word [OF assms(3)] assms(4) dot_get_run returnM_def)
  ultimately show ?thesis by simp
qed

end

lemma monitor_missing: "mode (opts s) = CHR ''d'' \<Longrightarrow> dg_handle_gdb_monitor_command env tid ''get'' s = Inl Null_pointer"
proof -
  assume m: "mode (opts s) = CHR ''d''"
  have "strtok_r ''get'' '' '' = (Some ''get'', [])" by (rule strtok_word) (simp add: word_ok_def)
  from monitor_get_run [OF this, of env tid s] show ?thesis using m by (simp add: monitor_get_def mode_run with_address_def strtok_end failM_def)
qed


section \<open>Starting a recording\<close>

lemma record_args:
  "process_args [''--record='' @ dir, ''--record-values=yes'', ''--record-stop='' @ stops] o1 =
     Inr (o1\<lparr>recording_directory := Some dir, mode := CHR ''b'', bar_record_values := True, recording_stop_indices_str := Some stops\<rparr>)"
proof -
  have r: "dg_process_cmd_line_option cloP (''--record='' @ dir) o1 = Inr (True, o1\<lparr>recording_directory := Some dir, mode := CHR ''b''\<rparr>)" for o1
    by (simp add: dg_process_cmd_line_option_def clo_rules)
  have v: "dg_process_cmd_line_option cloP ''--record-values=yes'' o1 = Inr (True, o1\<lparr>bar_record_values := True\<rparr>)" for o1
    using clo_rules(3) [of "''--record-values''" "\<lambda>b opts. opts\<lparr>bar_record_values := b\<rparr>" o1]
    by (simp add: dg_process_cmd_line_option_def clo_rules(1,2))
  have st: "dg_process_cmd_line_option cloP (''--record-stop='' @ stops) o1 = Inr (True, o1\<lparr>recording_stop_indices_str := Some stops\<rparr>)" for o1
    by (simp add: dg_process_cmd_line_option_def clo_rules)
  show ?thesis unfolding process_args.simps r v st bindE_simps by simp
qed

lemma start_recording_run:
  assumes "\<And>f. can_open env (dir @ f)" "0 \<notin> set is"
  shows "\<exists>s. start env fresh [''--record='' @ dir, ''--record-values=yes'', ''--record-stop='' @ comma_list is] mem = Inr s
    \<and> mode (opts s) = CHR ''b'' \<and> represents (cfg s) tid empty_recording (tape s) \<and> shadow_bar s = new_bar env
    \<and> (\<exists>xs. recording_stop_indices (cfg s) = Some xs \<and> (\<forall>n. stop_messages n xs = replicate (count_list is n) (StopIndexReached n)))"
proof -
  obtain xs where xs: "parse_stop_indices (garbage env) (comma_list is) = Some xs" "\<And>n. stop_messages n xs = replicate (count_list is n) (StopIndexReached n)"
    using stop_indices_reported [OF assms(2)] by blast
  define o1 where "o1 = (default_options fresh)\<lparr>recording_directory := Some dir, mode := CHR ''b'', bar_record_values := True,
    recording_stop_indices_str := Some (comma_list is), recording_stop_indices := Some xs\<rparr>"
  define c where "c = tape_config.truncate o1"
  have c: "\<not> typegrind c" "\<not> tape_in_ram c" "bar_record_values c" "recording_stop_indices c = Some xs"
    by (simp_all add: c_def o1_def default_options_def tape_config.defs)
  obtain t where t: "dg_bar_tape_initialize c (can_open env) dir tape_static = Inr t"
    using assms(1) by (simp add: dg_bar_tape_initialize_def)
  have static: "tape_static\<lparr>dg_disable := (\<lambda>_. 0)\<rparr> = tape_static" by (simp add: tape_static_def)
  have "start env fresh [''--record='' @ dir, ''--record-values=yes'', ''--record-stop='' @ comma_list is] mem =
      Inr \<lparr>opts = o1, shadow_dot = new_dot env, shadow_bar = new_bar env, memory = mem, tape = t, dqd = dqd_static, console = []\<rparr>"
    using t unfolding start_def record_args c_def o1_def
    by (simp add: dg_post_clo_init_def require_def run_simps xs(1) default_options_def Let_def dg_bar_initialize_def cfg_def static modifyM_def)
  then show ?thesis using represents_initial [OF t c(1,2)] c(4) xs(2) by (simp add: cfg_def c_def o1_def)
qed

section \<open>Properties\<close>

text \<open>
  C20. Seeding and reading dot values: in forward mode, a client that sets the dot value of a variable from a buffer and
  then gets it into another buffer finds there what the first buffer held, for every alignment and overlap; both requests report success, and no other
  byte of the client's memory changes. The size is truncated to an \<^verbatim>\<open>int\<close>: the number of bytes is the size
  modulo \<open>2 ^ 32\<close>, so that a size of \<open>2 ^ 32\<close> copies nothing.
\<close>

theorem set_get_dotvalue:
  assumes "session_env env ld lb" "session_inv env ld lb o1 s" "mode o1 = CHR ''d''"
  shows "\<exists>s1 s2. dg_handle_client_request env tid (args [VG_USERREQ__SET_DOTVALUE, addr, daddr, n]) s = Inr (\<lparr>handled = Some True, ret = Some 1\<rparr>, s1)
    \<and> dg_handle_client_request env tid' (args [VG_USERREQ__GET_DOTVALUE, addr, daddr', n]) s1 = Inr (\<lparr>handled = Some True, ret = Some 1\<rparr>, s2)
    \<and> memory s2 = write_bytes (memory s) daddr' (read_bytes (memory s) daddr (unat (ucast n :: C_int)))"
  by (rule session_env.dotvalue_roundtrip [OF assms])

text \<open>The initial session of the witnesses.\<close>

definition paged_dot_session :: "(Addr set, Addr option, Addr set, Addr option) session" where
  "paged_dot_session = \<lparr>opts = default_options (replicate (4 * unat BUFSIZE) 0),
     shadow_dot = paged_dot_init, shadow_bar = paged_bar_init, memory = no_memory, tape = tape_static, dqd = dqd_static, console = []\<rparr>"

lemma paged_dot_session_inv: "session_inv paged_env (unat leaf_bytes) (unat leaf_bytes) (opts paged_dot_session) paged_dot_session"
  by (rule paged_session.inv_start [OF paged_start_dot [of no_memory, folded paged_dot_session_def] length_replicate])

lemma paged_dot_session_mode: "mode (opts paged_dot_session) = CHR ''d''"
  by (simp add: paged_dot_session_def default_options_def)

theorem set_get_dotvalue_witness:
  "\<exists>s1 s2. dg_handle_client_request paged_env 1 (args [VG_USERREQ__SET_DOTVALUE, 0x3FFFE, 64, 8]) paged_dot_session = Inr (\<lparr>handled = Some True, ret = Some 1\<rparr>, s1)
    \<and> dg_handle_client_request paged_env 2 (args [VG_USERREQ__GET_DOTVALUE, 0x3FFFE, 128, 8]) s1 = Inr (\<lparr>handled = Some True, ret = Some 1\<rparr>, s2)"
  using set_get_dotvalue [OF paged_session.session_env_axioms paged_dot_session_inv paged_dot_session_mode] by blast

text \<open>
  C21. Brackets of \<^verbatim>\<open>DG_DISABLE(1,0)\<close> and \<^verbatim>\<open>DG_DISABLE(0,1)\<close>: in recording mode without typegrind, any requests for new indices
  inside a bracket leave the tape, its files and the counters of all threads as they were, also if the bracket is nested in others;
  the two requests of the bracket return the counter before and inside the bracket, provided that it does not overflow.
\<close>

theorem disable_bracket:
  assumes "mode (opts s) = CHR ''b''" "\<not> typegrind (opts s)" "dg_disable (tape s) tid + 1 \<noteq> 0"
    "\<forall>arg\<in>set reqs. arg 0 \<in> {VG_USERREQ__NEW_INDEX, VG_USERREQ__NEW_INDEX_NOACTIVITYANALYSIS}"
  shows "\<exists>rs m. run_requests env tid (args [VG_USERREQ__DISABLE, 1, 0] # reqs @ [args [VG_USERREQ__DISABLE, 0, 1]]) s = Inr (rs, s\<lparr>memory := m\<rparr>)
     \<and> ret (hd rs) = Some (dg_disable (tape s) tid) \<and> ret (last rs) = Some (dg_disable (tape s) tid + 1)"
  by (rule disable_bracket_run [OF assms])

theorem disable_bracket_witness:
  "\<exists>rs m. run_requests paged_env 3 [args [VG_USERREQ__DISABLE, 1, 0], args [VG_USERREQ__NEW_INDEX, 64], args [VG_USERREQ__DISABLE, 0, 1]]
       (paged_dot_session\<lparr>opts := (opts paged_dot_session)\<lparr>mode := CHR ''b''\<rparr>\<rparr>) =
       Inr (rs, paged_dot_session\<lparr>opts := (opts paged_dot_session)\<lparr>mode := CHR ''b''\<rparr>, memory := m\<rparr>)
     \<and> ret (hd rs) = Some 0 \<and> ret (last rs) = Some 1"
  using disable_bracket [of "paged_dot_session\<lparr>opts := (opts paged_dot_session)\<lparr>mode := CHR ''b''\<rparr>\<rparr>" 3 "[args [VG_USERREQ__NEW_INDEX, 64]]" paged_env]
  by (simp add: paged_dot_session_def default_options_def tape_static_def args_def)

text \<open>
  C35. The debugger in forward mode: after \<^verbatim>\<open>set <addr> <val>\<close>, the command \<^verbatim>\<open>get <addr>\<close> prints the number that was
  read from the value; but \<^verbatim>\<open>get\<close> without an address reads a null pointer instead of printing its usage.
\<close>

theorem monitor_set_get:
  assumes "session_env env ld lb" "session_inv env ld lb o1 s" "mode o1 = CHR ''d''"
    "word_ok a_str" "parse_Addr a_str = Some (a, r)" "word_ok v_str"
  shows "(\<exists>s1 s2. dg_handle_gdb_monitor_command env tid (''set '' @ a_str @ CHR '' '' # v_str) s = Inr (True, s1)
    \<and> dg_handle_gdb_monitor_command env tid (''get '' @ a_str) s1 = Inr (True, s2)
    \<and> console s2 = console s @ [Printed ''dot value: '', Dot_double (double_bits env (fst (strtod (of_Long env) v_str)))])
    \<and> dg_handle_gdb_monitor_command env tid ''get'' s = Inl Null_pointer"
  using session_env.monitor_roundtrip [OF assms] monitor_missing [of s] assms(2,3) by (simp add: session_inv_def)

lemma parse_0x40: "parse_Addr ''0x40'' = Some (0x40, [])"
  by (simp add: parse_Addr_def deref_def isHex_def fromHex_def Let_def)

theorem monitor_set_get_witness:
  "(\<exists>s1 s2. dg_handle_gdb_monitor_command paged_env 1 ''set 0x40 12'' paged_dot_session = Inr (True, s1)
     \<and> dg_handle_gdb_monitor_command paged_env 1 ''get 0x40'' s1 = Inr (True, s2)
     \<and> console s2 = [Printed ''dot value: '', Dot_double 12])
   \<and> dg_handle_gdb_monitor_command paged_env 1 ''get'' paged_dot_session = Inl Null_pointer"
proof -
  have "fst (strtod (of_Long paged_env) ''12'') = 12"
    by (simp add: strtod_def paged_env_def deref_def isspace_def is_dec_digit_def Let_def)
  then have "double_bits paged_env (fst (strtod (of_Long paged_env) ''12'')) = 12" by (simp add: paged_env_def)
  moreover have "word_ok ''0x40''" "word_ok ''12''" "console paged_dot_session = []" by (simp_all add: word_ok_def paged_dot_session_def)
  ultimately show ?thesis
    using monitor_set_get [OF paged_session.session_env_axioms paged_dot_session_inv paged_dot_session_mode, of "''0x40''" "0x40" "[]" "''12''" 1] parse_0x40
    by simp
qed

text \<open>
  C22. Starting a recording: with \<^verbatim>\<open>--record=dir\<close>, \<^verbatim>\<open>--record-values=yes\<close> and \<^verbatim>\<open>--record-stop\<close> on the command line, if the
  files can be opened, the start succeeds in recording mode with an empty recording in which every
  thread may record, fresh shadow memory, and stopping indices of which exactly the listed ones are reported.
\<close>

theorem start_recording:
  assumes "\<And>f. can_open env (dir @ f)" "0 \<notin> set is"
  shows "\<exists>s. start env fresh [''--record='' @ dir, ''--record-values=yes'', ''--record-stop='' @ comma_list is] mem = Inr s
    \<and> mode (opts s) = CHR ''b'' \<and> represents (cfg s) tid empty_recording (tape s) \<and> shadow_bar s = new_bar env
    \<and> (\<exists>xs. recording_stop_indices (cfg s) = Some xs \<and> (\<forall>n. stop_messages n xs = replicate (count_list is n) (StopIndexReached n)))"
  using assms by (rule start_recording_run)

theorem start_recording_witness:
  "\<exists>s. start paged_env [] [''--record=d'', ''--record-values=yes'', ''--record-stop='' @ comma_list [4, 9]] no_memory = Inr s
    \<and> mode (opts s) = CHR ''b'' \<and> represents (cfg s) 2 empty_recording (tape s)"
  using start_recording [of paged_env "''d''" "[4, 9]" "[]" no_memory 2] by (auto simp: paged_env_def)

end
