(* ===== verification/Spec2Isabelle.thy ===== *)
theory Spec2Isabelle
  imports DG_Trick_Typing DG_Derivatives Dot_Bitwise Tape_Eval DG_Requests
begin

text \<open>
  A verification development for Derivgrind, a tool for automatic differentiation of compiled programs that is built
  on the instrumentation framework Valgrind.

  \<^bold>\<open>The program.\<close> Valgrind translates the machine code of a client program, one superblock at a time, to the intermediate
  representation VEX IR, and hands each superblock to the tool. Derivgrind adds statements that keep a shadow of every number: in
  forward mode (\<^verbatim>\<open>dot\<close>) its dot value, in recording mode (\<^verbatim>\<open>bar\<close>) an index into a tape, split into two
  layers, and in bit-trick-finding mode (\<^verbatim>\<open>trick\<close>) activity and discreteness flags of its bits. Temporaries and
  registers have shadows in additional temporaries and in an additional part of the guest state; memory has shadows in a shadow
  map, which instrumented code accesses through dirty calls. In recording mode, dirty calls also write the tape, which a separate
  program evaluates. The client program reads and seeds shadows through client requests, a user through monitor commands
  of the debugger. VEX checks instrumented superblocks with \<^verbatim>\<open>sanityCheckIRSB\<close>.

  \<^bold>\<open>Theories and sources.\<close> Paths are relative to the root of the repository.

  \<^item> \<open>DG_Prelude\<close>: errors as a sum type, the state-and-error monad in which the C functions are written, inversion rules
    for it, and lemmas on words.
  \<^item> \<open>VEX_Primop\<close>, \<open>VEX_IR\<close>, \<open>VEX_Sanity\<close>, \<open>VEX_Typing\<close>: \<^verbatim>\<open>VEX/pub/libvex_ir.h\<close> and
    \<^verbatim>\<open>VEX/priv/ir_defs.c\<close>, that is types, the signatures of all primitive operations, expressions, statements, builders and the
    sanity checker; and the checker's conditions in a form that composes.
  \<^item> \<open>DG_Utils\<close>, \<open>DG_Expr\<close>, \<open>DG_Block\<close>: \<^verbatim>\<open>derivgrind/dg_utils.c\<close>,
    \<^verbatim>\<open>derivgrind/dg_expressionhandling.c\<close> and the instrumentation function of \<^verbatim>\<open>derivgrind/dg_main.c\<close>. The table of
    callbacks \<^verbatim>\<open>ExpressionHandling\<close> is a record whose type parameter is the type of shadow values.
  \<^item> \<open>DG_OpRules\<close>, \<open>DG_OpTypes\<close>: the tables of \<^verbatim>\<open>derivgrind/gen_operationhandling_code.py\<close>, which generates the
    switches over operations of the three modes, and the signatures of the operations in them.
  \<^item> \<open>DG_Dot\<close>, \<open>DG_Bar\<close>, \<open>DG_Trick\<close>: callbacks and operation rules of the modes, from
    \<^verbatim>\<open>derivgrind/dot/dg_dot.c\<close>, \<^verbatim>\<open>derivgrind/bar/dg_bar.c\<close>, \<^verbatim>\<open>derivgrind/trick/dg_trick.c\<close> and the generator.
  \<^item> \<open>FP_Bits\<close>, \<open>Dot_Bitwise\<close>, \<open>Bar_Bitwise\<close>, \<open>Trick_Runtime\<close>: the functions that instrumented code calls for
    bitwise logic, minimum and maximum, in each mode, on the bits of IEEE 754 numbers.
  \<^item> \<open>Shadow_Mem\<close>, \<open>Shadow_Helpers\<close>, \<open>X87_Convert\<close>: shadow memory, the dirty helpers for loads and stores, and the
    conversions between 64-bit and 80-bit numbers of \<^verbatim>\<open>VEX/priv/guest_generic_x87.c\<close>.
  \<^item> \<open>Bar_Tape\<close>, \<open>Tape_Eval\<close>: \<^verbatim>\<open>derivgrind/bar/dg_bar_tape.c\<close> and the tape evaluator under
    \<^verbatim>\<open>derivgrind/eval\<close>.
  \<^item> \<open>VG_Strings\<close>, \<open>DG_Options\<close>, \<open>DG_DiffQuot\<close>, \<open>DG_Session\<close>: the string functions of the core that the tool
    uses, the command line, difference quotient debugging, start, client requests, monitor commands and the end of a run
    (\<^verbatim>\<open>derivgrind/dg_main.c\<close>). The record \<open>session\<close> holds the state of all modes.

  \<^bold>\<open>Interfaces.\<close> The contracts between the parts are locales, which are interpreted on the model's definitions:
  \<open>emitting_handling\<close> (which statements the callbacks of a mode may add), \<open>shadow_handling\<close> (they succeed on well-typed
  arguments, yield well-typed shadows and define the right temporaries), \<open>bounded_handling\<close> (how many temporaries they
  allocate) and their union \<open>sane_handling\<close>, for all three modes; \<open>tape_recorder\<close>, the abstract recording that the tape
  implements, and \<open>tape_loader\<close>, what the evaluator requires of a tape; \<open>flexible_shadow\<close>, what the shadow memory
  requires of the external shadow map, with \<open>byte_memory\<close>, the memory that it promises in return; \<open>session_env\<close>, what a run
  requires of its environment.

  \<^bold>\<open>What is shown.\<close>

  \<^item> Instrumentation in each mode succeeds on superblocks that the sanity checker accepts and that satisfy the listed
    side conditions, and the checker accepts the result (\<open>DG_Dot_Typing\<close>, \<open>DG_Bar_Typing\<close>, \<open>DG_Trick_Typing\<close>). The original
    statements are kept in order and the added ones touch only shadow state, except that loads and guarded stores of client memory
    replace a compare-and-swap (transparency).
  \<^item> Forward mode computes derivatives: in exact arithmetic, an instrumented straight-line block leaves the derivative of every
    number in its shadow; the blocks that the calls added by recording mode write to the tape amount to the same dot values
    (\<open>DG_Derivatives\<close>).
  \<^item> The files left by buffered recording are those of an abstract recording; accesses to the buffers are in bounds (the field \<open>overrun\<close> of the
    state would notice one that is not); indices are positions on the tape (\<open>Bar_Tape\<close>). Chunked evaluation visits the blocks in order, the forward pass
    computes tangents (\<open>Tape_Eval\<close>), and reverse and forward evaluation of a recorded tape are adjoint (below).
  \<^item> Shadow memory and its helpers: for every size that an \<^verbatim>\<open>int\<close> holds, what is stored is what is read, and nothing else changes (\<open>Shadow_Mem\<close>,
    \<open>Shadow_Helpers\<close>); converting a number to 80 bits and back is the identity up to NaN payloads (\<open>X87_Convert\<close>).
  \<^item> The handlers of bitwise logic recognise absolute value, its negative and negation, in every mode.
  \<^item> Runs: an invariant of all states that are reachable by requests, stores and recording; requests always return, with an error exactly in the listed cases; seeding and
    reading dot values, disabling, starting a recording, the commands of the debugger (\<open>DG_Session_Props\<close>, \<open>DG_Requests\<close>);
    keyword look-up and the parser for index lists against reference definitions (\<open>VG_Strings\<close>, \<open>DG_Options\<close>).
  \<^item> Deviations from what comments say or the code intends: the overrun of the debugging buffers, null pointers in monitor
    commands, rules that build ill-typed expressions, and others, stated in the properties of the theories above.

  \<^bold>\<open>Bounds and termination.\<close> VEX numbers temporaries with 32 bits; \<open>fits\<close> requires a block to be small enough that
  instrumentation, which allocates at most 1 (forward) or 16 (other modes) temporaries per callback, stays below
  \<^verbatim>\<open>IRTemp_INVALID\<close>. Tape indices are 64-bit words; theorems about recording assume fewer than \<open>2 ^ 64 - 1\<close> operations.
  Machine integers are words wherever they can wrap around: sizes of shadow accesses are words of 32 bits, to which the
  64-bit sizes of requests and helpers are truncated. The loops of the shadow memory are partial functions in the option
  monad, and that they return is proved. Strings of the client are read with fuel \<open>2 ^ 64\<close>, the size of the address space. Other
  recursions terminate by structure or a measure.

  \<^bold>\<open>Not modelled.\<close>

  \<^item> Floating-point rounding: \<open>DG_Derivatives\<close> computes in the reals, other theories with bits. Shadows of SIMD operations
    are covered by the typing theorems, not by the derivative theorem, and so are blocks with loads, stores or side exits.
  \<^item> The class template \<^verbatim>\<open>ShadowMap\<close> is in a submodule and hence a parameter; the locale \<open>flexible_shadow\<close> states what is
    used of it, and a map with pages shows that this can hold. The same holds for files that can be opened, for the contents of
    fresh memory, and for the machine's floating-point arithmetic in a session.
  \<^item> Faults of the client: its memory is a total function from addresses to bytes, so that requests with addresses that are not mapped
    do not trap. The two buffers of a request for flags are taken not to overlap.
  \<^item> Pretty printers and the usage texts; releasing memory; messages that are only printed during instrumentation.
  \<^item> The pass \<^verbatim>\<open>evaluate_for_typegrind\<close> of the tape evaluator, whose accesses are out of range, and the emission of the calls for
    difference quotient debugging, which the build does not generate.
  \<^item> The rest of Valgrind (front ends, optimiser, back ends, core, other tools), the generated wrappers of the math library, the
    bindings for other languages and the tests: code that Derivgrind does not define, or that only calls the parts above.
\<close>

section \<open>Recording and evaluation\<close>

text \<open>
  C5. Recording and evaluation fit together, for recording to files without \<^verbatim>\<open>--typegrind=yes\<close> and without \<^verbatim>\<open>--tape-in-ram=yes\<close>: if
  a thread that may record performs fewer than \<open>2 ^ 64 - 1\<close> operations whose operands are earlier results or inactive, then the closed tape file has
  one block of four words for each index other than zero that was assigned, and one for the dummy; and the evaluator, run
  on that file and on any of the assigned indices as inputs and outputs, succeeds in both directions with results that
  are adjoint to each other, in exact arithmetic (any commutative ring).
\<close>

theorem recorded_tape_evaluates:
  fixes dbl :: "ULong \<Rightarrow> 'a::comm_ring_1"
  assumes "dg_bar_tape_initialize config openable path tape_static = Inr s" "\<not> typegrind config" "\<not> tape_in_ram config"
    "length ops < 2 ^ 64 - 1" "run_ops (record_op config tid) ops s = (is, s')" "operands_from {} ops is"
    "set inputs \<subseteq> set is" "set outputs \<subseteq> set is" "length dots = length inputs" "length bars = length outputs"
  shows "length (fd_tape (dg_bar_tape_finalize config s')) = 4 * (1 + length (filter (\<lambda>i. i \<noteq> 0) is))
    \<and> (\<exists>input_bars output_dots.
      tape_evaluation dbl (fd_tape (dg_bar_tape_finalize config s')) inputs outputs bars = Inr input_bars
    \<and> tape_evaluation_forward dbl (fd_tape (dg_bar_tape_finalize config s')) inputs outputs dots = Inr output_dots
    \<and> (\<Sum>j<length outputs. bars ! j * output_dots ! j) = (\<Sum>j<length inputs. dots ! j * input_bars ! j))"
proof -
  define xs where "xs = snd (run_ops spec_op ops empty_recording)"
  have n: "length empty_recording + length ops \<le> 2 ^ 64 - 1" using assms(4) by (simp add: empty_recording_def)
  from tape.run_contents [OF represents_initial [OF assms(1-3), of tid] this]
  have run: "is = fst (run_ops spec_op ops empty_recording)" "fd_tape (dg_bar_tape_finalize config s') = tape_words xs"
    using assms(5) by (simp_all add: xs_def)
  have "earlier_blocks xs \<and> (\<forall>i\<in>set is. unat i < length xs)"
    using run_spec_earlier [of empty_recording "{}" ops] assms(6) n
    by (simp add: run(1) xs_def empty_recording_def earlier_blocks_def earlier_def valid_index_def)
  moreover have "0 < length xs"
    using run_spec_extends [of ops empty_recording] by (auto simp: xs_def empty_recording_def)
  ultimately have "\<exists>input_bars output_dots. tape_evaluation dbl (tape_words xs) inputs outputs bars = Inr input_bars
    \<and> tape_evaluation_forward dbl (tape_words xs) inputs outputs dots = Inr output_dots
    \<and> (\<Sum>j<length outputs. bars ! j * output_dots ! j) = (\<Sum>j<length inputs. dots ! j * input_bars ! j)"
    using assms(7-10) by (intro evaluation_transposes) (auto simp: recorded_file earlier_blocks_def)
  moreover have "4 * length xs = 4 * (1 + length (filter (\<lambda>i. i \<noteq> 0) is))"
    using run_spec_blocks [of empty_recording ops] n by (simp add: run(1) xs_def empty_recording_def)
  ultimately show ?thesis unfolding run(2) tape_words_length by blast
qed

theorem recorded_tape_evaluates_witness:
  "\<exists>s s' input_bars output_dots.
      run_ops (record_op \<lparr>typegrind = False, bar_record_values = False, tape_in_ram = False,
        recording_stop_indices = None, fresh_memory = []\<rparr> 1) [(True, 0, 0, 0, 0, 7), (False, 1, 1, 3, 4, 9)] s = ([1, 2], s')
    \<and> tape_evaluation uint (fd_tape (dg_bar_tape_finalize \<lparr>typegrind = False, bar_record_values = False, tape_in_ram = False,
        recording_stop_indices = None, fresh_memory = []\<rparr> s')) [1] [2] [5 :: int] = Inr input_bars
    \<and> tape_evaluation_forward uint (fd_tape (dg_bar_tape_finalize \<lparr>typegrind = False, bar_record_values = False, tape_in_ram = False,
        recording_stop_indices = None, fresh_memory = []\<rparr> s')) [1] [2] [6 :: int] = Inr output_dots
    \<and> 5 * output_dots ! 0 = 6 * input_bars ! 0"
proof -
  define config where "config = \<lparr>typegrind = False, bar_record_values = False, tape_in_ram = False,
    recording_stop_indices = None, fresh_memory = []\<rparr>"
  let ?ops = "[(True, 0, 0, 0, 0, 7), (False, 1, 1, 3, 4, 9)] :: tape_op list"
  obtain s where s: "dg_bar_tape_initialize config (\<lambda>_. True) ''dir'' tape_static = Inr s"
    by (simp add: dg_bar_tape_initialize_def)
  have config: "\<not> typegrind config" "\<not> tape_in_ram config" by (simp_all add: config_def)
  have "fst (run_ops spec_op ?ops empty_recording) = [1, 2]"
    by (simp add: spec_op_def spec_new_index_def empty_recording_def)
  then obtain s' where r: "run_ops (record_op config 1) ?ops s = ([1, 2], s')"
    using tape.run_simulates [OF represents_initial [OF s config, of 1], of ?ops] by (auto simp: empty_recording_def)
  obtain input_bars output_dots where
    "tape_evaluation uint (fd_tape (dg_bar_tape_finalize config s')) [1] [2] [5 :: int] = Inr input_bars"
    "tape_evaluation_forward uint (fd_tape (dg_bar_tape_finalize config s')) [1] [2] [6 :: int] = Inr output_dots"
    "5 * output_dots ! 0 = 6 * input_bars ! 0"
    using recorded_tape_evaluates [OF s config _ r, of "[1]" "[2]" "[6]" "[5]" uint] by auto
  then show ?thesis using r by (auto simp: config_def)
qed

end
